(* ===== verification/Prelude.thy ===== *)
theory Prelude
  imports Main
begin

text \<open>
  What every component of the development shares: the error values of the Go code, the
  state-and-error monad its store operations are written in, the weakest-precondition
  rules that compute through that monad, the relational helpers (update and delete on a
  table held as a list of rows) and the integer and string routines of the Go standard
  library that the code calls (\<open>strconv.Itoa\<close>, \<open>strconv.Atoi\<close>, \<open>strings.Split\<close>,
  \<open>strings.TrimSpace\<close>, \<open>strings.IndexByte\<close>).
\<close>

named_theorems wp_simps "weakest preconditions of the monad operations"
named_theorems run_simps "what a computation that returned a value has done"
named_theorems op_defs "definitions of the store operations"
named_theorems eval_simps "what a closed instance needs to be evaluated by the simplifier"

section \<open>Errors\<close>

text \<open>
  Go errors are values. \<open>Errorf f as\<close> is an error made by \<open>fmt.Errorf\<close> with the constant
  format \<open>f\<close> and the arguments \<open>as\<close>; \<open>Wrapf f as e\<close> is one that wraps \<open>e\<close> with the verb
  \<open>%w\<close>. The others are the sentinel variables of the packages.
\<close>

datatype goerr =
    Errorf string "string list"
  | Wrapf string "string list" goerr
  | ErrNoRows
  | ErrPlanNotFound
  | ErrCheckpointNotFound
  | ErrAttentionNotFound
  | ErrSkipEviction
  | ErrLockExists
  | ErrNoActiveSession
  | ErrInvalidSession
  | ErrMissingRunStore
  | ErrUniqueViolation string
  | ErrForeignKey string
  | ErrTriggerAbort string
  | ErrDriver string
  | ErrCtxDone
  | ErrDeadlineExceeded
  | ErrExecNotFound
  | ErrNotExist
  | ErrEOF

text \<open>\<open>errors.Is\<close> walks the chain of wrapped errors.\<close>

fun errors_is :: "goerr \<Rightarrow> goerr \<Rightarrow> bool" where
  "errors_is (Wrapf f as e) t \<longleftrightarrow> Wrapf f as e = t \<or> errors_is e t"
| "errors_is e t \<longleftrightarrow> e = t"

lemma errors_is_refl [simp]: "errors_is e e"
  by (cases e) auto

section \<open>The state-and-error monad\<close>

text \<open>
  A computation takes the world, may fail with an error, and returns the world it leaves
  behind either way: a Go function with an \<open>error\<close> result keeps the effects it had before
  it returned the error.
\<close>

type_synonym ('s, 'a) io = "'s \<Rightarrow> (goerr + 'a) \<times> 's"

definition ret :: "'a \<Rightarrow> ('s, 'a) io" where
  "ret x = (\<lambda>s. (Inr x, s))"

definition raise :: "goerr \<Rightarrow> ('s, 'a) io" where
  "raise e = (\<lambda>s. (Inl e, s))"

definition bindE :: "('s, 'a) io \<Rightarrow> ('a \<Rightarrow> ('s, 'b) io) \<Rightarrow> ('s, 'b) io" where
  "bindE m f = (\<lambda>s. case m s of (Inl e, s') \<Rightarrow> (Inl e, s') | (Inr x, s') \<Rightarrow> f x s')"

text \<open>\<open>attempt m\<close> hands the error to the continuation instead of returning early.\<close>

definition attempt :: "('s, 'a) io \<Rightarrow> ('s, goerr + 'a) io" where
  "attempt m = (\<lambda>s. case m s of (r, s') \<Rightarrow> (Inr r, s'))"

text \<open>\<open>wrapE f as m\<close> is \<open>if err != nil { return fmt.Errorf(f, as, err) }\<close> around \<open>m\<close>.\<close>

definition wrapE :: "string \<Rightarrow> string list \<Rightarrow> ('s, 'a) io \<Rightarrow> ('s, 'a) io" where
  "wrapE f as m = (\<lambda>s. case m s of (Inl e, s') \<Rightarrow> (Inl (Wrapf f as e), s') | (Inr x, s') \<Rightarrow> (Inr x, s'))"

definition gets :: "('s \<Rightarrow> 'a) \<Rightarrow> ('s, 'a) io" where
  "gets f = (\<lambda>s. (Inr (f s), s))"

definition modify :: "('s \<Rightarrow> 's) \<Rightarrow> ('s, unit) io" where
  "modify f = (\<lambda>s. (Inr (), f s))"

definition guardE :: "bool \<Rightarrow> goerr \<Rightarrow> ('s, unit) io" where
  "guardE b e = (if b then ret () else raise e)"

text \<open>A best-effort call: the error is logged or dropped and the flow goes on.\<close>

definition ignoring :: "('s, 'a) io \<Rightarrow> ('s, unit) io" where
  "ignoring m = (\<lambda>s. (Inr (), snd (m s)))"

text \<open>A \<open>for\<close> loop over a slice that stops at the first error.\<close>

fun forE :: "'a list \<Rightarrow> ('a \<Rightarrow> ('s, 'b) io) \<Rightarrow> ('s, 'b list) io" where
  "forE [] f = ret []"
| "forE (x # xs) f = bindE (f x) (\<lambda>y. bindE (forE xs f) (\<lambda>ys. ret (y # ys)))"

lemmas [eval_simps] = ret_def raise_def bindE_def attempt_def wrapE_def gets_def modify_def
  guardE_def ignoring_def Let_def

lemma bindE_ret [simp]: "bindE (ret x) f = f x"
  by (simp add: bindE_def ret_def)

lemma bindE_attempt: "bindE (attempt m) f s = f (fst (m s)) (snd (m s))"
  by (simp add: bindE_def attempt_def split: prod.split)

subsection \<open>Successful runs\<close>

lemma bindE_run [run_simps]:
  "bindE m f s = (Inr y, t) \<longleftrightarrow> (\<exists>x u. m s = (Inr x, u) \<and> f x u = (Inr y, t))"
  by (auto simp: bindE_def split: prod.splits sum.splits)

lemma wrapE_run [run_simps]: "wrapE f as m s = (Inr x, t) \<longleftrightarrow> m s = (Inr x, t)"
  by (auto simp: wrapE_def split: prod.splits sum.splits)

lemma ret_run [run_simps]: "ret x s = (Inr y, t) \<longleftrightarrow> y = x \<and> t = s"
  by (auto simp: ret_def)

lemma raise_run [run_simps]: "raise e s = (Inr y, t) \<longleftrightarrow> False"
  by (simp add: raise_def)

lemma gets_run [run_simps]: "gets f s = (Inr y, t) \<longleftrightarrow> y = f s \<and> t = s"
  by (auto simp: gets_def)

lemma modify_run [run_simps]: "modify f s = (Inr y, t) \<longleftrightarrow> t = f s"
  by (auto simp: modify_def)

lemma guardE_run [run_simps]: "guardE b e s = (Inr y, t) \<longleftrightarrow> b \<and> t = s"
  by (auto simp: guardE_def ret_def raise_def)

lemma ignoring_run [run_simps]: "ignoring m s = (Inr y, t) \<longleftrightarrow> t = snd (m s)"
  by (auto simp: ignoring_def)

lemma attempt_run [run_simps]: "attempt m s = (Inr y, t) \<longleftrightarrow> m s = (y, t)"
  by (auto simp: attempt_def split: prod.splits)

subsection \<open>Weakest preconditions\<close>

text \<open>\<open>wp m Q s\<close>: the result and the world that \<open>m\<close> leaves from \<open>s\<close> satisfy \<open>Q\<close>.\<close>

definition wp :: "('s, 'a) io \<Rightarrow> (goerr + 'a \<Rightarrow> 's \<Rightarrow> bool) \<Rightarrow> 's \<Rightarrow> bool" where
  "wp m Q s \<longleftrightarrow> Q (fst (m s)) (snd (m s))"

lemma wp_ret [wp_simps]: "wp (ret x) Q s = Q (Inr x) s"
  by (simp add: wp_def ret_def)

lemma wp_raise [wp_simps]: "wp (raise e) Q s = Q (Inl e) s"
  by (simp add: wp_def raise_def)

lemma wp_bindE [wp_simps]:
  "wp (bindE m f) Q s =
     wp m (\<lambda>r s'. case r of Inl e \<Rightarrow> Q (Inl e) s' | Inr x \<Rightarrow> wp (f x) Q s') s"
  by (auto simp: wp_def bindE_def split: prod.splits sum.splits)

lemma wp_attempt [wp_simps]: "wp (attempt m) Q s = wp m (\<lambda>r s'. Q (Inr r) s') s"
  by (auto simp: wp_def attempt_def split: prod.splits)

lemma wp_wrapE [wp_simps]:
  "wp (wrapE f as m) Q s =
     wp m (\<lambda>r s'. case r of Inl e \<Rightarrow> Q (Inl (Wrapf f as e)) s' | Inr x \<Rightarrow> Q (Inr x) s') s"
  by (auto simp: wp_def wrapE_def split: prod.splits sum.splits)

lemma wp_gets [wp_simps]: "wp (gets f) Q s = Q (Inr (f s)) s"
  by (simp add: wp_def gets_def)

lemma wp_modify [wp_simps]: "wp (modify f) Q s = Q (Inr ()) (f s)"
  by (simp add: wp_def modify_def)

lemma wp_guardE [wp_simps]: "wp (guardE b e) Q s = (if b then Q (Inr ()) s else Q (Inl e) s)"
  by (simp add: guardE_def wp_ret wp_raise)

lemma wp_ignoring [wp_simps]: "wp (ignoring m) Q s = wp m (\<lambda>_ s'. Q (Inr ()) s') s"
  by (simp add: wp_def ignoring_def)

lemma wp_if [wp_simps]: "wp (if b then m else m') Q s = (if b then wp m Q s else wp m' Q s)"
  by simp

lemma wp_mono: "wp m Q s \<Longrightarrow> (\<And>r s'. Q r s' \<Longrightarrow> Q' r s') \<Longrightarrow> wp m Q' s"
  by (simp add: wp_def)

lemma wp_conj: "wp m (\<lambda>r s'. Q r s' \<and> Q' r s') s = (wp m Q s \<and> wp m Q' s)"
  by (simp add: wp_def)

lemma wp_run: "wp m Q s \<Longrightarrow> m s = (r, s') \<Longrightarrow> Q r s'"
  by (simp add: wp_def)

lemma wp_snd: "wp m (\<lambda>_. P) s = P (snd (m s))"
  by (simp add: wp_def)

subsection \<open>Preservation\<close>

text \<open>\<open>keeps P m\<close>: \<open>m\<close> preserves \<open>P\<close>, whether it fails or not.\<close>

definition keeps :: "('s \<Rightarrow> bool) \<Rightarrow> ('s, 'a) io \<Rightarrow> bool" where
  "keeps P m \<longleftrightarrow> (\<forall>s. P s \<longrightarrow> P (snd (m s)))"

named_theorems keeps_intros "preservation rules"

lemma keepsI: "(\<And>s. P s \<Longrightarrow> wp m (\<lambda>_. P) s) \<Longrightarrow> keeps P m"
  by (simp add: keeps_def wp_def)

lemma keepsD: "keeps P m \<Longrightarrow> P s \<Longrightarrow> P (snd (m s))"
  by (simp add: keeps_def)

lemma keeps_wp: "keeps P m \<Longrightarrow> P s \<Longrightarrow> wp m (\<lambda>_. P) s"
  by (simp add: keeps_def wp_def)

lemma keeps_ret [keeps_intros]: "keeps P (ret x)"
  by (simp add: keeps_def ret_def)

lemma keeps_raise [keeps_intros]: "keeps P (raise e)"
  by (simp add: keeps_def raise_def)

lemma keeps_gets [keeps_intros]: "keeps P (gets f)"
  by (simp add: keeps_def gets_def)

lemma keeps_guardE [keeps_intros]: "keeps P (guardE b e)"
  by (simp add: guardE_def keeps_ret keeps_raise)

lemma keeps_bindE [keeps_intros]: "keeps P m \<Longrightarrow> (\<And>x. keeps P (f x)) \<Longrightarrow> keeps P (bindE m f)"
  by (force simp: keeps_def bindE_def split: prod.splits sum.splits)

lemma keeps_attempt [keeps_intros]: "keeps P m \<Longrightarrow> keeps P (attempt m)"
  by (simp add: keeps_def attempt_def split: prod.splits) force

lemma keeps_wrapE [keeps_intros]: "keeps P m \<Longrightarrow> keeps P (wrapE f as m)"
  by (force simp: keeps_def wrapE_def split: prod.splits sum.splits)

lemma keeps_ignoring [keeps_intros]: "keeps P m \<Longrightarrow> keeps P (ignoring m)"
  by (simp add: keeps_def ignoring_def)

lemma keeps_if [keeps_intros]:
  "(b \<Longrightarrow> keeps P m) \<Longrightarrow> (\<not> b \<Longrightarrow> keeps P m') \<Longrightarrow> keeps P (if b then m else m')"
  by simp

lemma keeps_case_option [keeps_intros]:
  "keeps P m \<Longrightarrow> (\<And>x. keeps P (f x)) \<Longrightarrow> keeps P (case z of None \<Rightarrow> m | Some x \<Rightarrow> f x)"
  by (simp split: option.splits)

lemma keeps_case_sum [keeps_intros]:
  "(\<And>x. keeps P (f x)) \<Longrightarrow> (\<And>x. keeps P (g x)) \<Longrightarrow> keeps P (case z of Inl x \<Rightarrow> f x | Inr x \<Rightarrow> g x)"
  by (simp split: sum.splits)

lemma keeps_forE [keeps_intros]: "(\<And>x. keeps P (f x)) \<Longrightarrow> keeps P (forE xs f)"
  by (induction xs) (auto intro!: keeps_intros)

text \<open>A relation between the worlds before and after, for facts such as "the log only grows".\<close>

lemma keeps_rel:
  assumes "\<And>P. (\<And>s s'. R s s' \<Longrightarrow> P s \<Longrightarrow> P s') \<Longrightarrow> keeps P m" and "\<And>a. R a a"
    and "\<And>a b c. R a b \<Longrightarrow> R b c \<Longrightarrow> R a c"
  shows "R s (snd (m s))"
proof -
  have "keeps (R s) m" by (rule assms(1)) (rule assms(3))
  then show ?thesis using assms(2) keepsD by fast
qed

end
