(* ===== verification/Strings.thy ===== *)
theory Strings
  imports Prelude
begin

text \<open>
  The byte-string routines of the Go standard library that the modelled code calls. A Go
  string is a sequence of bytes, and so is a HOL \<open>string\<close>. Every definition here follows the
  documented behaviour of its namesake in \<open>strings\<close>, \<open>strconv\<close> or \<open>encoding/hex\<close>; where the
  full Unicode behaviour is not needed the comment says what is left out.
\<close>

section \<open>Character classes\<close>

definition ord :: "char \<Rightarrow> nat" where
  "ord c = of_char c"

definition is_lower :: "char \<Rightarrow> bool" where
  "is_lower c \<longleftrightarrow> 97 \<le> ord c \<and> ord c \<le> 122"

definition is_upper :: "char \<Rightarrow> bool" where
  "is_upper c \<longleftrightarrow> 65 \<le> ord c \<and> ord c \<le> 90"

definition is_digit :: "char \<Rightarrow> bool" where
  "is_digit c \<longleftrightarrow> 48 \<le> ord c \<and> ord c \<le> 57"

text \<open>The bytes \<open>strings.TrimSpace\<close> removes: tab, newline, vertical tab, form feed, carriage
  return and blank (the two non-ASCII spaces U+0085 and U+00A0 are left out).\<close>

definition is_space :: "char \<Rightarrow> bool" where
  "is_space c \<longleftrightarrow> ord c \<in> {9, 10, 11, 12, 13, 32}"

lemma ord_less: "ord c < 256"
  by (simp add: ord_def)

lemma ord_char_of: "n < 256 \<Longrightarrow> ord (char_of n) = n"
  by (simp add: ord_def)

lemma ord_inj: "ord c = ord d \<longleftrightarrow> c = d"
  by (simp add: ord_def of_char_eq_iff)

lemma char_of_ord [simp]: "char_of (ord c) = c"
  by (simp add: ord_def)

definition newline :: string where
  "newline = [CHR 0x0A]"

section \<open>Decimal numbers\<close>

definition digit :: "nat \<Rightarrow> char" where
  "digit d = char_of (48 + d)"

lemma ord_digit: "d < 10 \<Longrightarrow> ord (digit d) = 48 + d"
  by (simp add: digit_def ord_char_of)

lemma is_digit_digit: "d < 10 \<Longrightarrow> is_digit (digit d)"
  by (simp add: is_digit_def ord_digit)

fun nat_str :: "nat \<Rightarrow> string" where
  "nat_str n = (if n < 10 then [digit n] else nat_str (n div 10) @ [digit (n mod 10)])"

declare nat_str.simps [simp del]

text \<open>\<open>strconv.Itoa\<close> and the verb \<open>%d\<close>.\<close>

definition itoa :: "int \<Rightarrow> string" where
  "itoa i = (if i < 0 then CHR ''-'' # nat_str (nat (- i)) else nat_str (nat i))"

fun digits_val :: "nat \<Rightarrow> string \<Rightarrow> nat" where
  "digits_val acc [] = acc"
| "digits_val acc (c # cs) = digits_val (10 * acc + (ord c - 48)) cs"

lemma digits_val_append: "digits_val acc (xs @ ys) = digits_val (digits_val acc xs) ys"
  by (induction acc xs rule: digits_val.induct) auto

lemma nat_str_digits: "\<forall>c \<in> set (nat_str n). is_digit c"
proof (induction n rule: nat_str.induct)
  case (1 n)
  then show ?case
    by (cases "n < 10") (auto simp: nat_str.simps [of n] is_digit_digit)
qed

lemma nat_str_not_Nil [simp]: "nat_str n \<noteq> []"
  by (simp add: nat_str.simps)

lemma digits_val_nat_str: "digits_val 0 (nat_str n) = n"
proof (induction n rule: nat_str.induct)
  case (1 n)
  then show ?case
    by (cases "n < 10") (auto simp: nat_str.simps [of n] ord_digit digits_val_append)
qed

lemma nat_str_inj: "nat_str m = nat_str n \<longleftrightarrow> m = n"
  by (metis digits_val_nat_str)

lemma minus_not_digit: "\<not> is_digit (CHR ''-'')"
  by (simp add: is_digit_def ord_def)

lemma itoa_nonneg: "0 \<le> i \<Longrightarrow> itoa i = nat_str (nat i)"
  by (simp add: itoa_def)

lemma itoa_digits: "0 \<le> i \<Longrightarrow> \<forall>c \<in> set (itoa i). is_digit c"
  by (simp add: itoa_nonneg nat_str_digits)

lemma itoa_not_Nil [simp]: "itoa i \<noteq> []"
  by (simp add: itoa_def)

text \<open>\<open>strconv.Atoi\<close>: an optional sign, at least one digit, and the range of a 64-bit \<open>int\<close>.\<close>

definition int_in_range :: "int \<Rightarrow> bool" where
  "int_in_range i \<longleftrightarrow> - (2 ^ 63) \<le> i \<and> i < 2 ^ 63"

definition check_range :: "int \<Rightarrow> int option" where
  "check_range i = (if int_in_range i then Some i else None)"

definition all_digits :: "string \<Rightarrow> bool" where
  "all_digits s \<longleftrightarrow> s \<noteq> [] \<and> list_all is_digit s"

fun atoi :: "string \<Rightarrow> int option" where
  "atoi [] = None"
| "atoi (c # cs) =
     (if c = CHR ''-'' then (if all_digits cs then check_range (- int (digits_val 0 cs)) else None)
      else if c = CHR ''+'' then (if all_digits cs then check_range (int (digits_val 0 cs)) else None)
      else if all_digits (c # cs) then check_range (int (digits_val 0 (c # cs))) else None)"

lemma all_digits_nat_str: "all_digits (nat_str n)"
  by (simp add: all_digits_def nat_str_digits list_all_iff)

lemma atoi_nat_str: "int n < 2 ^ 63 \<Longrightarrow> atoi (nat_str n) = Some (int n)"
proof -
  assume n: "int n < 2 ^ 63"
  obtain c cs where eq: "nat_str n = c # cs" by (cases "nat_str n") auto
  have d: "is_digit c" using nat_str_digits [of n] eq by simp
  then have "c \<noteq> CHR ''-''" and "c \<noteq> CHR ''+''" by (auto simp: is_digit_def ord_def)
  then show ?thesis
    using all_digits_nat_str [of n] digits_val_nat_str [of n] n eq
    by (simp add: check_range_def int_in_range_def)
qed

lemma atoi_itoa: "int_in_range i \<Longrightarrow> atoi (itoa i) = Some i"
proof (cases "i < 0")
  case True
  assume r: "int_in_range i"
  with True show ?thesis
    by (simp add: itoa_def all_digits_nat_str digits_val_nat_str check_range_def)
next
  case False
  assume "int_in_range i"
  with False show ?thesis
    using atoi_nat_str [of "nat i"] by (simp add: itoa_def int_in_range_def)
qed

lemma itoa_inj: "itoa i = itoa j \<longleftrightarrow> i = j"
proof -
  have aux: "CHR ''-'' # nat_str m \<noteq> nat_str n" for m n
    using nat_str_digits [of n] minus_not_digit by (metis list.set_intros(1))
  show ?thesis
    by (auto simp: itoa_def nat_str_inj dest: aux [THEN notE] aux [symmetric, THEN notE]
        split: if_splits)
qed

section \<open>Searching, splitting, trimming\<close>

text \<open>\<open>strings.IndexByte\<close>; \<open>None\<close> stands for -1.\<close>

fun index_byte :: "string \<Rightarrow> char \<Rightarrow> nat option" where
  "index_byte [] c = None"
| "index_byte (x # xs) c = (if x = c then Some 0 else map_option Suc (index_byte xs c))"

lemma index_byte_None: "index_byte s c = None \<longleftrightarrow> c \<notin> set s"
  by (induction s) auto

lemma index_byte_Some:
  "index_byte s c = Some i \<longleftrightarrow> i < length s \<and> s ! i = c \<and> c \<notin> set (take i s)"
proof (induction s arbitrary: i)
  case Nil
  then show ?case by simp
next
  case (Cons x xs)
  then show ?case by (cases i) (auto simp: Cons)
qed

lemma index_byte_split:
  "index_byte s c = Some i \<Longrightarrow> s = take i s @ c # drop (Suc i) s \<and> c \<notin> set (take i s)"
  by (auto simp: index_byte_Some id_take_nth_drop)

lemma index_byte_append: "c \<notin> set xs \<Longrightarrow> index_byte (xs @ c # ys) c = Some (length xs)"
  by (induction xs) auto

text \<open>\<open>strings.Split\<close> with a one-byte separator: never empty.\<close>

fun split_on :: "char \<Rightarrow> string \<Rightarrow> string list" where
  "split_on c [] = [[]]"
| "split_on c (x # xs) =
     (if x = c then [] # split_on c xs
      else (case split_on c xs of [] \<Rightarrow> [[x]] | p # ps \<Rightarrow> (x # p) # ps))"

fun join_with :: "string \<Rightarrow> string list \<Rightarrow> string" where
  "join_with sep [] = []"
| "join_with sep [x] = x"
| "join_with sep (x # y # ys) = x @ sep @ join_with sep (y # ys)"

lemma split_on_not_Nil [simp]: "split_on c s \<noteq> []"
  by (induction s) (auto split: list.splits)

lemma split_on_no_sep: "p \<in> set (split_on c s) \<Longrightarrow> c \<notin> set p"
proof (induction s arbitrary: p)
  case Nil
  then show ?case by simp
next
  case (Cons x xs)
  then show ?case by (fastforce split: list.splits if_splits)
qed

lemma split_on_single: "c \<notin> set t \<Longrightarrow> split_on c t = [t]"
  by (induction t) auto

lemma split_on_concat: "split_on c (x @ c # y) = split_on c x @ split_on c y"
  by (induction x) (auto split: list.split simp: append_eq_Cons_conv)

lemma split_on_append: "c \<notin> set x \<Longrightarrow> split_on c (x @ c # y) = x # split_on c y"
  by (simp add: split_on_concat split_on_single)

lemma join_split: "join_with [c] (split_on c s) = s"
proof (induction s)
  case Nil
  then show ?case by simp
next
  case (Cons x xs)
  obtain p ps where eq: "split_on c xs = p # ps" by (cases "split_on c xs") auto
  then show ?case using Cons by (cases ps) auto
qed

definition trim_left_by :: "(char \<Rightarrow> bool) \<Rightarrow> string \<Rightarrow> string" where
  "trim_left_by P s = dropWhile P s"

definition trim_right_by :: "(char \<Rightarrow> bool) \<Rightarrow> string \<Rightarrow> string" where
  "trim_right_by P s = rev (dropWhile P (rev s))"

definition trim_by :: "(char \<Rightarrow> bool) \<Rightarrow> string \<Rightarrow> string" where
  "trim_by P s = trim_right_by P (trim_left_by P s)"

definition trim_space :: "string \<Rightarrow> string" where
  "trim_space = trim_by is_space"

definition has_prefix :: "string \<Rightarrow> string \<Rightarrow> bool" where
  "has_prefix s p \<longleftrightarrow> take (length p) s = p"

definition has_suffix :: "string \<Rightarrow> string \<Rightarrow> bool" where
  "has_suffix s p \<longleftrightarrow> length p \<le> length s \<and> drop (length s - length p) s = p"

fun has_substring :: "string \<Rightarrow> string \<Rightarrow> bool" where
  "has_substring [] p \<longleftrightarrow> p = []"
| "has_substring (x # xs) p \<longleftrightarrow> has_prefix (x # xs) p \<or> has_substring xs p"

lemma trim_right_by_last: "trim_right_by P s \<noteq> [] \<Longrightarrow> \<not> P (last (trim_right_by P s))"
  by (metis hd_dropWhile last_rev rev_is_Nil_conv trim_right_by_def)

lemma trim_right_by_set: "set (trim_right_by P s) \<subseteq> set s"
  unfolding trim_right_by_def by (auto dest: set_dropWhileD)

lemma trim_left_by_set: "set (trim_left_by P s) \<subseteq> set s"
  unfolding trim_left_by_def by (auto dest: set_dropWhileD)

lemma trim_right_prefix: "\<exists>t. s = trim_right_by P s @ t"
proof -
  have "rev s = takeWhile P (rev s) @ dropWhile P (rev s)" by simp
  then have "s = rev (dropWhile P (rev s)) @ rev (takeWhile P (rev s))"
    by (metis rev_append rev_rev_ident)
  then show ?thesis unfolding trim_right_by_def by blast
qed

lemma trim_right_length: "length (trim_right_by P s) \<le> length s"
  by (metis trim_right_prefix le_add1 length_append)

section \<open>Hexadecimal\<close>

definition hex_digit :: "nat \<Rightarrow> char" where
  "hex_digit d = (if d < 10 then char_of (48 + d) else char_of (87 + d))"

text \<open>\<open>encoding/hex.EncodeToString\<close>: two lower-case digits a byte.\<close>

definition hex_encode :: "char list \<Rightarrow> string" where
  "hex_encode bs = concat (map (\<lambda>b. [hex_digit (ord b div 16), hex_digit (ord b mod 16)]) bs)"

definition is_hex :: "char \<Rightarrow> bool" where
  "is_hex c \<longleftrightarrow> is_digit c \<or> (97 \<le> ord c \<and> ord c \<le> 102)"

lemma ord_hex_digit: "d < 16 \<Longrightarrow> ord (hex_digit d) = (if d < 10 then 48 + d else 87 + d)"
  by (simp add: hex_digit_def ord_char_of)

lemma hex_digit_inj: "d < 16 \<Longrightarrow> e < 16 \<Longrightarrow> hex_digit d = hex_digit e \<longleftrightarrow> d = e"
  by (auto simp: ord_inj [symmetric] ord_hex_digit)

lemma is_hex_hex_digit: "d < 16 \<Longrightarrow> is_hex (hex_digit d)"
  by (auto simp: is_hex_def is_digit_def ord_hex_digit)

lemma length_hex_encode: "length (hex_encode bs) = 2 * length bs"
  by (induction bs) (auto simp: hex_encode_def)

lemma hex_encode_chars: "\<forall>c \<in> set (hex_encode bs). is_hex c"
proof -
  have "ord b div 16 < 16" for b using ord_less [of b] by linarith
  then show ?thesis by (auto simp: hex_encode_def is_hex_hex_digit)
qed

lemma hex_encode_inj: "hex_encode bs = hex_encode cs \<Longrightarrow> bs = cs"
proof (induction bs arbitrary: cs)
  case Nil
  then show ?case by (cases cs) (auto simp: hex_encode_def)
next
  case (Cons b bs)
  then obtain c cs' where cs: "cs = c # cs'" by (cases cs) (auto simp: hex_encode_def)
  have lt: "ord x div 16 < 16" for x using ord_less [of x] by linarith
  from Cons.prems cs have "hex_digit (ord b div 16) = hex_digit (ord c div 16)"
    and "hex_digit (ord b mod 16) = hex_digit (ord c mod 16)"
    and rest: "hex_encode bs = hex_encode cs'" by (auto simp: hex_encode_def)
  then have "ord b div 16 = ord c div 16" and "ord b mod 16 = ord c mod 16"
    using lt by (auto simp: hex_digit_inj)
  then have "ord b = ord c" by (metis div_mult_mod_eq)
  with rest Cons.IH cs show ?case by (simp add: ord_inj)
qed

lemma hex_encode_eq_iff: "hex_encode bs = hex_encode cs \<longleftrightarrow> bs = cs"
  by (auto dest: hex_encode_inj)

section \<open>Formatting\<close>

text \<open>\<open>strconv.Quote\<close> (the verb \<open>%q\<close>) on bytes: control characters, quotes and backslashes are
  escaped; bytes of multi-byte runes are taken as printable.\<close>

definition quote_char :: "char \<Rightarrow> string" where
  "quote_char c =
     (if ord c = 34 \<or> ord c = 92 then [char_of (92::nat), c]
      else if ord c = 7 then char_of (92::nat) # ''a'' else if ord c = 8 then char_of (92::nat) # ''b''
      else if ord c = 12 then char_of (92::nat) # ''f'' else if ord c = 10 then char_of (92::nat) # ''n''
      else if ord c = 13 then char_of (92::nat) # ''r'' else if ord c = 9 then char_of (92::nat) # ''t''
      else if ord c = 11 then char_of (92::nat) # ''v''
      else if ord c < 32 \<or> ord c = 127
        then char_of (92::nat) # ''x'' @ [hex_digit (ord c div 16), hex_digit (ord c mod 16)]
      else [c])"

definition go_quote :: "string \<Rightarrow> string" where
  "go_quote s = char_of (34::nat) # concat (map quote_char s) @ [char_of (34::nat)]"

text \<open>\<open>fmt.Sprintf\<close> for the verbs the code uses (\<open>%s\<close>, \<open>%d\<close>, \<open>%v\<close>, \<open>%w\<close> and \<open>%q\<close>); the arguments
  come as the strings that the plain verbs would print.\<close>

fun sprintf :: "string \<Rightarrow> string list \<Rightarrow> string" where
  "sprintf [] as = []"
| "sprintf [c] as = [c]"
| "sprintf (c # v # cs) as =
     (if c \<noteq> CHR ''%'' then c # sprintf (v # cs) as
      else if v = CHR ''%'' then CHR ''%'' # sprintf cs as
      else (case as of
              [] \<Rightarrow> sprintf cs []
            | a # as' \<Rightarrow> (if v = CHR ''q'' then go_quote a else a) @ sprintf cs as'))"

text \<open>\<open>err.Error()\<close>.\<close>

fun error_string :: "goerr \<Rightarrow> string" where
  "error_string (Errorf f as) = sprintf f as"
| "error_string (Wrapf f as e) = sprintf f (as @ [error_string e])"
| "error_string ErrNoRows = ''sql: no rows in result set''"
| "error_string ErrPlanNotFound = ''plan not found''"
| "error_string ErrCheckpointNotFound = ''checkpoint not found''"
| "error_string ErrAttentionNotFound = ''attention not found''"
| "error_string ErrSkipEviction = ''worker recovered before eviction: skip''"
| "error_string ErrLockExists = ''session lock already exists: another session may be active''"
| "error_string ErrNoActiveSession = ''no active session''"
| "error_string ErrInvalidSession = ''invalid session lock''"
| "error_string ErrMissingRunStore = ''run store is required''"
| "error_string (ErrUniqueViolation c) = ''UNIQUE constraint failed: '' @ c"
| "error_string (ErrForeignKey c) = ''FOREIGN KEY constraint failed: '' @ c"
| "error_string (ErrTriggerAbort m) = m"
| "error_string (ErrDriver m) = m"
| "error_string ErrCtxDone = ''context canceled''"
| "error_string ErrDeadlineExceeded = ''context deadline exceeded''"
| "error_string ErrExecNotFound = ''executable file not found in $PATH''"
| "error_string ErrNotExist = ''file does not exist''"
| "error_string ErrEOF = ''EOF''"

end
