(* ===== verification/Core_Types.thy ===== *)
theory Core_Types
  imports Complex_Main Strings
begin

text \<open>
  The value types of package \<open>core\<close>: identifiers, the event kinds of the log, the life-cycle
  states of runs, jobs, dispatches and workers, and the structs the stores persist. A Go
  \<open>time.Time\<close> is an integer number of nanoseconds since the epoch, an \<open>interface{}\<close> payload is
  a JSON tree, a pointer that may be nil is an \<open>option\<close>.
\<close>

type_synonym time = int
type_synonym ident = string

section \<open>Identifiers\<close>

text \<open>\<open>core.NewID\<close>: 16 bytes of the random source, in hexadecimal. Draw \<open>k\<close> of the source
  \<open>rnd\<close> yields the bytes \<open>rnd k 0, \<dots>, rnd k 15\<close>.\<close>

type_synonym entropy = "nat \<Rightarrow> nat \<Rightarrow> char"

definition NewID :: "entropy \<Rightarrow> nat \<Rightarrow> ident" where
  "NewID rnd k = hex_encode (map (rnd k) [0..<16])"

section \<open>JSON payloads\<close>

datatype json =
    JNull
  | JBool bool
  | JInt int
  | JNum rat
  | JStr string
  | JArr "json list"
  | JObj "(string \<times> json) list"
  | JInvalid string

text \<open>\<open>JInvalid s\<close> is a payload whose bytes \<open>s\<close> are no JSON text.\<close>

fun jfield :: "json \<Rightarrow> string \<Rightarrow> json option" where
  "jfield (JObj kvs) k = map_of kvs k"
| "jfield _ k = None"

text \<open>Reading a field into an \<open>int\<close> or a \<open>string\<close> of a Go struct: a missing or null field
  keeps the zero value, a field of another type is an error (\<open>None\<close>).\<close>

definition junmarshal_int :: "json \<Rightarrow> string \<Rightarrow> int option" where
  "junmarshal_int j k = (case j of JObj _ \<Rightarrow>
      (case jfield j k of None \<Rightarrow> Some 0 | Some JNull \<Rightarrow> Some 0 | Some (JInt i) \<Rightarrow> Some i | Some _ \<Rightarrow> None)
    | JNull \<Rightarrow> Some 0 | _ \<Rightarrow> None)"

definition junmarshal_str :: "json \<Rightarrow> string \<Rightarrow> string option" where
  "junmarshal_str j k = (case j of JObj _ \<Rightarrow>
      (case jfield j k of None \<Rightarrow> Some [] | Some JNull \<Rightarrow> Some [] | Some (JStr s) \<Rightarrow> Some s | Some _ \<Rightarrow> None)
    | JNull \<Rightarrow> Some [] | _ \<Rightarrow> None)"

section \<open>Events\<close>

text \<open>\<open>core.EventKind\<close>. The last three are the kinds the code spells out at the place of use.\<close>

datatype EventKind =
    EventRunCreated | EventRunCompleted
  | EventJobCreated | EventJobLeased | EventJobCompleted | EventJobFailed
  | EventFindingCreated | EventArtifactCreated
  | EventDispatchQueued | EventDispatchLeased | EventDispatchCompleted | EventDispatchExpired
  | EventWorkerRegistered | EventWorkerHeartbeat | EventWorkerDeregistered
  | EventAttentionCreated | EventAttentionResolved
  | EventCostDelta
  | EventJobSkipped
  | EventPhaseStarted | EventPhaseCompleted | EventPhaseFailed | EventPhaseClean
  | EventPlanShipped | EventPlanCreated | EventPlanStateChanged
  | EventCheckpointOpened | EventCheckpointResolved
  | EventSupervisorVerdict | EventSupervisorRetry | EventComplianceBreach
  | EventQualityVerdict | EventQualityGate
  | EventJobStateChanged | EventFindingResolved | EventHumanEdit

fun event_kind_string :: "EventKind \<Rightarrow> string" where
  "event_kind_string EventRunCreated = ''run.created''"
| "event_kind_string EventRunCompleted = ''run.completed''"
| "event_kind_string EventJobCreated = ''job.created''"
| "event_kind_string EventJobLeased = ''job.leased''"
| "event_kind_string EventJobCompleted = ''job.completed''"
| "event_kind_string EventJobFailed = ''job.failed''"
| "event_kind_string EventFindingCreated = ''finding.created''"
| "event_kind_string EventArtifactCreated = ''artifact.created''"
| "event_kind_string EventDispatchQueued = ''dispatch.queued''"
| "event_kind_string EventDispatchLeased = ''dispatch.leased''"
| "event_kind_string EventDispatchCompleted = ''dispatch.completed''"
| "event_kind_string EventDispatchExpired = ''dispatch.expired''"
| "event_kind_string EventWorkerRegistered = ''worker.registered''"
| "event_kind_string EventWorkerHeartbeat = ''worker.heartbeat''"
| "event_kind_string EventWorkerDeregistered = ''worker.deregistered''"
| "event_kind_string EventAttentionCreated = ''attention.created''"
| "event_kind_string EventAttentionResolved = ''attention.resolved''"
| "event_kind_string EventCostDelta = ''cost.delta''"
| "event_kind_string EventJobSkipped = ''job.skipped''"
| "event_kind_string EventPhaseStarted = ''phase.started''"
| "event_kind_string EventPhaseCompleted = ''phase.completed''"
| "event_kind_string EventPhaseFailed = ''phase.failed''"
| "event_kind_string EventPhaseClean = ''phase.clean''"
| "event_kind_string EventPlanShipped = ''plan.shipped''"
| "event_kind_string EventPlanCreated = ''plan.created''"
| "event_kind_string EventPlanStateChanged = ''plan.state_changed''"
| "event_kind_string EventCheckpointOpened = ''checkpoint.opened''"
| "event_kind_string EventCheckpointResolved = ''checkpoint.resolved''"
| "event_kind_string EventSupervisorVerdict = ''supervisor.verdict''"
| "event_kind_string EventSupervisorRetry = ''supervisor.retry''"
| "event_kind_string EventComplianceBreach = ''compliance-breach''"
| "event_kind_string EventQualityVerdict = ''quality.verdict''"
| "event_kind_string EventQualityGate = ''quality-gate''"
| "event_kind_string EventJobStateChanged = ''job.state_changed''"
| "event_kind_string EventFindingResolved = ''finding.resolved''"
| "event_kind_string EventHumanEdit = ''human-edit''"

record event =
  ev_id :: ident
  ev_run_id :: ident
  ev_sequence :: nat
  ev_kind :: EventKind
  ev_schema_version :: int
  ev_idempotency_key :: string
  ev_causation_id :: ident
  ev_correlation_id :: ident
  ev_payload :: json
  ev_created_at :: time

section \<open>Life-cycle states\<close>

datatype RunState = RunStateActive | RunStateCompleted | RunStateFailed | RunStateAborted

datatype JobState =
    JobStatePending | JobStateDispatched | JobStateRunning
  | JobStateComplete | JobStateFailed | JobStateCancelled

datatype DispatchState = DispatchStatePending | DispatchStateLeased | DispatchStateCompleted

datatype WorkerState = WorkerStateLive | WorkerStateStale | WorkerStateEvicted

fun run_state_string :: "RunState \<Rightarrow> string" where
  "run_state_string RunStateActive = ''active''"
| "run_state_string RunStateCompleted = ''completed''"
| "run_state_string RunStateFailed = ''failed''"
| "run_state_string RunStateAborted = ''aborted''"

fun job_state_string :: "JobState \<Rightarrow> string" where
  "job_state_string JobStatePending = ''pending''"
| "job_state_string JobStateDispatched = ''dispatched''"
| "job_state_string JobStateRunning = ''running''"
| "job_state_string JobStateComplete = ''complete''"
| "job_state_string JobStateFailed = ''failed''"
| "job_state_string JobStateCancelled = ''cancelled''"

datatype DispatchMode = DispatchModePersistent | DispatchModeEphemeral | DispatchModeInProcess

datatype AttentionKind =
    AttentionPermission | AttentionSubprocess | AttentionQuestion | AttentionCheckpoint

definition AttentionAnswerApprove :: string where
  "AttentionAnswerApprove = ''approve''"

definition AttentionAnswerReject :: string where
  "AttentionAnswerReject = ''reject''"

datatype CheckpointKind =
    CheckpointKindSpecApproved | CheckpointKindPlanApproved | CheckpointKindPhaseClean
  | CheckpointKindReadyToShip | CheckpointKindComplianceBreach | CheckpointKindQualityGate

fun checkpoint_kind_string :: "CheckpointKind \<Rightarrow> string" where
  "checkpoint_kind_string CheckpointKindSpecApproved = ''spec-approved''"
| "checkpoint_kind_string CheckpointKindPlanApproved = ''plan-approved''"
| "checkpoint_kind_string CheckpointKindPhaseClean = ''phase-clean''"
| "checkpoint_kind_string CheckpointKindReadyToShip = ''ready-to-ship''"
| "checkpoint_kind_string CheckpointKindComplianceBreach = ''compliance-breach''"
| "checkpoint_kind_string CheckpointKindQualityGate = ''quality-gate''"

section \<open>The structs of package core\<close>

record run =
  run_id :: ident
  run_mode :: string
  run_state :: RunState
  run_started_at :: time
  run_ended_at :: "time option"
  run_prd_path :: string
  run_spec_path :: string
  run_cost_usd :: rat
  run_budget_usd :: "rat option"

record job =
  job_id :: ident
  job_run_id :: ident
  job_role :: string
  job_state :: JobState
  job_dispatched_by :: string
  job_cli :: string
  job_started_at :: time
  job_ended_at :: "time option"
  job_plan_id :: string
  job_phase_index :: int
  job_cost_usd :: rat

record finding =
  f_id :: ident
  f_run_id :: ident
  f_job_id :: ident
  f_path :: string
  f_line :: int
  f_severity :: string
  f_body :: string
  f_fingerprint :: string
  f_resolved_by_job_id :: ident
  f_resolved_at :: "time option"
  f_plan_id :: string
  f_phase_index :: "int option"
  f_reviewer_handle :: string
  f_source_job_ids :: "ident list"

record artifact =
  art_id :: ident
  art_job_id :: ident
  art_kind :: string
  art_path :: string

record cost_sample =
  cs_provider :: string
  cs_model :: string
  cs_tokens_in :: int
  cs_tokens_out :: int
  cs_usd :: rat

record job_result =
  jr_findings :: "finding list"
  jr_artifacts :: "artifact list"
  jr_exit_code :: int
  jr_stdout :: string
  jr_stderr :: string
  jr_cost :: "cost_sample option"

record dispatch =
  d_id :: ident
  d_run_id :: ident
  d_role :: string
  d_job_id :: ident
  d_prompt :: string
  d_inputs :: json
  d_state :: DispatchState
  d_worker_handle :: ident
  d_leased_at :: "time option"
  d_completed_at :: "time option"
  d_created_at :: "time option"
  d_mode :: "DispatchMode option"

record worker =
  w_handle :: ident
  w_role :: string
  w_pid :: int
  w_session_id :: string
  w_cli :: string
  w_registered_at :: "time option"
  w_last_heartbeat :: "time option"
  w_state :: WorkerState

record attention_item =
  att_id :: ident
  att_run_id :: ident
  att_kind :: AttentionKind
  att_source :: string
  att_job_id :: ident
  att_question :: string
  att_options :: "string list"
  att_presented_on :: "string list"
  att_answered_on :: "string list"
  att_answered_by :: string
  att_answer :: string
  att_created_at :: "time option"
  att_resolved_at :: "time option"

text \<open>\<open>AttentionItem.IsAnswered\<close>.\<close>

definition IsAnswered :: "attention_item \<Rightarrow> bool" where
  "IsAnswered a \<longleftrightarrow> att_answer a \<noteq> [] \<and> att_answered_by a \<noteq> []"

record plan_record =
  pr_id :: ident
  pr_run_id :: ident
  pr_number :: int
  pr_title :: string
  pr_blocks_on :: "int list"
  pr_branch :: string
  pr_pr_url :: string
  pr_state :: string

record checkpoint_record =
  cr_id :: ident
  cr_run_id :: ident
  cr_plan_id :: ident
  cr_kind :: string
  cr_notes :: string

section \<open>Roles\<close>

record role_permissions =
  rp_allowed_tools :: "string list"
  rp_never :: "string list"
  rp_requires_human :: "string list"

record role_applies_when =
  aw_changes_touch :: "string list"
  aw_commit_msg_contains :: string
  aw_phase_index_in :: string

record role =
  role_name :: string
  role_concurrency :: string
  role_cli :: string
  role_prompt_template :: string
  role_inputs_required :: "string list"
  role_inputs_optional :: "string list"
  role_sandbox :: string
  role_permissions :: role_permissions
  role_max_wallclock_minutes :: int
  role_applies_when :: "role_applies_when option"

section \<open>Supervisor verdicts\<close>

record rule_result =
  rr_rule_name :: string
  rr_passed :: bool
  rr_skipped :: bool
  rr_message :: string

record supervisor_verdict =
  sv_pass :: bool
  sv_results :: "rule_result list"

text \<open>\<open>SupervisorVerdict.FailedMessages\<close> and \<open>SkippedRuleNames\<close>.\<close>

fun collect_failed :: "rule_result list \<Rightarrow> string list" where
  "collect_failed [] = []"
| "collect_failed (r # rs) =
     (if \<not> rr_passed r \<and> \<not> rr_skipped r then rr_message r # collect_failed rs else collect_failed rs)"

definition FailedMessages :: "supervisor_verdict \<Rightarrow> string list" where
  "FailedMessages v = collect_failed (sv_results v)"

fun collect_skipped :: "rule_result list \<Rightarrow> string list" where
  "collect_skipped [] = []"
| "collect_skipped (r # rs) =
     (if rr_skipped r then rr_rule_name r # collect_skipped rs else collect_skipped rs)"

definition SkippedRuleNames :: "supervisor_verdict \<Rightarrow> string list" where
  "SkippedRuleNames v = collect_skipped (sv_results v)"

section \<open>Policy\<close>

text \<open>The maps of a policy are association lists, so that they can be printed.\<close>

datatype CheckpointAction =
    CheckpointActionBlock | CheckpointActionOnFailure | CheckpointActionAuto | CheckpointActionNever
  | CheckpointActionOther string

record policy =
  pol_checkpoints :: "(string \<times> CheckpointAction) list"
  pol_max_retries_per_job :: int
  pol_max_fix_cycles_per_phase :: int
  pol_max_parallel_plans :: int
  pol_max_parallel_reviewers :: int
  pol_on_undeclared :: string
  pol_workflow_overrides :: "(string \<times> (string \<times> string list) list) list"
  pol_source :: "(string \<times> string) list"

section \<open>Fingerprints\<close>

text \<open>
  \<open>core.ComputeFingerprint\<close> hashes \<open>path:line:severity:body\<close> with SHA-256 and keeps the first 32
  hexadecimal digits. The digest is a parameter \<open>sha\<close> of the model (a function from the hashed
  bytes to 32 bytes in the code), the rest is the code's.
\<close>

type_synonym digest = "string \<Rightarrow> char list"

definition fingerprint_input :: "string \<Rightarrow> int \<Rightarrow> string \<Rightarrow> string \<Rightarrow> string" where
  "fingerprint_input path line severity body =
     path @ '':'' @ itoa line @ '':'' @ severity @ '':'' @ body"

definition ComputeFingerprint :: "digest \<Rightarrow> string \<Rightarrow> int \<Rightarrow> string \<Rightarrow> string \<Rightarrow> string" where
  "ComputeFingerprint sha path line severity body =
     take 32 (hex_encode (sha (fingerprint_input path line severity body)))"

lemma ComputeFingerprint_not_Nil:
  "sha (fingerprint_input p l sv b) \<noteq> [] \<Longrightarrow> ComputeFingerprint sha p l sv b \<noteq> []"
  by (cases "sha (fingerprint_input p l sv b)")
    (auto simp: ComputeFingerprint_def hex_encode_def)

section \<open>Facts about the core types\<close>

lemma NewID_length: "length (NewID rnd k) = 32"
  by (simp add: NewID_def length_hex_encode)

lemma NewID_not_Nil [simp]: "NewID rnd k \<noteq> []"
  using NewID_length [of rnd k] by auto

text \<open>Two identifiers are equal only if the random source repeated all sixteen bytes.\<close>

lemma NewID_eq_iff: "NewID rnd j = NewID rnd k \<longleftrightarrow> (\<forall>i < 16. rnd j i = rnd k i)"
proof -
  have "NewID rnd j = NewID rnd k \<longleftrightarrow> map (rnd j) [0..<16] = map (rnd k) [0..<16]"
    by (simp only: NewID_def hex_encode_eq_iff)
  also have "\<dots> \<longleftrightarrow> (\<forall>i < 16. rnd j i = rnd k i)" by (auto simp: Ball_def)
  finally show ?thesis .
qed

lemma event_kind_string_inj: "event_kind_string k = event_kind_string k' \<Longrightarrow> k = k'"
  by (cases k) (cases k'; simp)+

lemma FailedMessages_conv:
  "FailedMessages v = map rr_message (filter (\<lambda>r. \<not> rr_passed r \<and> \<not> rr_skipped r) (sv_results v))"
proof -
  have "collect_failed rs = map rr_message (filter (\<lambda>r. \<not> rr_passed r \<and> \<not> rr_skipped r) rs)" for rs
    by (induction rs) auto
  then show ?thesis by (simp add: FailedMessages_def)
qed

lemma SkippedRuleNames_conv:
  "SkippedRuleNames v = map rr_rule_name (filter rr_skipped (sv_results v))"
proof -
  have "collect_skipped rs = map rr_rule_name (filter rr_skipped rs)" for rs
    by (induction rs) auto
  then show ?thesis by (simp add: SkippedRuleNames_def)
qed

end
