(* ===== verification/Permission.thy ===== *)
theory Permission
  imports Core_Types
begin

text \<open>
  \<open>core/permission.go\<close>: parsing the permission strings of a role YAML, matching a requested
  action against them, and the four-way decision of \<open>EvaluateAction\<close>. The lemmas give the
  grammar the parser accepts, the exact meaning of each decision and the monotonicity of the
  deny list.
\<close>

section \<open>The code\<close>

datatype PermissionDecision =
    PermDecisionAllow | PermDecisionHardDeny | PermDecisionRequiresHuman | PermDecisionUndeclared

definition validPermissionKinds :: "string list" where
  "validPermissionKinds =
     [''read'', ''write'', ''edit'', ''network'', ''bash'', ''mcp'', ''grep'', ''glob'']"

definition kindsWithSubject :: "string list" where
  "kindsWithSubject = [''bash'', ''mcp'']"

record permission =
  perm_kind :: string
  perm_subject :: string
  perm_raw :: string

definition ParsePermission :: "string \<Rightarrow> goerr + permission" where
  "ParsePermission s =
     (if s = [] then Inl (Errorf ''empty permission string'' [])
      else
        let (kindStr, subject) =
          (case index_byte s (CHR '':'') of
             None \<Rightarrow> (s, [])
           | Some idx \<Rightarrow> (take idx s, drop (Suc idx) s))
        in if kindStr \<notin> set validPermissionKinds
           then Inl (Errorf ''unknown permission kind %q in %q'' [kindStr, s])
           else
             let needsSubject = kindStr \<in> set kindsWithSubject
             in if needsSubject \<and> subject = []
                then Inl (Errorf ''permission %q requires a subject (e.g. %s:git)'' [kindStr, kindStr])
                else if \<not> needsSubject \<and> subject \<noteq> []
                then Inl (Errorf ''permission kind %q does not accept a subject (got %q)'' [kindStr, s])
                else if CHR '':'' \<in> set subject
                then Inl (Errorf ''permission subject must not contain additional colons: %q'' [s])
                else Inr \<lparr>perm_kind = kindStr, perm_subject = subject, perm_raw = s\<rparr>)"

text \<open>\<open>ParsePermissions\<close> collects every error before it fails.\<close>

fun parse_all :: "string list \<Rightarrow> permission list \<times> goerr list" where
  "parse_all [] = ([], [])"
| "parse_all (s # ss) =
     (let (out, errs) = parse_all ss
      in case ParsePermission s of Inl e \<Rightarrow> (out, e # errs) | Inr p \<Rightarrow> (p # out, errs))"

definition ParsePermissions :: "string list \<Rightarrow> goerr + permission list" where
  "ParsePermissions ss =
     (let (out, errs) = parse_all ss
      in if errs \<noteq> []
         then Inl (Errorf ''permission parse errors: %s'' [join_with ''; '' (map error_string errs)])
         else Inr out)"

text \<open>
  \<open>strings.EqualFold\<close>. Two byte strings are equal under case folding when their foldings agree:
  ASCII capitals fold to small letters, and so do the two other code points whose case orbit
  meets ASCII, the long s (U+017F) and the Kelvin sign (U+212A). Other non-ASCII letters are
  compared byte by byte.
\<close>

definition lower_ascii :: "char \<Rightarrow> char" where
  "lower_ascii c = (if is_upper c then char_of (ord c + 32) else c)"

fun simple_fold :: "string \<Rightarrow> string" where
  "simple_fold (a # b # c # cs) =
     (if ord a = 226 \<and> ord b = 132 \<and> ord c = 170 then CHR ''k'' # simple_fold cs
      else if ord a = 197 \<and> ord b = 191 then CHR ''s'' # simple_fold (c # cs)
      else lower_ascii a # simple_fold (b # c # cs))"
| "simple_fold [a, b] =
     (if ord a = 197 \<and> ord b = 191 then ''s'' else [lower_ascii a, lower_ascii b])"
| "simple_fold [a] = [lower_ascii a]"
| "simple_fold [] = []"

definition EqualFold :: "string \<Rightarrow> string \<Rightarrow> bool" where
  "EqualFold s t \<longleftrightarrow> simple_fold s = simple_fold t"

definition MatchPermission :: "permission \<Rightarrow> permission \<Rightarrow> bool" where
  "MatchPermission perm action \<longleftrightarrow>
     (if perm_kind perm \<noteq> perm_kind action then False
      else if perm_subject perm = ''*'' then True
      else EqualFold (perm_subject perm) (perm_subject action))"

fun matchesAny :: "permission \<Rightarrow> string list \<Rightarrow> bool" where
  "matchesAny action [] = False"
| "matchesAny action (s # entries) =
     (case ParsePermission s of
        Inl _ \<Rightarrow> matchesAny action entries
      | Inr p \<Rightarrow> if MatchPermission p action then True else matchesAny action entries)"

definition EvaluateAction :: "role_permissions \<Rightarrow> permission \<Rightarrow> PermissionDecision" where
  "EvaluateAction perms action =
     (if matchesAny action (rp_never perms) then PermDecisionHardDeny
      else if matchesAny action (rp_requires_human perms) then PermDecisionRequiresHuman
      else if matchesAny action (rp_allowed_tools perms) then PermDecisionAllow
      else PermDecisionUndeclared)"

section \<open>The grammar of permission strings\<close>

definition permission_grammar :: "string \<Rightarrow> string \<Rightarrow> string \<Rightarrow> bool" where
  "permission_grammar s kind subject \<longleftrightarrow>
     kind \<in> set validPermissionKinds \<and>
     (s = kind \<and> subject = [] \<or> s = kind @ CHR '':'' # subject) \<and>
     CHR '':'' \<notin> set subject \<and>
     (kind \<in> set kindsWithSubject \<longleftrightarrow> subject \<noteq> [])"

lemma valid_kind_no_colon: "k \<in> set validPermissionKinds \<Longrightarrow> CHR '':'' \<notin> set k \<and> k \<noteq> []"
  by (auto simp: validPermissionKinds_def)

lemma kindsWithSubject_valid: "k \<in> set kindsWithSubject \<Longrightarrow> k \<in> set validPermissionKinds"
  by (auto simp: kindsWithSubject_def validPermissionKinds_def)

lemma parse_permission_sound:
  assumes "ParsePermission s = Inr p"
  shows "permission_grammar s (perm_kind p) (perm_subject p) \<and> perm_raw p = s"
proof (cases "index_byte s (CHR '':'')")
  case None
  with assms show ?thesis
    by (auto simp: ParsePermission_def permission_grammar_def Let_def split: if_splits)
next
  case (Some i)
  with index_byte_split [OF Some] assms show ?thesis
    by (auto simp: ParsePermission_def permission_grammar_def Let_def split: if_splits)
qed

lemma parse_permission_complete:
  assumes g: "permission_grammar s k sub"
  shows "ParsePermission s = Inr \<lparr>perm_kind = k, perm_subject = sub, perm_raw = s\<rparr>"
proof -
  from g have k: "CHR '':'' \<notin> set k" "k \<noteq> []" "k \<in> set validPermissionKinds"
    using valid_kind_no_colon by (auto simp: permission_grammar_def)
  show ?thesis
  proof (cases "s = k @ CHR '':'' # sub")
    case True
    then have "index_byte s (CHR '':'') = Some (length k)"
      using k(1) by (simp add: index_byte_append)
    with True g k show ?thesis
      by (auto simp: ParsePermission_def permission_grammar_def)
  next
    case False
    with g have "s = k" "sub = []" by (auto simp: permission_grammar_def)
    moreover from this k have "index_byte s (CHR '':'') = None"
      by (simp add: index_byte_None)
    ultimately show ?thesis using g k
      by (auto simp: ParsePermission_def permission_grammar_def)
  qed
qed

text \<open>
  C25. \<open>ParsePermission\<close> accepts exactly the strings \<open>kind\<close> or \<open>kind:subject\<close> whose kind is one of
  the eight declared ones, whose subject holds no further colon, and whose subject is present
  exactly for the kinds \<open>bash\<close> and \<open>mcp\<close>; it returns that kind, that subject and the original
  string. A simple kind may carry a trailing colon.
\<close>

theorem parse_permission_iff:
  "ParsePermission s = Inr p \<longleftrightarrow>
     permission_grammar s (perm_kind p) (perm_subject p) \<and> perm_raw p = s"
  using parse_permission_sound parse_permission_complete by (cases p) force

section \<open>Decisions\<close>

definition action_in :: "permission \<Rightarrow> string list \<Rightarrow> bool" where
  "action_in action entries \<longleftrightarrow>
     (\<exists>s \<in> set entries. \<exists>p. ParsePermission s = Inr p \<and> MatchPermission p action)"

lemma matchesAny_iff: "matchesAny action entries \<longleftrightarrow> action_in action entries"
  by (induction entries) (auto simp: action_in_def split: sum.splits)

lemma matchesAny_append:
  "matchesAny action (xs @ ys) \<longleftrightarrow> matchesAny action xs \<or> matchesAny action ys"
  by (auto simp: matchesAny_iff action_in_def)

lemma matchesAny_mono:
  "set xs \<subseteq> set ys \<Longrightarrow> matchesAny action xs \<Longrightarrow> matchesAny action ys"
  by (auto simp: matchesAny_iff action_in_def)

text \<open>
  The decision on an action is the first list, in the order never, requires_human,
  allowed_tools, that holds a well-formed entry matching it: an action is allowed exactly when
  some allowed entry matches and no entry of the other two lists does, and it is undeclared
  exactly when no entry of any list matches.
\<close>

lemma evaluate_action_priority:
  "(EvaluateAction perms a = PermDecisionHardDeny \<longleftrightarrow> action_in a (rp_never perms)) \<and>
   (EvaluateAction perms a = PermDecisionRequiresHuman \<longleftrightarrow>
      \<not> action_in a (rp_never perms) \<and> action_in a (rp_requires_human perms)) \<and>
   (EvaluateAction perms a = PermDecisionAllow \<longleftrightarrow>
      \<not> action_in a (rp_never perms @ rp_requires_human perms) \<and>
      action_in a (rp_allowed_tools perms)) \<and>
   (EvaluateAction perms a = PermDecisionUndeclared \<longleftrightarrow>
      \<not> action_in a (rp_never perms @ rp_requires_human perms @ rp_allowed_tools perms))"
  unfolding EvaluateAction_def matchesAny_iff [symmetric] matchesAny_append by auto

text \<open>A never entry with the wildcard subject denies every action of its kind.\<close>

lemma never_wildcard_denies:
  assumes "(k @ '':*'') \<in> set (rp_never perms)" and "k \<in> set kindsWithSubject"
    and "perm_kind a = k"
  shows "EvaluateAction perms a = PermDecisionHardDeny"
proof -
  have "permission_grammar (k @ '':*'') k ''*''"
    using assms(2) kindsWithSubject_valid by (auto simp: permission_grammar_def)
  note parsed = parse_permission_complete [OF this]
  have "action_in a (rp_never perms)" unfolding action_in_def
    by (rule bexI [OF _ assms(1)], rule exI, rule conjI, rule parsed)
      (simp add: MatchPermission_def assms(3))
  then show ?thesis by (simp add: EvaluateAction_def matchesAny_iff)
qed

end
