(* ===== verification/Manifest.thy ===== *)
theory Manifest
  imports Core_Types "HOL-Library.AList" "HOL-Library.Multiset"
begin

text \<open>
  \<open>coding/manifest/schema.go\<close>: the plan manifest of a run, the names derived from it (slug,
  branch, worktree directory) and its validation, which ends in Kahn's topological sort. The
  lemmas give the exact meaning of a successful validation, whatever order Go iterates its
  maps in, and the character set, length and uniqueness of the derived names.
\<close>

section \<open>The manifest\<close>

record plan_entry =
  pe_id :: int
  pe_title :: string
  pe_phases :: "string list"
  pe_blocks_on :: "int list"

record plan_manifest =
  pm_spec_path :: string
  pm_plans :: "plan_entry list"

section \<open>Names\<close>

text \<open>
  \<open>strings.ToLower\<close> as far as ASCII results go: capitals, and the two non-ASCII code points
  whose lower case is an ASCII letter, U+0130 (dotted capital I) and U+212A (Kelvin sign).
  Every other multi-byte rune keeps bytes above 127, which the slug drops.
\<close>

fun ToLower :: "string \<Rightarrow> string" where
  "ToLower (a # b # c # cs) =
     (if ord a = 226 \<and> ord b = 132 \<and> ord c = 170 then CHR ''k'' # ToLower cs
      else if ord a = 196 \<and> ord b = 176 then CHR ''i'' # ToLower (c # cs)
      else (if is_upper a then char_of (ord a + 32) else a) # ToLower (b # c # cs))"
| "ToLower [a, b] =
     (if ord a = 196 \<and> ord b = 176 then ''i''
      else [if is_upper a then char_of (ord a + 32) else a,
            if is_upper b then char_of (ord b + 32) else b])"
| "ToLower [a] = [if is_upper a then char_of (ord a + 32) else a]"
| "ToLower [] = []"

definition slug_char :: "char \<Rightarrow> bool" where
  "slug_char c \<longleftrightarrow> is_lower c \<or> is_digit c \<or> c = CHR ''-''"

text \<open>\<open>slugReplace.ReplaceAllString(s, "")\<close> and \<open>slugCollapse.ReplaceAllString(s, "-")\<close>.\<close>

definition slugReplace :: "string \<Rightarrow> string" where
  "slugReplace s = filter slug_char s"

function slugCollapse :: "string \<Rightarrow> string" where
  "slugCollapse [] = []"
| "slugCollapse (c # cs) =
     (if c = CHR ''-'' then CHR ''-'' # slugCollapse (dropWhile (\<lambda>d. d = CHR ''-'') cs)
      else c # slugCollapse cs)"
  by pat_completeness auto
termination
  by (relation "measure length") (auto simp: le_imp_less_Suc length_dropWhile_le)

definition maxSlugLen :: nat where
  "maxSlugLen = 40"

definition PlanSlug :: "string \<Rightarrow> string" where
  "PlanSlug title =
     (let s = ToLower title;
          s = map (\<lambda>c. if c = CHR '' '' then CHR ''-'' else c) s;
          s = slugReplace s;
          s = slugCollapse s;
          s = trim_by (\<lambda>c. c = CHR ''-'') s
      in if length s > maxSlugLen
         then trim_right_by (\<lambda>c. c = CHR ''-'') (take maxSlugLen s)
         else s)"

definition BranchName :: "int \<Rightarrow> string \<Rightarrow> string" where
  "BranchName i title = ''feature/plan-'' @ itoa i @ ''-'' @ PlanSlug title"

definition WorktreeDirName :: "int \<Rightarrow> string \<Rightarrow> string" where
  "WorktreeDirName i title = ''plan-'' @ itoa i @ ''-'' @ PlanSlug title"

section \<open>Validation\<close>

text \<open>The first loop of \<open>Validate\<close>: identifiers, titles, duplicates. It returns \<open>seen\<close>.\<close>

fun check_entries :: "nat \<Rightarrow> int list \<Rightarrow> plan_entry list \<Rightarrow> goerr + int list" where
  "check_entries i seen [] = Inr seen"
| "check_entries i seen (p # ps) =
     (if pe_id p \<le> 0
      then Inl (Errorf ''manifest: plans[%d].id must be > 0, got %d'' [itoa (int i), itoa (pe_id p)])
      else if pe_title p = []
      then Inl (Errorf ''manifest: plans[%d] (id=%d) must have a non-empty title''
                  [itoa (int i), itoa (pe_id p)])
      else if pe_id p \<in> set seen
      then Inl (Errorf ''manifest: duplicate plan id %d'' [itoa (pe_id p)])
      else check_entries (Suc i) (pe_id p # seen) ps)"

text \<open>The second loop: every \<open>blocks_on\<close> reference is known.\<close>

fun check_deps :: "nat \<Rightarrow> int \<Rightarrow> int list \<Rightarrow> int list \<Rightarrow> goerr option" where
  "check_deps i pid seen [] = None"
| "check_deps i pid seen (dep # deps) =
     (if dep \<notin> set seen
      then Some (Errorf ''manifest: plans[%d] (id=%d) blocks_on unknown plan id %d''
                   [itoa (int i), itoa pid, itoa dep])
      else check_deps i pid seen deps)"

fun check_refs :: "nat \<Rightarrow> int list \<Rightarrow> plan_entry list \<Rightarrow> goerr option" where
  "check_refs i seen [] = None"
| "check_refs i seen (p # ps) =
     (case check_deps i (pe_id p) seen (pe_blocks_on p) of
        Some e \<Rightarrow> Some e
      | None \<Rightarrow> check_refs (Suc i) seen ps)"

text \<open>
  Kahn's algorithm. The in-degrees and the dependents are Go maps, held as association lists;
  reading an absent key gives the zero value.
\<close>

definition get_or :: "'b \<Rightarrow> ('a \<times> 'b) list \<Rightarrow> 'a \<Rightarrow> 'b" where
  "get_or z m k = (case map_of m k of None \<Rightarrow> z | Some v \<Rightarrow> v)"

fun count_deps ::
  "int \<Rightarrow> int list \<Rightarrow> (int \<times> int) list \<Rightarrow> (int \<times> int list) list
    \<Rightarrow> (int \<times> int) list \<times> (int \<times> int list) list" where
  "count_deps pid [] deg dts = (deg, dts)"
| "count_deps pid (dep # deps) deg dts =
     count_deps pid deps (AList.update pid (get_or 0 deg pid + 1) deg)
       (AList.update dep (get_or [] dts dep @ [pid]) dts)"

fun build_graph ::
  "plan_entry list \<Rightarrow> (int \<times> int) list \<Rightarrow> (int \<times> int list) list
    \<Rightarrow> (int \<times> int) list \<times> (int \<times> int list) list" where
  "build_graph [] deg dts = (deg, dts)"
| "build_graph (p # ps) deg dts =
     (let deg = (if map_of deg (pe_id p) = None then AList.update (pe_id p) 0 deg else deg);
          (deg, dts) = count_deps (pe_id p) (pe_blocks_on p) deg dts
      in build_graph ps deg dts)"

fun relax ::
  "int list \<Rightarrow> (int \<times> int) list \<Rightarrow> int list \<Rightarrow> (int \<times> int) list \<times> int list" where
  "relax [] deg q = (deg, q)"
| "relax (dep # ds) deg q =
     (let deg' = AList.update dep (get_or 0 deg dep - 1) deg
      in relax ds deg' (if get_or 0 deg' dep = 0 then q @ [dep] else q))"

text \<open>Each round takes one identifier off the queue and queues those whose degree drops to
  zero; the degrees only fall, so the queue plus the positive degrees shrinks.\<close>

definition positives :: "(int \<times> int) list \<Rightarrow> int set" where
  "positives deg = {i. get_or 0 deg i > 0}"

lemma finite_positives [simp]: "finite (positives deg)"
proof (rule finite_subset)
  show "positives deg \<subseteq> fst ` set deg"
  proof
    fix i assume "i \<in> positives deg"
    then obtain v where "map_of deg i = Some v"
      by (auto simp: positives_def get_or_def split: option.splits)
    then show "i \<in> fst ` set deg" by (metis map_of_eq_None_iff option.distinct(1))
  qed
qed simp

lemma get_or_update [simp]:
  "get_or z (AList.update k v m) k' = (if k = k' then v else get_or z m k')"
  by (simp add: get_or_def update_conv')

lemma relax_measure:
  "relax ds deg q = (deg', q') \<Longrightarrow>
     length q' + card (positives deg') \<le> length q + card (positives deg)"
proof (induction ds deg q arbitrary: deg' q' rule: relax.induct)
  case (1 deg q)
  then show ?case by simp
next
  case (2 dep ds deg q)
  define d1 where "d1 = AList.update dep (get_or 0 deg dep - 1) deg"
  define q1 where "q1 = (if get_or 0 d1 dep = 0 then q @ [dep] else q)"
  have IH: "length q' + card (positives deg') \<le> length q1 + card (positives d1)"
    using 2 by (simp add: d1_def q1_def Let_def)
  have "length q1 + card (positives d1) \<le> length q + card (positives deg)"
  proof (cases "get_or 0 d1 dep = 0")
    case True
    then have "dep \<in> positives deg" "positives d1 = positives deg - {dep}"
      by (auto simp: positives_def d1_def)
    then have "Suc (card (positives d1)) = card (positives deg)"
      by (metis card_Suc_Diff1 finite_positives)
    with True show ?thesis by (simp add: q1_def)
  next
    case False
    have "positives d1 \<subseteq> positives deg" by (auto simp: positives_def d1_def split: if_splits)
    then show ?thesis using False by (simp add: q1_def card_mono)
  qed
  with IH show ?case by linarith
qed

function kahn :: "(int \<times> int list) list \<Rightarrow> (int \<times> int) list \<Rightarrow> int list \<Rightarrow> nat \<Rightarrow> nat" where
  "kahn dts deg [] processed = processed"
| "kahn dts deg (cur # queue) processed =
     (let (deg', queue') = relax (get_or [] dts cur) deg queue
      in kahn dts deg' queue' (Suc processed))"
  by pat_completeness auto
termination
proof (relation "measure (\<lambda>(dts, deg, q, n). length q + card (positives deg))", goal_cases)
  case 1
  show ?case by simp
next
  case (2 dts deg cur queue processed x deg' queue')
  then have "relax (get_or [] dts cur) deg queue = (deg', queue')" by simp
  from relax_measure [OF this] show ?case by simp
qed

text \<open>\<open>iter\<close> is the order in which Go iterates the map \<open>inDegree\<close>.\<close>

definition Validate :: "((int \<times> int) list \<Rightarrow> (int \<times> int) list) \<Rightarrow> plan_manifest \<Rightarrow> goerr option" where
  "Validate iter m =
     (if pm_spec_path m = [] then Some (Errorf ''manifest: spec_path is required'' [])
      else if pm_plans m = [] then Some (Errorf ''manifest: plans must not be empty'' [])
      else case check_entries 0 [] (pm_plans m) of
        Inl e \<Rightarrow> Some e
      | Inr seen \<Rightarrow>
          (case check_refs 0 seen (pm_plans m) of
             Some e \<Rightarrow> Some e
           | None \<Rightarrow>
               let (inDegree, dependents) = build_graph (pm_plans m) [] [];
                   queue = map fst (filter (\<lambda>(i, deg). deg = 0) (iter inDegree))
               in if kahn dependents inDegree queue 0 \<noteq> length (pm_plans m)
                  then Some (Errorf ''manifest: blocks_on graph contains a cycle'' [])
                  else None))"

text \<open>\<open>ParseManifest\<close>; the YAML decoder is a parameter.\<close>

definition ParseManifest ::
  "((int \<times> int) list \<Rightarrow> (int \<times> int) list) \<Rightarrow> (string \<Rightarrow> goerr + plan_manifest) \<Rightarrow> string
    \<Rightarrow> goerr + plan_manifest" where
  "ParseManifest iter unmarshal data =
     (case unmarshal data of
        Inl e \<Rightarrow> Inl (Wrapf ''parse manifest: %w'' [] e)
      | Inr m \<Rightarrow> (case Validate iter m of Some e \<Rightarrow> Inl e | None \<Rightarrow> Inr m))"

definition LoadManifest ::
  "((int \<times> int) list \<Rightarrow> (int \<times> int) list) \<Rightarrow> (string \<Rightarrow> goerr + plan_manifest)
    \<Rightarrow> (string \<Rightarrow> goerr + string) \<Rightarrow> string \<Rightarrow> goerr + plan_manifest" where
  "LoadManifest iter unmarshal read_file path =
     (case read_file path of
        Inl e \<Rightarrow> Inl (Wrapf ''read manifest %q: %w'' [path] e)
      | Inr data \<Rightarrow> ParseManifest iter unmarshal data)"

section \<open>What a valid manifest is\<close>

definition plan_ids :: "plan_entry list \<Rightarrow> int list" where
  "plan_ids ps = map pe_id ps"

text \<open>The edges of the dependency graph: from a plan to the plans that wait for it.\<close>

definition plan_deps :: "plan_entry list \<Rightarrow> (int \<times> int) set" where
  "plan_deps ps = {(d, pe_id p) | d p. p \<in> set ps \<and> d \<in> set (pe_blocks_on p)}"

definition entries_ok :: "plan_entry list \<Rightarrow> bool" where
  "entries_ok ps \<longleftrightarrow>
     (\<forall>p \<in> set ps. pe_id p > 0 \<and> pe_title p \<noteq> []) \<and> distinct (plan_ids ps) \<and>
     (\<forall>p \<in> set ps. set (pe_blocks_on p) \<subseteq> set (plan_ids ps))"

definition valid_manifest :: "plan_manifest \<Rightarrow> bool" where
  "valid_manifest m \<longleftrightarrow>
     pm_spec_path m \<noteq> [] \<and> pm_plans m \<noteq> [] \<and> entries_ok (pm_plans m) \<and>
     acyclic (plan_deps (pm_plans m))"

lemma check_entries_iff:
  "check_entries i seen ps = Inr seen' \<longleftrightarrow>
     (\<forall>p \<in> set ps. pe_id p > 0 \<and> pe_title p \<noteq> []) \<and> distinct (plan_ids ps) \<and>
     set (plan_ids ps) \<inter> set seen = {} \<and> seen' = rev (plan_ids ps) @ seen"
  by (induction i seen ps rule: check_entries.induct) (auto simp: plan_ids_def)

lemma check_deps_iff: "check_deps i pid seen deps = None \<longleftrightarrow> set deps \<subseteq> set seen"
  by (induction deps) auto

lemma check_refs_iff:
  "check_refs i seen ps = None \<longleftrightarrow> (\<forall>p \<in> set ps. set (pe_blocks_on p) \<subseteq> set seen)"
proof (induction i seen ps rule: check_refs.induct)
  case (2 i seen p ps)
  then show ?case
    using check_deps_iff [of i "pe_id p" seen "pe_blocks_on p"]
    by (cases "check_deps i (pe_id p) seen (pe_blocks_on p)") auto
qed simp

section \<open>The dependency graph that the code builds\<close>

definition blk :: "plan_entry list \<Rightarrow> int \<Rightarrow> int list" where
  "blk ps = get_or [] (map (\<lambda>p. (pe_id p, pe_blocks_on p)) ps)"

lemma blk_Nil [simp]: "blk [] i = []"
  by (simp add: blk_def get_or_def)

lemma blk_Cons: "blk (p # ps) i = (if i = pe_id p then pe_blocks_on p else blk ps i)"
  by (simp add: blk_def get_or_def)

lemma blk_notin: "i \<notin> set (plan_ids ps) \<Longrightarrow> blk ps i = []"
  by (induction ps) (auto simp: blk_Cons plan_ids_def)

lemma blk_entry: "distinct (plan_ids ps) \<Longrightarrow> p \<in> set ps \<Longrightarrow> blk ps (pe_id p) = pe_blocks_on p"
proof (induction ps)
  case (Cons a ps)
  then show ?case
    by (cases "p = a") (auto simp: blk_Cons plan_ids_def, metis image_eqI)
qed simp

lemma plan_deps_blk:
  assumes "distinct (plan_ids ps)"
  shows "(d, i) \<in> plan_deps ps \<longleftrightarrow> d \<in> set (blk ps i)"
proof
  assume "(d, i) \<in> plan_deps ps"
  then show "d \<in> set (blk ps i)" using blk_entry [OF assms] by (auto simp: plan_deps_def)
next
  assume "d \<in> set (blk ps i)"
  moreover from this have "i \<in> set (plan_ids ps)" using blk_notin by fastforce
  then obtain p where "p \<in> set ps" "i = pe_id p" by (auto simp: plan_ids_def)
  ultimately show "(d, i) \<in> plan_deps ps"
    using blk_entry [OF assms] by (auto simp: plan_deps_def)
qed

lemma count_deps_spec:
  "count_deps pid deps deg dts = (deg', dts') \<Longrightarrow>
     get_or 0 deg' i = get_or 0 deg i + (if i = pid then int (length deps) else 0) \<and>
     count_list (get_or [] dts' d) i =
       count_list (get_or [] dts d) i + (if i = pid then count_list deps d else 0) \<and>
     (pid \<in> fst ` set deg \<longrightarrow> fst ` set deg' = fst ` set deg) \<and>
     (distinct (map fst deg) \<longrightarrow> distinct (map fst deg'))"
proof (induction pid deps deg dts arbitrary: deg' dts' rule: count_deps.induct)
  case (1 pid deg dts)
  then show ?case by simp
next
  case (2 pid dep deps deg dts)
  from "2.prems" show ?case
    by (simp, drule_tac "2.IH") (auto simp: dom_update distinct_update insert_absorb)
qed

lemma build_graph_spec:
  "build_graph ps deg dts = (deg', dts') \<Longrightarrow> distinct (plan_ids ps) \<Longrightarrow> distinct (map fst deg) \<Longrightarrow>
     get_or 0 deg' i = get_or 0 deg i + int (length (blk ps i)) \<and>
     count_list (get_or [] dts' d) i =
       count_list (get_or [] dts d) i + count_list (blk ps i) d \<and>
     fst ` set deg' = fst ` set deg \<union> set (plan_ids ps) \<and> distinct (map fst deg')"
proof (induction ps deg dts arbitrary: deg' dts' rule: build_graph.induct)
  case (1 deg dts)
  then show ?case by (simp add: plan_ids_def)
next
  case (2 p ps deg dts)
  define deg1 where
    "deg1 = (if map_of deg (pe_id p) = None then AList.update (pe_id p) 0 deg else deg)"
  obtain deg2 dts2 where c: "count_deps (pe_id p) (pe_blocks_on p) deg1 dts = (deg2, dts2)"
    by force
  have deg1: "get_or 0 deg1 i = get_or 0 deg i" for i
    by (auto simp: deg1_def) (simp add: get_or_def)
  have keys1: "fst ` set deg1 = insert (pe_id p) (fst ` set deg)" "distinct (map fst deg1)"
    using 2(4) by (auto simp: deg1_def dom_update distinct_update map_of_eq_None_iff
        insert_absorb)
  have b: "build_graph ps deg2 dts2 = (deg', dts')" and d: "distinct (plan_ids ps)"
    and new: "pe_id p \<notin> set (plan_ids ps)"
    using 2(2,3) c by (auto simp: deg1_def [symmetric] Let_def plan_ids_def)
  note cd = count_deps_spec [OF c]
  have keys2: "fst ` set deg2 = fst ` set deg1" "distinct (map fst deg2)" using cd keys1 by auto
  have "get_or 0 deg' i = get_or 0 deg2 i + int (length (blk ps i)) \<and>
     count_list (get_or [] dts' d) i =
       count_list (get_or [] dts2 d) i + count_list (blk ps i) d \<and>
     fst ` set deg' = fst ` set deg2 \<union> set (plan_ids ps) \<and> distinct (map fst deg')"
    using 2(1) [OF deg1_def _ _ b d keys2(2)] c by simp
  then show ?case using cd [of i d] deg1 keys1 keys2 new
    by (auto simp: blk_Cons blk_notin plan_ids_def)
qed

subsection \<open>One round\<close>

lemma relax_spec:
  "relax ds deg q = (deg', q') \<Longrightarrow> \<forall>i. int (count_list ds i) \<le> get_or 0 deg i \<Longrightarrow>
     (\<forall>i. get_or 0 deg' i = get_or 0 deg i - int (count_list ds i)) \<and>
     (\<exists>new. q' = q @ new \<and> distinct new \<and>
        set new = {i \<in> set ds. get_or 0 deg i = int (count_list ds i)})"
proof (induction ds deg q arbitrary: deg' q' rule: relax.induct)
  case (1 deg q)
  then show ?case by simp
next
  case (2 dep ds deg q)
  define d1 where "d1 = AList.update dep (get_or 0 deg dep - 1) deg"
  define q1 where "q1 = (if get_or 0 d1 dep = 0 then q @ [dep] else q)"
  have d1: "get_or 0 d1 i = get_or 0 deg i - (if i = dep then 1 else 0)" for i
    by (simp add: d1_def)
  have le: "\<forall>i. int (count_list ds i) \<le> get_or 0 d1 i"
    using 2(3) by (force simp: d1 split: if_splits)
  have "relax ds d1 q1 = (deg', q')" using 2(2) by (simp add: d1_def q1_def Let_def)
  from 2(1) [OF d1_def, of deg' q'] this le
  obtain new where IH: "\<forall>i. get_or 0 deg' i = get_or 0 d1 i - int (count_list ds i)"
    "q' = q1 @ new" "distinct new" "set new = {i \<in> set ds. get_or 0 d1 i = int (count_list ds i)}"
    unfolding q1_def by auto
  have ge: "int (count_list ds dep) + 1 \<le> get_or 0 deg dep" using 2(3) [rule_format, of dep] by simp
  define new1 where "new1 = (if get_or 0 d1 dep = 0 then dep # new else new)"
  have zero: "dep \<notin> set ds" if "get_or 0 d1 dep = 0"
    using ge that by (auto simp: d1) (simp add: count_list_0_iff)
  have pos: "dep \<in> set ds" if "get_or 0 deg dep = int (count_list (dep # ds) dep)" "get_or 0 d1 dep \<noteq> 0"
    using that by (auto simp: d1) (rule ccontr, simp add: count_notin)
  have "q' = q @ new1" "distinct new1"
    using IH zero by (auto simp: q1_def new1_def)
  moreover have "i \<in> set new1 \<longleftrightarrow> i \<in> set (dep # ds) \<and> get_or 0 deg i = int (count_list (dep # ds) i)"
    for i
  proof (cases "i = dep")
    case True
    show ?thesis
    proof (cases "get_or 0 d1 dep = 0")
      case z: True
      with zero have "count_list ds dep = 0" by (simp add: count_notin)
      with True z show ?thesis by (simp add: new1_def d1)
    next
      case nz: False
      with True pos IH(4) show ?thesis by (simp add: new1_def d1) linarith
    qed
  next
    case False
    with IH(4) show ?thesis by (simp add: new1_def d1)
  qed
  then have "set new1 = {i \<in> set (dep # ds). get_or 0 deg i = int (count_list (dep # ds) i)}"
    by blast
  ultimately have "\<exists>new. q' = q @ new \<and> distinct new \<and>
      set new = {i \<in> set (dep # ds). get_or 0 deg i = int (count_list (dep # ds) i)}" by blast
  moreover have "\<forall>i. get_or 0 deg' i = get_or 0 deg i - int (count_list (dep # ds) i)"
    using IH(1) d1 by simp
  ultimately show ?case by blast
qed

subsection \<open>The whole sort\<close>

definition unmet :: "plan_entry list \<Rightarrow> int set \<Rightarrow> int \<Rightarrow> nat" where
  "unmet ps done i = length (filter (\<lambda>d. d \<notin> done) (blk ps i))"

text \<open>\<open>don\<close> holds the identifiers already taken off the queue, in order.\<close>

definition kahn_inv :: "plan_entry list \<Rightarrow> int list \<Rightarrow> int list \<Rightarrow> (int \<times> int) list \<Rightarrow> bool" where
  "kahn_inv ps don q deg \<longleftrightarrow>
     distinct (don @ q) \<and>
     set (don @ q) = {i \<in> set (plan_ids ps). unmet ps (set don) i = 0} \<and>
     (\<forall>i. get_or 0 deg i = int (unmet ps (set don) i)) \<and>
     (\<forall>k < length don. set (blk ps (don ! k)) \<subseteq> set (take k don))"

lemma unmet_insert:
  "x \<notin> D \<Longrightarrow> unmet ps D i = unmet ps (insert x D) i + count_list (blk ps i) x"
proof -
  have "x \<notin> D \<Longrightarrow> length (filter (\<lambda>d. d \<notin> D) ds) =
      length (filter (\<lambda>d. d \<notin> insert x D) ds) + count_list ds x" for ds
    by (induction ds) auto
  then show "x \<notin> D \<Longrightarrow> ?thesis" by (simp add: unmet_def)
qed

lemma unmet_zero: "unmet ps D i = 0 \<longleftrightarrow> set (blk ps i) \<subseteq> D"
  by (auto simp: unmet_def filter_empty_conv)

lemma kahn_step:
  assumes inv: "kahn_inv ps don (cur # q) deg"
    and dts: "\<forall>d i. count_list (get_or [] dts d) i = count_list (blk ps i) d"
    and r: "relax (get_or [] dts cur) deg q = (deg', q')"
  shows "kahn_inv ps (don @ [cur]) q' deg'"
proof -
  let ?ds = "get_or [] dts cur" and ?D = "set don" and ?D' = "insert cur (set don)"
  have new: "cur \<notin> ?D" and deg: "\<forall>i. get_or 0 deg i = int (unmet ps ?D i)"
    and dist: "distinct (don @ cur # q)"
    and st: "set (don @ cur # q) = {i \<in> set (plan_ids ps). unmet ps ?D i = 0}"
    and top: "\<forall>k < length don. set (blk ps (don ! k)) \<subseteq> set (take k don)"
    using inv by (auto simp: kahn_inv_def)
  note un = unmet_insert [OF new]
  have le: "\<forall>i. int (count_list ?ds i) \<le> get_or 0 deg i"
    using deg dts un by simp
  from relax_spec [OF r le] obtain nw where deg': "\<forall>i. get_or 0 deg' i = int (unmet ps ?D' i)"
    and q': "q' = q @ nw" "distinct nw" "set nw = {i \<in> set ?ds. unmet ps ?D i = count_list ?ds i}"
    using deg un dts by auto
  have ds: "i \<in> set ?ds \<longleftrightarrow> cur \<in> set (blk ps i)" for i
    using dts by (metis count_list_0_iff)
  have nw: "i \<in> set nw \<longleftrightarrow> cur \<in> set (blk ps i) \<and> unmet ps ?D' i = 0" for i
    using q'(3) ds un [of ps i] dts by auto
  have pos: "0 < unmet ps ?D i" if "cur \<in> set (blk ps i)" for i
    using that new by (metis neq0_conv subsetD unmet_zero)
  have same: "unmet ps ?D' i = unmet ps ?D i" if "cur \<notin> set (blk ps i)" for i
    using un [of ps i] that by (simp add: count_notin)
  have old: "i \<notin> set (don @ cur # q)" if "i \<in> set nw" for i
    using that st nw pos by fastforce
  have curz: "set (blk ps cur) \<subseteq> ?D" using st by (auto simp: unmet_zero [symmetric])
  have ids: "i \<in> set (plan_ids ps)" if "cur \<in> set (blk ps i)" for i
    using that blk_notin by fastforce
  have "set (don @ cur # q) \<union> set nw = {i \<in> set (plan_ids ps). unmet ps ?D' i = 0}"
    unfolding st by (auto simp: nw ids) (metis neq0_conv pos same, metis same)
  moreover have "distinct ((don @ [cur]) @ q')" using dist old q' by auto
  moreover have "\<forall>k < length (don @ [cur]). set (blk ps ((don @ [cur]) ! k)) \<subseteq> set (take k (don @ [cur]))"
    using top curz by (auto simp: nth_append less_Suc_eq)
  ultimately show ?thesis using deg' q'(1) by (simp add: kahn_inv_def Un_assoc)
qed

lemma kahn_run:
  assumes "kahn_inv ps don q deg"
    and dts: "\<forall>d i. count_list (get_or [] dts d) i = count_list (blk ps i) d"
  shows "\<exists>don' deg'. kahn dts deg q (length don) = length don' \<and> kahn_inv ps don' [] deg'"
  using assms
proof (induction dts deg q "length don" arbitrary: don rule: kahn.induct)
  case (1 dts deg)
  then show ?case by auto
next
  case (2 dts deg cur queue)
  obtain deg' q' where r: "relax (get_or [] dts cur) deg queue = (deg', q')" by force
  from kahn_step [OF "2.prems" r] "2.hyps"(1) [OF r [symmetric] refl, of "don @ [cur]"] r "2.prems"(2)
  show ?case by simp
qed

lemma kahn_inv_acyclic:
  assumes "kahn_inv ps don [] deg" and e: "entries_ok ps"
  shows "length don = length ps \<longleftrightarrow> acyclic (plan_deps ps)"
proof -
  have d: "distinct (plan_ids ps)" using e by (simp add: entries_ok_def)
  have sub: "set (blk ps i) \<subseteq> set (plan_ids ps)" for i
  proof
    fix x assume "x \<in> set (blk ps i)"
    then show "x \<in> set (plan_ids ps)"
      using e by (auto simp: plan_deps_blk [OF d, symmetric] plan_deps_def entries_ok_def)
  qed
  have dd: "distinct don" and sd: "set don = {i \<in> set (plan_ids ps). set (blk ps i) \<subseteq> set don}"
    and top: "\<forall>k < length don. set (blk ps (don ! k)) \<subseteq> set (take k don)"
    using assms(1) by (auto simp: kahn_inv_def unmet_zero)
  have len: "length don = length ps \<longleftrightarrow> set don = set (plan_ids ps)"
  proof -
    have "length ps = card (set (plan_ids ps))" using distinct_card [OF d] by (simp add: plan_ids_def)
    moreover have "length don = card (set don)" using distinct_card [OF dd] by simp
    moreover have "set don \<subseteq> set (plan_ids ps)" using sd by blast
    ultimately show ?thesis by (metis List.finite_set card_subset_eq)
  qed
  show ?thesis unfolding len
  proof
    assume all: "set don = set (plan_ids ps)"
    define rk where "rk i = length (takeWhile (\<lambda>x. x \<noteq> i) don)" for i
    have rk: "rk (don ! k) = k" if "k < length don" for k
    proof -
      have "takeWhile (\<lambda>x. x \<noteq> don ! k) don = take k don"
        using that dd by (intro takeWhile_eq_take_P_nth) (auto simp: nth_eq_iff_index_eq)
      then show ?thesis using that by (simp add: rk_def)
    qed
    have "plan_deps ps \<subseteq> measure rk"
    proof
      fix e assume e: "e \<in> plan_deps ps"
      obtain a i where ei: "e = (a, i)" by force
      with e have ai: "a \<in> set (blk ps i)" using plan_deps_blk [OF d] by simp
      then have "i \<in> set don" using all blk_notin by fastforce
      then obtain k where k: "k < length don" "i = don ! k" by (auto simp: in_set_conv_nth)
      with top ai have "a \<in> set (take k don)" by blast
      then obtain j where "j < k" "a = don ! j" by (auto simp: in_set_conv_nth)
      with k rk show "e \<in> measure rk" by (simp add: ei)
    qed
    then show "acyclic (plan_deps ps)" by (meson wf_acyclic wf_measure wf_subset)
  next
    assume ac: "acyclic (plan_deps ps)"
    have "plan_deps ps \<subseteq> set (plan_ids ps) \<times> set (plan_ids ps)"
      using e by (auto simp: plan_deps_def entries_ok_def plan_ids_def)
    then have "wf (plan_deps ps)" using ac
      by (meson List.finite_set finite_SigmaI finite_acyclic_wf finite_subset)
    then have "i \<in> set (plan_ids ps) \<longrightarrow> i \<in> set don" for i
    proof (induction i rule: wf_induct_rule)
      case (less i)
      then have "set (blk ps i) \<subseteq> set don" using sub plan_deps_blk [OF d] by blast
      then show ?case using sd by blast
    qed
    then show "set don = set (plan_ids ps)" using sd by blast
  qed
qed

lemma kahn_build:
  assumes e: "entries_ok ps" and b: "build_graph ps [] [] = (deg, dts)"
    and it: "mset (iter deg) = mset deg"
  shows "kahn dts deg (map fst (filter (\<lambda>(i, deg). deg = 0) (iter deg))) 0 = length ps
     \<longleftrightarrow> acyclic (plan_deps ps)"
proof -
  let ?q = "map fst (filter (\<lambda>(i, deg). deg = 0) (iter deg))"
  have d: "distinct (plan_ids ps)" using e by (simp add: entries_ok_def)
  note sp = build_graph_spec [OF b d]
  have deg: "get_or 0 deg i = int (unmet ps {} i)" and keys: "fst ` set deg = set (plan_ids ps)"
    and dk: "distinct (map fst deg)"
    and dts: "\<forall>d i. count_list (get_or [] dts d) i = count_list (blk ps i) d" for i
    using sp by (auto simp: get_or_def [of _ "[]"] unmet_def)
  have si: "set (iter deg) = set deg" using it by (metis set_mset_mset)
  have "distinct (map fst (iter deg))"
    using dk it by (metis mset_eq_imp_distinct_iff mset_map)
  then have dq: "distinct ?q" by (simp add: distinct_map_filter)
  have lookup: "v = get_or 0 deg i" if "(i, v) \<in> set deg" for i v
    using that dk by (simp add: get_or_def)
  have "set ?q = {i \<in> set (plan_ids ps). unmet ps {} i = 0}"
  proof (intro set_eqI iffI)
    fix i assume "i \<in> set ?q"
    then have z: "(i, 0) \<in> set deg" unfolding si [symmetric] by auto
    then have "i \<in> fst ` set deg" by force
    moreover have "get_or 0 deg i = 0" using lookup [OF z] by (rule sym)
    ultimately show "i \<in> {i \<in> set (plan_ids ps). unmet ps {} i = 0}" unfolding keys deg by simp
  next
    fix i assume i: "i \<in> {i \<in> set (plan_ids ps). unmet ps {} i = 0}"
    then have "i \<in> fst ` set deg" using keys by simp
    then obtain v where v: "(i, v) \<in> set deg" by force
    have "v = 0" using lookup [OF v] i unfolding deg by simp
    with v si show "i \<in> set ?q" by force
  qed
  with dq deg have "kahn_inv ps [] ?q deg" by (simp add: kahn_inv_def)
  from kahn_run [OF this dts] kahn_inv_acyclic [OF _ e] show ?thesis by force
qed

lemma validate_iff_aux:
  assumes "\<forall>deg. mset (iter deg) = mset deg"
  shows "Validate iter m = None \<longleftrightarrow> valid_manifest m"
proof (cases "pm_spec_path m = [] \<or> pm_plans m = [] \<or> \<not> entries_ok (pm_plans m)")
  case True
  then show ?thesis
    by (auto simp: Validate_def valid_manifest_def entries_ok_def check_entries_iff
        check_refs_iff split: sum.splits option.splits)
next
  case False
  then have "check_entries 0 [] (pm_plans m) = Inr (rev (plan_ids (pm_plans m)))"
    and "check_refs 0 (rev (plan_ids (pm_plans m))) (pm_plans m) = None"
    by (auto simp: check_entries_iff check_refs_iff entries_ok_def)
  moreover obtain deg dts where "build_graph (pm_plans m) [] [] = (deg, dts)" by force
  moreover from False kahn_build [OF _ this, of iter] assms
  have "kahn dts deg (map fst (filter (\<lambda>(i, deg). deg = 0) (iter deg))) 0 = length (pm_plans m)
     \<longleftrightarrow> acyclic (plan_deps (pm_plans m))" by blast
  ultimately show ?thesis using False by (simp add: Validate_def valid_manifest_def)
qed

text \<open>
  C10. A manifest passes validation exactly when its spec path and its plan list are not empty,
  every plan has a positive identifier and a title, identifiers are unique, every dependency is
  a plan of the manifest, and the dependency graph has no cycle. This holds whatever order the
  runtime iterates the in-degree map in.
\<close>

theorem validate_iff:
  assumes "\<forall>deg. mset (iter deg) = mset deg"
  shows "Validate iter m = None \<longleftrightarrow> valid_manifest m"
  using assms by (rule validate_iff_aux)

text \<open>A two-plan manifest whose dependency points backwards.\<close>

definition sample_manifest :: plan_manifest where
  "sample_manifest =
     \<lparr>pm_spec_path = ''docs/spec.md'',
      pm_plans = [\<lparr>pe_id = 1, pe_title = ''Core types'', pe_phases = [''a'', ''b''], pe_blocks_on = [2]\<rparr>,
                  \<lparr>pe_id = 2, pe_title = ''Store'', pe_phases = [''c''], pe_blocks_on = []\<rparr>]\<rparr>"

lemma sample_validates: "Validate rev sample_manifest = None"
  by (simp add: sample_manifest_def Validate_def get_or_def)

lemma validate_iff_witness:
  "Validate rev sample_manifest = None \<longleftrightarrow> valid_manifest sample_manifest"
  by (rule validate_iff) simp

section \<open>Slugs and branch names\<close>

definition is_slug :: "string \<Rightarrow> bool" where
  "is_slug s \<longleftrightarrow>
     list_all slug_char s \<and> length s \<le> maxSlugLen \<and>
     (s \<noteq> [] \<longrightarrow> hd s \<noteq> CHR ''-'' \<and> last s \<noteq> CHR ''-'') \<and>
     successively (\<lambda>a b. \<not> (a = CHR ''-'' \<and> b = CHR ''-'')) s"

abbreviation no_runs :: "string \<Rightarrow> bool" where
  "no_runs \<equiv> successively (\<lambda>a b. \<not> (a = CHR ''-'' \<and> b = CHR ''-''))"

lemma slugCollapse_set: "set (slugCollapse s) \<subseteq> set s"
  by (induction s rule: slugCollapse.induct) (auto dest: set_dropWhileD)

lemma slugCollapse_hd: "slugCollapse s = [] \<longleftrightarrow> s = []" "s \<noteq> [] \<Longrightarrow> hd (slugCollapse s) = hd s"
  by (cases s; simp)+

lemma slugCollapse_no_runs: "no_runs (slugCollapse s)"
proof (induction s rule: slugCollapse.induct)
  case 1
  then show ?case by simp
next
  case (2 c cs)
  let ?r = "dropWhile (\<lambda>d. d = CHR ''-'') cs"
  show ?case
  proof (cases "c = CHR ''-''")
    case True
    have "hd (slugCollapse ?r) \<noteq> CHR ''-''" if "?r \<noteq> []"
      using hd_dropWhile [OF that] that by (simp add: slugCollapse_hd)
    moreover have "no_runs (slugCollapse ?r)" using True by (rule 2(1))
    moreover have "slugCollapse (c # cs) = CHR ''-'' # slugCollapse ?r" using True by simp
    ultimately show ?thesis by (simp only: successively_Cons) (auto simp only: slugCollapse_hd)
  next
    case False
    then have "no_runs (slugCollapse cs)" by (rule 2(2))
    moreover have "slugCollapse (c # cs) = c # slugCollapse cs" using False by simp
    ultimately show ?thesis using False by (simp only: successively_Cons) blast
  qed
qed

lemma slugCollapse_id: "no_runs s \<Longrightarrow> slugCollapse s = s"
proof (induction s)
  case (Cons c cs)
  then show ?case
    by (cases cs) (auto simp: successively_Cons)
qed simp

lemma slug_char_ord: "slug_char c \<Longrightarrow> ord c < 128 \<and> \<not> is_upper c"
  by (auto simp: slug_char_def is_lower_def is_digit_def is_upper_def ord_def)

lemma ToLower_id: "list_all slug_char s \<Longrightarrow> ToLower s = s"
proof (induction s rule: ToLower.induct)
  case (1 a b c cs)
  then show ?case using slug_char_ord [of a] by simp
next
  case (2 a b)
  then show ?case using slug_char_ord [of a] slug_char_ord [of b] by simp
next
  case (3 a)
  then show ?case using slug_char_ord [of a] by simp
qed simp

lemma trim_by_hd: "trim_by P s \<noteq> [] \<Longrightarrow> \<not> P (hd (trim_by P s))"
proof -
  assume ne: "trim_by P s \<noteq> []"
  obtain t where t: "trim_left_by P s = trim_by P s @ t"
    using trim_right_prefix unfolding trim_by_def by blast
  with ne have "trim_left_by P s \<noteq> []" "hd (trim_left_by P s) = hd (trim_by P s)" by auto
  then show ?thesis using hd_dropWhile [of P s] by (simp add: trim_left_by_def)
qed

lemma trim_by_suffix: "\<exists>a b. s = a @ trim_by P s @ b"
proof -
  obtain b where "trim_left_by P s = trim_by P s @ b"
    using trim_right_prefix unfolding trim_by_def by blast
  moreover have "s = takeWhile P s @ trim_left_by P s" by (simp add: trim_left_by_def)
  ultimately show ?thesis by metis
qed

lemma trim_by_id: "s = [] \<or> (\<not> P (hd s) \<and> \<not> P (last s)) \<Longrightarrow> trim_by P s = s"
proof (cases "s = []")
  case False
  assume a: "s = [] \<or> (\<not> P (hd s) \<and> \<not> P (last s))"
  with False have "dropWhile P s = s" by (cases s) auto
  moreover have "dropWhile P (rev s) = rev s" using a False by (cases s rule: rev_cases) auto
  ultimately show ?thesis by (simp add: trim_by_def trim_left_by_def trim_right_by_def)
qed (simp add: trim_by_def trim_left_by_def trim_right_by_def)

lemma no_runs_sub: "no_runs (a @ s @ b) \<Longrightarrow> no_runs s"
  by (auto simp: successively_append_iff)

lemma is_slug_PlanSlug: "is_slug (PlanSlug title)"
proof -
  define h where "h = (\<lambda>c. c = CHR ''-'')"
  define u where
    "u = slugCollapse (slugReplace (map (\<lambda>c. if c = CHR '' '' then CHR ''-'' else c) (ToLower title)))"
  define t where "t = trim_by h u"
  define r where "r = (if length t > maxSlugLen then trim_right_by h (take maxSlugLen t) else t)"
  have r: "PlanSlug title = r"
    by (simp add: PlanSlug_def r_def t_def u_def h_def Let_def)
  have "list_all slug_char u" using slugCollapse_set unfolding u_def list_all_iff slugReplace_def
    by fastforce
  moreover obtain a b where u: "u = a @ t @ b" using trim_by_suffix unfolding t_def by blast
  moreover have "no_runs u" unfolding u_def by (rule slugCollapse_no_runs)
  ultimately have t: "list_all slug_char t" "no_runs t" using no_runs_sub by auto
  have hl: "hd t \<noteq> CHR ''-'' \<and> last t \<noteq> CHR ''-''" if "t \<noteq> []"
    using that trim_by_hd [of h u] trim_right_by_last [of h]
    by (auto simp: t_def h_def trim_by_def)
  show ?thesis
  proof (cases "length t > maxSlugLen")
    case False
    then show ?thesis using t hl by (simp add: r r_def is_slug_def)
  next
    case True
    then have rr: "r = trim_right_by h (take maxSlugLen t)" by (simp add: r_def)
    obtain z where z: "take maxSlugLen t = r @ z" using trim_right_prefix rr by blast
    then have tt: "t = r @ z @ drop maxSlugLen t" by (metis append_assoc append_take_drop_id)
    then have "list_all slug_char r" "no_runs r"
      using t by (metis list_all_append, metis append_Nil no_runs_sub)
    moreover have "length r \<le> maxSlugLen"
      using trim_right_length [of h "take maxSlugLen t"] by (simp add: rr)
    moreover have "hd r \<noteq> CHR ''-'' \<and> last r \<noteq> CHR ''-''" if "r \<noteq> []"
      using that hl tt trim_right_by_last [of h "take maxSlugLen t"]
      by (metis append_is_Nil_conv h_def hd_append2 rr)
    ultimately show ?thesis by (simp add: r is_slug_def)
  qed
qed

text \<open>
  A plan slug holds only lower-case letters, digits and single hyphens, starts and ends
  with none, and is at most forty bytes long; and a title that already has this form is its
  own slug, so that slugging twice changes nothing.
\<close>

lemma plan_slug_normal_form:
  "is_slug (PlanSlug title) \<and> (is_slug s \<longrightarrow> PlanSlug s = s)"
proof
  show "is_slug s \<longrightarrow> PlanSlug s = s"
  proof
    assume s: "is_slug s"
    then have "ToLower s = s" by (simp add: is_slug_def ToLower_id)
    moreover have "map (\<lambda>c. if c = CHR '' '' then CHR ''-'' else c) s = s"
      using s by (intro map_idI)
        (auto simp: is_slug_def list_all_iff slug_char_def is_lower_def is_digit_def ord_def)
    moreover have "slugReplace s = s"
      using s by (simp add: is_slug_def slugReplace_def list_all_iff)
    moreover have "slugCollapse s = s" using s by (simp add: is_slug_def slugCollapse_id)
    moreover have "trim_by (\<lambda>c. c = CHR ''-'') s = s" using s by (auto simp: is_slug_def intro!: trim_by_id)
    ultimately show "PlanSlug s = s" using s by (simp add: PlanSlug_def is_slug_def)
  qed
qed (rule is_slug_PlanSlug)

lemma plan_slug_normal_form_witness: "PlanSlug ''add-store-2'' = ''add-store-2''"
  using plan_slug_normal_form [of "[]" "''add-store-2''"]
  by (simp add: is_slug_def slug_char_def is_lower_def is_digit_def ord_def maxSlugLen_def)

lemma digits_dash_cancel:
  assumes "a @ CHR ''-'' # x = b @ CHR ''-'' # y" "CHR ''-'' \<notin> set a" "CHR ''-'' \<notin> set b"
  shows "a = b \<and> x = y"
  using assms
proof (induction a arbitrary: b)
  case Nil
  then show ?case by (cases b) auto
next
  case (Cons c a)
  then show ?case by (cases b) auto
qed

text \<open>
  Two plans with positive identifiers have the same branch, or the same worktree directory,
  exactly when they have the same identifier and the same slug: titles that slug alike never
  make two plans of a manifest collide.
\<close>

lemma branch_names_unique:
  assumes "0 < i" and "0 < j"
  shows "(BranchName i t = BranchName j u \<longleftrightarrow> i = j \<and> PlanSlug t = PlanSlug u) \<and>
         (WorktreeDirName i t = WorktreeDirName j u \<longleftrightarrow> i = j \<and> PlanSlug t = PlanSlug u)"
proof -
  have nd: "CHR ''-'' \<notin> set (itoa k)" if "0 < k" for k
    using itoa_digits [of k] that minus_not_digit by auto
  from nd assms digits_dash_cancel [of "itoa i" "PlanSlug t" "itoa j" "PlanSlug u"] itoa_inj
  show ?thesis by (auto simp: BranchName_def WorktreeDirName_def)
qed

lemma branch_names_unique_witness:
  "BranchName 1 ''Store!'' \<noteq> BranchName 11 ''store''"
  using branch_names_unique [of 1 11 "''Store!''" "''store''"] by simp

end
