(* ===== verification/Scheduler.thy ===== *)
theory Scheduler
  imports Manifest
begin

text \<open>
  \<open>coding/manifest/scheduler.go\<close>: which plans of a manifest may start, given the plans that are
  complete and the plans that run. The locale \<open>plan_scheduler\<close> states the contract the plan loop
  of the autopilot relies on; inside it stands the loop's termination argument. \<open>ReadyPlans\<close>
  interprets it for every valid manifest.
\<close>

section \<open>The code\<close>

text \<open>A Go \<open>map[int]bool\<close>, as an association list with distinct keys; absent keys read false.\<close>

type_synonym boolmap = "(int \<times> bool) list"

abbreviation is_set :: "boolmap \<Rightarrow> int \<Rightarrow> bool" where
  "is_set m i \<equiv> get_or False m i"

definition set_true :: "int \<Rightarrow> boolmap \<Rightarrow> boolmap" where
  "set_true i m = AList.update i True m"

record dag_scheduler =
  sch_Manifest :: "plan_manifest option"
  sch_Policy :: "policy option"

definition NewDAGScheduler :: "plan_manifest option \<Rightarrow> policy option \<Rightarrow> dag_scheduler" where
  "NewDAGScheduler m p = \<lparr>sch_Manifest = m, sch_Policy = p\<rparr>"

definition defaultMaxParallelPlans :: int where
  "defaultMaxParallelPlans = 2"

definition MaxParallelPlans :: "dag_scheduler \<Rightarrow> int" where
  "MaxParallelPlans s =
     (case sch_Policy s of
        None \<Rightarrow> defaultMaxParallelPlans
      | Some p \<Rightarrow> if pol_max_parallel_plans p > 0 then pol_max_parallel_plans p
                  else defaultMaxParallelPlans)"

fun allCompleted :: "int list \<Rightarrow> boolmap \<Rightarrow> bool" where
  "allCompleted [] completed = True"
| "allCompleted (i # deps) completed =
     (if \<not> is_set completed i then False else allCompleted deps completed)"

fun collect_ready ::
  "int \<Rightarrow> boolmap \<Rightarrow> boolmap \<Rightarrow> plan_entry list \<Rightarrow> plan_entry list \<Rightarrow> plan_entry list" where
  "collect_ready slots completed active ready [] = ready"
| "collect_ready slots completed active ready (p # ps) =
     (if int (length ready) \<ge> slots then ready
      else if is_set completed (pe_id p) \<or> is_set active (pe_id p)
      then collect_ready slots completed active ready ps
      else if \<not> allCompleted (pe_blocks_on p) completed
      then collect_ready slots completed active ready ps
      else collect_ready slots completed active (ready @ [p]) ps)"

definition ReadyPlans :: "dag_scheduler \<Rightarrow> boolmap \<Rightarrow> boolmap \<Rightarrow> plan_entry list" where
  "ReadyPlans s completed active =
     (case sch_Manifest s of
        None \<Rightarrow> []
      | Some m \<Rightarrow>
          let slots = MaxParallelPlans s - int (length active)
          in if slots \<le> 0 then []
             else collect_ready slots completed active [] (pm_plans m))"

section \<open>What it returns\<close>

definition eligible :: "boolmap \<Rightarrow> boolmap \<Rightarrow> plan_entry \<Rightarrow> bool" where
  "eligible completed active p \<longleftrightarrow>
     \<not> is_set completed (pe_id p) \<and> \<not> is_set active (pe_id p) \<and>
     (\<forall>d \<in> set (pe_blocks_on p). is_set completed d)"

lemma allCompleted_iff: "allCompleted deps c \<longleftrightarrow> (\<forall>d \<in> set deps. is_set c d)"
  by (induction deps) auto

lemma collect_ready_conv:
  "int (length ready) \<le> slots \<Longrightarrow>
     collect_ready slots c a ready ps =
       ready @ take (nat (slots - int (length ready))) (filter (eligible c a) ps)"
proof (induction slots c a ready ps rule: collect_ready.induct)
  case (1 slots completed active ready)
  then show ?case by simp
next
  case (2 slots c a ready p ps)
  show ?case
  proof (cases "int (length ready) \<ge> slots")
    case True
    with "2.prems" show ?thesis by simp
  next
    case False
    then have "nat (slots - int (length ready)) = Suc (nat (slots - 1 - int (length ready)))" by simp
    with False "2.prems" "2.IH" show ?thesis
      by (auto simp: eligible_def allCompleted_iff algebra_simps)
  qed
qed

lemma ready_plans_conv:
  "ReadyPlans s completed active =
     (case sch_Manifest s of
        None \<Rightarrow> []
      | Some m \<Rightarrow> take (nat (MaxParallelPlans s - int (length active)))
                   (filter (eligible completed active) (pm_plans m)))"
  by (simp add: ReadyPlans_def collect_ready_conv split: option.split)

text \<open>
  C11. The plans reported ready are exactly the first eligible plans of the manifest, in
  manifest order, as many as there are free slots under the policy's cap: an eligible plan is
  neither complete nor active and all its dependencies are complete.
\<close>

theorem ready_plans_exact:
  "ReadyPlans s completed active =
     (case sch_Manifest s of
        None \<Rightarrow> []
      | Some m \<Rightarrow> take (nat (MaxParallelPlans s - int (length active)))
                   (filter (eligible completed active) (pm_plans m)))"
  by (rule ready_plans_conv)

lemma MaxParallelPlans_pos: "MaxParallelPlans s > 0"
  by (simp add: MaxParallelPlans_def defaultMaxParallelPlans_def split: option.split)

lemma is_set_set_true [simp]: "is_set (set_true i m) j \<longleftrightarrow> i = j \<or> is_set m j"
  by (simp add: set_true_def)

section \<open>The contract of the plan loop\<close>

text \<open>
  What a client of the scheduler relies on: a reported plan belongs to the manifest, is not
  complete and has its dependencies complete; and when nothing runs while some plan is left,
  something is reported.
\<close>

locale plan_scheduler =
  fixes valid :: "'m \<Rightarrow> bool"
    and plans :: "'m \<Rightarrow> plan_entry list"
    and ready :: "'m \<Rightarrow> boolmap \<Rightarrow> boolmap \<Rightarrow> plan_entry list"
  assumes ready_sound:
    "p \<in> set (ready m fin active) \<Longrightarrow>
       p \<in> set (plans m) \<and> \<not> is_set fin (pe_id p) \<and> (\<forall>d \<in> set (pe_blocks_on p). is_set fin d)"
    and ready_progress:
    "valid m \<Longrightarrow> \<exists>p \<in> set (plans m). \<not> is_set fin (pe_id p) \<Longrightarrow> ready m fin [] \<noteq> []"
begin

text \<open>The autopilot takes the first ready plan, runs it to completion and asks again.\<close>

primrec drain :: "nat \<Rightarrow> 'm \<Rightarrow> boolmap \<Rightarrow> int list \<times> boolmap" where
  "drain 0 m fin = ([], fin)"
| "drain (Suc n) m fin =
     (case ready m fin [] of
        [] \<Rightarrow> ([], fin)
      | p # _ \<Rightarrow> (let (order, fin') = drain n m (set_true (pe_id p) fin)
                 in (pe_id p # order, fin')))"

abbreviation left :: "'m \<Rightarrow> boolmap \<Rightarrow> int set" where
  "left m fin \<equiv> {pe_id p | p. p \<in> set (plans m) \<and> \<not> is_set fin (pe_id p)}"

lemma finite_left: "finite (left m fin)"
  by (rule finite_subset [of _ "pe_id ` set (plans m)"]) auto

lemma drain_completes:
  "valid m \<Longrightarrow> card (left m fin) \<le> n \<Longrightarrow> drain n m fin = (order, fin') \<Longrightarrow>
     \<forall>p \<in> set (plans m). is_set fin' (pe_id p)"
proof (induction n arbitrary: fin order fin')
  case 0
  then have "left m fin = {}" using finite_left by simp
  with 0 show ?case by auto
next
  case (Suc n)
  show ?case
  proof (cases "ready m fin []")
    case Nil
    with ready_progress [OF Suc.prems(1), of fin] Suc.prems(3) show ?thesis by auto
  next
    case (Cons p ps)
    let ?d = "set_true (pe_id p) fin"
    from ready_sound [of p m fin "[]"] Cons have p: "p \<in> set (plans m)" "\<not> is_set fin (pe_id p)"
      by auto
    have "left m ?d = left m fin - {pe_id p}" by auto
    moreover have "pe_id p \<in> left m fin" using p by auto
    ultimately have "card (left m ?d) \<le> n"
      using Suc.prems(2) finite_left by (simp add: card_Diff_singleton)
    moreover obtain o1 d1 where "drain n m ?d = (o1, d1)" by force
    ultimately show ?thesis using Suc.IH [OF Suc.prems(1), of ?d o1 d1] Suc.prems(3) Cons by simp
  qed
qed

text \<open>Every plan runs after the plans it waits for.\<close>

lemma drain_order:
  "drain n m fin = (order, fin') \<Longrightarrow> k < length order \<Longrightarrow>
     \<exists>p \<in> set (plans m). pe_id p = order ! k \<and>
       (\<forall>d \<in> set (pe_blocks_on p). is_set fin d \<or> d \<in> set (take k order))"
proof (induction n arbitrary: fin order fin' k)
  case 0
  then show ?case by simp
next
  case (Suc n)
  then obtain p ps where r: "ready m fin [] = p # ps"
    by (cases "ready m fin []") auto
  obtain o1 d1 where d: "drain n m (set_true (pe_id p) fin) = (o1, d1)" by force
  with r Suc.prems have o: "order = pe_id p # o1" by simp
  show ?case
  proof (cases k)
    case 0
    with r o ready_sound [of p m fin "[]"] show ?thesis by auto
  next
    case (Suc j)
    with Suc.prems(2) o Suc.IH [OF d, of j] show ?thesis by auto
  qed
qed

end

lemma acyclic_has_source:
  assumes v: "valid_manifest m" and p: "p \<in> set (pm_plans m)" "\<not> is_set fin (pe_id p)"
  shows "\<exists>q \<in> set (pm_plans m). eligible fin [] q"
proof -
  let ?ps = "pm_plans m"
  have e: "entries_ok ?ps" and ac: "acyclic (plan_deps ?ps)" using v by (auto simp: valid_manifest_def)
  have "plan_deps ?ps \<subseteq> set (plan_ids ?ps) \<times> set (plan_ids ?ps)"
    using e by (auto simp: plan_deps_def entries_ok_def plan_ids_def)
  then have "wf (plan_deps ?ps)" using ac
    by (meson List.finite_set finite_SigmaI finite_acyclic_wf finite_subset)
  moreover have "pe_id p \<in> {pe_id q | q. q \<in> set ?ps \<and> \<not> is_set fin (pe_id q)}" using p by auto
  ultimately obtain i where i: "i \<in> {pe_id q | q. q \<in> set ?ps \<and> \<not> is_set fin (pe_id q)}"
    and least: "\<And>j. (j, i) \<in> plan_deps ?ps \<Longrightarrow> j \<notin> {pe_id q | q. q \<in> set ?ps \<and> \<not> is_set fin (pe_id q)}"
    by (rule wfE_min) blast
  then obtain q where q: "q \<in> set ?ps" "\<not> is_set fin (pe_id q)" "i = pe_id q" by auto
  have "is_set fin d" if "d \<in> set (pe_blocks_on q)" for d
  proof -
    have "d \<in> pe_id ` set ?ps" using that q(1) e by (auto simp: entries_ok_def plan_ids_def)
    then obtain r where "r \<in> set ?ps" "d = pe_id r" by blast
    with that q least [of d] show ?thesis by (auto simp: plan_deps_def)
  qed
  with q have "eligible fin [] q" by (simp add: eligible_def get_or_def)
  with q show ?thesis by blast
qed

interpretation sched: plan_scheduler
  "\<lambda>(m, pol). valid_manifest m" "\<lambda>(m, pol). pm_plans m"
  "\<lambda>(m, pol). ReadyPlans (NewDAGScheduler (Some m) pol)"
proof unfold_locales
  fix p active and mp :: "plan_manifest \<times> policy option" and fin
  assume "p \<in> set ((case mp of (m, pol) \<Rightarrow> ReadyPlans (NewDAGScheduler (Some m) pol)) fin active)"
  then show "p \<in> set (case mp of (m, pol) \<Rightarrow> pm_plans m) \<and> \<not> is_set fin (pe_id p) \<and>
      (\<forall>d \<in> set (pe_blocks_on p). is_set fin d)"
    by (auto simp: ready_plans_conv NewDAGScheduler_def eligible_def split: prod.splits dest!: in_set_takeD)
next
  fix mp :: "plan_manifest \<times> policy option" and fin
  assume v: "case mp of (m, pol) \<Rightarrow> valid_manifest m"
    and p: "\<exists>p \<in> set (case mp of (m, pol) \<Rightarrow> pm_plans m). \<not> is_set fin (pe_id p)"
  obtain m pol where mp: "mp = (m, pol)" by force
  with v p acyclic_has_source have "filter (eligible fin []) (pm_plans m) \<noteq> []"
    by (fastforce simp: filter_empty_conv)
  moreover have "0 < nat (MaxParallelPlans (NewDAGScheduler (Some m) pol))"
    using MaxParallelPlans_pos by simp
  ultimately show "(case mp of (m, pol) \<Rightarrow> ReadyPlans (NewDAGScheduler (Some m) pol)) fin [] \<noteq> []"
    by (simp add: mp ready_plans_conv NewDAGScheduler_def)
qed

text \<open>Taking the first ready plan until none is left, as the plan loop does between two resumes.\<close>

fun run_all :: "nat \<Rightarrow> plan_manifest \<Rightarrow> policy option \<Rightarrow> boolmap \<Rightarrow> int list \<times> boolmap" where
  "run_all 0 m pol fin = ([], fin)"
| "run_all (Suc n) m pol fin =
     (case ReadyPlans (NewDAGScheduler (Some m) pol) fin [] of
        [] \<Rightarrow> ([], fin)
      | p # _ \<Rightarrow> (let (order, fin') = run_all n m pol (set_true (pe_id p) fin)
                 in (pe_id p # order, fin')))"

lemma run_all_drain: "run_all n m pol fin = sched.drain n (m, pol) fin"
  by (induction n arbitrary: fin) (auto split: list.splits)

text \<open>
  C5. From a valid manifest and any set of completed plans, taking the first ready plan and
  completing it, as often as there are plans, completes every plan of the manifest whatever the
  policy's cap, and each plan starts only after all plans it depends on are complete.
\<close>

theorem scheduler_runs_to_completion:
  assumes "valid_manifest m" and "run_all (length (pm_plans m)) m pol fin = (order, fin')"
  shows "(\<forall>p \<in> set (pm_plans m). is_set fin' (pe_id p)) \<and>
         (\<forall>k < length order. \<exists>p \<in> set (pm_plans m). pe_id p = order ! k \<and>
            (\<forall>d \<in> set (pe_blocks_on p). is_set fin d \<or> d \<in> set (take k order)))"
proof -
  have "card {pe_id p | p. p \<in> set (pm_plans m) \<and> \<not> is_set fin (pe_id p)}
      \<le> card (pe_id ` set (pm_plans m))"
    by (rule card_mono) auto
  also have "\<dots> \<le> length (pm_plans m)" by (metis card_length length_map list.set_map)
  finally have c: "card {pe_id p | p. p \<in> set (pm_plans m) \<and> \<not> is_set fin (pe_id p)}
      \<le> length (pm_plans m)" .
  have d: "sched.drain (length (pm_plans m)) (m, pol) fin = (order, fin')"
    using assms(2) by (simp only: run_all_drain)
  from sched.drain_completes [OF _ _ d] sched.drain_order [OF d] assms(1) c
  show ?thesis unfolding prod.case by blast
qed

lemma scheduler_runs_to_completion_witness:
  "run_all 2 sample_manifest None [] = ([2, 1], [(2, True), (1, True)]) \<and>
   is_set [(2, True), (1, True)] (pe_id (hd (pm_plans sample_manifest)))"
proof -
  have v: "valid_manifest sample_manifest"
    using sample_validates validate_iff_aux [of rev] by simp
  have r: "run_all 2 sample_manifest None [] = ([2, 1], [(2, True), (1, True)])"
    by (simp add: numeral_2_eq_2 ready_plans_conv NewDAGScheduler_def MaxParallelPlans_def
        defaultMaxParallelPlans_def sample_manifest_def eligible_def get_or_def set_true_def)
  have l: "length (pm_plans sample_manifest) = 2" by (simp add: sample_manifest_def)
  then have "hd (pm_plans sample_manifest) \<in> set (pm_plans sample_manifest)"
    by (intro hd_in_set) auto
  with scheduler_runs_to_completion [OF v, unfolded l, OF r] r show ?thesis by blast
qed

end
