(* ===== verification/World.thy ===== *)
theory World
  imports Core_Types "HOL-Library.Char_ord" "HOL-Library.List_Lexorder"
    "HOL-Library.Product_Lexorder" "HOL-Library.Option_ord"
begin

text \<open>
  The world the Go program runs in: the SQLite database (\<open>store/migrations/*.sql\<close>), the clock,
  the random source, the driver faults and the in-process event bus. A table is the list of
  its rows in insertion order. Every SQL call draws the next entry of the fault stream, so a
  statement may fail at any point with an error of the driver; a statement that violates a
  constraint fails with that constraint; a transaction whose body or commit fails leaves the
  tables as they were. A time is stored as the instant its text denotes: the columns keep whole
  seconds, and the columns formatted from local time with a literal \<open>Z\<close> keep the zone offset.
\<close>

section \<open>Rows\<close>

text \<open>Nullable columns are options; the other rows are the structs of package \<open>core\<close>.\<close>

record finding_row =
  fr_id :: ident
  fr_run_id :: ident
  fr_job_id :: ident
  fr_path :: string
  fr_line :: int
  fr_severity :: string
  fr_body :: string
  fr_fingerprint :: string
  fr_resolved_by :: "ident option"
  fr_resolved_at :: "time option"
  fr_plan_id :: string
  fr_phase_index :: int
  fr_reviewer_handle :: string

record attention_row =
  ar_id :: ident
  ar_run_id :: ident
  ar_kind :: AttentionKind
  ar_source :: string
  ar_job_id :: ident
  ar_question :: string
  ar_options :: "string list"
  ar_presented_on :: "string list"
  ar_answered_on :: "string list"
  ar_answered_by :: "string option"
  ar_answer :: "string option"
  ar_created_at :: time
  ar_resolved_at :: "time option"

record dispatch_row =
  dr_id :: ident
  dr_run_id :: ident
  dr_role :: string
  dr_job_id :: "ident option"
  dr_prompt :: "string option"
  dr_inputs :: json
  dr_state :: DispatchState
  dr_worker_handle :: "ident option"
  dr_leased_at :: "time option"
  dr_completed_at :: "time option"
  dr_created_at :: time
  dr_mode :: DispatchMode

record checkpoint_row =
  cp_id :: ident
  cp_run_id :: ident
  cp_plan_id :: "ident option"
  cp_kind :: string
  cp_state :: string
  cp_decision :: string
  cp_decided_by :: string
  cp_decided_at :: "time option"
  cp_notes :: string

record supervisor_row =
  sr_id :: ident
  sr_run_id :: ident
  sr_job_id :: ident
  sr_kind :: string
  sr_verdict :: string
  sr_rule_id :: string
  sr_message :: string
  sr_created_at :: time

record cost_row =
  co_id :: ident
  co_run_id :: ident
  co_job_id :: ident
  co_provider :: string
  co_model :: string
  co_tokens_in :: int
  co_tokens_out :: int
  co_usd :: rat
  co_created_at :: time

record db =
  t_events :: "event list"
  t_runs :: "run list"
  t_jobs :: "job list"
  t_findings :: "finding_row list"
  t_artifacts :: "artifact list"
  t_attention :: "attention_row list"
  t_dispatches :: "dispatch_row list"
  t_workers :: "worker list"
  t_plans :: "plan_record list"
  t_checkpoints :: "checkpoint_row list"
  t_supervisor :: "supervisor_row list"
  t_costs :: "cost_row list"

definition empty_db :: db where
  "empty_db = \<lparr>t_events = [], t_runs = [], t_jobs = [], t_findings = [], t_artifacts = [],
     t_attention = [], t_dispatches = [], t_workers = [], t_plans = [], t_checkpoints = [],
     t_supervisor = [], t_costs = []\<rparr>"

section \<open>The world\<close>

text \<open>
  \<open>wd_clock k\<close> is the \<open>k\<close>-th reading of \<open>time.Now\<close>, \<open>wd_rnd\<close> the random source, \<open>wd_faults k\<close> the
  failure of the \<open>k\<close>-th SQL call (the driver's message), \<open>wd_zone\<close> the local offset from UTC and \<open>wd_bus\<close> whether the event store has a bus; \<open>wd_published\<close> is what went
  out on it.
\<close>

record world =
  wd_db :: db
  wd_clock :: "nat \<Rightarrow> time"
  wd_ticks :: nat
  wd_rnd :: entropy
  wd_ids :: nat
  wd_faults :: "nat \<Rightarrow> string option"
  wd_calls :: nat
  wd_zone :: time
  wd_bus :: bool
  wd_published :: "event list"

type_synonym 'a prog = "(world, 'a) io"

definition time_now :: "time prog" where
  "time_now = (\<lambda>w. (Inr (wd_clock w (wd_ticks w)), w\<lparr>wd_ticks := Suc (wd_ticks w)\<rparr>))"

definition new_id :: "ident prog" where
  "new_id = (\<lambda>w. (Inr (NewID (wd_rnd w) (wd_ids w)), w\<lparr>wd_ids := Suc (wd_ids w)\<rparr>))"

text \<open>The stored form of a time: whole seconds. \<open>local_stamp\<close> is a local time that is written
  with the suffix \<open>Z\<close> and so reads back shifted by the offset.\<close>

definition stamp :: "time \<Rightarrow> time" where
  "stamp t = t div 1000000000 * 1000000000"

definition local_stamp :: "time \<Rightarrow> time \<Rightarrow> time" where
  "local_stamp zone t = stamp (t + zone)"

lemma stamp_le: "stamp t \<le> t"
  by (simp add: stamp_def minus_mod_eq_div_mult [symmetric])

lemma stamp_gt: "t - 1000000000 < stamp t"
  by (simp add: stamp_def minus_mod_eq_div_mult [symmetric])

lemma stamp_mono: "s \<le> t \<Longrightarrow> stamp s \<le> stamp t"
  by (simp add: stamp_def zdiv_mono1)

lemma stamp_stamp [simp]: "stamp (stamp t) = stamp t"
  by (simp add: stamp_def)

text \<open>
  The columns in \<open>time.RFC3339Nano\<close> keep the nanoseconds, but as text: the fraction is written
  without trailing zeros (and not at all when it is zero) and is followed by \<open>Z\<close>. \<open>ORDER BY\<close>
  compares that text, so the sort key is the second followed by the bytes of the fraction.
\<close>

definition strip_zeros :: "string \<Rightarrow> string" where
  "strip_zeros = trim_right_by (\<lambda>c. c = CHR ''0'')"

definition pad9 :: "nat \<Rightarrow> string" where
  "pad9 n = replicate (9 - length (nat_str n)) (CHR ''0'') @ nat_str n"

definition nano_text :: "time \<Rightarrow> string" where
  "nano_text t =
     (let f = nat (t mod 1000000000)
      in if f = 0 then ''Z'' else CHR ''.'' # strip_zeros (pad9 f) @ ''Z'')"

definition nano_key :: "time \<Rightarrow> int \<times> string" where
  "nano_key t = (t div 1000000000, nano_text t)"

text \<open>Between different seconds the text order is the order of time.\<close>

lemma nano_key_seconds:
  "s div 1000000000 < t div 1000000000 \<Longrightarrow> nano_key s < nano_key t"
  by (simp add: nano_key_def)

section \<open>SQL\<close>

definition sql :: "'a prog \<Rightarrow> 'a prog" where
  "sql m = (\<lambda>w. let w' = w\<lparr>wd_calls := Suc (wd_calls w)\<rparr> in
     case wd_faults w (wd_calls w) of Some m' \<Rightarrow> (Inl (ErrDriver m'), w') | None \<Rightarrow> m w')"

definition query :: "(db \<Rightarrow> 'a) \<Rightarrow> 'a prog" where
  "query f = sql (gets (\<lambda>w. f (wd_db w)))"

text \<open>\<open>QueryRow(...).Scan(...)\<close> with \<open>sql.ErrNoRows\<close> when there is no row.\<close>

definition query_row :: "(db \<Rightarrow> 'a option) \<Rightarrow> 'a prog" where
  "query_row f = bindE (query f) (\<lambda>r. case r of None \<Rightarrow> raise ErrNoRows | Some x \<Rightarrow> ret x)"

text \<open>A statement either violates a constraint or changes the tables and reports the number of
  rows it touched.\<close>

definition exec :: "(db \<Rightarrow> goerr + nat \<times> db) \<Rightarrow> nat prog" where
  "exec f = sql (\<lambda>w. case f (wd_db w) of
       Inl e \<Rightarrow> (Inl e, w)
     | Inr (n, d) \<Rightarrow> (Inr n, w\<lparr>wd_db := d\<rparr>))"

text \<open>
  \<open>BeginTx\<close>, the body, then \<open>Commit\<close> when the body says so and \<open>Rollback\<close> otherwise. The deferred
  \<open>Rollback\<close> also runs when the body or the commit fails.
\<close>

definition in_tx :: "string \<Rightarrow> ('a \<times> bool) prog \<Rightarrow> 'a prog" where
  "in_tx commit_msg body = (\<lambda>w.
     case sql (ret ()) w of
       (Inl e, w1) \<Rightarrow> (Inl (Wrapf ''begin tx: %w'' [] e), w1)
     | (Inr _, w1) \<Rightarrow>
         (case body w1 of
            (Inl e, w2) \<Rightarrow> (Inl e, w2\<lparr>wd_db := wd_db w1\<rparr>)
          | (Inr (x, False), w2) \<Rightarrow> (Inr x, w2\<lparr>wd_db := wd_db w1\<rparr>)
          | (Inr (x, True), w2) \<Rightarrow>
              (case sql (ret ()) w2 of
                 (Inl e, w3) \<Rightarrow> (Inl (Wrapf commit_msg [] e), w3\<lparr>wd_db := wd_db w1\<rparr>)
               | (Inr _, w3) \<Rightarrow> (Inr x, w3))))"

subsection \<open>Statements\<close>

definition insert_into :: "string \<Rightarrow> ('r \<Rightarrow> 'k) \<Rightarrow> 'r \<Rightarrow> 'r list \<Rightarrow> goerr + 'r list" where
  "insert_into tbl key r rows =
     (if key r \<in> key ` set rows then Inl (ErrUniqueViolation tbl) else Inr (rows @ [r]))"

definition count_where :: "('r \<Rightarrow> bool) \<Rightarrow> 'r list \<Rightarrow> nat" where
  "count_where P rows = length (filter P rows)"

definition update_where :: "('r \<Rightarrow> bool) \<Rightarrow> ('r \<Rightarrow> 'r) \<Rightarrow> 'r list \<Rightarrow> 'r list" where
  "update_where P f rows = map (\<lambda>r. if P r then f r else r) rows"

definition require_fk :: "bool \<Rightarrow> string \<Rightarrow> goerr + 'a \<Rightarrow> goerr + 'a" where
  "require_fk ok tbl r = (case r of Inl e \<Rightarrow> Inl e | Inr x \<Rightarrow> if ok then Inr x else Inl (ErrForeignKey tbl))"

definition has_run :: "db \<Rightarrow> ident \<Rightarrow> bool" where
  "has_run d i \<longleftrightarrow> i \<in> run_id ` set (t_runs d)"

definition has_job :: "db \<Rightarrow> ident \<Rightarrow> bool" where
  "has_job d i \<longleftrightarrow> i \<in> job_id ` set (t_jobs d)"

definition has_plan :: "db \<Rightarrow> ident \<Rightarrow> bool" where
  "has_plan d i \<longleftrightarrow> i \<in> pr_id ` set (t_plans d)"

lemma update_where_keys:
  "(\<And>r. key (f r) = key r) \<Longrightarrow> map key (update_where P f rows) = map key rows"
  by (simp add: update_where_def)

lemma update_where_none: "count_where P rows = 0 \<Longrightarrow> update_where P f rows = rows"
  by (induction rows) (auto simp: count_where_def update_where_def split: if_splits)

lemma set_update_where: "set (update_where P f rows) = (\<lambda>r. if P r then f r else r) ` set rows"
  by (simp add: update_where_def)

lemma length_update_where [simp]: "length (update_where P f rows) = length rows"
  by (simp add: update_where_def)

lemma count_where_pos: "0 < count_where P rows \<longleftrightarrow> (\<exists>r \<in> set rows. P r)"
  by (auto simp: count_where_def filter_empty_conv)

lemma insert_into_Inr:
  "insert_into tbl key r rows = Inr rows' \<longleftrightarrow> rows' = rows @ [r] \<and> key r \<notin> key ` set rows"
  by (auto simp: insert_into_def)

lemma require_fk_Inr: "require_fk ok tbl r = Inr x \<longleftrightarrow> ok \<and> r = Inr x"
  by (auto simp: require_fk_def split: sum.splits)

lemmas [eval_simps] = time_now_def new_id_def sql_def query_def query_row_def exec_def in_tx_def
  insert_into_def count_where_def update_where_def require_fk_def has_run_def has_job_def
  has_plan_def empty_db_def stamp_def local_stamp_def

subsection \<open>Rules\<close>

lemma sql_run [run_simps]:
  "sql m w = (Inr x, w') \<longleftrightarrow>
     wd_faults w (wd_calls w) = None \<and> m (w\<lparr>wd_calls := Suc (wd_calls w)\<rparr>) = (Inr x, w')"
  by (simp add: sql_def Let_def split: option.split)

lemma query_run [run_simps]:
  "query f w = (Inr x, w') \<longleftrightarrow>
     wd_faults w (wd_calls w) = None \<and> x = f (wd_db w) \<and> w' = w\<lparr>wd_calls := Suc (wd_calls w)\<rparr>"
  by (auto simp: query_def run_simps)

lemma query_row_run [run_simps]:
  "query_row f w = (Inr x, w') \<longleftrightarrow>
     wd_faults w (wd_calls w) = None \<and> f (wd_db w) = Some x \<and> w' = w\<lparr>wd_calls := Suc (wd_calls w)\<rparr>"
  by (auto simp: query_row_def run_simps split: option.splits)

lemma exec_run [run_simps]:
  "exec f w = (Inr n, w') \<longleftrightarrow>
     wd_faults w (wd_calls w) = None \<and>
     (\<exists>d. f (wd_db w) = Inr (n, d) \<and> w' = w\<lparr>wd_calls := Suc (wd_calls w), wd_db := d\<rparr>)"
  by (auto simp: exec_def run_simps split: sum.splits prod.splits)

lemma time_now_run [run_simps]:
  "time_now w = (Inr t, w') \<longleftrightarrow>
     t = wd_clock w (wd_ticks w) \<and> w' = w\<lparr>wd_ticks := Suc (wd_ticks w)\<rparr>"
  by (auto simp: time_now_def)

lemma new_id_run [run_simps]:
  "new_id w = (Inr i, w') \<longleftrightarrow>
     i = NewID (wd_rnd w) (wd_ids w) \<and> w' = w\<lparr>wd_ids := Suc (wd_ids w)\<rparr>"
  by (auto simp: new_id_def)

lemma bindE_time_now:
  "bindE time_now f w = f (wd_clock w (wd_ticks w)) (w\<lparr>wd_ticks := Suc (wd_ticks w)\<rparr>)"
  by (simp add: bindE_def time_now_def)

lemma bindE_new_id:
  "bindE new_id f w = f (NewID (wd_rnd w) (wd_ids w)) (w\<lparr>wd_ids := Suc (wd_ids w)\<rparr>)"
  by (simp add: bindE_def new_id_def)

lemma bindE_gets: "bindE (gets g) f w = f (g w) w"
  by (simp add: bindE_def gets_def)

lemma wp_time_now [wp_simps]:
  "wp time_now Q w = Q (Inr (wd_clock w (wd_ticks w))) (w\<lparr>wd_ticks := Suc (wd_ticks w)\<rparr>)"
  by (simp add: wp_def time_now_def)

lemma wp_new_id [wp_simps]:
  "wp new_id Q w = Q (Inr (NewID (wd_rnd w) (wd_ids w))) (w\<lparr>wd_ids := Suc (wd_ids w)\<rparr>)"
  by (simp add: wp_def new_id_def)

text \<open>
  A predicate on the tables alone, possibly strengthened by the published list, is kept by
  everything but the statements that change the tables.
\<close>

definition on_db :: "(db \<Rightarrow> bool) \<Rightarrow> world \<Rightarrow> bool" where
  "on_db P w = P (wd_db w)"

lemma on_db_simps [simp]:
  "on_db P (w\<lparr>wd_ticks := k\<rparr>) = on_db P w" "on_db P (w\<lparr>wd_ids := k\<rparr>) = on_db P w"
  "on_db P (w\<lparr>wd_calls := k\<rparr>) = on_db P w" "on_db P (w\<lparr>wd_published := l\<rparr>) = on_db P w"
  "on_db P (w\<lparr>wd_bus := b\<rparr>) = on_db P w" "on_db P (w\<lparr>wd_db := d\<rparr>) = P d"
  by (simp_all add: on_db_def)

lemma keeps_time_now [keeps_intros]: "keeps (on_db P) time_now"
  by (simp add: keeps_def time_now_def)

lemma keeps_new_id [keeps_intros]: "keeps (on_db P) new_id"
  by (simp add: keeps_def new_id_def)

lemma keeps_sql: "keeps (on_db P) m \<Longrightarrow> keeps (on_db P) (sql m)"
  by (simp add: keeps_def sql_def Let_def split: option.split)

lemma keeps_query [keeps_intros]: "keeps (on_db P) (query f)"
  unfolding query_def by (intro keeps_sql keeps_gets)

lemma keeps_query_row [keeps_intros]: "keeps (on_db P) (query_row f)"
  unfolding query_row_def by (intro keeps_intros)

lemma query_db [simp]: "wd_db (snd (query f w)) = wd_db w"
  by (simp add: query_def sql_def gets_def Let_def split: option.split)

lemma query_row_db [simp]: "wd_db (snd (query_row f w)) = wd_db w"
  by (auto simp: query_row_def query_def sql_def gets_def Let_def bindE_def ret_def raise_def
      split: option.splits)

lemma keeps_exec:
  assumes "\<And>d n d'. P d \<Longrightarrow> f d = Inr (n, d') \<Longrightarrow> P d'"
  shows "keeps (on_db P) (exec f)"
  unfolding exec_def
  by (rule keeps_sql) (auto simp: keeps_def on_db_def split: sum.split dest: assms)

lemma keeps_in_tx:
  assumes "keeps (on_db P) body"
  shows "keeps (on_db P) (in_tx msg body)"
proof -
  have k: "keeps (on_db P) (sql (ret ()))" by (intro keeps_sql keeps_ret)
  show ?thesis unfolding keeps_def
  proof (intro allI impI)
    fix w assume w: "on_db P w"
    obtain r1 w1 where s1: "sql (ret ()) w = (r1, w1)" by force
    with k w have w1: "on_db P w1" by (metis keepsD snd_conv)
    obtain r2 w2 where s2: "body w1 = (r2, w2)" by force
    with assms w1 have w2: "on_db P w2" by (metis keepsD snd_conv)
    obtain r3 w3 where s3: "sql (ret ()) w2 = (r3, w3)" by force
    with k w2 have w3: "on_db P w3" by (metis keepsD snd_conv)
    have b: "P (wd_db w1)" using w1 by (simp add: on_db_def)
    show "on_db P (snd (in_tx msg body w))"
    proof (cases r2)
      case (Inl e)
      then show ?thesis using s1 s2 w1 b by (auto simp: in_tx_def split: sum.split)
    next
      case (Inr p)
      then show ?thesis using s1 s2 s3 w1 w3 b
        by (cases p; cases "snd p"; auto simp: in_tx_def split: sum.split)
    qed
  qed
qed

text \<open>A transaction that does not return a committed result leaves the tables untouched.\<close>

lemma in_tx_cases:
  obtains (aborted) "wd_db (snd (in_tx msg body w)) = wd_db w"
  | (committed) w1 x w2 where "body w1 = (Inr (x, True), w2)" "fst (in_tx msg body w) = Inr x"
      "wd_db w1 = wd_db w" "wd_db (snd (in_tx msg body w)) = wd_db w2"
proof -
  have db: "wd_db (snd (sql (ret ()) w)) = wd_db w" for w
    by (simp add: sql_def ret_def Let_def split: option.split)
  obtain r1 w1 where s1: "sql (ret ()) w = (r1, w1)" by force
  with db [of w] have e1: "wd_db w1 = wd_db w" by simp
  obtain r2 w2 where s2: "body w1 = (r2, w2)" by force
  obtain r3 w3 where s3: "sql (ret ()) w2 = (r3, w3)" by force
  with db [of w2] have e3: "wd_db w3 = wd_db w2" by simp
  show thesis
  proof (cases r1)
    case (Inl e)
    then show thesis using s1 e1 aborted by (simp add: in_tx_def)
  next
    case r1: (Inr u)
    show thesis
    proof (cases r2)
      case (Inl e)
      then show thesis using s1 s2 r1 e1 aborted by (simp add: in_tx_def)
    next
      case r2: (Inr p)
      obtain x b where p: "p = (x, b)" by force
      show thesis
      proof (cases "b \<and> isl r3 = False")
        case True
        then obtain v where "r3 = Inr v" by (cases r3) auto
        with True show thesis using s1 s2 s3 r1 r2 p e1 e3
          by (intro committed [of w1 x w2]) (simp_all add: in_tx_def)
      next
        case False
        then show thesis using s1 s2 s3 r1 r2 p e1 aborted
          by (cases b; cases r3) (simp_all add: in_tx_def)
      qed
    qed
  qed
qed

text \<open>A transaction that returned a value either committed its body or rolled it back.\<close>

lemma in_tx_run:
  assumes r: "in_tx msg body w = (Inr x, w')"
  obtains (commit) w1 w2 where "body w1 = (Inr (x, True), w2)" "wd_db w1 = wd_db w" "wd_db w' = wd_db w2"
  | (rollback) w1 w2 where "body w1 = (Inr (x, False), w2)" "wd_db w1 = wd_db w" "wd_db w' = wd_db w"
proof -
  have db: "wd_db (snd (sql (ret ()) w)) = wd_db w" for w
    by (simp add: sql_def ret_def Let_def split: option.split)
  obtain r1 w1 where s1: "sql (ret ()) w = (r1, w1)" by force
  with db [of w] have e1: "wd_db w1 = wd_db w" by simp
  obtain y where r1: "r1 = Inr y" using r s1 by (cases r1) (auto simp: in_tx_def)
  obtain r2 w2 where s2: "body w1 = (r2, w2)" by force
  obtain p where r2: "r2 = Inr p" using r s1 r1 s2 by (cases r2) (auto simp: in_tx_def)
  obtain z b where p: "p = (z, b)" by force
  show thesis
  proof (cases b)
    case False
    then have "z = x" "w' = w2\<lparr>wd_db := wd_db w1\<rparr>" using r s1 r1 s2 r2 p by (auto simp: in_tx_def)
    with False s2 r2 p e1 show thesis by (intro rollback [of w1 w2]) auto
  next
    case True
    obtain r3 w3 where s3: "sql (ret ()) w2 = (r3, w3)" by force
    with db [of w2] have e3: "wd_db w3 = wd_db w2" by simp
    obtain v where "r3 = Inr v" using r s1 r1 s2 r2 p True s3 by (cases r3) (auto simp: in_tx_def)
    then have "z = x" "w' = w3" using r s1 r1 s2 r2 p True s3 by (auto simp: in_tx_def)
    with True s2 r2 p e1 e3 show thesis by (intro commit [of w1 w2]) auto
  qed
qed

lemma in_tx_error: "in_tx msg body w = (Inl e, w') \<Longrightarrow> wd_db w' = wd_db w"
  using in_tx_cases [of msg body w] by (metis Inr_not_Inl fst_conv snd_conv)

end
