(* ===== verification/Event_Store.thy ===== *)
theory Event_Store
  imports World
begin

text \<open>
  \<open>store/event_store.go\<close>: the append-only event log and the transaction that writes an event
  and its projection together. The lemmas give the atomicity of that transaction under every
  driver fault, the numbering of the events of a run, and the proof rules the stores of the
  projections use; the rules are the laws of the locale \<open>event_log\<close>.
\<close>

section \<open>The code\<close>

text \<open>\<open>SELECT COALESCE(MAX(sequence), 0) + 1 FROM events WHERE run_id = ?\<close>\<close>

definition events_of :: "ident \<Rightarrow> db \<Rightarrow> event list" where
  "events_of r d = filter (\<lambda>e. ev_run_id e = r) (t_events d)"

definition next_sequence :: "ident \<Rightarrow> db \<Rightarrow> nat" where
  "next_sequence r d = foldr max (map ev_sequence (events_of r d)) 0 + 1"

definition add_event :: "event \<Rightarrow> db \<Rightarrow> db" where
  "add_event e d = d\<lparr>t_events := t_events d @ [e]\<rparr>"

text \<open>The \<open>INSERT INTO events\<close>: primary key, \<open>(run_id, sequence)\<close> and a non-null idempotency
  key are unique; an empty idempotency key is stored as NULL.\<close>

definition insert_event :: "event \<Rightarrow> db \<Rightarrow> goerr + nat \<times> db" where
  "insert_event e d =
     (if ev_id e \<in> ev_id ` set (t_events d) then Inl (ErrUniqueViolation ''events.id'')
      else if (ev_run_id e, ev_sequence e) \<in> (\<lambda>e. (ev_run_id e, ev_sequence e)) ` set (t_events d)
      then Inl (ErrUniqueViolation ''events.run_id, events.sequence'')
      else if ev_idempotency_key e \<noteq> [] \<and>
              ev_idempotency_key e \<in> ev_idempotency_key ` set (t_events d)
      then Inl (ErrUniqueViolation ''events.idempotency_key'')
      else Inr (1, add_event e d))"

definition publish :: "event \<Rightarrow> unit prog" where
  "publish e = modify (\<lambda>w. if wd_bus w then w\<lparr>wd_published := wd_published w @ [e]\<rparr> else w)"

definition stored_event :: "event \<Rightarrow> event" where
  "stored_event e = e\<lparr>ev_created_at := stamp (ev_created_at e)\<rparr>"

definition write_body :: "event \<Rightarrow> unit prog option \<Rightarrow> (event \<times> bool) prog" where
  "write_body ev apply_fn =
     bindE (wrapE ''compute sequence: %w'' [] (query (next_sequence (ev_run_id ev)))) (\<lambda>seq.
     let ev' = ev\<lparr>ev_sequence := seq\<rparr> in
     bindE (wrapE ''insert event: %w'' [] (exec (insert_event (stored_event ev')))) (\<lambda>_.
     bindE (case apply_fn of None \<Rightarrow> ret () | Some m \<Rightarrow> wrapE ''apply projection: %w'' [] m) (\<lambda>_.
     ret (ev', True))))"

definition WriteEventThenRow :: "event \<Rightarrow> unit prog option \<Rightarrow> event prog" where
  "WriteEventThenRow ev apply_fn =
     bindE (in_tx ''commit: %w'' (write_body ev apply_fn)) (\<lambda>ev'.
     bindE (publish ev') (\<lambda>_. ret ev'))"

definition WriteEventIdempotent :: "event \<Rightarrow> unit prog option \<Rightarrow> bool prog" where
  "WriteEventIdempotent ev apply_fn =
     (if ev_idempotency_key ev = [] then raise (Errorf ''idempotency key must not be empty'' [])
      else
        bindE (wrapE ''check idempotency key: %w'' []
          (query (\<lambda>d. count_where (\<lambda>e. ev_idempotency_key e = ev_idempotency_key ev) (t_events d))))
          (\<lambda>count.
        if count > 0 then ret False
        else bindE (WriteEventThenRow ev apply_fn) (\<lambda>_. ret True)))"

definition ListEvents :: "ident \<Rightarrow> event list prog" where
  "ListEvents runID =
     wrapE ''query events: %w'' [] (query (\<lambda>d. sort_key ev_sequence (events_of runID d)))"

lemma publish_db [simp]: "wd_db (snd (publish e w)) = wd_db w" "fst (publish e w) = Inr ()"
  by (simp_all add: publish_def modify_def)

lemma keeps_publish [keeps_intros]: "keeps (on_db P) (publish e)"
  by (simp add: keeps_def publish_def modify_def)

section \<open>The log\<close>

text \<open>
  A log is well formed when identifiers and non-empty idempotency keys are unique and the events
  of every run are numbered 1, 2, 3, \<dots> in the order they were written.
\<close>

definition log_ok :: "db \<Rightarrow> bool" where
  "log_ok d \<longleftrightarrow>
     distinct (map ev_id (t_events d)) \<and>
     distinct (filter (\<lambda>k. k \<noteq> []) (map ev_idempotency_key (t_events d))) \<and>
     (\<forall>r. map ev_sequence (events_of r d) = [1..<Suc (length (events_of r d))])"

lemma events_of_add:
  "events_of r (add_event e d) = events_of r d @ (if ev_run_id e = r then [e] else [])"
  by (simp add: events_of_def add_event_def)

lemma foldr_max_acc: "foldr max xs (a::nat) = max a (foldr max xs 0)"
  by (induction xs) auto

lemma foldr_max_upt: "foldr max [Suc 0..<Suc n] 0 = n"
proof (induction n)
  case (Suc n)
  have "foldr max [Suc 0..<Suc (Suc n)] 0 = foldr max [Suc 0..<Suc n] (Suc n)" by simp
  also have "\<dots> = max (Suc n) (foldr max [Suc 0..<Suc n] 0)" by (rule foldr_max_acc)
  finally show ?case using Suc.IH by simp
qed simp

lemma next_sequence_log_ok: "log_ok d \<Longrightarrow> next_sequence r d = Suc (length (events_of r d))"
  by (simp add: log_ok_def next_sequence_def foldr_max_upt del: upt_Suc)

lemma insert_event_Inr: "insert_event e d = Inr (n, d') \<Longrightarrow> n = 1 \<and> d' = add_event e d"
  by (auto simp: insert_event_def split: if_splits)

lemma insert_event_log_ok:
  assumes ok: "log_ok d" and seq: "ev_sequence e = next_sequence (ev_run_id e) d"
    and ins: "insert_event e d = Inr (n, d')"
  shows "log_ok d'"
proof -
  have d': "d' = add_event e d" using insert_event_Inr [OF ins] by simp
  have new: "ev_id e \<notin> ev_id ` set (t_events d)"
    "ev_idempotency_key e = [] \<or> ev_idempotency_key e \<notin> ev_idempotency_key ` set (t_events d)"
    using ins by (auto simp: insert_event_def split: if_splits)
  have "map ev_sequence (events_of r d') = [1..<Suc (length (events_of r d'))]" for r
    using ok seq next_sequence_log_ok [OF ok] by (simp add: d' events_of_add log_ok_def)
  with ok new show ?thesis
    by (auto simp: log_ok_def d' add_event_def)
qed

lemma ListEvents_log_ok: "log_ok d \<Longrightarrow> sort_key ev_sequence (events_of r d) = events_of r d"
  by (rule sort_key_id_if_sorted) (simp add: log_ok_def del: upt_Suc)

lemma empty_log_ok: "log_ok empty_db"
  by (simp add: log_ok_def empty_db_def events_of_def)

section \<open>The transaction\<close>

lemma fst_sql_ret: "fst (sql (ret ()) w) = (case wd_faults w (wd_calls w) of Some e \<Rightarrow> Inl (ErrDriver e) | None \<Rightarrow> Inr ())"
  by (simp add: sql_def ret_def Let_def split: option.split)

lemma wd_sql_ret [simp]:
  "wd_db (snd (sql (ret ()) w)) = wd_db w" "wd_published (snd (sql (ret ()) w)) = wd_published w"
  "wd_bus (snd (sql (ret ()) w)) = wd_bus w"
  by (simp_all add: sql_def ret_def Let_def split: option.split)

text \<open>What a body that commits has done: the event first, then the projection.\<close>

lemma write_body_committed:
  assumes "write_body ev ap w = (Inr (ev', c), w')"
  shows "ev' = ev\<lparr>ev_sequence := next_sequence (ev_run_id ev) (wd_db w)\<rparr> \<and>
    (\<exists>w1 n. insert_event (stored_event ev') (wd_db w) = Inr (n, wd_db w1) \<and>
       wd_published w1 = wd_published w \<and> wd_bus w1 = wd_bus w \<and>
       (case ap of None \<Rightarrow> w' = w1 | Some m \<Rightarrow> m w1 = (Inr (), w')))"
proof -
  define e1 where "e1 = ev\<lparr>ev_sequence := next_sequence (ev_run_id ev) (wd_db w)\<rparr>"
  from assms obtain d n where ev': "ev' = e1"
    and ins: "insert_event (stored_event e1) (wd_db w) = Inr (n, d)"
    and ap: "(case ap of None \<Rightarrow> ret () | Some m \<Rightarrow> wrapE ''apply projection: %w'' [] m)
        (w\<lparr>wd_calls := Suc (Suc (wd_calls w)), wd_db := d\<rparr>) = (Inr (), w')"
    by (auto simp: write_body_def run_simps Let_def e1_def)
  let ?w1 = "w\<lparr>wd_calls := Suc (Suc (wd_calls w)), wd_db := d\<rparr>"
  from ap have "case ap of None \<Rightarrow> w' = ?w1 | Some m \<Rightarrow> m ?w1 = (Inr (), w')"
    by (auto simp: run_simps split: option.splits)
  with ins ev' show ?thesis unfolding e1_def [symmetric]
    by (intro conjI exI [of _ ?w1] exI [of _ n]) auto
qed


lemma WriteEventThenRow_result:
  "fst (WriteEventThenRow ev ap w) = fst (in_tx ''commit: %w'' (write_body ev ap) w)"
  "wd_db (snd (WriteEventThenRow ev ap w)) = wd_db (snd (in_tx ''commit: %w'' (write_body ev ap) w))"
  by (auto simp: WriteEventThenRow_def bindE_def publish_def modify_def ret_def
      split: prod.splits sum.splits)

lemma write_body_True: "write_body ev ap w = (Inr (x, c), w') \<Longrightarrow> c"
  by (auto simp: write_body_def run_simps Let_def)

lemma in_tx_committed:
  assumes r: "in_tx msg body w = (Inr x, w')" and c: "\<forall>w1 c w2. body w1 = (Inr (x, c), w2) \<longrightarrow> c"
  obtains w1 w2 where "body w1 = (Inr (x, True), w2)" "wd_db w1 = wd_db w" "wd_db w' = wd_db w2"
proof (cases rule: in_tx_run [OF r])
  case (1 w1 w2)
  then show thesis by (rule that)
next
  case (2 w1 w2)
  with c show thesis by blast
qed

lemma in_tx_Inl: "fst (in_tx msg body w) = Inl e \<Longrightarrow> wd_db (snd (in_tx msg body w)) = wd_db w"
  by (metis in_tx_error prod.collapse)

text \<open>The rule every store uses: a predicate on the tables survives if it survives the new event
  followed by a successful projection.\<close>

lemma WriteEventThenRow_rule:
  assumes P: "P (wd_db w)"
    and step: "\<And>w1 w2 ev'. ev' = stored_event (ev\<lparr>ev_sequence := next_sequence (ev_run_id ev) (wd_db w)\<rparr>) \<Longrightarrow>
      insert_event ev' (wd_db w) = Inr (1, wd_db w1) \<Longrightarrow> wd_db w1 = add_event ev' (wd_db w) \<Longrightarrow>
      (case ap of None \<Rightarrow> w2 = w1 | Some m \<Rightarrow> m w1 = (Inr (), w2)) \<Longrightarrow> P (wd_db w2)"
  shows "P (wd_db (snd (WriteEventThenRow ev ap w)))"
  unfolding WriteEventThenRow_result(2)
proof (cases rule: in_tx_cases [of "''commit: %w''" "write_body ev ap" w])
  case aborted
  with P show "P (wd_db (snd (in_tx ''commit: %w'' (write_body ev ap) w)))" by simp
next
  case (committed w1 x w2)
  from write_body_committed [OF committed(1)] committed(3) obtain w3 n where
    x: "x = ev\<lparr>ev_sequence := next_sequence (ev_run_id ev) (wd_db w)\<rparr>"
    and ins: "insert_event (stored_event x) (wd_db w) = Inr (n, wd_db w3)"
    and ap: "case ap of None \<Rightarrow> w2 = w3 | Some m \<Rightarrow> m w3 = (Inr (), w2)"
    by auto
  from insert_event_Inr [OF ins] have "n = 1" "wd_db w3 = add_event (stored_event x) (wd_db w)"
    by simp_all
  with step [OF _ _ _ ap] x ins have "P (wd_db w2)" by metis
  with committed(4) show "P (wd_db (snd (in_tx ''commit: %w'' (write_body ev ap) w)))" by metis
qed

lemma stored_event_sel [simp]:
  "ev_id (stored_event e) = ev_id e" "ev_run_id (stored_event e) = ev_run_id e"
  "ev_sequence (stored_event e) = ev_sequence e" "ev_kind (stored_event e) = ev_kind e"
  "ev_idempotency_key (stored_event e) = ev_idempotency_key e"
  "ev_correlation_id (stored_event e) = ev_correlation_id e"
  "ev_payload (stored_event e) = ev_payload e"
  by (simp_all add: stored_event_def)

section \<open>The contract of the log\<close>

text \<open>
  What the projection stores rely on when they append an event: a failed append changes no table,
  and a successful one is the new event, numbered next in its run, followed by the projection
  step. Everything the stores need is derived from these two laws.
\<close>

locale event_log =
  fixes append :: "event \<Rightarrow> unit prog option \<Rightarrow> event prog"
  assumes append_rule:
    "P (wd_db (w::world)) \<Longrightarrow>
     (\<And>w1 (w2::world) ev'. ev' = stored_event (ev\<lparr>ev_sequence := next_sequence (ev_run_id ev) (wd_db w)\<rparr>) \<Longrightarrow>
        insert_event ev' (wd_db w) = Inr (1, wd_db w1) \<Longrightarrow> wd_db w1 = add_event ev' (wd_db w) \<Longrightarrow>
        (case ap of None \<Rightarrow> w2 = w1 | Some m \<Rightarrow> m w1 = (Inr (), w2)) \<Longrightarrow> P (wd_db w2)) \<Longrightarrow>
     P (wd_db (snd (append ev ap w)))"
    and append_fail:
    "fst (append ev ap w) = Inl e \<Longrightarrow> wd_db (snd (append ev ap w)) = wd_db w"
begin

lemma append_keeps:
  assumes ins: "\<And>d e d'. P d \<Longrightarrow> ev_sequence e = next_sequence (ev_run_id e) d \<Longrightarrow>
      insert_event e d = Inr (1, d') \<Longrightarrow> P d'"
    and ap: "\<And>m. ap = Some m \<Longrightarrow> keeps (on_db P) m"
  shows "keeps (on_db P) (append ev ap)"
  unfolding keeps_def on_db_def
proof (intro allI impI)
  fix w :: world assume P: "P (wd_db w)"
  show "P (wd_db (snd (append ev ap w)))"
  proof (rule append_rule [where P = P and w = w, OF P])
    fix w1 w2 :: world and ev'
    assume ev': "ev' = stored_event (ev\<lparr>ev_sequence := next_sequence (ev_run_id ev) (wd_db w)\<rparr>)"
      and i: "insert_event ev' (wd_db w) = Inr (1, wd_db w1)"
      and m: "case ap of None \<Rightarrow> w2 = w1 | Some m \<Rightarrow> m w1 = (Inr (), w2)"
    have "P (wd_db w1)" using ins [OF P _ i] by (simp add: ev')
    then show "P (wd_db w2)" using m ap
      by (auto simp: keeps_def on_db_def split: option.splits)
  qed
qed

text \<open>Events are never changed or removed.\<close>

lemma append_only:
  assumes "\<And>m pre. ap = Some m \<Longrightarrow> keeps (on_db (\<lambda>d. \<exists>suf. t_events d = pre @ suf)) m"
  shows "\<exists>suf. t_events (wd_db (snd (append ev ap w))) = t_events (wd_db w) @ suf"
proof -
  have "keeps (on_db (\<lambda>d. \<exists>suf. t_events d = t_events (wd_db w) @ suf)) (append ev ap)"
    using assms by (intro append_keeps) (auto simp: add_event_def dest!: insert_event_Inr)
  then show ?thesis by (simp add: keeps_def on_db_def)
qed

lemma append_log_ok:
  assumes "\<And>m. ap = Some m \<Longrightarrow> keeps (on_db log_ok) m"
  shows "keeps (on_db log_ok) (append ev ap)"
  using assms by (intro append_keeps) (auto intro: insert_event_log_ok)

end

lemma WriteEventThenRow_fail:
  "fst (WriteEventThenRow ev ap w) = Inl e \<Longrightarrow> wd_db (snd (WriteEventThenRow ev ap w)) = wd_db w"
  unfolding WriteEventThenRow_result by (rule in_tx_Inl)

interpretation elog: event_log WriteEventThenRow
proof unfold_locales
  fix P and w :: world and ev and ap :: "unit prog option"
  assume "P (wd_db w)"
    and "\<And>w1 (w2::world) ev'. ev' = stored_event (ev\<lparr>ev_sequence := next_sequence (ev_run_id ev) (wd_db w)\<rparr>) \<Longrightarrow>
        insert_event ev' (wd_db w) = Inr (1, wd_db w1) \<Longrightarrow> wd_db w1 = add_event ev' (wd_db w) \<Longrightarrow>
        (case ap of None \<Rightarrow> w2 = w1 | Some m \<Rightarrow> m w1 = (Inr (), w2)) \<Longrightarrow> P (wd_db w2)"
  then show "P (wd_db (snd (WriteEventThenRow ev ap w)))" by (rule WriteEventThenRow_rule)
qed (rule WriteEventThenRow_fail)

section \<open>Atomicity, numbering, idempotence\<close>

definition leaves_log :: "unit prog option \<Rightarrow> bool" where
  "leaves_log ap \<longleftrightarrow> (\<forall>m w. ap = Some m \<longrightarrow> t_events (wd_db (snd (m w))) = t_events (wd_db w))"

lemma leaves_log_keeps: "leaves_log ap \<Longrightarrow> ap = Some m \<Longrightarrow> keeps (on_db (\<lambda>d. P (t_events d))) m"
  by (simp add: leaves_log_def keeps_def on_db_def)

lemma write_event_atomic_aux:
  "(\<exists>e. fst (WriteEventThenRow ev ap w) = Inl e \<and>
        wd_db (snd (WriteEventThenRow ev ap w)) = wd_db w) \<or>
   (\<exists>w1 w2. fst (WriteEventThenRow ev ap w) =
          Inr (ev\<lparr>ev_sequence := next_sequence (ev_run_id ev) (wd_db w)\<rparr>) \<and>
        wd_db w1 = add_event (stored_event (ev\<lparr>ev_sequence := next_sequence (ev_run_id ev) (wd_db w)\<rparr>))
          (wd_db w) \<and>
        (case ap of None \<Rightarrow> w2 = w1 | Some m \<Rightarrow> m w1 = (Inr (), w2)) \<and>
        wd_db (snd (WriteEventThenRow ev ap w)) = wd_db w2)"
proof (cases "fst (WriteEventThenRow ev ap w)")
  case (Inl e)
  then show ?thesis using WriteEventThenRow_fail by blast
next
  case (Inr ev')
  then obtain w' where tx: "in_tx ''commit: %w'' (write_body ev ap) w = (Inr ev', w')"
    unfolding WriteEventThenRow_result by (cases "in_tx ''commit: %w'' (write_body ev ap) w") auto
  have c: "\<forall>w1 c w2. write_body ev ap w1 = (Inr (ev', c), w2) \<longrightarrow> c"
    using write_body_True by blast
  from in_tx_committed [OF tx c] obtain w1 w2 where b: "write_body ev ap w1 = (Inr (ev', True), w2)"
    and w: "wd_db w1 = wd_db w" "wd_db w' = wd_db w2" by blast
  from write_body_committed [OF b] obtain w3 n where
    e: "ev' = ev\<lparr>ev_sequence := next_sequence (ev_run_id ev) (wd_db w)\<rparr>"
    and i: "insert_event (stored_event ev') (wd_db w) = Inr (n, wd_db w3)"
    and m: "case ap of None \<Rightarrow> w2 = w3 | Some m \<Rightarrow> m w3 = (Inr (), w2)"
    using w(1) by auto
  from insert_event_Inr [OF i] Inr m tx w(2) show ?thesis
    unfolding WriteEventThenRow_result by (intro disjI2 exI [of _ w3] exI [of _ w2]) (simp add: e)
qed

lemma leaves_log_step:
  assumes "leaves_log ap" and "case ap of None \<Rightarrow> w2 = w1 | Some m \<Rightarrow> m w1 = (Inr (), w2)"
  shows "t_events (wd_db w2) = t_events (wd_db w1)"
proof (cases ap)
  case None
  with assms show ?thesis by simp
next
  case (Some m)
  with assms(1) have "t_events (wd_db (snd (m w1))) = t_events (wd_db w1)"
    by (simp add: leaves_log_def)
  with assms(2) Some show ?thesis by simp
qed

text \<open>
  C2. Writing an event with its projection is atomic under every driver fault: either an error
  comes back and no table has changed, or the tables are those after the event was inserted at
  the end of the log, with the next number of its run, and then the projection step succeeded,
  and the caller gets the numbered event.
\<close>

theorem write_event_then_row_atomic:
  "(\<exists>e. fst (WriteEventThenRow ev ap w) = Inl e \<and>
        wd_db (snd (WriteEventThenRow ev ap w)) = wd_db w) \<or>
   (\<exists>w1 w2. fst (WriteEventThenRow ev ap w) =
          Inr (ev\<lparr>ev_sequence := next_sequence (ev_run_id ev) (wd_db w)\<rparr>) \<and>
        wd_db w1 = add_event (stored_event (ev\<lparr>ev_sequence := next_sequence (ev_run_id ev) (wd_db w)\<rparr>))
          (wd_db w) \<and>
        (case ap of None \<Rightarrow> w2 = w1 | Some m \<Rightarrow> m w1 = (Inr (), w2)) \<and>
        wd_db (snd (WriteEventThenRow ev ap w)) = wd_db w2)"
  by (rule write_event_atomic_aux)

text \<open>
  C13. Writing an event, with any projection step that leaves the log alone, keeps the log well
  formed under every driver fault: identifiers and idempotency keys stay unique, the events of
  every run stay numbered 1, 2, 3, \<dots> without a gap, and no earlier event is changed or removed.
\<close>

theorem event_log_dense_and_append_only:
  assumes "log_ok (wd_db w)" and "leaves_log ap"
  shows "log_ok (wd_db (snd (WriteEventThenRow ev ap w))) \<and>
    (\<exists>suf. t_events (wd_db (snd (WriteEventThenRow ev ap w))) = t_events (wd_db w) @ suf \<and>
           length suf \<le> 1)"
proof
  have k: "keeps (on_db log_ok) m" if "ap = Some m" for m
    using leaves_log_keeps [OF assms(2) that, of "\<lambda>es. log_ok (undefined\<lparr>t_events := es\<rparr>)"]
    by (simp add: keeps_def on_db_def log_ok_def events_of_def)
  have "keeps (on_db log_ok) (WriteEventThenRow ev ap)" using k by (rule elog.append_log_ok)
  then show "log_ok (wd_db (snd (WriteEventThenRow ev ap w)))"
    using assms(1) by (simp add: keeps_def on_db_def)
  show "\<exists>suf. t_events (wd_db (snd (WriteEventThenRow ev ap w))) = t_events (wd_db w) @ suf \<and>
           length suf \<le> 1"
  proof (rule elog.append_rule [where w = w])
    fix w1 w2 :: world and ev'
    assume "wd_db w1 = add_event ev' (wd_db w)" and "case ap of None \<Rightarrow> w2 = w1 | Some m \<Rightarrow> m w1 = (Inr (), w2)"
    then have "t_events (wd_db w2) = t_events (wd_db w) @ [ev']"
      using leaves_log_step [OF assms(2)] by (simp add: add_event_def)
    then show "\<exists>suf. t_events (wd_db w2) = t_events (wd_db w) @ suf \<and> length suf \<le> 1" by simp
  qed simp
qed

lemma WriteEventIdempotent_True:
  assumes "WriteEventIdempotent ev ap w = (Inr True, w')"
  shows "ev_idempotency_key ev \<noteq> [] \<and>
    count_where (\<lambda>e. ev_idempotency_key e = ev_idempotency_key ev) (t_events (wd_db w)) = 0 \<and>
    (\<exists>x w1. wd_db w1 = wd_db w \<and> WriteEventThenRow ev ap w1 = (Inr x, w'))"
proof -
  let ?v = "w\<lparr>wd_calls := Suc (wd_calls w)\<rparr>"
  have "wd_db ?v = wd_db w" by simp
  with assms show ?thesis
    by (auto simp: WriteEventIdempotent_def run_simps split: if_splits intro!: exI [of _ ?v])
qed

lemma WriteEventIdempotent_known:
  assumes "0 < count_where (\<lambda>e. ev_idempotency_key e = ev_idempotency_key ev) (t_events (wd_db v))"
  shows "fst (WriteEventIdempotent ev ap v) \<noteq> Inr True \<and>
    wd_db (snd (WriteEventIdempotent ev ap v)) = wd_db v"
proof (cases "ev_idempotency_key ev = [] \<or> wd_faults v (wd_calls v) \<noteq> None")
  case True
  then show ?thesis
    by (cases "ev_idempotency_key ev = []")
      (auto simp: WriteEventIdempotent_def raise_def bindE_def wrapE_def query_def sql_def Let_def)
next
  case False
  then show ?thesis using assms
    by (simp add: WriteEventIdempotent_def bindE_def wrapE_def query_def sql_def gets_def ret_def)
qed

text \<open>
  An idempotent write happens once: when it reports true, the key was new, is in the log now,
  and from any later world whose log extends this one a write with the same key never writes
  again, whatever event and projection it carries: it reports false or a driver error and changes
  no table.
\<close>

lemma write_event_idempotent_once:
  assumes "WriteEventIdempotent ev ap w = (Inr True, w')" and "leaves_log ap"
    and "t_events (wd_db v) = t_events (wd_db w') @ later"
    and "ev_idempotency_key ev2 = ev_idempotency_key ev"
  shows "ev_idempotency_key ev \<notin> ev_idempotency_key ` set (t_events (wd_db w)) \<and>
    ev_idempotency_key ev \<in> ev_idempotency_key ` set (t_events (wd_db w')) \<and>
    fst (WriteEventIdempotent ev2 ap2 v) \<noteq> Inr True \<and>
    wd_db (snd (WriteEventIdempotent ev2 ap2 v)) = wd_db v"
proof -
  let ?k = "ev_idempotency_key ev"
  from WriteEventIdempotent_True [OF assms(1)] obtain x w1 where ne: "?k \<noteq> []"
    and new: "?k \<notin> ev_idempotency_key ` set (t_events (wd_db w))"
    and w1: "wd_db w1 = wd_db w" "WriteEventThenRow ev ap w1 = (Inr x, w')"
    by (force simp: count_where_def filter_empty_conv)
  obtain w2 w3 where "wd_db w2 = add_event (stored_event (ev\<lparr>ev_sequence :=
        next_sequence (ev_run_id ev) (wd_db w1)\<rparr>)) (wd_db w1)"
    "case ap of None \<Rightarrow> w3 = w2 | Some m \<Rightarrow> m w2 = (Inr (), w3)" "wd_db w' = wd_db w3"
    using write_event_atomic_aux [of ev ap w1] w1(2) by auto
  then have "\<exists>e. t_events (wd_db w') = t_events (wd_db w) @ [e] \<and> ev_idempotency_key e = ?k"
    using leaves_log_step [OF assms(2)] w1(1) by (simp add: add_event_def)
  then have k: "?k \<in> ev_idempotency_key ` set (t_events (wd_db w'))" by auto
  then have "count_where (\<lambda>e. ev_idempotency_key e = ?k) (t_events (wd_db v)) > 0"
    using assms(3) by (auto simp: count_where_pos)
  from WriteEventIdempotent_known [of ev2 v ap2] this assms(4)
  have "fst (WriteEventIdempotent ev2 ap2 v) \<noteq> Inr True \<and>
      wd_db (snd (WriteEventIdempotent ev2 ap2 v)) = wd_db v" by simp
  with new k show ?thesis by blast
qed

section \<open>A sample world\<close>

definition sample_rnd :: entropy where
  "sample_rnd k i = (if i = 15 then char_of k else CHR ''x'')"

lemma sample_ids [eval_simps]:
  "NewID sample_rnd j = NewID sample_rnd k \<longleftrightarrow> j mod 256 = k mod 256"
proof -
  have "(char_of j :: char) = char_of k \<longleftrightarrow> j mod 256 = k mod 256"
    by (simp add: char_of_eq_iff take_bit_eq_mod)
  then show ?thesis by (auto simp: NewID_eq_iff sample_rnd_def)
qed

definition world_with :: "db \<Rightarrow> (nat \<Rightarrow> string option) \<Rightarrow> world" where
  "world_with d faults = \<lparr>wd_db = d, wd_clock = (\<lambda>k. 1700000000000000000 + 1000000000 * int k),
     wd_ticks = 0, wd_rnd = sample_rnd, wd_ids = 0,
     wd_faults = faults, wd_calls = 0, wd_zone = 0, wd_bus = True, wd_published = []\<rparr>"

lemmas [eval_simps] = world_with_def write_body_def WriteEventThenRow_def next_sequence_def
  events_of_def insert_event_def add_event_def stored_event_def publish_def WriteEventIdempotent_def

definition sample_event :: event where
  "sample_event = \<lparr>ev_id = ''e1'', ev_run_id = ''r1'', ev_sequence = 0, ev_kind = EventPhaseStarted,
     ev_schema_version = 1, ev_idempotency_key = ''k1'', ev_causation_id = [], ev_correlation_id = [],
     ev_payload = JNull, ev_created_at = 1700000000500000000\<rparr>"

lemma sample_log_ok: "log_ok (wd_db (world_with empty_db f))"
  by (simp add: world_with_def empty_log_ok)

lemma event_log_dense_and_append_only_witness:
  "log_ok (wd_db (snd (WriteEventThenRow sample_event None (world_with empty_db (\<lambda>_. None)))))"
  using event_log_dense_and_append_only [OF sample_log_ok, of None] by (simp add: leaves_log_def)

lemma write_event_idempotent_once_witness:
  "fst (WriteEventIdempotent sample_event None
     (snd (WriteEventIdempotent sample_event None (world_with empty_db (\<lambda>_. None))))) \<noteq> Inr True"
proof -
  let ?r = "WriteEventIdempotent sample_event None (world_with empty_db (\<lambda>_. None))"
  have "fst ?r = Inr True"
    by (simp add: eval_simps sample_event_def)
  then have r: "?r = (Inr True, snd ?r)" by (simp add: prod_eq_iff)
  show ?thesis
    using write_event_idempotent_once [OF r, of "snd ?r" "[]" sample_event None]
    by (simp add: leaves_log_def)
qed

end
