(* ===== verification/Run_Store.thy ===== *)
theory Run_Store
  imports Event_Store
begin

text \<open>
  \<open>store/run_store.go\<close> and \<open>store/job_store.go\<close>: the runs and the jobs of a run, each change written
  with its event. \<open>db_ok\<close> is the consistency every store keeps: the log is well formed, primary
  keys are unique and references point to rows.
\<close>

section \<open>Events\<close>

definition jstrs :: "(string \<times> string) list \<Rightarrow> json" where
  "jstrs kvs = JObj (map (\<lambda>(k, v). (k, JStr v)) kvs)"

definition mk_event :: "ident \<Rightarrow> ident \<Rightarrow> EventKind \<Rightarrow> ident \<Rightarrow> json \<Rightarrow> time \<Rightarrow> event" where
  "mk_event i run kind corr payload now =
     \<lparr>ev_id = i, ev_run_id = run, ev_sequence = 0, ev_kind = kind, ev_schema_version = 1,
      ev_idempotency_key = [], ev_causation_id = [], ev_correlation_id = corr,
      ev_payload = payload, ev_created_at = now\<rparr>"

text \<open>\<open>WriteEventThenRow\<close> with a projection that is one statement whose row count is not read.\<close>

definition write_row :: "event \<Rightarrow> unit prog \<Rightarrow> unit prog" where
  "write_row ev m = bindE (WriteEventThenRow ev (Some m)) (\<lambda>_. ret ())"

section \<open>Runs\<close>

definition insert_run :: "run \<Rightarrow> db \<Rightarrow> goerr + nat \<times> db" where
  "insert_run r d = map_sum id (\<lambda>rows. (1, d\<lparr>t_runs := rows\<rparr>)) (insert_into ''runs.id'' run_id r (t_runs d))"

definition CreateRun :: "run \<Rightarrow> unit prog" where
  "CreateRun r =
     bindE new_id (\<lambda>i.
     write_row (mk_event i (run_id r) EventRunCreated []
         (jstrs [(''run_id'', run_id r), (''mode'', run_mode r)]) (run_started_at r))
       (bindE (gets wd_zone) (\<lambda>zone.
        bindE (wrapE ''insert run: %w'' []
          (exec (insert_run (r\<lparr>run_started_at := local_stamp zone (run_started_at r), run_ended_at := None\<rparr>))))
          (\<lambda>_. ret ()))))"

definition find_run :: "ident \<Rightarrow> db \<Rightarrow> run option" where
  "find_run i d = find (\<lambda>r. run_id r = i) (t_runs d)"

definition GetRun :: "ident \<Rightarrow> run prog" where
  "GetRun i = wrapE ''get run %q: %w'' [i] (query_row (find_run i))"

definition ListRuns :: "run list prog" where
  "ListRuns = wrapE ''list runs: %w'' [] (query (\<lambda>d. sort_key (\<lambda>r. - run_started_at r) (t_runs d)))"

definition update_run :: "ident \<Rightarrow> (run \<Rightarrow> run) \<Rightarrow> db \<Rightarrow> goerr + nat \<times> db" where
  "update_run i f d =
     Inr (count_where (\<lambda>r. run_id r = i) (t_runs d), d\<lparr>t_runs := update_where (\<lambda>r. run_id r = i) f (t_runs d)\<rparr>)"

definition CompleteRun :: "ident \<Rightarrow> RunState \<Rightarrow> unit prog" where
  "CompleteRun runID st =
     bindE time_now (\<lambda>now. bindE new_id (\<lambda>i.
     write_row (mk_event i runID EventRunCompleted []
         (jstrs [(''run_id'', runID), (''state'', run_state_string st)]) now)
       (bindE (gets wd_zone) (\<lambda>zone.
        bindE (exec (update_run runID (\<lambda>r. r\<lparr>run_state := st, run_ended_at := Some (local_stamp zone now)\<rparr>)))
          (\<lambda>_. ret ())))))"

section \<open>Jobs\<close>

definition insert_job :: "job \<Rightarrow> db \<Rightarrow> goerr + nat \<times> db" where
  "insert_job j d =
     map_sum id (\<lambda>rows. (1, d\<lparr>t_jobs := rows\<rparr>))
       (require_fk (has_run d (job_run_id j)) ''jobs.run_id''
         (insert_into ''jobs.id'' job_id j (t_jobs d)))"

definition CreateJob :: "job \<Rightarrow> unit prog" where
  "CreateJob j =
     bindE new_id (\<lambda>i.
     write_row (mk_event i (job_run_id j) EventJobCreated (job_id j)
         (jstrs [(''job_id'', job_id j), (''run_id'', job_run_id j), (''role'', job_role j), (''cli'', job_cli j)])
         (job_started_at j))
       (bindE (gets wd_zone) (\<lambda>zone.
        bindE (exec (insert_job (j\<lparr>job_started_at := local_stamp zone (job_started_at j), job_ended_at := None\<rparr>)))
          (\<lambda>_. ret ()))))"

fun job_event_kind :: "JobState \<Rightarrow> EventKind" where
  "job_event_kind JobStateComplete = EventJobCompleted"
| "job_event_kind JobStateFailed = EventJobFailed"
| "job_event_kind JobStateDispatched = EventJobLeased"
| "job_event_kind _ = EventJobStateChanged"

definition terminal_job :: "JobState \<Rightarrow> bool" where
  "terminal_job s \<longleftrightarrow> s = JobStateComplete \<or> s = JobStateFailed \<or> s = JobStateCancelled"

definition update_job :: "ident \<Rightarrow> (job \<Rightarrow> job) \<Rightarrow> db \<Rightarrow> goerr + nat \<times> db" where
  "update_job i f d =
     Inr (count_where (\<lambda>j. job_id j = i) (t_jobs d), d\<lparr>t_jobs := update_where (\<lambda>j. job_id j = i) f (t_jobs d)\<rparr>)"

definition find_job :: "ident \<Rightarrow> db \<Rightarrow> job option" where
  "find_job i d = find (\<lambda>j. job_id j = i) (t_jobs d)"

definition UpdateJobState :: "ident \<Rightarrow> JobState \<Rightarrow> unit prog" where
  "UpdateJobState jobID newState =
     bindE time_now (\<lambda>now.
     bindE (wrapE ''get run_id for job %q: %w'' [jobID]
       (query_row (\<lambda>d. map_option job_run_id (find_job jobID d)))) (\<lambda>runID.
     bindE new_id (\<lambda>i.
     write_row (mk_event i runID (job_event_kind newState) jobID
         (jstrs [(''job_id'', jobID), (''state'', job_state_string newState)]) now)
       (bindE (gets wd_zone) (\<lambda>zone.
        bindE (exec (update_job jobID (\<lambda>j.
          if terminal_job newState
          then j\<lparr>job_state := newState, job_ended_at := Some (local_stamp zone now)\<rparr>
          else j\<lparr>job_state := newState\<rparr>)))
          (\<lambda>_. ret ()))))))"

definition ListJobsByRun :: "ident \<Rightarrow> job list prog" where
  "ListJobsByRun runID =
     wrapE ''list jobs by run: %w'' []
       (query (\<lambda>d. sort_key job_started_at (filter (\<lambda>j. job_run_id j = runID) (t_jobs d))))"

definition GetJob :: "ident \<Rightarrow> job prog" where
  "GetJob i = wrapE ''get job %q: %w'' [i] (query_row (find_job i))"

lemmas [eval_simps] = jstrs_def mk_event_def write_row_def insert_run_def CreateRun_def find_run_def
  GetRun_def update_run_def CompleteRun_def insert_job_def CreateJob_def terminal_job_def
  update_job_def find_job_def UpdateJobState_def GetJob_def

section \<open>Consistency of the tables\<close>

definition keys_ok :: "db \<Rightarrow> bool" where
  "keys_ok d \<longleftrightarrow>
     distinct (map run_id (t_runs d)) \<and> distinct (map job_id (t_jobs d)) \<and>
     distinct (map fr_id (t_findings d)) \<and> distinct (map art_id (t_artifacts d)) \<and>
     distinct (map ar_id (t_attention d)) \<and> distinct (map dr_id (t_dispatches d)) \<and>
     distinct (map w_handle (t_workers d)) \<and> distinct (map pr_id (t_plans d)) \<and>
     distinct (map (\<lambda>p. (pr_run_id p, pr_number p)) (t_plans d)) \<and>
     distinct (map cp_id (t_checkpoints d)) \<and> distinct (map sr_id (t_supervisor d)) \<and>
     distinct (map co_id (t_costs d))"

definition refs_ok :: "db \<Rightarrow> bool" where
  "refs_ok d \<longleftrightarrow>
     (\<forall>j \<in> set (t_jobs d). has_run d (job_run_id j)) \<and>
     (\<forall>f \<in> set (t_findings d). has_run d (fr_run_id f) \<and> has_job d (fr_job_id f)) \<and>
     (\<forall>a \<in> set (t_artifacts d). has_job d (art_job_id a)) \<and>
     (\<forall>a \<in> set (t_attention d). has_run d (ar_run_id a)) \<and>
     (\<forall>x \<in> set (t_dispatches d). has_run d (dr_run_id x)) \<and>
     (\<forall>p \<in> set (t_plans d). has_run d (pr_run_id p)) \<and>
     (\<forall>c \<in> set (t_checkpoints d). has_run d (cp_run_id c) \<and>
        pred_option (has_plan d) (cp_plan_id c)) \<and>
     (\<forall>s \<in> set (t_supervisor d). has_run d (sr_run_id s) \<and> has_job d (sr_job_id s)) \<and>
     (\<forall>c \<in> set (t_costs d). has_run d (co_run_id c) \<and> has_job d (co_job_id c))"

definition db_ok :: "db \<Rightarrow> bool" where
  "db_ok d \<longleftrightarrow> log_ok d \<and> keys_ok d \<and> refs_ok d"

lemma map_sum_Inr: "map_sum id g x = Inr y \<longleftrightarrow> (\<exists>z. x = Inr z \<and> y = g z)"
  by (cases x) auto

text \<open>What a change of one table leaves alone.\<close>

lemma has_run_frame [simp]:
  "has_run (d\<lparr>t_events := x0\<rparr>) = has_run d"
  "has_run (d\<lparr>t_jobs := x2\<rparr>) = has_run d"
  "has_run (d\<lparr>t_findings := x3\<rparr>) = has_run d"
  "has_run (d\<lparr>t_artifacts := x4\<rparr>) = has_run d"
  "has_run (d\<lparr>t_attention := x5\<rparr>) = has_run d"
  "has_run (d\<lparr>t_dispatches := x6\<rparr>) = has_run d"
  "has_run (d\<lparr>t_workers := x7\<rparr>) = has_run d"
  "has_run (d\<lparr>t_plans := x8\<rparr>) = has_run d"
  "has_run (d\<lparr>t_checkpoints := x9\<rparr>) = has_run d"
  "has_run (d\<lparr>t_supervisor := x10\<rparr>) = has_run d"
  "has_run (d\<lparr>t_costs := x11\<rparr>) = has_run d"
  by (simp_all add: has_run_def fun_eq_iff)

lemma has_job_frame [simp]:
  "has_job (d\<lparr>t_events := x0\<rparr>) = has_job d"
  "has_job (d\<lparr>t_runs := x1\<rparr>) = has_job d"
  "has_job (d\<lparr>t_findings := x3\<rparr>) = has_job d"
  "has_job (d\<lparr>t_artifacts := x4\<rparr>) = has_job d"
  "has_job (d\<lparr>t_attention := x5\<rparr>) = has_job d"
  "has_job (d\<lparr>t_dispatches := x6\<rparr>) = has_job d"
  "has_job (d\<lparr>t_workers := x7\<rparr>) = has_job d"
  "has_job (d\<lparr>t_plans := x8\<rparr>) = has_job d"
  "has_job (d\<lparr>t_checkpoints := x9\<rparr>) = has_job d"
  "has_job (d\<lparr>t_supervisor := x10\<rparr>) = has_job d"
  "has_job (d\<lparr>t_costs := x11\<rparr>) = has_job d"
  by (simp_all add: has_job_def fun_eq_iff)

lemma has_plan_frame [simp]:
  "has_plan (d\<lparr>t_events := x0\<rparr>) = has_plan d"
  "has_plan (d\<lparr>t_runs := x1\<rparr>) = has_plan d"
  "has_plan (d\<lparr>t_jobs := x2\<rparr>) = has_plan d"
  "has_plan (d\<lparr>t_findings := x3\<rparr>) = has_plan d"
  "has_plan (d\<lparr>t_artifacts := x4\<rparr>) = has_plan d"
  "has_plan (d\<lparr>t_attention := x5\<rparr>) = has_plan d"
  "has_plan (d\<lparr>t_dispatches := x6\<rparr>) = has_plan d"
  "has_plan (d\<lparr>t_workers := x7\<rparr>) = has_plan d"
  "has_plan (d\<lparr>t_checkpoints := x9\<rparr>) = has_plan d"
  "has_plan (d\<lparr>t_supervisor := x10\<rparr>) = has_plan d"
  "has_plan (d\<lparr>t_costs := x11\<rparr>) = has_plan d"
  by (simp_all add: has_plan_def fun_eq_iff)

lemma log_ok_frame [simp]:
  "log_ok (d\<lparr>t_runs := x1\<rparr>) = log_ok d"
  "log_ok (d\<lparr>t_jobs := x2\<rparr>) = log_ok d"
  "log_ok (d\<lparr>t_findings := x3\<rparr>) = log_ok d"
  "log_ok (d\<lparr>t_artifacts := x4\<rparr>) = log_ok d"
  "log_ok (d\<lparr>t_attention := x5\<rparr>) = log_ok d"
  "log_ok (d\<lparr>t_dispatches := x6\<rparr>) = log_ok d"
  "log_ok (d\<lparr>t_workers := x7\<rparr>) = log_ok d"
  "log_ok (d\<lparr>t_plans := x8\<rparr>) = log_ok d"
  "log_ok (d\<lparr>t_checkpoints := x9\<rparr>) = log_ok d"
  "log_ok (d\<lparr>t_supervisor := x10\<rparr>) = log_ok d"
  "log_ok (d\<lparr>t_costs := x11\<rparr>) = log_ok d"
  by (simp_all add: log_ok_def fun_eq_iff events_of_def)

lemma image_update_where:
  "(\<And>r. key (f r) = key r) \<Longrightarrow> key ` set (update_where P f rows) = key ` set rows"
  by (metis list.set_map update_where_keys)

text \<open>The facts that settle the consistency of a single statement.\<close>

lemmas stmt_simps = map_sum_Inr require_fk_Inr insert_into_Inr db_ok_def keys_ok_def refs_ok_def

lemma db_ok_add_event:
  assumes "db_ok d" "ev_sequence e = next_sequence (ev_run_id e) d" "insert_event e d = Inr (n, d')"
  shows "db_ok d'"
proof -
  have "log_ok d'" using assms by (auto simp: db_ok_def intro: insert_event_log_ok)
  moreover have "d' = add_event e d" using insert_event_Inr assms(3) by blast
  ultimately show "db_ok d'" using assms(1)
    by (simp add: db_ok_def keys_ok_def refs_ok_def add_event_def)
qed

lemma keeps_write_row:
  assumes "\<And>d e d'. P d \<Longrightarrow> ev_sequence e = next_sequence (ev_run_id e) d \<Longrightarrow>
      insert_event e d = Inr (1, d') \<Longrightarrow> P d'"
    and "keeps (on_db P) m"
  shows "keeps (on_db P) (write_row ev m)"
  unfolding write_row_def
  using assms by (intro keeps_bindE keeps_ret elog.append_keeps) auto

lemma write_row_run:
  assumes "write_row ev m w = (Inr u, w')"
  obtains w1 w2 where
    "wd_db w1 = add_event (stored_event (ev\<lparr>ev_sequence := next_sequence (ev_run_id ev) (wd_db w)\<rparr>)) (wd_db w)"
    "m w1 = (Inr (), w2)" "wd_db w' = wd_db w2"
proof -
  from assms obtain x where x: "WriteEventThenRow ev (Some m) w = (Inr x, w')"
    by (auto simp: write_row_def run_simps)
  from write_event_atomic_aux [of ev "Some m" w] obtain w1 w2 where
    "wd_db w1 = add_event (stored_event (ev\<lparr>ev_sequence := next_sequence (ev_run_id ev) (wd_db w)\<rparr>)) (wd_db w)"
    "m w1 = (Inr (), w2)" "wd_db (snd (WriteEventThenRow ev (Some m) w)) = wd_db w2"
    unfolding x by auto
  with x that show thesis by simp
qed

lemma write_row_db:
  "wd_db (snd (write_row ev m w)) = wd_db w \<or>
   (\<exists>w1 w2. wd_db w1 = add_event (stored_event (ev\<lparr>ev_sequence := next_sequence (ev_run_id ev) (wd_db w)\<rparr>)) (wd_db w) \<and>
      m w1 = (Inr (), w2) \<and> wd_db (snd (write_row ev m w)) = wd_db w2)"
proof -
  have "wd_db (snd (write_row ev m w)) = wd_db (snd (WriteEventThenRow ev (Some m) w))"
    by (auto simp: write_row_def bindE_def ret_def split: prod.splits sum.splits)
  with write_event_atomic_aux [of ev "Some m" w] show ?thesis by auto
qed

lemma keeps_db_ok_write_row [keeps_intros]:
  "keeps (on_db db_ok) m \<Longrightarrow> keeps (on_db db_ok) (write_row ev m)"
  by (rule keeps_write_row) (auto intro: db_ok_add_event)

lemma insert_run_db_ok: "db_ok d \<Longrightarrow> insert_run r d = Inr (n, d') \<Longrightarrow> db_ok d'"
  by (auto simp: insert_run_def stmt_simps has_run_def)

lemma update_run_db_ok:
  assumes "\<And>r. run_id (f r) = run_id r" and "db_ok d" and "update_run i f d = Inr (n, d')"
  shows "db_ok d'"
proof -
  let ?d = "d\<lparr>t_runs := update_where (\<lambda>r. run_id r = i) f (t_runs d)\<rparr>"
  have "has_run ?d = has_run d"
    by (simp add: has_run_def fun_eq_iff image_update_where [of run_id, OF assms(1)])
  then have "db_ok ?d" using assms(2)
    by (simp add: db_ok_def keys_ok_def refs_ok_def update_where_keys [of run_id, OF assms(1)])
  then show ?thesis using assms(3) by (simp add: update_run_def)
qed

lemma insert_job_db_ok: "db_ok d \<Longrightarrow> insert_job j d = Inr (n, d') \<Longrightarrow> db_ok d'"
  by (auto simp: insert_job_def stmt_simps has_job_def)

lemma update_job_db_ok:
  assumes "\<And>j. job_id (f j) = job_id j \<and> job_run_id (f j) = job_run_id j" and "db_ok d"
    and "update_job i f d = Inr (n, d')"
  shows "db_ok d'"
proof -
  let ?d = "d\<lparr>t_jobs := update_where (\<lambda>j. job_id j = i) f (t_jobs d)\<rparr>"
  have "has_job ?d = has_job d"
    by (simp add: has_job_def fun_eq_iff image_update_where [of job_id] assms(1))
  then have "db_ok ?d" using assms(2)
    by (auto simp: db_ok_def keys_ok_def refs_ok_def update_where_keys [of job_id] assms(1)
        set_update_where)
  then show ?thesis using assms(3) by (simp add: update_job_def)
qed

lemma keeps_exec_unit:
  assumes "\<And>d n d'. P d \<Longrightarrow> f d = Inr (n, d') \<Longrightarrow> P d'"
  shows "keeps (on_db P) (exec f)"
  by (rule keeps_exec) (rule assms)

lemma runs_jobs_keep_db_ok [keeps_intros]:
  "keeps (on_db db_ok) (CreateRun r)" "keeps (on_db db_ok) (CompleteRun i st)"
  "keeps (on_db db_ok) (CreateJob j)" "keeps (on_db db_ok) (UpdateJobState i js)"
  unfolding CreateRun_def CompleteRun_def CreateJob_def UpdateJobState_def
  by (intro keeps_intros keeps_exec_unit; (erule (1) insert_run_db_ok insert_job_db_ok |
      erule (1) update_run_db_ok [rotated] update_job_db_ok [rotated]; simp))+

text \<open>A run, as the samples use it.\<close>

definition sample_run :: "ident \<Rightarrow> run" where
  "sample_run i = \<lparr>run_id = i, run_mode = ''autopilot'', run_state = RunStateActive,
     run_started_at = 1700000000000000000, run_ended_at = None, run_prd_path = [], run_spec_path = [],
     run_cost_usd = 0, run_budget_usd = None\<rparr>"

end
