(* ===== verification/Finding_Store.thy ===== *)
theory Finding_Store
  imports Run_Store
begin

text \<open>
  \<open>store/finding_store.go\<close>, \<open>store/artifact_store.go\<close> and the trigger
  \<open>findings_immutable_before_update\<close> of \<open>store/migrations/009\<close>. The lemmas give the immutability of
  findings, the single resolution, and what of a finding survives being written and read.
\<close>

section \<open>The code\<close>

text \<open>The columns the trigger protects.\<close>

definition protected_columns :: "finding_row \<Rightarrow> _" where
  "protected_columns r =
     (fr_run_id r, fr_job_id r, fr_path r, fr_line r, fr_severity r, fr_body r, fr_fingerprint r,
      fr_plan_id r, fr_phase_index r, fr_reviewer_handle r)"

definition insert_finding :: "finding_row \<Rightarrow> db \<Rightarrow> goerr + nat \<times> db" where
  "insert_finding r d =
     map_sum id (\<lambda>rows. (1, d\<lparr>t_findings := rows\<rparr>))
       (require_fk (has_run d (fr_run_id r) \<and> has_job d (fr_job_id r)) ''findings''
         (insert_into ''findings.id'' fr_id r (t_findings d)))"

text \<open>Any \<open>UPDATE findings\<close>: the trigger aborts the statement when it changes a protected column of
  some row.\<close>

definition update_findings ::
  "(finding_row \<Rightarrow> bool) \<Rightarrow> (finding_row \<Rightarrow> finding_row) \<Rightarrow> db \<Rightarrow> goerr + nat \<times> db" where
  "update_findings P f d =
     (if list_ex (\<lambda>r. P r \<and> protected_columns (f r) \<noteq> protected_columns r) (t_findings d)
      then Inl (ErrTriggerAbort
        ''findings: only resolved_by_job_id and resolved_at may be updated after insertion'')
      else Inr (count_where P (t_findings d), d\<lparr>t_findings := update_where P f (t_findings d)\<rparr>))"

definition finding_to_row :: "finding \<Rightarrow> finding_row" where
  "finding_to_row f =
     \<lparr>fr_id = f_id f, fr_run_id = f_run_id f, fr_job_id = f_job_id f, fr_path = f_path f,
      fr_line = f_line f, fr_severity = f_severity f, fr_body = f_body f,
      fr_fingerprint = f_fingerprint f, fr_resolved_by = None, fr_resolved_at = None,
      fr_plan_id = f_plan_id f,
      fr_phase_index = (case f_phase_index f of None \<Rightarrow> 0 | Some i \<Rightarrow> i),
      fr_reviewer_handle = f_reviewer_handle f\<rparr>"

definition row_to_finding :: "finding_row \<Rightarrow> finding" where
  "row_to_finding r =
     \<lparr>f_id = fr_id r, f_run_id = fr_run_id r, f_job_id = fr_job_id r, f_path = fr_path r,
      f_line = fr_line r, f_severity = fr_severity r, f_body = fr_body r,
      f_fingerprint = fr_fingerprint r,
      f_resolved_by_job_id = (case fr_resolved_by r of None \<Rightarrow> [] | Some i \<Rightarrow> i),
      f_resolved_at = fr_resolved_at r, f_plan_id = fr_plan_id r,
      f_phase_index = (if fr_plan_id r \<noteq> [] \<or> fr_phase_index r \<noteq> 0 then Some (fr_phase_index r) else None),
      f_reviewer_handle = fr_reviewer_handle r, f_source_job_ids = []\<rparr>"

text \<open>The fingerprint is written back into the caller's finding, so it is the result.\<close>

definition InsertFinding :: "digest \<Rightarrow> finding \<Rightarrow> finding prog" where
  "InsertFinding sha f =
     (let f' = f\<lparr>f_fingerprint := ComputeFingerprint sha (f_path f) (f_line f) (f_severity f) (f_body f)\<rparr> in
     bindE new_id (\<lambda>i. bindE time_now (\<lambda>now.
     bindE (write_row (mk_event i (f_run_id f') EventFindingCreated (f_job_id f')
         (JObj [(''finding_id'', JStr (f_id f')), (''job_id'', JStr (f_job_id f')),
                (''path'', JStr (f_path f')), (''line'', JInt (f_line f')),
                (''severity'', JStr (f_severity f')), (''fingerprint'', JStr (f_fingerprint f'))]) now)
       (bindE (exec (insert_finding (finding_to_row f'))) (\<lambda>_. ret ()))) (\<lambda>_.
     ret f'))))"

definition find_finding :: "ident \<Rightarrow> db \<Rightarrow> finding_row option" where
  "find_finding i d = find (\<lambda>r. fr_id r = i) (t_findings d)"

definition ResolveFinding :: "ident \<Rightarrow> ident \<Rightarrow> unit prog" where
  "ResolveFinding findingID resolvedByJobID =
     bindE time_now (\<lambda>now.
     bindE (wrapE ''get finding %q: %w'' [findingID]
       (query_row (\<lambda>d. map_option fr_run_id (find_finding findingID d)))) (\<lambda>runID.
     bindE new_id (\<lambda>i.
     write_row (mk_event i runID EventFindingResolved []
         (jstrs [(''finding_id'', findingID), (''resolved_by_job_id'', resolvedByJobID)]) now)
       (bindE (gets wd_zone) (\<lambda>zone.
        bindE (exec (update_findings (\<lambda>r. fr_id r = findingID \<and> fr_resolved_by r = None)
            (\<lambda>r. r\<lparr>fr_resolved_by := Some resolvedByJobID,
                   fr_resolved_at := Some (local_stamp zone now)\<rparr>))) (\<lambda>n.
        if n = 0 then raise (Errorf ''finding %q not found or already resolved'' [findingID])
        else ret ()))))))"

definition ListFindings :: "ident \<Rightarrow> finding list prog" where
  "ListFindings runID =
     wrapE ''query findings: %w'' []
       (query (\<lambda>d. map row_to_finding
          (sort_key (\<lambda>r. (fr_path r, fr_line r)) (filter (\<lambda>r. fr_run_id r = runID) (t_findings d)))))"

definition insert_artifact :: "artifact \<Rightarrow> db \<Rightarrow> goerr + nat \<times> db" where
  "insert_artifact a d =
     map_sum id (\<lambda>rows. (1, d\<lparr>t_artifacts := rows\<rparr>))
       (require_fk (has_job d (art_job_id a)) ''artifacts.job_id''
         (insert_into ''artifacts.id'' art_id a (t_artifacts d)))"

definition InsertArtifact :: "artifact \<Rightarrow> ident \<Rightarrow> unit prog" where
  "InsertArtifact a runID =
     bindE new_id (\<lambda>i. bindE time_now (\<lambda>now.
     write_row (mk_event i runID EventArtifactCreated (art_job_id a)
         (jstrs [(''artifact_id'', art_id a), (''job_id'', art_job_id a), (''kind'', art_kind a),
                 (''path'', art_path a)]) now)
       (bindE (exec (insert_artifact a)) (\<lambda>_. ret ()))))"

definition ListArtifacts :: "ident \<Rightarrow> artifact list prog" where
  "ListArtifacts jobID =
     wrapE ''query artifacts: %w'' []
       (query (\<lambda>d. sort_key art_id (filter (\<lambda>a. art_job_id a = jobID) (t_artifacts d))))"

section \<open>Consistency\<close>

lemma insert_finding_db_ok: "db_ok d \<Longrightarrow> insert_finding r d = Inr (n, d') \<Longrightarrow> db_ok d'"
  by (auto simp: insert_finding_def stmt_simps)

lemma update_findings_db_ok:
  assumes "\<And>r. fr_id (f r) = fr_id r" and "db_ok d" and "update_findings P f d = Inr (n, d')"
  shows "db_ok d'"
proof -
  have p: "P r \<Longrightarrow> r \<in> set (t_findings d) \<Longrightarrow> protected_columns (f r) = protected_columns r" for r
    using assms(3) by (auto simp: update_findings_def list_ex_iff split: if_splits)
  have d': "d' = d\<lparr>t_findings := update_where P f (t_findings d)\<rparr>"
    using assms(3) by (auto simp: update_findings_def split: if_splits)
  show ?thesis using assms(2) p
    by (auto simp: d' db_ok_def keys_ok_def refs_ok_def update_where_keys [of fr_id, OF assms(1)]
        set_update_where protected_columns_def)
qed

lemma insert_artifact_db_ok: "db_ok d \<Longrightarrow> insert_artifact a d = Inr (n, d') \<Longrightarrow> db_ok d'"
  by (auto simp: insert_artifact_def stmt_simps)

lemma findings_keep_db_ok [keeps_intros]:
  "keeps (on_db db_ok) (InsertFinding sha f)" "keeps (on_db db_ok) (ResolveFinding i j)"
  "keeps (on_db db_ok) (InsertArtifact a r)"
  unfolding InsertFinding_def ResolveFinding_def InsertArtifact_def Let_def
  by (intro keeps_intros keeps_exec_unit; (erule (1) insert_finding_db_ok insert_artifact_db_ok |
      erule (1) update_findings_db_ok [rotated]; simp))+

section \<open>Immutability\<close>

text \<open>What the reviewers wrote: every field but the resolution.\<close>

definition finding_content :: "finding_row \<Rightarrow> _" where
  "finding_content r = (fr_id r, protected_columns r)"

definition contents :: "db \<Rightarrow> _" where
  "contents d = map finding_content (t_findings d)"

text \<open>The predicate that the findings of a former state are still there, unchanged but for a
  resolution that came later.\<close>

definition findings_grow :: "finding_row list \<Rightarrow> db \<Rightarrow> bool" where
  "findings_grow old d \<longleftrightarrow>
     list_all2 (\<lambda>r r'. finding_content r' = finding_content r \<and>
         (fr_resolved_by r \<noteq> None \<longrightarrow> fr_resolved_by r' = fr_resolved_by r \<and> fr_resolved_at r' = fr_resolved_at r))
       old (take (length old) (t_findings d)) \<and> length old \<le> length (t_findings d)"

lemma findings_grow_refl: "findings_grow (t_findings d) d"
  by (simp add: findings_grow_def list_all2_same)

lemma findings_grow_insert: "findings_grow old d \<Longrightarrow> insert_finding r d = Inr (n, d') \<Longrightarrow> findings_grow old d'"
  by (auto simp: findings_grow_def insert_finding_def map_sum_Inr require_fk_Inr insert_into_Inr)

lemma findings_grow_resolve:
  assumes "findings_grow old d"
    and "update_findings (\<lambda>r. fr_id r = i \<and> fr_resolved_by r = None)
      (\<lambda>r. r\<lparr>fr_resolved_by := Some j, fr_resolved_at := Some t\<rparr>) d = Inr (n, d')"
  shows "findings_grow old d'"
proof -
  have d': "t_findings d' = update_where (\<lambda>r. fr_id r = i \<and> fr_resolved_by r = None)
      (\<lambda>r. r\<lparr>fr_resolved_by := Some j, fr_resolved_at := Some t\<rparr>) (t_findings d)"
    using assms(2) by (auto simp: update_findings_def split: if_splits)
  show ?thesis using assms(1)
    by (auto simp: findings_grow_def d' list_all2_conv_all_nth update_where_def finding_content_def
        protected_columns_def)
qed

lemma findings_grow_add_event [simp]: "findings_grow old (add_event e d) = findings_grow old d"
  by (simp add: findings_grow_def add_event_def)

lemma keeps_findings_grow_write_row [keeps_intros]:
  "keeps (on_db (findings_grow old)) m \<Longrightarrow> keeps (on_db (findings_grow old)) (write_row ev m)"
  by (rule keeps_write_row) (auto dest!: insert_event_Inr)

lemma findings_keep_grow [keeps_intros]:
  "keeps (on_db (findings_grow old)) (InsertFinding sha f)"
  "keeps (on_db (findings_grow old)) (ResolveFinding i j)"
  unfolding InsertFinding_def ResolveFinding_def Let_def
  by (intro keeps_intros keeps_exec_unit;
      (erule (1) findings_grow_insert | erule (1) findings_grow_resolve))+

text \<open>
  No update of the findings table, of whatever rows to whatever values, changes what a
  reviewer wrote: it either fails with the trigger's error and leaves the tables alone or keeps
  path, line, severity, body, fingerprint, plan, phase, reviewer, run and job of every row. And
  the two operations of the store keep every earlier finding in place with its content, and with
  its resolution once it has one, under every driver fault.
\<close>

lemma findings_immutable:
  "(case update_findings P f d of
      Inl e \<Rightarrow> e = ErrTriggerAbort ''findings: only resolved_by_job_id and resolved_at may be updated after insertion''
    | Inr (n, d') \<Rightarrow> map protected_columns (t_findings d') = map protected_columns (t_findings d)) \<and>
   findings_grow (t_findings (wd_db w)) (wd_db (snd (InsertFinding sha g w))) \<and>
   findings_grow (t_findings (wd_db w)) (wd_db (snd (ResolveFinding i j w)))"
proof (intro conjI)
  show "case update_findings P f d of
      Inl e \<Rightarrow> e = ErrTriggerAbort ''findings: only resolved_by_job_id and resolved_at may be updated after insertion''
    | Inr (n, d') \<Rightarrow> map protected_columns (t_findings d') = map protected_columns (t_findings d)"
    by (auto simp: update_findings_def list_ex_iff update_where_def)
next
  show "findings_grow (t_findings (wd_db w)) (wd_db (snd (InsertFinding sha g w)))"
    using keepsD [OF findings_keep_grow(1), of "t_findings (wd_db w)" w sha g]
    by (simp add: on_db_def findings_grow_refl)
  show "findings_grow (t_findings (wd_db w)) (wd_db (snd (ResolveFinding i j w)))"
    using keepsD [OF findings_keep_grow(2), of "t_findings (wd_db w)" w i j]
    by (simp add: on_db_def findings_grow_refl)
qed

section \<open>Reading back\<close>

text \<open>
  A finding read back from its row is the finding written, without resolution and source
  jobs, exactly when its phase index is recorded for a finding of a plan, and is absent or
  non-zero for a finding of no plan: the column cannot tell an absent index from zero.
\<close>

lemma finding_row_roundtrip:
  "row_to_finding (finding_to_row f) = f\<lparr>f_resolved_by_job_id := [], f_resolved_at := None, f_source_job_ids := []\<rparr>
     \<longleftrightarrow> (if f_plan_id f \<noteq> [] then f_phase_index f \<noteq> None else f_phase_index f \<noteq> Some 0)"
  by (cases f) (auto simp: row_to_finding_def finding_to_row_def split: option.splits)

end
