(* ===== verification/Plan_Store.thy ===== *)
theory Plan_Store
  imports Run_Store
begin

text \<open>
  \<open>store/plan_store.go\<close> and \<open>store/checkpoint_store.go\<close>: the plan rows of a run and the human
  checkpoints, with the property that the first decision on a checkpoint is the one that stays.
\<close>

section \<open>Plans\<close>

definition insert_plan :: "plan_record \<Rightarrow> db \<Rightarrow> goerr + nat \<times> db" where
  "insert_plan p d =
     (if (pr_run_id p, pr_number p) \<in> (\<lambda>p. (pr_run_id p, pr_number p)) ` set (t_plans d)
      then Inl (ErrUniqueViolation ''plans.run_id, plans.number'')
      else map_sum id (\<lambda>rows. (1, d\<lparr>t_plans := rows\<rparr>))
        (require_fk (has_run d (pr_run_id p)) ''plans.run_id''
          (insert_into ''plans.id'' pr_id p (t_plans d))))"

definition CreatePlan :: "plan_record \<Rightarrow> unit prog" where
  "CreatePlan p =
     (let state = (if pr_state p = [] then ''pending'' else pr_state p) in
     bindE new_id (\<lambda>i. bindE time_now (\<lambda>now.
     write_row (mk_event i (pr_run_id p) EventPlanCreated (pr_id p)
         (JObj [(''plan_id'', JStr (pr_id p)), (''run_id'', JStr (pr_run_id p)),
                (''number'', JInt (pr_number p)), (''title'', JStr (pr_title p)),
                (''blocks_on'', JArr (map JInt (pr_blocks_on p))), (''state'', JStr state)]) now)
       (bindE (wrapE ''insert plan: %w'' [] (exec (insert_plan (p\<lparr>pr_state := state\<rparr>)))) (\<lambda>_. ret ())))))"

definition find_plan :: "ident \<Rightarrow> db \<Rightarrow> plan_record option" where
  "find_plan i d = find (\<lambda>p. pr_id p = i) (t_plans d)"

definition planRunID :: "ident \<Rightarrow> ident prog" where
  "planRunID planID =
     bindE (attempt (query_row (\<lambda>d. map_option pr_run_id (find_plan planID d)))) (\<lambda>r.
     case r of
       Inr runID \<Rightarrow> ret runID
     | Inl e \<Rightarrow> if errors_is e ErrNoRows then raise ErrPlanNotFound
               else raise (Wrapf ''lookup plan run_id: %w'' [] e))"

definition update_plan :: "ident \<Rightarrow> (plan_record \<Rightarrow> plan_record) \<Rightarrow> db \<Rightarrow> goerr + nat \<times> db" where
  "update_plan i f d =
     Inr (count_where (\<lambda>p. pr_id p = i) (t_plans d), d\<lparr>t_plans := update_where (\<lambda>p. pr_id p = i) f (t_plans d)\<rparr>)"

definition UpdatePlanState :: "ident \<Rightarrow> string \<Rightarrow> unit prog" where
  "UpdatePlanState planID state =
     bindE (planRunID planID) (\<lambda>runID.
     bindE new_id (\<lambda>i. bindE time_now (\<lambda>now.
     write_row (mk_event i runID EventPlanStateChanged planID
         (jstrs [(''plan_id'', planID), (''state'', state)]) now)
       (bindE (wrapE ''update plan state: %w'' [] (exec (update_plan planID (\<lambda>p. p\<lparr>pr_state := state\<rparr>)))) (\<lambda>n.
        if n = 0 then raise ErrPlanNotFound else ret ())))))"

definition UpdatePlanBranchAndPR :: "ident \<Rightarrow> string \<Rightarrow> string \<Rightarrow> unit prog" where
  "UpdatePlanBranchAndPR planID branch prURL =
     bindE (planRunID planID) (\<lambda>runID.
     bindE new_id (\<lambda>i. bindE time_now (\<lambda>now.
     write_row (mk_event i runID EventPlanStateChanged planID
         (jstrs [(''plan_id'', planID), (''branch'', branch), (''pr_url'', prURL)]) now)
       (bindE (wrapE ''update plan branch/pr: %w'' []
          (exec (update_plan planID (\<lambda>p. p\<lparr>pr_branch := branch, pr_pr_url := prURL\<rparr>)))) (\<lambda>n.
        if n = 0 then raise ErrPlanNotFound else ret ())))))"

definition GetPlan :: "ident \<Rightarrow> plan_record prog" where
  "GetPlan i =
     bindE (attempt (query_row (find_plan i))) (\<lambda>r.
     case r of
       Inr p \<Rightarrow> ret p
     | Inl e \<Rightarrow> if errors_is e ErrNoRows then raise ErrPlanNotFound
               else raise (Wrapf ''scan plan: %w'' [] e))"

definition ListPlansByRun :: "ident \<Rightarrow> plan_record list prog" where
  "ListPlansByRun runID =
     wrapE ''query plans: %w'' []
       (query (\<lambda>d. sort_key pr_number (filter (\<lambda>p. pr_run_id p = runID) (t_plans d))))"

section \<open>Checkpoints\<close>

definition insert_checkpoint :: "checkpoint_row \<Rightarrow> db \<Rightarrow> goerr + nat \<times> db" where
  "insert_checkpoint c d =
     map_sum id (\<lambda>rows. (1, d\<lparr>t_checkpoints := rows\<rparr>))
       (require_fk (has_run d (cp_run_id c) \<and> pred_option (has_plan d) (cp_plan_id c)) ''checkpoints''
         (insert_into ''checkpoints.id'' cp_id c (t_checkpoints d)))"

definition CreateCheckpoint :: "checkpoint_record \<Rightarrow> unit prog" where
  "CreateCheckpoint c =
     bindE new_id (\<lambda>i. bindE time_now (\<lambda>now.
     let planID = (if cr_plan_id c \<noteq> [] then Some (cr_plan_id c) else None) in
     write_row (mk_event i (cr_run_id c) EventCheckpointOpened (cr_id c)
         (jstrs [(''checkpoint_id'', cr_id c), (''run_id'', cr_run_id c), (''plan_id'', cr_plan_id c),
                 (''kind'', cr_kind c)]) now)
       (bindE (wrapE ''insert checkpoint: %w'' [] (exec (insert_checkpoint
          \<lparr>cp_id = cr_id c, cp_run_id = cr_run_id c, cp_plan_id = planID, cp_kind = cr_kind c,
           cp_state = ''open'', cp_decision = [], cp_decided_by = [], cp_decided_at = None,
           cp_notes = cr_notes c\<rparr>))) (\<lambda>_. ret ()))))"

definition find_checkpoint :: "ident \<Rightarrow> db \<Rightarrow> checkpoint_row option" where
  "find_checkpoint i d = find (\<lambda>c. cp_id c = i) (t_checkpoints d)"

definition update_checkpoint ::
  "ident \<Rightarrow> (checkpoint_row \<Rightarrow> checkpoint_row) \<Rightarrow> db \<Rightarrow> goerr + nat \<times> db" where
  "update_checkpoint i f d =
     Inr (count_where (\<lambda>c. cp_id c = i) (t_checkpoints d),
          d\<lparr>t_checkpoints := update_where (\<lambda>c. cp_id c = i) f (t_checkpoints d)\<rparr>)"

definition ResolveCheckpoint :: "ident \<Rightarrow> string \<Rightarrow> string \<Rightarrow> string \<Rightarrow> unit prog" where
  "ResolveCheckpoint i decision decidedBy notes =
     bindE (attempt (query_row (find_checkpoint i))) (\<lambda>r.
     case r of
       Inl e \<Rightarrow> if errors_is e ErrNoRows then raise ErrCheckpointNotFound
               else raise (Wrapf ''lookup checkpoint: %w'' [] e)
     | Inr c \<Rightarrow>
         if cp_state c = ''resolved'' then ret ()
         else
           bindE time_now (\<lambda>now. bindE new_id (\<lambda>eid.
           write_row (mk_event eid (cp_run_id c) EventCheckpointResolved i
               (jstrs [(''checkpoint_id'', i), (''decision'', decision), (''decided_by'', decidedBy)]) now)
             (bindE (wrapE ''resolve checkpoint: %w'' [] (exec (update_checkpoint i (\<lambda>c.
                c\<lparr>cp_state := ''resolved'', cp_decision := decision, cp_decided_by := decidedBy,
                  cp_decided_at := Some now, cp_notes := notes\<rparr>)))) (\<lambda>n.
              if n = 0 then raise ErrCheckpointNotFound else ret ())))))"

definition GetCheckpoint :: "ident \<Rightarrow> checkpoint_row prog" where
  "GetCheckpoint i =
     bindE (attempt (query_row (find_checkpoint i))) (\<lambda>r.
     case r of
       Inr c \<Rightarrow> ret c
     | Inl e \<Rightarrow> if errors_is e ErrNoRows then raise ErrCheckpointNotFound
               else raise (Wrapf ''scan checkpoint: %w'' [] e))"

text \<open>Open rows first, then by the text of \<open>decided_at\<close> (NULL sorts first) and by identifier.\<close>

definition ListCheckpointsByRun :: "ident \<Rightarrow> checkpoint_row list prog" where
  "ListCheckpointsByRun runID =
     wrapE ''query checkpoints: %w'' []
       (query (\<lambda>d. sort_key (\<lambda>c. (cp_state c = ''resolved'', map_option nano_key (cp_decided_at c), cp_id c))
          (filter (\<lambda>c. cp_run_id c = runID) (t_checkpoints d))))"

lemmas [eval_simps] = insert_plan_def CreatePlan_def find_plan_def planRunID_def update_plan_def
  UpdatePlanState_def UpdatePlanBranchAndPR_def insert_checkpoint_def CreateCheckpoint_def
  find_checkpoint_def update_checkpoint_def ResolveCheckpoint_def

section \<open>Consistency\<close>

lemma insert_plan_db_ok: "db_ok d \<Longrightarrow> insert_plan p d = Inr (n, d') \<Longrightarrow> db_ok d'"
  by (auto simp: insert_plan_def stmt_simps has_plan_def pred_option_def split: if_splits)

lemma update_plan_db_ok:
  assumes "\<And>p. pr_id (f p) = pr_id p \<and> pr_run_id (f p) = pr_run_id p \<and> pr_number (f p) = pr_number p"
    and "db_ok d" and "update_plan i f d = Inr (n, d')"
  shows "db_ok d'"
proof -
  let ?d = "d\<lparr>t_plans := update_where (\<lambda>p. pr_id p = i) f (t_plans d)\<rparr>"
  have "has_plan ?d = has_plan d"
    by (simp add: has_plan_def fun_eq_iff image_update_where [of pr_id] assms(1))
  then have "db_ok ?d" using assms(2)
    by (auto simp: db_ok_def keys_ok_def refs_ok_def update_where_keys [of pr_id] assms(1)
        update_where_keys [of "\<lambda>p. (pr_run_id p, pr_number p)"] set_update_where)
  then show ?thesis using assms(3) by (simp add: update_plan_def)
qed

lemma insert_checkpoint_db_ok: "db_ok d \<Longrightarrow> insert_checkpoint c d = Inr (n, d') \<Longrightarrow> db_ok d'"
  by (auto simp: insert_checkpoint_def stmt_simps)

lemma update_checkpoint_db_ok:
  assumes "\<And>c. cp_id (f c) = cp_id c \<and> cp_run_id (f c) = cp_run_id c \<and> cp_plan_id (f c) = cp_plan_id c"
    and "db_ok d" and "update_checkpoint i f d = Inr (n, d')"
  shows "db_ok d'"
  using assms(2,3)
  by (auto simp: update_checkpoint_def db_ok_def keys_ok_def refs_ok_def update_where_keys [of cp_id]
      assms(1) set_update_where)

lemma keeps_planRunID [keeps_intros]: "keeps (on_db P) (planRunID i)"
  unfolding planRunID_def by (intro keeps_intros)

lemma plans_keep_db_ok [keeps_intros]:
  "keeps (on_db db_ok) (CreatePlan p)" "keeps (on_db db_ok) (UpdatePlanState i st)"
  "keeps (on_db db_ok) (UpdatePlanBranchAndPR i b u)" "keeps (on_db db_ok) (CreateCheckpoint c)"
  "keeps (on_db db_ok) (ResolveCheckpoint i dc by nt)"
  unfolding CreatePlan_def UpdatePlanState_def UpdatePlanBranchAndPR_def CreateCheckpoint_def
    ResolveCheckpoint_def Let_def
  by (intro keeps_intros keeps_exec_unit; (erule (1) insert_plan_db_ok insert_checkpoint_db_ok |
      erule (1) update_plan_db_ok [rotated] update_checkpoint_db_ok [rotated]; simp))+

section \<open>The first decision stays\<close>

definition resolved_as :: "ident \<Rightarrow> string \<Rightarrow> string \<Rightarrow> db \<Rightarrow> bool" where
  "resolved_as i decision decidedBy d \<longleftrightarrow>
     (\<exists>c. find_checkpoint i d = Some c \<and> cp_state c = ''resolved'' \<and> cp_decision c = decision \<and>
          cp_decided_by c = decidedBy)"

lemma find_update_where:
  "(\<And>c. key (f c) = key c) \<Longrightarrow>
     find (\<lambda>c. key c = i) (update_where (\<lambda>c. key c = j) f rows) =
       map_option (\<lambda>c. if i = j then f c else c) (find (\<lambda>c. key c = i) rows)"
  by (induction rows) (auto simp: update_where_def)

lemma find_append: "find P (xs @ ys) = (case find P xs of Some x \<Rightarrow> Some x | None \<Rightarrow> find P ys)"
  by (induction xs) auto

lemma find_checkpoint_add_event [simp]: "find_checkpoint i (add_event e d) = find_checkpoint i d"
  by (simp add: find_checkpoint_def add_event_def)

lemma keeps_resolved_write_row:
  "keeps (on_db (resolved_as i a b)) m \<Longrightarrow> keeps (on_db (resolved_as i a b)) (write_row ev m)"
  by (rule keeps_write_row) (auto dest!: insert_event_Inr simp: resolved_as_def)

lemma insert_checkpoint_resolved:
  "resolved_as i a b d \<Longrightarrow> insert_checkpoint c d = Inr (n, d') \<Longrightarrow> resolved_as i a b d'"
  by (auto simp: resolved_as_def find_checkpoint_def insert_checkpoint_def map_sum_Inr require_fk_Inr
      insert_into_Inr find_append)

lemma update_checkpoint_resolved:
  "resolved_as i a b d \<Longrightarrow> j \<noteq> i \<Longrightarrow> (\<And>c. cp_id (f c) = cp_id c) \<Longrightarrow>
     update_checkpoint j f d = Inr (n, d') \<Longrightarrow> resolved_as i a b d'"
  by (auto simp: resolved_as_def find_checkpoint_def update_checkpoint_def find_update_where)

lemma ResolveCheckpoint_resolved:
  assumes "resolved_as i a b (wd_db w)"
  shows "wd_db (snd (ResolveCheckpoint i x y z w)) = wd_db w \<and>
    (fst (ResolveCheckpoint i x y z w) = Inr () \<or> wd_faults w (wd_calls w) \<noteq> None)"
  using assms
  by (auto simp: ResolveCheckpoint_def resolved_as_def bindE_def attempt_def query_row_def query_def
      sql_def gets_def ret_def raise_def Let_def split: option.splits)

lemma CreateCheckpoint_keeps_resolved: "keeps (on_db (resolved_as i a b)) (CreateCheckpoint c)"
  unfolding CreateCheckpoint_def Let_def
  by (intro keeps_intros keeps_resolved_write_row keeps_exec_unit; erule (1) insert_checkpoint_resolved)

lemma ResolveCheckpoint_keeps_resolved: "keeps (on_db (resolved_as i a b)) (ResolveCheckpoint j x y z)"
proof (cases "j = i")
  case True
  then show ?thesis by (simp add: keeps_def on_db_def ResolveCheckpoint_resolved)
next
  case False
  show ?thesis unfolding ResolveCheckpoint_def
    by (intro keeps_intros keeps_resolved_write_row keeps_exec_unit)
      (erule update_checkpoint_resolved, use False in auto)
qed

lemma ResolveCheckpoint_run:
  assumes r: "ResolveCheckpoint i decision decidedBy notes w = (Inr (), w')"
    and c: "find_checkpoint i (wd_db w) = Some c" "cp_state c \<noteq> ''resolved''"
  shows "resolved_as i decision decidedBy (wd_db w')"
proof -
  obtain q u where q: "query_row (find_checkpoint i) w = (q, u)" by force
  have "q = Inr c"
  proof (cases q)
    case (Inl e)
    with q r show ?thesis
      by (auto simp: ResolveCheckpoint_def bindE_def attempt_def raise_def split: if_splits)
  next
    case (Inr x)
    with q c show ?thesis by (simp add: run_simps)
  qed
  moreover from q this have u: "wd_db u = wd_db w" by (auto simp: run_simps)
  ultimately obtain ev f v where w: "write_row ev (bindE (wrapE ''resolve checkpoint: %w'' []
      (exec (update_checkpoint i f))) (\<lambda>n. if n = 0 then raise ErrCheckpointNotFound else ret ())) v = (Inr (), w')"
    "wd_db v = wd_db w"
    "\<And>c. cp_id (f c) = cp_id c" "\<And>c. cp_state (f c) = ''resolved''" "\<And>c. cp_decision (f c) = decision"
    "\<And>c. cp_decided_by (f c) = decidedBy"
    using r c q by (auto simp: ResolveCheckpoint_def bindE_run attempt_run time_now_run new_id_run)
  from write_row_run [OF w(1)] obtain ev' w1 w2 where w1: "wd_db w1 = add_event ev' (wd_db w)"
    and m: "bindE (wrapE ''resolve checkpoint: %w'' [] (exec (update_checkpoint i f)))
        (\<lambda>n. if n = 0 then raise ErrCheckpointNotFound else ret ()) w1 = (Inr (), w2)"
    and w2: "wd_db w' = wd_db w2" using w(2) by metis
  from m have "update_checkpoint i f (wd_db w1) = Inr (count_where (\<lambda>c. cp_id c = i) (t_checkpoints (wd_db w1)), wd_db w2)"
    by (auto simp: run_simps update_checkpoint_def split: if_splits)
  then have "find_checkpoint i (wd_db w2) = map_option f (find_checkpoint i (wd_db w1))"
    by (auto simp: update_checkpoint_def find_checkpoint_def find_update_where [of cp_id f, OF w(3)]
        dest: sym)
  then show ?thesis using c w1 w2 w(4-6) by (simp add: resolved_as_def)
qed

text \<open>
  C9. A successful resolution of an open checkpoint records that decision and its author, and
  from then on no resolution of any checkpoint and no new checkpoint changes them, under every
  driver fault; resolving it again with another decision succeeds without writing anything. Each call
  is one step here: the code looks the state up before its transaction and does not repeat the test in the
  update, so that two processes resolving the same checkpoint at once are not covered.
\<close>

theorem first_decision_stays:
  assumes "ResolveCheckpoint i decision decidedBy notes w = (Inr (), w')"
    and "find_checkpoint i (wd_db w) = Some c" and "cp_state c \<noteq> ''resolved''"
  shows "resolved_as i decision decidedBy (wd_db w') \<and>
    keeps (on_db (resolved_as i decision decidedBy)) (ResolveCheckpoint j x y z) \<and>
    keeps (on_db (resolved_as i decision decidedBy)) (CreateCheckpoint r) \<and>
    wd_db (snd (ResolveCheckpoint i x y z w')) = wd_db w' \<and>
    (fst (ResolveCheckpoint i x y z w') = Inr () \<or> wd_faults w' (wd_calls w') \<noteq> None)"
proof -
  have "resolved_as i decision decidedBy (wd_db w')" using assms by (rule ResolveCheckpoint_run)
  with ResolveCheckpoint_resolved [OF this] ResolveCheckpoint_keeps_resolved CreateCheckpoint_keeps_resolved
  show ?thesis by blast
qed

definition open_checkpoint :: checkpoint_row where
  "open_checkpoint = \<lparr>cp_id = ''c1'', cp_run_id = ''r1'', cp_plan_id = None, cp_kind = ''spec-approved'',
     cp_state = ''open'', cp_decision = [], cp_decided_by = [], cp_decided_at = None, cp_notes = []\<rparr>"

definition checkpoint_world :: world where
  "checkpoint_world = world_with
     (empty_db\<lparr>t_runs := [sample_run ''r1''], t_checkpoints := [open_checkpoint]\<rparr>) (\<lambda>_. None)"

lemma first_decision_stays_witness:
  "fst (ResolveCheckpoint ''c1'' ''approve'' ''ann'' [] checkpoint_world) = Inr () \<and>
   resolved_as ''c1'' ''approve'' ''ann''
     (wd_db (snd (ResolveCheckpoint ''c1'' ''approve'' ''ann'' [] checkpoint_world)))"
proof -
  let ?r = "ResolveCheckpoint ''c1'' ''approve'' ''ann'' [] checkpoint_world"
  have f: "fst ?r = Inr ()"
    by (simp add: eval_simps checkpoint_world_def open_checkpoint_def)
  then have "?r = (Inr (), snd ?r)" by (simp add: prod_eq_iff)
  moreover have "find_checkpoint ''c1'' (wd_db checkpoint_world) = Some open_checkpoint"
    by (simp add: eval_simps checkpoint_world_def open_checkpoint_def)
  moreover have "cp_state open_checkpoint \<noteq> ''resolved''" by (simp add: open_checkpoint_def)
  ultimately show ?thesis using first_decision_stays f by blast
qed

end
