(* ===== verification/Attention_Store.thy ===== *)
theory Attention_Store
  imports Run_Store
begin

text \<open>
  \<open>store/attention_store.go\<close>: the questions put to the human. The table has no events of its own;
  an answer that is not recorded is NULL.
\<close>

section \<open>The code\<close>

definition insert_attention :: "attention_row \<Rightarrow> db \<Rightarrow> goerr + nat \<times> db" where
  "insert_attention a d =
     map_sum id (\<lambda>rows. (1, d\<lparr>t_attention := rows\<rparr>))
       (require_fk (has_run d (ar_run_id a)) ''attention.run_id''
         (insert_into ''attention.id'' ar_id a (t_attention d)))"

text \<open>The identifier and the creation time are filled in when they are zero; the item as filled in
  is the result, because the caller sees it through the pointer.\<close>

definition InsertAttention :: "attention_item \<Rightarrow> attention_item prog" where
  "InsertAttention item =
     bindE (if att_id item = [] then new_id else ret (att_id item)) (\<lambda>i.
     bindE (case att_created_at item of None \<Rightarrow> time_now | Some t \<Rightarrow> ret t) (\<lambda>t.
     let item' = item\<lparr>att_id := i, att_created_at := Some t\<rparr> in
     bindE (wrapE ''insert attention: %w'' [] (exec (insert_attention
       \<lparr>ar_id = i, ar_run_id = att_run_id item, ar_kind = att_kind item, ar_source = att_source item,
        ar_job_id = att_job_id item, ar_question = att_question item, ar_options = att_options item,
        ar_presented_on = att_presented_on item, ar_answered_on = att_answered_on item,
        ar_answered_by = (if att_answer item \<noteq> [] then Some (att_answered_by item) else None),
        ar_answer = (if att_answer item \<noteq> [] then Some (att_answer item) else None),
        ar_created_at = stamp t, ar_resolved_at = None\<rparr>))) (\<lambda>_.
     ret item')))"

definition scanAttentionItem :: "attention_row \<Rightarrow> attention_item" where
  "scanAttentionItem r =
     \<lparr>att_id = ar_id r, att_run_id = ar_run_id r, att_kind = ar_kind r, att_source = ar_source r,
      att_job_id = ar_job_id r, att_question = ar_question r, att_options = ar_options r,
      att_presented_on = ar_presented_on r, att_answered_on = ar_answered_on r,
      att_answered_by = (case ar_answered_by r of None \<Rightarrow> [] | Some s \<Rightarrow> s),
      att_answer = (case ar_answer r of None \<Rightarrow> [] | Some s \<Rightarrow> s),
      att_created_at = Some (ar_created_at r), att_resolved_at = ar_resolved_at r\<rparr>"

definition find_attention :: "ident \<Rightarrow> db \<Rightarrow> attention_row option" where
  "find_attention i d = find (\<lambda>a. ar_id a = i) (t_attention d)"

text \<open>A missing row is no error.\<close>

definition optional_row :: "string \<Rightarrow> (db \<Rightarrow> 'a option) \<Rightarrow> 'a option prog" where
  "optional_row msg f =
     bindE (attempt (query_row f)) (\<lambda>r.
     case r of
       Inr x \<Rightarrow> ret (Some x)
     | Inl e \<Rightarrow> if e = ErrNoRows then ret None else raise (Wrapf msg [] e))"

definition GetAttentionByID :: "ident \<Rightarrow> attention_item option prog" where
  "GetAttentionByID i =
     optional_row ''get attention: %w'' (\<lambda>d. map_option scanAttentionItem (find_attention i d))"

definition attention_where :: "(attention_row \<Rightarrow> bool) \<Rightarrow> db \<Rightarrow> attention_item list" where
  "attention_where P d = map scanAttentionItem (sort_key ar_created_at (filter P (t_attention d)))"

definition ListAttentionByRun :: "ident \<Rightarrow> AttentionKind option \<Rightarrow> attention_item list prog" where
  "ListAttentionByRun runID kind =
     wrapE ''list attention: %w'' [] (query (attention_where (\<lambda>a. ar_run_id a = runID \<and>
       (case kind of None \<Rightarrow> True | Some k \<Rightarrow> ar_kind a = k))))"

definition update_attention :: "ident \<Rightarrow> (attention_row \<Rightarrow> attention_row) \<Rightarrow> db \<Rightarrow> goerr + nat \<times> db" where
  "update_attention i f d =
     Inr (count_where (\<lambda>a. ar_id a = i) (t_attention d),
          d\<lparr>t_attention := update_where (\<lambda>a. ar_id a = i) f (t_attention d)\<rparr>)"

definition AnswerAttention :: "ident \<Rightarrow> string \<Rightarrow> string \<Rightarrow> unit prog" where
  "AnswerAttention i answer answeredBy =
     bindE (wrapE ''answer attention: %w'' [] (exec (update_attention i (\<lambda>a.
        a\<lparr>ar_answered_by := Some answeredBy, ar_answer := Some answer, ar_answered_on := [answeredBy]\<rparr>)))) (\<lambda>n.
     if n = 0 then raise (Wrapf ''attention item %q not found: %w'' [i] ErrAttentionNotFound) else ret ())"

definition ResolveAttention :: "ident \<Rightarrow> unit prog" where
  "ResolveAttention i =
     bindE time_now (\<lambda>now.
     bindE (wrapE ''resolve attention: %w'' [] (exec (update_attention i (\<lambda>a.
        a\<lparr>ar_resolved_at := Some (stamp now)\<rparr>)))) (\<lambda>_. ret ()))"

definition ListUnansweredByRun :: "ident \<Rightarrow> attention_item list prog" where
  "ListUnansweredByRun runID =
     wrapE ''list unanswered: %w'' [] (query (attention_where (\<lambda>a. ar_run_id a = runID \<and> ar_answer a = None)))"

definition newest_attention :: "(attention_row \<Rightarrow> bool) \<Rightarrow> db \<Rightarrow> attention_item option" where
  "newest_attention P d =
     (case sort_key (\<lambda>a. - ar_created_at a) (filter P (t_attention d)) of
        [] \<Rightarrow> None | a # _ \<Rightarrow> Some (scanAttentionItem a))"

definition GetUnansweredCheckpointForRun :: "ident \<Rightarrow> string \<Rightarrow> attention_item option prog" where
  "GetUnansweredCheckpointForRun runID source =
     optional_row ''get unanswered checkpoint: %w'' (newest_attention (\<lambda>a.
       ar_run_id a = runID \<and> ar_kind a = AttentionCheckpoint \<and> ar_source a = source \<and> ar_answer a = None))"

definition GetAnyUnansweredCheckpointForRun :: "ident \<Rightarrow> attention_item option prog" where
  "GetAnyUnansweredCheckpointForRun runID =
     optional_row ''get any unanswered checkpoint: %w'' (newest_attention (\<lambda>a.
       ar_run_id a = runID \<and> ar_kind a = AttentionCheckpoint \<and> ar_answer a = None))"

definition ListAllPending :: "attention_item list prog" where
  "ListAllPending =
     wrapE ''list all pending: %w'' [] (query (attention_where (\<lambda>a. ar_answer a = None)))"

lemmas [eval_simps] = insert_attention_def InsertAttention_def scanAttentionItem_def find_attention_def
  optional_row_def GetAttentionByID_def attention_where_def update_attention_def AnswerAttention_def
  ResolveAttention_def

section \<open>Consistency\<close>

lemma insert_attention_db_ok: "db_ok d \<Longrightarrow> insert_attention a d = Inr (n, d') \<Longrightarrow> db_ok d'"
  by (auto simp: insert_attention_def stmt_simps)

lemma update_attention_db_ok:
  assumes "\<And>a. ar_id (f a) = ar_id a \<and> ar_run_id (f a) = ar_run_id a"
    and "db_ok d" and "update_attention i f d = Inr (n, d')"
  shows "db_ok d'"
  using assms(2,3)
  by (auto simp: update_attention_def db_ok_def keys_ok_def refs_ok_def update_where_keys [of ar_id]
      assms(1) set_update_where)

lemma keeps_optional_row [keeps_intros]: "keeps (on_db P) (optional_row msg f)"
  unfolding optional_row_def by (intro keeps_intros)

lemma attention_keeps_db_ok [keeps_intros]:
  "keeps (on_db db_ok) (InsertAttention a)" "keeps (on_db db_ok) (AnswerAttention i x y)"
  "keeps (on_db db_ok) (ResolveAttention i)"
  unfolding InsertAttention_def AnswerAttention_def ResolveAttention_def Let_def
  by (intro keeps_intros keeps_exec_unit; (erule (1) insert_attention_db_ok |
      erule (1) update_attention_db_ok [rotated]; simp))+

section \<open>Answers\<close>

lemma find_key_update:
  "(\<And>c. key (f c) = key c) \<Longrightarrow>
     find (\<lambda>c. key c = i) (update_where (\<lambda>c. key c = j) f rows) =
       map_option (\<lambda>c. if i = j then f c else c) (find (\<lambda>c. key c = i) rows)"
  by (induction rows) (auto simp: update_where_def)

text \<open>
  Answering an item that exists records the answer and its author, makes the item leave
  the list of unanswered items, and changes no other item; answering an unknown item is the
  not-found error and changes nothing. Without a driver fault one of the two happens.
\<close>

lemma answer_attention_spec:
  assumes "wd_faults w (wd_calls w) = None"
  shows "case find_attention i (wd_db w) of
      None \<Rightarrow> AnswerAttention i x y w =
        (Inl (Wrapf ''attention item %q not found: %w'' [i] ErrAttentionNotFound), w\<lparr>wd_calls := Suc (wd_calls w)\<rparr>)
    | Some a \<Rightarrow> \<exists>w'. AnswerAttention i x y w = (Inr (), w') \<and>
        find_attention i (wd_db w') = Some (a\<lparr>ar_answered_by := Some y, ar_answer := Some x, ar_answered_on := [y]\<rparr>) \<and>
        (\<forall>j. j \<noteq> i \<longrightarrow> find_attention j (wd_db w') = find_attention j (wd_db w)) \<and>
        i \<notin> ar_id ` set (filter (\<lambda>a. ar_answer a = None) (t_attention (wd_db w')))"
proof (cases "find_attention i (wd_db w)")
  case None
  then have n: "count_where (\<lambda>a. ar_id a = i) (t_attention (wd_db w)) = 0"
    by (auto simp: find_attention_def find_None_iff count_where_def filter_empty_conv)
  then have "update_attention i f (wd_db w) = Inr (0, wd_db w)" for f
    by (simp add: update_attention_def update_where_none [OF n])
  then show ?thesis using None assms
    by (simp add: AnswerAttention_def bindE_def wrapE_def exec_def sql_def raise_def)
next
  case (Some a)
  let ?f = "\<lambda>a. a\<lparr>ar_answered_by := Some y, ar_answer := Some x, ar_answered_on := [y]\<rparr>"
  let ?rows = "update_where (\<lambda>a. ar_id a = i) ?f (t_attention (wd_db w))"
  have n: "count_where (\<lambda>a. ar_id a = i) (t_attention (wd_db w)) \<noteq> 0"
    using Some by (auto simp: find_attention_def find_Some_iff count_where_def filter_empty_conv)
  have find: "find (\<lambda>a. ar_id a = j) ?rows =
      map_option (\<lambda>c. if j = i then ?f c else c) (find (\<lambda>a. ar_id a = j) (t_attention (wd_db w)))" for j
    by (rule find_key_update) simp
  have un: "i \<notin> ar_id ` set (filter (\<lambda>a. ar_answer a = None) ?rows)"
  proof
    assume "i \<in> ar_id ` set (filter (\<lambda>a. ar_answer a = None) ?rows)"
    then obtain a where "a \<in> set ?rows" and a: "ar_answer a = None" "ar_id a = i" by force
    then obtain r where "a = (if ar_id r = i then ?f r else r)"
      unfolding set_update_where by blast
    with a show False by (cases "ar_id r = i") simp_all
  qed
  let ?w = "w\<lparr>wd_calls := Suc (wd_calls w), wd_db := (wd_db w)\<lparr>t_attention := ?rows\<rparr>\<rparr>"
  have "AnswerAttention i x y w = (Inr (), ?w)" using n assms
    by (simp add: AnswerAttention_def bindE_def wrapE_def exec_def sql_def ret_def update_attention_def)
  moreover have "find_attention j (wd_db ?w) = map_option (\<lambda>c. if j = i then ?f c else c) (find_attention j (wd_db w))" for j
    using find [of j] by (simp add: find_attention_def)
  ultimately show ?thesis using un Some by (simp add: option.map_ident)
qed

definition open_question :: attention_row where
  "open_question = \<lparr>ar_id = ''a1'', ar_run_id = ''r1'', ar_kind = AttentionCheckpoint, ar_source = ''plan-1'',
     ar_job_id = [], ar_question = ''plan-approved'', ar_options = [], ar_presented_on = [],
     ar_answered_on = [], ar_answered_by = None, ar_answer = None, ar_created_at = 0, ar_resolved_at = None\<rparr>"

lemma answer_attention_spec_witness:
  "fst (AnswerAttention ''a1'' ''approve'' ''ann'' (world_with
     (empty_db\<lparr>t_runs := [sample_run ''r1''], t_attention := [open_question]\<rparr>) (\<lambda>_. None))) = Inr ()"
  using answer_attention_spec [of "world_with
     (empty_db\<lparr>t_runs := [sample_run ''r1''], t_attention := [open_question]\<rparr>) (\<lambda>_. None)" "''a1''"
     "''approve''" "''ann''"]
  by (auto simp: world_with_def find_attention_def open_question_def)

end
