(* ===== verification/Cost_Store.thy ===== *)
theory Cost_Store
  imports Run_Store
begin

text \<open>
  \<open>store/supervisor_event_store.go\<close> and \<open>store/cost_event_store.go\<close>: the supervisor verdicts and the
  cost ledger. The addition of \<open>float64\<close> values is the parameter \<open>fadd\<close> (and \<open>fsum\<close> the aggregate
  \<open>SUM\<close> of SQLite), so that nothing below depends on how it rounds.
\<close>

section \<open>Supervisor verdicts\<close>

definition insert_supervisor :: "supervisor_row \<Rightarrow> db \<Rightarrow> goerr + nat \<times> db" where
  "insert_supervisor s d =
     map_sum id (\<lambda>rows. (1, d\<lparr>t_supervisor := rows\<rparr>))
       (require_fk (has_run d (sr_run_id s) \<and> has_job d (sr_job_id s)) ''supervisor_events''
         (insert_into ''supervisor_events.id'' sr_id s (t_supervisor d)))"

definition verdict_string :: "rule_result \<Rightarrow> string" where
  "verdict_string r =
     (if rr_skipped r then ''skipped'' else if \<not> rr_passed r then ''fail'' else ''pass'')"

definition RecordVerdict :: "ident \<Rightarrow> ident \<Rightarrow> rule_result \<Rightarrow> unit prog" where
  "RecordVerdict runID jobID result =
     (let verdict = verdict_string result in
     bindE time_now (\<lambda>now. bindE new_id (\<lambda>i.
     write_row (mk_event i runID EventSupervisorVerdict jobID
         (jstrs [(''run_id'', runID), (''job_id'', jobID), (''verdict'', verdict),
                 (''rule'', rr_rule_name result), (''message'', rr_message result)]) now)
       (bindE new_id (\<lambda>sid.
        bindE (wrapE ''insert supervisor_event: %w'' [] (exec (insert_supervisor
          \<lparr>sr_id = sid, sr_run_id = runID, sr_job_id = jobID,
           sr_kind = event_kind_string EventSupervisorVerdict, sr_verdict = verdict,
           sr_rule_id = rr_rule_name result, sr_message = rr_message result, sr_created_at = now\<rparr>)))
          (\<lambda>_. ret ()))))))"

definition supervisor_where :: "(supervisor_row \<Rightarrow> bool) \<Rightarrow> db \<Rightarrow> supervisor_row list" where
  "supervisor_where P d = sort_key (\<lambda>s. (nano_key (sr_created_at s), sr_id s)) (filter P (t_supervisor d))"

definition SupervisorListByJob :: "ident \<Rightarrow> supervisor_row list prog" where
  "SupervisorListByJob jobID =
     wrapE ''query supervisor_events: %w'' [] (query (supervisor_where (\<lambda>s. sr_job_id s = jobID)))"

definition SupervisorListByRun :: "ident \<Rightarrow> supervisor_row list prog" where
  "SupervisorListByRun runID =
     wrapE ''query supervisor_events by run: %w'' [] (query (supervisor_where (\<lambda>s. sr_run_id s = runID)))"

section \<open>Costs\<close>

definition insert_cost :: "cost_row \<Rightarrow> db \<Rightarrow> goerr + nat \<times> db" where
  "insert_cost c d =
     map_sum id (\<lambda>rows. (1, d\<lparr>t_costs := rows\<rparr>))
       (require_fk (has_run d (co_run_id c) \<and> has_job d (co_job_id c)) ''cost_events''
         (insert_into ''cost_events.id'' co_id c (t_costs d)))"

type_synonym fadd = "rat \<Rightarrow> rat \<Rightarrow> rat"

definition cost_payload :: "ident \<Rightarrow> ident \<Rightarrow> cost_sample \<Rightarrow> rat \<Rightarrow> rat \<Rightarrow> json" where
  "cost_payload runID jobID sample cumulative budget =
     JObj [(''run_id'', JStr runID), (''job_id'', JStr jobID), (''provider'', JStr (cs_provider sample)),
           (''model'', JStr (cs_model sample)), (''tokens_in'', JInt (cs_tokens_in sample)),
           (''tokens_out'', JInt (cs_tokens_out sample)), (''usd'', JNum (cs_usd sample)),
           (''cumulative_usd'', JNum cumulative), (''budget_usd'', JNum budget)]"

definition record_cost_body :: "fadd \<Rightarrow> time \<Rightarrow> ident \<Rightarrow> ident \<Rightarrow> cost_sample \<Rightarrow> (event \<times> bool) prog" where
  "record_cost_body fadd now runID jobID sample =
     bindE (wrapE ''read run cost: %w'' [] (query_row (find_run runID))) (\<lambda>r.
     let cumulative = fadd (run_cost_usd r) (cs_usd sample);
         budget = (case run_budget_usd r of None \<Rightarrow> 0 | Some b \<Rightarrow> b) in
     bindE (wrapE ''compute event sequence: %w'' [] (query (next_sequence runID))) (\<lambda>seq.
     bindE new_id (\<lambda>eventID.
     let ev = (mk_event eventID runID EventCostDelta jobID (cost_payload runID jobID sample cumulative budget) now)
                \<lparr>ev_sequence := seq\<rparr> in
     bindE (wrapE ''insert cost.delta event: %w'' [] (exec (insert_event (stored_event ev)))) (\<lambda>_.
     bindE new_id (\<lambda>cid.
     bindE (wrapE ''insert cost_event: %w'' [] (exec (insert_cost
       \<lparr>co_id = cid, co_run_id = runID, co_job_id = jobID, co_provider = cs_provider sample,
        co_model = cs_model sample, co_tokens_in = cs_tokens_in sample,
        co_tokens_out = cs_tokens_out sample, co_usd = cs_usd sample, co_created_at = now\<rparr>))) (\<lambda>_.
     bindE (wrapE ''bump job cost: %w'' [] (exec (update_job jobID (\<lambda>j.
        j\<lparr>job_cost_usd := fadd (job_cost_usd j) (cs_usd sample)\<rparr>)))) (\<lambda>_.
     bindE (wrapE ''bump run cost: %w'' [] (exec (update_run runID (\<lambda>r.
        r\<lparr>run_cost_usd := fadd (run_cost_usd r) (cs_usd sample)\<rparr>)))) (\<lambda>_.
     ret (ev, True)))))))))"

definition RecordCost :: "fadd \<Rightarrow> ident \<Rightarrow> ident \<Rightarrow> cost_sample \<Rightarrow> unit prog" where
  "RecordCost fadd runID jobID sample =
     bindE time_now (\<lambda>now.
     bindE (in_tx ''commit cost.delta tx: %w'' (record_cost_body fadd now runID jobID sample)) (\<lambda>ev.
     publish ev))"

definition SumByRun :: "(rat list \<Rightarrow> rat) \<Rightarrow> ident \<Rightarrow> rat prog" where
  "SumByRun fsum runID =
     wrapE ''sum cost_events: %w'' []
       (query (\<lambda>d. fsum (map co_usd (filter (\<lambda>c. co_run_id c = runID) (t_costs d)))))"

definition SumByJob :: "(rat list \<Rightarrow> rat) \<Rightarrow> ident \<Rightarrow> rat prog" where
  "SumByJob fsum jobID =
     wrapE ''sum cost_events by job: %w'' []
       (query (\<lambda>d. fsum (map co_usd (filter (\<lambda>c. co_job_id c = jobID) (t_costs d)))))"

definition costs_where :: "(cost_row \<Rightarrow> bool) \<Rightarrow> db \<Rightarrow> cost_row list" where
  "costs_where P d = sort_key (\<lambda>c. (nano_key (co_created_at c), co_id c)) (filter P (t_costs d))"

definition CostListByJob :: "ident \<Rightarrow> cost_row list prog" where
  "CostListByJob jobID = wrapE ''query cost_events: %w'' [] (query (costs_where (\<lambda>c. co_job_id c = jobID)))"

definition CostListByRun :: "ident \<Rightarrow> cost_row list prog" where
  "CostListByRun runID = wrapE ''query cost_events by run: %w'' [] (query (costs_where (\<lambda>c. co_run_id c = runID)))"

lemmas [eval_simps] = insert_supervisor_def verdict_string_def RecordVerdict_def insert_cost_def
  cost_payload_def record_cost_body_def RecordCost_def

section \<open>Consistency\<close>

lemma insert_supervisor_db_ok: "db_ok d \<Longrightarrow> insert_supervisor r d = Inr (n, d') \<Longrightarrow> db_ok d'"
  by (auto simp: insert_supervisor_def stmt_simps)

lemma insert_cost_db_ok: "db_ok d \<Longrightarrow> insert_cost r d = Inr (n, d') \<Longrightarrow> db_ok d'"
  by (auto simp: insert_cost_def stmt_simps)

lemma RecordVerdict_keeps_db_ok [keeps_intros]: "keeps (on_db db_ok) (RecordVerdict r j x)"
  unfolding RecordVerdict_def Let_def
  by (intro keeps_intros keeps_exec_unit; erule (1) insert_supervisor_db_ok)

text \<open>A committed cost: what the tables are.\<close>

definition cost_applied :: "fadd \<Rightarrow> ident \<Rightarrow> ident \<Rightarrow> cost_sample \<Rightarrow> event \<Rightarrow> ident \<Rightarrow> time \<Rightarrow> db \<Rightarrow> db \<Rightarrow> bool" where
  "cost_applied fadd runID jobID sample ev cid now d d' \<longleftrightarrow>
     has_run d runID \<and> has_job d jobID \<and> cid \<notin> co_id ` set (t_costs d) \<and>
     insert_event (stored_event ev) d = Inr (1, add_event (stored_event ev) d) \<and>
     d' = (add_event (stored_event ev) d)\<lparr>
       t_costs := t_costs d @ [\<lparr>co_id = cid, co_run_id = runID, co_job_id = jobID,
         co_provider = cs_provider sample, co_model = cs_model sample,
         co_tokens_in = cs_tokens_in sample, co_tokens_out = cs_tokens_out sample,
         co_usd = cs_usd sample, co_created_at = now\<rparr>],
       t_jobs := update_where (\<lambda>j. job_id j = jobID)
         (\<lambda>j. j\<lparr>job_cost_usd := fadd (job_cost_usd j) (cs_usd sample)\<rparr>) (t_jobs d),
       t_runs := update_where (\<lambda>r. run_id r = runID)
         (\<lambda>r. r\<lparr>run_cost_usd := fadd (run_cost_usd r) (cs_usd sample)\<rparr>) (t_runs d)\<rparr>"

lemma record_cost_body_run:
  assumes "record_cost_body fadd now runID jobID sample w = (Inr (ev, c), w')"
  shows "c \<and> (\<exists>cid r. find_run runID (wd_db w) = Some r \<and>
     ev_sequence ev = next_sequence runID (wd_db w) \<and> ev_run_id ev = runID \<and> ev_kind ev = EventCostDelta \<and>
     ev_correlation_id ev = jobID \<and>
     ev_payload ev = cost_payload runID jobID sample (fadd (run_cost_usd r) (cs_usd sample))
       (case run_budget_usd r of None \<Rightarrow> 0 | Some b \<Rightarrow> b) \<and>
     cost_applied fadd runID jobID sample ev cid now (wd_db w) (wd_db w'))"
proof -
  from assms obtain r n d1 cid where c: "c" and r: "find_run runID (wd_db w) = Some r"
    and ev: "ev = (mk_event (NewID (wd_rnd w) (wd_ids w)) runID EventCostDelta jobID
        (cost_payload runID jobID sample (fadd (run_cost_usd r) (cs_usd sample))
          (case run_budget_usd r of None \<Rightarrow> 0 | Some b \<Rightarrow> b)) now)\<lparr>ev_sequence := next_sequence runID (wd_db w)\<rparr>"
    and ins: "insert_event (stored_event ev) (wd_db w) = Inr (n, d1)"
    and fk: "has_run d1 runID" "has_job d1 jobID" "cid \<notin> co_id ` set (t_costs d1)"
    and w': "wd_db w' = d1\<lparr>
       t_costs := t_costs d1 @ [\<lparr>co_id = cid, co_run_id = runID, co_job_id = jobID,
         co_provider = cs_provider sample, co_model = cs_model sample,
         co_tokens_in = cs_tokens_in sample, co_tokens_out = cs_tokens_out sample,
         co_usd = cs_usd sample, co_created_at = now\<rparr>],
       t_jobs := update_where (\<lambda>j. job_id j = jobID)
         (\<lambda>j. j\<lparr>job_cost_usd := fadd (job_cost_usd j) (cs_usd sample)\<rparr>) (t_jobs d1),
       t_runs := update_where (\<lambda>r. run_id r = runID)
         (\<lambda>r. r\<lparr>run_cost_usd := fadd (run_cost_usd r) (cs_usd sample)\<rparr>) (t_runs d1)\<rparr>"
    by (auto simp: record_cost_body_def run_simps Let_def insert_cost_def map_sum_Inr require_fk_Inr
      insert_into_Inr update_job_def update_run_def)
  from insert_event_Inr [OF ins] have n: "n = 1" and d1: "d1 = add_event (stored_event ev) (wd_db w)"
    by simp_all
  have same: "has_run d1 = has_run (wd_db w)" "has_job d1 = has_job (wd_db w)"
    "t_costs d1 = t_costs (wd_db w)" "t_jobs d1 = t_jobs (wd_db w)" "t_runs d1 = t_runs (wd_db w)"
    by (simp_all add: d1 add_event_def)
  have "cost_applied fadd runID jobID sample ev cid now (wd_db w) (wd_db w')"
    using fk ins n w' unfolding cost_applied_def d1 [symmetric] same by simp
  then show ?thesis using c r by (auto simp: ev mk_event_def)
qed

lemma wd_db_tick: "wd_db (w\<lparr>wd_ticks := k\<rparr>) = wd_db w"
  by simp

lemma RecordCost_cases:
  obtains (failed) e where "fst (RecordCost fadd r j s w) = Inl e"
      "wd_db (snd (RecordCost fadd r j s w)) = wd_db w"
  | (recorded) ev cid run where "fst (RecordCost fadd r j s w) = Inr ()"
      "find_run r (wd_db w) = Some run" "ev_sequence ev = next_sequence r (wd_db w)" "ev_run_id ev = r"
      "ev_payload ev = cost_payload r j s (fadd (run_cost_usd run) (cs_usd s))
         (case run_budget_usd run of None \<Rightarrow> 0 | Some b \<Rightarrow> b)"
      "cost_applied fadd r j s ev cid (wd_clock w (wd_ticks w)) (wd_db w) (wd_db (snd (RecordCost fadd r j s w)))"
proof -
  let ?now = "wd_clock w (wd_ticks w)"
  let ?w = "w\<lparr>wd_ticks := Suc (wd_ticks w)\<rparr>"
  let ?tx = "in_tx ''commit cost.delta tx: %w'' (record_cost_body fadd ?now r j s)"
  have run: "RecordCost fadd r j s w = bindE ?tx publish ?w"
    by (simp add: RecordCost_def bindE_time_now)
  obtain x v where tx: "?tx ?w = (x, v)" by force
  show thesis
  proof (cases x)
    case (Inl e)
    with tx in_tx_Inl [of _ _ ?w e] have "wd_db v = wd_db w" by (metis fst_conv snd_conv wd_db_tick)
    with Inl tx show thesis by (intro failed [of e]) (simp_all add: run bindE_def)
  next
    case (Inr ev)
    have "\<forall>w1 c w2. record_cost_body fadd ?now r j s w1 = (Inr (ev, c), w2) \<longrightarrow> c"
      using record_cost_body_run by blast
    from in_tx_committed [OF tx [unfolded Inr] this] obtain w1 w2 where
      b: "record_cost_body fadd ?now r j s w1 = (Inr (ev, True), w2)"
      and db: "wd_db w1 = wd_db w" "wd_db v = wd_db w2" by auto
    from record_cost_body_run [OF b] db obtain cid rn where
      "find_run r (wd_db w) = Some rn" "ev_sequence ev = next_sequence r (wd_db w)" "ev_run_id ev = r"
      "ev_payload ev = cost_payload r j s (fadd (run_cost_usd rn) (cs_usd s))
         (case run_budget_usd rn of None \<Rightarrow> 0 | Some b \<Rightarrow> b)"
      "cost_applied fadd r j s ev cid ?now (wd_db w) (wd_db v)" by auto
    with recorded [of rn ev cid] Inr tx show thesis by (simp add: run bindE_def)
  qed
qed

section \<open>The ledger balances\<close>

definition costs_match :: "fadd \<Rightarrow> db \<Rightarrow> bool" where
  "costs_match fadd d \<longleftrightarrow>
     (\<forall>r \<in> set (t_runs d). run_cost_usd r =
        foldl fadd 0 (map co_usd (filter (\<lambda>c. co_run_id c = run_id r) (t_costs d)))) \<and>
     (\<forall>j \<in> set (t_jobs d). job_cost_usd j =
        foldl fadd 0 (map co_usd (filter (\<lambda>c. co_job_id c = job_id j) (t_costs d))))"

lemma cost_applied_match:
  assumes "costs_match fadd d" and "cost_applied fadd r j s ev cid now d d'"
  shows "costs_match fadd d'"
  using assms unfolding cost_applied_def costs_match_def
  by (auto simp: set_update_where)

lemma find_run_update:
  "find_run i d = Some r \<Longrightarrow> (\<And>r. run_id (f r) = run_id r) \<Longrightarrow>
     find (\<lambda>r. run_id r = i) (update_where (\<lambda>r. run_id r = i) f (t_runs d)) = Some (f r)"
proof -
  assume a: "find_run i d = Some r" and k: "\<And>r. run_id (f r) = run_id r"
  have "find (\<lambda>r. run_id r = i) rows = Some r \<Longrightarrow>
      find (\<lambda>r. run_id r = i) (update_where (\<lambda>r. run_id r = i) f rows) = Some (f r)" for rows
    by (induction rows) (auto simp: update_where_def k split: if_splits)
  with a show ?thesis by (simp add: find_run_def)
qed

text \<open>
  C26. The running totals of runs and jobs are the sums of the cost rows, added in the order they
  were recorded, whatever the rounding of the addition: a recording keeps this under every driver
  fault, a failed one changes nothing, and a successful one ends the log with an event that
  carries the new total of the run.
\<close>

theorem cost_ledger_balanced:
  assumes "costs_match fadd (wd_db w)"
  shows "costs_match fadd (wd_db (snd (RecordCost fadd r j s w))) \<and>
    (case fst (RecordCost fadd r j s w) of
       Inl e \<Rightarrow> wd_db (snd (RecordCost fadd r j s w)) = wd_db w
     | Inr _ \<Rightarrow> \<exists>e rn. t_events (wd_db (snd (RecordCost fadd r j s w))) = t_events (wd_db w) @ [e] \<and>
         find_run r (wd_db (snd (RecordCost fadd r j s w))) = Some rn \<and>
         jfield (ev_payload e) ''cumulative_usd'' = Some (JNum (run_cost_usd rn)))"
proof (cases rule: RecordCost_cases [of fadd r j s w])
  case (failed e)
  with assms show ?thesis by simp
next
  case (recorded ev cid run)
  from recorded(6) have
    "t_events (wd_db (snd (RecordCost fadd r j s w))) = t_events (wd_db w) @ [stored_event ev]"
    "t_runs (wd_db (snd (RecordCost fadd r j s w))) = update_where (\<lambda>x. run_id x = r)
         (\<lambda>r. r\<lparr>run_cost_usd := fadd (run_cost_usd r) (cs_usd s)\<rparr>) (t_runs (wd_db w))"
    by (simp_all add: cost_applied_def add_event_def)
  moreover from this(2) have "find_run r (wd_db (snd (RecordCost fadd r j s w))) =
      Some (run\<lparr>run_cost_usd := fadd (run_cost_usd run) (cs_usd s)\<rparr>)"
    using find_run_update [OF recorded(2)] by (simp add: find_run_def)
  ultimately show ?thesis
    using cost_applied_match [OF assms recorded(6)] recorded(1,5)
    by (auto simp: cost_payload_def)
qed

definition sample_job :: "ident \<Rightarrow> ident \<Rightarrow> job" where
  "sample_job i r = \<lparr>job_id = i, job_run_id = r, job_role = ''developer'', job_state = JobStatePending,
     job_dispatched_by = ''scheduler'', job_cli = ''codex'', job_started_at = 0, job_ended_at = None,
     job_plan_id = [], job_phase_index = 0, job_cost_usd = 0\<rparr>"

definition cost_world :: world where
  "cost_world = world_with (empty_db\<lparr>t_runs := [sample_run ''r1''], t_jobs := [sample_job ''j1'' ''r1'']\<rparr>)
     (\<lambda>_. None)"

lemma cost_ledger_balanced_witness:
  "costs_match (+) (wd_db (snd (RecordCost (+) ''r1'' ''j1''
     \<lparr>cs_provider = ''anthropic'', cs_model = ''opus'', cs_tokens_in = 100, cs_tokens_out = 50, cs_usd = 1/100\<rparr>
     cost_world)))"
proof -
  have "costs_match (+) (wd_db cost_world)"
    by (simp add: costs_match_def cost_world_def world_with_def empty_db_def sample_run_def sample_job_def)
  from cost_ledger_balanced [OF this] show ?thesis by blast
qed

text \<open>
  \<open>ORDER BY created_at\<close> on the nanosecond columns is not chronological within a second: the text of
  a shorter fraction ends in \<open>Z\<close>, which sorts after every digit.
\<close>

lemma nano_order_not_chronological:
  "(120000000::int) < 123000000 \<and> nano_key 123000000 < nano_key 120000000"
  by (simp add: nano_key_def nano_text_def Let_def pad9_def strip_zeros_def trim_right_by_def
      nat_str.simps digit_def less_char_def char_of_def bit_0)

end
