(* ===== verification/Dispatch_Store.thy ===== *)
theory Dispatch_Store
  imports Run_Store
begin

text \<open>
  \<open>store/dispatch_store.go\<close>: the queue workers pull jobs from. A dispatch is pending, leased or
  completed; a lease ends by completion, by expiry or by the eviction of its worker. The
  operations that loop over several rows are composed of the transactions of one row, which are
  definitions of their own because other processes may run between them.
\<close>

section \<open>The code\<close>

definition insert_dispatch :: "dispatch_row \<Rightarrow> db \<Rightarrow> goerr + nat \<times> db" where
  "insert_dispatch r d =
     map_sum id (\<lambda>rows. (1, d\<lparr>t_dispatches := rows\<rparr>))
       (require_fk (has_run d (dr_run_id r)) ''dispatches.run_id''
         (insert_into ''dispatches.id'' dr_id r (t_dispatches d)))"

text \<open>\<open>nullableString\<close>.\<close>

definition nullable :: "string \<Rightarrow> string option" where
  "nullable s = (if s = [] then None else Some s)"

definition denull :: "string option \<Rightarrow> string" where
  "denull o_s = (case o_s of None \<Rightarrow> [] | Some s \<Rightarrow> s)"

definition dispatch_ids :: "ident \<Rightarrow> ident \<Rightarrow> string \<Rightarrow> ident \<Rightarrow> json" where
  "dispatch_ids i run rl job = jstrs [(''dispatch_id'', i), (''run_id'', run), (''role'', rl), (''job_id'', job)]"

definition EnqueueDispatch :: "dispatch \<Rightarrow> dispatch prog" where
  "EnqueueDispatch d =
     bindE (if d_id d = [] then new_id else ret (d_id d)) (\<lambda>i.
     bindE (case d_created_at d of None \<Rightarrow> time_now | Some t \<Rightarrow> ret t) (\<lambda>t.
     let d' = d\<lparr>d_id := i, d_created_at := Some t, d_state := DispatchStatePending\<rparr>;
         mode = (case d_mode d of None \<Rightarrow> DispatchModePersistent | Some m \<Rightarrow> m) in
     bindE new_id (\<lambda>eid.
     bindE (write_row (mk_event eid (d_run_id d) EventDispatchQueued i
         (dispatch_ids i (d_run_id d) (d_role d) (d_job_id d)) t)
       (bindE (exec (insert_dispatch
          \<lparr>dr_id = i, dr_run_id = d_run_id d, dr_role = d_role d, dr_job_id = nullable (d_job_id d),
           dr_prompt = nullable (d_prompt d), dr_inputs = d_inputs d, dr_state = DispatchStatePending,
           dr_worker_handle = nullable (d_worker_handle d), dr_leased_at = None,
           dr_completed_at = None, dr_created_at = stamp t, dr_mode = mode\<rparr>)) (\<lambda>_. ret ()))) (\<lambda>_.
     ret d'))))"

definition eligible_row :: "string \<Rightarrow> ident \<Rightarrow> dispatch_row \<Rightarrow> bool" where
  "eligible_row rl handle r \<longleftrightarrow>
     dr_state r = DispatchStatePending \<and> dr_role r = rl \<and>
     (if handle \<noteq> [] then dr_worker_handle r = Some handle \<or> dr_worker_handle r = None
      else dr_worker_handle r = None)"

text \<open>\<open>ORDER BY created_at ASC LIMIT 1\<close>; rows of the same second come in insertion order.\<close>

definition oldest_eligible :: "string \<Rightarrow> ident \<Rightarrow> db \<Rightarrow> dispatch_row option" where
  "oldest_eligible rl handle d =
     (case sort_key dr_created_at (filter (eligible_row rl handle) (t_dispatches d)) of
        [] \<Rightarrow> None | r # _ \<Rightarrow> Some r)"

definition row_to_dispatch :: "dispatch_row \<Rightarrow> dispatch" where
  "row_to_dispatch r =
     \<lparr>d_id = dr_id r, d_run_id = dr_run_id r, d_role = dr_role r, d_job_id = denull (dr_job_id r),
      d_prompt = denull (dr_prompt r), d_inputs = dr_inputs r, d_state = dr_state r,
      d_worker_handle = denull (dr_worker_handle r), d_leased_at = dr_leased_at r,
      d_completed_at = dr_completed_at r, d_created_at = Some (dr_created_at r), d_mode = Some (dr_mode r)\<rparr>"

text \<open>\<open>json.Unmarshal\<close> into a \<open>map[string]interface{}\<close> takes an object or null.\<close>

definition inputs_parse :: "json \<Rightarrow> bool" where
  "inputs_parse j = (case j of JObj _ \<Rightarrow> True | JNull \<Rightarrow> True | _ \<Rightarrow> False)"

definition update_dispatches ::
  "(dispatch_row \<Rightarrow> bool) \<Rightarrow> (dispatch_row \<Rightarrow> dispatch_row) \<Rightarrow> db \<Rightarrow> goerr + nat \<times> db" where
  "update_dispatches P f d =
     Inr (count_where P (t_dispatches d), d\<lparr>t_dispatches := update_where P f (t_dispatches d)\<rparr>)"

text \<open>The event, then the guarded update of the row that was found.\<close>

definition lease_row :: "dispatch_row \<Rightarrow> time \<Rightarrow> ((dispatch \<times> event) option \<times> bool) prog" where
  "lease_row row now =
     bindE (wrapE ''compute event sequence: %w'' [] (query (next_sequence (dr_run_id row)))) (\<lambda>seq.
     bindE new_id (\<lambda>eid.
     bindE (gets wd_zone) (\<lambda>zone.
     let ev = (mk_event eid (dr_run_id row) EventDispatchLeased (dr_id row)
         (dispatch_ids (dr_id row) (dr_run_id row) (dr_role row) (denull (dr_job_id row))) now)
           \<lparr>ev_sequence := seq\<rparr> in
     bindE (wrapE ''insert dispatch.leased event: %w'' []
       (exec (insert_event (ev\<lparr>ev_created_at := local_stamp zone now\<rparr>)))) (\<lambda>_.
     bindE (wrapE ''update dispatch to leased: %w'' []
       (exec (update_dispatches (\<lambda>x. dr_id x = dr_id row \<and> dr_state x = DispatchStatePending)
          (\<lambda>x. x\<lparr>dr_state := DispatchStateLeased, dr_leased_at := Some (stamp now)\<rparr>)))) (\<lambda>n.
     if n = 0 then ret (None, False)
     else ret (Some ((row_to_dispatch row)\<lparr>d_state := DispatchStateLeased, d_leased_at := Some now\<rparr>, ev),
               True))))))"

definition claim_body :: "string \<Rightarrow> ident \<Rightarrow> time \<Rightarrow> ((dispatch \<times> event) option \<times> bool) prog" where
  "claim_body rl handle now =
     bindE (attempt (query_row (oldest_eligible rl handle))) (\<lambda>r.
     case r of
       Inl e \<Rightarrow> if e = ErrNoRows then ret (None, False)
               else raise (Wrapf ''find pending dispatch: %w'' [] e)
     | Inr row \<Rightarrow>
         if \<not> inputs_parse (dr_inputs row)
         then raise (Errorf ''unmarshal dispatch inputs: %w'' [])
         else lease_row row now)"

definition ClaimNextDispatch :: "string \<Rightarrow> ident \<Rightarrow> dispatch option prog" where
  "ClaimNextDispatch rl handle =
     bindE time_now (\<lambda>now.
     bindE (in_tx ''commit claim: %w'' (claim_body rl handle now)) (\<lambda>r.
     case r of
       None \<Rightarrow> ret None
     | Some (d, ev) \<Rightarrow> bindE (publish ev) (\<lambda>_. ret (Some d))))"

definition find_dispatch :: "ident \<Rightarrow> db \<Rightarrow> dispatch_row option" where
  "find_dispatch i d = find (\<lambda>r. dr_id r = i) (t_dispatches d)"

text \<open>\<open>enc\<close> is the text \<open>json.Marshal\<close> gives the outputs, which the payload holds as a string.\<close>

definition CompleteDispatch :: "(json \<Rightarrow> string) \<Rightarrow> ident \<Rightarrow> json \<Rightarrow> unit prog" where
  "CompleteDispatch enc i outputs =
     bindE time_now (\<lambda>now.
     bindE (attempt (query_row (\<lambda>d. map_option dr_run_id (find_dispatch i d)))) (\<lambda>r.
     case r of
       Inl e \<Rightarrow> if e = ErrNoRows then raise (Errorf ''dispatch %q not found'' [i])
               else raise (Wrapf ''get run_id for dispatch %q: %w'' [i] e)
     | Inr runID \<Rightarrow>
         bindE new_id (\<lambda>eid.
         write_row (mk_event eid runID EventDispatchCompleted i
             (jstrs [(''dispatch_id'', i), (''run_id'', runID), (''outputs'', enc outputs)]) now)
           (bindE (exec (update_dispatches (\<lambda>x. dr_id x = i \<and> dr_state x = DispatchStateLeased)
              (\<lambda>x. x\<lparr>dr_state := DispatchStateCompleted, dr_completed_at := Some (stamp now)\<rparr>))) (\<lambda>n.
            if n = 0 then raise (Errorf ''dispatch %q not found or not in leased state'' [i]) else ret ())))))"

text \<open>The transaction both loops run for one row: the event, then back to pending if still leased.\<close>

definition release_row :: "event \<Rightarrow> ident \<Rightarrow> unit prog" where
  "release_row ev i =
     write_row ev (bindE (exec (update_dispatches (\<lambda>x. dr_id x = i \<and> dr_state x = DispatchStateLeased)
        (\<lambda>x. x\<lparr>dr_state := DispatchStatePending, dr_worker_handle := None, dr_leased_at := None\<rparr>)))
        (\<lambda>_. ret ()))"

definition expire_one :: "time \<Rightarrow> ident \<times> ident \<Rightarrow> unit prog" where
  "expire_one now = (\<lambda>(i, runID).
     bindE new_id (\<lambda>eid.
     wrapE ''expire dispatch %q: %w'' [i]
       (release_row (mk_event eid runID EventDispatchExpired i
          (jstrs [(''dispatch_id'', i), (''run_id'', runID)]) now) i)))"

definition expired_leases :: "time \<Rightarrow> db \<Rightarrow> (ident \<times> ident) list" where
  "expired_leases cutoff d =
     map (\<lambda>r. (dr_id r, dr_run_id r))
       (filter (\<lambda>r. dr_state r = DispatchStateLeased \<and>
          (case dr_leased_at r of None \<Rightarrow> False | Some t \<Rightarrow> t \<le> cutoff)) (t_dispatches d))"

definition ExpireLeases :: "time \<Rightarrow> unit prog" where
  "ExpireLeases timeout =
     bindE time_now (\<lambda>t0.
     bindE (wrapE ''query expired leases: %w'' [] (query (expired_leases (stamp (t0 - timeout))))) (\<lambda>expired.
     bindE time_now (\<lambda>now.
     bindE (forE expired (expire_one now)) (\<lambda>_. ret ()))))"

definition requeue_one :: "ident \<Rightarrow> time \<Rightarrow> ident \<times> ident \<Rightarrow> unit prog" where
  "requeue_one handle now = (\<lambda>(i, runID).
     bindE new_id (\<lambda>eid.
     wrapE ''requeue dispatch %q: %w'' [i]
       (release_row (mk_event eid runID EventDispatchExpired i
          (jstrs [(''dispatch_id'', i), (''run_id'', runID), (''worker_handle'', handle),
                  (''reason'', ''worker_evicted'')]) now) i)))"

definition leased_by :: "ident \<Rightarrow> db \<Rightarrow> (ident \<times> ident) list" where
  "leased_by handle d =
     map (\<lambda>r. (dr_id r, dr_run_id r))
       (filter (\<lambda>r. dr_state r = DispatchStateLeased \<and> dr_worker_handle r = Some handle) (t_dispatches d))"

definition untarget_pending :: "ident \<Rightarrow> unit prog" where
  "untarget_pending handle =
     bindE (wrapE ''clear pending targeted dispatches for worker %q: %w'' [handle]
       (exec (update_dispatches (\<lambda>x. dr_worker_handle x = Some handle \<and> dr_state x = DispatchStatePending)
          (\<lambda>x. x\<lparr>dr_worker_handle := None\<rparr>)))) (\<lambda>_. ret ())"

definition RequeueByWorker :: "ident \<Rightarrow> unit prog" where
  "RequeueByWorker handle =
     bindE (wrapE ''query leased dispatches for worker %q: %w'' [handle] (query (leased_by handle))) (\<lambda>leased.
     bindE time_now (\<lambda>now.
     bindE (forE leased (requeue_one handle now)) (\<lambda>_.
     untarget_pending handle)))"

definition GetDispatch :: "ident \<Rightarrow> dispatch option prog" where
  "GetDispatch i =
     bindE (attempt (query_row (find_dispatch i))) (\<lambda>r.
     case r of
       Inl e \<Rightarrow> if e = ErrNoRows then ret None else raise (Wrapf ''get dispatch %q: %w'' [i] e)
     | Inr row \<Rightarrow> if \<not> inputs_parse (dr_inputs row) then raise (Errorf ''unmarshal dispatch inputs: %w'' [])
                 else ret (Some (row_to_dispatch row)))"

lemmas [eval_simps] = insert_dispatch_def nullable_def denull_def dispatch_ids_def EnqueueDispatch_def
  eligible_row_def oldest_eligible_def row_to_dispatch_def inputs_parse_def update_dispatches_def
  lease_row_def claim_body_def ClaimNextDispatch_def find_dispatch_def CompleteDispatch_def release_row_def
  expire_one_def expired_leases_def ExpireLeases_def requeue_one_def leased_by_def
  untarget_pending_def RequeueByWorker_def

section \<open>Consistency\<close>

lemma insert_dispatch_db_ok: "db_ok d \<Longrightarrow> insert_dispatch r d = Inr (n, d') \<Longrightarrow> db_ok d'"
  by (auto simp: insert_dispatch_def stmt_simps)

lemma update_dispatches_db_ok:
  assumes "\<And>r. dr_id (f r) = dr_id r \<and> dr_run_id (f r) = dr_run_id r"
    and "db_ok d" and "update_dispatches P f d = Inr (n, d')"
  shows "db_ok d'"
  using assms(2,3)
  by (auto simp: update_dispatches_def db_ok_def keys_ok_def refs_ok_def update_where_keys [of dr_id]
      assms(1) set_update_where)

lemma keeps_release_row_db_ok [keeps_intros]: "keeps (on_db db_ok) (release_row ev i)"
  unfolding release_row_def
  by (intro keeps_intros keeps_exec_unit) (erule (1) update_dispatches_db_ok [rotated]; simp)

lemma keeps_case_prod [keeps_intros]:
  "(\<And>x y. p = (x, y) \<Longrightarrow> keeps P (f x y)) \<Longrightarrow> keeps P (case p of (x, y) \<Rightarrow> f x y)"
  by (cases p) simp

lemma dispatches_keep_db_ok [keeps_intros]:
  "keeps (on_db db_ok) (EnqueueDispatch d)" "keeps (on_db db_ok) (CompleteDispatch enc i out)"
  "keeps (on_db db_ok) (ExpireLeases t)" "keeps (on_db db_ok) (RequeueByWorker h)"
  unfolding EnqueueDispatch_def CompleteDispatch_def ExpireLeases_def RequeueByWorker_def
    expire_one_def requeue_one_def untarget_pending_def Let_def
  by (intro keeps_intros keeps_exec_unit; (erule (1) insert_dispatch_db_ok |
      erule (1) update_dispatches_db_ok [rotated]; simp))+

section \<open>Claims\<close>

text \<open>What a claim that committed has done.\<close>

definition claimed :: "dispatch_row \<Rightarrow> event \<Rightarrow> time \<Rightarrow> db \<Rightarrow> db \<Rightarrow> bool" where
  "claimed row ev now d d' \<longleftrightarrow>
     ev_kind ev = EventDispatchLeased \<and> ev_correlation_id ev = dr_id row \<and> ev_run_id ev = dr_run_id row \<and>
     ev_sequence ev = next_sequence (dr_run_id row) d \<and>
     insert_event ev d = Inr (1, add_event ev d) \<and>
     d' = (add_event ev d)\<lparr>t_dispatches := update_where (\<lambda>x. dr_id x = dr_id row \<and> dr_state x = DispatchStatePending)
        (\<lambda>x. x\<lparr>dr_state := DispatchStateLeased, dr_leased_at := Some (stamp now)\<rparr>) (t_dispatches d)\<rparr>"

lemma oldest_eligible_Some:
  "oldest_eligible rl h d = Some r \<Longrightarrow>
     r \<in> set (t_dispatches d) \<and> eligible_row rl h r \<and>
     (\<forall>x \<in> set (t_dispatches d). eligible_row rl h x \<longrightarrow> dr_created_at r \<le> dr_created_at x)"
proof -
  assume "oldest_eligible rl h d = Some r"
  then obtain rs where s: "sort_key dr_created_at (filter (eligible_row rl h) (t_dispatches d)) = r # rs"
    by (auto simp: oldest_eligible_def split: list.splits)
  then have set: "set (r # rs) = {x \<in> set (t_dispatches d). eligible_row rl h x}"
    by (metis set_filter set_sort)
  have "sorted (map dr_created_at (r # rs))" unfolding s [symmetric] by (rule sorted_sort_key)
  then have "\<forall>x \<in> set (r # rs). dr_created_at r \<le> dr_created_at x" by auto
  with set show ?thesis by auto
qed

lemma oldest_eligible_None:
  "oldest_eligible rl h d = None \<longleftrightarrow> (\<forall>x \<in> set (t_dispatches d). \<not> eligible_row rl h x)"
proof -
  have "oldest_eligible rl h d = None \<longleftrightarrow> filter (eligible_row rl h) (t_dispatches d) = []"
    unfolding oldest_eligible_def
    by (cases "sort_key dr_created_at (filter (eligible_row rl h) (t_dispatches d))")
      (auto dest: arg_cong [where f = length])
  then show ?thesis by (auto simp: filter_empty_conv)
qed

lemma lease_row_run:
  assumes "lease_row row now u = (Inr (r, c), w')"
    and pend: "row \<in> set (t_dispatches (wd_db u))" "dr_state row = DispatchStatePending"
  shows "\<exists>ev ev'. c \<and>
    r = Some ((row_to_dispatch row)\<lparr>d_state := DispatchStateLeased, d_leased_at := Some now\<rparr>, ev') \<and>
    claimed row ev now (wd_db u) (wd_db w')"
proof -
  let ?P = "\<lambda>x::dispatch_row. dr_id x = dr_id row \<and> dr_state x = DispatchStatePending"
  let ?f = "\<lambda>x::dispatch_row. x\<lparr>dr_state := DispatchStateLeased, dr_leased_at := Some (stamp now)\<rparr>"
  define ev0 where "ev0 = (mk_event (NewID (wd_rnd u) (wd_ids u)) (dr_run_id row) EventDispatchLeased (dr_id row)
         (dispatch_ids (dr_id row) (dr_run_id row) (dr_role row) (denull (dr_job_id row))) now)
           \<lparr>ev_sequence := next_sequence (dr_run_id row) (wd_db u)\<rparr>"
  define ev where "ev = ev0\<lparr>ev_created_at := local_stamp (wd_zone u) now\<rparr>"
  let ?res = "Some ((row_to_dispatch row)\<lparr>d_state := DispatchStateLeased, d_leased_at := Some now\<rparr>, ev0)"
  from assms(1) obtain n d1 k where ins: "insert_event ev (wd_db u) = Inr (n, d1)"
    and upd: "update_dispatches ?P ?f d1 = Inr (k, wd_db w')"
    and res: "c = (k \<noteq> 0)" "r = (if k = 0 then None else ?res)"
    by (cases r) (auto simp: lease_row_def bindE_run wrapE_run query_run exec_run new_id_run gets_run ret_run
        Let_def ev_def ev0_def split: if_splits)
  from insert_event_Inr [OF ins] have d1: "n = 1" "d1 = add_event ev (wd_db u)" by simp_all
  then have k: "k = count_where ?P (t_dispatches (wd_db u))"
    and w': "wd_db w' = (add_event ev (wd_db u))\<lparr>t_dispatches := update_where ?P ?f (t_dispatches (wd_db u))\<rparr>"
    using upd by (auto simp: update_dispatches_def add_event_def)
  have "k \<noteq> 0" using pend unfolding k by (auto simp: count_where_def filter_empty_conv)
  moreover have "claimed row ev now (wd_db u) (wd_db w')"
    using ins d1 w' by (simp add: claimed_def) (simp add: ev_def ev0_def mk_event_def)
  ultimately show ?thesis using res by auto
qed

lemma claim_body_run:
  assumes "claim_body rl h now w = (Inr (r, c), w')"
  shows "(r = None \<and> \<not> c \<and> oldest_eligible rl h (wd_db w) = None) \<or>
    (\<exists>row ev ev'. c \<and> oldest_eligible rl h (wd_db w) = Some row \<and>
       r = Some ((row_to_dispatch row)\<lparr>d_state := DispatchStateLeased, d_leased_at := Some now\<rparr>, ev') \<and>
       claimed row ev now (wd_db w) (wd_db w'))"
proof -
  obtain q u where q: "query_row (oldest_eligible rl h) w = (q, u)" by force
  show ?thesis
  proof (cases q)
    case (Inl e)
    then have "oldest_eligible rl h (wd_db w) = None \<or> e \<noteq> ErrNoRows"
      using q by (auto simp: query_row_def bindE_def query_def sql_def gets_def ret_def raise_def Let_def
          split: option.splits)
    moreover from assms q Inl have "r = None" "\<not> c" "e = ErrNoRows"
      by (auto simp: claim_body_def bindE_attempt raise_def ret_def split: if_splits)
    ultimately show ?thesis by blast
  next
    case (Inr row)
    then have o: "oldest_eligible rl h (wd_db w) = Some row" and u: "wd_db u = wd_db w"
      using q by (auto simp: query_row_run)
    from oldest_eligible_Some [OF o] have "row \<in> set (t_dispatches (wd_db u))" "dr_state row = DispatchStatePending"
      by (auto simp: eligible_row_def u)
    moreover from assms q Inr have "lease_row row now u = (Inr (r, c), w')"
      by (auto simp: claim_body_def bindE_attempt raise_def split: if_splits)
    ultimately show ?thesis using lease_row_run o u by metis
  qed
qed

lemma ClaimNextDispatch_run:
  assumes "ClaimNextDispatch rl h w = (r, w')"
  shows "case r of
      Inl e \<Rightarrow> wd_db w' = wd_db w
    | Inr None \<Rightarrow> oldest_eligible rl h (wd_db w) = None \<and> wd_db w' = wd_db w
    | Inr (Some d) \<Rightarrow> \<exists>row ev. oldest_eligible rl h (wd_db w) = Some row \<and>
        d = (row_to_dispatch row)\<lparr>d_state := DispatchStateLeased, d_leased_at := Some (wd_clock w (wd_ticks w))\<rparr> \<and>
        claimed row ev (wd_clock w (wd_ticks w)) (wd_db w) (wd_db w')"
proof -
  let ?now = "wd_clock w (wd_ticks w)" and ?v = "w\<lparr>wd_ticks := Suc (wd_ticks w)\<rparr>"
  obtain x u where tx: "in_tx ''commit claim: %w'' (claim_body rl h ?now) ?v = (x, u)" by force
  have "ClaimNextDispatch rl h w = bindE (in_tx ''commit claim: %w'' (claim_body rl h ?now)) (\<lambda>r.
     case r of None \<Rightarrow> ret None | Some (d, ev) \<Rightarrow> bindE (publish ev) (\<lambda>_. ret (Some d))) ?v"
    by (simp add: ClaimNextDispatch_def bindE_time_now)
  then have run: "ClaimNextDispatch rl h w = (case x of Inl e \<Rightarrow> (Inl e, u) | Inr None \<Rightarrow> (Inr None, u)
      | Inr (Some (d, ev)) \<Rightarrow> (Inr (Some d), snd (publish ev u)))"
    by (auto simp: tx bindE_def ret_def publish_def modify_def split: sum.splits option.splits)
  show ?thesis
  proof (cases x)
    case (Inl e)
    with tx in_tx_error [of "''commit claim: %w''" "claim_body rl h ?now" ?v e u] assms run
    show ?thesis by auto
  next
    case (Inr p)
    note t = tx [unfolded Inr]
    show ?thesis
    proof (cases rule: in_tx_run [OF t])
      case (1 w1 w2)
      from claim_body_run [OF 1(1)] obtain row ev ev' where
        o: "oldest_eligible rl h (wd_db w) = Some row" and c: "claimed row ev ?now (wd_db w) (wd_db u)"
        and p: "p = Some ((row_to_dispatch row)\<lparr>d_state := DispatchStateLeased, d_leased_at := Some ?now\<rparr>, ev')"
        using 1(2,3) by auto
      with assms run Inr have "r = Inr (Some ((row_to_dispatch row)\<lparr>d_state := DispatchStateLeased, d_leased_at := Some ?now\<rparr>))"
        and "wd_db w' = wd_db u" by auto
      with o c show ?thesis by auto
    next
      case (2 w1 w2)
      with claim_body_run [OF 2(1)] assms run Inr show ?thesis by auto
    qed
  qed
qed

end
