(* ===== verification/Dispatch_Life.thy ===== *)
theory Dispatch_Life
  imports Dispatch_Store
begin

text \<open>
  The life of a dispatch when several processes work on the queue: the step relation \<open>dstep\<close>
  interleaves the transactions of \<open>store/dispatch_store.go\<close> in any order, the loops of
  \<open>ExpireLeases\<close> and \<open>RequeueByWorker\<close> row by row with whatever stale rows they selected, and the
  steps of the rest of the program. The lemmas give the life cycle of every row, the relation
  between the log and the rows, and what a claim returns.
\<close>

section \<open>The steps\<close>

definition dispatch_kinds :: "EventKind set" where
  "dispatch_kinds = {EventDispatchQueued, EventDispatchLeased, EventDispatchCompleted, EventDispatchExpired}"

inductive dstep :: "(json \<Rightarrow> string) \<Rightarrow> world \<Rightarrow> world \<Rightarrow> bool" for enc where
  enqueue: "dstep enc w (snd (EnqueueDispatch d w))"
| claim: "dstep enc w (snd (ClaimNextDispatch rl h w))"
| complete: "dstep enc w (snd (CompleteDispatch enc i out w))"
| expire: "dstep enc w (snd (expire_one now (i, r) w))"
| requeue: "dstep enc w (snd (requeue_one h now (i, r) w))"
| untarget: "dstep enc w (snd (untarget_pending h w))"
| other: "t_dispatches (wd_db w') = t_dispatches (wd_db w) \<Longrightarrow>
    t_events (wd_db w') = t_events (wd_db w) @ es \<Longrightarrow> \<forall>e \<in> set es. ev_kind e \<notin> dispatch_kinds \<Longrightarrow>
    dstep enc w w'"

text \<open>The changes a single row can undergo.\<close>

inductive life :: "dispatch_row \<Rightarrow> dispatch_row \<Rightarrow> bool" where
  stay: "life r r"
| lease: "dr_state r = DispatchStatePending \<Longrightarrow>
    life r (r\<lparr>dr_state := DispatchStateLeased, dr_leased_at := Some t\<rparr>)"
| finish: "dr_state r = DispatchStateLeased \<Longrightarrow>
    life r (r\<lparr>dr_state := DispatchStateCompleted, dr_completed_at := Some t\<rparr>)"
| release: "dr_state r = DispatchStateLeased \<Longrightarrow>
    life r (r\<lparr>dr_state := DispatchStatePending, dr_worker_handle := None, dr_leased_at := None\<rparr>)"
| untarget: "dr_state r = DispatchStatePending \<Longrightarrow> life r (r\<lparr>dr_worker_handle := None\<rparr>)"

inductive_cases lifeE: "life r r'"

lemma life_identity:
  "life r r' \<Longrightarrow> dr_id r' = dr_id r \<and> dr_run_id r' = dr_run_id r \<and> dr_role r' = dr_role r \<and>
     dr_job_id r' = dr_job_id r \<and> dr_prompt r' = dr_prompt r \<and> dr_inputs r' = dr_inputs r \<and>
     dr_created_at r' = dr_created_at r \<and> dr_mode r' = dr_mode r"
  by (auto elim!: lifeE)

lemma life_completed: "life r r' \<Longrightarrow> dr_state r = DispatchStateCompleted \<Longrightarrow> r' = r"
  by (auto elim!: lifeE)

section \<open>What each transaction does to rows and log\<close>

text \<open>\<open>dtrans\<close>: the effect on the dispatch rows and the log of one committed transaction.\<close>

inductive dtrans :: "db \<Rightarrow> db \<Rightarrow> bool" where
  none: "t_dispatches d' = t_dispatches d \<Longrightarrow> t_events d' = t_events d @ es \<Longrightarrow>
    \<forall>e \<in> set es. ev_kind e \<notin> {EventDispatchLeased, EventDispatchCompleted, EventDispatchExpired} \<Longrightarrow> dtrans d d'"
| insert: "t_dispatches d' = t_dispatches d @ [r] \<Longrightarrow> dr_id r \<notin> dr_id ` set (t_dispatches d) \<Longrightarrow>
    dr_state r = DispatchStatePending \<Longrightarrow> t_events d' = t_events d @ [e] \<Longrightarrow>
    ev_kind e = EventDispatchQueued \<Longrightarrow> dtrans d d'"
| leased: "r \<in> set (t_dispatches d) \<Longrightarrow> dr_state r = DispatchStatePending \<Longrightarrow>
    t_dispatches d' = update_where (\<lambda>x. dr_id x = dr_id r \<and> dr_state x = DispatchStatePending)
        (\<lambda>x. x\<lparr>dr_state := DispatchStateLeased, dr_leased_at := Some t\<rparr>) (t_dispatches d) \<Longrightarrow>
    t_events d' = t_events d @ [e] \<Longrightarrow> ev_kind e = EventDispatchLeased \<Longrightarrow>
    ev_correlation_id e = dr_id r \<Longrightarrow> dtrans d d'"
| completed: "r \<in> set (t_dispatches d) \<Longrightarrow> dr_state r = DispatchStateLeased \<Longrightarrow>
    t_dispatches d' = update_where (\<lambda>x. dr_id x = dr_id r \<and> dr_state x = DispatchStateLeased)
        (\<lambda>x. x\<lparr>dr_state := DispatchStateCompleted, dr_completed_at := Some t\<rparr>) (t_dispatches d) \<Longrightarrow>
    t_events d' = t_events d @ [e] \<Longrightarrow> ev_kind e = EventDispatchCompleted \<Longrightarrow>
    ev_correlation_id e = dr_id r \<Longrightarrow> dtrans d d'"
| released: "t_dispatches d' = update_where (\<lambda>x. dr_id x = i \<and> dr_state x = DispatchStateLeased)
        (\<lambda>x. x\<lparr>dr_state := DispatchStatePending, dr_worker_handle := None, dr_leased_at := None\<rparr>) (t_dispatches d) \<Longrightarrow>
    t_events d' = t_events d @ [e] \<Longrightarrow> ev_kind e = EventDispatchExpired \<Longrightarrow>
    ev_correlation_id e = i \<Longrightarrow> dtrans d d'"
| untargeted: "t_dispatches d' = update_where (\<lambda>x. dr_worker_handle x = Some h \<and> dr_state x = DispatchStatePending)
        (\<lambda>x. x\<lparr>dr_worker_handle := None\<rparr>) (t_dispatches d) \<Longrightarrow>
    t_events d' = t_events d \<Longrightarrow> dtrans d d'"

lemma dtrans_refl [simp]: "dtrans d d"
  by (rule dtrans.none [where es = "[]"]) auto

lemma mk_event_sel [simp]:
  "ev_kind (mk_event i r k c p t) = k" "ev_correlation_id (mk_event i r k c p t) = c"
  "ev_run_id (mk_event i r k c p t) = r" "ev_id (mk_event i r k c p t) = i"
  "ev_payload (mk_event i r k c p t) = p"
  by (simp_all add: mk_event_def)

lemma dtrans_release_row: 
  assumes "ev_kind ev = EventDispatchExpired" "ev_correlation_id ev = i"
  shows "dtrans (wd_db w) (wd_db (snd (release_row ev i w)))"
  unfolding release_row_def
  using write_row_db [of ev "bindE (exec (update_dispatches (\<lambda>x. dr_id x = i \<and> dr_state x = DispatchStateLeased)
      (\<lambda>x. x\<lparr>dr_state := DispatchStatePending, dr_worker_handle := None, dr_leased_at := None\<rparr>))) (\<lambda>_. ret ())" w]
  by (elim disjE exE conjE)
    (use assms in \<open>auto simp: run_simps update_dispatches_def add_event_def intro: dtrans.released\<close>)

lemma wrapE_db [simp]: "wd_db (snd (wrapE f as m w)) = wd_db (snd (m w))"
  by (auto simp: wrapE_def split: prod.splits sum.splits)

lemma dtrans_expire: "dtrans (wd_db w) (wd_db (snd (expire_one now (i, r) w)))"
  using dtrans_release_row [of "mk_event (NewID (wd_rnd w) (wd_ids w)) r EventDispatchExpired i
      (jstrs [(''dispatch_id'', i), (''run_id'', r)]) now" i "w\<lparr>wd_ids := Suc (wd_ids w)\<rparr>"]
  by (simp add: expire_one_def bindE_new_id)

lemma dtrans_requeue: "dtrans (wd_db w) (wd_db (snd (requeue_one h now (i, r) w)))"
  using dtrans_release_row [of "mk_event (NewID (wd_rnd w) (wd_ids w)) r EventDispatchExpired i
      (jstrs [(''dispatch_id'', i), (''run_id'', r), (''worker_handle'', h), (''reason'', ''worker_evicted'')]) now"
      i "w\<lparr>wd_ids := Suc (wd_ids w)\<rparr>"]
  by (simp add: requeue_one_def bindE_new_id)

lemma bindE_db_ret: "wd_db (snd (bindE m (\<lambda>x. ret (g x)) w)) = wd_db (snd (m w))"
  by (auto simp: bindE_def ret_def split: prod.splits sum.splits)

lemma dtrans_untarget: "dtrans (wd_db w) (wd_db (snd (untarget_pending h w)))"
  by (auto simp: untarget_pending_def bindE_db_ret exec_def sql_def Let_def update_dispatches_def
      intro: dtrans.untargeted split: option.splits)

lemma dtrans_claim: "dtrans (wd_db w) (wd_db (snd (ClaimNextDispatch rl h w)))"
proof -
  obtain r w' where c: "ClaimNextDispatch rl h w = (r, w')" by force
  note run = ClaimNextDispatch_run [OF c]
  show ?thesis
  proof (cases "wd_db w' = wd_db w")
    case True
    with c show ?thesis by simp
  next
    case False
    with run obtain row ev where o: "oldest_eligible rl h (wd_db w) = Some row"
      and cl: "claimed row ev (wd_clock w (wd_ticks w)) (wd_db w) (wd_db w')"
      by (auto split: sum.splits option.splits)
    from oldest_eligible_Some [OF o] have "row \<in> set (t_dispatches (wd_db w))" "dr_state row = DispatchStatePending"
      by (auto simp: eligible_row_def)
    then show ?thesis using cl c
      by (auto simp: claimed_def add_event_def intro!: dtrans.leased [of row])
  qed
qed

lemma dtrans_insert_row:
  assumes "ev_kind ev = EventDispatchQueued" and "dr_state r = DispatchStatePending"
  shows "dtrans (wd_db w) (wd_db (snd (write_row ev (bindE (exec (insert_dispatch r)) (\<lambda>_. ret ())) w)))"
  using write_row_db [of ev "bindE (exec (insert_dispatch r)) (\<lambda>_. ret ())" w]
  by (elim disjE exE conjE)
    (use assms in \<open>auto simp: run_simps insert_dispatch_def map_sum_Inr require_fk_Inr insert_into_Inr
       add_event_def intro: dtrans.insert\<close>)

lemma dtrans_enqueue: "dtrans (wd_db w) (wd_db (snd (EnqueueDispatch d w)))"
proof -
  define v where "v = (if d_id d = [] then w\<lparr>wd_ids := Suc (wd_ids w)\<rparr> else w)"
  define i where "i = (if d_id d = [] then NewID (wd_rnd w) (wd_ids w) else d_id d)"
  define t where "t = (case d_created_at d of None \<Rightarrow> wd_clock v (wd_ticks v) | Some t \<Rightarrow> t)"
  define u where "u = (case d_created_at d of None \<Rightarrow> v\<lparr>wd_ticks := Suc (wd_ticks v)\<rparr> | Some t \<Rightarrow> v)"
  have u: "wd_db u = wd_db w" by (simp add: u_def v_def split: option.split)
  obtain ev r d' where "ev_kind ev = EventDispatchQueued" "dr_state r = DispatchStatePending"
    and run: "EnqueueDispatch d w = bindE (write_row ev (bindE (exec (insert_dispatch r)) (\<lambda>_. ret ())))
       (\<lambda>_. ret d') (u\<lparr>wd_ids := Suc (wd_ids u)\<rparr>)"
  proof
    show "EnqueueDispatch d w = bindE (write_row (mk_event (NewID (wd_rnd u) (wd_ids u)) (d_run_id d) EventDispatchQueued i
         (dispatch_ids i (d_run_id d) (d_role d) (d_job_id d)) t)
         (bindE (exec (insert_dispatch \<lparr>dr_id = i, dr_run_id = d_run_id d, dr_role = d_role d, dr_job_id = nullable (d_job_id d),
           dr_prompt = nullable (d_prompt d), dr_inputs = d_inputs d, dr_state = DispatchStatePending,
           dr_worker_handle = nullable (d_worker_handle d), dr_leased_at = None,
           dr_completed_at = None, dr_created_at = stamp t,
           dr_mode = (case d_mode d of None \<Rightarrow> DispatchModePersistent | Some m \<Rightarrow> m)\<rparr>)) (\<lambda>_. ret ())))
       (\<lambda>_. ret (d\<lparr>d_id := i, d_created_at := Some t, d_state := DispatchStatePending\<rparr>)) (u\<lparr>wd_ids := Suc (wd_ids u)\<rparr>)"
      by (auto simp: EnqueueDispatch_def Let_def u_def t_def v_def i_def bindE_new_id bindE_time_now
          split: option.splits)
  qed auto
  from dtrans_insert_row [of ev r "u\<lparr>wd_ids := Suc (wd_ids u)\<rparr>"] this u show ?thesis
    by (simp add: bindE_db_ret)
qed

lemma dtrans_complete: "dtrans (wd_db w) (wd_db (snd (CompleteDispatch enc i out w)))"
proof -
  let ?m = "bindE (exec (update_dispatches (\<lambda>x. dr_id x = i \<and> dr_state x = DispatchStateLeased)
      (\<lambda>x. x\<lparr>dr_state := DispatchStateCompleted, dr_completed_at := Some (stamp (wd_clock w (wd_ticks w)))\<rparr>))) (\<lambda>n.
      if n = 0 then raise (Errorf ''dispatch %q not found or not in leased state'' [i]) else ret ())"
  let ?w = "w\<lparr>wd_ticks := Suc (wd_ticks w)\<rparr>"
  have row: "dtrans (wd_db v) (wd_db (snd (write_row ev ?m v)))"
    if "ev_kind ev = EventDispatchCompleted" "ev_correlation_id ev = i" for ev v
    using write_row_db [of ev ?m v]
  proof (elim disjE exE conjE)
    assume "wd_db (snd (write_row ev ?m v)) = wd_db v"
    then show ?thesis by simp
  next
    fix w1 w2
    assume w1: "wd_db w1 = add_event (stored_event (ev\<lparr>ev_sequence := next_sequence (ev_run_id ev) (wd_db v)\<rparr>)) (wd_db v)"
      and m: "?m w1 = (Inr (), w2)" and w2: "wd_db (snd (write_row ev ?m v)) = wd_db w2"
    from m w1 have "count_where (\<lambda>x. dr_id x = i \<and> dr_state x = DispatchStateLeased) (t_dispatches (wd_db v)) \<noteq> 0"
      by (auto simp: run_simps update_dispatches_def add_event_def split: if_splits)
    then obtain r where "r \<in> set (t_dispatches (wd_db v))" "dr_id r = i" "dr_state r = DispatchStateLeased"
      by (auto simp: count_where_def filter_empty_conv)
    with m w1 w2 that show ?thesis
      by (auto simp: run_simps update_dispatches_def add_event_def intro!: dtrans.completed [of r] split: if_splits)
  qed
  obtain q u where q: "query_row (\<lambda>d. map_option dr_run_id (find_dispatch i d)) ?w = (q, u)" by force
  have u: "wd_db u = wd_db w"
    using query_row_db [of "\<lambda>d. map_option dr_run_id (find_dispatch i d)" ?w] q by simp
  show ?thesis
  proof (cases q)
    case (Inl e)
    with q u show ?thesis by (simp add: CompleteDispatch_def bindE_time_now bindE_attempt raise_def)
  next
    case (Inr runID)
    with q u row [of "mk_event (NewID (wd_rnd u) (wd_ids u)) runID EventDispatchCompleted i
       (jstrs [(''dispatch_id'', i), (''run_id'', runID), (''outputs'', enc out)]) (wd_clock w (wd_ticks w))"
       "u\<lparr>wd_ids := Suc (wd_ids u)\<rparr>"]
    show ?thesis by (simp add: CompleteDispatch_def bindE_time_now bindE_attempt bindE_new_id)
  qed
qed

lemma dstep_dtrans: "dstep enc w w' \<Longrightarrow> dtrans (wd_db w) (wd_db w')"
proof (induction rule: dstep.induct)
  case (other w' w es)
  then show ?case by (intro dtrans.none [of _ _ es]) (auto simp: dispatch_kinds_def)
qed (rule dtrans_enqueue dtrans_claim dtrans_complete dtrans_expire dtrans_requeue dtrans_untarget)+

section \<open>The life cycle of a row\<close>

lemma dtrans_life:
  "dtrans d d' \<Longrightarrow> list_all2 life (t_dispatches d) (take (length (t_dispatches d)) (t_dispatches d')) \<and>
     length (t_dispatches d) \<le> length (t_dispatches d')"
  by (induction rule: dtrans.induct)
    (auto simp: update_where_def list_all2_conv_all_nth life.stay intro: life.intros)

text \<open>
  C24. Whatever order the processes run in and whatever their faults, no dispatch row ever
  disappears or moves, and a step changes a row at most by one move of its life cycle: a pending
  row is leased or loses its target, a leased row is completed or goes back to pending without
  worker and lease. In particular a completed row never changes again, and run, role, job, prompt,
  inputs and creation time never change.
\<close>

theorem dispatch_life_cycle:
  assumes "dstep enc w w'"
  shows "list_all2 (\<lambda>r r'. life r r' \<and> (dr_state r = DispatchStateCompleted \<longrightarrow> r' = r))
      (t_dispatches (wd_db w)) (take (length (t_dispatches (wd_db w))) (t_dispatches (wd_db w'))) \<and>
    length (t_dispatches (wd_db w)) \<le> length (t_dispatches (wd_db w'))"
  using dtrans_life [OF dstep_dtrans [OF assms]] life_completed
  by (auto elim!: list_all2_mono)

section \<open>The log and the rows\<close>

definition occurrences :: "EventKind \<Rightarrow> ident \<Rightarrow> db \<Rightarrow> nat" where
  "occurrences k i d = length (filter (\<lambda>e. ev_kind e = k \<and> ev_correlation_id e = i) (t_events d))"

definition leases :: "ident \<Rightarrow> db \<Rightarrow> nat" where
  "leases i d = occurrences EventDispatchLeased i d"

definition expiries :: "ident \<Rightarrow> db \<Rightarrow> nat" where
  "expiries i d = occurrences EventDispatchExpired i d"

definition completions :: "ident \<Rightarrow> db \<Rightarrow> nat" where
  "completions i d = occurrences EventDispatchCompleted i d"

definition row_ok :: "db \<Rightarrow> dispatch_row \<Rightarrow> bool" where
  "row_ok d r \<longleftrightarrow>
     completions (dr_id r) d = (if dr_state r = DispatchStateCompleted then 1 else 0) \<and>
     leases (dr_id r) d \<le> expiries (dr_id r) d + (if dr_state r = DispatchStatePending then 0 else 1)"

definition queue_ok :: "db \<Rightarrow> bool" where
  "queue_ok d \<longleftrightarrow>
     distinct (map dr_id (t_dispatches d)) \<and>
     (\<forall>i. i \<notin> dr_id ` set (t_dispatches d) \<longrightarrow> leases i d = 0 \<and> completions i d = 0) \<and>
     (\<forall>r \<in> set (t_dispatches d). row_ok d r)"

lemma occurrences_append:
  "t_events d' = t_events d @ es \<Longrightarrow>
     occurrences k i d' = occurrences k i d + length (filter (\<lambda>e. ev_kind e = k \<and> ev_correlation_id e = i) es)"
  by (simp add: occurrences_def)

lemmas counts = leases_def completions_def expiries_def

lemma distinct_id_eq:
  "distinct (map key rows) \<Longrightarrow> r \<in> set rows \<Longrightarrow> s \<in> set rows \<Longrightarrow> key r = key s \<Longrightarrow> r = s"
  by (metis distinct_map inj_on_def)

text \<open>The rule for the transactions that update rows: identifiers stay, so only the updated rows
  and the counts of the identifiers that occur in the log need a look.\<close>

lemma queue_ok_update:
  assumes ok: "queue_ok d" and rows: "t_dispatches d' = update_where P f (t_dispatches d)"
    and idf: "\<And>r. dr_id (f r) = dr_id r"
    and fresh: "\<And>i. i \<notin> dr_id ` set (t_dispatches d) \<Longrightarrow> leases i d' = leases i d \<and> completions i d' = completions i d"
    and hit: "\<And>r. r \<in> set (t_dispatches d) \<Longrightarrow> row_ok d r \<Longrightarrow> P r \<Longrightarrow> row_ok d' (f r)"
    and miss: "\<And>r. r \<in> set (t_dispatches d) \<Longrightarrow> row_ok d r \<Longrightarrow> \<not> P r \<Longrightarrow> row_ok d' r"
  shows "queue_ok d'"
proof -
  have ids: "map dr_id (t_dispatches d') = map dr_id (t_dispatches d)"
    unfolding rows by (rule update_where_keys) (rule idf)
  then have "dr_id ` set (t_dispatches d') = dr_id ` set (t_dispatches d)" by (metis list.set_map)
  with ok ids fresh hit miss show ?thesis
    by (auto simp: queue_ok_def rows set_update_where)
qed

lemma dtrans_queue_ok: "dtrans d d' \<Longrightarrow> queue_ok d \<Longrightarrow> queue_ok d'"
proof (induction rule: dtrans.induct)
  case (none d' d es)
  have "occurrences k i d' = occurrences k i d"
    if "k \<in> {EventDispatchLeased, EventDispatchCompleted, EventDispatchExpired}" for k i
    using none(2,3) that by (auto simp: occurrences_append filter_empty_conv)
  with none(1,4) show ?case by (simp add: queue_ok_def row_ok_def counts)
next
  case (insert d' d r e)
  then show ?case
    by (auto simp: queue_ok_def row_ok_def counts occurrences_append [OF insert(4)])
next
  case (leased r d d' t e)
  have d: "distinct (map dr_id (t_dispatches d))" using leased(7) by (simp add: queue_ok_def)
  note oc = occurrences_append [OF leased(4)]
  show ?case
  proof (rule queue_ok_update [OF leased(7,3)])
    fix x assume x: "x \<in> set (t_dispatches d)" "row_ok d x" "\<not> (dr_id x = dr_id r \<and> dr_state x = DispatchStatePending)"
    with leased(1,2) distinct_id_eq [OF d x(1) leased(1)] have "dr_id x \<noteq> dr_id r" by auto
    with x leased(5,6) show "row_ok d' x" by (simp add: row_ok_def counts oc)
  qed (use leased(1,5,6) in \<open>auto simp: row_ok_def counts oc\<close>)
next
  case (completed r d d' t e)
  have d: "distinct (map dr_id (t_dispatches d))" using completed(7) by (simp add: queue_ok_def)
  note oc = occurrences_append [OF completed(4)]
  show ?case
  proof (rule queue_ok_update [OF completed(7,3)])
    fix x assume x: "x \<in> set (t_dispatches d)" "row_ok d x" "\<not> (dr_id x = dr_id r \<and> dr_state x = DispatchStateLeased)"
    with completed(1,2) distinct_id_eq [OF d x(1) completed(1)] have "dr_id x \<noteq> dr_id r" by auto
    with x completed(5,6) show "row_ok d' x" by (simp add: row_ok_def counts oc)
  qed (use completed(1,5,6) in \<open>auto simp: row_ok_def counts oc\<close>)
next
  case (released d' i d e)
  note oc = occurrences_append [OF released(2)]
  show ?case
    by (rule queue_ok_update [OF released(5,1)]) (use released(3,4) in \<open>auto simp: row_ok_def counts oc\<close>)
next
  case (untargeted d' h d)
  have oc: "occurrences k i d' = occurrences k i d" for k i
    by (simp add: occurrences_def untargeted(2))
  show ?case
    by (rule queue_ok_update [OF untargeted(3,1)]) (auto simp: row_ok_def counts oc)
qed

lemma dsteps_queue_ok: "(dstep enc)\<^sup>*\<^sup>* w w' \<Longrightarrow> queue_ok (wd_db w) \<Longrightarrow> queue_ok (wd_db w')"
  by (induction rule: rtranclp_induct) (auto dest: dstep_dtrans intro: dtrans_queue_ok)

text \<open>
  C8. In every run of the interleaved queue that starts from empty tables, a dispatch is never
  leased twice without an expiry in between (there are at most as many leases as expiries, plus
  one while it is leased or completed), and it is completed at most once: the log holds one
  completion for a completed dispatch and none for any other.
\<close>

theorem no_double_lease:
  assumes "(dstep enc)\<^sup>*\<^sup>* w w'" and "t_dispatches (wd_db w) = []" and "t_events (wd_db w) = []"
    and "r \<in> set (t_dispatches (wd_db w'))"
  shows "leases (dr_id r) (wd_db w') \<le>
      expiries (dr_id r) (wd_db w') + (if dr_state r = DispatchStatePending then 0 else 1) \<and>
    completions (dr_id r) (wd_db w') = (if dr_state r = DispatchStateCompleted then 1 else 0)"
proof -
  have "queue_ok (wd_db w)"
    using assms(2,3) by (simp add: queue_ok_def counts occurrences_def)
  from dsteps_queue_ok [OF assms(1) this] assms(4) show ?thesis by (simp add: queue_ok_def row_ok_def)
qed

section \<open>What a claim returns\<close>

definition lease_of :: "dispatch_row \<Rightarrow> time \<Rightarrow> dispatch_row" where
  "lease_of r t = r\<lparr>dr_state := DispatchStateLeased, dr_leased_at := Some (stamp t)\<rparr>"

text \<open>
  A claim returns nothing, and changes no table, exactly when no pending dispatch of the role
  is open to the caller; otherwise it returns one that no other open one is older than, and leases
  that row and no other. A caller with a handle is offered the rows targeted at it and the
  untargeted ones, a caller without one only the untargeted ones. A failed claim changes nothing.
\<close>

lemma claim_returns_oldest:
  assumes "distinct (map dr_id (t_dispatches (wd_db w)))"
  shows "case ClaimNextDispatch rl h w of
      (Inl e, w') \<Rightarrow> wd_db w' = wd_db w
    | (Inr None, w') \<Rightarrow> wd_db w' = wd_db w \<and> (\<forall>x \<in> set (t_dispatches (wd_db w)). \<not> eligible_row rl h x)
    | (Inr (Some d), w') \<Rightarrow> \<exists>row \<in> set (t_dispatches (wd_db w)). eligible_row rl h row \<and>
        (\<forall>x \<in> set (t_dispatches (wd_db w)). eligible_row rl h x \<longrightarrow> dr_created_at row \<le> dr_created_at x) \<and>
        d = (row_to_dispatch row)\<lparr>d_state := DispatchStateLeased, d_leased_at := Some (wd_clock w (wd_ticks w))\<rparr> \<and>
        t_dispatches (wd_db w') = map (\<lambda>x. if x = row then lease_of row (wd_clock w (wd_ticks w)) else x)
          (t_dispatches (wd_db w))"
proof -
  obtain r w' where c: "ClaimNextDispatch rl h w = (r, w')" by force
  note run = ClaimNextDispatch_run [OF c]
  consider e where "r = Inl e" | "r = Inr None" | d where "r = Inr (Some d)"
    by (metis not_None_eq sum.exhaust_sel)
  then show ?thesis
  proof cases
    case 1
    with c run show ?thesis by simp
  next
    case 2
    with c run show ?thesis by (simp add: oldest_eligible_None)
  next
    case (3 d)
    with run obtain row ev where o: "oldest_eligible rl h (wd_db w) = Some row"
      and d: "d = (row_to_dispatch row)\<lparr>d_state := DispatchStateLeased, d_leased_at := Some (wd_clock w (wd_ticks w))\<rparr>"
      and cl: "claimed row ev (wd_clock w (wd_ticks w)) (wd_db w) (wd_db w')" by auto
    note old = oldest_eligible_Some [OF o]
    then have row: "row \<in> set (t_dispatches (wd_db w))" and pend: "dr_state row = DispatchStatePending"
      by (auto simp: eligible_row_def)
    have "(dr_id x = dr_id row \<and> dr_state x = DispatchStatePending) = (x = row)"
      if "x \<in> set (t_dispatches (wd_db w))" for x
      using distinct_id_eq [OF assms that row] pend by auto
    then have "t_dispatches (wd_db w') = map (\<lambda>x. if x = row then lease_of row (wd_clock w (wd_ticks w)) else x)
          (t_dispatches (wd_db w))"
      using cl by (auto simp: claimed_def update_where_def lease_of_def)
    with old d row c 3 show ?thesis by auto
  qed
qed

section \<open>A sample queue\<close>

definition sample_dispatch :: "ident \<Rightarrow> ident \<Rightarrow> time \<Rightarrow> dispatch" where
  "sample_dispatch i h t = \<lparr>d_id = i, d_run_id = ''r1'', d_role = ''developer'', d_job_id = ''j1'', d_prompt = ''p'',
     d_inputs = JObj [], d_state = DispatchStatePending, d_worker_handle = h, d_leased_at = None,
     d_completed_at = None, d_created_at = Some t, d_mode = None\<rparr>"

definition queue0 :: world where
  "queue0 = world_with (empty_db\<lparr>t_runs := [sample_run ''r1'']\<rparr>) (\<lambda>_. None)"

definition queue1 :: world where
  "queue1 = snd (EnqueueDispatch (sample_dispatch ''d1'' [] 1000000000) queue0)"

definition queue2 :: world where
  "queue2 = snd (ClaimNextDispatch ''developer'' ''w1'' queue1)"

lemma queue1_eval:
  "queue1 = queue0\<lparr>wd_ids := 1, wd_calls := 5, wd_db := wd_db queue1, wd_published := wd_published queue1\<rparr> \<and>
   map ev_id (t_events (wd_db queue1)) = [NewID sample_rnd 0] \<and>
   map ev_sequence (events_of ''r1'' (wd_db queue1)) = [1] \<and> events_of [] (wd_db queue1) = [] \<and>
   t_dispatches (wd_db queue1) = [\<lparr>dr_id = ''d1'', dr_run_id = ''r1'', dr_role = ''developer'',
      dr_job_id = Some ''j1'', dr_prompt = Some ''p'', dr_inputs = JObj [], dr_state = DispatchStatePending,
      dr_worker_handle = None, dr_leased_at = None, dr_completed_at = None, dr_created_at = 1000000000,
      dr_mode = DispatchModePersistent\<rparr>]"
  by (simp add: queue1_def queue0_def sample_dispatch_def sample_run_def eval_simps)

definition queue3 :: world where
  "queue3 = snd (CompleteDispatch (\<lambda>_. ''{}'') ''d1'' (JObj []) queue2)"

definition queue4 :: world where
  "queue4 = snd (expire_one 0 (''d1'', ''r1'') queue3)"

lemmas queue_evals = queue4_def queue3_def queue2_def queue1_def queue0_def sample_dispatch_def
  sample_run_def eval_simps

lemma queue2_rows: "map (\<lambda>r. (dr_id r, dr_state r)) (t_dispatches (wd_db queue2)) = [(''d1'', DispatchStateLeased)]"
  by (simp add: queue_evals)

lemma queue_steps:
  "dstep (\<lambda>_. ''{}'') queue0 queue1" "dstep (\<lambda>_. ''{}'') queue1 queue2"
  "dstep (\<lambda>_. ''{}'') queue2 queue3" "dstep (\<lambda>_. ''{}'') queue3 queue4"
  unfolding queue1_def queue2_def queue3_def queue4_def by (rule dstep.intros)+

lemma dispatch_life_cycle_witness:
  "length (t_dispatches (wd_db queue1)) \<le> length (t_dispatches (wd_db queue2))"
  using dispatch_life_cycle [OF queue_steps(2)] by blast

lemma no_double_lease_witness:
  "leases ''d1'' (wd_db queue2) \<le> expiries ''d1'' (wd_db queue2) + 1 \<and> completions ''d1'' (wd_db queue2) = 0"
proof -
  have s: "(dstep (\<lambda>_. ''{}''))\<^sup>*\<^sup>* queue0 queue2"
    using queue_steps(1,2) by (meson converse_rtranclp_into_rtranclp rtranclp.rtrancl_refl)
  have e: "t_dispatches (wd_db queue0) = []" "t_events (wd_db queue0) = []"
    by (simp_all add: queue0_def world_with_def empty_db_def)
  from queue2_rows obtain r where r: "r \<in> set (t_dispatches (wd_db queue2))" "dr_id r = ''d1''"
    "dr_state r = DispatchStateLeased" by (cases "t_dispatches (wd_db queue2)") auto
  from no_double_lease [OF s e r(1)] r show ?thesis by simp
qed

lemma claim_returns_oldest_witness:
  "\<exists>d. fst (ClaimNextDispatch ''developer'' ''w1'' queue1) = Inr (Some d) \<and> d_id d = ''d1''"
proof -
  have d: "distinct (map dr_id (t_dispatches (wd_db queue1)))" using queue1_eval by simp
  have "\<exists>d. fst (ClaimNextDispatch ''developer'' ''w1'' queue1) = Inr (Some d)"
    by (simp add: queue_evals)
  then obtain d where f: "fst (ClaimNextDispatch ''developer'' ''w1'' queue1) = Inr (Some d)" by blast
  have rows: "map dr_id (t_dispatches (wd_db queue1)) = [''d1'']" using queue1_eval by simp
  from claim_returns_oldest [OF d, of "''developer''" "''w1''"] f obtain row where
    row: "row \<in> set (t_dispatches (wd_db queue1))"
    and dd: "d = (row_to_dispatch row)\<lparr>d_state := DispatchStateLeased,
      d_leased_at := Some (wd_clock queue1 (wd_ticks queue1))\<rparr>"
    by (cases "ClaimNextDispatch ''developer'' ''w1'' queue1") auto
  have "dr_id row = ''d1''" using row rows by (metis list.set_map list.simps(15) image_eqI singletonD list.set(1))
  with dd have "d_id d = ''d1''" by (simp add: row_to_dispatch_def)
  with f show ?thesis by blast
qed

text \<open>
  A release that comes late leaves a false expiry: when the lease was selected as expired and its
  worker completed the dispatch before the release, the log ends with an expiry of a dispatch that
  stays completed.
\<close>

lemma phantom_expiry:
  "(dstep (\<lambda>_. ''{}''))\<^sup>*\<^sup>* queue0 queue4 \<and>
   map (\<lambda>r. (dr_id r, dr_state r)) (t_dispatches (wd_db queue4)) = [(''d1'', DispatchStateCompleted)] \<and>
   map ev_kind (t_events (wd_db queue4)) =
     [EventDispatchQueued, EventDispatchLeased, EventDispatchCompleted, EventDispatchExpired]"
proof (intro conjI)
  show "(dstep (\<lambda>_. ''{}''))\<^sup>*\<^sup>* queue0 queue4"
    using queue_steps by (meson converse_rtranclp_into_rtranclp rtranclp.rtrancl_refl)
  show "map (\<lambda>r. (dr_id r, dr_state r)) (t_dispatches (wd_db queue4)) = [(''d1'', DispatchStateCompleted)]"
    by (simp add: queue_evals)
  show "map ev_kind (t_events (wd_db queue4)) =
     [EventDispatchQueued, EventDispatchLeased, EventDispatchCompleted, EventDispatchExpired]"
    by (simp add: queue_evals)
qed

end
