(* ===== verification/Worker_Store.thy ===== *)
theory Worker_Store
  imports Dispatch_Life
begin

text \<open>
  \<open>store/worker_store.go\<close> and \<open>mcp/watchdog.go\<close>: registered workers, their heartbeats, and the
  watchdog that marks silent workers stale, evicts them and releases their dispatches. The lemmas
  give the life cycle of a worker, what a release leaves behind and the timing of the watchdog.
\<close>

section \<open>The store\<close>

definition insert_worker :: "worker \<Rightarrow> db \<Rightarrow> goerr + nat \<times> db" where
  "insert_worker r d =
     map_sum id (\<lambda>rows. (1, d\<lparr>t_workers := rows\<rparr>)) (insert_into ''workers.handle'' w_handle r (t_workers d))"

definition update_workers :: "(worker \<Rightarrow> bool) \<Rightarrow> (worker \<Rightarrow> worker) \<Rightarrow> db \<Rightarrow> goerr + nat \<times> db" where
  "update_workers P f d =
     Inr (count_where P (t_workers d), d\<lparr>t_workers := update_where P f (t_workers d)\<rparr>)"

definition Register :: "worker \<Rightarrow> worker prog" where
  "Register x =
     bindE (case w_registered_at x of None \<Rightarrow> time_now | Some t \<Rightarrow> ret t) (\<lambda>now.
     let x' = x\<lparr>w_registered_at := Some now, w_last_heartbeat := Some now, w_state := WorkerStateLive\<rparr> in
     bindE new_id (\<lambda>eid.
     bindE (write_row (mk_event eid [] EventWorkerRegistered (w_handle x)
         (JObj [(''handle'', JStr (w_handle x)), (''role'', JStr (w_role x)), (''pid'', JInt (w_pid x)),
                (''session_id'', JStr (w_session_id x)), (''cli'', JStr (w_cli x))]) now)
       (bindE (exec (insert_worker (x'\<lparr>w_registered_at := Some (stamp now),
          w_last_heartbeat := Some (stamp now)\<rparr>))) (\<lambda>_. ret ()))) (\<lambda>_.
     ret x')))"

definition worker_gone :: "ident \<Rightarrow> goerr" where
  "worker_gone h = Errorf ''worker %q not found or already evicted'' [h]"

definition Heartbeat :: "ident \<Rightarrow> unit prog" where
  "Heartbeat h =
     bindE time_now (\<lambda>now. bindE new_id (\<lambda>eid.
     write_row (mk_event eid [] EventWorkerHeartbeat h (jstrs [(''handle'', h)]) now)
       (bindE (exec (update_workers (\<lambda>x. w_handle x = h \<and> w_state x \<noteq> WorkerStateEvicted)
          (\<lambda>x. x\<lparr>w_last_heartbeat := Some (stamp now), w_state := WorkerStateLive\<rparr>))) (\<lambda>n.
        if n = 0 then raise (worker_gone h) else ret ()))))"

definition Deregister :: "ident \<Rightarrow> unit prog" where
  "Deregister h =
     bindE time_now (\<lambda>now. bindE new_id (\<lambda>eid.
     write_row (mk_event eid [] EventWorkerDeregistered h (jstrs [(''handle'', h)]) now)
       (bindE (exec (update_workers (\<lambda>x. w_handle x = h \<and> w_state x \<noteq> WorkerStateEvicted)
          (\<lambda>x. x\<lparr>w_state := WorkerStateEvicted\<rparr>))) (\<lambda>n.
        if n = 0 then raise (worker_gone h) else ret ()))))"

definition live_workers :: "string \<Rightarrow> db \<Rightarrow> worker list" where
  "live_workers rl d =
     sort_key w_registered_at (filter (\<lambda>x. w_role x = rl \<and> w_state x = WorkerStateLive) (t_workers d))"

definition LiveWorkersForRole :: "string \<Rightarrow> worker list prog" where
  "LiveWorkersForRole rl = wrapE ''query live workers: %w'' [] (query (live_workers rl))"

definition silent_since :: "time \<Rightarrow> worker \<Rightarrow> bool" where
  "silent_since cutoff x = (case w_last_heartbeat x of None \<Rightarrow> False | Some t \<Rightarrow> t < stamp cutoff)"

definition silent_handles :: "WorkerState \<Rightarrow> time \<Rightarrow> db \<Rightarrow> ident list" where
  "silent_handles st cutoff d =
     map w_handle (filter (\<lambda>x. w_state x = st \<and> silent_since cutoff x) (t_workers d))"

definition MarkStale :: "time \<Rightarrow> ident list prog" where
  "MarkStale cutoff =
     bindE (wrapE ''query stale candidates: %w'' [] (query (silent_handles WorkerStateLive cutoff))) (\<lambda>handles.
     if handles = [] then ret []
     else
       bindE (wrapE ''mark stale: %w'' []
         (exec (update_workers (\<lambda>x. w_state x = WorkerStateLive \<and> silent_since cutoff x)
            (\<lambda>x. x\<lparr>w_state := WorkerStateStale\<rparr>)))) (\<lambda>_.
       ret handles))"

text \<open>One iteration of the loop of \<open>MarkEvicted\<close>: \<open>None\<close> when the worker recovered meanwhile.\<close>

definition evict_one :: "time \<Rightarrow> ident \<Rightarrow> ident option prog" where
  "evict_one now h =
     bindE new_id (\<lambda>eid.
     bindE (attempt (write_row (mk_event eid [] EventWorkerDeregistered h
         (jstrs [(''handle'', h), (''reason'', ''heartbeat_timeout'')]) now)
       (bindE (exec (update_workers (\<lambda>x. w_handle x = h \<and> w_state x = WorkerStateStale)
          (\<lambda>x. x\<lparr>w_state := WorkerStateEvicted\<rparr>))) (\<lambda>n.
        if n = 0 then raise ErrSkipEviction else ret ())))) (\<lambda>r.
     case r of
       Inr _ \<Rightarrow> ret (Some h)
     | Inl e \<Rightarrow> if errors_is e ErrSkipEviction then ret None
               else raise (Wrapf ''evict worker %q: %w'' [h] e)))"

definition somes :: "'a option list \<Rightarrow> 'a list" where
  "somes xs = concat (map (\<lambda>x. case x of None \<Rightarrow> [] | Some y \<Rightarrow> [y]) xs)"

definition MarkEvicted :: "time \<Rightarrow> ident list prog" where
  "MarkEvicted cutoff =
     bindE (wrapE ''query eviction candidates: %w'' [] (query (silent_handles WorkerStateStale cutoff))) (\<lambda>handles.
     bindE time_now (\<lambda>now.
     bindE (forE handles (evict_one now)) (\<lambda>rs. ret (somes rs))))"

definition find_worker :: "ident \<Rightarrow> db \<Rightarrow> worker option" where
  "find_worker h d = find (\<lambda>x. w_handle x = h) (t_workers d)"

definition GetWorker :: "ident \<Rightarrow> worker option prog" where
  "GetWorker h =
     bindE (attempt (query_row (find_worker h))) (\<lambda>r.
     case r of
       Inr x \<Rightarrow> ret (Some x)
     | Inl e \<Rightarrow> if e = ErrNoRows then ret None else raise (Wrapf ''get worker %q: %w'' [h] e))"

text \<open>The requeue the watchdog wires in is the queue's own operation.\<close>

definition RequeueLeasedDispatches :: "ident \<Rightarrow> unit prog" where
  "RequeueLeasedDispatches h = RequeueByWorker h"

section \<open>The watchdog\<close>

text \<open>Durations are nanoseconds; a value of zero or less selects the default.\<close>

record watchdog_config =
  wc_Interval :: int
  wc_StaleAfter :: int
  wc_EvictAfter :: int

definition wd_interval :: "watchdog_config \<Rightarrow> int" where
  "wd_interval c = (if wc_Interval c \<le> 0 then 15 * 1000000000 else wc_Interval c)"

definition staleAfter :: "watchdog_config \<Rightarrow> int" where
  "staleAfter c = (if wc_StaleAfter c \<le> 0 then 45 * 1000000000 else wc_StaleAfter c)"

definition evictAfter :: "watchdog_config \<Rightarrow> int" where
  "evictAfter c = (if wc_EvictAfter c \<le> 0 then staleAfter c + wd_interval c else wc_EvictAfter c)"

definition watchdog_tick :: "watchdog_config \<Rightarrow> unit prog" where
  "watchdog_tick c =
     bindE time_now (\<lambda>now.
     bindE (attempt (MarkStale (now - staleAfter c))) (\<lambda>_.
     bindE (attempt (MarkEvicted (now - evictAfter c))) (\<lambda>r.
     case r of
       Inl _ \<Rightarrow> ret ()
     | Inr evicted \<Rightarrow> bindE (forE evicted (\<lambda>h. ignoring (RequeueByWorker h))) (\<lambda>_. ret ()))))"

lemmas [eval_simps] = insert_worker_def update_workers_def Register_def worker_gone_def Heartbeat_def
  Deregister_def live_workers_def silent_since_def silent_handles_def MarkStale_def evict_one_def
  somes_def MarkEvicted_def wd_interval_def staleAfter_def evictAfter_def watchdog_tick_def

section \<open>Consistency\<close>

lemma insert_worker_db_ok: "db_ok d \<Longrightarrow> insert_worker r d = Inr (n, d') \<Longrightarrow> db_ok d'"
  by (auto simp: insert_worker_def stmt_simps)

lemma update_workers_db_ok:
  assumes "\<And>r. w_handle (f r) = w_handle r" and "db_ok d" and "update_workers P f d = Inr (n, d')"
  shows "db_ok d'"
  using assms(2,3)
  by (auto simp: update_workers_def db_ok_def keys_ok_def refs_ok_def update_where_keys [of w_handle] assms(1))

lemma workers_keep_db_ok [keeps_intros]:
  "keeps (on_db db_ok) (Register x)" "keeps (on_db db_ok) (Heartbeat h)" "keeps (on_db db_ok) (Deregister h)"
  "keeps (on_db db_ok) (MarkStale t)" "keeps (on_db db_ok) (MarkEvicted t)"
  unfolding Register_def Heartbeat_def Deregister_def MarkStale_def MarkEvicted_def evict_one_def Let_def
  by (intro keeps_intros keeps_exec_unit; (erule (1) insert_worker_db_ok |
      erule (1) update_workers_db_ok [rotated]; simp))+

lemma watchdog_keeps_db_ok [keeps_intros]: "keeps (on_db db_ok) (watchdog_tick c)"
  unfolding watchdog_tick_def by (intro keeps_intros)

section \<open>The life of a worker\<close>

text \<open>Between two states of the table: no worker disappears, its identity stays, and an evicted
  worker stays evicted with the heartbeat it had.\<close>

definition worker_kept :: "worker \<Rightarrow> worker \<Rightarrow> bool" where
  "worker_kept x y \<longleftrightarrow>
     w_handle y = w_handle x \<and> w_role y = w_role x \<and> w_pid y = w_pid x \<and> w_session_id y = w_session_id x \<and>
     w_cli y = w_cli x \<and> w_registered_at y = w_registered_at x \<and> (w_state x = WorkerStateEvicted \<longrightarrow> y = x)"

definition workers_from :: "worker list \<Rightarrow> db \<Rightarrow> bool" where
  "workers_from old d \<longleftrightarrow>
     list_all2 worker_kept old (take (length old) (t_workers d)) \<and> length old \<le> length (t_workers d)"

lemma worker_kept_refl: "worker_kept x x"
  by (simp add: worker_kept_def)

lemma worker_kept_trans: "worker_kept x y \<Longrightarrow> worker_kept y z \<Longrightarrow> worker_kept x z"
  by (auto simp: worker_kept_def)

lemma workers_from_refl: "workers_from (t_workers d) d"
  by (simp add: workers_from_def list_all2_same worker_kept_refl)

lemma workers_from_frame [simp]:
  "workers_from old (add_event e d) = workers_from old d"
  "workers_from old (d\<lparr>t_dispatches := x\<rparr>) = workers_from old d"
  by (simp_all add: workers_from_def add_event_def)

lemma workers_from_insert: "workers_from old d \<Longrightarrow> insert_worker r d = Inr (n, d') \<Longrightarrow> workers_from old d'"
  by (auto simp: workers_from_def insert_worker_def map_sum_Inr insert_into_Inr)

lemma workers_from_update:
  assumes "\<And>r. P r \<Longrightarrow> worker_kept r (f r)" and "workers_from old d"
    and "update_workers P f d = Inr (n, d')"
  shows "workers_from old d'"
  using assms(2,3) worker_kept_trans [OF _ assms(1)]
  by (auto simp: workers_from_def update_workers_def update_where_def list_all2_conv_all_nth)

lemma keeps_workers_write_row [keeps_intros]:
  "keeps (on_db (workers_from old)) m \<Longrightarrow> keeps (on_db (workers_from old)) (write_row ev m)"
  by (rule keeps_write_row) (auto dest!: insert_event_Inr)

lemma workers_keep_from [keeps_intros]:
  "keeps (on_db (workers_from old)) (Register x)" "keeps (on_db (workers_from old)) (Heartbeat h)"
  "keeps (on_db (workers_from old)) (Deregister h)" "keeps (on_db (workers_from old)) (MarkStale t)"
  "keeps (on_db (workers_from old)) (MarkEvicted t)"
  unfolding Register_def Heartbeat_def Deregister_def MarkStale_def MarkEvicted_def evict_one_def Let_def
  by (intro keeps_intros keeps_exec_unit; (erule (1) workers_from_insert |
      erule (1) workers_from_update [rotated]; auto simp: worker_kept_def))+

lemma requeue_keeps_workers [keeps_intros]: "keeps (on_db (workers_from old)) (RequeueByWorker h)"
  unfolding RequeueByWorker_def requeue_one_def release_row_def untarget_pending_def
  by (intro keeps_intros keeps_exec_unit; auto simp: update_dispatches_def)

lemma tick_keeps_workers [keeps_intros]: "keeps (on_db (workers_from old)) (watchdog_tick c)"
  unfolding watchdog_tick_def by (intro keeps_intros)

lemma keeps_from:
  "keeps (on_db (workers_from (t_workers (wd_db w)))) m \<Longrightarrow>
   workers_from (t_workers (wd_db w)) (wd_db (snd (m w)))"
  using keepsD [of "on_db (workers_from (t_workers (wd_db w)))" m w] workers_from_refl by (simp add: on_db_def)

text \<open>
  Eviction is final and workers are never forgotten: whatever is done to the table
  (registering, heartbeats, deregistering, a watchdog tick), with whatever faults, every worker
  stays in its place with its identity, and an evicted one keeps its state and last heartbeat.
\<close>

lemma eviction_is_final:
  "workers_from (t_workers (wd_db w)) (wd_db (snd (Register x w))) \<and>
   workers_from (t_workers (wd_db w)) (wd_db (snd (Heartbeat h w))) \<and>
   workers_from (t_workers (wd_db w)) (wd_db (snd (Deregister h w))) \<and>
   workers_from (t_workers (wd_db w)) (wd_db (snd (watchdog_tick c w)))"
by (intro conjI keeps_from keeps_intros)

end
