(* ===== verification/Requeue.thy ===== *)
theory Requeue
  imports Worker_Store
begin

text \<open>
  What \<open>RequeueByWorker\<close> of \<open>store/dispatch_store.go\<close> leaves behind when it succeeds, and the
  dispatches it does not reach: the ones a worker claimed although they were addressed to nobody.
\<close>

section \<open>The rows after a requeue\<close>

definition released_row :: "dispatch_row \<Rightarrow> dispatch_row" where
  "released_row r = r\<lparr>dr_state := DispatchStatePending, dr_worker_handle := None, dr_leased_at := None\<rparr>"

lemma released_row_eta:
  "released_row = (\<lambda>r. r\<lparr>dr_state := DispatchStatePending, dr_worker_handle := None, dr_leased_at := None\<rparr>)"
  by (simp add: fun_eq_iff released_row_def)

definition requeued :: "ident \<Rightarrow> dispatch_row \<Rightarrow> dispatch_row" where
  "requeued h r =
     (if dr_worker_handle r = Some h \<and> dr_state r = DispatchStateLeased then released_row r
      else if dr_worker_handle r = Some h \<and> dr_state r = DispatchStatePending then r\<lparr>dr_worker_handle := None\<rparr>
      else r)"

definition release_id :: "ident \<Rightarrow> dispatch_row list \<Rightarrow> dispatch_row list" where
  "release_id i = update_where (\<lambda>x. dr_id x = i \<and> dr_state x = DispatchStateLeased) released_row"

lemma release_row_rows:
  "release_row ev i w = (Inr u, w') \<Longrightarrow> t_dispatches (wd_db w') = release_id i (t_dispatches (wd_db w))"
  unfolding release_row_def
  by (elim write_row_run)
    (auto simp: run_simps update_dispatches_def add_event_def release_id_def released_row_eta)

lemma requeue_one_rows:
  "requeue_one h now p w = (Inr u, w') \<Longrightarrow>
     t_dispatches (wd_db w') = release_id (fst p) (t_dispatches (wd_db w))"
  by (cases p) (auto simp: requeue_one_def run_simps dest: release_row_rows)

lemma forE_requeue_rows:
  "forE ps (requeue_one h now) w = (Inr us, w') \<Longrightarrow>
     t_dispatches (wd_db w') = fold release_id (map fst ps) (t_dispatches (wd_db w))"
  by (induction ps arbitrary: w us) (auto simp: run_simps dest!: requeue_one_rows)

lemma fold_release_id:
  "fold release_id is rows =
     map (\<lambda>x. if dr_id x \<in> set is \<and> dr_state x = DispatchStateLeased then released_row x else x) rows"
  by (induction "is" arbitrary: rows)
    (auto simp: release_id_def update_where_def released_row_def)

lemma untarget_rows:
  "untarget_pending h w = (Inr u, w') \<Longrightarrow> t_dispatches (wd_db w') =
     update_where (\<lambda>x. dr_worker_handle x = Some h \<and> dr_state x = DispatchStatePending)
       (\<lambda>x. x\<lparr>dr_worker_handle := None\<rparr>) (t_dispatches (wd_db w))"
  by (auto simp: untarget_pending_def run_simps update_dispatches_def)

lemma RequeueByWorker_run:
  assumes "RequeueByWorker h w = (Inr u, w')"
  shows "t_dispatches (wd_db w') =
     update_where (\<lambda>x. dr_worker_handle x = Some h \<and> dr_state x = DispatchStatePending)
       (\<lambda>x. x\<lparr>dr_worker_handle := None\<rparr>)
       (fold release_id (map fst (leased_by h (wd_db w))) (t_dispatches (wd_db w)))"
  using assms
  by (auto simp: RequeueByWorker_def bindE_run wrapE_run query_run time_now_run
      dest!: forE_requeue_rows untarget_rows)

lemma requeue_rows:
  assumes "RequeueByWorker h w = (Inr u, w')" and "distinct (map dr_id (t_dispatches (wd_db w)))"
  shows "t_dispatches (wd_db w') = map (requeued h) (t_dispatches (wd_db w))"
proof -
  let ?rows = "t_dispatches (wd_db w)"
  let ?sel = "set (map fst (leased_by h (wd_db w)))"
  have sel: "(dr_id x \<in> ?sel \<and> dr_state x = DispatchStateLeased) =
      (dr_worker_handle x = Some h \<and> dr_state x = DispatchStateLeased)" if "x \<in> set ?rows" for x
    using distinct_id_eq [OF assms(2) that] that by (auto simp: leased_by_def)
  have "map (\<lambda>x. if dr_id x \<in> ?sel \<and> dr_state x = DispatchStateLeased then released_row x else x) ?rows =
      map (\<lambda>x. if dr_worker_handle x = Some h \<and> dr_state x = DispatchStateLeased then released_row x else x) ?rows"
    by (rule map_cong [OF refl]) (simp only: sel)
  then show ?thesis
    unfolding RequeueByWorker_run [OF assms(1)] fold_release_id
    by (simp only:) (auto simp: update_where_def requeued_def released_row_def)
qed

text \<open>
  When \<open>RequeueByWorker\<close> returns without an error, every dispatch leased to the handle is
  pending again without worker and lease, every pending dispatch addressed to it is open to
  everybody, and every other dispatch is as it was; so nothing waits for that worker any more.
\<close>

lemma requeue_by_worker_releases:
  assumes "RequeueByWorker h w = (Inr u, w')" and "distinct (map dr_id (t_dispatches (wd_db w)))"
  shows "t_dispatches (wd_db w') = map (requeued h) (t_dispatches (wd_db w))"
  by (rule requeue_rows [OF assms])

lemma requeued_free:
  "dr_worker_handle (requeued h r) = Some h \<Longrightarrow> dr_state (requeued h r) = DispatchStateCompleted"
  by (cases "dr_state r") (auto simp: requeued_def released_row_def split: if_splits)

text \<open>
  The gap: a claim of an untargeted dispatch does not record the worker, so the requeue of that
  worker passes the dispatch over and it stays leased.
\<close>

definition queue5 :: world where
  "queue5 = snd (RequeueByWorker ''w1'' (world_with (wd_db queue2) (\<lambda>_. None)))"

lemma queue2_view:
  "map (\<lambda>r. (dr_id r, dr_state r, dr_worker_handle r)) (t_dispatches (wd_db queue2)) =
     [(''d1'', DispatchStateLeased, None)]"
proof -
  obtain r where r: "t_dispatches (wd_db queue1) = [r]" "dr_worker_handle r = None"
    using queue1_eval by auto
  obtain r' where r': "t_dispatches (wd_db queue2) = [r']" "dr_id r' = ''d1''" "dr_state r' = DispatchStateLeased"
    using queue2_rows by (auto simp: map_eq_Cons_conv)
  from dtrans_life [OF dstep_dtrans [OF queue_steps(2)]] r(1) r'(1) have "life r r'" by simp
  then have "dr_worker_handle r' = None" using r(2) by (auto elim!: lifeE)
  with r' show ?thesis by simp
qed

lemma requeue_nothing_leased:
  assumes "wd_faults w = (\<lambda>_. None)" and "leased_by h (wd_db w) = []"
  shows "fst (RequeueByWorker h w) = Inr ()"
  using assms
  by (simp add: RequeueByWorker_def bindE_def wrapE_def query_def sql_def gets_def time_now_def ret_def
      untarget_pending_def exec_def update_dispatches_def)

lemma untargeted_claim_is_not_requeued:
  "fst (RequeueByWorker ''w1'' (world_with (wd_db queue2) (\<lambda>_. None))) = Inr () \<and>
   map (\<lambda>r. (dr_id r, dr_state r, dr_worker_handle r)) (t_dispatches (wd_db queue5)) =
     [(''d1'', DispatchStateLeased, None)]"
proof
  let ?w = "world_with (wd_db queue2) (\<lambda>_. None)"
  obtain r where r: "t_dispatches (wd_db queue2) = [r]" "dr_id r = ''d1''" "dr_state r = DispatchStateLeased"
    "dr_worker_handle r = None"
    using queue2_view by (auto simp: map_eq_Cons_conv)
  then have "leased_by ''w1'' (wd_db ?w) = []" by (simp add: leased_by_def world_with_def)
  moreover have "wd_faults ?w = (\<lambda>_. None)" by (simp add: world_with_def)
  ultimately show ok: "fst (RequeueByWorker ''w1'' ?w) = Inr ()"
    by (rule requeue_nothing_leased [rotated])
  then have "RequeueByWorker ''w1'' ?w = (Inr (), queue5)" by (simp add: queue5_def prod_eq_iff)
  from requeue_rows [OF this] r
  show "map (\<lambda>r. (dr_id r, dr_state r, dr_worker_handle r)) (t_dispatches (wd_db queue5)) =
     [(''d1'', DispatchStateLeased, None)]" by (simp add: requeued_def world_with_def)
qed

text \<open>A dispatch addressed to the worker is requeued.\<close>

definition targeted_row :: dispatch_row where
  "targeted_row = \<lparr>dr_id = ''d2'', dr_run_id = ''r1'', dr_role = ''developer'', dr_job_id = None, dr_prompt = None,
     dr_inputs = JObj [], dr_state = DispatchStateLeased, dr_worker_handle = Some ''w1'', dr_leased_at = Some 0,
     dr_completed_at = None, dr_created_at = 0, dr_mode = DispatchModePersistent\<rparr>"

definition targeted_world :: world where
  "targeted_world = world_with (empty_db\<lparr>t_runs := [sample_run ''r1''], t_dispatches := [targeted_row]\<rparr>) (\<lambda>_. None)"

lemma requeue_by_worker_releases_witness:
  "map (\<lambda>r. (dr_id r, dr_state r, dr_worker_handle r))
     (t_dispatches (wd_db (snd (RequeueByWorker ''w1'' targeted_world)))) = [(''d2'', DispatchStatePending, None)]"
proof -
  have rows: "t_dispatches (wd_db targeted_world) = [targeted_row]"
    by (simp add: targeted_world_def world_with_def)
  have "fst (RequeueByWorker ''w1'' targeted_world) = Inr ()"
    by (simp add: targeted_world_def targeted_row_def queue_evals)
  then have "RequeueByWorker ''w1'' targeted_world = (Inr (), snd (RequeueByWorker ''w1'' targeted_world))"
    by (simp add: prod_eq_iff)
  from requeue_by_worker_releases [OF this] rows show ?thesis
    by (simp add: requeued_def released_row_def targeted_row_def)
qed

section \<open>The timing of the watchdog\<close>

text \<open>Whatever the configuration says, both thresholds and the interval are positive.\<close>

lemma watchdog_defaults: "0 < wd_interval c" "0 < staleAfter c" "0 < evictAfter c"
  by (auto simp: wd_interval_def staleAfter_def evictAfter_def)

text \<open>A worker silent for longer than both thresholds goes from live to evicted in one tick.\<close>

definition silent_worker :: worker where
  "silent_worker = \<lparr>w_handle = ''w1'', w_role = ''developer'', w_pid = 7, w_session_id = [], w_cli = ''codex'',
     w_registered_at = Some 0, w_last_heartbeat = Some 0, w_state = WorkerStateLive\<rparr>"

definition silent_world :: world where
  "silent_world = world_with (empty_db\<lparr>t_workers := [silent_worker]\<rparr>) (\<lambda>_. None)"

lemma live_to_evicted_in_one_tick:
  "map w_state (t_workers (wd_db (snd (watchdog_tick
     \<lparr>wc_Interval = 0, wc_StaleAfter = 0, wc_EvictAfter = 0\<rparr> silent_world)))) = [WorkerStateEvicted]"
  by (simp add: silent_world_def silent_worker_def watchdog_tick_def wd_interval_def staleAfter_def evictAfter_def
      MarkStale_def MarkEvicted_def silent_handles_def silent_since_def evict_one_def somes_def
      update_workers_def queue_evals)

end
