(* ===== verification/Router.thy ===== *)
theory Router
  imports Worker_Store
begin

text \<open>
  \<open>coding/router.go\<close>: a dispatch goes to the oldest live worker of its role, to every live worker,
  or, when there is none, to nobody in particular. The router is a client of the queue; what it
  needs from \<open>EnqueueDispatch\<close> is the locale \<open>dispatch_sink\<close>.
\<close>

section \<open>The code\<close>

datatype RouteMode = RouteModeWorker | RouteModeEphemeral

record route_result =
  rt_Mode :: RouteMode
  rt_Workers :: "ident list"
  rt_DispatchIDs :: "ident list"

definition template_for :: "dispatch \<Rightarrow> ident \<Rightarrow> ident \<Rightarrow> DispatchMode \<Rightarrow> dispatch" where
  "template_for d i h mode =
     \<lparr>d_id = i, d_run_id = d_run_id d, d_role = d_role d, d_job_id = d_job_id d, d_prompt = d_prompt d,
      d_inputs = d_inputs d, d_state = DispatchStatePending, d_worker_handle = h, d_leased_at = None,
      d_completed_at = None, d_created_at = None, d_mode = Some mode\<rparr>"

definition enqueueEphemeral :: "dispatch \<Rightarrow> route_result prog" where
  "enqueueEphemeral template =
     bindE new_id (\<lambda>i.
     bindE (wrapE ''enqueue ephemeral dispatch: %w'' []
       (EnqueueDispatch (template_for template i [] DispatchModeEphemeral))) (\<lambda>_.
     ret \<lparr>rt_Mode = RouteModeEphemeral, rt_Workers = [], rt_DispatchIDs = [i]\<rparr>))"

definition enqueue_for :: "dispatch \<Rightarrow> worker \<Rightarrow> ident prog" where
  "enqueue_for template x =
     bindE new_id (\<lambda>i.
     bindE (wrapE ''enqueue dispatch for worker %q: %w'' [w_handle x]
       (EnqueueDispatch (template_for template i (w_handle x) DispatchModePersistent))) (\<lambda>_.
     ret i))"

definition enqueue :: "dispatch \<Rightarrow> worker list \<Rightarrow> route_result prog" where
  "enqueue template workers =
     bindE (forE workers (enqueue_for template)) (\<lambda>ids.
     ret \<lparr>rt_Mode = RouteModeWorker, rt_Workers = map w_handle workers, rt_DispatchIDs = ids\<rparr>)"

definition routeSingle :: "dispatch \<Rightarrow> worker list \<Rightarrow> route_result prog" where
  "routeSingle d live = (case live of [] \<Rightarrow> enqueueEphemeral d | x # _ \<Rightarrow> enqueue d [x])"

definition routeMany :: "dispatch \<Rightarrow> worker list \<Rightarrow> route_result prog" where
  "routeMany d live = (if live = [] then enqueueEphemeral d else enqueue d live)"

definition Route :: "dispatch \<Rightarrow> string \<Rightarrow> route_result prog" where
  "Route d concurrency =
     bindE (wrapE ''query live workers: %w'' [] (LiveWorkersForRole (d_role d))) (\<lambda>live.
     if concurrency = ''single'' \<or> concurrency = [] then routeSingle d live
     else if concurrency = ''many'' then routeMany d live
     else raise (Errorf ''unknown concurrency %q (want 'single' or 'many')'' [concurrency]))"

section \<open>What the router relies on\<close>

text \<open>
  A sink takes a dispatch and either appends the row for it or fails and leaves the rows alone;
  workers are not its business.
\<close>

definition row_of :: "dispatch \<Rightarrow> dispatch_row \<Rightarrow> bool" where
  "row_of d r \<longleftrightarrow>
     dr_id r = d_id d \<and> dr_run_id r = d_run_id d \<and> dr_role r = d_role d \<and>
     dr_job_id r = nullable (d_job_id d) \<and> dr_prompt r = nullable (d_prompt d) \<and>
     dr_inputs r = d_inputs d \<and> dr_state r = DispatchStatePending \<and>
     dr_worker_handle r = nullable (d_worker_handle d) \<and> dr_leased_at r = None \<and>
     Some (dr_mode r) = (case d_mode d of None \<Rightarrow> Some DispatchModePersistent | m \<Rightarrow> m)"

locale dispatch_sink =
  fixes push :: "dispatch \<Rightarrow> dispatch prog"
  assumes push_ok: "push d w = (Inr d', w') \<Longrightarrow> d_id d \<noteq> [] \<Longrightarrow>
      \<exists>r. row_of d r \<and> t_dispatches (wd_db w') = t_dispatches (wd_db w) @ [r]"
    and push_error: "push d w = (Inl e, w') \<Longrightarrow> t_dispatches (wd_db w') = t_dispatches (wd_db w)"
    and push_workers: "t_workers (wd_db (snd (push d w))) = t_workers (wd_db w)"
begin

definition deliver :: "dispatch \<Rightarrow> string \<Rightarrow> string list \<Rightarrow> DispatchMode \<Rightarrow> ident \<Rightarrow> ident prog" where
  "deliver template f as mode h =
     bindE new_id (\<lambda>i.
     bindE (wrapE f as (push (template_for template i h mode))) (\<lambda>_. ret i))"

text \<open>The rows a template produces for a list of handles.\<close>

definition delivered :: "dispatch \<Rightarrow> DispatchMode \<Rightarrow> ident list \<Rightarrow> dispatch_row list \<Rightarrow> bool" where
  "delivered template mode hs rs \<longleftrightarrow>
     list_all2 (\<lambda>h r. row_of (template_for template (dr_id r) h mode) r) hs rs"

lemma deliver_ok:
  assumes "deliver template f as mode h w = (Inr i, w')"
  shows "\<exists>r. dr_id r = i \<and> delivered template mode [h] [r] \<and>
    t_dispatches (wd_db w') = t_dispatches (wd_db w) @ [r]"
proof -
  from assms obtain d' where "push (template_for template i h mode) (w\<lparr>wd_ids := Suc (wd_ids w)\<rparr>) = (Inr d', w')"
    and i: "i = NewID (wd_rnd w) (wd_ids w)"
    by (auto simp: deliver_def bindE_new_id run_simps)
  from push_ok [OF this(1)] show ?thesis
    by (auto simp: template_for_def i delivered_def row_of_def)
qed

lemma deliver_error:
  "deliver template f as mode h w = (Inl e, w') \<Longrightarrow> t_dispatches (wd_db w') = t_dispatches (wd_db w)"
  by (auto simp: deliver_def bindE_def wrapE_def ret_def new_id_def split: prod.splits sum.splits
      dest: push_error)

lemma deliver_all_ok:
  assumes "forE xs (\<lambda>x. deliver template f (as x) mode (h x)) w = (Inr is, w')"
  shows "\<exists>rs. map dr_id rs = is \<and> delivered template mode (map h xs) rs \<and>
    t_dispatches (wd_db w') = t_dispatches (wd_db w) @ rs"
  using assms
proof (induction xs arbitrary: w "is")
  case Nil
  then show ?case by (auto simp: run_simps delivered_def)
next
  case (Cons x xs)
  then obtain i is' w1 where d: "deliver template f (as x) mode (h x) w = (Inr i, w1)"
    and r: "forE xs (\<lambda>x. deliver template f (as x) mode (h x)) w1 = (Inr is', w')" and i: "is = i # is'"
    by (auto simp: run_simps)
  from deliver_ok [OF d] obtain r where "dr_id r = i" "delivered template mode [h x] [r]"
    "t_dispatches (wd_db w1) = t_dispatches (wd_db w) @ [r]" by blast
  moreover from Cons.IH [OF r] obtain rs where "map dr_id rs = is'" "delivered template mode (map h xs) rs"
    "t_dispatches (wd_db w') = t_dispatches (wd_db w1) @ rs" by blast
  ultimately show ?case using i by (intro exI [of _ "r # rs"]) (auto simp: delivered_def)
qed

text \<open>A failure in the middle leaves the rows of the handles before it.\<close>

lemma deliver_all_error:
  assumes "forE xs (\<lambda>x. deliver template f (as x) mode (h x)) w = (Inl e, w')"
  shows "\<exists>n rs. n < length xs \<and> delivered template mode (map h (take n xs)) rs \<and>
    t_dispatches (wd_db w') = t_dispatches (wd_db w) @ rs"
  using assms
proof (induction xs arbitrary: w)
  case Nil
  then show ?case by (simp add: ret_def)
next
  case (Cons x xs)
  obtain y w1 where d: "deliver template f (as x) mode (h x) w = (y, w1)" by force
  show ?case
  proof (cases y)
    case (Inl e')
    with d Cons.prems have "w' = w1" by (simp add: bindE_def)
    with deliver_error d Inl show ?thesis by (intro exI [of _ 0]) (auto simp: delivered_def)
  next
    case (Inr i)
    with d Cons.prems have "forE xs (\<lambda>x. deliver template f (as x) mode (h x)) w1 = (Inl e, w')"
      by (auto simp: bindE_def ret_def split: prod.splits sum.splits)
    from Cons.IH [OF this] obtain n rs where n: "n < length xs" "delivered template mode (map h (take n xs)) rs"
      "t_dispatches (wd_db w') = t_dispatches (wd_db w1) @ rs" by blast
    moreover from deliver_ok [OF d [unfolded Inr]] obtain r where
      "delivered template mode [h x] [r]" "t_dispatches (wd_db w1) = t_dispatches (wd_db w) @ [r]" by blast
    ultimately show ?thesis
      by (intro exI [of _ "Suc n"] exI [of _ "r # rs"]) (auto simp: delivered_def)
  qed
qed

end

lemma insert_dispatch_Inr:
  "insert_dispatch r d = Inr (n, d') \<Longrightarrow> d' = d\<lparr>t_dispatches := t_dispatches d @ [r]\<rparr>"
  by (auto simp: insert_dispatch_def map_sum_Inr require_fk_Inr insert_into_Inr)

text \<open>What one \<open>EnqueueDispatch\<close> does, whether it succeeds or not.\<close>

lemma EnqueueDispatch_cases:
  obtains (error) e w' where "EnqueueDispatch d w = (Inl e, w')" "wd_db w' = wd_db w"
  | (ok) d' w' ev r where "EnqueueDispatch d w = (Inr d', w')" "d_id d \<noteq> [] \<longrightarrow> row_of d r"
      "wd_db w' = (add_event ev (wd_db w))\<lparr>t_dispatches := t_dispatches (wd_db w) @ [r]\<rparr>"
proof -
  define v where "v = (if d_id d = [] then w\<lparr>wd_ids := Suc (wd_ids w)\<rparr> else w)"
  define i where "i = (if d_id d = [] then NewID (wd_rnd w) (wd_ids w) else d_id d)"
  define t where "t = (case d_created_at d of None \<Rightarrow> wd_clock v (wd_ticks v) | Some t \<Rightarrow> t)"
  define u where "u = (case d_created_at d of None \<Rightarrow> v\<lparr>wd_ticks := Suc (wd_ticks v)\<rparr> | Some t \<Rightarrow> v)"
  define u' where "u' = u\<lparr>wd_ids := Suc (wd_ids u)\<rparr>"
  have u: "wd_db u' = wd_db w" by (simp add: u'_def u_def v_def split: option.split)
  define r where "r = \<lparr>dr_id = i, dr_run_id = d_run_id d, dr_role = d_role d, dr_job_id = nullable (d_job_id d),
           dr_prompt = nullable (d_prompt d), dr_inputs = d_inputs d, dr_state = DispatchStatePending,
           dr_worker_handle = nullable (d_worker_handle d), dr_leased_at = None,
           dr_completed_at = None, dr_created_at = stamp t,
           dr_mode = (case d_mode d of None \<Rightarrow> DispatchModePersistent | Some m \<Rightarrow> m)\<rparr>"
  define ev where "ev = mk_event (NewID (wd_rnd u) (wd_ids u)) (d_run_id d) EventDispatchQueued i
         (dispatch_ids i (d_run_id d) (d_role d) (d_job_id d)) t"
  define m where "m = bindE (exec (insert_dispatch r)) (\<lambda>_. ret ())"
  have run: "EnqueueDispatch d w =
      bindE (write_row ev m) (\<lambda>_. ret (d\<lparr>d_id := i, d_created_at := Some t, d_state := DispatchStatePending\<rparr>)) u'"
    unfolding m_def
    by (auto simp: EnqueueDispatch_def Let_def u'_def ev_def r_def u_def t_def v_def i_def bindE_new_id bindE_time_now
        split: option.splits)
  have row: "d_id d \<noteq> [] \<longrightarrow> row_of d r"
    by (auto simp: row_of_def r_def i_def split: option.split)
  obtain x w' where x: "write_row ev m u' = (x, w')" by force
  show thesis
  proof (cases x)
    case (Inl e)
    have "wd_db w' = wd_db u'"
      using write_event_atomic_aux [of ev "Some m" u'] x Inl
      by (auto simp: write_row_def bindE_def ret_def split: prod.splits sum.splits)
    with error run x Inl u show thesis by (auto simp: bindE_def)
  next
    case (Inr y)
    from write_row_run [OF x [unfolded Inr]] obtain w1 w2 where
      w1: "wd_db w1 = add_event (stored_event (ev\<lparr>ev_sequence := next_sequence (ev_run_id ev) (wd_db u')\<rparr>)) (wd_db u')"
      and w2: "m w1 = (Inr (), w2)" "wd_db w' = wd_db w2" by blast
    then have "wd_db w' = (wd_db w1)\<lparr>t_dispatches := t_dispatches (wd_db w1) @ [r]\<rparr>"
      by (auto simp: m_def run_simps dest: insert_dispatch_Inr)
    with ok [of _ w' r] run x Inr row w1 u show thesis by (auto simp: bindE_def ret_def add_event_def)
  qed
qed

interpretation queue: dispatch_sink EnqueueDispatch
proof
  fix d d' :: dispatch and e :: goerr and w w' :: world
  show "\<exists>r. row_of d r \<and> t_dispatches (wd_db w') = t_dispatches (wd_db w) @ [r]"
    if "EnqueueDispatch d w = (Inr d', w')" "d_id d \<noteq> []"
    by (rule EnqueueDispatch_cases [of d w]) (use that in auto)
  show "t_dispatches (wd_db w') = t_dispatches (wd_db w)" if "EnqueueDispatch d w = (Inl e, w')"
    by (rule EnqueueDispatch_cases [of d w]) (use that in auto)
  show "t_workers (wd_db (snd (EnqueueDispatch d w))) = t_workers (wd_db w)"
    by (rule EnqueueDispatch_cases [of d w]) (auto simp: add_event_def)
qed


section \<open>Where a dispatch goes\<close>

lemma enqueue_for_deliver: "enqueue_for template x =
    queue.deliver template ''enqueue dispatch for worker %q: %w'' [w_handle x] DispatchModePersistent (w_handle x)"
  by (simp add: enqueue_for_def queue.deliver_def)

lemma enqueueEphemeral_deliver: "enqueueEphemeral template =
    bindE (queue.deliver template ''enqueue ephemeral dispatch: %w'' [] DispatchModeEphemeral [])
      (\<lambda>i. ret \<lparr>rt_Mode = RouteModeEphemeral, rt_Workers = [], rt_DispatchIDs = [i]\<rparr>)"
  by (auto simp: enqueueEphemeral_def queue.deliver_def bindE_def ret_def wrapE_def fun_eq_iff
      split: prod.splits sum.splits)

text \<open>The receivers: the handles and the mode of the rows a route should write.\<close>

definition receivers :: "string \<Rightarrow> worker list \<Rightarrow> ident list" where
  "receivers concurrency live =
     (if live = [] then [[]] else if concurrency = ''many'' then map w_handle live else [w_handle (hd live)])"

definition route_mode :: "worker list \<Rightarrow> RouteMode \<times> DispatchMode" where
  "route_mode live = (if live = [] then (RouteModeEphemeral, DispatchModeEphemeral)
     else (RouteModeWorker, DispatchModePersistent))"

definition known_concurrency :: "string \<Rightarrow> bool" where
  "known_concurrency c \<longleftrightarrow> c = ''single'' \<or> c = [] \<or> c = ''many''"

text \<open>The two ways to deliver, reduced to the sink.\<close>

lemma enqueue_run:
  "enqueue d xs w = (Inr res, w') \<Longrightarrow>
     rt_Mode res = RouteModeWorker \<and> rt_Workers res = map w_handle xs \<and>
     (\<exists>rs. map dr_id rs = rt_DispatchIDs res \<and> queue.delivered d DispatchModePersistent (map w_handle xs) rs \<and>
       t_dispatches (wd_db w') = t_dispatches (wd_db w) @ rs)"
  unfolding enqueue_def enqueue_for_deliver by (auto simp: run_simps dest!: queue.deliver_all_ok)

lemma enqueueEphemeral_run:
  "enqueueEphemeral d w = (Inr res, w') \<Longrightarrow>
     rt_Mode res = RouteModeEphemeral \<and> rt_Workers res = [] \<and>
     (\<exists>rs. map dr_id rs = rt_DispatchIDs res \<and> queue.delivered d DispatchModeEphemeral [[]] rs \<and>
       t_dispatches (wd_db w') = t_dispatches (wd_db w) @ rs)"
  unfolding enqueueEphemeral_deliver by (force simp: run_simps dest!: queue.deliver_ok)

lemma enqueue_error:
  "enqueue d xs w = (Inl e, w') \<Longrightarrow>
     \<exists>n rs. n < length xs \<and> queue.delivered d DispatchModePersistent (map w_handle (take n xs)) rs \<and>
       t_dispatches (wd_db w') = t_dispatches (wd_db w) @ rs"
  unfolding enqueue_def enqueue_for_deliver
  by (auto simp: bindE_def ret_def split: prod.splits sum.splits dest!: queue.deliver_all_error)

lemma enqueueEphemeral_error:
  "enqueueEphemeral d w = (Inl e, w') \<Longrightarrow> t_dispatches (wd_db w') = t_dispatches (wd_db w)"
  unfolding enqueueEphemeral_deliver
  by (auto simp: bindE_def ret_def split: prod.splits sum.splits dest!: queue.deliver_error)

lemma LiveWorkersForRole_run:
  "LiveWorkersForRole rl w = (Inr live, w1) \<Longrightarrow>
     live = live_workers rl (wd_db w) \<and> wd_db w1 = wd_db w"
  by (auto simp: LiveWorkersForRole_def run_simps)

text \<open>
  C27. A successful route writes exactly the rows it should, all of them pending and none twice: one
  for the longest registered live worker of the role when the role is single, one for every live
  worker in order of registration when it is many, and one open to anybody when no worker is
  live; the result names the mode, the workers and the identifiers of these rows.
\<close>

theorem route_rows:
  assumes "Route d concurrency w = (Inr res, w')"
  shows "known_concurrency concurrency \<and>
    rt_Mode res = fst (route_mode (live_workers (d_role d) (wd_db w))) \<and>
    (\<exists>rs. t_dispatches (wd_db w') = t_dispatches (wd_db w) @ rs \<and> map dr_id rs = rt_DispatchIDs res \<and>
      map dr_worker_handle rs = map nullable (receivers concurrency (live_workers (d_role d) (wd_db w))) \<and>
      list_all (\<lambda>r. dr_state r = DispatchStatePending \<and> dr_role r = d_role d \<and> dr_run_id r = d_run_id d \<and>
        dr_inputs r = d_inputs d \<and> dr_mode r = snd (route_mode (live_workers (d_role d) (wd_db w)))) rs)"
proof -
  let ?live = "live_workers (d_role d) (wd_db w)"
  from assms obtain w1 where live: "wd_db w1 = wd_db w"
    and k: "known_concurrency concurrency"
    and route: "(if concurrency = ''many'' then routeMany d ?live else routeSingle d ?live) w1 = (Inr res, w')"
    by (auto simp: Route_def run_simps known_concurrency_def dest!: LiveWorkersForRole_run split: if_splits)
  have "rt_Mode res = fst (route_mode ?live) \<and> (\<exists>rs. map dr_id rs = rt_DispatchIDs res \<and>
      queue.delivered d (snd (route_mode ?live)) (receivers concurrency ?live) rs \<and>
      t_dispatches (wd_db w') = t_dispatches (wd_db w1) @ rs)"
    using route by (cases ?live)
      (auto simp: routeMany_def routeSingle_def route_mode_def receivers_def
        dest!: enqueue_run enqueueEphemeral_run split: if_splits)
  then obtain rs where m: "rt_Mode res = fst (route_mode ?live)"
    and rs: "map dr_id rs = rt_DispatchIDs res" "t_dispatches (wd_db w') = t_dispatches (wd_db w) @ rs"
    and del: "queue.delivered d (snd (route_mode ?live)) (receivers concurrency ?live) rs"
    using live by auto
  have "map dr_worker_handle rs = map nullable (receivers concurrency ?live) \<and>
      list_all (\<lambda>r. dr_state r = DispatchStatePending \<and> dr_role r = d_role d \<and> dr_run_id r = d_run_id d \<and>
        dr_inputs r = d_inputs d \<and> dr_mode r = snd (route_mode ?live)) rs"
    using del unfolding queue.delivered_def
    by (induction rule: list_all2_induct) (auto simp: row_of_def template_for_def)
  with k m rs show ?thesis by blast
qed

text \<open>
  When a route fails, nothing is undone: the rows written for the first workers stay in the
  queue, so a retry can hand the same job to them a second time. The rows that stay are those of
  a proper prefix of the receivers.
\<close>

lemma route_error_leaves_prefix:
  assumes "Route d concurrency w = (Inl e, w')"
  shows "\<exists>n rs. n < length (receivers concurrency (live_workers (d_role d) (wd_db w))) \<and>
    t_dispatches (wd_db w') = t_dispatches (wd_db w) @ rs \<and>
    map dr_worker_handle rs = map nullable (take n (receivers concurrency (live_workers (d_role d) (wd_db w))))"
proof -
  let ?live = "live_workers (d_role d) (wd_db w)"
  have pos: "0 < length (receivers concurrency ?live)" by (auto simp: receivers_def)
  have handles: "map dr_worker_handle rs = map nullable hs"
    if "queue.delivered d m hs rs" for m hs rs
    using that unfolding queue.delivered_def
    by (induction rule: list_all2_induct) (auto simp: row_of_def template_for_def)
  obtain l w1 where q: "wrapE ''query live workers: %w'' [] (LiveWorkersForRole (d_role d)) w = (l, w1)" by force
  show ?thesis
  proof (cases l)
    case (Inl e')
    with q assms have "w' = w1" by (simp add: Route_def bindE_def)
    moreover have "wd_db w1 = wd_db w" using q
      by (metis LiveWorkersForRole_def query_db snd_conv wrapE_db)
    ultimately show ?thesis using pos by (intro exI [of _ 0]) auto
  next
    case (Inr live)
    from LiveWorkersForRole_run [OF q [unfolded Inr wrapE_run]] have l: "live = ?live" and db: "wd_db w1 = wd_db w" by auto
    show ?thesis
    proof (cases "known_concurrency concurrency")
      case False
      with assms q Inr db pos show ?thesis
        by (intro exI [of _ 0]) (auto simp: Route_def bindE_def known_concurrency_def raise_def)
    next
      case True
      with assms q Inr l have route:
        "(if concurrency = ''many'' then routeMany d ?live else routeSingle d ?live) w1 = (Inl e, w')"
        by (auto simp: Route_def bindE_def known_concurrency_def split: if_splits)
      show ?thesis
      proof (cases ?live)
        case Nil
        with route have "t_dispatches (wd_db w') = t_dispatches (wd_db w)"
          by (auto simp: routeMany_def routeSingle_def db dest: enqueueEphemeral_error split: if_splits)
        with pos show ?thesis by (intro exI [of _ 0]) auto
      next
        case (Cons x xs)
        define ys where "ys = (if concurrency = ''many'' then ?live else [x])"
        from route Cons have "enqueue d ys w1 = (Inl e, w')"
          by (auto simp: routeMany_def routeSingle_def ys_def split: if_splits)
        from enqueue_error [OF this] obtain n rs where n: "n < length ys"
          "queue.delivered d DispatchModePersistent (map w_handle (take n ys)) rs"
          "t_dispatches (wd_db w') = t_dispatches (wd_db w) @ rs" using db by auto
        have "receivers concurrency ?live = map w_handle ys" using Cons by (simp add: receivers_def ys_def)
        with n handles [OF n(2)] show ?thesis by (intro exI [of _ n] exI [of _ rs]) (simp add: take_map)
      qed
    qed
  qed
qed

section \<open>A sample route\<close>

definition live_worker :: "ident \<Rightarrow> time \<Rightarrow> worker" where
  "live_worker h t = \<lparr>w_handle = h, w_role = ''developer'', w_pid = 7, w_session_id = [], w_cli = ''codex'',
     w_registered_at = Some t, w_last_heartbeat = Some t, w_state = WorkerStateLive\<rparr>"

definition routed_dispatch :: dispatch where
  "routed_dispatch = (sample_dispatch ''d1'' [] 0)\<lparr>d_created_at := None\<rparr>"

definition route_world :: "(nat \<Rightarrow> string option) \<Rightarrow> world" where
  "route_world f = world_with (empty_db\<lparr>t_runs := [sample_run ''r1''],
     t_workers := [live_worker ''w2'' 20, live_worker ''w1'' 10]\<rparr>) f"

lemma route_live: "live_workers ''developer'' (wd_db (route_world f)) = [live_worker ''w1'' 10, live_worker ''w2'' 20]"
  by (simp add: live_workers_def route_world_def world_with_def live_worker_def)

lemmas route_evals = Route_def routeMany_def routeSingle_def enqueue_def enqueue_for_def template_for_def
  LiveWorkersForRole_def live_workers_def route_world_def live_worker_def routed_dispatch_def queue_evals

lemma route_rows_witness:
  "map dr_worker_handle (t_dispatches (wd_db (snd (Route routed_dispatch ''single'' (route_world (\<lambda>_. None)))))) =
     [Some ''w1'']"
proof -
  let ?r = "Route routed_dispatch ''single'' (route_world (\<lambda>_. None))"
  have "isl (fst ?r) = False" by (simp add: route_evals)
  then obtain res where r: "?r = (Inr res, snd ?r)" by (cases "fst ?r") (auto simp: prod_eq_iff)
  have role: "d_role routed_dispatch = ''developer''" by (simp add: routed_dispatch_def sample_dispatch_def)
  have none: "t_dispatches (wd_db (route_world (\<lambda>_. None))) = []" by (simp add: route_world_def world_with_def empty_db_def)
  from route_rows [OF r] none show ?thesis
    unfolding role route_live by (auto simp: receivers_def live_worker_def nullable_def)
qed

lemma route_error_leaves_prefix_witness:
  "length (t_dispatches (wd_db (snd (Route routed_dispatch ''many''
     (route_world (\<lambda>k. if k = 6 then Some ''disk full'' else None)))))) < 2"
proof -
  let ?w = "route_world (\<lambda>k. if k = 6 then Some ''disk full'' else None)"
  let ?r = "Route routed_dispatch ''many'' ?w"
  have "isl (fst ?r)" by (simp add: route_evals)
  then obtain e where r: "?r = (Inl e, snd ?r)" by (cases "fst ?r") (auto simp: prod_eq_iff)
  have role: "d_role routed_dispatch = ''developer''" by (simp add: routed_dispatch_def sample_dispatch_def)
  have none: "t_dispatches (wd_db ?w) = []" by (simp add: route_world_def world_with_def empty_db_def)
  from route_error_leaves_prefix [OF r] none show ?thesis
    unfolding role route_live by (auto simp: receivers_def dest!: arg_cong [where f = length])
qed

end
