(* ===== verification/Predicates.thy ===== *)
theory Predicates
  imports Core_Types
begin

text \<open>
  \<open>internal/predicates\<close>: the conditions roles and contract rules are guarded by. Which files a
  commit touches (\<open>changes_touch.go\<close>), what its message says (\<open>commit_msg.go\<close>) and which phase is
  running (\<open>phase_index.go\<close>). The \<open>git\<close> command and the regular expression engine are parameters;
  \<open>filepath.Match\<close> of the standard library is written out on bytes.
\<close>

section \<open>Results\<close>

definition andThen :: "goerr + 'a \<Rightarrow> ('a \<Rightarrow> goerr + 'b) \<Rightarrow> goerr + 'b" where
  "andThen r f = (case r of Inl e \<Rightarrow> Inl e | Inr x \<Rightarrow> f x)"

definition wrapR :: "string \<Rightarrow> string list \<Rightarrow> goerr + 'a \<Rightarrow> goerr + 'a" where
  "wrapR f as r = (case r of Inl e \<Rightarrow> Inl (Wrapf f as e) | Inr x \<Rightarrow> Inr x)"

lemma andThen_simps [simp]: "andThen (Inl e) f = Inl e" "andThen (Inr x) f = f x"
  by (simp_all add: andThen_def)

lemma wrapR_simps [simp]: "wrapR f as (Inl e) = Inl (Wrapf f as e)" "wrapR f as (Inr x) = Inr x"
  by (simp_all add: wrapR_def)

lemma andThen_Inr: "andThen r f = Inr y \<longleftrightarrow> (\<exists>x. r = Inr x \<and> f x = Inr y)"
  by (cases r) auto

lemma wrapR_Inr: "wrapR f as r = Inr y \<longleftrightarrow> r = Inr y"
  by (cases r) auto

text \<open>The outside of the process: \<open>tl_git dir args\<close> is what \<open>git args\<close> prints in directory \<open>dir\<close>
  (the current one for the empty string), \<open>tl_regex p\<close> the matcher \<open>regexp.Compile\<close> makes of \<open>p\<close>.\<close>

record tools =
  tl_git :: "string \<Rightarrow> string list \<Rightarrow> goerr + string"
  tl_regex :: "string \<Rightarrow> goerr + (string \<Rightarrow> bool)"

section \<open>filepath.Match\<close>

definition ErrBadPattern :: goerr where
  "ErrBadPattern = Errorf ''syntax error in pattern'' []"

text \<open>\<open>scanChunk\<close>: the stars in front, the text up to the next star outside a class, the rest.\<close>

fun scan_len :: "bool \<Rightarrow> string \<Rightarrow> nat" where
  "scan_len inrange [] = 0"
| "scan_len inrange (c # cs) =
     (if c = CHR ''*'' \<and> \<not> inrange then 0
      else if c = CHR 0x5C then (case cs of [] \<Rightarrow> 1 | d # ds \<Rightarrow> Suc (Suc (scan_len inrange ds)))
      else Suc (scan_len (if c = CHR ''['' then True else if c = CHR '']'' then False else inrange) cs))"

definition scan_chunk :: "string \<Rightarrow> bool \<times> string \<times> string" where
  "scan_chunk p =
     (let q = dropWhile (\<lambda>c. c = CHR ''*'') p; n = scan_len False q in (q \<noteq> p, take n q, drop n q))"

lemma scan_chunk_shrinks:
  assumes "scan_chunk p = (star, chunk, rest)" and "p \<noteq> []"
  shows "length rest < length p"
proof -
  define q where "q = dropWhile (\<lambda>c. c = CHR ''*'') p"
  have q: "length q \<le> length p" by (simp add: q_def length_dropWhile_le)
  have r: "rest = drop (scan_len False q) q" using assms(1) by (simp add: scan_chunk_def q_def Let_def)
  show ?thesis
  proof (cases q)
    case Nil
    with r assms(2) show ?thesis by simp
  next
    case (Cons c cs)
    then have "c \<noteq> CHR ''*''" by (metis (mono_tags) hd_dropWhile list.discI list.sel(1) q_def)
    then have "0 < scan_len False q" by (simp add: Cons split: list.split)
    with r q Cons show ?thesis by auto
  qed
qed

text \<open>\<open>getEsc\<close>: one possibly escaped character of a class, which may not be its last.\<close>

definition getEsc :: "string \<Rightarrow> (char \<times> string) option" where
  "getEsc s =
     (case s of
        [] \<Rightarrow> None
      | c # cs \<Rightarrow>
          if c = CHR ''-'' \<or> c = CHR '']'' then None
          else if c = CHR 0x5C then
            (case cs of [] \<Rightarrow> None | d # ds \<Rightarrow> if ds = [] then None else Some (d, ds))
          else if cs = [] then None else Some (c, cs))"

lemma getEsc_shrinks: "getEsc s = Some (c, r) \<Longrightarrow> length r < length s"
  by (auto simp: getEsc_def split: list.splits if_splits)

text \<open>The ranges of a class up to its closing bracket: whether \<open>c\<close> is in one, and the rest.\<close>

function class_ranges :: "char option \<Rightarrow> nat \<Rightarrow> bool \<Rightarrow> string \<Rightarrow> (bool \<times> string) option" where
  "class_ranges x n hit s =
     (if s \<noteq> [] \<and> hd s = CHR '']'' \<and> 0 < n then Some (hit, tl s)
      else (case getEsc s of
          None \<Rightarrow> None
        | Some (lo, r) \<Rightarrow>
            (case (if hd r = CHR ''-'' then getEsc (tl r) else Some (lo, r)) of
               None \<Rightarrow> None
             | Some (hi, r') \<Rightarrow>
                 class_ranges x (Suc n)
                   (hit \<or> (case x of None \<Rightarrow> False | Some c \<Rightarrow> ord lo \<le> ord c \<and> ord c \<le> ord hi)) r')))"
  by pat_completeness auto
termination
proof (relation "measure (\<lambda>(x, n, hit, s). length s)", goal_cases)
  case (2 x n hit s p lo r q hi r')
  have "length r < length s" using 2(2,3) getEsc_shrinks by metis
  moreover have "length r' \<le> length r"
    using 2(4,5) getEsc_shrinks [of "tl r"] by (auto split: if_splits)
  ultimately show ?case by simp
qed simp

lemma class_ranges_shrinks: "class_ranges x n hit s = Some (b, r) \<Longrightarrow> length r < length s"
proof (induction x n hit s rule: class_ranges.induct)
  case (1 x n hit s)
  show ?case
  proof (cases "s \<noteq> [] \<and> hd s = CHR '']'' \<and> 0 < n")
    case True
    with 1(2) show ?thesis by (auto simp: class_ranges.simps [of x n hit s])
  next
    case False
    with 1(2) obtain lo t where g: "getEsc s = Some (lo, t)"
      by (auto simp: class_ranges.simps [of x n hit s] split: option.splits)
    with False 1(2) obtain hi u where h: "(if hd t = CHR ''-'' then getEsc (tl t) else Some (lo, t)) = Some (hi, u)"
      and c: "class_ranges x (Suc n) (hit \<or> (case x of None \<Rightarrow> False | Some c \<Rightarrow> ord lo \<le> ord c \<and> ord c \<le> ord hi)) u = Some (b, r)"
      by (subst (asm) class_ranges.simps) (auto split: option.splits)
    have "length r < length u" using 1(1) [OF False g refl h refl c] .
    moreover have "length u \<le> length t" using h getEsc_shrinks [of "tl t"] by (auto split: if_splits)
    ultimately show ?thesis using getEsc_shrinks [OF g] by simp
  qed
qed

declare class_ranges.simps [simp del]

text \<open>\<open>matchChunk\<close>: \<open>None\<close> for a bad pattern, \<open>Some None\<close> for no match, the rest of the name
  otherwise. A chunk that has failed (\<open>None\<close> as name) is still read for its syntax.\<close>

definition next_char :: "string option \<Rightarrow> char option" where
  "next_char s = (case s of Some (c # cs) \<Rightarrow> Some c | _ \<Rightarrow> None)"

definition advance :: "bool \<Rightarrow> string option \<Rightarrow> string option" where
  "advance ok s = (case s of Some (c # cs) \<Rightarrow> if ok then Some cs else None | _ \<Rightarrow> None)"

definition class_body :: "string \<Rightarrow> bool \<times> string" where
  "class_body cs = (if cs \<noteq> [] \<and> hd cs = CHR ''^'' then (True, tl cs) else (False, cs))"

lemma class_body_length: "length (snd (class_body cs)) \<le> length cs"
  by (simp add: class_body_def)

function match_chunk :: "string \<Rightarrow> string option \<Rightarrow> string option option" where
  "match_chunk [] s = Some s"
| "match_chunk (c # cs) s =
     (if c = CHR ''['' then
        (case class_ranges (next_char s) 0 False (snd (class_body cs)) of
           None \<Rightarrow> None
         | Some (hit, r) \<Rightarrow> match_chunk r (advance (hit \<noteq> fst (class_body cs)) s))
      else if c = CHR ''?'' then match_chunk cs (advance (next_char s \<noteq> Some (CHR ''/'')) s)
      else if c = CHR 0x5C then
        (case cs of [] \<Rightarrow> None | d # ds \<Rightarrow> match_chunk ds (advance (next_char s = Some d) s))
      else match_chunk cs (advance (next_char s = Some c) s))"
  by pat_completeness auto
termination
proof (relation "measure (\<lambda>(p, s). length p)", goal_cases)
  case (2 c cs s p hit r)
  then show ?case using class_ranges_shrinks [of _ _ _ "snd (class_body cs)" hit r] class_body_length [of cs]
    by fastforce
qed auto

text \<open>A star in front lets the chunk start after any prefix without a separator.\<close>

fun match_later :: "string \<Rightarrow> bool \<Rightarrow> string \<Rightarrow> goerr + string option" where
  "match_later chunk final [] = Inr None"
| "match_later chunk final (x # xs) =
     (if x = CHR ''/'' then Inr None
      else (case match_chunk chunk (Some xs) of
          None \<Rightarrow> Inl ErrBadPattern
        | Some (Some t) \<Rightarrow> if final \<and> t \<noteq> [] then match_later chunk final xs else Inr (Some t)
        | Some None \<Rightarrow> match_later chunk final xs))"

function pattern_ok :: "string \<Rightarrow> bool" where
  "pattern_ok p =
     (if p = [] then True
      else (case scan_chunk p of (star, chunk, rest) \<Rightarrow>
        if match_chunk chunk None = None then False else pattern_ok rest))"
  by pat_completeness auto
termination by (relation "measure length") (auto dest: scan_chunk_shrinks [OF sym])

declare pattern_ok.simps [simp del]

definition no_match :: "string \<Rightarrow> goerr + bool" where
  "no_match rest = (if pattern_ok rest then Inr False else Inl ErrBadPattern)"

function Match :: "string \<Rightarrow> string \<Rightarrow> goerr + bool" where
  "Match p name =
     (if p = [] then Inr (name = [])
      else
        (case scan_chunk p of (star, chunk, rest) \<Rightarrow>
         if star \<and> chunk = [] then Inr (CHR ''/'' \<notin> set name)
         else (case match_chunk chunk (Some name) of
             None \<Rightarrow> Inl ErrBadPattern
           | Some r \<Rightarrow>
               if r \<noteq> None \<and> (r = Some [] \<or> rest \<noteq> []) then Match rest (the r)
               else if star then
                 (case match_later chunk (rest = []) name of
                    Inl e \<Rightarrow> Inl e
                  | Inr (Some t) \<Rightarrow> Match rest t
                  | Inr None \<Rightarrow> no_match rest)
               else no_match rest)))"
  by pat_completeness auto
termination by (relation "measure (\<lambda>(p, n). length p)") (auto dest: scan_chunk_shrinks [OF sym])

declare Match.simps [simp del]

section \<open>changes_touch.go\<close>

text \<open>\<open>filepath.Base\<close>.\<close>

definition base_name :: "string \<Rightarrow> string" where
  "base_name path =
     (if path = [] then ''.''
      else (let p = trim_right_by (\<lambda>c. c = CHR ''/'') path in
            if p = [] then ''/'' else rev (takeWhile (\<lambda>c. c \<noteq> CHR ''/'') (rev p))))"

definition globMatch :: "string \<Rightarrow> string \<Rightarrow> goerr + bool" where
  "globMatch pattern file =
     (if has_substring pattern ''**'' then
        (if has_suffix pattern ''/**'' then
           Inr (has_prefix file (take (length pattern - 3) pattern @ ''/''))
         else if has_prefix pattern ''**/'' then Match (drop 3 pattern) (base_name file)
         else Inr False)
      else Match pattern file)"

definition gitDiffChangedFiles :: "tools \<Rightarrow> string \<Rightarrow> goerr + string list" where
  "gitDiffChangedFiles ts dir =
     (let split_lines = (\<lambda>out. let raw = trim_space out in
            if raw = [] then Inr [] else Inr (split_on (CHR 0x0A) raw))
      in case tl_git ts dir [''diff'', ''--name-only'', ''HEAD~1..HEAD''] of
           Inr out \<Rightarrow> split_lines out
         | Inl e \<Rightarrow>
             (case tl_git ts dir [''diff'', ''--name-only'', ''4b825dc642cb6eb9a060e54bf8d69288fbee4904'', ''HEAD''] of
                Inr out \<Rightarrow> split_lines out
              | Inl e2 \<Rightarrow> Inl (Errorf ''git diff HEAD~1..HEAD: %w; git diff empty-tree HEAD: %v''
                  [error_string e, error_string e2])))"

text \<open>One glob against one file: the path, then for a glob without slash the base name.\<close>

definition glob_hits :: "string \<Rightarrow> string \<Rightarrow> goerr + bool" where
  "glob_hits g f =
     wrapR ''changes_touch: invalid glob %q: %w'' [g]
       (andThen (globMatch g f) (\<lambda>hit.
        if hit then Inr True
        else if CHR ''/'' \<notin> set g then globMatch g (base_name f) else Inr False))"

fun first_hit :: "(string \<times> string) list \<Rightarrow> goerr + bool" where
  "first_hit [] = Inr False"
| "first_hit ((f, g) # rest) = andThen (glob_hits g f) (\<lambda>hit. if hit then Inr True else first_hit rest)"

definition ChangesTouchInDir :: "tools \<Rightarrow> string \<Rightarrow> string list \<Rightarrow> goerr + bool" where
  "ChangesTouchInDir ts dir globs =
     (if globs = [] then Inl (Errorf ''ChangesTouchInDir requires at least one glob pattern'' [])
      else andThen (wrapR ''changes_touch: %w'' [] (gitDiffChangedFiles ts dir))
        (\<lambda>files. first_hit (List.product files globs)))"

section \<open>commit_msg.go\<close>

definition CommitMsgContains :: "tools \<Rightarrow> string \<Rightarrow> string \<Rightarrow> goerr + bool" where
  "CommitMsgContains ts dir pattern =
     (if pattern = [] then Inl (Errorf ''commit_msg_contains: empty pattern'' [])
      else andThen (wrapR ''commit_msg_contains: invalid regex %q: %w'' [pattern] (tl_regex ts pattern)) (\<lambda>re.
        andThen (wrapR ''commit_msg_contains: git log: %w'' [] (tl_git ts dir [''log'', ''-1'', ''--format=%B'']))
          (\<lambda>out. Inr (re (trim_space out)))))"

section \<open>phase_index.go\<close>

definition bound :: "string \<Rightarrow> string \<Rightarrow> goerr + int" where
  "bound msg s = (case atoi (trim_space s) of None \<Rightarrow> Inl (Errorf msg [s]) | Some i \<Rightarrow> Inr i)"

text \<open>One entry of the list: the closed range it denotes, nothing for a blank one.\<close>

definition index_part :: "string \<Rightarrow> goerr + (int \<times> int) option" where
  "index_part p0 =
     (let p = trim_space p0 in
      if p = [] then Inr None
      else (case index_byte p (CHR ''-'') of
          Some (Suc d) \<Rightarrow>
            andThen (bound ''phase_index_in: invalid lower bound %q: %w'' (take (Suc d) p)) (\<lambda>lo.
            andThen (bound ''phase_index_in: invalid upper bound %q: %w'' (drop (Suc (Suc d)) p)) (\<lambda>hi.
            if lo > hi then Inl (Errorf ''phase_index_in: range %q has lo > hi'' [p]) else Inr (Some (lo, hi))))
        | _ \<Rightarrow>
            (case atoi p of
               None \<Rightarrow> Inl (Errorf ''phase_index_in: invalid integer %q: %w'' [p])
             | Some k \<Rightarrow> Inr (Some (k, k)))))"

fun index_parts :: "int \<Rightarrow> string list \<Rightarrow> goerr + bool" where
  "index_parts n [] = Inr False"
| "index_parts n (p # ps) =
     andThen (index_part p) (\<lambda>r.
     case r of
       None \<Rightarrow> index_parts n ps
     | Some (lo, hi) \<Rightarrow> if lo \<le> n \<and> n \<le> hi then Inr True else index_parts n ps)"

definition PhaseIndexIn :: "int \<Rightarrow> string \<Rightarrow> goerr + bool" where
  "PhaseIndexIn n expr =
     (if expr = [] then Inl (Errorf ''phase_index_in: empty expression'' [])
      else index_parts n (split_on (CHR '','') expr))"

section \<open>Which files a glob touches\<close>

lemma first_hit_ok:
  assumes "\<forall>(f, g) \<in> set ps. \<exists>b. glob_hits g f = Inr b"
  shows "first_hit ps = Inr (\<exists>(f, g) \<in> set ps. glob_hits g f = Inr True)"
  using assms by (induction ps rule: first_hit.induct) auto

text \<open>
  When git lists the changed files and no glob is malformed, the predicate is true exactly
  when one of the files matches one of the globs, in whatever order they are tried; a directory
  glob \<open>d/**\<close> matches exactly the files below \<open>d/\<close>.
\<close>

lemma changes_touch_spec:
  assumes "gitDiffChangedFiles ts dir = Inr files" and "globs \<noteq> []"
    and "\<forall>f \<in> set files. \<forall>g \<in> set globs. \<exists>b. glob_hits g f = Inr b"
  shows "ChangesTouchInDir ts dir globs = Inr (\<exists>f \<in> set files. \<exists>g \<in> set globs. glob_hits g f = Inr True) \<and>
    globMatch (d @ ''/**'') f = Inr (has_prefix f (d @ ''/''))"
proof
  have "\<forall>(f, g) \<in> set (List.product files globs). \<exists>b. glob_hits g f = Inr b" using assms(3) by auto
  from first_hit_ok [OF this] assms(1,2)
  show "ChangesTouchInDir ts dir globs = Inr (\<exists>f \<in> set files. \<exists>g \<in> set globs. glob_hits g f = Inr True)"
    by (auto simp: ChangesTouchInDir_def)
  have "has_substring (xs @ ys) ys" for xs ys :: string
    by (induction xs) (cases ys; auto simp: has_prefix_def)+
  from this [of "d @ ''/''" "''**''"] have "has_substring (d @ ''/**'') ''**''" by simp
  moreover have "has_suffix (d @ ''/**'') ''/**''" by (simp add: has_suffix_def)
  ultimately show "globMatch (d @ ''/**'') f = Inr (has_prefix f (d @ ''/''))"
    by (simp add: globMatch_def)
qed

definition sample_tools :: tools where
  "sample_tools = \<lparr>tl_git = (\<lambda>dir as. Inr (''src/main.go'' @ [CHR 0x0A])), tl_regex = (\<lambda>p. Inr (\<lambda>s. has_prefix s p))\<rparr>"

lemma sample_files: "gitDiffChangedFiles sample_tools dir = Inr [''src/main.go'']"
  by (simp add: gitDiffChangedFiles_def sample_tools_def trim_space_def trim_by_def trim_left_by_def
      trim_right_by_def is_space_def ord_def)

lemma glob_under: "glob_hits ''src/**'' ''src/main.go'' = Inr True"
  by (simp add: glob_hits_def globMatch_def has_suffix_def has_prefix_def)

lemma changes_touch_spec_witness: "ChangesTouchInDir sample_tools ''/w'' [''src/**''] = Inr True"
proof -
  have "\<forall>f \<in> set [''src/main.go'']. \<forall>g \<in> set [''src/**'']. \<exists>b. glob_hits g f = Inr b"
    using glob_under by auto
  from changes_touch_spec [OF sample_files [of "''/w''"] _ this, of "[]" "[]"] show ?thesis
    using glob_under by simp
qed

section \<open>Ranges of phases\<close>

definition show_range :: "int \<times> int \<Rightarrow> string" where
  "show_range r = (if fst r = snd r then itoa (fst r) else itoa (fst r) @ ''-'' @ itoa (snd r))"

definition range_ok :: "int \<times> int \<Rightarrow> bool" where
  "range_ok r \<longleftrightarrow> 0 \<le> fst r \<and> fst r \<le> snd r \<and> snd r < 2 ^ 63"

lemma split_on_join:
  "ps \<noteq> [] \<Longrightarrow> \<forall>p \<in> set ps. c \<notin> set p \<Longrightarrow> split_on c (join_with [c] ps) = ps"
  by (induction "[c]" ps rule: join_with.induct) (auto simp: split_on_single split_on_append)

lemma join_with_ne: "ps \<noteq> [] \<Longrightarrow> hd ps \<noteq> [] \<Longrightarrow> join_with sep ps \<noteq> []"
  by (induction sep ps rule: join_with.induct) auto

lemma trim_space_id: "s = [] \<or> (\<not> is_space (hd s) \<and> \<not> is_space (last s)) \<Longrightarrow> trim_space s = s"
  by (auto simp: trim_space_def trim_by_def trim_left_by_def trim_right_by_def dropWhile_eq_self_iff hd_rev
      dropWhile_eq_self_iff [THEN iffD2])

lemma no_space: "\<forall>c \<in> set s. \<not> is_space c \<Longrightarrow> trim_space s = s"
  by (rule trim_space_id) (cases s; auto dest: last_in_set)

lemma digit_not_special: "is_digit c \<Longrightarrow> \<not> is_space c \<and> c \<noteq> CHR ''-'' \<and> c \<noteq> CHR '',''"
  by (auto simp: is_digit_def is_space_def ord_def)

lemma dash_not_space: "\<not> is_space (CHR ''-'')"
  by (simp add: is_space_def ord_def)

lemma bound_itoa: "0 \<le> i \<Longrightarrow> i < 2 ^ 63 \<Longrightarrow> bound msg (itoa i) = Inr i"
  using itoa_digits [of i] atoi_itoa [of i] digit_not_special
  by (subst bound_def) (simp add: no_space int_in_range_def)

lemma show_range_chars: "range_ok r \<Longrightarrow> c \<in> set (show_range r) \<Longrightarrow> is_digit c \<or> c = CHR ''-''"
  using itoa_digits [of "fst r"] itoa_digits [of "snd r"] by (auto simp: show_range_def range_ok_def split: if_splits)

lemma index_part_show: "range_ok r \<Longrightarrow> index_part (show_range r) = Inr (Some r)"
proof -
  assume ok: "range_ok r"
  obtain lo hi where r: "r = (lo, hi)" by force
  with ok have b: "0 \<le> lo" "lo \<le> hi" "hi < 2 ^ 63" "lo < 2 ^ 63" by (auto simp: range_ok_def)
  have t: "trim_space (show_range r) = show_range r"
    using show_range_chars [OF ok] digit_not_special dash_not_space by (intro no_space) blast
  have nominus: "CHR ''-'' \<notin> set (itoa lo)" using itoa_digits [OF b(1)] digit_not_special by blast
  show ?thesis
  proof (cases "lo = hi")
    case True
    then have "show_range r = itoa lo" by (simp add: show_range_def r)
    with t nominus True b atoi_itoa [of lo] show ?thesis
      by (simp add: index_part_def Let_def index_byte_None [THEN iffD2] r int_in_range_def)
  next
    case False
    then have s: "show_range r = itoa lo @ CHR ''-'' # itoa hi" by (simp add: show_range_def r)
    obtain d where d: "length (itoa lo) = Suc d" by (metis itoa_not_Nil length_0_conv not0_implies_Suc)
    have "index_byte (show_range r) (CHR ''-'') = Some (Suc d)"
      using index_byte_append [OF nominus, of "itoa hi"] by (simp add: s d)
    moreover have "take (Suc d) (show_range r) = itoa lo" "drop (Suc (Suc d)) (show_range r) = itoa hi"
      by (simp_all add: s d [symmetric])
    ultimately show ?thesis using t b False bound_itoa [of lo] bound_itoa [of hi]
      by (simp add: index_part_def Let_def r) (simp add: show_range_def)
  qed
qed

lemma index_parts_show:
  "\<forall>r \<in> set rs. range_ok r \<Longrightarrow>
     index_parts n (map show_range rs) = Inr (\<exists>r \<in> set rs. fst r \<le> n \<and> n \<le> snd r)"
  by (induction rs) (auto simp: index_part_show split: prod.split)

text \<open>
  Every list of ranges of phase numbers can be written down: the expression that joins them with
  commas, a one-element range as its number, is accepted for every phase and holds exactly for the
  phases in one of the ranges.
\<close>

lemma phase_index_in_ranges:
  assumes "rs \<noteq> []" and "\<forall>r \<in> set rs. range_ok r"
  shows "PhaseIndexIn n (join_with '','' (map show_range rs)) = Inr (\<exists>r \<in> set rs. fst r \<le> n \<and> n \<le> snd r)"
proof -
  have ne: "show_range r \<noteq> []" for r by (simp add: show_range_def)
  have "join_with '','' (map show_range rs) \<noteq> []"
    by (rule join_with_ne) (use assms(1) ne in \<open>auto simp: hd_map\<close>)
  moreover have "split_on (CHR '','') (join_with '','' (map show_range rs)) = map show_range rs"
    using assms show_range_chars digit_not_special by (intro split_on_join) fastforce+
  ultimately show ?thesis using index_parts_show [OF assms(2)] by (simp add: PhaseIndexIn_def)
qed

lemma phase_index_in_ranges_witness: "PhaseIndexIn 2 (join_with '','' [show_range (0, 3), show_range (7, 7)]) = Inr True"
  using phase_index_in_ranges [of "[(0, 3), (7, 7)]" 2] by (simp add: range_ok_def)

end
