(* ===== verification/Supervisor.thy ===== *)
theory Supervisor
  imports Predicates "HOL-Library.Char_ord" "HOL-Library.List_Lexorder" "HOL-Library.Multiset"
begin

text \<open>
  \<open>coding/supervisor\<close>: the contract rules of a repository, how they are loaded (\<open>loader.go\<close>), the
  expressions they check and the built-in predicates (\<open>predicates.go\<close>), and the engine that turns
  the outcome of a job into a verdict (\<open>engine.go\<close>). The YAML decoder is left outside: a rules
  file is the list of its entries in the order the Go map yields them.
\<close>

section \<open>Rules\<close>

record rule =
  ru_Name :: string
  ru_AppliesTo :: "string list"
  ru_AppliesWhen :: "string list option"
  ru_Check :: string
  ru_Message :: string

definition validateRule :: "rule \<Rightarrow> goerr + unit" where
  "validateRule r =
     (if ru_AppliesTo r = [] then Inl (Errorf ''applies_to must not be empty'' [])
      else if ru_Check r = [] then Inl (Errorf ''check must not be empty'' [])
      else if ru_Message r = [] then Inl (Errorf ''message must not be empty'' [])
      else Inr ())"

fun load_entries :: "(string \<times> rule) list \<Rightarrow> goerr + rule list" where
  "load_entries [] = Inr []"
| "load_entries ((name, r) # rest) =
     andThen (wrapR ''rule %q: %w'' [name] (validateRule (r\<lparr>ru_Name := name\<rparr>))) (\<lambda>_.
     andThen (load_entries rest) (\<lambda>rs. Inr (r\<lparr>ru_Name := name\<rparr> # rs)))"

definition LoadRulesFromBytes :: "goerr + (string \<times> rule) list \<Rightarrow> goerr + rule list" where
  "LoadRulesFromBytes decoded =
     andThen (wrapR ''parse rules YAML: %w'' [] decoded) (\<lambda>entries.
     if entries = [] then Inl (Errorf ''rules file contains no rules'' [])
     else andThen (load_entries entries) (\<lambda>rs. Inr (sort_key ru_Name rs)))"

text \<open>A role glob is the regular expression in which a star is \<open>.*\<close> and the rest is literal.\<close>

fun role_glob :: "string \<Rightarrow> string \<Rightarrow> bool" where
  "role_glob [] n \<longleftrightarrow> n = []"
| "role_glob (p # ps) [] \<longleftrightarrow> p = CHR ''*'' \<and> role_glob ps []"
| "role_glob (p # ps) (c # cs) \<longleftrightarrow>
     (if p = CHR ''*'' then role_glob ps (c # cs) \<or> (c \<noteq> CHR 0x0A \<and> role_glob (p # ps) cs)
      else p = c \<and> role_glob ps cs)"

definition roleGlobMatches :: "string list \<Rightarrow> string \<Rightarrow> bool" where
  "roleGlobMatches patterns roleName \<longleftrightarrow> list_ex (\<lambda>p. role_glob p roleName) patterns"

definition RulesForRole :: "rule list \<Rightarrow> string \<Rightarrow> rule list" where
  "RulesForRole rules roleName = filter (\<lambda>r. roleGlobMatches (ru_AppliesTo r) roleName) rules"

section \<open>Check expressions\<close>

text \<open>\<open>strconv.Unquote\<close> on a string in single or double quotes; bytes above 127 stand for
  themselves.\<close>

definition hex_value :: "char \<Rightarrow> nat option" where
  "hex_value c =
     (if is_digit c then Some (ord c - 48)
      else if 97 \<le> ord c \<and> ord c \<le> 102 then Some (ord c - 87)
      else if 65 \<le> ord c \<and> ord c \<le> 70 then Some (ord c - 55) else None)"

fun hex_number :: "nat \<Rightarrow> nat \<Rightarrow> string \<Rightarrow> (nat \<times> string) option" where
  "hex_number 0 acc s = Some (acc, s)"
| "hex_number (Suc n) acc [] = None"
| "hex_number (Suc n) acc (c # cs) =
     (case hex_value c of None \<Rightarrow> None | Some d \<Rightarrow> hex_number n (16 * acc + d) cs)"

definition utf8 :: "nat \<Rightarrow> string option" where
  "utf8 n =
     (if n < 0x80 then Some [char_of n]
      else if n < 0x800 then Some [char_of (0xC0 + n div 0x40), char_of (0x80 + n mod 0x40)]
      else if 0xD800 \<le> n \<and> n < 0xE000 then None
      else if n < 0x10000 then
        Some [char_of (0xE0 + n div 0x1000), char_of (0x80 + n div 0x40 mod 0x40), char_of (0x80 + n mod 0x40)]
      else if n < 0x110000 then
        Some [char_of (0xF0 + n div 0x40000), char_of (0x80 + n div 0x1000 mod 0x40),
              char_of (0x80 + n div 0x40 mod 0x40), char_of (0x80 + n mod 0x40)]
      else None)"

definition simple_escape :: "char \<Rightarrow> char option" where
  "simple_escape c = map_of [(CHR ''a'', CHR 0x07), (CHR ''b'', CHR 0x08), (CHR ''f'', CHR 0x0C), (CHR ''n'', CHR 0x0A),
     (CHR ''r'', CHR 0x0D), (CHR ''t'', CHR 0x09), (CHR ''v'', CHR 0x0B), (CHR 0x5C, CHR 0x5C)] c"

definition octal :: "char \<Rightarrow> bool" where
  "octal c \<longleftrightarrow> 48 \<le> ord c \<and> ord c \<le> 55"

text \<open>The escape after a backslash: its bytes and the rest.\<close>

definition escape :: "char \<Rightarrow> string \<Rightarrow> (string \<times> string) option" where
  "escape q s =
     (case s of [] \<Rightarrow> None
      | c # cs \<Rightarrow>
        if simple_escape c \<noteq> None then Some ([the (simple_escape c)], cs)
        else if c = q then Some ([c], cs)
        else if c = CHR ''x'' then map_option (\<lambda>(n, r). ([char_of n], r)) (hex_number 2 0 cs)
        else if c = CHR ''u'' \<or> c = CHR ''U'' then
          (case hex_number (if c = CHR ''u'' then 4 else 8) 0 cs of None \<Rightarrow> None
           | Some (n, r) \<Rightarrow> map_option (\<lambda>bs. (bs, r)) (utf8 n))
        else if octal c then
          (case cs of d # e # r \<Rightarrow>
             (let n = 64 * (ord c - 48) + 8 * (ord d - 48) + (ord e - 48) in
              if octal d \<and> octal e \<and> n < 256 then Some ([char_of n], r) else None)
           | _ \<Rightarrow> None)
        else None)"

fun unquote_chars :: "nat \<Rightarrow> char \<Rightarrow> string \<Rightarrow> (string \<times> string) option" where
  "unquote_chars 0 q s = None"
| "unquote_chars (Suc k) q s =
     (case s of [] \<Rightarrow> None
      | c # cs \<Rightarrow>
          if c = q then Some ([], c # cs)
          else if c = CHR 0x0A then None
          else (case (if c = CHR 0x5C then escape q cs else Some ([c], cs)) of
              None \<Rightarrow> None
            | Some (bs, r) \<Rightarrow>
                if q = CHR 0x27 then Some (bs, r)
                else map_option (\<lambda>(t, r'). (bs @ t, r')) (unquote_chars k q r)))"

text \<open>The fuel \<open>length s\<close> is enough: every step consumes a byte.\<close>

definition unquote :: "string \<Rightarrow> string option" where
  "unquote s =
     (case s of [] \<Rightarrow> None
      | q # cs \<Rightarrow> (case unquote_chars (length s) q cs of None \<Rightarrow> None
                   | Some (t, r) \<Rightarrow> if r = [q] then Some t else None))"

definition stripQuotes :: "string \<Rightarrow> string" where
  "stripQuotes s =
     (if 2 \<le> length s \<and> ((hd s = CHR 0x22 \<and> last s = CHR 0x22) \<or> (hd s = CHR 0x27 \<and> last s = CHR 0x27))
      then (case unquote s of Some t \<Rightarrow> t | None \<Rightarrow> butlast (tl s))
      else s)"

definition parseArgs :: "string \<Rightarrow> string list" where
  "parseArgs s0 =
     (let s = trim_space s0 in
      if has_prefix s ''['' \<and> has_suffix s '']'' then
        (let inner = trim_space (butlast (tl s)) in
         if inner = [] then []
         else filter (\<lambda>p. p \<noteq> []) (map (\<lambda>p. stripQuotes (trim_space p)) (split_on (CHR '','') inner)))
      else if (has_prefix s [CHR 0x22] \<and> has_suffix s [CHR 0x22]) \<or> (has_prefix s [CHR 0x27] \<and> has_suffix s [CHR 0x27])
        then [stripQuotes s]
      else [s])"

definition word_char :: "char \<Rightarrow> bool" where
  "word_char c \<longleftrightarrow> is_lower c \<or> is_upper c \<or> is_digit c \<or> c = CHR ''_''"

text \<open>The expression matches \<open>^(\w+)\((.+)\)$\<close>: a word, then a non-empty text without newline
  between an opening parenthesis and the closing one at the end.\<close>

definition ParseCheck :: "string \<Rightarrow> goerr + string \<times> string list" where
  "ParseCheck check =
     (let s = trim_space check; f = takeWhile word_char s; r = dropWhile word_char s in
      if f \<noteq> [] \<and> 3 \<le> length r \<and> hd r = CHR ''('' \<and> last r = CHR '')'' \<and> CHR 0x0A \<notin> set r
      then Inr (f, parseArgs (trim_space (butlast (tl r))))
      else Inl (Errorf ''invalid check syntax %q: expected funcName(args...)'' [check]))"

section \<open>Predicates\<close>

record eval_ctx =
  ec_Job :: job
  ec_Result :: "job_result option"
  ec_Role :: "role option"
  ec_RunID :: ident
  ec_WorkDir :: string

type_synonym predicate = "eval_ctx \<Rightarrow> string list \<Rightarrow> goerr + bool"

text \<open>One field of one finding: \<open>None\<close> for a field nobody knows.\<close>

definition finding_has :: "finding \<Rightarrow> string \<Rightarrow> bool option" where
  "finding_has f field =
     (if field = ''path'' then Some (f_path f \<noteq> [])
      else if field = ''line'' then Some (f_line f \<noteq> 0)
      else if field = ''severity'' then Some (f_severity f \<noteq> [])
      else if field = ''body'' then Some (f_body f \<noteq> [])
      else None)"

fun check_fields :: "nat \<Rightarrow> finding \<Rightarrow> string list \<Rightarrow> goerr + bool" where
  "check_fields i f [] = Inr True"
| "check_fields i f (field # fnames) =
     (case finding_has f field of
        None \<Rightarrow> Inl (Errorf ''all_findings_have: unknown field %q at finding[%d]'' [field, nat_str i])
      | Some False \<Rightarrow> Inr False
      | Some True \<Rightarrow> check_fields i f fnames)"

fun check_findings :: "nat \<Rightarrow> finding list \<Rightarrow> string list \<Rightarrow> goerr + bool" where
  "check_findings i [] fnames = Inr True"
| "check_findings i (f # fs) fnames =
     andThen (check_fields i f fnames) (\<lambda>ok. if ok then check_findings (Suc i) fs fnames else Inr False)"

definition allFindingsHave :: predicate where
  "allFindingsHave ctx args =
     (if args = [] then Inl (Errorf ''all_findings_have requires at least one field name'' [])
      else (case ec_Result ctx of
          None \<Rightarrow> Inl (Errorf ''no job result available'' [])
        | Some res \<Rightarrow> check_findings 0 (jr_findings res) args))"

text \<open>\<open>fmt.Sscanf\<close> with \<open>%d\<close>: blanks, a sign, digits; what follows is not read.\<close>

definition sscan_int :: "string \<Rightarrow> int option" where
  "sscan_int s =
     (let t = dropWhile (\<lambda>c. is_space c \<and> c \<noteq> CHR 0x0A) s;
          neg = (t \<noteq> [] \<and> hd t = CHR ''-''); sgn = (t \<noteq> [] \<and> (hd t = CHR ''-'' \<or> hd t = CHR ''+''));
          ds = takeWhile is_digit (if sgn then tl t else t)
      in if ds = [] then None
         else check_range (if neg then - int (digits_val 0 ds) else int (digits_val 0 ds)))"

definition exitCodeIs :: predicate where
  "exitCodeIs ctx args =
     (case args of
        [a] \<Rightarrow>
          (case ec_Result ctx of
             None \<Rightarrow> Inl (Errorf ''no job result available'' [])
           | Some res \<Rightarrow>
               (case sscan_int a of
                  None \<Rightarrow> Inl (Errorf ''exit_code_is: invalid integer %q: %w'' [a])
                | Some n \<Rightarrow> Inr (jr_exit_code res = n)))
      | _ \<Rightarrow> Inl (Errorf ''exit_code_is requires exactly one argument'' []))"

definition gitCurrentBranch :: "tools \<Rightarrow> string \<Rightarrow> goerr + string" where
  "gitCurrentBranch ts dir =
     andThen (wrapR ''git rev-parse --abbrev-ref HEAD: %w'' [] (tl_git ts dir [''rev-parse'', ''--abbrev-ref'', ''HEAD'']))
       (\<lambda>out. Inr (trim_space out))"

definition gitLastCommitMsg :: "tools \<Rightarrow> string \<Rightarrow> goerr + string" where
  "gitLastCommitMsg ts dir =
     andThen (wrapR ''git log -1 --format=%%s: %w'' [] (tl_git ts dir [''log'', ''-1'', ''--format=%s'']))
       (\<lambda>out. Inr (trim_space out))"

definition gitCurrentBranchMatches :: "tools \<Rightarrow> predicate" where
  "gitCurrentBranchMatches ts ctx args =
     (case args of
        [p] \<Rightarrow>
          andThen (wrapR ''git_current_branch_matches: invalid regex %q: %w'' [p] (tl_regex ts p)) (\<lambda>re.
          andThen (wrapR ''git_current_branch_matches: %w'' [] (gitCurrentBranch ts (ec_WorkDir ctx))) (\<lambda>branch.
          Inr (re branch)))
      | _ \<Rightarrow> Inl (Errorf ''git_current_branch_matches requires exactly one argument'' []))"

definition lastCommitMsgContains :: "tools \<Rightarrow> predicate" where
  "lastCommitMsgContains ts ctx args =
     (case args of
        [p] \<Rightarrow>
          andThen (wrapR ''last_commit_msg_contains: invalid regex %q: %w'' [p] (tl_regex ts p)) (\<lambda>re.
          andThen (wrapR ''last_commit_msg_contains: %w'' [] (gitLastCommitMsg ts (ec_WorkDir ctx))) (\<lambda>msg.
          Inr (re msg)))
      | _ \<Rightarrow> Inl (Errorf ''last_commit_msg_contains requires exactly one argument'' []))"

definition evalChangesTouch :: "tools \<Rightarrow> eval_ctx \<Rightarrow> string list \<Rightarrow> goerr + bool" where
  "evalChangesTouch ts ctx globs = ChangesTouchInDir ts (ec_WorkDir ctx) globs"

definition changesTouch :: "tools \<Rightarrow> predicate" where
  "changesTouch ts ctx args =
     (if args = [] then Inl (Errorf ''changes_touch requires at least one glob pattern'' [])
      else evalChangesTouch ts ctx args)"

definition LookupPredicate :: "tools \<Rightarrow> string \<Rightarrow> predicate option" where
  "LookupPredicate ts = map_of
     [(''all_findings_have'', allFindingsHave), (''exit_code_is'', exitCodeIs),
      (''git_current_branch_matches'', gitCurrentBranchMatches ts),
      (''last_commit_msg_contains'', lastCommitMsgContains ts), (''changes_touch'', changesTouch ts)]"

definition EvalAppliesWhen :: "tools \<Rightarrow> eval_ctx \<Rightarrow> string list option \<Rightarrow> goerr + bool" where
  "EvalAppliesWhen ts ctx clause =
     (case clause of
        None \<Rightarrow> Inr True
      | Some touch \<Rightarrow> if touch \<noteq> [] then evalChangesTouch ts ctx touch else Inr True)"

section \<open>The engine\<close>

definition failure :: "rule \<Rightarrow> string \<Rightarrow> rule_result" where
  "failure r msg = \<lparr>rr_rule_name = ru_Name r, rr_passed = False, rr_skipped = False, rr_message = msg\<rparr>"

definition run_check :: "tools \<Rightarrow> eval_ctx \<Rightarrow> rule \<Rightarrow> rule_result" where
  "run_check ts ctx r =
     (case ParseCheck (ru_Check r) of
        Inl e \<Rightarrow> failure r (sprintf ''failed to parse check %q: %v'' [ru_Check r, error_string e])
      | Inr (f, args) \<Rightarrow>
          (case LookupPredicate ts f of
             None \<Rightarrow> failure r (sprintf ''unknown predicate %q in rule %q'' [f, ru_Name r])
           | Some p \<Rightarrow>
               (case p ctx args of
                  Inl e \<Rightarrow> failure r (sprintf ''predicate %q error: %v'' [f, error_string e])
                | Inr ok \<Rightarrow> \<lparr>rr_rule_name = ru_Name r, rr_passed = ok, rr_skipped = False,
                              rr_message = ru_Message r\<rparr>)))"

definition eval_rule :: "tools \<Rightarrow> eval_ctx \<Rightarrow> rule \<Rightarrow> rule_result" where
  "eval_rule ts ctx r =
     (case EvalAppliesWhen ts ctx (ru_AppliesWhen r) of
        Inl e \<Rightarrow> failure r (sprintf ''applies_when eval error: %v'' [error_string e])
      | Inr False \<Rightarrow> \<lparr>rr_rule_name = ru_Name r, rr_passed = True, rr_skipped = True, rr_message = ru_Message r\<rparr>
      | Inr True \<Rightarrow> run_check ts ctx r)"

text \<open>The loop: a failed rule clears the verdict and the next rule is evaluated all the same.\<close>

fun eval_rules :: "tools \<Rightarrow> eval_ctx \<Rightarrow> supervisor_verdict \<Rightarrow> rule list \<Rightarrow> supervisor_verdict" where
  "eval_rules ts ctx v [] = v"
| "eval_rules ts ctx v (r # rs) =
     (let res = eval_rule ts ctx r in
      eval_rules ts ctx \<lparr>sv_pass = (if rr_passed res then sv_pass v else False), sv_results = sv_results v @ [res]\<rparr> rs)"

definition Evaluate :: "tools \<Rightarrow> rule list \<Rightarrow> eval_ctx \<Rightarrow> goerr + supervisor_verdict" where
  "Evaluate ts rules ctx =
     (case ec_Role ctx of
        None \<Rightarrow> Inl (Errorf ''EvalContext.Role must not be nil'' [])
      | Some ro \<Rightarrow> Inr (eval_rules ts ctx \<lparr>sv_pass = True, sv_results = []\<rparr> (RulesForRole rules (role_name ro))))"

section \<open>The verdict\<close>

text \<open>What it means that a rule is kept: its check parses, names a predicate, and the predicate holds.\<close>

definition rule_holds :: "tools \<Rightarrow> eval_ctx \<Rightarrow> rule \<Rightarrow> bool" where
  "rule_holds ts ctx r \<longleftrightarrow>
     (\<exists>f args p. ParseCheck (ru_Check r) = Inr (f, args) \<and> LookupPredicate ts f = Some p \<and> p ctx args = Inr True)"

lemma run_check_passed: "rr_passed (run_check ts ctx r) \<longleftrightarrow> rule_holds ts ctx r"
  by (auto simp: run_check_def rule_holds_def failure_def split: sum.splits option.splits)

lemma run_check_not_skipped: "\<not> rr_skipped (run_check ts ctx r)"
  by (auto simp: run_check_def failure_def split: sum.splits option.splits)

lemma eval_rule_name: "rr_rule_name (eval_rule ts ctx r) = ru_Name r"
  by (auto simp: eval_rule_def run_check_def failure_def split: sum.splits option.splits bool.splits)

lemma eval_rule_cases:
  "rr_skipped (eval_rule ts ctx r) \<longleftrightarrow> EvalAppliesWhen ts ctx (ru_AppliesWhen r) = Inr False"
  "rr_passed (eval_rule ts ctx r) \<longleftrightarrow>
     (case EvalAppliesWhen ts ctx (ru_AppliesWhen r) of
        Inl e \<Rightarrow> False | Inr applies \<Rightarrow> \<not> applies \<or> rule_holds ts ctx r)"
  by (auto simp: eval_rule_def failure_def run_check_passed run_check_not_skipped split: sum.splits bool.splits)

lemma eval_rules_conv:
  "eval_rules ts ctx v rs =
     \<lparr>sv_pass = (sv_pass v \<and> list_all (\<lambda>r. rr_passed (eval_rule ts ctx r)) rs),
      sv_results = sv_results v @ map (eval_rule ts ctx) rs\<rparr>"
  by (induction ts ctx v rs rule: eval_rules.induct) (auto simp: Let_def)

text \<open>
  The engine gives a verdict for every job with a role, whatever the rules say: it looks at every
  rule whose role globs match, in order, failing ones included, and reports each exactly once. A
  rule is reported as skipped exactly when its condition is false; the verdict passes exactly when
  every other one is kept and no condition was in error. An unparsable check, an unknown predicate
  and a predicate error all count as violations.
\<close>

lemma evaluate_verdict:
  assumes "ec_Role ctx = Some ro"
  shows "\<exists>v. Evaluate ts rules ctx = Inr v \<and>
    map rr_rule_name (sv_results v) = map ru_Name (RulesForRole rules (role_name ro)) \<and>
    map rr_skipped (sv_results v) =
      map (\<lambda>r. EvalAppliesWhen ts ctx (ru_AppliesWhen r) = Inr False) (RulesForRole rules (role_name ro)) \<and>
    sv_pass v = (\<forall>r \<in> set (RulesForRole rules (role_name ro)).
      EvalAppliesWhen ts ctx (ru_AppliesWhen r) = Inr False \<or>
      (EvalAppliesWhen ts ctx (ru_AppliesWhen r) = Inr True \<and> rule_holds ts ctx r)) \<and>
    (sv_pass v \<longrightarrow> FailedMessages v = [])"
proof -
  let ?rs = "RulesForRole rules (role_name ro)"
  have p: "rr_passed (eval_rule ts ctx r) \<longleftrightarrow> EvalAppliesWhen ts ctx (ru_AppliesWhen r) = Inr False \<or>
      (EvalAppliesWhen ts ctx (ru_AppliesWhen r) = Inr True \<and> rule_holds ts ctx r)" for r
    unfolding eval_rule_cases by (auto split: sum.splits)
  show ?thesis
    using assms
    by (auto simp: Evaluate_def eval_rules_conv FailedMessages_conv filter_empty_conv eval_rule_name
        eval_rule_cases(1) list_all_iff p o_def)
qed

section \<open>Loading\<close>

lemma load_entries_ok:
  "\<forall>(n, r) \<in> set es. validateRule (r\<lparr>ru_Name := n\<rparr>) = Inr () \<Longrightarrow>
     load_entries es = Inr (map (\<lambda>(n, r). r\<lparr>ru_Name := n\<rparr>) es)"
  by (induction es rule: load_entries.induct) auto

lemma load_entries_error:
  "\<exists>(n, r) \<in> set es. validateRule (r\<lparr>ru_Name := n\<rparr>) \<noteq> Inr () \<Longrightarrow> isl (load_entries es)"
proof (induction es rule: load_entries.induct)
  case (2 name r rest)
  then show ?case by (cases "validateRule (r\<lparr>ru_Name := name\<rparr>)") (auto simp: andThen_def split: sum.splits)
qed simp

text \<open>
  Loading a rules file does not depend on the order in which the Go map yields its entries: it
  fails in every order when some rule is invalid, and otherwise every order gives the same list,
  sorted by name.
\<close>

lemma load_rules_order_independent:
  assumes "distinct (map fst es)" and "mset es = mset es'"
  shows "isl (LoadRulesFromBytes (Inr es)) = isl (LoadRulesFromBytes (Inr es')) \<and>
    (\<not> isl (LoadRulesFromBytes (Inr es)) \<longrightarrow> LoadRulesFromBytes (Inr es) = LoadRulesFromBytes (Inr es') \<and>
       sorted (map ru_Name (projr (LoadRulesFromBytes (Inr es)))))"
proof -
  have set: "set es = set es'" using assms(2) by (rule mset_eq_setD)
  have nil: "es = [] \<longleftrightarrow> es' = []" using set by auto
  let ?name = "\<lambda>(n, r::rule). r\<lparr>ru_Name := n\<rparr>"
  show ?thesis
  proof (cases "es \<noteq> [] \<and> (\<forall>(n, r) \<in> set es. validateRule (r\<lparr>ru_Name := n\<rparr>) = Inr ())")
    case True
    have m: "mset (map ?name es) = mset (map ?name es')" using assms(2) by simp
    have i: "inj_on ru_Name (set (map ?name es))"
      using assms(1) by (auto simp: inj_on_def distinct_map dest: eq_key_imp_eq_value) (metis assms(1) eq_key_imp_eq_value)
    have "sort_key ru_Name (map ?name es) = sort_key ru_Name (map ?name es')"
      using m i by (intro sort_key_inj_key_eq) auto
    with True nil set load_entries_ok [of es] load_entries_ok [of es'] show ?thesis
      by (simp add: LoadRulesFromBytes_def)
  next
    case False
    then have "es = [] \<or> (isl (load_entries es) \<and> isl (load_entries es'))"
      using load_entries_error [of es] load_entries_error [of es'] set by auto
    then show ?thesis using nil
      by (auto simp: LoadRulesFromBytes_def andThen_def split: sum.splits)
  qed
qed

section \<open>Reading a check back\<close>

definition quoted :: "string \<Rightarrow> string" where
  "quoted a = CHR 0x22 # a @ [CHR 0x22]"

definition plain_char :: "char \<Rightarrow> bool" where
  "plain_char c \<longleftrightarrow> c \<noteq> CHR 0x22 \<and> c \<noteq> CHR 0x5C \<and> c \<noteq> CHR 0x0A \<and> c \<noteq> CHR '',''"

definition show_check :: "string \<Rightarrow> string list \<Rightarrow> string" where
  "show_check f args = f @ ''(['' @ join_with '','' (map quoted args) @ ''])''"

lemma unquote_plain:
  "\<forall>c \<in> set a. plain_char c \<Longrightarrow> length a < k \<Longrightarrow>
     unquote_chars k (CHR 0x22) (a @ [CHR 0x22]) = Some (a, [CHR 0x22])"
proof (induction a arbitrary: k)
  case Nil
  then show ?case by (cases k) auto
next
  case (Cons c cs)
  then obtain k' where "k = Suc k'" "length cs < k'" by (cases k) auto
  with Cons show ?case by (auto simp: plain_char_def)
qed

lemma stripQuotes_quoted: "\<forall>c \<in> set a. plain_char c \<Longrightarrow> stripQuotes (quoted a) = a"
  using unquote_plain [of a "length (quoted a)"] by (simp add: stripQuotes_def quoted_def unquote_def)

lemma trim_quoted: "trim_space (quoted a) = quoted a"
  by (rule trim_space_id) (simp add: quoted_def is_space_def ord_def)

lemma join_quoted_ends:
  "args \<noteq> [] \<Longrightarrow> join_with '','' (map quoted args) \<noteq> [] \<and> hd (join_with '','' (map quoted args)) = CHR 0x22 \<and>
     last (join_with '','' (map quoted args)) = CHR 0x22"
proof (induction args)
  case (Cons a as)
  then show ?case by (cases as) (auto simp: quoted_def)
qed simp

lemma join_chars: "c \<in> set (join_with sep ps) \<Longrightarrow> c \<in> set sep \<or> (\<exists>p \<in> set ps. c \<in> set p)"
  by (induction sep ps rule: join_with.induct) auto

lemma quote_not_space: "\<not> is_space (CHR 0x22)"
  by (simp add: is_space_def ord_def)

lemma parseArgs_join:
  assumes "args \<noteq> []" and "\<forall>a \<in> set args. a \<noteq> [] \<and> (\<forall>c \<in> set a. plain_char c)"
  shows "parseArgs (''['' @ join_with '','' (map quoted args) @ '']'') = args"
proof -
  let ?j = "join_with '','' (map quoted args)"
  have j: "?j \<noteq> []" "hd ?j = CHR 0x22" "last ?j = CHR 0x22" using join_quoted_ends [OF assms(1)] by auto
  then have tj: "trim_space ?j = ?j" using quote_not_space by (intro trim_space_id) auto
  have ts: "trim_space (''['' @ ?j @ '']'') = ''['' @ ?j @ '']''"
    by (rule trim_space_id) (simp add: is_space_def ord_def)
  have b: "butlast (tl (''['' @ ?j @ '']'')) = ?j" by simp
  have ends: "has_prefix (''['' @ ?j @ '']'') ''[''" "has_suffix (''['' @ ?j @ '']'') '']''"
    by (simp_all add: has_prefix_def has_suffix_def)
  have "split_on (CHR '','') ?j = map quoted args"
    using assms by (intro split_on_join) (auto simp: quoted_def plain_char_def)
  moreover have "map (\<lambda>p. stripQuotes (trim_space p)) (map quoted args) = args"
    using assms(2) by (induction args) (auto simp: trim_quoted stripQuotes_quoted)
  ultimately have "filter (\<lambda>p. p \<noteq> []) (map (\<lambda>p. stripQuotes (trim_space p)) (split_on (CHR '','') ?j)) = args"
    using assms(2) by (simp add: filter_id_conv)
  then show ?thesis using j tj ends unfolding parseArgs_def Let_def ts b by simp
qed

text \<open>
  A check is read back as it was written: the name of a predicate and its arguments, in an array
  of double-quoted strings, come out of the parser unchanged, when the arguments are not empty and
  contain no quote, backslash, newline or comma.
\<close>

lemma parse_check_roundtrip:
  assumes "f \<noteq> []" and "\<forall>c \<in> set f. word_char c" and "args \<noteq> []"
    and "\<forall>a \<in> set args. a \<noteq> [] \<and> (\<forall>c \<in> set a. plain_char c)"
  shows "ParseCheck (show_check f args) = Inr (f, args)"
proof -
  let ?j = "join_with '','' (map quoted args)" and ?s = "show_check f args"
  have word: "word_char c \<Longrightarrow> \<not> is_space c" for c
    by (auto simp: word_char_def is_space_def is_lower_def is_upper_def is_digit_def ord_def)
  have "trim_space ?s = ?s"
    using assms(1,2) word by (intro trim_space_id) (cases f; auto simp: show_check_def is_space_def ord_def)
  moreover have np: "\<not> word_char (CHR ''('')"
    by (simp add: word_char_def is_lower_def is_upper_def is_digit_def ord_def)
  then have "takeWhile word_char ?s = f" "dropWhile word_char ?s = ''('' @ (''['' @ ?j @ '']'') @ '')''"
    using assms(2) by (simp_all add: show_check_def takeWhile_tail dropWhile_append3)
  moreover have "CHR 0x0A \<notin> set ?j"
    using assms(4) join_chars [of "CHR 0x0A" "'',''" "map quoted args"] by (auto simp: quoted_def plain_char_def)
  moreover have "trim_space (''['' @ ?j @ '']'') = ''['' @ ?j @ '']''"
    by (rule trim_space_id) (simp add: is_space_def ord_def)
  moreover have "butlast (tl (''('' @ (''['' @ ?j @ '']'') @ '')'')) = ''['' @ ?j @ '']''"
    by (simp add: butlast_append)
  ultimately show ?thesis using assms(1) parseArgs_join [OF assms(3,4)]
    by (simp add: ParseCheck_def Let_def)
qed

section \<open>A sample contract\<close>

definition sample_rule :: "string \<Rightarrow> string \<Rightarrow> rule" where
  "sample_rule n c = \<lparr>ru_Name = n, ru_AppliesTo = [''reviewer.*''], ru_AppliesWhen = None, ru_Check = c,
     ru_Message = ''violated''\<rparr>"

definition sample_role :: "string \<Rightarrow> role" where
  "sample_role n = \<lparr>role_name = n, role_concurrency = ''single'', role_cli = ''codex'', role_prompt_template = ''p.md'',
     role_inputs_required = [''diff_path''], role_inputs_optional = [], role_sandbox = ''read-only'',
     role_permissions = \<lparr>rp_allowed_tools = [''bash:codex''], rp_never = [], rp_requires_human = []\<rparr>,
     role_max_wallclock_minutes = 10, role_applies_when = None\<rparr>"

definition sample_ctx :: eval_ctx where
  "sample_ctx = \<lparr>ec_Job = \<lparr>job_id = ''j1'', job_run_id = ''r1'', job_role = ''reviewer.arch'', job_state = JobStatePending,
       job_dispatched_by = ''user'', job_cli = ''codex'', job_started_at = 0, job_ended_at = None, job_plan_id = [],
       job_phase_index = 0, job_cost_usd = 0\<rparr>,
     ec_Result = Some \<lparr>jr_findings = [], jr_artifacts = [], jr_exit_code = 0, jr_stdout = [], jr_stderr = [], jr_cost = None\<rparr>,
     ec_Role = Some (sample_role ''reviewer.arch''), ec_RunID = ''r1'', ec_WorkDir = []\<rparr>"

lemma parse_check_roundtrip_witness:
  "ParseCheck (show_check ''all_findings_have'' [''path'', ''line'']) = Inr (''all_findings_have'', [''path'', ''line''])"
  by (rule parse_check_roundtrip)
    (simp_all add: word_char_def is_lower_def is_upper_def is_digit_def ord_def plain_char_def)

lemma evaluate_verdict_witness:
  "\<exists>v. Evaluate sample_tools [sample_rule ''exit'' ''exit_code_is(0)''] sample_ctx = Inr v \<and>
     map rr_rule_name (sv_results v) = [''exit'']"
proof -
  have r: "RulesForRole [sample_rule ''exit'' ''exit_code_is(0)''] ''reviewer.arch'' = [sample_rule ''exit'' ''exit_code_is(0)'']"
    by (simp add: RulesForRole_def roleGlobMatches_def sample_rule_def)
  have ro: "ec_Role sample_ctx = Some (sample_role ''reviewer.arch'')" "role_name (sample_role ''reviewer.arch'') = ''reviewer.arch''"
    by (simp_all add: sample_ctx_def sample_role_def)
  from evaluate_verdict [OF ro(1), of sample_tools "[sample_rule ''exit'' ''exit_code_is(0)'']"] show ?thesis
    unfolding ro(2) r by (auto simp: sample_rule_def)
qed

lemma load_rules_order_independent_witness:
  "map ru_Name (projr (LoadRulesFromBytes (Inr [(''b'', sample_rule [] ''exit_code_is(0)''), (''a'', sample_rule [] ''exit_code_is(0)'')]))) =
     [''a'', ''b'']"
proof -
  let ?es = "[(''b'', sample_rule [] ''exit_code_is(0)''), (''a'', sample_rule [] ''exit_code_is(0)'')]"
  let ?fs = "[(''a'', sample_rule [] ''exit_code_is(0)''), (''b'', sample_rule [] ''exit_code_is(0)'')]"
  have "LoadRulesFromBytes (Inr ?fs) = Inr [sample_rule ''a'' ''exit_code_is(0)'', sample_rule ''b'' ''exit_code_is(0)'']"
    by (simp add: LoadRulesFromBytes_def validateRule_def sample_rule_def)
  with load_rules_order_independent [of ?es ?fs] show ?thesis
    by (auto simp: sample_rule_def add_mset_commute)
qed

end
