(* ===== verification/Policy.thy ===== *)
theory Policy
  imports Predicates "HOL-Library.AList" "HOL-Library.Char_ord" "HOL-Library.List_Lexorder"
begin

text \<open>
  \<open>coding/policy\<close> and \<open>coding/stages\<close>: the policy a repository runs under, merged from the built-in
  defaults, the global file and the repository's file, with the layer each value comes from, and
  the role lists of the workflow stages with the policy's overrides on top. A Go map is an
  association list, a YAML document what the decoder makes of it.
\<close>

section \<open>defaults.go\<close>

definition builtinSource :: string where
  "builtinSource = ''built-in default''"

definition DefaultPolicy :: policy where
  "DefaultPolicy =
     \<lparr>pol_checkpoints =
        [(''spec-approved'', CheckpointActionBlock), (''plan-approved'', CheckpointActionBlock),
         (''phase-clean'', CheckpointActionOnFailure), (''ready-to-ship'', CheckpointActionBlock),
         (''compliance-breach'', CheckpointActionBlock), (''quality-gate'', CheckpointActionBlock)],
      pol_max_retries_per_job = 3, pol_max_fix_cycles_per_phase = 5, pol_max_parallel_plans = 2,
      pol_max_parallel_reviewers = 3, pol_on_undeclared = ''deny'', pol_workflow_overrides = [], pol_source = []\<rparr>"

definition set_source :: "string \<Rightarrow> string \<Rightarrow> policy \<Rightarrow> policy" where
  "set_source key src p = p\<lparr>pol_source := AList.update key src (pol_source p)\<rparr>"

definition defaultSourceMap :: "policy \<Rightarrow> policy" where
  "defaultSourceMap p =
     fold (\<lambda>key. set_source key builtinSource)
       [''supervisor_limits.max_retries_per_job'', ''supervisor_limits.max_fix_cycles_per_phase'',
        ''concurrency.max_parallel_plans'', ''concurrency.max_parallel_reviewers'', ''permissions.on_undeclared'']
       (fold (\<lambda>(c, a). set_source (''checkpoints.'' @ c) builtinSource) (pol_checkpoints p) p)"

section \<open>loader.go\<close>

record policy_doc =
  pd_checkpoints :: "(string \<times> CheckpointAction) list"
  pd_max_retries :: "int option"
  pd_max_fix_cycles :: "int option"
  pd_max_plans :: "int option"
  pd_max_reviewers :: "int option"
  pd_on_undeclared :: "string option"
  pd_overrides :: "(string \<times> (string \<times> string list) list) list"

text \<open>What reading and decoding a policy file gives.\<close>

datatype layer = Missing | Unreadable goerr | Malformed goerr | Document policy_doc

definition merge_checkpoint :: "string \<Rightarrow> string \<times> CheckpointAction \<Rightarrow> policy \<Rightarrow> policy" where
  "merge_checkpoint src ca p =
     set_source (''checkpoints.'' @ fst ca) src
       (p\<lparr>pol_checkpoints := AList.update (fst ca) (snd ca) (pol_checkpoints p)\<rparr>)"

text \<open>One optional scalar of the document.\<close>

definition merge_value :: "string \<Rightarrow> string \<Rightarrow> 'a option \<Rightarrow> ('a \<Rightarrow> policy \<Rightarrow> policy) \<Rightarrow> policy \<Rightarrow> policy" where
  "merge_value src key o_v put p = (case o_v of None \<Rightarrow> p | Some v \<Rightarrow> set_source key src (put v p))"

definition stages_of :: "string \<Rightarrow> policy \<Rightarrow> (string \<times> string list) list" where
  "stages_of flow p = (case map_of (pol_workflow_overrides p) flow of None \<Rightarrow> [] | Some st \<Rightarrow> st)"

definition merge_stage :: "string \<Rightarrow> string \<Rightarrow> string \<times> string list \<Rightarrow> policy \<Rightarrow> policy" where
  "merge_stage src flow sr p =
     set_source (''workflow_overrides.'' @ flow @ ''.'' @ fst sr) src
       (p\<lparr>pol_workflow_overrides :=
           AList.update flow (AList.update (fst sr) (snd sr) (stages_of flow p)) (pol_workflow_overrides p)\<rparr>)"

definition merge_workflow :: "string \<Rightarrow> string \<times> (string \<times> string list) list \<Rightarrow> policy \<Rightarrow> policy" where
  "merge_workflow src wo p =
     fold (merge_stage src (fst wo)) (snd wo)
       (if map_of (pol_workflow_overrides p) (fst wo) = None
        then p\<lparr>pol_workflow_overrides := AList.update (fst wo) [] (pol_workflow_overrides p)\<rparr> else p)"

definition mergePolicy :: "policy_doc \<Rightarrow> string \<Rightarrow> policy \<Rightarrow> policy" where
  "mergePolicy doc src p =
     fold (merge_workflow src) (pd_overrides doc)
       (merge_value src ''permissions.on_undeclared'' (pd_on_undeclared doc) (\<lambda>v. pol_on_undeclared_update (\<lambda>_. v))
       (merge_value src ''concurrency.max_parallel_reviewers'' (pd_max_reviewers doc) (\<lambda>v. pol_max_parallel_reviewers_update (\<lambda>_. v))
       (merge_value src ''concurrency.max_parallel_plans'' (pd_max_plans doc) (\<lambda>v. pol_max_parallel_plans_update (\<lambda>_. v))
       (merge_value src ''supervisor_limits.max_fix_cycles_per_phase'' (pd_max_fix_cycles doc)
          (\<lambda>v. pol_max_fix_cycles_per_phase_update (\<lambda>_. v))
       (merge_value src ''supervisor_limits.max_retries_per_job'' (pd_max_retries doc)
          (\<lambda>v. pol_max_retries_per_job_update (\<lambda>_. v))
       (fold (merge_checkpoint src) (pd_checkpoints doc) p))))))"

definition mergeFromPath :: "(string \<Rightarrow> layer) \<Rightarrow> string \<Rightarrow> string \<Rightarrow> policy \<Rightarrow> goerr + policy" where
  "mergeFromPath read path src p =
     (case read path of
        Missing \<Rightarrow> Inr p
      | Unreadable e \<Rightarrow> Inl (Wrapf ''read policy %q: %w'' [path] e)
      | Malformed e \<Rightarrow> Inl (Wrapf ''parse policy %q: %w'' [base_name path] e)
      | Document doc \<Rightarrow> Inr (mergePolicy doc src p))"

definition merge_layer :: "(string \<Rightarrow> layer) \<Rightarrow> string \<Rightarrow> string \<Rightarrow> goerr + policy \<Rightarrow> goerr + policy" where
  "merge_layer read name path r =
     (case r of Inl e \<Rightarrow> Inl e
      | Inr p \<Rightarrow> if path = [] then Inr p else mergeFromPath read path (name @ path) p)"

definition LoadPolicy :: "(string \<Rightarrow> layer) \<Rightarrow> string \<Rightarrow> string \<Rightarrow> goerr + policy" where
  "LoadPolicy read global_path repo_path =
     merge_layer read ''repo '' repo_path
       (merge_layer read ''global '' global_path (Inr (defaultSourceMap DefaultPolicy)))"

subsection \<open>Printing\<close>

fun action_string :: "CheckpointAction \<Rightarrow> string" where
  "action_string CheckpointActionBlock = ''block''"
| "action_string CheckpointActionOnFailure = ''on-failure''"
| "action_string CheckpointActionAuto = ''auto''"
| "action_string CheckpointActionNever = ''never''"
| "action_string (CheckpointActionOther s) = s"

definition lookup_source :: "policy \<Rightarrow> string \<Rightarrow> string" where
  "lookup_source p key = (case map_of (pol_source p) key of None \<Rightarrow> [] | Some s \<Rightarrow> s)"

definition sourceOrDefault :: "string \<Rightarrow> string" where
  "sourceOrDefault s = (if s = [] then builtinSource else s)"

definition sorted_keys :: "(string \<times> 'a) list \<Rightarrow> string list" where
  "sorted_keys m = sort (remdups (map fst m))"

definition inspect_line :: "string \<Rightarrow> string \<Rightarrow> string \<Rightarrow> string \<Rightarrow> string" where
  "inspect_line indent key val src = indent @ key @ '': '' @ val @ '' (from '' @ src @ '')'' @ newline"

definition inspect_int :: "policy \<Rightarrow> string \<Rightarrow> string \<Rightarrow> int \<Rightarrow> string" where
  "inspect_int p grp key v =
     inspect_line ''  '' key (itoa v) (sourceOrDefault (lookup_source p (grp @ ''.'' @ key)))"

text \<open>\<open>%v\<close> of a slice of strings.\<close>

definition show_list :: "string list \<Rightarrow> string" where
  "show_list xs = ''['' @ join_with '' '' xs @ '']''"

definition inspect_workflow :: "policy \<Rightarrow> string \<Rightarrow> string" where
  "inspect_workflow p flow =
     ''  '' @ flow @ newline @
     concat (map (\<lambda>st. inspect_line ''    '' st (show_list (the (map_of (stages_of flow p) st)))
       (sourceOrDefault (lookup_source p (''workflow_overrides.'' @ flow @ ''.'' @ st)))) (sorted_keys (stages_of flow p)))"

definition InspectString :: "policy option \<Rightarrow> string" where
  "InspectString o_p =
     (case o_p of
        None \<Rightarrow> ''# Effective Policy'' @ newline @ ''<nil>'' @ newline
      | Some p \<Rightarrow>
          ''# Effective Policy'' @ newline @ newline @ ''## Checkpoints'' @ newline @
          concat (map (\<lambda>c. inspect_line ''  '' c (action_string (the (map_of (pol_checkpoints p) c)))
            (sourceOrDefault (lookup_source p (''checkpoints.'' @ c)))) (sorted_keys (pol_checkpoints p))) @
          newline @ ''## Supervisor Limits'' @ newline @
          inspect_int p ''supervisor_limits'' ''max_retries_per_job'' (pol_max_retries_per_job p) @
          inspect_int p ''supervisor_limits'' ''max_fix_cycles_per_phase'' (pol_max_fix_cycles_per_phase p) @
          newline @ ''## Concurrency'' @ newline @
          inspect_int p ''concurrency'' ''max_parallel_plans'' (pol_max_parallel_plans p) @
          inspect_int p ''concurrency'' ''max_parallel_reviewers'' (pol_max_parallel_reviewers p) @
          newline @ ''## Permissions'' @ newline @
          inspect_line ''  '' ''on_undeclared'' (pol_on_undeclared p)
            (sourceOrDefault (lookup_source p ''permissions.on_undeclared'')) @
          newline @ ''## Workflow Overrides'' @ newline @
          (if pol_workflow_overrides p = [] then ''  <none>'' @ newline
           else concat (map (inspect_workflow p) (sorted_keys (pol_workflow_overrides p)))))"

section \<open>stages\<close>

definition DefaultStages :: "(string \<times> string list) list" where
  "DefaultStages =
     [(''phase-dev'', [''developer'']), (''phase-review'', [''reviewer.arch'', ''reviewer.frontend'']),
      (''phase-test'', [''tester'']), (''phase-ship'', [''shipper''])]"

definition WorkflowBuildFromPRD :: string where
  "WorkflowBuildFromPRD = ''build-from-prd''"

record stage_registry =
  sg_workflow :: string
  sg_merged :: "(string \<times> string list) list"

definition override_stage :: "string \<times> string list \<Rightarrow> (string \<times> string list) list \<Rightarrow> (string \<times> string list) list" where
  "override_stage sr merged = (if fst sr = ''stages'' then merged else AList.update (fst sr) (snd sr) merged)"

definition NewStageRegistry :: "string \<Rightarrow> (string \<times> string list) list \<Rightarrow> policy option \<Rightarrow> stage_registry" where
  "NewStageRegistry flow defaults o_p =
     \<lparr>sg_workflow = flow,
      sg_merged =
        (case o_p of
           None \<Rightarrow> defaults
         | Some p \<Rightarrow>
             (case map_of (pol_workflow_overrides p) flow of
                None \<Rightarrow> defaults
              | Some st \<Rightarrow> fold override_stage st defaults))\<rparr>"

definition RolesForStage :: "stage_registry \<Rightarrow> string \<Rightarrow> string list option" where
  "RolesForStage g stage = map_of (sg_merged g) stage"

definition AllStages :: "stage_registry \<Rightarrow> string list" where
  "AllStages g = map fst (sg_merged g)"

definition WorkflowOf :: "stage_registry \<Rightarrow> string" where
  "WorkflowOf g = sg_workflow g"

section \<open>Layers\<close>

lemma set_source_frame [simp]:
  "pol_checkpoints (set_source k s p) = pol_checkpoints p"
  "pol_max_retries_per_job (set_source k s p) = pol_max_retries_per_job p"
  "pol_max_fix_cycles_per_phase (set_source k s p) = pol_max_fix_cycles_per_phase p"
  "pol_max_parallel_plans (set_source k s p) = pol_max_parallel_plans p"
  "pol_max_parallel_reviewers (set_source k s p) = pol_max_parallel_reviewers p"
  "pol_on_undeclared (set_source k s p) = pol_on_undeclared p"
  "pol_workflow_overrides (set_source k s p) = pol_workflow_overrides p"
  "map_of (pol_source (set_source k s p)) = (map_of (pol_source p))(k \<mapsto> s)"
  by (simp_all add: set_source_def update_conv')

text \<open>Everything of a policy except one group, and the source keys outside a prefix.\<close>

definition scalars :: "policy \<Rightarrow> _" where
  "scalars p = (pol_max_retries_per_job p, pol_max_fix_cycles_per_phase p, pol_max_parallel_plans p,
     pol_max_parallel_reviewers p, pol_on_undeclared p)"

definition scalar_keys :: "string list" where
  "scalar_keys = [''supervisor_limits.max_retries_per_job'', ''supervisor_limits.max_fix_cycles_per_phase'',
     ''concurrency.max_parallel_plans'', ''concurrency.max_parallel_reviewers'', ''permissions.on_undeclared'']"

lemma fold_checkpoints:
  "distinct (map fst cs) \<Longrightarrow>
     map_of (pol_checkpoints (fold (merge_checkpoint src) cs p)) c =
       (case map_of cs c of None \<Rightarrow> map_of (pol_checkpoints p) c | Some a \<Rightarrow> Some a) \<and>
     map_of (pol_source (fold (merge_checkpoint src) cs p)) (''checkpoints.'' @ c) =
       (case map_of cs c of None \<Rightarrow> map_of (pol_source p) (''checkpoints.'' @ c) | Some a \<Rightarrow> Some src) \<and>
     (\<forall>k \<in> set scalar_keys. map_of (pol_source (fold (merge_checkpoint src) cs p)) k = map_of (pol_source p) k) \<and>
     scalars (fold (merge_checkpoint src) cs p) = scalars p \<and>
     pol_workflow_overrides (fold (merge_checkpoint src) cs p) = pol_workflow_overrides p"
proof (induction cs arbitrary: p)
  case (Cons ca cs)
  let ?q = "merge_checkpoint src ca p"
  have q: "map_of (pol_checkpoints ?q) = (map_of (pol_checkpoints p))(fst ca \<mapsto> snd ca)"
    "map_of (pol_source ?q) = (map_of (pol_source p))(''checkpoints.'' @ fst ca \<mapsto> src)"
    "scalars ?q = scalars p" "pol_workflow_overrides ?q = pol_workflow_overrides p"
    by (simp_all add: merge_checkpoint_def update_conv' scalars_def)
  have k: "''checkpoints.'' @ x \<notin> set scalar_keys" for x by (simp add: scalar_keys_def)
  from Cons.prems have d: "distinct (map fst cs)" and n: "map_of cs (fst ca) = None"
    by (auto simp: map_of_eq_None_iff)
  obtain c' a' where ca: "ca = (c', a')" by force
  show ?case using Cons.IH [OF d, of ?q] n unfolding q
    by (cases "c = c'"; cases "map_of cs c") (use k [simplified] in \<open>auto simp: ca\<close>)
qed simp

lemma fold_stages:
  "distinct (map fst srs) \<Longrightarrow>
     map_of (stages_of flow (fold (merge_stage src flow) srs p)) st =
       (case map_of srs st of None \<Rightarrow> map_of (stages_of flow p) st | Some rs \<Rightarrow> Some rs) \<and>
     (\<forall>f. f \<noteq> flow \<longrightarrow> stages_of f (fold (merge_stage src flow) srs p) = stages_of f p) \<and>
     pol_checkpoints (fold (merge_stage src flow) srs p) = pol_checkpoints p \<and>
     scalars (fold (merge_stage src flow) srs p) = scalars p \<and>
     (\<forall>k. \<not> has_prefix k ''workflow_overrides.'' \<longrightarrow>
        map_of (pol_source (fold (merge_stage src flow) srs p)) k = map_of (pol_source p) k)"
proof (induction srs arbitrary: p)
  case (Cons sr srs)
  let ?q = "merge_stage src flow sr p"
  have q: "stages_of flow ?q = AList.update (fst sr) (snd sr) (stages_of flow p)"
    "f \<noteq> flow \<Longrightarrow> stages_of f ?q = stages_of f p"
    "pol_checkpoints ?q = pol_checkpoints p" "scalars ?q = scalars p"
    "\<not> has_prefix k ''workflow_overrides.'' \<Longrightarrow> map_of (pol_source ?q) k = map_of (pol_source p) k" for f k
    by (auto simp: merge_stage_def stages_of_def update_conv' scalars_def has_prefix_def)
  from Cons.prems have d: "distinct (map fst srs)" and n: "map_of srs (fst sr) = None"
    by (auto simp: map_of_eq_None_iff)
  show ?case using Cons.IH [OF d, of ?q] q n
    by (auto simp: update_conv' split: option.split)
qed simp

lemma merge_workflow_run:
  "distinct (map fst (snd fo)) \<Longrightarrow>
     map_of (stages_of f (merge_workflow src fo p)) st =
       (case (if f = fst fo then map_of (snd fo) st else None) of
          None \<Rightarrow> map_of (stages_of f p) st | Some rs \<Rightarrow> Some rs) \<and>
     pol_checkpoints (merge_workflow src fo p) = pol_checkpoints p \<and>
     scalars (merge_workflow src fo p) = scalars p \<and>
     (\<forall>k. \<not> has_prefix k ''workflow_overrides.'' \<longrightarrow>
        map_of (pol_source (merge_workflow src fo p)) k = map_of (pol_source p) k)"
proof -
  assume d: "distinct (map fst (snd fo))"
  define q where "q = (if map_of (pol_workflow_overrides p) (fst fo) = None
      then p\<lparr>pol_workflow_overrides := AList.update (fst fo) [] (pol_workflow_overrides p)\<rparr> else p)"
  have q: "stages_of f q = stages_of f p" "pol_checkpoints q = pol_checkpoints p" "scalars q = scalars p"
    "pol_source q = pol_source p" for f
    by (auto simp: q_def stages_of_def update_conv' scalars_def)
  show ?thesis using fold_stages [OF d, of "fst fo" src q st] q
    by (auto simp: merge_workflow_def q_def [symmetric] split: option.split)
qed

definition doc_stage :: "policy_doc \<Rightarrow> string \<Rightarrow> string \<Rightarrow> string list option" where
  "doc_stage doc f st = (case map_of (pd_overrides doc) f of None \<Rightarrow> None | Some srs \<Rightarrow> map_of srs st)"

definition doc_ok :: "policy_doc \<Rightarrow> bool" where
  "doc_ok doc \<longleftrightarrow> distinct (map fst (pd_checkpoints doc)) \<and> distinct (map fst (pd_overrides doc)) \<and>
     list_all (\<lambda>(f, srs). distinct (map fst srs)) (pd_overrides doc)"

lemma fold_workflows:
  "distinct (map fst fos) \<Longrightarrow> list_all (\<lambda>(f, srs). distinct (map fst srs)) fos \<Longrightarrow>
     map_of (stages_of f (fold (merge_workflow src) fos p)) st =
       (case (case map_of fos f of None \<Rightarrow> None | Some srs \<Rightarrow> map_of srs st) of
          None \<Rightarrow> map_of (stages_of f p) st | Some rs \<Rightarrow> Some rs) \<and>
     pol_checkpoints (fold (merge_workflow src) fos p) = pol_checkpoints p \<and>
     scalars (fold (merge_workflow src) fos p) = scalars p \<and>
     (\<forall>k. \<not> has_prefix k ''workflow_overrides.'' \<longrightarrow>
        map_of (pol_source (fold (merge_workflow src) fos p)) k = map_of (pol_source p) k)"
proof (induction fos arbitrary: p)
  case (Cons fo fos)
  from Cons.prems have d: "distinct (map fst (snd fo))" and d': "distinct (map fst fos)"
    and n: "map_of fos (fst fo) = None" and a: "list_all (\<lambda>(f, srs). distinct (map fst srs)) fos"
    by (auto simp: map_of_eq_None_iff)
  show ?case using Cons.IH [OF d' a, of "merge_workflow src fo p"] merge_workflow_run [OF d, of f src p st] n
    by (cases fo) (auto split: option.split)
qed simp

text \<open>A later layer wins where it says something.\<close>

definition over :: "'a option \<Rightarrow> 'a option \<Rightarrow> 'a option" where
  "over a b = (case a of None \<Rightarrow> b | Some x \<Rightarrow> Some x)"

definition over_value :: "'a option \<Rightarrow> 'a \<Rightarrow> 'a" where
  "over_value a b = (case a of None \<Rightarrow> b | Some x \<Rightarrow> x)"

definition set_scalars :: "policy_doc \<Rightarrow> string \<Rightarrow> policy \<Rightarrow> policy" where
  "set_scalars doc src p =
     merge_value src ''permissions.on_undeclared'' (pd_on_undeclared doc) (\<lambda>v. pol_on_undeclared_update (\<lambda>_. v))
       (merge_value src ''concurrency.max_parallel_reviewers'' (pd_max_reviewers doc) (\<lambda>v. pol_max_parallel_reviewers_update (\<lambda>_. v))
       (merge_value src ''concurrency.max_parallel_plans'' (pd_max_plans doc) (\<lambda>v. pol_max_parallel_plans_update (\<lambda>_. v))
       (merge_value src ''supervisor_limits.max_fix_cycles_per_phase'' (pd_max_fix_cycles doc)
          (\<lambda>v. pol_max_fix_cycles_per_phase_update (\<lambda>_. v))
       (merge_value src ''supervisor_limits.max_retries_per_job'' (pd_max_retries doc)
          (\<lambda>v. pol_max_retries_per_job_update (\<lambda>_. v)) p))))"

lemma set_scalars_run:
  "pol_checkpoints (set_scalars doc src p) = pol_checkpoints p"
  "pol_workflow_overrides (set_scalars doc src p) = pol_workflow_overrides p"
  "scalars (set_scalars doc src p) =
     (over_value (pd_max_retries doc) (pol_max_retries_per_job p), over_value (pd_max_fix_cycles doc) (pol_max_fix_cycles_per_phase p),
      over_value (pd_max_plans doc) (pol_max_parallel_plans p), over_value (pd_max_reviewers doc) (pol_max_parallel_reviewers p),
      over_value (pd_on_undeclared doc) (pol_on_undeclared p))"
  "k \<notin> set scalar_keys \<Longrightarrow> map_of (pol_source (set_scalars doc src p)) k = map_of (pol_source p) k"
  "map_of (pol_source (set_scalars doc src p)) ''permissions.on_undeclared'' =
     (if pd_on_undeclared doc = None then map_of (pol_source p) ''permissions.on_undeclared'' else Some src)"
  by (cases "pd_on_undeclared doc"; cases "pd_max_reviewers doc"; cases "pd_max_plans doc"; cases "pd_max_fix_cycles doc";
      cases "pd_max_retries doc"; simp add: set_scalars_def merge_value_def scalars_def over_value_def scalar_keys_def)+

lemma mergePolicy_run:
  assumes "doc_ok doc"
  shows "map_of (pol_checkpoints (mergePolicy doc src p)) c =
      over (map_of (pd_checkpoints doc) c) (map_of (pol_checkpoints p) c)"
    and "scalars (mergePolicy doc src p) =
     (over_value (pd_max_retries doc) (pol_max_retries_per_job p), over_value (pd_max_fix_cycles doc) (pol_max_fix_cycles_per_phase p),
      over_value (pd_max_plans doc) (pol_max_parallel_plans p), over_value (pd_max_reviewers doc) (pol_max_parallel_reviewers p),
      over_value (pd_on_undeclared doc) (pol_on_undeclared p))"
    and "map_of (stages_of f (mergePolicy doc src p)) st = over (doc_stage doc f st) (map_of (stages_of f p) st)"
    and "map_of (pol_source (mergePolicy doc src p)) (''checkpoints.'' @ c) =
      (if map_of (pd_checkpoints doc) c = None then map_of (pol_source p) (''checkpoints.'' @ c) else Some src)"
    and "map_of (pol_source (mergePolicy doc src p)) ''permissions.on_undeclared'' =
      (if pd_on_undeclared doc = None then map_of (pol_source p) ''permissions.on_undeclared'' else Some src)"
proof -
  let ?a = "fold (merge_checkpoint src) (pd_checkpoints doc) p" let ?b = "set_scalars doc src ?a"
  have m: "mergePolicy doc src p = fold (merge_workflow src) (pd_overrides doc) ?b"
    by (simp add: mergePolicy_def set_scalars_def)
  from assms have d: "distinct (map fst (pd_checkpoints doc))" "distinct (map fst (pd_overrides doc))"
    "list_all (\<lambda>(f, srs). distinct (map fst srs)) (pd_overrides doc)" by (auto simp: doc_ok_def)
  note a = fold_checkpoints [OF d(1), where src = src and p = p and c = c] and b = set_scalars_run [where doc = doc and src = src and p = ?a]
  note w = fold_workflows [OF d(2,3), where f = f and src = src and p = ?b and st = st]
  have st: "stages_of f ?b = stages_of f p" using a b(2) by (simp add: stages_of_def)
  have sc: "scalars ?a = scalars p" using a by blast
  show "map_of (pol_checkpoints (mergePolicy doc src p)) c =
      over (map_of (pd_checkpoints doc) c) (map_of (pol_checkpoints p) c)"
    using a b(1) w unfolding m over_def by simp
  show "scalars (mergePolicy doc src p) =
     (over_value (pd_max_retries doc) (pol_max_retries_per_job p), over_value (pd_max_fix_cycles doc) (pol_max_fix_cycles_per_phase p),
      over_value (pd_max_plans doc) (pol_max_parallel_plans p), over_value (pd_max_reviewers doc) (pol_max_parallel_reviewers p),
      over_value (pd_on_undeclared doc) (pol_on_undeclared p))"
    using b(3) w sc unfolding m by (simp add: scalars_def)
  show "map_of (stages_of f (mergePolicy doc src p)) st = over (doc_stage doc f st) (map_of (stages_of f p) st)"
    using w st unfolding m over_def doc_stage_def by (simp cong: option.case_cong)
  have k: "''checkpoints.'' @ c \<notin> set scalar_keys" by (simp add: scalar_keys_def)
  have np: "\<not> has_prefix (''checkpoints.'' @ c) ''workflow_overrides.''" by (simp add: has_prefix_def)
  have "map_of (pol_source (mergePolicy doc src p)) (''checkpoints.'' @ c) = map_of (pol_source ?a) (''checkpoints.'' @ c)"
    using w np b(4) [OF k] unfolding m by metis
  with a show "map_of (pol_source (mergePolicy doc src p)) (''checkpoints.'' @ c) =
      (if map_of (pd_checkpoints doc) c = None then map_of (pol_source p) (''checkpoints.'' @ c) else Some src)"
    by (cases "map_of (pd_checkpoints doc) c") auto
  have "''permissions.on_undeclared'' \<in> set scalar_keys" "\<not> has_prefix ''permissions.on_undeclared'' ''workflow_overrides.''"
    by (simp_all add: scalar_keys_def has_prefix_def)
  with a b(5) w show "map_of (pol_source (mergePolicy doc src p)) ''permissions.on_undeclared'' =
      (if pd_on_undeclared doc = None then map_of (pol_source p) ''permissions.on_undeclared'' else Some src)"
    unfolding m by metis
qed

text \<open>The document a layer contributes.\<close>

definition doc_at :: "(string \<Rightarrow> layer) \<Rightarrow> string \<Rightarrow> policy_doc option" where
  "doc_at read path = (if path = [] then None else (case read path of Document d \<Rightarrow> Some d | _ \<Rightarrow> None))"

definition broken_at :: "(string \<Rightarrow> layer) \<Rightarrow> string \<Rightarrow> bool" where
  "broken_at read path \<longleftrightarrow> path \<noteq> [] \<and> (case read path of Unreadable e \<Rightarrow> True | Malformed e \<Rightarrow> True | _ \<Rightarrow> False)"

definition from_doc :: "(policy_doc \<Rightarrow> 'a option) \<Rightarrow> policy_doc option \<Rightarrow> 'a option" where
  "from_doc f o_d = (case o_d of None \<Rightarrow> None | Some d \<Rightarrow> f d)"

definition merged :: "(string \<Rightarrow> layer) \<Rightarrow> string \<Rightarrow> string \<Rightarrow> policy \<Rightarrow> policy" where
  "merged read name path p = (case doc_at read path of None \<Rightarrow> p | Some d \<Rightarrow> mergePolicy d (name @ path) p)"

lemma merge_layer_run:
  "merge_layer read name path (Inr p) = Inr (merged read name path p)" if "\<not> broken_at read path"
  using that by (auto simp: merge_layer_def mergeFromPath_def merged_def doc_at_def broken_at_def split: layer.splits)

lemma merge_layer_broken: "isl (merge_layer read name path r)" if "isl r \<or> broken_at read path"
  using that by (cases r) (auto simp: merge_layer_def mergeFromPath_def broken_at_def split: layer.splits)

lemma merged_run:
  assumes "pred_option doc_ok (doc_at read path)"
  shows "map_of (pol_checkpoints (merged read name path p)) c =
      over (from_doc (\<lambda>d. map_of (pd_checkpoints d) c) (doc_at read path)) (map_of (pol_checkpoints p) c)"
    and "scalars (merged read name path p) =
     (over_value (from_doc pd_max_retries (doc_at read path)) (pol_max_retries_per_job p),
      over_value (from_doc pd_max_fix_cycles (doc_at read path)) (pol_max_fix_cycles_per_phase p),
      over_value (from_doc pd_max_plans (doc_at read path)) (pol_max_parallel_plans p),
      over_value (from_doc pd_max_reviewers (doc_at read path)) (pol_max_parallel_reviewers p),
      over_value (from_doc pd_on_undeclared (doc_at read path)) (pol_on_undeclared p))"
    and "map_of (stages_of f (merged read name path p)) st =
      over (from_doc (\<lambda>d. doc_stage d f st) (doc_at read path)) (map_of (stages_of f p) st)"
  using assms mergePolicy_run
  by (cases "doc_at read path"; simp add: merged_def from_doc_def over_def over_value_def scalars_def)+

lemma over_None [simp]: "over a None = a"
  by (cases a) (simp_all add: over_def)

text \<open>The source keys: those a document sets, all of them with the name of its layer, and the built-in ones.\<close>

definition stage_key :: "string \<Rightarrow> string \<Rightarrow> string" where
  "stage_key flow st = ''workflow_overrides.'' @ flow @ ''.'' @ st"

definition key_if :: "'a option \<Rightarrow> string \<Rightarrow> string list" where
  "key_if o_v key = (if o_v = None then [] else [key])"

lemma in_key_if: "k \<in> set (key_if o_v key) \<longleftrightarrow> o_v \<noteq> None \<and> k = key"
  by (simp add: key_if_def)

definition doc_keys :: "policy_doc \<Rightarrow> string list" where
  "doc_keys d =
     map (\<lambda>ca. ''checkpoints.'' @ fst ca) (pd_checkpoints d) @
     key_if (pd_max_retries d) ''supervisor_limits.max_retries_per_job'' @
     key_if (pd_max_fix_cycles d) ''supervisor_limits.max_fix_cycles_per_phase'' @
     key_if (pd_max_plans d) ''concurrency.max_parallel_plans'' @
     key_if (pd_max_reviewers d) ''concurrency.max_parallel_reviewers'' @
     key_if (pd_on_undeclared d) ''permissions.on_undeclared'' @
     concat (map (\<lambda>fo. map (\<lambda>sr. stage_key (fst fo) (fst sr)) (snd fo)) (pd_overrides d))"

definition builtin_keys :: "string list" where
  "builtin_keys = map (\<lambda>c. ''checkpoints.'' @ c) [''spec-approved'', ''plan-approved'', ''phase-clean'', ''ready-to-ship'',
     ''compliance-breach'', ''quality-gate''] @ scalar_keys"

definition names_layer :: "string \<Rightarrow> string \<Rightarrow> policy_doc option \<Rightarrow> string option" where
  "names_layer k src o_d = from_doc (\<lambda>d. if k \<in> set (doc_keys d) then Some src else None) o_d"

lemma checkpoint_sources:
  "map_of (pol_source (fold (merge_checkpoint src) cs p)) k =
     (if k \<in> (\<lambda>ca. ''checkpoints.'' @ fst ca) ` set cs then Some src else map_of (pol_source p) k)"
  by (induction cs arbitrary: p) (auto simp: merge_checkpoint_def)

lemma stage_sources:
  "map_of (pol_source (fold (merge_stage src flow) srs p)) k =
     (if k \<in> (\<lambda>sr. stage_key flow (fst sr)) ` set srs then Some src else map_of (pol_source p) k)"
  by (induction srs arbitrary: p) (auto simp: merge_stage_def stage_key_def)

lemma workflow_sources:
  "map_of (pol_source (fold (merge_workflow src) fos p)) k =
     (if k \<in> set (concat (map (\<lambda>fo. map (\<lambda>sr. stage_key (fst fo) (fst sr)) (snd fo)) fos)) then Some src
      else map_of (pol_source p) k)"
  by (induction fos arbitrary: p) (auto simp: merge_workflow_def stage_sources)

lemma value_source:
  assumes "\<And>v q. pol_source (put v q) = pol_source q"
  shows "map_of (pol_source (merge_value src key o_v put p)) k =
     (if o_v \<noteq> None \<and> k = key then Some src else map_of (pol_source p) k)"
  using assms by (cases o_v) (simp_all add: merge_value_def)

lemma first_of_two: "(if P then x else if Q then x else y) = (if Q \<or> P then x else y)"
  by simp

lemma mergePolicy_sources:
  "map_of (pol_source (mergePolicy d src p)) k = (if k \<in> set (doc_keys d) then Some src else map_of (pol_source p) k)"
  unfolding mergePolicy_def
  by (subst workflow_sources, subst value_source, simp, subst value_source, simp, subst value_source, simp,
      subst value_source, simp, subst value_source, simp, subst checkpoint_sources)
    (simp only: first_of_two doc_keys_def set_append Un_iff in_key_if set_map disj_assoc)

lemma merged_sources:
  "map_of (pol_source (merged read name path p)) k =
     over (names_layer k (name @ path) (doc_at read path)) (map_of (pol_source p) k)"
  by (cases "doc_at read path") (simp_all add: merged_def names_layer_def from_doc_def mergePolicy_sources over_def)

lemma default_sources:
  "map_of (pol_source (defaultSourceMap DefaultPolicy)) k = (if k \<in> set builtin_keys then Some ''built-in default'' else None)"
  by (simp add: defaultSourceMap_def builtin_keys_def scalar_keys_def DefaultPolicy_def builtinSource_def)


definition override_of :: "policy option \<Rightarrow> string \<Rightarrow> string \<Rightarrow> string list option" where
  "override_of o_p flow stage = (case o_p of None \<Rightarrow> None | Some p \<Rightarrow> map_of (stages_of flow p) stage)"

text \<open>
  The roles of a stage are those of the policy's override for this workflow when it has one, an
  empty override switching the stage off, and the default ones otherwise; the key \<open>stages\<close> of the
  YAML file is no stage.
\<close>

lemma stage_roles:
  assumes "pred_option (\<lambda>p. list_all (\<lambda>(f, srs). distinct (map fst srs)) (pol_workflow_overrides p)) o_p"
  shows "RolesForStage (NewStageRegistry flow defaults o_p) stage =
    over (if stage = ''stages'' then None
          else override_of o_p flow stage) (map_of defaults stage)"
proof -
  have run: "map_of (fold override_stage srs m) st =
      over (if st = ''stages'' then None else map_of srs st) (map_of m st)"
    if "distinct (map fst srs)" for srs :: "(string \<times> string list) list" and m st
    using that
  proof (induction srs arbitrary: m)
    case (Cons sr srs)
    then have n: "map_of srs (fst sr) = None" and d: "distinct (map fst srs)" by (auto simp: map_of_eq_None_iff)
    show ?case using n Cons.IH [OF d, of "override_stage sr m"]
      by (cases sr; cases "map_of srs st"; cases "st = fst sr") (auto simp: override_stage_def update_conv' over_def)
  qed (simp add: over_def)
  show ?thesis
  proof (cases o_p)
    case None
    then show ?thesis by (simp add: RolesForStage_def NewStageRegistry_def override_of_def over_def)
  next
    case (Some p)
    show ?thesis
    proof (cases "map_of (pol_workflow_overrides p) flow")
      case None
      with Some show ?thesis by (simp add: RolesForStage_def NewStageRegistry_def override_of_def over_def stages_of_def)
    next
      case (Some srs)
      from map_of_SomeD [OF this] have "distinct (map fst srs)"
        using assms \<open>o_p = Some p\<close> by (auto simp: list_all_iff)
      with run Some \<open>o_p = Some p\<close> show ?thesis
        by (simp add: RolesForStage_def NewStageRegistry_def override_of_def stages_of_def)
    qed
  qed
qed

section \<open>A sample policy\<close>

definition sample_doc :: policy_doc where
  "sample_doc = \<lparr>pd_checkpoints = [(''ready-to-ship'', CheckpointActionAuto)], pd_max_retries = Some 1,
     pd_max_fix_cycles = None, pd_max_plans = None, pd_max_reviewers = None, pd_on_undeclared = None,
     pd_overrides = [(''build-from-prd'', [(''phase-test'', [])])]\<rparr>"

definition sample_layer :: "string \<Rightarrow> layer" where
  "sample_layer path = (if path = ''repo.yaml'' then Document sample_doc else Missing)"


lemma stage_roles_witness:
  "RolesForStage (NewStageRegistry WorkflowBuildFromPRD DefaultStages
     (Some (DefaultPolicy\<lparr>pol_workflow_overrides := [(''build-from-prd'', [(''phase-test'', [])])]\<rparr>))) ''phase-test'' = Some []"
  by (subst stage_roles) (simp_all add: override_of_def over_def stages_of_def WorkflowBuildFromPRD_def)

end
