(* ===== verification/Flow.thy ===== *)
theory Flow
  imports Finding_Store Plan_Store Attention_Store Cost_Store Predicates
    "HOL-Library.AList"
begin

text \<open>
  What the packages above the stores share: writing an event without projection, the text
  layouts of the feedback strings, path names (\<open>filepath.Join\<close>), maps of role inputs, and the
  preservation of the table consistency by the cost store.
\<close>

section \<open>Successful branches\<close>

lemma case_sum_run:
  "(case z of Inl e \<Rightarrow> f e | Inr y \<Rightarrow> g y) w = (Inr x, w') \<longleftrightarrow>
     (\<exists>e. z = Inl e \<and> f e w = (Inr x, w')) \<or> (\<exists>y. z = Inr y \<and> g y w = (Inr x, w'))"
  by (cases z) auto

lemma case_option_run:
  "(case z of None \<Rightarrow> f | Some y \<Rightarrow> g y) w = (Inr x, w') \<longleftrightarrow>
     (z = None \<and> f w = (Inr x, w')) \<or> (\<exists>y. z = Some y \<and> g y w = (Inr x, w'))"
  by (cases z) auto

section \<open>Events without projection\<close>

definition append_event :: "ident \<Rightarrow> EventKind \<Rightarrow> ident \<Rightarrow> json \<Rightarrow> unit prog" where
  "append_event runID kind corr payload =
     bindE new_id (\<lambda>i. bindE time_now (\<lambda>now.
     bindE (WriteEventThenRow (mk_event i runID kind corr payload now) None) (\<lambda>_. ret ())))"

lemma keeps_append_event:
  assumes "\<And>d e d'. P d \<Longrightarrow> ev_sequence e = next_sequence (ev_run_id e) d \<Longrightarrow>
      insert_event e d = Inr (1, d') \<Longrightarrow> P d'"
  shows "keeps (on_db P) (append_event r k c j)"
  unfolding append_event_def
  using assms by (intro keeps_intros elog.append_keeps) auto

lemma append_event_db_ok [keeps_intros]: "keeps (on_db db_ok) (append_event r k c j)"
  by (rule keeps_append_event) (rule db_ok_add_event)

lemma append_event_cases:
  obtains (failed) e where "fst (append_event r k c j w) = Inl e" "wd_db (snd (append_event r k c j w)) = wd_db w"
  | (written) e where "fst (append_event r k c j w) = Inr ()" "ev_kind e = k" "ev_run_id e = r"
      "ev_correlation_id e = c" "ev_payload e = j"
      "wd_db (snd (append_event r k c j w)) = add_event e (wd_db w)"
proof -
  let ?ev = "mk_event (NewID (wd_rnd w) (wd_ids w)) r k c j (wd_clock w (wd_ticks w))"
  let ?w = "w\<lparr>wd_ids := Suc (wd_ids w), wd_ticks := Suc (wd_ticks w)\<rparr>"
  have run: "append_event r k c j w = bindE (WriteEventThenRow ?ev None) (\<lambda>_. ret ()) ?w"
    by (simp add: append_event_def bindE_new_id bindE_time_now)
  have res: "fst (append_event r k c j w) = (case fst (WriteEventThenRow ?ev None ?w) of Inl e \<Rightarrow> Inl e | Inr _ \<Rightarrow> Inr ())"
    "snd (append_event r k c j w) = snd (WriteEventThenRow ?ev None ?w)"
    unfolding run by (auto simp: bindE_def ret_def split: prod.splits sum.splits)
  from write_event_atomic_aux [of ?ev None ?w] show thesis
  proof
    assume "\<exists>e. fst (WriteEventThenRow ?ev None ?w) = Inl e \<and> wd_db (snd (WriteEventThenRow ?ev None ?w)) = wd_db ?w"
    with res show thesis by (auto intro: failed)
  next
    assume "\<exists>w1 w2. fst (WriteEventThenRow ?ev None ?w) = Inr (?ev\<lparr>ev_sequence := next_sequence (ev_run_id ?ev) (wd_db ?w)\<rparr>) \<and>
        wd_db w1 = add_event (stored_event (?ev\<lparr>ev_sequence := next_sequence (ev_run_id ?ev) (wd_db ?w)\<rparr>)) (wd_db ?w) \<and>
        (case None of None \<Rightarrow> w2 = w1 | Some m \<Rightarrow> m w1 = (Inr (), w2)) \<and>
        wd_db (snd (WriteEventThenRow ?ev None ?w)) = wd_db w2"
    with res show thesis
      by (intro written [of "stored_event (?ev\<lparr>ev_sequence := next_sequence (ev_run_id ?ev) (wd_db ?w)\<rparr>)"])
        (auto simp: mk_event_def)
  qed
qed

section \<open>The cost store keeps the tables consistent\<close>

lemma cost_applied_db_ok:
  assumes ok: "db_ok d" and seq: "ev_sequence ev = next_sequence (ev_run_id ev) d"
    and app: "cost_applied fadd r j s ev cid t d d'"
  shows "db_ok d'"
proof -
  let ?d1 = "add_event (stored_event ev) d"
  let ?c = "\<lparr>co_id = cid, co_run_id = r, co_job_id = j, co_provider = cs_provider s, co_model = cs_model s,
    co_tokens_in = cs_tokens_in s, co_tokens_out = cs_tokens_out s, co_usd = cs_usd s, co_created_at = t\<rparr>"
  let ?d2 = "?d1\<lparr>t_costs := t_costs ?d1 @ [?c]\<rparr>"
  let ?fj = "\<lambda>j. j\<lparr>job_cost_usd := fadd (job_cost_usd j) (cs_usd s)\<rparr>"
  let ?fr = "\<lambda>r. r\<lparr>run_cost_usd := fadd (run_cost_usd r) (cs_usd s)\<rparr>"
  let ?d3 = "?d2\<lparr>t_jobs := update_where (\<lambda>k. job_id k = j) ?fj (t_jobs ?d2)\<rparr>"
  have ins: "insert_event (stored_event ev) d = Inr (1, ?d1)" and cid: "cid \<notin> co_id ` set (t_costs d)"
    and refs: "has_run d r" "has_job d j"
    and d': "d' = ?d3\<lparr>t_runs := update_where (\<lambda>x. run_id x = r) ?fr (t_runs ?d3)\<rparr>"
    using app by (simp_all add: cost_applied_def add_event_def)
  have "db_ok ?d1" using db_ok_add_event [OF ok _ ins] seq by simp
  moreover have "insert_cost ?c ?d1 = Inr (1, ?d2)"
    using cid refs by (simp add: insert_cost_def require_fk_def insert_into_def add_event_def)
  ultimately have "db_ok ?d2" by (rule insert_cost_db_ok)
  moreover have "update_job j ?fj ?d2 = Inr (count_where (\<lambda>k. job_id k = j) (t_jobs ?d2), ?d3)"
    by (simp add: update_job_def)
  ultimately have "db_ok ?d3" by (rule update_job_db_ok [rotated]) simp
  moreover have "update_run r ?fr ?d3 = Inr (count_where (\<lambda>x. run_id x = r) (t_runs ?d3), d')"
    by (simp add: update_run_def d')
  ultimately show ?thesis by (rule update_run_db_ok [rotated]) simp
qed

lemma RecordCost_keeps_db_ok [keeps_intros]: "keeps (on_db db_ok) (RecordCost fadd r j s)"
  unfolding keeps_def on_db_def
proof (intro allI impI)
  fix w :: world assume ok: "db_ok (wd_db w)"
  show "db_ok (wd_db (snd (RecordCost fadd r j s w)))"
  proof (cases rule: RecordCost_cases [of fadd r j s w])
    case (failed e)
    with ok show "db_ok (wd_db (snd (RecordCost fadd r j s w)))" by simp
  next
    case (recorded ev cid run)
    with ok show "db_ok (wd_db (snd (RecordCost fadd r j s w)))" by (auto intro: cost_applied_db_ok)
  qed
qed

section \<open>Text\<close>

definition jlist :: "string list \<Rightarrow> json" where
  "jlist xs = JArr (map JStr xs)"

text \<open>A nil slice is encoded as null.\<close>

definition jslice :: "string list \<Rightarrow> json" where
  "jslice xs = (if xs = [] then JNull else jlist xs)"

text \<open>The lines \<open>"  %d. %s\n"\<close> of a numbered list.\<close>

definition numbered_lines :: "string list \<Rightarrow> string" where
  "numbered_lines xs =
     concat (map (\<lambda>(i, x). ''  '' @ itoa (int i) @ ''. '' @ x @ newline) (enumerate 1 xs))"

text \<open>\<open>filepath.Clean\<close> and \<open>filepath.Join\<close> on Unix paths.\<close>

fun clean_parts :: "bool \<Rightarrow> string list \<Rightarrow> string list \<Rightarrow> string list" where
  "clean_parts rooted out [] = rev out"
| "clean_parts rooted out (p # ps) =
     (if p = [] \<or> p = ''.'' then clean_parts rooted out ps
      else if p = ''..'' then
        (case out of
           q # rest \<Rightarrow> if q = ''..'' then clean_parts rooted (p # out) ps else clean_parts rooted rest ps
         | [] \<Rightarrow> clean_parts rooted (if rooted then [] else [p]) ps)
      else clean_parts rooted (p # out) ps)"

definition clean_path :: "string \<Rightarrow> string" where
  "clean_path s =
     (let rooted = has_prefix s ''/''; parts = clean_parts rooted [] (split_on (CHR ''/'') s);
          body = join_with ''/'' parts
      in if rooted then CHR ''/'' # body else if body = [] then ''.'' else body)"

definition join_path :: "string list \<Rightarrow> string" where
  "join_path elems =
     (let ps = filter (\<lambda>p. p \<noteq> []) elems in
      if ps = [] then [] else clean_path (join_with ''/'' ps))"

section \<open>Role inputs\<close>

text \<open>A \<open>map[string]string\<close> is an association list with distinct keys.\<close>

type_synonym inputs = "(string \<times> string) list"

definition put_input :: "string \<Rightarrow> string \<Rightarrow> inputs \<Rightarrow> inputs" where
  "put_input k v m = AList.update k v m"

definition get_input :: "inputs \<Rightarrow> string \<Rightarrow> string" where
  "get_input m k = (case map_of m k of None \<Rightarrow> [] | Some v \<Rightarrow> v)"

lemma map_of_put_input [simp]: "map_of (put_input k v m) = (map_of m)(k \<mapsto> v)"
  by (simp add: put_input_def update_conv')

lemma get_put_input: "get_input (put_input k v m) k' = (if k' = k then v else get_input m k')"
  by (simp add: get_input_def)

end
