(* ===== verification/Quality.thy ===== *)
theory Quality
  imports Flow
begin

text \<open>
  \<open>coding/quality\<close>: the rules an LLM judge checks at a checkpoint. YAML decoding, the judge
  binary and the decoding of its answer are parameters; loading, the prompt, the routing of a
  verdict into blocking and advisory findings, the attention items and the escalation are the
  code's. A nil slice of findings is \<open>None\<close>, since JSON tells it from an empty one.
\<close>

section \<open>schema.go\<close>

definition CategoryMissingTests :: string where
  "CategoryMissingTests = ''missing_required_tests''"

definition CategorySpecContradiction :: string where
  "CategorySpecContradiction = ''spec_contradiction''"

definition CategorySecurityUnreviewed :: string where
  "CategorySecurityUnreviewed = ''security_sensitive_unreviewed_change''"

definition CategoryShipperReport :: string where
  "CategoryShipperReport = ''shipper_report_missing''"

definition BlockCapableCategories :: "string list" where
  "BlockCapableCategories =
     [CategoryMissingTests, CategorySpecContradiction, CategorySecurityUnreviewed, CategoryShipperReport]"

definition IsBlockCapable :: "string \<Rightarrow> bool" where
  "IsBlockCapable cat \<longleftrightarrow> cat \<in> set BlockCapableCategories"

record quality_rule =
  qr_Name :: string
  qr_Category :: string
  qr_Prompt :: string
  qr_Severity :: string

record quality_verdict =
  qv_Pass :: bool
  qv_Category :: string
  qv_Findings :: "string list option"
  qv_Confidence :: rat

record quality_finding =
  qf_RuleName :: string
  qf_Category :: string
  qf_Findings :: "string list option"
  qf_Confidence :: rat
  qf_IsBlocking :: bool

record quality_result =
  qs_Pass :: bool
  qs_BlockingFindings :: "quality_finding list"
  qs_AdvisoryFindings :: "quality_finding list"
  qs_AttentionItemIDs :: "ident list"
  qs_QualityGateEscalated :: bool

section \<open>loader.go\<close>

definition validate_quality_rule :: "quality_rule \<Rightarrow> goerr + unit" where
  "validate_quality_rule r =
     (if qr_Category r = [] then Inl (Errorf ''category must not be empty'' [])
      else if qr_Prompt r = [] then Inl (Errorf ''prompt must not be empty'' [])
      else if qr_Severity r \<noteq> ''block'' \<and> qr_Severity r \<noteq> ''advisory''
        then Inl (Errorf ''severity must be %q or %q, got %q'' [''block'', ''advisory'', qr_Severity r])
      else Inr ())"

fun load_quality_entries :: "(string \<times> quality_rule) list \<Rightarrow> goerr + quality_rule list" where
  "load_quality_entries [] = Inr []"
| "load_quality_entries ((name, r0) # rest) =
     (let r = r0\<lparr>qr_Name := name\<rparr> in
      andThen (wrapR ''quality rule %q: %w'' [name] (validate_quality_rule r)) (\<lambda>_.
      andThen (load_quality_entries rest) (\<lambda>rs. Inr (r # rs))))"

text \<open>The argument is what the YAML decoder makes of the file: the entries of the map.\<close>

definition LoadQualityRules :: "goerr + (string \<times> quality_rule) list \<Rightarrow> goerr + quality_rule list" where
  "LoadQualityRules decoded =
     andThen (wrapR ''parse quality rules YAML: %w'' [] decoded) (\<lambda>entries.
     if entries = [] then Inl (Errorf ''quality rules file contains no rules'' [])
     else andThen (load_quality_entries entries) (\<lambda>rs. Inr (sort_key qr_Name rs)))"

definition LoadQualityRulesFromFile ::
    "(string \<Rightarrow> goerr + string) \<Rightarrow> (string \<Rightarrow> goerr + (string \<times> quality_rule) list) \<Rightarrow> string \<Rightarrow> goerr + quality_rule list" where
  "LoadQualityRulesFromFile read decode path =
     andThen (wrapR ''read quality rules file %q: %w'' [path] (read path)) (\<lambda>data. LoadQualityRules (decode data))"

section \<open>judge.go\<close>

type_synonym judge = "quality_rule \<Rightarrow> string \<Rightarrow> string \<Rightarrow> quality_verdict prog"

definition dquote :: string where
  "dquote = [CHR 0x22]"

definition fence :: string where
  "fence = replicate 3 (CHR 0x60)"

definition renderJudgePrompt :: "quality_rule \<Rightarrow> string \<Rightarrow> string \<Rightarrow> string" where
  "renderJudgePrompt r diff jobContext =
     ''You are a code quality evaluator. Evaluate the following criterion and respond with a single JSON object.'' @
     newline @ newline @ ''## Criterion'' @ newline @ newline @ qr_Prompt r @ newline @ newline @
     (if diff \<noteq> [] then ''## Diff'' @ newline @ newline @ fence @ ''diff'' @ newline @ diff @ newline @ fence @
        newline @ newline else []) @
     (if jobContext \<noteq> [] then ''## Context'' @ newline @ newline @ jobContext @ newline @ newline else []) @
     ''## Required JSON Response Format'' @ newline @ newline @
     ''Respond with exactly one JSON object on a single line:'' @ newline @
     ''{'' @ dquote @ ''pass'' @ dquote @ '': <bool>, '' @ dquote @ ''category'' @ dquote @ '': '' @ dquote @ qr_Category r @
     dquote @ '', '' @ dquote @ ''findings'' @ dquote @ '': ['' @ dquote @ ''<issue1>'' @ dquote @ '', ...], '' @
     dquote @ ''confidence'' @ dquote @ '': <0.0-1.0>}'' @ newline @ newline @
     ''If the criterion is satisfied, set '' @ dquote @ ''pass'' @ dquote @ '' to true and '' @ dquote @ ''findings'' @ dquote @
     '' to []. If not satisfied, set '' @ dquote @ ''pass'' @ dquote @ '' to false and list specific issues in '' @
     dquote @ ''findings'' @ dquote @ ''.''"

text \<open>What a judge binary does with its standard input: an exit error and the error text, or its
  output; and the decoding of that output.\<close>

record judge_cli =
  jc_BinaryPath :: string
  jc_MaxWallclockMinutes :: int
  jc_run :: "string \<Rightarrow> int \<Rightarrow> string \<Rightarrow> (goerr \<times> string) + string"
  jc_decode :: "string \<Rightarrow> goerr + quality_verdict"

definition defaultJudgeMaxWallclockMinutes :: int where
  "defaultJudgeMaxWallclockMinutes = 5"

definition CLIJudge_Evaluate :: "judge_cli \<Rightarrow> quality_rule \<Rightarrow> string \<Rightarrow> string \<Rightarrow> goerr + quality_verdict" where
  "CLIJudge_Evaluate j r diff jobContext =
     (let binary = (if jc_BinaryPath j = [] then ''codex'' else jc_BinaryPath j);
          maxMinutes = (if jc_MaxWallclockMinutes j = 0 then defaultJudgeMaxWallclockMinutes else jc_MaxWallclockMinutes j)
      in case jc_run j binary maxMinutes (renderJudgePrompt r diff jobContext) of
           Inl (e, stderr) \<Rightarrow> Inl (Errorf ''quality judge %q for rule %q: %w (stderr: %s)''
             [binary, qr_Name r, error_string e, stderr])
         | Inr raw \<Rightarrow>
             (case jc_decode j raw of
                Inl e \<Rightarrow> Inl (Errorf ''parse judge output for rule %q: %w; raw: %s'' [qr_Name r, error_string e, raw])
              | Inr v \<Rightarrow> Inr v))"

section \<open>evaluator.go\<close>

definition DefaultMaxQualityRetries :: int where
  "DefaultMaxQualityRetries = 3"

record checkpoint_context =
  cc_RunID :: ident
  cc_JobID :: ident
  cc_RetryCount :: int
  cc_MaxRetries :: int

definition effectiveMaxRetries :: "checkpoint_context \<Rightarrow> int" where
  "effectiveMaxRetries c = (if cc_MaxRetries c > 0 then cc_MaxRetries c else DefaultMaxQualityRetries)"

text \<open>The judge may do anything to the world. The stores are there or nil.\<close>

record quality_evaluator =
  qe_Judge :: judge
  qe_Rules :: "quality_rule list"
  qe_AttentionStore :: bool
  qe_CheckpointWriter :: bool
  qe_EventStore :: bool

definition jfindings :: "string list option \<Rightarrow> json" where
  "jfindings fs = (case fs of None \<Rightarrow> JNull | Some xs \<Rightarrow> jlist xs)"

definition finding_texts :: "string list option \<Rightarrow> string list" where
  "finding_texts fs = (case fs of None \<Rightarrow> [] | Some xs \<Rightarrow> xs)"

definition createAttentionItem :: "quality_evaluator \<Rightarrow> checkpoint_context \<Rightarrow> quality_rule \<Rightarrow> quality_verdict \<Rightarrow> ident prog" where
  "createAttentionItem e cp r v =
     (if \<not> qe_AttentionStore e then ret []
      else
        (let question = sprintf ''Quality gate blocked by rule %q (category: %s).'' [qr_Name r, qr_Category r] @ newline @
               ''Findings:'' @ newline @ numbered_lines (finding_texts (qv_Findings v)) @ newline @
               ''Review the findings and decide how to proceed.''
         in bindE new_id (\<lambda>i.
            bindE (wrapE ''insert attention item: %w'' [] (InsertAttention
              \<lparr>att_id = i, att_run_id = cc_RunID cp, att_kind = AttentionCheckpoint, att_source = ''quality-judge'',
               att_job_id = cc_JobID cp, att_question = question, att_options = [''retry'', ''override'', ''abort''],
               att_presented_on = [], att_answered_on = [], att_answered_by = [], att_answer = [],
               att_created_at = None, att_resolved_at = None\<rparr>)) (\<lambda>item.
            bindE (if qe_CheckpointWriter e
                   then wrapE ''insert checkpoint row: %w'' [] (CreateCheckpoint
                     \<lparr>cr_id = att_id item, cr_run_id = cc_RunID cp, cr_plan_id = [],
                      cr_kind = checkpoint_kind_string CheckpointKindQualityGate, cr_notes = []\<rparr>)
                   else ret ()) (\<lambda>_.
            ret (att_id item))))))"

definition writeVerdictEvent ::
    "quality_evaluator \<Rightarrow> checkpoint_context \<Rightarrow> quality_rule \<Rightarrow> quality_verdict \<Rightarrow> string \<Rightarrow> unit prog" where
  "writeVerdictEvent e cp r v status =
     (if \<not> qe_EventStore e then ret ()
      else ignoring (append_event (cc_RunID cp) EventQualityVerdict (cc_JobID cp)
        (JObj [(''category'', JStr (qr_Category r)), (''confidence'', JNum (qv_Confidence v)),
               (''findings'', jfindings (qv_Findings v)), (''pass'', JBool (qv_Pass v)),
               (''rule_name'', JStr (qr_Name r)), (''severity'', JStr (qr_Severity r)), (''status'', JStr status)])))"

definition writeQualityGateEvent :: "quality_evaluator \<Rightarrow> checkpoint_context \<Rightarrow> quality_result \<Rightarrow> unit prog" where
  "writeQualityGateEvent e cp res =
     (if \<not> qe_EventStore e then ret ()
      else ignoring (append_event (cc_RunID cp) EventQualityGate (cc_JobID cp)
        (JObj [(''attention_items'', jslice (qs_AttentionItemIDs res)),
               (''blocking_count'', JInt (int (length (qs_BlockingFindings res)))),
               (''blocking_findings'',
                  if qs_BlockingFindings res = [] then JNull
                  else JArr (map (\<lambda>f. JObj [(''rule_name'', JStr (qf_RuleName f)), (''category'', JStr (qf_Category f)),
                    (''findings'', jfindings (qf_Findings f))]) (qs_BlockingFindings res))),
               (''job_id'', JStr (cc_JobID cp))])))"

text \<open>A failed verdict, or the verdict that stands for a judge that could not run.\<close>

definition judge_error_verdict :: "quality_rule \<Rightarrow> goerr \<Rightarrow> quality_verdict" where
  "judge_error_verdict r err =
     \<lparr>qv_Pass = False, qv_Category = qr_Category r,
      qv_Findings = Some [sprintf ''judge error: %v'' [error_string err]], qv_Confidence = 0\<rparr>"

definition finding_of :: "quality_rule \<Rightarrow> quality_verdict \<Rightarrow> quality_finding" where
  "finding_of r v =
     \<lparr>qf_RuleName = qr_Name r, qf_Category = qr_Category r, qf_Findings = qv_Findings v,
      qf_Confidence = qv_Confidence v, qf_IsBlocking = IsBlockCapable (qr_Category r)\<rparr>"

definition add_finding ::
    "quality_evaluator \<Rightarrow> checkpoint_context \<Rightarrow> quality_rule \<Rightarrow> quality_verdict \<Rightarrow> quality_result \<Rightarrow> quality_result prog" where
  "add_finding e cp r v res =
     (if IsBlockCapable (qr_Category r) then
        bindE (attempt (createAttentionItem e cp r v)) (\<lambda>item.
        let ids = (case item of Inl _ \<Rightarrow> [] | Inr i \<Rightarrow> if i \<noteq> [] then [i] else [])
        in ret (res\<lparr>qs_AttentionItemIDs := qs_AttentionItemIDs res @ ids,
                    qs_BlockingFindings := qs_BlockingFindings res @ [finding_of r v], qs_Pass := False\<rparr>))
      else ret (res\<lparr>qs_AdvisoryFindings := qs_AdvisoryFindings res @ [finding_of r v]\<rparr>))"

definition judge_rule ::
    "quality_evaluator \<Rightarrow> checkpoint_context \<Rightarrow> string \<Rightarrow> string \<Rightarrow> quality_rule \<Rightarrow> quality_result \<Rightarrow> quality_result prog" where
  "judge_rule e cp diff jobContext r res =
     bindE (attempt (qe_Judge e r diff jobContext)) (\<lambda>out.
     case out of
       Inl err \<Rightarrow>
         bindE (writeVerdictEvent e cp r (judge_error_verdict r err) ''error'') (\<lambda>_.
         add_finding e cp r (judge_error_verdict r err) res)
     | Inr v \<Rightarrow>
         bindE (writeVerdictEvent e cp r v (if qv_Pass v then ''pass'' else ''fail'')) (\<lambda>_.
         if qv_Pass v then ret res else add_finding e cp r v res))"

fun judge_rules ::
    "quality_evaluator \<Rightarrow> checkpoint_context \<Rightarrow> string \<Rightarrow> string \<Rightarrow> quality_rule list \<Rightarrow> quality_result \<Rightarrow> quality_result prog" where
  "judge_rules e cp diff jobContext [] res = ret res"
| "judge_rules e cp diff jobContext (r # rs) res =
     bindE (judge_rule e cp diff jobContext r res) (judge_rules e cp diff jobContext rs)"

definition EvaluateAtCheckpoint ::
    "quality_evaluator \<Rightarrow> checkpoint_context \<Rightarrow> string \<Rightarrow> string \<Rightarrow> quality_result prog" where
  "EvaluateAtCheckpoint e cp diff jobContext =
     bindE (judge_rules e cp diff jobContext (qe_Rules e)
       \<lparr>qs_Pass = True, qs_BlockingFindings = [], qs_AdvisoryFindings = [], qs_AttentionItemIDs = [],
        qs_QualityGateEscalated = False\<rparr>) (\<lambda>res.
     if \<not> qs_Pass res \<and> cc_RetryCount cp \<ge> effectiveMaxRetries cp
     then bindE (writeQualityGateEvent e cp res) (\<lambda>_. ret (res\<lparr>qs_QualityGateEscalated := True\<rparr>))
     else ret res)"

section \<open>The gate\<close>

text \<open>What the judge said of a rule, as a verdict, and the findings that come of it.\<close>

definition outcome :: "quality_rule \<Rightarrow> goerr + quality_verdict \<Rightarrow> quality_verdict" where
  "outcome r out = (case out of Inl err \<Rightarrow> judge_error_verdict r err | Inr v \<Rightarrow> v)"

definition failing :: "bool \<Rightarrow> (quality_rule \<times> quality_verdict) list \<Rightarrow> quality_finding list" where
  "failing blocking rvs =
     map (\<lambda>(r, v). finding_of r v)
       (filter (\<lambda>(r, v). \<not> qv_Pass v \<and> IsBlockCapable (qr_Category r) = blocking) rvs)"

text \<open>\<open>said e diff ctx r v\<close>: in some world the judge answered the rule with this verdict.\<close>

definition said :: "quality_evaluator \<Rightarrow> string \<Rightarrow> string \<Rightarrow> quality_rule \<Rightarrow> quality_verdict \<Rightarrow> bool" where
  "said e diff jobContext r v \<longleftrightarrow> (\<exists>w. v = outcome r (fst (qe_Judge e r diff jobContext w)))"

lemma writeVerdictEvent_returns: "\<exists>w'. writeVerdictEvent e cp r v s w = (Inr (), w')"
  by (simp add: writeVerdictEvent_def ret_def ignoring_def)

lemma writeQualityGateEvent_returns: "\<exists>w'. writeQualityGateEvent e cp res w = (Inr (), w')"
  by (simp add: writeQualityGateEvent_def ret_def ignoring_def split: if_split)

text \<open>The result after a verdict, with the identifiers of the attention items made for it.\<close>

definition noted :: "quality_rule \<Rightarrow> quality_verdict \<Rightarrow> ident list \<Rightarrow> quality_result \<Rightarrow> quality_result" where
  "noted r v ids res =
     (if qv_Pass v then res
      else if IsBlockCapable (qr_Category r)
      then res\<lparr>qs_AttentionItemIDs := qs_AttentionItemIDs res @ ids,
               qs_BlockingFindings := qs_BlockingFindings res @ [finding_of r v], qs_Pass := False\<rparr>
      else res\<lparr>qs_AdvisoryFindings := qs_AdvisoryFindings res @ [finding_of r v]\<rparr>)"

lemma add_finding_returns:
  assumes "\<not> qv_Pass v"
  shows "\<exists>w' ids. add_finding e cp r v res w = (Inr (noted r v ids res), w') \<and> length ids \<le> 1"
proof (cases "IsBlockCapable (qr_Category r)")
  case True
  let ?ids = "case fst (createAttentionItem e cp r v w) of Inl _ \<Rightarrow> [] | Inr i \<Rightarrow> if i \<noteq> [] then [i] else []"
  have "add_finding e cp r v res w = (Inr (noted r v ?ids res), snd (createAttentionItem e cp r v w))"
    using True assms by (simp add: add_finding_def bindE_attempt ret_def Let_def noted_def)
  moreover have "length ?ids \<le> 1" by (simp split: sum.split)
  ultimately show ?thesis by blast
next
  case False
  then have "add_finding e cp r v res w = (Inr (noted r v [] res), w)"
    using assms by (simp add: add_finding_def ret_def noted_def)
  then show ?thesis by fastforce
qed

lemma judge_rule_split:
  obtains v st w1 where "said e diff jobContext r v"
    "judge_rule e cp diff jobContext r res w =
      bindE (writeVerdictEvent e cp r v st) (\<lambda>_. if qv_Pass v then ret res else add_finding e cp r v res) w1"
proof -
  obtain out w1 where j: "qe_Judge e r diff jobContext w = (out, w1)" by force
  have s: "said e diff jobContext r (outcome r out)"
    unfolding said_def using j by (intro exI [of _ w]) simp
  show thesis
  proof (cases out)
    case (Inl err)
    with j show thesis
      by (intro that [OF s, of "''error''" w1])
        (simp add: judge_rule_def bindE_attempt outcome_def judge_error_verdict_def)
  next
    case (Inr v)
    with j show thesis
      by (intro that [OF s, of "if qv_Pass v then ''pass'' else ''fail''" w1])
        (simp add: judge_rule_def bindE_attempt outcome_def)
  qed
qed

lemma judge_rule_returns:
  obtains v w' ids where "said e diff jobContext r v" "length ids \<le> 1"
    "judge_rule e cp diff jobContext r res w = (Inr (noted r v ids res), w')"
proof -
  obtain v st w1 where s: "said e diff jobContext r v" and run: "judge_rule e cp diff jobContext r res w =
      bindE (writeVerdictEvent e cp r v st) (\<lambda>_. if qv_Pass v then ret res else add_finding e cp r v res) w1"
    by (rule judge_rule_split)
  obtain w2 where "writeVerdictEvent e cp r v st w1 = (Inr (), w2)" using writeVerdictEvent_returns by blast
  with run have run: "judge_rule e cp diff jobContext r res w = (if qv_Pass v then ret res else add_finding e cp r v res) w2"
    by (simp add: bindE_def)
  show thesis
  proof (cases "qv_Pass v")
    case True
    with run show thesis by (intro that [OF s, of "[]" w2]) (simp_all add: ret_def noted_def)
  next
    case False
    with run add_finding_returns [OF False, of e cp r res w2] show thesis using that [OF s] by auto
  qed
qed

lemma judge_rules_returns:
  "\<exists>vs w' res'. judge_rules e cp diff jobContext rs res w = (Inr res', w') \<and>
     list_all2 (said e diff jobContext) rs vs \<and>
     qs_Pass res' = (qs_Pass res \<and> failing True (zip rs vs) = []) \<and>
     qs_BlockingFindings res' = qs_BlockingFindings res @ failing True (zip rs vs) \<and>
     qs_AdvisoryFindings res' = qs_AdvisoryFindings res @ failing False (zip rs vs) \<and>
     length (qs_AttentionItemIDs res') \<le> length (qs_AttentionItemIDs res) + length (failing True (zip rs vs)) \<and>
     qs_QualityGateEscalated res' = qs_QualityGateEscalated res"
proof (induction rs arbitrary: res w)
  case Nil
  show ?case by (simp add: ret_def failing_def)
next
  case (Cons r rs)
  obtain v w1 ids where s: "said e diff jobContext r v" and ids: "length ids \<le> 1"
    and run: "judge_rule e cp diff jobContext r res w = (Inr (noted r v ids res), w1)"
    by (rule judge_rule_returns)
  let ?res = "noted r v ids res"
  have step: "judge_rules e cp diff jobContext (r # rs) res w = judge_rules e cp diff jobContext rs ?res w1"
    by (simp add: bindE_def run)
  from Cons.IH [of ?res w1] obtain vs w' res' where
    "judge_rules e cp diff jobContext rs ?res w1 = (Inr res', w')" "list_all2 (said e diff jobContext) rs vs"
    "qs_Pass res' = (qs_Pass ?res \<and> failing True (zip rs vs) = [])"
    "qs_BlockingFindings res' = qs_BlockingFindings ?res @ failing True (zip rs vs)"
    "qs_AdvisoryFindings res' = qs_AdvisoryFindings ?res @ failing False (zip rs vs)"
    "length (qs_AttentionItemIDs res') \<le> length (qs_AttentionItemIDs ?res) + length (failing True (zip rs vs))"
    "qs_QualityGateEscalated res' = qs_QualityGateEscalated ?res"
    by blast
  with s ids step show ?case
    by (intro exI [of _ "v # vs"] exI [of _ w'] exI [of _ res']) (auto simp: failing_def noted_def)
qed

text \<open>
  The quality gate. An evaluation always returns. The judge is asked once per rule in order;
  a rule it could not judge counts as failed. The result passes exactly when no rule of a
  block-capable category failed, its findings are those of the failed rules split by category in
  rule order, there is at most one attention item per blocking finding, and the gate escalates
  exactly when the result does not pass and the retries are used up.
\<close>

lemma quality_gate_verdict:
  "\<exists>res w' vs. EvaluateAtCheckpoint e cp diff jobContext w = (Inr res, w') \<and>
     list_all2 (said e diff jobContext) (qe_Rules e) vs \<and>
     qs_Pass res = (\<forall>(r, v) \<in> set (zip (qe_Rules e) vs). IsBlockCapable (qr_Category r) \<longrightarrow> qv_Pass v) \<and>
     qs_BlockingFindings res = failing True (zip (qe_Rules e) vs) \<and>
     qs_AdvisoryFindings res = failing False (zip (qe_Rules e) vs) \<and>
     length (qs_AttentionItemIDs res) \<le> length (qs_BlockingFindings res) \<and>
     qs_QualityGateEscalated res = (\<not> qs_Pass res \<and> cc_RetryCount cp \<ge> effectiveMaxRetries cp)"
proof -
  let ?init = "\<lparr>qs_Pass = True, qs_BlockingFindings = [], qs_AdvisoryFindings = [], qs_AttentionItemIDs = [],
        qs_QualityGateEscalated = False\<rparr>"
  from judge_rules_returns [of e cp diff jobContext "qe_Rules e" ?init w] obtain vs w1 res where
    run: "judge_rules e cp diff jobContext (qe_Rules e) ?init w = (Inr res, w1)"
    and vs: "list_all2 (said e diff jobContext) (qe_Rules e) vs"
    and res: "qs_Pass res = (failing True (zip (qe_Rules e) vs) = [])"
      "qs_BlockingFindings res = failing True (zip (qe_Rules e) vs)"
      "qs_AdvisoryFindings res = failing False (zip (qe_Rules e) vs)"
      "length (qs_AttentionItemIDs res) \<le> length (failing True (zip (qe_Rules e) vs))"
      "\<not> qs_QualityGateEscalated res"
    by auto
  let ?esc = "\<not> qs_Pass res \<and> cc_RetryCount cp \<ge> effectiveMaxRetries cp"
  obtain w2 where gate: "writeQualityGateEvent e cp res w1 = (Inr (), w2)"
    using writeQualityGateEvent_returns by blast
  have fin: "EvaluateAtCheckpoint e cp diff jobContext w =
      (Inr (if ?esc then res\<lparr>qs_QualityGateEscalated := True\<rparr> else res), if ?esc then w2 else w1)"
    using gate by (simp add: EvaluateAtCheckpoint_def bindE_def run ret_def)
  have pass: "(failing True (zip (qe_Rules e) vs) = []) =
      (\<forall>(r, v) \<in> set (zip (qe_Rules e) vs). IsBlockCapable (qr_Category r) \<longrightarrow> qv_Pass v)"
    by (auto simp: failing_def filter_empty_conv)
  show ?thesis
    unfolding fin using vs res pass
    by (intro exI [of _ "if ?esc then res\<lparr>qs_QualityGateEscalated := True\<rparr> else res"] exI [of _ vs]) auto
qed

definition tests_rule :: quality_rule where
  "tests_rule = \<lparr>qr_Name = ''tests'', qr_Category = CategoryMissingTests, qr_Prompt = ''p'', qr_Severity = ''block''\<rparr>"

definition style_rule :: quality_rule where
  "style_rule = \<lparr>qr_Name = ''style'', qr_Category = ''style'', qr_Prompt = ''p'', qr_Severity = ''advisory''\<rparr>"

definition failing_verdict :: quality_verdict where
  "failing_verdict = \<lparr>qv_Pass = False, qv_Category = ''c'', qv_Findings = Some [''x''], qv_Confidence = 1\<rparr>"

definition sample_evaluator :: quality_evaluator where
  "sample_evaluator = \<lparr>qe_Judge = (\<lambda>r diff ctx. ret failing_verdict), qe_Rules = [style_rule, tests_rule],
     qe_AttentionStore = True, qe_CheckpointWriter = True, qe_EventStore = True\<rparr>"

lemma quality_gate_verdict_witness:
  "\<exists>res w'. EvaluateAtCheckpoint sample_evaluator
       \<lparr>cc_RunID = ''r'', cc_JobID = ''j'', cc_RetryCount = 3, cc_MaxRetries = 0\<rparr> ''d'' [] (world_with empty_db (\<lambda>_. None)) =
       (Inr res, w') \<and> \<not> qs_Pass res \<and> qs_QualityGateEscalated res \<and>
     map qf_RuleName (qs_BlockingFindings res) = [''tests''] \<and> map qf_RuleName (qs_AdvisoryFindings res) = [''style'']"
proof -
  let ?cp = "\<lparr>cc_RunID = ''r'', cc_JobID = ''j'', cc_RetryCount = 3, cc_MaxRetries = 0\<rparr>"
  have s: "said sample_evaluator ''d'' [] r v = (v = failing_verdict)" for r v
    by (simp add: said_def sample_evaluator_def ret_def outcome_def)
  have rules: "qe_Rules sample_evaluator = [style_rule, tests_rule]" by (simp add: sample_evaluator_def)
  have cat: "IsBlockCapable CategoryMissingTests" "\<not> IsBlockCapable ''style''"
    by (simp_all add: IsBlockCapable_def BlockCapableCategories_def
        CategoryMissingTests_def CategorySpecContradiction_def CategorySecurityUnreviewed_def CategoryShipperReport_def)
  from quality_gate_verdict [of sample_evaluator ?cp "''d''" "[]" "world_with empty_db (\<lambda>_. None)"] show ?thesis
    by (auto simp: s rules list_all2_Cons1 failing_def cat finding_of_def failing_verdict_def tests_rule_def
        style_rule_def effectiveMaxRetries_def DefaultMaxQualityRetries_def)
qed

end
