(* ===== verification/Roles.thy ===== *)
theory Roles
  imports Flow
begin

text \<open>
  \<open>coding/roles/loader.go\<close>: loading a role and its prompt template. Reading a file, decoding the
  YAML of a role and parsing a template are parameters of the model (\<open>role_env\<close>); a parsed
  template is the function that renders it. The path names, the validation and the wrapping of
  the errors are the code's.
\<close>

record role_env =
  re_read :: "string \<Rightarrow> goerr + string"
  re_role :: "string \<Rightarrow> goerr + role"
  re_parse :: "string \<Rightarrow> string \<Rightarrow> goerr + (inputs \<Rightarrow> goerr + string)"

definition dotToUnderscore :: "string \<Rightarrow> string" where
  "dotToUnderscore s = map (\<lambda>c. if c = CHR ''.'' then CHR ''_'' else c) s"

definition validateRole :: "role \<Rightarrow> goerr + unit" where
  "validateRole ro =
     (if role_name ro = [] then Inl (Errorf ''name is required'' [])
      else if role_cli ro = [] then Inl (Errorf ''cli is required'' [])
      else if role_prompt_template ro = [] then Inl (Errorf ''prompt_template is required'' [])
      else if role_concurrency ro = [] then Inl (Errorf ''concurrency is required'' [])
      else if role_concurrency ro \<noteq> ''single'' \<and> role_concurrency ro \<noteq> ''many''
        then Inl (Errorf (''concurrency must be '' @ [CHR 0x27] @ ''single'' @ [CHR 0x27] @ '' or '' @
          [CHR 0x27] @ ''many'' @ [CHR 0x27] @ '', got %q'') [role_concurrency ro])
      else if role_inputs_required ro = [] then Inl (Errorf ''inputs.required must have at least one entry'' [])
      else (case role_applies_when ro of
          Some aw \<Rightarrow> if aw_changes_touch aw = []
            then Inl (Errorf ''applies_when is set but has no filter fields (changes_touch is empty); remove applies_when or add at least one pattern'' [])
            else Inr ()
        | None \<Rightarrow> Inr ()))"

definition LoadRole :: "role_env \<Rightarrow> string \<Rightarrow> string \<Rightarrow> goerr + role" where
  "LoadRole env roleDir roleName =
     (let path = join_path [roleDir, dotToUnderscore roleName @ ''.yaml''] in
      andThen (wrapR ''read role %q from %q: %w'' [roleName, path] (re_read env path)) (\<lambda>data.
      andThen (wrapR ''parse role %q: %w'' [roleName] (re_role env data)) (\<lambda>ro.
      andThen (wrapR ''validate role %q: %w'' [roleName] (validateRole ro)) (\<lambda>_. Inr ro))))"

definition LoadPromptTemplate :: "role_env \<Rightarrow> string \<Rightarrow> string \<Rightarrow> goerr + (inputs \<Rightarrow> goerr + string)" where
  "LoadPromptTemplate env promptDir templatePath =
     (let path = join_path [promptDir, templatePath] in
      andThen (wrapR ''read prompt template %q: %w'' [path] (re_read env path)) (\<lambda>data.
      wrapR ''parse prompt template %q: %w'' [templatePath] (re_parse env (base_name templatePath) data)))"

definition RenderPrompt :: "(inputs \<Rightarrow> goerr + string) \<Rightarrow> inputs \<Rightarrow> goerr + string" where
  "RenderPrompt tmpl data = wrapR ''render prompt: %w'' [] (tmpl data)"

section \<open>What a loaded role satisfies\<close>

text \<open>The documented well-formedness (\<open>core/role.go\<close>): an applicability condition has at least one of its three
  filters. The loader asks for more (\<open>has_paths\<close>): it refuses a condition without \<open>changes_touch\<close>.\<close>

definition role_ok :: "role \<Rightarrow> bool" where
  "role_ok ro \<longleftrightarrow> role_name ro \<noteq> [] \<and> role_cli ro \<noteq> [] \<and> role_prompt_template ro \<noteq> [] \<and>
     (role_concurrency ro = ''single'' \<or> role_concurrency ro = ''many'') \<and> role_inputs_required ro \<noteq> [] \<and>
     pred_option (\<lambda>aw. aw_changes_touch aw \<noteq> [] \<or> aw_commit_msg_contains aw \<noteq> [] \<or> aw_phase_index_in aw \<noteq> [])
       (role_applies_when ro)"

definition has_paths :: "role \<Rightarrow> bool" where
  "has_paths ro \<longleftrightarrow> pred_option (\<lambda>aw. aw_changes_touch aw \<noteq> []) (role_applies_when ro)"

lemma validateRole_ok: "validateRole ro = Inr u \<longleftrightarrow> role_ok ro \<and> has_paths ro"
  by (auto simp: validateRole_def role_ok_def has_paths_def split: if_splits option.splits)

lemma validateRole_other_filter:
  "role_ok ro \<Longrightarrow> \<not> has_paths ro \<Longrightarrow> validateRole ro =
     Inl (Errorf ''applies_when is set but has no filter fields (changes_touch is empty); remove applies_when or add at least one pattern'' [])"
  by (cases "role_applies_when ro") (auto simp: validateRole_def role_ok_def has_paths_def)

lemma wrapR_Inl: "wrapR f as r = Inl e \<longleftrightarrow> (\<exists>e'. r = Inl e' \<and> e = Wrapf f as e')"
  by (cases r) (auto simp: wrapR_def)

lemma andThen_Inl: "andThen r k = Inl e \<longleftrightarrow> r = Inl e \<or> (\<exists>x. r = Inr x \<and> k x = Inl e)"
  by (cases r) (auto simp: andThen_def)

text \<open>The type of a role file is checked on loading: a role that is loaded is well formed, whatever
  the file holds.\<close>

lemma LoadRole_iff:
  "LoadRole env dir n = Inr ro \<longleftrightarrow>
     (\<exists>data. re_read env (join_path [dir, dotToUnderscore n @ ''.yaml'']) = Inr data \<and>
        re_role env data = Inr ro \<and> role_ok ro \<and> has_paths ro)"
  by (auto simp: LoadRole_def Let_def andThen_Inr wrapR_Inr validateRole_ok)

text \<open>The file name has no dot but the one of the extension, so a dotted role name never leaves
  the directory.\<close>

lemma dotToUnderscore_no_dot: "CHR ''.'' \<notin> set (dotToUnderscore s)"
  by (auto simp: dotToUnderscore_def split: if_splits)

lemma length_dotToUnderscore [simp]: "length (dotToUnderscore s) = length s"
  by (simp add: dotToUnderscore_def)

lemma split_on_set: "x \<in> set (split_on c s) \<Longrightarrow> set x \<subseteq> set s"
  by (induction s arbitrary: x) (auto split: list.splits if_splits, blast+)

lemma split_on_suffix: "c \<notin> set t \<Longrightarrow> \<exists>xs x. split_on c s = xs @ [x] \<and> split_on c (s @ t) = xs @ [x @ t]"
proof (induction s)
  case Nil
  then show ?case by (intro exI [of _ "[]"] exI [of _ "[]"]) (simp add: split_on_single)
next
  case (Cons a s)
  then obtain xs x where e: "split_on c s = xs @ [x]" "split_on c (s @ t) = xs @ [x @ t]" by blast
  show ?case
  proof (cases "a = c")
    case True
    with e show ?thesis by (intro exI [of _ "[] # xs"]) auto
  next
    case False
    with e show ?thesis
      by (cases xs) (auto intro: exI [of _ "[]"] exI [of _ "(a # hd xs) # tl xs"])
  qed
qed

text \<open>Cleaning a path whose tail has no dots: the tail stays below what the head cleans to.\<close>

lemma clean_parts_append: "clean_parts rooted out (ps @ qs) = clean_parts rooted (rev (clean_parts rooted out ps)) qs"
  by (induction rooted out ps rule: clean_parts.induct) (auto split: list.splits)

lemma clean_parts_plain:
  "''.'' \<notin> set ps \<Longrightarrow> ''..'' \<notin> set ps \<Longrightarrow> clean_parts rooted out ps = rev out @ filter (\<lambda>p. p \<noteq> []) ps"
  by (induction ps arbitrary: out) auto

definition path_parts :: "string \<Rightarrow> string list" where
  "path_parts s = clean_parts (has_prefix s ''/'') [] (split_on (CHR ''/'') s)"

lemma clean_path_parts:
  "clean_path s = (if has_prefix s ''/'' then CHR ''/'' # join_with ''/'' (path_parts s)
     else if join_with ''/'' (path_parts s) = [] then ''.'' else join_with ''/'' (path_parts s))"
  by (simp add: clean_path_def path_parts_def Let_def)

lemma file_parts:
  shows "''.'' \<notin> set (split_on (CHR ''/'') (dotToUnderscore n @ ''.yaml''))"
    and "''..'' \<notin> set (split_on (CHR ''/'') (dotToUnderscore n @ ''.yaml''))"
    and "\<exists>ps p. filter (\<lambda>p. p \<noteq> []) (split_on (CHR ''/'') (dotToUnderscore n @ ''.yaml'')) = ps @ [p @ ''.yaml'']"
proof -
  obtain xs x where s: "split_on (CHR ''/'') (dotToUnderscore n) = xs @ [x]"
    "split_on (CHR ''/'') (dotToUnderscore n @ ''.yaml'') = xs @ [x @ ''.yaml'']"
    using split_on_suffix [of "CHR ''/''" "''.yaml''" "dotToUnderscore n"] by auto
  have "p \<notin> set xs" if "CHR ''.'' \<in> set p" for p
    using that split_on_set [of p "CHR ''/''" "dotToUnderscore n"] s dotToUnderscore_no_dot [of n] by auto
  moreover have "''..'' \<noteq> x @ ''.yaml''" "''.'' \<noteq> x @ ''.yaml''" by (auto dest: arg_cong [of _ _ length])
  ultimately show "''.'' \<notin> set (split_on (CHR ''/'') (dotToUnderscore n @ ''.yaml''))"
    "''..'' \<notin> set (split_on (CHR ''/'') (dotToUnderscore n @ ''.yaml''))"
    by (auto simp: s)
  show "\<exists>ps p. filter (\<lambda>p. p \<noteq> []) (split_on (CHR ''/'') (dotToUnderscore n @ ''.yaml'')) = ps @ [p @ ''.yaml'']"
    by (auto simp: s)
qed

lemma join_with_last: "\<exists>xs. join_with sep (ps @ [p]) = xs @ p"
proof (induction ps)
  case (Cons q qs)
  then show ?case by (cases "qs @ [p]") auto
qed simp

lemma role_path_parts:
  assumes "dir \<noteq> []"
  obtains ps p where "path_parts (dir @ ''/'' @ dotToUnderscore n @ ''.yaml'') = path_parts dir @ ps @ [p @ ''.yaml'']"
    "''..'' \<notin> set (ps @ [p @ ''.yaml''])"
proof -
  obtain ps p where f: "filter (\<lambda>p. p \<noteq> []) (split_on (CHR ''/'') (dotToUnderscore n @ ''.yaml'')) = ps @ [p @ ''.yaml'']"
    using file_parts(3) by blast
  have "has_prefix (dir @ ''/'' @ dotToUnderscore n @ ''.yaml'') ''/'' = has_prefix dir ''/''"
    using assms by (cases dir) (simp_all add: has_prefix_def)
  then have "path_parts (dir @ ''/'' @ dotToUnderscore n @ ''.yaml'') = path_parts dir @ ps @ [p @ ''.yaml'']"
    by (simp add: path_parts_def split_on_concat clean_parts_append clean_parts_plain file_parts f [symmetric])
  moreover have "''..'' \<notin> set (ps @ [p @ ''.yaml''])" using file_parts(2) [of n] arg_cong [OF f, of set] by auto
  ultimately show thesis by (rule that)
qed

text \<open>
  C32. Loading is the type check of role files. A role is returned exactly when its file can be read and decoded
  and the result is well formed as documented (a name, a CLI, a prompt template, a known concurrency, at least one
  required input, and at least one filter in an applicability condition) and an applicability condition,
  if there is one, filters by paths. The second demand is the loader's own: a documented role that only filters by
  commit message or phase index is refused, with the error that it has no filter. And the file lies inside the role
  directory, if that is not the empty string: whatever the name of the role is, the parts of its path are those of
  the directory followed by one or more others, none of which leads upwards.
\<close>

theorem role_typing:
  "(LoadRole env dir n = Inr ro \<longleftrightarrow>
     (\<exists>data. re_read env (join_path [dir, dotToUnderscore n @ ''.yaml'']) = Inr data \<and>
        re_role env data = Inr ro \<and> role_ok ro \<and> has_paths ro)) \<and>
   (\<forall>data. re_read env (join_path [dir, dotToUnderscore n @ ''.yaml'']) = Inr data \<and> re_role env data = Inr ro \<and>
        role_ok ro \<and> \<not> has_paths ro \<longrightarrow>
      LoadRole env dir n = Inl (Wrapf ''validate role %q: %w'' [n]
        (Errorf ''applies_when is set but has no filter fields (changes_touch is empty); remove applies_when or add at least one pattern'' []))) \<and>
   (dir \<noteq> [] \<longrightarrow> (\<exists>below. below \<noteq> [] \<and> ''..'' \<notin> set below \<and>
      join_path [dir, dotToUnderscore n @ ''.yaml''] =
        (if has_prefix dir ''/'' then ''/'' else []) @ join_with ''/'' (path_parts dir @ below)))"
proof (intro conjI allI impI)
  fix data assume "re_read env (join_path [dir, dotToUnderscore n @ ''.yaml'']) = Inr data \<and> re_role env data = Inr ro \<and>
      role_ok ro \<and> \<not> has_paths ro"
  then show "LoadRole env dir n = Inl (Wrapf ''validate role %q: %w'' [n]
      (Errorf ''applies_when is set but has no filter fields (changes_touch is empty); remove applies_when or add at least one pattern'' []))"
    using validateRole_other_filter [of ro] by (simp add: LoadRole_def Let_def andThen_def wrapR_def)
next
  assume dir: "dir \<noteq> []"
  obtain ps p where parts: "path_parts (dir @ ''/'' @ dotToUnderscore n @ ''.yaml'') = path_parts dir @ ps @ [p @ ''.yaml'']"
    and up: "''..'' \<notin> set (ps @ [p @ ''.yaml''])" by (rule role_path_parts [OF dir])
  have pre: "has_prefix (dir @ ''/'' @ dotToUnderscore n @ ''.yaml'') ''/'' = has_prefix dir ''/''"
    using dir by (cases dir) (simp_all add: has_prefix_def)
  have "join_with ''/'' (path_parts dir @ ps @ [p @ ''.yaml'']) \<noteq> []"
    using join_with_last [of "''/''" "path_parts dir @ ps" "p @ ''.yaml''"] by auto
  then show "\<exists>below. below \<noteq> [] \<and> ''..'' \<notin> set below \<and> join_path [dir, dotToUnderscore n @ ''.yaml''] =
      (if has_prefix dir ''/'' then ''/'' else []) @ join_with ''/'' (path_parts dir @ below)"
    using dir up by (intro exI [of _ "ps @ [p @ ''.yaml'']"])
      (simp add: join_path_def clean_path_parts [of "dir @ ''/'' @ dotToUnderscore n @ ''.yaml''", simplified] parts [simplified] pre [simplified])
qed (rule LoadRole_iff)

text \<open>A reviewer for the first phases only: documented, refused.\<close>

definition phase_reviewer :: role where
  "phase_reviewer = \<lparr>role_name = ''reviewer'', role_concurrency = ''many'', role_cli = ''codex'', role_prompt_template = ''r.md'',
     role_inputs_required = [''diff_path''], role_inputs_optional = [], role_sandbox = [],
     role_permissions = \<lparr>rp_allowed_tools = [], rp_never = [], rp_requires_human = []\<rparr>,
     role_max_wallclock_minutes = 0,
     role_applies_when = Some \<lparr>aw_changes_touch = [], aw_commit_msg_contains = [], aw_phase_index_in = ''0-1''\<rparr>\<rparr>"

definition one_role :: "role \<Rightarrow> role_env" where
  "one_role ro = \<lparr>re_read = (\<lambda>_. Inr []), re_role = (\<lambda>_. Inr ro), re_parse = (\<lambda>_ _. Inl ErrNotExist)\<rparr>"

lemma role_typing_witness:
  "role_ok phase_reviewer \<and> isl (LoadRole (one_role phase_reviewer) ''.coworker/roles'' ''reviewer'') \<and>
   LoadRole (one_role (phase_reviewer\<lparr>role_applies_when := None\<rparr>)) ''.coworker/roles'' ''reviewer'' =
     Inr (phase_reviewer\<lparr>role_applies_when := None\<rparr>)"
proof -
  have ok: "role_ok phase_reviewer" "\<not> has_paths phase_reviewer" "role_ok (phase_reviewer\<lparr>role_applies_when := None\<rparr>)"
    "has_paths (phase_reviewer\<lparr>role_applies_when := None\<rparr>)"
    by (simp_all add: role_ok_def has_paths_def phase_reviewer_def)
  then show ?thesis
    using role_typing [of "one_role phase_reviewer" "''.coworker/roles''" "''reviewer''" phase_reviewer]
      role_typing [of "one_role (phase_reviewer\<lparr>role_applies_when := None\<rparr>)" "''.coworker/roles''" "''reviewer''"
        "phase_reviewer\<lparr>role_applies_when := None\<rparr>"]
    by (simp add: one_role_def)
qed

end
