(* ===== verification/Dispatcher.thy ===== *)
theory Dispatcher
  imports Roles Permission Supervisor
begin

text \<open>
  \<open>coding/dispatch.go\<close>: one role job from the loading of the role to the final state of its run,
  with the retries the supervisor asks for. The agent and the supervisor are interfaces in the
  code and arbitrary programs here; the stores are the models of the development. A context is
  the error that the \<open>k\<close>-th poll of \<open>ctx.Done()\<close> finds, if any.
\<close>

section \<open>Interfaces and data\<close>

text \<open>\<open>Dispatch\<close> returns the handle, which is the program of its \<open>Wait\<close>. \<open>ag_basename\<close> is \<open>None\<close> for an
  agent without the method \<open>BinaryBasename\<close>; the first argument of \<open>ag_Dispatch\<close> is the wall-clock
  budget in minutes.\<close>

record agent =
  ag_basename :: "string option"
  ag_Dispatch :: "int \<Rightarrow> job \<Rightarrow> string \<Rightarrow> job_result prog prog"

record dispatcher =
  di_env :: role_env
  di_RoleDir :: string
  di_PromptDir :: string
  di_Agent :: agent
  di_CLIAgents :: "(string \<times> agent) list"
  di_Supervisor :: "(eval_ctx \<Rightarrow> supervisor_verdict prog) option"
  di_SupervisorWriter :: bool
  di_CostWriter :: "fadd option"
  di_MaxRetries :: int
  di_WorkDir :: string
  di_Policy :: "policy option"
  di_AttentionStore :: bool
  di_sha :: digest

record dispatch_input =
  in_RoleName :: string
  in_Inputs :: inputs
  in_RunID :: ident

record dispatch_result =
  dx_RunID :: ident
  dx_JobID :: ident
  dx_Findings :: "finding list"
  dx_Artifacts :: "artifact list"
  dx_ExitCode :: int
  dx_SupervisorVerdict :: "supervisor_verdict option"
  dx_RetryCount :: nat

record attempt_result =
  at_jobID :: ident
  at_result :: job_result
  at_verdict :: "supervisor_verdict option"
  at_nextPrompt :: string
  at_shouldRetry :: bool

type_synonym polls = "nat \<Rightarrow> goerr option"

section \<open>Helpers\<close>

definition DefaultMaxRetries :: nat where
  "DefaultMaxRetries = 3"

definition maxRetries :: "dispatcher \<Rightarrow> nat" where
  "maxRetries d =
     (if di_MaxRetries d < 0 then 0 else if di_MaxRetries d = 0 then DefaultMaxRetries else nat (di_MaxRetries d))"

definition agentFor :: "dispatcher \<Rightarrow> role \<Rightarrow> agent" where
  "agentFor d ro =
     (if di_CLIAgents d \<noteq> [] \<and> role_cli ro \<noteq> []
      then (case map_of (di_CLIAgents d) (role_cli ro) of Some a \<Rightarrow> a | None \<Rightarrow> di_Agent d)
      else di_Agent d)"

text \<open>\<open>cur\<close> is the part read so far, reversed.\<close>

fun split_from :: "char \<Rightarrow> string \<Rightarrow> string \<Rightarrow> string list" where
  "split_from sep cur [] = [rev cur]"
| "split_from sep cur (c # cs) =
     (if c = sep then rev cur # split_from sep [] cs else split_from sep (c # cur) cs)"

definition splitOn :: "string \<Rightarrow> char \<Rightarrow> string list" where
  "splitOn s sep = split_from sep [] s"

definition upper :: "char \<Rightarrow> char" where
  "upper b = (if is_lower b then char_of (ord b - 32) else b)"

text \<open>\<open>string(b)\<close> of a byte is the UTF-8 encoding of the code point \<open>b\<close>.\<close>

definition byte_string :: "char \<Rightarrow> string" where
  "byte_string b =
     (if ord b < 128 then [b] else [char_of (192 + ord b div 64), char_of (128 + ord b mod 64)])"

definition capitalize :: "string \<Rightarrow> string" where
  "capitalize p = (case p of [] \<Rightarrow> [] | b # rest \<Rightarrow> byte_string (upper b) @ rest)"

definition snakeToPascal :: "string \<Rightarrow> string" where
  "snakeToPascal s = concat (map capitalize (splitOn s (CHR ''_'')))"

definition buildRetryFeedback :: "supervisor_verdict \<Rightarrow> string" where
  "buildRetryFeedback v =
     ''SUPERVISOR FEEDBACK: The following contract rules were violated:'' @ newline @
     numbered_lines (FailedMessages v) @ ''Please fix these issues and try again.''"

section \<open>Permission\<close>

definition on_undeclared :: "dispatcher \<Rightarrow> string" where
  "on_undeclared d = (case di_Policy d of None \<Rightarrow> ''deny'' | Some p \<Rightarrow> pol_on_undeclared p)"

definition bash_action :: "string \<Rightarrow> permission" where
  "bash_action binary = \<lparr>perm_kind = ''bash'', perm_subject = binary, perm_raw = ''bash:'' @ binary\<rparr>"

definition checkPermission :: "dispatcher \<Rightarrow> ident \<Rightarrow> role \<Rightarrow> string \<Rightarrow> unit prog" where
  "checkPermission d runID ro binary0 =
     (let action = bash_action (base_name binary0); args = [role_name ro, perm_raw action]
      in case EvaluateAction (role_permissions ro) action of
           PermDecisionAllow \<Rightarrow> ret ()
         | PermDecisionHardDeny \<Rightarrow>
             raise (Errorf (''role %q is not permitted to execute %s (matched '' @ [CHR 0x27] @ ''never'' @ [CHR 0x27] @ '')'') args)
         | PermDecisionRequiresHuman \<Rightarrow>
             if di_AttentionStore d then
               bindE new_id (\<lambda>i.
               bindE (attempt (InsertAttention
                 \<lparr>att_id = i, att_run_id = runID, att_kind = AttentionPermission, att_source = ''dispatch'', att_job_id = [],
                  att_question = sprintf ''Role %q requests permission to execute %s'' args, att_options = [],
                  att_presented_on = [], att_answered_on = [], att_answered_by = [], att_answer = [],
                  att_created_at = None, att_resolved_at = None\<rparr>)) (\<lambda>r.
               case r of
                 Inl e \<Rightarrow> raise (Wrapf ''role %q requires human approval to execute %s (attention insert failed: %w)'' args e)
               | Inr item \<Rightarrow> raise (Errorf ''role %q requires human approval to execute %s (attention ID: %s)'' (args @ [att_id item]))))
             else raise (Errorf ''role %q requires human approval to execute %s'' args)
         | PermDecisionUndeclared \<Rightarrow>
             if on_undeclared d = ''warn'' then ret ()
             else raise (Errorf ''role %q is not permitted to execute %s (undeclared action; set policy.permissions.on_undeclared=warn to allow in development)'' args))"

section \<open>One attempt\<close>

text \<open>An error of the step marks the job as failed, best effort, and is returned.\<close>

definition or_fail_job :: "ident \<Rightarrow> 'a prog \<Rightarrow> 'a prog" where
  "or_fail_job jobID m =
     bindE (attempt m) (\<lambda>r.
     case r of
       Inl e \<Rightarrow> bindE (ignoring (UpdateJobState jobID JobStateFailed)) (\<lambda>_. raise e)
     | Inr x \<Rightarrow> ret x)"

definition record_results :: "dispatcher \<Rightarrow> ident \<Rightarrow> ident \<Rightarrow> supervisor_verdict \<Rightarrow> unit prog" where
  "record_results d runID jobID v =
     (if \<not> di_SupervisorWriter d then ret ()
      else bindE (forE (sv_results v) (\<lambda>r.
        if rr_rule_name r = [] \<and> rr_message r = [] then ret () else ignoring (RecordVerdict runID jobID r)))
        (\<lambda>_. ret ()))"

definition attempt_job :: "ident \<Rightarrow> ident \<Rightarrow> role \<Rightarrow> nat \<Rightarrow> time \<Rightarrow> job" where
  "attempt_job jobID runID ro k now =
     \<lparr>job_id = jobID, job_run_id = runID, job_role = role_name ro, job_state = JobStatePending,
      job_dispatched_by = (if k > 0 then ''supervisor-retry'' else ''user''), job_cli = role_cli ro,
      job_started_at = now, job_ended_at = None, job_plan_id = [], job_phase_index = 0, job_cost_usd = 0\<rparr>"

text \<open>What the supervisor makes of a result: pass, another attempt, or the breach.\<close>

definition supervise ::
    "dispatcher \<Rightarrow> ident \<Rightarrow> role \<Rightarrow> job \<Rightarrow> string \<Rightarrow> nat \<Rightarrow> nat \<Rightarrow> job_result \<Rightarrow> (eval_ctx \<Rightarrow> supervisor_verdict prog) \<Rightarrow> attempt_result prog" where
  "supervise d runID ro job originalPrompt k maxR result evaluate =
     (let jobID = job_id job in
      bindE (wrapE ''supervisor.Evaluate: %w'' [] (or_fail_job jobID (evaluate
        \<lparr>ec_Job = job, ec_Result = Some result, ec_Role = Some ro, ec_RunID = runID, ec_WorkDir = di_WorkDir d\<rparr>))) (\<lambda>v.
      bindE (record_results d runID jobID v) (\<lambda>_.
      let res = \<lparr>at_jobID = jobID, at_result = result, at_verdict = Some v, at_nextPrompt = [], at_shouldRetry = False\<rparr> in
      if sv_pass v then ret res
      else if k < maxR then
        bindE (ignoring (UpdateJobState jobID JobStateFailed)) (\<lambda>_.
        let feedback = buildRetryFeedback v in
        bindE (ignoring (append_event runID EventSupervisorRetry jobID
          (JObj [(''attempt'', JInt (int k + 1)), (''failed_rules'', jslice (FailedMessages v)),
                 (''feedback'', JStr feedback), (''job_id'', JStr jobID)]))) (\<lambda>_.
        ret (res\<lparr>at_nextPrompt := feedback @ newline @ newline @ originalPrompt, at_shouldRetry := True\<rparr>)))
      else
        bindE (ignoring (append_event runID EventComplianceBreach jobID
          (JObj [(''attempts'', JInt (int k + 1)), (''failed_rules'', jslice (FailedMessages v)),
                 (''job_id'', JStr jobID), (''role'', JStr (role_name ro))]))) (\<lambda>_.
        ret res))))"

text \<open>What happens once the job row is there.\<close>

definition run_job ::
    "dispatcher \<Rightarrow> ident \<Rightarrow> role \<Rightarrow> agent \<Rightarrow> string \<Rightarrow> string \<Rightarrow> nat \<Rightarrow> nat \<Rightarrow> job \<Rightarrow> attempt_result prog" where
  "run_job d runID ro ag prompt originalPrompt k maxR job =
     (let jobID = job_id job in
     bindE (wrapE ''update job to dispatched: %w'' [] (UpdateJobState jobID JobStateDispatched)) (\<lambda>_.
     bindE (case ag_basename ag of
              Some b \<Rightarrow> if b \<noteq> [] then or_fail_job jobID (checkPermission d runID ro b) else ret ()
            | None \<Rightarrow> ret ()) (\<lambda>_.
     bindE (wrapE ''dispatch agent: %w'' [] (or_fail_job jobID (ag_Dispatch ag (role_max_wallclock_minutes ro) job prompt))) (\<lambda>wait.
     bindE (wrapE ''wait for agent: %w'' [] (or_fail_job jobID wait)) (\<lambda>result.
     bindE (case (di_CostWriter d, jr_cost result) of
              (Some fadd, Some c) \<Rightarrow> ignoring (RecordCost fadd runID jobID c)
            | _ \<Rightarrow> ret ()) (\<lambda>_.
     case di_Supervisor d of
       None \<Rightarrow> ret \<lparr>at_jobID = jobID, at_result = result, at_verdict = None, at_nextPrompt = [], at_shouldRetry = False\<rparr>
     | Some evaluate \<Rightarrow> supervise d runID ro job originalPrompt k maxR result evaluate))))))"

definition executeAttempt ::
    "dispatcher \<Rightarrow> ident \<Rightarrow> role \<Rightarrow> agent \<Rightarrow> string \<Rightarrow> string \<Rightarrow> nat \<Rightarrow> nat \<Rightarrow> attempt_result prog" where
  "executeAttempt d runID ro ag prompt originalPrompt k maxR =
     bindE new_id (\<lambda>jobID. bindE time_now (\<lambda>now.
     let job = attempt_job jobID runID ro k now in
     bindE (wrapE ''create job: %w'' [] (CreateJob job)) (\<lambda>_.
     run_job d runID ro ag prompt originalPrompt k maxR job)))"

section \<open>The whole dispatch\<close>

text \<open>The loop over the attempts; the last attempt is the result, with the number of retries.\<close>

function attempt_loop ::
    "dispatcher \<Rightarrow> polls \<Rightarrow> bool \<Rightarrow> ident \<Rightarrow> role \<Rightarrow> agent \<Rightarrow> string \<Rightarrow> nat \<Rightarrow> nat \<Rightarrow> string \<Rightarrow> nat \<Rightarrow> (attempt_result \<times> nat) prog" where
  "attempt_loop d ctx own runID ro ag originalPrompt maxR k prompt retries =
     (case ctx k of
        Some e \<Rightarrow> raise e
      | None \<Rightarrow>
        bindE (attempt (executeAttempt d runID ro ag prompt originalPrompt k maxR)) (\<lambda>r.
        case r of
          Inl e \<Rightarrow> bindE (if own then ignoring (CompleteRun runID RunStateFailed) else ret ()) (\<lambda>_. raise e)
        | Inr res \<Rightarrow>
            if at_shouldRetry res then
              (if Suc k \<le> maxR
               then attempt_loop d ctx own runID ro ag originalPrompt maxR (Suc k) (at_nextPrompt res) (Suc retries)
               else ret (res, Suc retries))
            else ret (res, retries)))"
  by pat_completeness auto

termination
  by (relation "measure (\<lambda>(d, ctx, own, runID, ro, ag, o_p, maxR, k, p, n). maxR - k)") auto

declare attempt_loop.simps [simp del]

text \<open>Attribution of a finding before it is stored. \<open>InsertFinding\<close> sets the fingerprint of the
  finding even when it fails.\<close>

definition attribute_finding :: "ident \<Rightarrow> ident \<Rightarrow> role \<Rightarrow> string \<Rightarrow> int option \<Rightarrow> ident \<Rightarrow> finding \<Rightarrow> finding" where
  "attribute_finding runID jobID ro planID phase i f =
     f\<lparr>f_run_id := runID, f_job_id := jobID, f_id := i,
       f_plan_id := (if f_plan_id f = [] then planID else f_plan_id f),
       f_phase_index := (if f_phase_index f = None then phase else f_phase_index f),
       f_reviewer_handle := (if f_reviewer_handle f = [] \<and> has_prefix (role_name ro) ''reviewer.''
                             then role_name ro else f_reviewer_handle f)\<rparr>"

definition persist_finding :: "digest \<Rightarrow> ident \<Rightarrow> ident \<Rightarrow> role \<Rightarrow> string \<Rightarrow> int option \<Rightarrow> finding \<Rightarrow> finding prog" where
  "persist_finding sha runID jobID ro planID phase f0 =
     bindE (if f_id f0 = [] then new_id else ret (f_id f0)) (\<lambda>i.
     let f = attribute_finding runID jobID ro planID phase i f0 in
     bindE (ignoring (InsertFinding sha f)) (\<lambda>_.
     ret (f\<lparr>f_fingerprint := ComputeFingerprint sha (f_path f) (f_line f) (f_severity f) (f_body f)\<rparr>)))"

definition final_state :: "attempt_result \<Rightarrow> JobState" where
  "final_state res =
     (if jr_exit_code (at_result res) \<noteq> 0 then JobStateFailed
      else (case at_verdict res of Some v \<Rightarrow> if sv_pass v then JobStateComplete else JobStateFailed | None \<Rightarrow> JobStateComplete))"

text \<open>From the first attempt on; \<open>own\<close> tells whether the run was created here.\<close>

definition run_attempts ::
    "dispatcher \<Rightarrow> polls \<Rightarrow> bool \<Rightarrow> ident \<Rightarrow> role \<Rightarrow> inputs \<Rightarrow> string \<Rightarrow> dispatch_result prog" where
  "run_attempts d ctx own runID ro ins originalPrompt =
     bindE (attempt_loop d ctx own runID ro (agentFor d ro) originalPrompt (maxRetries d) 0 originalPrompt 0) (\<lambda>(last, retryCount).
     let planID = get_input ins ''plan_id'';
         phase = (case map_of ins ''phase_index'' of None \<Rightarrow> None | Some v \<Rightarrow> atoi v)
     in
     bindE (forE (jr_findings (at_result last)) (persist_finding (di_sha d) runID (at_jobID last) ro planID phase)) (\<lambda>findings.
     let finalState = final_state last in
     bindE (wrapE ''update job to %s: %w'' [job_state_string finalState] (UpdateJobState (at_jobID last) finalState)) (\<lambda>_.
     bindE (if own
            then wrapE ''complete run: %w'' []
              (CompleteRun runID (if finalState = JobStateFailed then RunStateFailed else RunStateCompleted))
            else ret ()) (\<lambda>_.
     ret \<lparr>dx_RunID = runID, dx_JobID = at_jobID last, dx_Findings = findings, dx_Artifacts = jr_artifacts (at_result last),
          dx_ExitCode = jr_exit_code (at_result last), dx_SupervisorVerdict = at_verdict last, dx_RetryCount = retryCount\<rparr>))))"

definition liftR :: "goerr + 'a \<Rightarrow> 'a prog" where
  "liftR r = (case r of Inl e \<Rightarrow> raise e | Inr x \<Rightarrow> ret x)"

definition template_data :: "inputs \<Rightarrow> inputs" where
  "template_data ins = fold (\<lambda>(k, v). put_input (snakeToPascal k) v) ins []"

definition missing_input :: "role \<Rightarrow> inputs \<Rightarrow> string option" where
  "missing_input ro ins = find (\<lambda>req. req \<notin> fst ` set ins) (role_inputs_required ro)"

definition Orchestrate :: "dispatcher \<Rightarrow> polls \<Rightarrow> dispatch_input \<Rightarrow> dispatch_result prog" where
  "Orchestrate d ctx input =
     bindE (wrapE ''load role: %w'' [] (liftR (LoadRole (di_env d) (di_RoleDir d) (in_RoleName input)))) (\<lambda>ro.
     bindE (case missing_input ro (in_Inputs input) of
              Some req \<Rightarrow> raise (Errorf ''missing required input %q for role %q'' [req, role_name ro])
            | None \<Rightarrow> ret ()) (\<lambda>_.
     let own = (in_RunID input = []) in
     bindE (if own then
              bindE new_id (\<lambda>i. bindE time_now (\<lambda>now.
              bindE (wrapE ''create run: %w'' [] (CreateRun
                \<lparr>run_id = i, run_mode = ''interactive'', run_state = RunStateActive, run_started_at = now,
                 run_ended_at = None, run_prd_path = [], run_spec_path = [], run_cost_usd = 0, run_budget_usd = None\<rparr>)) (\<lambda>_.
              ret i)))
            else ret (in_RunID input)) (\<lambda>runID.
     bindE (wrapE ''load prompt template: %w'' []
       (liftR (LoadPromptTemplate (di_env d) (di_PromptDir d) (role_prompt_template ro)))) (\<lambda>tmpl.
     bindE (wrapE ''render prompt: %w'' [] (liftR (RenderPrompt tmpl (template_data (in_Inputs input))))) (\<lambda>originalPrompt.
     run_attempts d ctx own runID ro (in_Inputs input) originalPrompt)))))"

end
