(* ===== verification/Phase_Loop.thy ===== *)
theory Phase_Loop
  imports Dispatcher
begin

text \<open>
  \<open>coding/phaseloop\<close>: a phase of a plan, from the developer through the parallel reviewers and
  testers to the fix cycles. The dispatcher is an interface in the code and an arbitrary program
  here. The goroutines of the fan-out run to completion one after the other in an order the
  scheduler chooses; each one ends with a result or an error, and the first error in that order
  is the one \<open>errgroup\<close> returns.
\<close>

section \<open>fanin.go\<close>

record aggregated =
  ag_Findings :: "finding list"
  ag_Artifacts :: "artifact list"
  ag_TestsPassed :: bool

fun aggregate_from :: "aggregated \<Rightarrow> dispatch_result list \<Rightarrow> aggregated" where
  "aggregate_from out [] = out"
| "aggregate_from out (r # rs) =
     aggregate_from \<lparr>ag_Findings = ag_Findings out @ dx_Findings r, ag_Artifacts = ag_Artifacts out @ dx_Artifacts r,
       ag_TestsPassed = (if dx_ExitCode r \<noteq> 0 then False else ag_TestsPassed out)\<rparr> rs"

definition AggregateResults :: "dispatch_result list \<Rightarrow> aggregated" where
  "AggregateResults rs = aggregate_from \<lparr>ag_Findings = [], ag_Artifacts = [], ag_TestsPassed = True\<rparr> rs"

text \<open>The loop: \<open>out\<close> are the canonical findings, \<open>seen\<close> maps a fingerprint to the position of its
  canonical finding and the jobs that reported it.\<close>

definition with_fingerprint :: "digest \<Rightarrow> finding \<Rightarrow> finding" where
  "with_fingerprint sha f =
     (if f_fingerprint f = [] then f\<lparr>f_fingerprint := ComputeFingerprint sha (f_path f) (f_line f) (f_severity f) (f_body f)\<rparr>
      else f)"

definition job_source :: "finding \<Rightarrow> ident list" where
  "job_source f = (if f_job_id f \<noteq> [] then [f_job_id f] else [])"

definition dedupe_step ::
    "digest \<Rightarrow> finding \<Rightarrow> finding list \<times> (string \<rightharpoonup> nat \<times> ident list) \<Rightarrow> finding list \<times> (string \<rightharpoonup> nat \<times> ident list)" where
  "dedupe_step sha f0 st =
     (let f = with_fingerprint sha f0; (out, seen) = st in
      case seen (f_fingerprint f) of
        Some (idx, jobs) \<Rightarrow>
          if f_job_id f \<noteq> [] then
            (let jobs' = jobs @ [f_job_id f] in
             (out[idx := (out ! idx)\<lparr>f_source_job_ids := jobs'\<rparr>], seen(f_fingerprint f \<mapsto> (idx, jobs'))))
          else (out, seen)
      | None \<Rightarrow>
          (out @ [f\<lparr>f_source_job_ids := job_source f\<rparr>], seen(f_fingerprint f \<mapsto> (length out, job_source f))))"

definition DedupeFindings :: "digest \<Rightarrow> finding list \<Rightarrow> finding list" where
  "DedupeFindings sha fs = fst (fold (dedupe_step sha) fs ([], Map.empty))"

section \<open>fixloop.go\<close>

definition DefaultMaxFixCycles :: int where
  "DefaultMaxFixCycles = 5"

definition feedback_line :: "nat \<times> finding \<Rightarrow> string" where
  "feedback_line = (\<lambda>(i, f).
     ''  '' @ itoa (int i) @ ''. ['' @ (if f_severity f = [] then ''unspecified'' else f_severity f) @ ''] '' @ f_body f @
     (if f_path f \<noteq> [] then '' (at '' @ (if f_line f > 0 then f_path f @ '':'' @ itoa (f_line f) else f_path f) @ '')'' else []) @
     (if length (f_source_job_ids f) > 1 then '' [reported by '' @ itoa (int (length (f_source_job_ids f))) @ '' reviewers]'' else []) @
     newline)"

definition BuildFindingFeedback :: "finding list \<Rightarrow> string" where
  "BuildFindingFeedback fs =
     (if fs = [] then []
      else ''REVIEW FEEDBACK: The following issues were found and must be fixed:'' @ newline @
        concat (map feedback_line (enumerate 1 fs)) @ newline @
        ''Please address all findings above before completing the phase.'')"

definition maxFixCycles :: "policy option \<Rightarrow> nat" where
  "maxFixCycles o_p =
     (case o_p of
        None \<Rightarrow> nat DefaultMaxFixCycles
      | Some p \<Rightarrow> if pol_max_fix_cycles_per_phase p \<le> 0 then nat DefaultMaxFixCycles else nat (pol_max_fix_cycles_per_phase p))"

section \<open>executor.go\<close>

text \<open>A nil slice of roles is \<open>None\<close>. \<open>pe_order k n\<close> lists the goroutines of the \<open>k\<close>-th fan-out in the
  order they finish; the ones it leaves out finish last.\<close>

record phase_executor =
  pe_Orchestrate :: "dispatch_input \<Rightarrow> dispatch_result prog"
  pe_order :: "nat \<Rightarrow> nat list"
  pe_AttentionStore :: bool
  pe_CheckpointWriter :: bool
  pe_Policy :: "policy option"
  pe_DeveloperRole :: string
  pe_ReviewerRoles :: "string list option"
  pe_TesterRoles :: "string list option"
  pe_WorkDir :: string
  pe_RoleDir :: string
  pe_env :: role_env
  pe_tools :: tools
  pe_sha :: digest

record phase_result =
  px_Findings :: "finding list"
  px_Artifacts :: "artifact list"
  px_TestsPassed :: bool
  px_FixCycles :: nat
  px_Clean :: bool

definition defaultDeveloperRole :: string where
  "defaultDeveloperRole = ''developer''"

definition defaultReviewerRoles :: "string list" where
  "defaultReviewerRoles = [''reviewer.arch'', ''reviewer.frontend'']"

definition defaultTesterRoles :: "string list" where
  "defaultTesterRoles = [''tester'']"

definition reviewerRoles :: "phase_executor \<Rightarrow> string list" where
  "reviewerRoles e = (case pe_ReviewerRoles e of None \<Rightarrow> defaultReviewerRoles | Some rs \<Rightarrow> rs)"

definition testerRoles :: "phase_executor \<Rightarrow> string list" where
  "testerRoles e = (case pe_TesterRoles e of None \<Rightarrow> defaultTesterRoles | Some rs \<Rightarrow> rs)"

text \<open>One predicate of \<open>applies_when\<close>: whether it rules the role out.\<close>

definition rules_out :: "bool \<Rightarrow> goerr + bool \<Rightarrow> goerr + bool" where
  "rules_out present r = (if present then andThen r (\<lambda>holds. Inr (\<not> holds)) else Inr False)"

definition needs_dir :: "phase_executor \<Rightarrow> string \<Rightarrow> string \<Rightarrow> goerr + bool \<Rightarrow> goerr + bool" where
  "needs_dir e predicate ro_name r =
     (if pe_WorkDir e = [] then Inl (Errorf (''WorkDir not set; cannot evaluate '' @ predicate @ '' for role %q'') [ro_name]) else r)"

definition roleShouldSkip :: "phase_executor \<Rightarrow> role \<Rightarrow> int \<Rightarrow> goerr + bool" where
  "roleShouldSkip e ro phaseIndex =
     (case role_applies_when ro of
        None \<Rightarrow> Inr False
      | Some aw \<Rightarrow>
          andThen (rules_out (aw_changes_touch aw \<noteq> []) (needs_dir e ''changes_touch'' (role_name ro)
            (ChangesTouchInDir (pe_tools e) (pe_WorkDir e) (aw_changes_touch aw)))) (\<lambda>skip.
          if skip then Inr True else
          andThen (rules_out (aw_commit_msg_contains aw \<noteq> []) (needs_dir e ''commit_msg_contains'' (role_name ro)
            (CommitMsgContains (pe_tools e) (pe_WorkDir e) (aw_commit_msg_contains aw)))) (\<lambda>skip.
          if skip then Inr True else
          rules_out (aw_phase_index_in aw \<noteq> []) (PhaseIndexIn phaseIndex (aw_phase_index_in aw)))))"

definition emitJobSkippedEvent :: "ident \<Rightarrow> string \<Rightarrow> unit prog" where
  "emitJobSkippedEvent runID roleName =
     ignoring (append_event runID EventJobSkipped [] (JObj [(''reason'', JStr ''applies_when=false''), (''role'', JStr roleName)]))"

definition emitPhaseEvent :: "ident \<Rightarrow> int \<Rightarrow> int \<Rightarrow> string \<Rightarrow> EventKind \<Rightarrow> (string \<times> json) list \<Rightarrow> unit prog" where
  "emitPhaseEvent runID planID phaseIndex phaseName kind extra =
     ignoring (append_event runID kind (''plan-'' @ itoa planID @ ''-phase-'' @ itoa phaseIndex)
       (JObj (sort_key fst ([(''plan_id'', JInt planID), (''phase_index'', JInt phaseIndex), (''phase_name'', JStr phaseName)] @ extra))))"

definition empty_result :: dispatch_result where
  "empty_result = \<lparr>dx_RunID = [], dx_JobID = [], dx_Findings = [], dx_Artifacts = [], dx_ExitCode = 0,
     dx_SupervisorVerdict = None, dx_RetryCount = 0\<rparr>"

text \<open>The body of a goroutine. A role that cannot be loaded or judged is dispatched.\<close>

definition skips :: "phase_executor \<Rightarrow> int \<Rightarrow> string \<Rightarrow> bool" where
  "skips e phaseIndex roleName =
     (pe_RoleDir e \<noteq> [] \<and>
      (case LoadRole (pe_env e) (pe_RoleDir e) roleName of
         Inl _ \<Rightarrow> False
       | Inr ro \<Rightarrow> (case roleShouldSkip e ro phaseIndex of Inl _ \<Rightarrow> False | Inr skip \<Rightarrow> skip)))"

definition fan_task :: "phase_executor \<Rightarrow> ident \<Rightarrow> int \<Rightarrow> inputs \<Rightarrow> string \<Rightarrow> dispatch_result prog" where
  "fan_task e runID phaseIndex ins roleName =
     (if skips e phaseIndex roleName
      then bindE (emitJobSkippedEvent runID roleName) (\<lambda>_. ret empty_result)
      else wrapE ''dispatch %s: %w'' [roleName]
        (pe_Orchestrate e \<lparr>in_RoleName = roleName, in_Inputs = ins, in_RunID = runID\<rparr>))"

definition finish_order :: "nat list \<Rightarrow> nat \<Rightarrow> nat list" where
  "finish_order ends n = (let first = remdups (filter (\<lambda>i. i < n) ends) in first @ filter (\<lambda>i. i \<notin> set first) [0..<n])"

fun first_error :: "(goerr + 'a) list \<Rightarrow> goerr option" where
  "first_error [] = None"
| "first_error (Inl e # rs) = Some e"
| "first_error (Inr _ # rs) = first_error rs"

text \<open>All tasks run; the results are put back in the order of the roles.\<close>

definition run_tasks :: "nat list \<Rightarrow> (nat \<Rightarrow> 'a prog) \<Rightarrow> nat \<Rightarrow> 'a list prog" where
  "run_tasks ends task n =
     bindE (forE ends (\<lambda>i. attempt (task i))) (\<lambda>outs.
     case first_error outs of
       Some e \<Rightarrow> raise e
     | None \<Rightarrow> ret (map (\<lambda>i. projr (the (map_of (zip ends outs) i))) [0..<n]))"

definition fanOut :: "phase_executor \<Rightarrow> nat \<Rightarrow> ident \<Rightarrow> int \<Rightarrow> inputs \<Rightarrow> dispatch_result list prog" where
  "fanOut e cycle runID phaseIndex ins =
     (let roleNames = reviewerRoles e @ testerRoles e; n = length roleNames in
      run_tasks (finish_order (pe_order e cycle) n) (\<lambda>i. fan_task e runID phaseIndex ins (roleNames ! i)) n)"

definition phase_error :: "string \<Rightarrow> int \<Rightarrow> int \<Rightarrow> 'a prog \<Rightarrow> 'a prog" where
  "phase_error what planID phaseIndex m = wrapE (''phase %d/%d '' @ what @ '': %w'') [itoa planID, itoa phaseIndex] m"

definition raise_checkpoint :: "phase_executor \<Rightarrow> ident \<Rightarrow> int \<Rightarrow> string \<Rightarrow> nat \<Rightarrow> nat \<Rightarrow> unit prog" where
  "raise_checkpoint e runID phaseIndex phaseName maxCycles remaining =
     (if \<not> pe_AttentionStore e then ret ()
      else bindE new_id (\<lambda>i.
        bindE (attempt (InsertAttention
          \<lparr>att_id = i, att_run_id = runID, att_kind = AttentionCheckpoint, att_source = ''phase-loop'', att_job_id = [],
           att_question = sprintf ''Phase %d (%s) did not converge after %d fix cycles. %d findings remain.''
             [itoa phaseIndex, phaseName, nat_str maxCycles, nat_str remaining],
           att_options = [], att_presented_on = [], att_answered_on = [], att_answered_by = [], att_answer = [],
           att_created_at = None, att_resolved_at = None\<rparr>)) (\<lambda>r.
        case r of
          Inl _ \<Rightarrow> ret ()
        | Inr item \<Rightarrow>
            if pe_CheckpointWriter e
            then ignoring (CreateCheckpoint \<lparr>cr_id = att_id item, cr_run_id = runID, cr_plan_id = [],
              cr_kind = checkpoint_kind_string CheckpointKindPhaseClean, cr_notes = []\<rparr>)
            else ret ())))"

text \<open>One iteration: the developer, the fan-out and the fan-in.\<close>

definition phase_cycle ::
    "phase_executor \<Rightarrow> nat \<Rightarrow> ident \<Rightarrow> int \<Rightarrow> int \<Rightarrow> inputs \<Rightarrow> inputs \<Rightarrow> (aggregated \<times> finding list) prog" where
  "phase_cycle e cycle runID planID phaseIndex ins devInputs =
     bindE (phase_error ''developer dispatch'' planID phaseIndex (pe_Orchestrate e
       \<lparr>in_RoleName = (if pe_DeveloperRole e = [] then defaultDeveloperRole else pe_DeveloperRole e),
        in_Inputs = devInputs, in_RunID = runID\<rparr>)) (\<lambda>dev.
     bindE (phase_error ''fan-out'' planID phaseIndex (fanOut e cycle runID phaseIndex ins)) (\<lambda>reviews.
     let agg = AggregateResults (dev # reviews) in ret (agg, DedupeFindings (pe_sha e) (ag_Findings agg))))"

function runLoop ::
    "phase_executor \<Rightarrow> ident \<Rightarrow> int \<Rightarrow> int \<Rightarrow> string \<Rightarrow> inputs \<Rightarrow> nat \<Rightarrow> inputs \<Rightarrow> phase_result prog" where
  "runLoop e runID planID phaseIndex phaseName ins fixCycles devInputs =
     bindE (phase_cycle e fixCycles runID planID phaseIndex ins devInputs) (\<lambda>(agg, deduped).
     let result = \<lparr>px_Findings = deduped, px_Artifacts = ag_Artifacts agg, px_TestsPassed = ag_TestsPassed agg,
                   px_FixCycles = fixCycles, px_Clean = True\<rparr> in
     if deduped = [] \<and> ag_TestsPassed agg then ret result
     else if fixCycles \<ge> maxFixCycles (pe_Policy e) then
       bindE (emitPhaseEvent runID planID phaseIndex phaseName EventPhaseClean
         [(''fix_cycles'', JInt (int fixCycles)), (''findings'', JInt (int (length deduped))),
          (''tests_passed'', JBool (ag_TestsPassed agg)), (''checkpoint'', JStr ''phase-clean'')]) (\<lambda>_.
       bindE (raise_checkpoint e runID phaseIndex phaseName (maxFixCycles (pe_Policy e)) (length deduped)) (\<lambda>_.
       ret (result\<lparr>px_Clean := False\<rparr>)))
     else runLoop e runID planID phaseIndex phaseName ins (Suc fixCycles)
       (put_input ''fix_feedback'' (BuildFindingFeedback deduped) ins))"
  by pat_completeness auto

termination
  by (relation "measure (\<lambda>(e, r, p, x, n, ins, k, dev). maxFixCycles (pe_Policy e) - k)") auto

declare runLoop.simps [simp del]

definition Execute :: "phase_executor \<Rightarrow> ident \<Rightarrow> int \<Rightarrow> int \<Rightarrow> string \<Rightarrow> inputs \<Rightarrow> phase_result prog" where
  "Execute e runID planID phaseIndex phaseName inputs0 =
     (let ins = put_input ''phase_index'' (itoa phaseIndex) (put_input ''plan_id'' (itoa planID) inputs0) in
     bindE (emitPhaseEvent runID planID phaseIndex phaseName EventPhaseStarted []) (\<lambda>_.
     bindE (attempt (runLoop e runID planID phaseIndex phaseName ins 0 ins)) (\<lambda>r.
     case r of
       Inl err \<Rightarrow>
         bindE (emitPhaseEvent runID planID phaseIndex phaseName EventPhaseFailed [(''error'', JStr (error_string err))])
           (\<lambda>_. raise err)
     | Inr res \<Rightarrow>
         bindE (emitPhaseEvent runID planID phaseIndex phaseName EventPhaseCompleted
           [(''fix_cycles'', JInt (int (px_FixCycles res))), (''clean'', JBool (px_Clean res)),
            (''findings'', JInt (int (length (px_Findings res)))), (''tests_passed'', JBool (px_TestsPassed res))])
           (\<lambda>_. ret res))))"

end
