(* ===== verification/Shipper.thy ===== *)
theory Shipper
  imports Flow Manifest
begin

text \<open>
  \<open>coding/shipper\<close>: the pull request of a plan. Everything but the pull request itself is best
  effort: the attention item, the checkpoint, the event, the job row and the artifact. The
  process \<open>gh\<close> is a parameter, as is the \<open>GhRunner\<close> the code lets its callers inject.
\<close>

section \<open>gh.go\<close>

text \<open>A process: its exit error, if any, stdout and stderr for the arguments.\<close>

type_synonym process = "string list \<Rightarrow> (goerr option \<times> string \<times> string) prog"

definition ghPRTimeout :: time where
  "ghPRTimeout = 60 * 1000000000"

definition ghCreatePR :: "process \<Rightarrow> string \<Rightarrow> string \<Rightarrow> string \<Rightarrow> string prog" where
  "ghCreatePR gh branch title body =
     bindE (gh [''pr'', ''create'', ''--title'', title, ''--body'', body, ''--head'', branch]) (\<lambda>(o_e, stdout, stderr).
     case o_e of
       Some e \<Rightarrow>
         let msg = trim_space stderr in
         raise (Errorf ''gh pr create: %s'' [if msg = [] then error_string e else msg])
     | None \<Rightarrow>
         let url = trim_space stdout in
         if url = [] then raise (Errorf ''gh pr create: empty output (no PR URL returned)'' []) else ret url)"

section \<open>shipper.go\<close>

record shipper =
  sh_AttentionStore :: bool
  sh_CheckpointWriter :: bool
  sh_EventStore :: bool
  sh_ArtifactStore :: bool
  sh_JobStore :: bool
  sh_DryRun :: bool
  sh_GhRunner :: "(string \<Rightarrow> string \<Rightarrow> string \<Rightarrow> string prog) option"
  sh_gh :: process

record ship_result =
  sx_PRURL :: string
  sx_ArtifactID :: ident
  sx_AttentionID :: ident

definition buildPRBody :: "plan_entry \<Rightarrow> string" where
  "buildPRBody p =
     ''## Plan '' @ itoa (pe_id p) @ '' '' @ [CHR 0xE2, CHR 0x80, CHR 0x94] @ '' '' @ pe_title p @ newline @ newline @
     ''Autopilot PR created by coworker.'' @ newline"

definition emitShippedEvent :: "shipper \<Rightarrow> ident \<Rightarrow> plan_entry \<Rightarrow> string \<Rightarrow> string \<Rightarrow> ident \<Rightarrow> unit prog" where
  "emitShippedEvent s runID p branch prURL jobID =
     (if \<not> sh_EventStore s then ret ()
      else append_event runID EventPlanShipped jobID
        (JObj [(''branch'', JStr branch), (''plan_id'', JInt (pe_id p)), (''plan_title'', JStr (pe_title p)),
               (''pr_url'', JStr prURL)]))"

text \<open>Step 1: the attention item and its checkpoint row; the result is the ID, or nothing.\<close>

definition ready_to_ship :: "shipper \<Rightarrow> ident \<Rightarrow> plan_entry \<Rightarrow> string \<Rightarrow> ident prog" where
  "ready_to_ship s runID p branch =
     (if \<not> sh_AttentionStore s then ret []
      else bindE new_id (\<lambda>i.
        bindE (attempt (InsertAttention
          \<lparr>att_id = i, att_run_id = runID, att_kind = AttentionCheckpoint, att_source = ''shipper'', att_job_id = [],
           att_question = sprintf ''Plan %d (%q) is ready to ship on branch %q. Approve PR creation?''
             [itoa (pe_id p), pe_title p, branch],
           att_options = [], att_presented_on = [], att_answered_on = [], att_answered_by = [], att_answer = [],
           att_created_at = None, att_resolved_at = None\<rparr>)) (\<lambda>r.
        case r of
          Inl _ \<Rightarrow> ret []
        | Inr item \<Rightarrow>
            bindE (if sh_CheckpointWriter s
                   then ignoring (CreateCheckpoint \<lparr>cr_id = att_id item, cr_run_id = runID, cr_plan_id = [],
                     cr_kind = checkpoint_kind_string CheckpointKindReadyToShip, cr_notes = []\<rparr>)
                   else ret ()) (\<lambda>_. ret (att_id item)))))"

text \<open>Step 2: the pull request.\<close>

definition open_pr :: "shipper \<Rightarrow> plan_entry \<Rightarrow> string \<Rightarrow> string prog" where
  "open_pr s p branch =
     (if sh_DryRun s then ret (''https://github.com/dry-run/coworker/pull/'' @ itoa (pe_id p))
      else wrapE ''shipper: plan %d: %w'' [itoa (pe_id p)]
        ((case sh_GhRunner s of Some runner \<Rightarrow> runner | None \<Rightarrow> ghCreatePR (sh_gh s)) branch
          (''Plan '' @ itoa (pe_id p) @ '': '' @ pe_title p) (buildPRBody p)))"

text \<open>Step 3: the artifact, under a job row of its own; the result is the ID of a stored artifact.\<close>

definition ship_job :: "ident \<Rightarrow> ident \<Rightarrow> time \<Rightarrow> job" where
  "ship_job jobID runID now =
     \<lparr>job_id = jobID, job_run_id = runID, job_role = ''shipper'', job_state = JobStateComplete,
      job_dispatched_by = ''workflow'', job_cli = ''claude-code'', job_started_at = now, job_ended_at = None,
      job_plan_id = [], job_phase_index = 0, job_cost_usd = 0\<rparr>"

definition record_pr_url :: "shipper \<Rightarrow> ident \<Rightarrow> ident \<Rightarrow> string \<Rightarrow> ident prog" where
  "record_pr_url s runID jobID prURL =
     (if sh_ArtifactStore s \<and> sh_JobStore s then
        bindE time_now (\<lambda>now.
        bindE (attempt (CreateJob (ship_job jobID runID now))) (\<lambda>r.
        case r of
          Inl _ \<Rightarrow> ret []
        | Inr _ \<Rightarrow>
            bindE new_id (\<lambda>i.
            bindE (attempt (InsertArtifact \<lparr>art_id = i, art_job_id = jobID, art_kind = ''pr-url'', art_path = prURL\<rparr> runID)) (\<lambda>r'.
            case r' of Inl _ \<Rightarrow> ret [] | Inr _ \<Rightarrow> ret i))))
      else ret [])"

definition Ship :: "shipper \<Rightarrow> ident \<Rightarrow> plan_entry \<Rightarrow> string \<Rightarrow> ship_result prog" where
  "Ship s runID p branch =
     bindE (ready_to_ship s runID p branch) (\<lambda>attentionID.
     bindE (open_pr s p branch) (\<lambda>prURL.
     let jobID = ''ship-plan-'' @ itoa (pe_id p) in
     bindE (ignoring (emitShippedEvent s runID p branch prURL jobID)) (\<lambda>_.
     bindE (record_pr_url s runID jobID prURL) (\<lambda>artifactID.
     ret \<lparr>sx_PRURL = prURL, sx_ArtifactID = artifactID, sx_AttentionID = attentionID\<rparr>))))"

end
