(* ===== verification/Worktree.thy ===== *)
theory Worktree
  imports Flow Manifest
begin

text \<open>
  \<open>coding/manifest/worktree.go\<close>: the git worktrees of parallel plans. The commands of git and the
  file system are parameters: programs over a state the model does not look into.
\<close>

section \<open>The outside\<close>

text \<open>\<open>wo_run dir args\<close> is the exit error of \<open>git args\<close> in \<open>dir\<close>, if any, with what it wrote to
  stderr; \<open>wo_stat\<close> is the error of \<open>os.Stat\<close>.\<close>

record 's outside =
  wo_mkdir_all :: "string \<Rightarrow> ('s, unit) io"
  wo_stat :: "string \<Rightarrow> ('s, goerr option) io"
  wo_run :: "string \<Rightarrow> string list \<Rightarrow> ('s, goerr option \<times> string) io"

record worktree_manager =
  wm_RepoRoot :: string
  wm_BaseDir :: string

section \<open>The code\<close>

definition NewWorktreeManager :: "string \<Rightarrow> string \<Rightarrow> worktree_manager" where
  "NewWorktreeManager repoRoot baseDir = \<lparr>wm_RepoRoot = repoRoot, wm_BaseDir = baseDir\<rparr>"

definition WorktreePath :: "worktree_manager \<Rightarrow> int \<Rightarrow> string \<Rightarrow> string" where
  "WorktreePath m planID title = join_path [wm_BaseDir m, WorktreeDirName planID title]"

definition git :: "'s outside \<Rightarrow> worktree_manager \<Rightarrow> string list \<Rightarrow> ('s, unit) io" where
  "git out m args =
     bindE (wo_run out (wm_RepoRoot m) args) (\<lambda>(o_e, stderr).
     case o_e of
       None \<Rightarrow> ret ()
     | Some e \<Rightarrow>
         let msg = trim_space stderr in
         raise (if msg = [] then Wrapf ''git %s: %w'' [join_with '' '' args] e
                else Wrapf ''git %s: %s: %w'' [join_with '' '' args, msg] e))"

definition isBranchExistsError :: "goerr option \<Rightarrow> bool" where
  "isBranchExistsError o_e =
     (case o_e of
        None \<Rightarrow> False
      | Some e \<Rightarrow> has_substring (error_string e) ''already exists'' \<or> has_substring (error_string e) ''A branch named'')"

definition isBranchNotFoundError :: "goerr option \<Rightarrow> bool" where
  "isBranchNotFoundError o_e =
     (case o_e of
        None \<Rightarrow> False
      | Some e \<Rightarrow>
          if errors_is e ErrExecNotFound then False
          else has_substring (error_string e) ''not found'' \<or> has_substring (error_string e) ''error: branch'')"

definition Create :: "'s outside \<Rightarrow> worktree_manager \<Rightarrow> int \<Rightarrow> string \<Rightarrow> string \<Rightarrow> ('s, string) io" where
  "Create out m planID title baseBranch =
     bindE (wrapE ''create worktree base dir: %w'' [] (wo_mkdir_all out (wm_BaseDir m))) (\<lambda>_.
     let branch = BranchName planID title; path = WorktreePath m planID title in
     bindE (wo_stat out path) (\<lambda>missing.
     if missing = None then ret path
     else
       bindE (attempt (git out m [''worktree'', ''add'', path, ''-b'', branch, baseBranch])) (\<lambda>r.
       case r of
         Inr _ \<Rightarrow> ret path
       | Inl e \<Rightarrow>
           if isBranchExistsError (Some e) then
             bindE (wrapE ''git worktree add (existing branch %q): %w'' [branch]
               (git out m [''worktree'', ''add'', path, branch])) (\<lambda>_. ret path)
           else raise (Wrapf ''git worktree add: %w'' [] e))))"

definition Remove :: "'s outside \<Rightarrow> worktree_manager \<Rightarrow> int \<Rightarrow> string \<Rightarrow> ('s, unit) io" where
  "Remove out m planID title =
     (let branch = BranchName planID title; path = WorktreePath m planID title in
     bindE (wo_stat out path) (\<lambda>missing.
     bindE (if missing = None
            then wrapE ''git worktree remove: %w'' [] (git out m [''worktree'', ''remove'', ''--force'', path])
            else ret ()) (\<lambda>_.
     bindE (ignoring (git out m [''worktree'', ''prune''])) (\<lambda>_.
     bindE (attempt (git out m [''branch'', ''-D'', branch])) (\<lambda>r.
     case r of
       Inr _ \<Rightarrow> ret ()
     | Inl e \<Rightarrow>
         if \<not> isBranchNotFoundError (Some e) then raise (Wrapf ''git branch -D %q: %w'' [branch] e) else ret ())))))"

section \<open>What a success means\<close>

text \<open>When a successful \<open>git worktree add\<close> leaves the directory behind, a successful \<open>Create\<close> returns the
  path of the plan and the directory is there, so that repeating it runs no git command.\<close>

lemma Create_path: "Create out m i title base w = (Inr p, w') \<Longrightarrow> p = WorktreePath m i title"
  by (auto simp: Create_def Let_def run_simps case_sum_run split: if_splits)

lemma Create_again:
  assumes "wo_mkdir_all out (wm_BaseDir m) w = (Inr (), w1)"
    and "wo_stat out (WorktreePath m i title) w1 = (Inr None, w2)"
  shows "Create out m i title base w = (Inr (WorktreePath m i title), w2)"
  using assms by (simp add: Create_def Let_def bindE_def wrapE_def ret_def)

end
