(* ===== verification/Workflow.thy ===== *)
theory Workflow
  imports Phase_Loop Shipper Worktree Scheduler Policy
begin

text \<open>
  \<open>coding/workflow\<close>: the freeform dispatch and the autopilot workflow of a plan. \<open>Execute\<close> writes
  through pointers to the phase executor and the shipper it holds; \<open>configure\<close> and
  \<open>configure_shipper\<close> are what it leaves there. The rows of the plan projection are best effort.
\<close>

section \<open>freeform.go\<close>

record free_input =
  fi_Role :: string
  fi_Inputs :: inputs

definition Dispatch_freeform ::
    "(dispatch_input \<Rightarrow> dispatch_result prog) option \<Rightarrow> free_input option \<Rightarrow> ident prog" where
  "Dispatch_freeform dispatch o_in =
     (case dispatch of
        None \<Rightarrow> raise (Errorf ''freeform workflow missing dispatcher'' [])
      | Some orchestrate \<Rightarrow>
          (case o_in of
             None \<Rightarrow> raise (Errorf ''dispatch input is nil'' [])
           | Some i \<Rightarrow>
               if fi_Role i = [] then raise (Errorf ''dispatch input role is required'' [])
               else bindE (orchestrate \<lparr>in_RoleName = fi_Role i, in_Inputs = fi_Inputs i, in_RunID = []\<rparr>)
                 (\<lambda>r. ret (dx_JobID r))))"

section \<open>build_from_prd.go\<close>

record prd_workflow =
  wf_ManifestPath :: string
  wf_Policy :: "policy option"
  wf_WorktreeManager :: "worktree_manager option"
  wf_BaseBranch :: string
  wf_PhaseExecutor :: "phase_executor option"
  wf_Shipper :: "shipper option"
  wf_StageRegistry :: "stage_registry option"
  wf_WorkDir :: string
  wf_RoleDir :: string
  wf_PlanWriter :: bool
  wf_CheckpointWriter :: bool
  wf_outside :: "world outside"
  wf_load :: "string \<Rightarrow> goerr + plan_manifest"

text \<open>\<open>wf_load\<close> is \<open>manifest.LoadManifest\<close> with the file system and the YAML decoder of the process.\<close>

definition NewBuildFromPRDWorkflow ::
    "world outside \<Rightarrow> (string \<Rightarrow> goerr + plan_manifest) \<Rightarrow> string \<Rightarrow> policy option \<Rightarrow> prd_workflow" where
  "NewBuildFromPRDWorkflow out load manifestPath o_p =
     \<lparr>wf_ManifestPath = manifestPath, wf_Policy = o_p, wf_WorktreeManager = None, wf_BaseBranch = [],
      wf_PhaseExecutor = None, wf_Shipper = None, wf_StageRegistry = None, wf_WorkDir = [], wf_RoleDir = [],
      wf_PlanWriter = False, wf_CheckpointWriter = False, wf_outside = out, wf_load = load\<rparr>"

record prd_result =
  bx_Manifest :: plan_manifest
  bx_ReadyPlans :: "plan_entry list"
  bx_Worktrees :: "(int \<times> string) list"

record phases_result =
  rx_PhaseResults :: "phase_result list"
  rx_ShipResult :: "ship_result option"
  rx_StoppedAtPhaseClean :: bool
  rx_DirtyPhaseIndex :: int
  rx_DirtyPhaseName :: string
  rx_AttentionItemID :: ident

definition baseBranch :: "prd_workflow \<Rightarrow> string" where
  "baseBranch w = (if wf_BaseBranch w \<noteq> [] then wf_BaseBranch w else ''main'')"

definition LoadWorkflowManifest :: "prd_workflow \<Rightarrow> goerr + plan_manifest" where
  "LoadWorkflowManifest w =
     (if wf_ManifestPath w = [] then Inl (Errorf ''build-from-prd: ManifestPath is required'' [])
      else wrapR ''build-from-prd: load manifest: %w'' [] (wf_load w (wf_ManifestPath w)))"

definition Schedule :: "prd_workflow \<Rightarrow> plan_manifest \<Rightarrow> boolmap \<Rightarrow> boolmap \<Rightarrow> plan_entry list" where
  "Schedule w m completed active = ReadyPlans (NewDAGScheduler (Some m) (wf_Policy w)) completed active"

fun create_worktrees ::
    "world outside \<Rightarrow> worktree_manager \<Rightarrow> string \<Rightarrow> plan_entry list \<Rightarrow> (int \<times> string) list \<Rightarrow> (int \<times> string) list prog" where
  "create_worktrees out m base [] trees = ret trees"
| "create_worktrees out m base (p # ps) trees =
     bindE (wrapE ''create worktree for plan %d (%q): %w'' [itoa (pe_id p), pe_title p]
       (Create out m (pe_id p) (pe_title p) base)) (\<lambda>path.
     create_worktrees out m base ps (AList.update (pe_id p) path trees))"

definition PrepareWorktrees :: "prd_workflow \<Rightarrow> plan_entry list \<Rightarrow> (int \<times> string) list prog" where
  "PrepareWorktrees w plans =
     (case wf_WorktreeManager w of
        Some m \<Rightarrow> if length plans > 1 then create_worktrees (wf_outside w) m (baseBranch w) plans [] else ret []
      | None \<Rightarrow> ret [])"

definition workflowPlanID :: "ident \<Rightarrow> int \<Rightarrow> ident" where
  "workflowPlanID runID n =
     (if runID = [] then ''plan-'' @ itoa n else runID @ ''-plan-'' @ itoa n)"

definition pending_plan :: "ident \<Rightarrow> plan_entry \<Rightarrow> plan_record" where
  "pending_plan runID p =
     \<lparr>pr_id = workflowPlanID runID (pe_id p), pr_run_id = runID, pr_number = pe_id p, pr_title = pe_title p,
      pr_blocks_on = pe_blocks_on p, pr_branch = [], pr_pr_url = [], pr_state = ''pending''\<rparr>"

definition createPlan :: "prd_workflow \<Rightarrow> ident \<Rightarrow> plan_entry \<Rightarrow> unit prog" where
  "createPlan w runID p = (if wf_PlanWriter w then ignoring (CreatePlan (pending_plan runID p)) else ret ())"

definition recordManifestPlans :: "prd_workflow \<Rightarrow> ident \<Rightarrow> plan_manifest \<Rightarrow> unit prog" where
  "recordManifestPlans w runID m =
     (if \<not> wf_PlanWriter w then ret ()
      else bindE (forE (pm_plans m) (\<lambda>p. ignoring (CreatePlan (pending_plan runID p)))) (\<lambda>_. ret ()))"

definition updatePlanState :: "prd_workflow \<Rightarrow> ident \<Rightarrow> int \<Rightarrow> string \<Rightarrow> unit prog" where
  "updatePlanState w runID n state =
     (if wf_PlanWriter w then ignoring (UpdatePlanState (workflowPlanID runID n) state) else ret ())"

definition updatePlanBranchAndPR :: "prd_workflow \<Rightarrow> ident \<Rightarrow> int \<Rightarrow> string \<Rightarrow> string \<Rightarrow> unit prog" where
  "updatePlanBranchAndPR w runID n branch url =
     (if wf_PlanWriter w then ignoring (UpdatePlanBranchAndPR (workflowPlanID runID n) branch url) else ret ())"

text \<open>The plans of one scheduling round. No run is known yet, hence the empty run ID.\<close>

definition Run :: "prd_workflow \<Rightarrow> boolmap \<Rightarrow> boolmap \<Rightarrow> prd_result prog" where
  "Run w completed active =
     (case LoadWorkflowManifest w of
        Inl e \<Rightarrow> raise e
      | Inr m \<Rightarrow>
          bindE (recordManifestPlans w [] m) (\<lambda>_.
          let ready = Schedule w m completed active in
          if ready = [] then ret \<lparr>bx_Manifest = m, bx_ReadyPlans = [], bx_Worktrees = []\<rparr>
          else bindE (PrepareWorktrees w ready) (\<lambda>trees.
            ret \<lparr>bx_Manifest = m, bx_ReadyPlans = ready, bx_Worktrees = trees\<rparr>)))"

subsection \<open>The phases of a plan\<close>

definition configure :: "prd_workflow \<Rightarrow> phase_executor \<Rightarrow> phase_executor" where
  "configure w e0 =
     (let e1 = (case wf_StageRegistry w of
                  None \<Rightarrow> e0
                | Some g \<Rightarrow>
                    let dev = (case RolesForStage g ''phase-dev'' of Some (r # _) \<Rightarrow> r | _ \<Rightarrow> pe_DeveloperRole e0);
                        revs = (case RolesForStage g ''phase-review'' of None \<Rightarrow> pe_ReviewerRoles e0 | Some rs \<Rightarrow> Some rs)
                    in e0\<lparr>pe_DeveloperRole := dev, pe_ReviewerRoles := revs, pe_TesterRoles := RolesForStage g ''phase-test''\<rparr>);
          e2 = (if wf_WorkDir w \<noteq> [] then e1\<lparr>pe_WorkDir := wf_WorkDir w\<rparr> else e1);
          e3 = (if wf_RoleDir w \<noteq> [] then e2\<lparr>pe_RoleDir := wf_RoleDir w\<rparr> else e2)
      in if wf_CheckpointWriter w then e3\<lparr>pe_CheckpointWriter := True\<rparr> else e3)"

definition configure_shipper :: "prd_workflow \<Rightarrow> shipper \<Rightarrow> shipper" where
  "configure_shipper w s = (if wf_CheckpointWriter w then s\<lparr>sh_CheckpointWriter := True\<rparr> else s)"

definition phases_done :: "phase_result list \<Rightarrow> phases_result" where
  "phases_done rs = \<lparr>rx_PhaseResults = rs, rx_ShipResult = None, rx_StoppedAtPhaseClean = False,
     rx_DirtyPhaseIndex = 0, rx_DirtyPhaseName = [], rx_AttentionItemID = []\<rparr>"

text \<open>The attention item that the exhausted fix loop left for the human.\<close>

definition dirty_attention :: "phase_executor \<Rightarrow> ident \<Rightarrow> ident prog" where
  "dirty_attention e runID =
     (if pe_AttentionStore e then
        bindE (attempt (GetUnansweredCheckpointForRun runID ''phase-loop'')) (\<lambda>r.
        case r of Inr (Some item) \<Rightarrow> ret (att_id item) | _ \<Rightarrow> ret [])
      else ret [])"

text \<open>The loop over the phases returns the results with the error of the phase that failed, or with
  the mark of the phase that stayed dirty. \<open>None\<close> is a loop that went through.\<close>

datatype phases_end = All_Clean | Phase_Error goerr | Phase_Dirty int string ident

fun run_phases ::
    "prd_workflow \<Rightarrow> phase_executor \<Rightarrow> ident \<Rightarrow> plan_entry \<Rightarrow> inputs \<Rightarrow> nat \<Rightarrow> string list \<Rightarrow> phase_result list
      \<Rightarrow> (phase_result list \<times> phases_end) prog" where
  "run_phases w e runID plan ins i [] rs = ret (rs, All_Clean)"
| "run_phases w e runID plan ins i (name # names) rs =
     bindE (attempt (Execute e runID (pe_id plan) (int i) name ins)) (\<lambda>r.
     case r of
       Inl err \<Rightarrow>
         bindE (updatePlanState w runID (pe_id plan) ''failed'') (\<lambda>_.
         ret (rs, Phase_Error (Wrapf ''plan %d phase %d (%q): %w'' [itoa (pe_id plan), itoa (int i), name] err)))
     | Inr res \<Rightarrow>
         if \<not> px_Clean res then
           bindE (dirty_attention e runID) (\<lambda>attentionID.
           bindE (updatePlanState w runID (pe_id plan) ''failed'') (\<lambda>_.
           ret (rs @ [res], Phase_Dirty (int i) name attentionID)))
         else run_phases w e runID plan ins (Suc i) names (rs @ [res]))"

text \<open>The results come with the error, if any: the caller gets both.\<close>

definition ship_plan ::
    "prd_workflow \<Rightarrow> ident \<Rightarrow> plan_entry \<Rightarrow> inputs \<Rightarrow> phases_result \<Rightarrow> (phases_result \<times> goerr option) prog" where
  "ship_plan w runID plan ins out =
     (case wf_Shipper w of
        None \<Rightarrow> ret (out, None)
      | Some s \<Rightarrow>
          let branch = (if get_input ins ''branch'' = [] then baseBranch w else get_input ins ''branch'') in
          bindE (attempt (Ship (configure_shipper w s) runID plan branch)) (\<lambda>r.
          case r of
            Inl e \<Rightarrow>
              bindE (updatePlanState w runID (pe_id plan) ''failed'') (\<lambda>_.
              ret (out, Some (Wrapf ''plan %d ship: %w'' [itoa (pe_id plan)] e)))
          | Inr sr \<Rightarrow>
              bindE (updatePlanBranchAndPR w runID (pe_id plan) branch (sx_PRURL sr)) (\<lambda>_.
              ret (out\<lparr>rx_ShipResult := Some sr\<rparr>, None))))"

definition RunPhasesForPlan ::
    "prd_workflow \<Rightarrow> ident \<Rightarrow> plan_entry \<Rightarrow> inputs \<Rightarrow> (phases_result \<times> goerr option) prog" where
  "RunPhasesForPlan w runID plan ins =
     (case wf_PhaseExecutor w of
        None \<Rightarrow> raise (Errorf ''build-from-prd: PhaseExecutor is required for RunPhasesForPlan'' [])
      | Some e0 \<Rightarrow>
          let e = configure w e0 in
          bindE (createPlan w runID plan) (\<lambda>_.
          bindE (updatePlanState w runID (pe_id plan) ''running'') (\<lambda>_.
          bindE (run_phases w e runID plan ins 0 (pe_phases plan) []) (\<lambda>(rs, ended).
          case ended of
            Phase_Error err \<Rightarrow> ret (phases_done rs, Some err)
          | Phase_Dirty i name attentionID \<Rightarrow>
              ret ((phases_done rs)\<lparr>rx_StoppedAtPhaseClean := True, rx_DirtyPhaseIndex := i, rx_DirtyPhaseName := name,
                rx_AttentionItemID := attentionID\<rparr>, None)
          | All_Clean \<Rightarrow>
              bindE (ship_plan w runID plan ins (phases_done rs)) (\<lambda>(out, o_e).
              case o_e of
                Some err \<Rightarrow> ret (out, Some err)
              | None \<Rightarrow> bindE (updatePlanState w runID (pe_id plan) ''done'') (\<lambda>_. ret (out, None)))))))"

end
