(* ===== verification/Dispatcher_Facts.thy ===== *)
theory Dispatcher_Facts
  imports Dispatcher
begin

text \<open>
  What a dispatch guarantees for every agent and supervisor: the retries are bounded, a role
  without the permission never reaches its agent, the final states of the job and the run, and
  the consistency of the tables.
\<close>

section \<open>Rules for the steps\<close>

lemma ignoring_raise: "bindE (ignoring n) (\<lambda>_. raise e) v = (Inl e, snd (n v))"
  by (simp add: bindE_def ignoring_def raise_def)

lemma or_fail_job_unfold:
  "or_fail_job i m w =
     (case fst (m w) of
        Inl e \<Rightarrow> (Inl e, snd (UpdateJobState i JobStateFailed (snd (m w))))
      | Inr x \<Rightarrow> (Inr x, snd (m w)))"
  by (simp add: or_fail_job_def bindE_attempt ignoring_raise ret_def split: sum.split)

lemma or_fail_job_run [run_simps]: "or_fail_job i m w = (Inr x, w') \<longleftrightarrow> m w = (Inr x, w')"
  by (cases "m w") (auto simp: or_fail_job_unfold split: sum.splits)

lemma or_fail_job_error: "fst (m w) = Inl e \<Longrightarrow> fst (or_fail_job i m w) = Inl e"
  by (simp add: or_fail_job_unfold)

lemma keeps_or_fail_job [keeps_intros]:
  "keeps P m \<Longrightarrow> keeps P (UpdateJobState i JobStateFailed) \<Longrightarrow> keeps P (or_fail_job i m)"
  unfolding or_fail_job_def by (intro keeps_intros)

lemma liftR_run [run_simps]: "liftR r w = (Inr x, w') \<longleftrightarrow> r = Inr x \<and> w' = w"
  by (auto simp: liftR_def run_simps split: sum.splits)

lemma keeps_liftR [keeps_intros]: "keeps P (liftR r)"
  unfolding liftR_def by (intro keeps_intros)

lemma keeps_bindE_res:
  assumes "keeps P m" and "\<And>x w w'. m w = (Inr x, w') \<Longrightarrow> keeps P (f x)"
  shows "keeps P (bindE m f)"
  unfolding keeps_def
proof (intro allI impI)
  fix w assume w: "P w"
  obtain r w1 where r: "m w = (r, w1)" by force
  with assms(1) w have w1: "P w1" by (metis keepsD snd_conv)
  show "P (snd (bindE m f w))"
  proof (cases r)
    case (Inl e)
    with r w1 show ?thesis by (simp add: bindE_def)
  next
    case (Inr x)
    with r assms(2) w1 show ?thesis by (simp add: bindE_def keepsD)
  qed
qed

section \<open>Retries\<close>

definition satisfied :: "attempt_result \<Rightarrow> bool" where
  "satisfied res \<longleftrightarrow> (case at_verdict res of None \<Rightarrow> True | Some v \<Rightarrow> sv_pass v)"

lemma supervise_run:
  assumes "supervise d r ro job o_p k m result ev w = (Inr res, w')"
  shows "(at_shouldRetry res \<longrightarrow> k < m) \<and> (\<not> at_shouldRetry res \<longrightarrow> satisfied res \<or> m \<le> k) \<and>
    (at_shouldRetry res \<longrightarrow> (\<exists>v. at_verdict res = Some v \<and> at_nextPrompt res = buildRetryFeedback v @ newline @ newline @ o_p))"
  using assms by (auto simp: supervise_def Let_def run_simps satisfied_def split: if_splits)

lemma run_job_run:
  assumes "run_job d r ro ag p o_p k m job w = (Inr res, w')"
  shows "(at_shouldRetry res \<longrightarrow> k < m) \<and> (\<not> at_shouldRetry res \<longrightarrow> satisfied res \<or> m \<le> k) \<and>
    (at_shouldRetry res \<longrightarrow> (\<exists>v. at_verdict res = Some v \<and> at_nextPrompt res = buildRetryFeedback v @ newline @ newline @ o_p))"
proof -
  from assms obtain result w1 where
    "(case di_Supervisor d of
       None \<Rightarrow> ret \<lparr>at_jobID = job_id job, at_result = result, at_verdict = None, at_nextPrompt = [], at_shouldRetry = False\<rparr>
     | Some evaluate \<Rightarrow> supervise d r ro job o_p k m result evaluate) w1 = (Inr res, w')"
    by (auto simp: run_job_def Let_def run_simps)
  then show ?thesis
    by (auto simp: run_simps satisfied_def dest: supervise_run split: option.splits)
qed

lemma executeAttempt_run:
  assumes "executeAttempt d r ro ag p o_p k m w = (Inr res, w')"
  shows "(at_shouldRetry res \<longrightarrow> k < m) \<and> (\<not> at_shouldRetry res \<longrightarrow> satisfied res \<or> m \<le> k) \<and>
    (at_shouldRetry res \<longrightarrow> (\<exists>v. at_verdict res = Some v \<and> at_nextPrompt res = buildRetryFeedback v @ newline @ newline @ o_p))"
proof -
  from assms obtain job w1 where "run_job d r ro ag p o_p k m job w1 = (Inr res, w')"
    by (auto simp: executeAttempt_def Let_def run_simps)
  then show ?thesis by (rule run_job_run)
qed

lemma attempt_loop_run:
  assumes "attempt_loop d ctx own r ro ag o_p m k p n w = (Inr x, w')"
  obtains res w1 where "ctx k = None" "executeAttempt d r ro ag p o_p k m w = (Inr res, w1)"
    "(if at_shouldRetry res then
        (if Suc k \<le> m then attempt_loop d ctx own r ro ag o_p m (Suc k) (at_nextPrompt res) (Suc n)
         else ret (res, Suc n)) else ret (res, n)) w1 = (Inr x, w')"
proof -
  have eq: "attempt_loop d ctx own r ro ag o_p m k p n =
     (case ctx k of
        Some e \<Rightarrow> raise e
      | None \<Rightarrow>
        bindE (attempt (executeAttempt d r ro ag p o_p k m)) (\<lambda>z.
        case z of
          Inl e \<Rightarrow> bindE (if own then ignoring (CompleteRun r RunStateFailed) else ret ()) (\<lambda>_. raise e)
        | Inr res \<Rightarrow>
            if at_shouldRetry res then
              (if Suc k \<le> m then attempt_loop d ctx own r ro ag o_p m (Suc k) (at_nextPrompt res) (Suc n)
               else ret (res, Suc n))
            else ret (res, n)))"
    by (rule attempt_loop.simps)
  obtain out w1 where ex: "executeAttempt d r ro ag p o_p k m w = (out, w1)" by force
  from assms have c: "ctx k = None" by (cases "ctx k") (auto simp: eq raise_def)
  show thesis
  proof (cases out)
    case (Inl e)
    with assms show thesis by (simp add: eq c bindE_attempt ex run_simps)
  next
    case (Inr res)
    with assms have "(if at_shouldRetry res then
        (if Suc k \<le> m then attempt_loop d ctx own r ro ag o_p m (Suc k) (at_nextPrompt res) (Suc n)
         else ret (res, Suc n)) else ret (res, n)) w1 = (Inr x, w')"
      by (simp only: eq c bindE_attempt ex option.case sum.case fst_conv snd_conv)
    with c ex Inr show thesis by (intro that) auto
  qed
qed

lemma attempt_loop_bound:
  assumes "attempt_loop d ctx own r ro ag o_p m k p n w = (Inr (res, n'), w')" and "k \<le> m"
  shows "n' \<le> n + (m - k) \<and> (satisfied res \<or> n' = n + (m - k))"
  using assms
proof (induction "m - k" arbitrary: k p n w)
  case 0
  from 0(2) obtain res1 w1 where ex: "executeAttempt d r ro ag p o_p k m w = (Inr res1, w1)"
    and rest: "(if at_shouldRetry res1 then
        (if Suc k \<le> m then attempt_loop d ctx own r ro ag o_p m (Suc k) (at_nextPrompt res1) (Suc n)
         else ret (res1, Suc n)) else ret (res1, n)) w1 = (Inr (res, n'), w')"
    by (rule attempt_loop_run)
  from executeAttempt_run [OF ex] rest 0 show ?case by (auto simp: run_simps)
next
  case (Suc j)
  from Suc.prems(1) obtain res1 w1 where ex: "executeAttempt d r ro ag p o_p k m w = (Inr res1, w1)"
    and rest: "(if at_shouldRetry res1 then
        (if Suc k \<le> m then attempt_loop d ctx own r ro ag o_p m (Suc k) (at_nextPrompt res1) (Suc n)
         else ret (res1, Suc n)) else ret (res1, n)) w1 = (Inr (res, n'), w')"
    by (rule attempt_loop_run)
  have k: "j = m - Suc k" "Suc k \<le> m" using Suc.hyps(2) by auto
  show ?case
  proof (cases "at_shouldRetry res1")
    case True
    with rest k have "attempt_loop d ctx own r ro ag o_p m (Suc k) (at_nextPrompt res1) (Suc n) w1 = (Inr (res, n'), w')"
      by simp
    from Suc.hyps(1) [OF k(1) this k(2)] k show ?thesis by linarith
  next
    case False
    with executeAttempt_run [OF ex] rest k show ?thesis by (auto simp: run_simps)
  qed
qed

section \<open>Jobs\<close>

definition adds_jobs :: "nat \<Rightarrow> 'a prog \<Rightarrow> bool" where
  "adds_jobs n m \<longleftrightarrow> (\<forall>w. length (t_jobs (wd_db (snd (m w)))) \<le> length (t_jobs (wd_db w)) + n)"

definition few_jobs :: "nat \<Rightarrow> db \<Rightarrow> bool" where
  "few_jobs b d \<longleftrightarrow> length (t_jobs d) \<le> b"

lemma few_jobs_frame [simp]:
  "few_jobs b (d\<lparr>t_events := x0\<rparr>) = few_jobs b d" "few_jobs b (d\<lparr>t_runs := x1\<rparr>) = few_jobs b d"
  "few_jobs b (d\<lparr>t_findings := x3\<rparr>) = few_jobs b d" "few_jobs b (d\<lparr>t_attention := x5\<rparr>) = few_jobs b d"
  "few_jobs b (d\<lparr>t_supervisor := x10\<rparr>) = few_jobs b d" "few_jobs b (d\<lparr>t_costs := x11\<rparr>) = few_jobs b d"
  "few_jobs b (d\<lparr>t_jobs := update_where P f (t_jobs d)\<rparr>) = few_jobs b d"
  "few_jobs b (add_event e d) = few_jobs b d"
  by (simp_all add: few_jobs_def add_event_def)

lemma keeps_few_jobs_write_row [keeps_intros]:
  "keeps (on_db (few_jobs b)) m \<Longrightarrow> keeps (on_db (few_jobs b)) (write_row ev m)"
  by (rule keeps_write_row) (auto dest!: insert_event_Inr)

lemma append_event_few_jobs [keeps_intros]: "keeps (on_db (few_jobs b)) (append_event r k c j)"
  by (rule keeps_append_event) (auto dest!: insert_event_Inr)

lemma RecordCost_few_jobs [keeps_intros]: "keeps (on_db (few_jobs b)) (RecordCost fadd r j s)"
  unfolding keeps_def on_db_def
proof (intro allI impI)
  fix w :: world assume "few_jobs b (wd_db w)"
  then show "few_jobs b (wd_db (snd (RecordCost fadd r j s w)))"
    by (cases rule: RecordCost_cases [of fadd r j s w]) (auto simp: cost_applied_def few_jobs_def add_event_def)
qed

lemma stores_few_jobs [keeps_intros]:
  "keeps (on_db (few_jobs b)) (CreateRun ru)" "keeps (on_db (few_jobs b)) (CompleteRun i st)"
  "keeps (on_db (few_jobs b)) (UpdateJobState i js)" "keeps (on_db (few_jobs b)) (RecordVerdict r j x)"
  "keeps (on_db (few_jobs b)) (InsertFinding sha f)" "keeps (on_db (few_jobs b)) (InsertAttention item)"
  unfolding CreateRun_def CompleteRun_def UpdateJobState_def RecordVerdict_def InsertFinding_def InsertAttention_def Let_def
  by (intro keeps_intros keeps_exec_unit;
      auto simp: insert_run_def update_run_def update_job_def insert_supervisor_def insert_finding_def
        insert_attention_def stmt_simps)+

lemma adds_jobs_0: "adds_jobs 0 m \<longleftrightarrow> (\<forall>b. keeps (on_db (few_jobs b)) m)"
  by (auto simp: adds_jobs_def keeps_def on_db_def few_jobs_def intro: le_trans)

lemma adds_jobs_bindE:
  assumes m: "adds_jobs a m" and f: "\<And>x. adds_jobs b (f x)"
  shows "adds_jobs (a + b) (bindE m f)"
  unfolding adds_jobs_def
proof
  fix w
  obtain r w1 where r: "m w = (r, w1)" by force
  with m have 1: "length (t_jobs (wd_db w1)) \<le> length (t_jobs (wd_db w)) + a"
    unfolding adds_jobs_def by (metis snd_conv)
  show "length (t_jobs (wd_db (snd (bindE m f w)))) \<le> length (t_jobs (wd_db w)) + (a + b)"
  proof (cases r)
    case (Inl e)
    with r 1 show ?thesis by (simp add: bindE_def)
  next
    case (Inr x)
    have "length (t_jobs (wd_db (snd (f x w1)))) \<le> length (t_jobs (wd_db w1)) + b"
      using f unfolding adds_jobs_def by blast
    with r Inr 1 show ?thesis by (simp add: bindE_def)
  qed
qed


lemma adds_jobs_ret: "adds_jobs 0 (ret x)"
  by (simp add: adds_jobs_def ret_def)

lemma adds_jobs_mono: "adds_jobs a m \<Longrightarrow> a \<le> b \<Longrightarrow> adds_jobs b m"
  unfolding adds_jobs_def by (meson add_left_mono le_trans)

lemma CreateJob_adds_one: "adds_jobs 1 (CreateJob j)"
  unfolding adds_jobs_def
proof
  fix w
  show "length (t_jobs (wd_db (snd (CreateJob j w)))) \<le> length (t_jobs (wd_db w)) + 1"
  proof -
    let ?w = "w\<lparr>wd_ids := Suc (wd_ids w)\<rparr>"
    obtain ev m where run: "CreateJob j w = write_row ev m ?w" and
      m: "m = bindE (gets wd_zone) (\<lambda>zone.
        bindE (exec (insert_job (j\<lparr>job_started_at := local_stamp zone (job_started_at j), job_ended_at := None\<rparr>)))
          (\<lambda>_. ret ()))"
      by (simp add: CreateJob_def bindE_new_id)
    have one: "length (t_jobs (wd_db w2)) \<le> length (t_jobs (wd_db w1)) + 1" if "m w1 = (Inr (), w2)" for w1 w2
      using that by (auto simp: m run_simps insert_job_def stmt_simps)
    from write_row_db [of ev m ?w] show ?thesis unfolding run
      by (auto simp: add_event_def dest!: one)
  qed
qed

section \<open>What every store operation keeps, a dispatch keeps\<close>

text \<open>The operations of the stores that a dispatch performs after its job row is created. Only the job store
  writes \<open>job.completed\<close> events.\<close>

locale store_invariant =
  fixes P :: "db \<Rightarrow> bool"
  assumes update_job: "keeps (on_db P) (UpdateJobState i js)"
    and complete_run: "keeps (on_db P) (CompleteRun i st)"
    and record_verdict: "keeps (on_db P) (RecordVerdict r i x)"
    and record_cost: "keeps (on_db P) (RecordCost fadd r i c)"
    and insert_finding: "keeps (on_db P) (InsertFinding sha f)"
    and insert_attention: "keeps (on_db P) (InsertAttention item)"
    and append: "kind \<noteq> EventJobCompleted \<Longrightarrow> keeps (on_db P) (append_event r kind corr payload)"
begin

lemmas ops = update_job complete_run record_verdict record_cost insert_finding insert_attention append

lemma checkPermission_keeps: "keeps (on_db P) (checkPermission d r ro b)"
  unfolding checkPermission_def Let_def by (cases "EvaluateAction (role_permissions ro) (bash_action (base_name b))")
    (auto intro!: keeps_intros ops)

lemma record_results_keeps: "keeps (on_db P) (record_results d r i v)"
  unfolding record_results_def by (intro keeps_intros ops)

lemma supervise_keeps:
  assumes "\<And>ctx. keeps (on_db P) (ev ctx)"
  shows "keeps (on_db P) (supervise d r ro job o_p k m result ev)"
  unfolding supervise_def Let_def by (intro keeps_intros ops record_results_keeps assms) simp_all

lemma run_job_keeps:
  assumes ag: "\<And>b j p. keeps (on_db P) (ag_Dispatch ag b j p)"
    and wait: "\<And>b j p w h w'. ag_Dispatch ag b j p w = (Inr h, w') \<Longrightarrow> keeps (on_db P) h"
    and ev: "\<And>ev ctx. di_Supervisor d = Some ev \<Longrightarrow> keeps (on_db P) (ev ctx)"
  shows "keeps (on_db P) (run_job d r ro ag p o_p k m job)"
proof -
  have cost: "keeps (on_db P) (case (c, s) of (Some fadd, Some y) \<Rightarrow> ignoring (RecordCost fadd r i y) | _ \<Rightarrow> ret ())"
    for c and s and i by (auto intro!: keeps_intros ops split: option.split)
  let ?fin = "\<lambda>result. case di_Supervisor d of
      None \<Rightarrow> ret \<lparr>at_jobID = job_id job, at_result = result, at_verdict = None, at_nextPrompt = [], at_shouldRetry = False\<rparr>
    | Some evaluate \<Rightarrow> supervise d r ro job o_p k m result evaluate"
  have fin: "keeps (on_db P) (?fin result)" for result
    by (cases "di_Supervisor d") (auto intro!: keeps_intros supervise_keeps ev)
  have launch: "keeps (on_db P) (bindE (wrapE ''dispatch agent: %w'' [] (or_fail_job i (ag_Dispatch ag b j p))) F)"
    if "\<And>h. keeps (on_db P) h \<Longrightarrow> keeps (on_db P) (F h)" for i b j F
    by (rule keeps_bindE_res) (auto intro!: keeps_intros ops ag that simp: run_simps dest: wait)
  show ?thesis
    unfolding run_job_def Let_def
    by (rule keeps_bindE, (intro keeps_intros ops)[1], rule keeps_bindE,
        (intro keeps_intros ops checkPermission_keeps)[1], rule launch)
      (intro keeps_bindE keeps_wrapE keeps_or_fail_job ops cost fin)
qed

lemma attempt_loop_keeps:
  assumes step: "\<And>k p. keeps (on_db P) (executeAttempt d r ro ag p o_p k m)"
  shows "keeps (on_db P) (attempt_loop d ctx own r ro ag o_p m k p n)"
proof (induction "m - k" arbitrary: k p n)
  case 0
  then show ?case
    by (subst attempt_loop.simps) (auto intro!: keeps_intros ops step split: option.split)
next
  case (Suc j)
  then show ?case
    by (subst attempt_loop.simps) (auto intro!: keeps_intros ops step split: option.split)
qed

lemma run_attempts_keeps:
  assumes step: "\<And>k p. keeps (on_db P) (executeAttempt d r ro (agentFor d ro) p o_p k (maxRetries d))"
  shows "keeps (on_db P) (run_attempts d ctx own r ro ins o_p)"
  unfolding run_attempts_def Let_def case_prod_beta persist_finding_def
  by (intro keeps_intros ops attempt_loop_keeps step)

end

interpretation consistent: store_invariant db_ok
  by unfold_locales (intro keeps_intros)+

interpretation few: store_invariant "few_jobs b" for b
  by unfold_locales (intro keeps_intros)+


text \<open>What the agents and the supervisor of a dispatcher are taken to keep.\<close>

definition well_behaved :: "(db \<Rightarrow> bool) \<Rightarrow> dispatcher \<Rightarrow> bool" where
  "well_behaved P d \<longleftrightarrow>
     (\<forall>ag \<in> insert (di_Agent d) (snd ` set (di_CLIAgents d)). \<forall>b j p.
        keeps (on_db P) (ag_Dispatch ag b j p) \<and>
        (\<forall>w h w'. ag_Dispatch ag b j p w = (Inr h, w') \<longrightarrow> keeps (on_db P) h)) \<and>
     (\<forall>ev ctx. di_Supervisor d = Some ev \<longrightarrow> keeps (on_db P) (ev ctx))"

lemma agentFor_in: "agentFor d ro \<in> insert (di_Agent d) (snd ` set (di_CLIAgents d))"
  by (auto simp: agentFor_def split: option.split dest: map_of_SomeD intro: rev_image_eqI)

lemma well_behaved_parts:
  assumes "well_behaved P d"
  shows "keeps (on_db P) (ag_Dispatch (agentFor d ro) b j p)"
    and "ag_Dispatch (agentFor d ro) b j p w = (Inr h, w') \<Longrightarrow> keeps (on_db P) h"
    and "di_Supervisor d = Some ev \<Longrightarrow> keeps (on_db P) (ev ctx)"
  using assms agentFor_in [of d ro] unfolding well_behaved_def by blast+

lemma executeAttempt_keeps_db_ok:
  assumes "well_behaved db_ok d"
  shows "keeps (on_db db_ok) (executeAttempt d r ro (agentFor d ro) p o_p k m)"
  unfolding executeAttempt_def Let_def
  by (intro keeps_intros consistent.run_job_keeps well_behaved_parts [OF assms])

lemma executeAttempt_adds_one:
  assumes "\<forall>b. well_behaved (few_jobs b) d"
  shows "adds_jobs 1 (executeAttempt d r ro (agentFor d ro) p o_p k m)"
proof -
  have run: "adds_jobs 0 (run_job d r ro (agentFor d ro) p o_p k m job)" for job
    unfolding adds_jobs_0 using assms by (intro allI few.run_job_keeps well_behaved_parts) auto
  have "adds_jobs 0 new_id" "adds_jobs 0 time_now" unfolding adds_jobs_0 by (intro allI keeps_intros)+
  moreover have "adds_jobs 1 (wrapE f as (CreateJob j))" for f as j
    using CreateJob_adds_one [of j] by (auto simp: adds_jobs_def wrapE_def split: prod.split sum.split) (metis snd_conv)+
  ultimately have "adds_jobs (0 + (0 + (1 + 0))) (executeAttempt d r ro (agentFor d ro) p o_p k m)"
    unfolding executeAttempt_def Let_def by (intro adds_jobs_bindE run)
  then show ?thesis by simp
qed

lemma adds_jobs_any: "adds_jobs 0 m \<Longrightarrow> adds_jobs n m"
  by (erule adds_jobs_mono) simp

lemma attempt_loop_adds:
  assumes step: "\<And>k p. adds_jobs 1 (executeAttempt d r ro ag p o_p k m)"
  shows "adds_jobs (1 + (m - k)) (attempt_loop d ctx own r ro ag o_p m k p n)"
proof (induction "m - k" arbitrary: k p n rule: less_induct)
  case less
  let ?cont = "\<lambda>z. case z of
      Inl e \<Rightarrow> bindE (if own then ignoring (CompleteRun r RunStateFailed) else ret ()) (\<lambda>_. raise e)
    | Inr res \<Rightarrow>
        if at_shouldRetry res then
          (if Suc k \<le> m then attempt_loop d ctx own r ro ag o_p m (Suc k) (at_nextPrompt res) (Suc n)
           else ret (res, Suc n))
        else ret (res, n)"
  have fail: "adds_jobs n (raise e)" "adds_jobs n (bindE (ignoring (CompleteRun r RunStateFailed)) (\<lambda>_. raise e))" for n e
    by (rule adds_jobs_any, unfold adds_jobs_0, intro allI keeps_intros)+
  have "adds_jobs (m - k) (attempt_loop d ctx own r ro ag o_p m (Suc k) p' n')" if "Suc k \<le> m" for p' n'
    using less [of "Suc k" p' n'] that by (simp add: Suc_diff_Suc)
  then have cont: "adds_jobs (m - k) (?cont z)" for z
    by (auto intro!: adds_jobs_any [OF adds_jobs_ret] fail split: sum.split)
  have "adds_jobs 1 (attempt (executeAttempt d r ro ag p o_p k m))"
    using step [where k = k and p = p] by (auto simp: adds_jobs_def attempt_def split: prod.split) (metis snd_conv)
  then have "adds_jobs (1 + (m - k)) (bindE (attempt (executeAttempt d r ro ag p o_p k m)) ?cont)"
    by (rule adds_jobs_bindE) (rule cont)
  moreover have "attempt_loop d ctx own r ro ag o_p m k p n =
      (case ctx k of Some e \<Rightarrow> raise e | None \<Rightarrow> bindE (attempt (executeAttempt d r ro ag p o_p k m)) ?cont)"
    by (rule attempt_loop.simps)
  ultimately show ?case by (cases "ctx k") (simp_all only: option.case fail)
qed

lemma run_attempts_adds:
  assumes "\<forall>b. well_behaved (few_jobs b) d"
  shows "adds_jobs (1 + maxRetries d) (run_attempts d ctx own r ro ins o_p)"
proof -
  have loop: "adds_jobs (1 + (maxRetries d - 0)) (attempt_loop d ctx own r ro (agentFor d ro) o_p (maxRetries d) 0 o_p 0)"
    by (rule attempt_loop_adds) (rule executeAttempt_adds_one [OF assms])
  have "adds_jobs (1 + (maxRetries d - 0) + 0) (run_attempts d ctx own r ro ins o_p)"
    unfolding run_attempts_def Let_def
    by (rule adds_jobs_bindE [OF loop], unfold adds_jobs_0 case_prod_beta persist_finding_def Let_def)
      (intro allI keeps_intros few.ops)
  then show ?thesis by simp
qed

lemma Orchestrate_adds:
  assumes "\<forall>b. well_behaved (few_jobs b) d"
  shows "adds_jobs (1 + maxRetries d) (Orchestrate d ctx input)"
proof -
  have "adds_jobs (0 + (0 + (0 + (0 + (0 + (1 + maxRetries d)))))) (Orchestrate d ctx input)"
    unfolding Orchestrate_def Let_def
    by (intro adds_jobs_bindE run_attempts_adds [OF assms]; unfold adds_jobs_0; intro allI keeps_intros)
  then show ?thesis by simp
qed

lemma Orchestrate_attempts:
  assumes "Orchestrate d ctx input w = (Inr res, w')"
  obtains own r ro o_p w1 where "run_attempts d ctx own r ro (in_Inputs input) o_p w1 = (Inr res, w')"
    "own = (in_RunID input = [])"
  using assms by (auto simp: Orchestrate_def Let_def run_simps)

lemma run_attempts_run:
  assumes "run_attempts d ctx own r ro ins o_p w = (Inr res, w')"
  obtains fin w1 w2 w3 where
    "attempt_loop d ctx own r ro (agentFor d ro) o_p (maxRetries d) 0 o_p 0 w = (Inr (fin, dx_RetryCount res), w1)"
    "dx_SupervisorVerdict res = at_verdict fin" "dx_ExitCode res = jr_exit_code (at_result fin)"
    "dx_JobID res = at_jobID fin" "dx_RunID res = r"
    "UpdateJobState (at_jobID fin) (final_state fin) w2 = (Inr (), w3)"
    "if own then CompleteRun r (if final_state fin = JobStateFailed then RunStateFailed else RunStateCompleted) w3 = (Inr (), w')
     else w' = w3"
proof -
  from assms obtain fin n w1 fs w2 w3 where
    1: "attempt_loop d ctx own r ro (agentFor d ro) o_p (maxRetries d) 0 o_p 0 w = (Inr (fin, n), w1)"
    and 2: "UpdateJobState (at_jobID fin) (final_state fin) w2 = (Inr (), w3)"
    and 3: "(if own then wrapE ''complete run: %w'' []
        (CompleteRun r (if final_state fin = JobStateFailed then RunStateFailed else RunStateCompleted)) else ret ()) w3 = (Inr (), w')"
    and res: "res = \<lparr>dx_RunID = r, dx_JobID = at_jobID fin, dx_Findings = fs, dx_Artifacts = jr_artifacts (at_result fin),
          dx_ExitCode = jr_exit_code (at_result fin), dx_SupervisorVerdict = at_verdict fin, dx_RetryCount = n\<rparr>"
    by (auto simp: run_attempts_def Let_def run_simps split: prod.splits)
  show thesis
  proof (rule that)
    show "if own then CompleteRun r (if final_state fin = JobStateFailed then RunStateFailed else RunStateCompleted) w3 = (Inr (), w')
       else w' = w3"
      using 3 by (cases own) (auto simp: run_simps)
  qed (use 1 2 res in simp_all)
qed

lemma Orchestrate_keeps_db_ok:
  assumes "well_behaved db_ok d"
  shows "keeps (on_db db_ok) (Orchestrate d ctx input)"
  unfolding Orchestrate_def Let_def
  by (intro keeps_intros consistent.run_attempts_keeps executeAttempt_keeps_db_ok assms)

text \<open>
  C1. Supervisor retries are bounded. However the agent and the supervisor behave, as long as
  they add no job rows themselves, a dispatch creates at most one job per attempt and makes at
  most \<open>maxRetries + 1\<close> attempts; the reported number of retries is at most \<open>maxRetries\<close>, and a
  result whose verdict does not pass has used all of them.
\<close>

theorem orchestrate_bounded:
  assumes "\<forall>b. well_behaved (few_jobs b) d"
  shows "length (t_jobs (wd_db (snd (Orchestrate d ctx input w)))) \<le> length (t_jobs (wd_db w)) + maxRetries d + 1 \<and>
    (\<forall>res. fst (Orchestrate d ctx input w) = Inr res \<longrightarrow>
       dx_RetryCount res \<le> maxRetries d \<and>
       (\<forall>v. dx_SupervisorVerdict res = Some v \<and> \<not> sv_pass v \<longrightarrow> dx_RetryCount res = maxRetries d))"
proof (intro conjI allI impI)
  show "length (t_jobs (wd_db (snd (Orchestrate d ctx input w)))) \<le> length (t_jobs (wd_db w)) + maxRetries d + 1"
    using Orchestrate_adds [OF assms] by (simp add: adds_jobs_def)
next
  fix res assume "fst (Orchestrate d ctx input w) = Inr res"
  then obtain own r ro o_p w1 w' where "run_attempts d ctx own r ro (in_Inputs input) o_p w1 = (Inr res, w')"
    using Orchestrate_attempts by (metis prod.collapse)
  then obtain fin w2 where l: "attempt_loop d ctx own r ro (agentFor d ro) o_p (maxRetries d) 0 o_p 0 w1 = (Inr (fin, dx_RetryCount res), w2)"
    and v: "dx_SupervisorVerdict res = at_verdict fin"
    by (rule run_attempts_run)
  from attempt_loop_bound [OF l] show "dx_RetryCount res \<le> maxRetries d" by simp
  fix v assume "dx_SupervisorVerdict res = Some v \<and> \<not> sv_pass v"
  with attempt_loop_bound [OF l] show "dx_RetryCount res = maxRetries d" by (simp add: v satisfied_def)
qed

text \<open>An agent that answers at once and a supervisor that is never content.\<close>

definition sample_agent :: agent where
  "sample_agent = \<lparr>ag_basename = Some ''codex'', ag_Dispatch = (\<lambda>b j p. ret (ret
     \<lparr>jr_findings = [], jr_artifacts = [], jr_exit_code = 0, jr_stdout = p, jr_stderr = [], jr_cost = None\<rparr>))\<rparr>"

definition sample_dispatcher :: dispatcher where
  "sample_dispatcher = \<lparr>di_env = \<lparr>re_read = (\<lambda>_. Inr []), re_role = (\<lambda>_. Inr (sample_role ''developer'')),
       re_parse = (\<lambda>_ _. Inr (\<lambda>_. Inr ''prompt''))\<rparr>,
     di_RoleDir = ''roles'', di_PromptDir = ''prompts'', di_Agent = sample_agent, di_CLIAgents = [],
     di_Supervisor = Some (\<lambda>_. ret \<lparr>sv_pass = False, sv_results = []\<rparr>), di_SupervisorWriter = True,
     di_CostWriter = None, di_MaxRetries = 2, di_WorkDir = [], di_Policy = None, di_AttentionStore = True,
     di_sha = (\<lambda>_. ''x'')\<rparr>"

lemma sample_well_behaved: "well_behaved P sample_dispatcher"
  by (auto simp: well_behaved_def sample_dispatcher_def sample_agent_def run_simps intro!: keeps_intros)

lemma orchestrate_bounded_witness:
  "length (t_jobs (wd_db (snd (Orchestrate sample_dispatcher (\<lambda>_. None)
     \<lparr>in_RoleName = ''developer'', in_Inputs = [], in_RunID = ''r1''\<rparr> (world_with empty_db (\<lambda>_. None)))))) \<le> 3"
proof -
  have "maxRetries sample_dispatcher = 2" by (simp add: maxRetries_def sample_dispatcher_def)
  moreover have "t_jobs (wd_db (world_with empty_db (\<lambda>_. None))) = []" by (simp add: world_with_def empty_db_def)
  ultimately show ?thesis
    using orchestrate_bounded [of sample_dispatcher "\<lambda>_. None"
        "\<lparr>in_RoleName = ''developer'', in_Inputs = [], in_RunID = ''r1''\<rparr>" "world_with empty_db (\<lambda>_. None)"]
    by (simp add: sample_well_behaved)
qed

section \<open>Permission\<close>

lemma checkPermission_denies:
  assumes "EvaluateAction (role_permissions ro) (bash_action (base_name b)) \<noteq> PermDecisionAllow"
    and "\<not> (EvaluateAction (role_permissions ro) (bash_action (base_name b)) = PermDecisionUndeclared \<and> on_undeclared d = ''warn'')"
  shows "\<exists>e. fst (checkPermission d r ro b w) = Inl e"
  using assms
  by (cases "EvaluateAction (role_permissions ro) (bash_action (base_name b))")
    (auto simp: checkPermission_def Let_def bindE_new_id bindE_attempt raise_def
      simp del: sprintf.simps split: sum.split)

text \<open>Whatever follows a denied permission check does not run.\<close>

definition stop_at :: "'a prog \<Rightarrow> 'b prog" where
  "stop_at m = (\<lambda>w. case m w of (Inl e, w') \<Rightarrow> (Inl e, w') | (Inr _, w') \<Rightarrow> (Inl ErrNoRows, w'))"

lemma denied_stops:
  assumes "\<And>w. \<exists>e. fst (checkPermission d r ro b w) = Inl e"
  shows "bindE (or_fail_job i (checkPermission d r ro b)) F = stop_at (or_fail_job i (checkPermission d r ro b))"
proof
  fix w
  from assms obtain e where "fst (checkPermission d r ro b w) = Inl e" by blast
  then have "fst (or_fail_job i (checkPermission d r ro b) w) = Inl e" by (rule or_fail_job_error)
  then show "bindE (or_fail_job i (checkPermission d r ro b)) F w = stop_at (or_fail_job i (checkPermission d r ro b)) w"
    by (auto simp: bindE_def stop_at_def split: prod.splits)
qed

text \<open>
  C12. A role without the permission never reaches its agent. When the permission lists of the
  role do not allow the agent's binary, and the policy does not wave undeclared actions through,
  an attempt fails and is the same whatever the agent's \<open>Dispatch\<close> and \<open>Wait\<close> would do.
\<close>

theorem denied_agent_never_runs:
  assumes "ag_basename ag = Some b" and "b \<noteq> []"
    and "EvaluateAction (role_permissions ro) (bash_action (base_name b)) \<noteq> PermDecisionAllow"
    and "\<not> (EvaluateAction (role_permissions ro) (bash_action (base_name b)) = PermDecisionUndeclared \<and> on_undeclared d = ''warn'')"
  shows "executeAttempt d r ro ag p o_p k m = executeAttempt d r ro (ag\<lparr>ag_Dispatch := launch\<rparr>) p o_p k m \<and>
    (\<exists>e. fst (executeAttempt d r ro ag p o_p k m w) = Inl e)"
proof
  note stops = denied_stops [OF checkPermission_denies [OF assms(3,4)]]
  show "executeAttempt d r ro ag p o_p k m = executeAttempt d r ro (ag\<lparr>ag_Dispatch := launch\<rparr>) p o_p k m"
    unfolding executeAttempt_def run_job_def Let_def using assms(1,2) by (simp add: stops)
  show "\<exists>e. fst (executeAttempt d r ro ag p o_p k m w) = Inl e"
  proof (cases "fst (executeAttempt d r ro ag p o_p k m w)")
    case (Inr res)
    then have "executeAttempt d r ro ag p o_p k m w = (Inr res, snd (executeAttempt d r ro ag p o_p k m w))"
      by (simp add: prod_eq_iff)
    then obtain jobID w1 w2 where "checkPermission d r ro b w1 = (Inr (), w2)"
      using assms(1,2) by (auto simp: executeAttempt_def run_job_def Let_def run_simps)
    with checkPermission_denies [OF assms(3,4), of r w1] show ?thesis by simp
  qed blast
qed


lemma denied_agent_never_runs_witness:
  "\<exists>e. fst (executeAttempt sample_dispatcher ''r1'' (sample_role ''developer'')
     (sample_agent\<lparr>ag_basename := Some ''/usr/bin/bash''\<rparr>) ''p'' ''p'' 0 2 (world_with empty_db (\<lambda>_. None))) = Inl e"
proof -
  have b: "base_name ''/usr/bin/bash'' = ''bash''"
    by (simp add: base_name_def Let_def trim_right_by_def)
  have m: "\<not> MatchPermission \<lparr>perm_kind = ''bash'', perm_subject = ''codex'', perm_raw = ''bash:codex''\<rparr> (bash_action ''bash'')"
    by (simp add: MatchPermission_def bash_action_def EqualFold_def lower_ascii_def is_upper_def ord_def)
  have p: "ParsePermission ''bash:codex'' = Inr \<lparr>perm_kind = ''bash'', perm_subject = ''codex'', perm_raw = ''bash:codex''\<rparr>"
    by (simp add: ParsePermission_def validPermissionKinds_def kindsWithSubject_def)
  have "EvaluateAction (role_permissions (sample_role ''developer'')) (bash_action (base_name ''/usr/bin/bash'')) = PermDecisionUndeclared"
    by (simp add: b EvaluateAction_def sample_role_def p m)
  moreover have "on_undeclared sample_dispatcher = ''deny''" by (simp add: on_undeclared_def sample_dispatcher_def)
  ultimately show ?thesis
    using denied_agent_never_runs [of "sample_agent\<lparr>ag_basename := Some ''/usr/bin/bash''\<rparr>" "''/usr/bin/bash''"
        "sample_role ''developer''" sample_dispatcher] by simp
qed

section \<open>Final states\<close>

lemma write_row_ex:
  assumes "write_row ev m w = (Inr u, w')"
  shows "\<exists>w1 w2 e. wd_db w1 = add_event e (wd_db w) \<and> m w1 = (Inr (), w2) \<and> wd_db w' = wd_db w2"
  using assms by (rule write_row_run) blast

lemma UpdateJobState_run:
  assumes "UpdateJobState i st w = (Inr u, w')"
  shows "(\<exists>j. find_job i (wd_db w') = Some j \<and> job_state j = st) \<and> t_runs (wd_db w') = t_runs (wd_db w)"
proof -
  let ?f = "\<lambda>z now j. if terminal_job st then j\<lparr>job_state := st, job_ended_at := Some (local_stamp z now)\<rparr>
      else j\<lparr>job_state := st\<rparr>"
  let ?upd = "\<lambda>now. bindE (gets wd_zone) (\<lambda>z. bindE (exec (update_job i (?f z now))) (\<lambda>_. ret ()))"
  let ?now = "wd_clock w (wd_ticks w)"
  let ?w1 = "w\<lparr>wd_ticks := Suc (wd_ticks w), wd_calls := Suc (wd_calls w), wd_ids := Suc (wd_ids w)\<rparr>"
  have "\<exists>ev j. find_job i (wd_db w) = Some j \<and> write_row ev (?upd ?now) ?w1 = (Inr (), w')"
    using assms by (auto simp: UpdateJobState_def run_simps)
  then obtain ev j where j: "find_job i (wd_db w) = Some j" and run: "write_row ev (?upd ?now) ?w1 = (Inr (), w')"
    by blast
  from write_row_ex [OF run] have "\<exists>w2 w3 e. wd_db w2 = add_event e (wd_db w) \<and> ?upd ?now w2 = (Inr (), w3) \<and>
      wd_db w' = wd_db w3" by simp
  then obtain w2 w3 e where w2: "wd_db w2 = add_event e (wd_db w)" and upd: "?upd ?now w2 = (Inr (), w3)"
    and w3: "wd_db w' = wd_db w3" by blast
  have jobs: "t_jobs (wd_db w2) = t_jobs (wd_db w)" "t_runs (wd_db w2) = t_runs (wd_db w)"
    by (simp_all add: w2 add_event_def)
  from upd have w3': "t_jobs (wd_db w3) = update_where (\<lambda>j. job_id j = i) (?f (wd_zone w2) ?now) (t_jobs (wd_db w))"
    "t_runs (wd_db w3) = t_runs (wd_db w)"
    by (auto simp: run_simps update_job_def jobs)
  have "find (\<lambda>j. job_id j = i) (update_where (\<lambda>j. job_id j = i) (?f z now) js) =
      map_option (?f z now) (find (\<lambda>j. job_id j = i) js)" for z now and js :: "job list"
    by (induction js) (auto simp: update_where_def)
  with j show ?thesis by (simp add: find_job_def w3 w3')
qed

lemma ball_update_where:
  "(\<And>r. P r \<Longrightarrow> Q (f r)) \<Longrightarrow> (\<And>r. \<not> P r \<Longrightarrow> Q r) \<Longrightarrow> \<forall>r \<in> set (update_where P f rows). Q r"
  by (auto simp: set_update_where)

lemma CompleteRun_run:
  assumes "CompleteRun i st w = (Inr u, w')"
  shows "t_jobs (wd_db w') = t_jobs (wd_db w) \<and> (\<forall>r \<in> set (t_runs (wd_db w')). run_id r = i \<longrightarrow> run_state r = st)"
proof -
  let ?upd = "\<lambda>now. bindE (gets wd_zone) (\<lambda>z. bindE (exec (update_run i
       (\<lambda>r. r\<lparr>run_state := st, run_ended_at := Some (local_stamp z now)\<rparr>))) (\<lambda>_. ret ()))"
  let ?w1 = "w\<lparr>wd_ticks := Suc (wd_ticks w), wd_ids := Suc (wd_ids w)\<rparr>"
  have "\<exists>ev. write_row ev (?upd (wd_clock w (wd_ticks w))) ?w1 = (Inr (), w')"
    using assms by (simp add: CompleteRun_def bindE_time_now bindE_new_id exI)
  then obtain ev where run: "write_row ev (?upd (wd_clock w (wd_ticks w))) ?w1 = (Inr (), w')" by blast
  from write_row_ex [OF run] have "\<exists>w2 w3 e. wd_db w2 = add_event e (wd_db w) \<and>
      ?upd (wd_clock w (wd_ticks w)) w2 = (Inr (), w3) \<and> wd_db w' = wd_db w3" by simp
  then obtain w2 w3 e where w2: "wd_db w2 = add_event e (wd_db w)"
    and upd: "?upd (wd_clock w (wd_ticks w)) w2 = (Inr (), w3)" and w3: "wd_db w' = wd_db w3" by blast
  from upd have "t_jobs (wd_db w3) = t_jobs (wd_db w2)"
    "\<exists>f. t_runs (wd_db w3) = update_where (\<lambda>r. run_id r = i) (\<lambda>r. r\<lparr>run_state := st, run_ended_at := f\<rparr>) (t_runs (wd_db w2))"
    by (auto simp: run_simps update_run_def)
  then obtain f where runs: "t_runs (wd_db w') =
      update_where (\<lambda>r. run_id r = i) (\<lambda>r. r\<lparr>run_state := st, run_ended_at := f\<rparr>) (t_runs (wd_db w2))"
    and jobs: "t_jobs (wd_db w') = t_jobs (wd_db w2)" unfolding w3 by blast
  have "\<forall>r \<in> set (t_runs (wd_db w')). run_id r = i \<longrightarrow> run_state r = st"
    unfolding runs by (rule ball_update_where) simp_all
  then show ?thesis by (simp add: jobs w2 add_event_def)
qed

text \<open>
  C16. A dispatch that returns has settled its job and its run: the job of the last attempt is
  complete exactly when the agent exited with 0 and the last verdict, if any, passed, and failed
  otherwise; a run the dispatch created is completed or failed with it, and a run of the caller
  is left to the caller.
\<close>

theorem orchestrate_settles:
  assumes "Orchestrate d ctx input w = (Inr res, w')"
  shows "let good = (dx_ExitCode res = 0 \<and> (case dx_SupervisorVerdict res of None \<Rightarrow> True | Some v \<Rightarrow> sv_pass v)) in
    (\<exists>j. find_job (dx_JobID res) (wd_db w') = Some j \<and> job_state j = (if good then JobStateComplete else JobStateFailed)) \<and>
    (in_RunID input = [] \<longrightarrow> (\<forall>r \<in> set (t_runs (wd_db w')). run_id r = dx_RunID res \<longrightarrow>
       run_state r = (if good then RunStateCompleted else RunStateFailed)))"
proof -
  from assms obtain own r ro o_p w0 where att: "run_attempts d ctx own r ro (in_Inputs input) o_p w0 = (Inr res, w')"
    and own: "own = (in_RunID input = [])"
    by (rule Orchestrate_attempts)
  from att obtain fin w2 w3 where res: "dx_SupervisorVerdict res = at_verdict fin" "dx_ExitCode res = jr_exit_code (at_result fin)"
      "dx_JobID res = at_jobID fin" "dx_RunID res = r"
    and job: "UpdateJobState (at_jobID fin) (final_state fin) w2 = (Inr (), w3)"
    and run: "if own then CompleteRun r (if final_state fin = JobStateFailed then RunStateFailed else RunStateCompleted) w3 = (Inr (), w')
     else w' = w3"
    by (rule run_attempts_run)
  let ?good = "dx_ExitCode res = 0 \<and> (case dx_SupervisorVerdict res of None \<Rightarrow> True | Some v \<Rightarrow> sv_pass v)"
  have fin: "final_state fin = (if ?good then JobStateComplete else JobStateFailed)"
    by (auto simp: final_state_def res split: option.split)
  have jobs: "t_jobs (wd_db w') = t_jobs (wd_db w3)" using run by (auto split: if_splits dest: CompleteRun_run)
  have "\<exists>j. find_job (dx_JobID res) (wd_db w') = Some j \<and> job_state j = final_state fin"
    using UpdateJobState_run [OF job] by (simp add: find_job_def jobs res)
  moreover have "\<forall>x \<in> set (t_runs (wd_db w')). run_id x = dx_RunID res \<longrightarrow>
      run_state x = (if ?good then RunStateCompleted else RunStateFailed)" if "in_RunID input = []"
    using run that CompleteRun_run [of r _ w3 "()" w'] by (auto simp: own res(4) fin split: if_splits)
  ultimately show ?thesis unfolding Let_def fin by blast
qed

section \<open>Without faults\<close>

definition calm :: "world \<Rightarrow> bool" where
  "calm w \<longleftrightarrow> (\<forall>k. wd_faults w k = None) \<and> log_ok (wd_db w)"

definition same_source :: "world \<Rightarrow> world \<Rightarrow> bool" where
  "same_source w w' \<longleftrightarrow> wd_faults w' = wd_faults w \<and> wd_rnd w' = wd_rnd w \<and> wd_ids w' = wd_ids w"

lemma next_event_fits:
  assumes "log_ok d" and "ev_id ev \<notin> ev_id ` set (t_events d)" and "ev_idempotency_key ev = []"
    and "e = stored_event (ev\<lparr>ev_sequence := next_sequence (ev_run_id ev) d\<rparr>)"
  shows "insert_event e d = Inr (1, add_event e d) \<and> log_ok (add_event e d)"
proof -
  have "next_sequence (ev_run_id ev) d \<notin> ev_sequence ` {x \<in> set (t_events d). ev_run_id x = ev_run_id ev}"
  proof
    assume a: "next_sequence (ev_run_id ev) d \<in> ev_sequence ` {x \<in> set (t_events d). ev_run_id x = ev_run_id ev}"
    have "ev_sequence ` set (events_of (ev_run_id ev) d) = set [1..<Suc (length (events_of (ev_run_id ev) d))]"
      using assms(1) unfolding log_ok_def by (metis list.set_map)
    with a next_sequence_log_ok [OF assms(1)] show False by (auto simp: events_of_def)
  qed
  then have ins: "insert_event e d = Inr (1, add_event e d)"
    using assms(2,3) by (auto simp: insert_event_def assms(4))
  from insert_event_log_ok [OF assms(1) _ ins] ins show ?thesis by (simp add: assms(4))
qed

lemma write_row_ok:
  assumes w: "calm w" and new: "ev_id ev \<notin> ev_id ` set (t_events (wd_db w))" "ev_idempotency_key ev = []"
    and m: "\<And>w1 e. same_source w w1 \<Longrightarrow> wd_db w1 = add_event e (wd_db w) \<Longrightarrow> ev_id e = ev_id ev \<Longrightarrow> calm w1 \<Longrightarrow>
      \<exists>w2. m w1 = (Inr (), w2) \<and> same_source w w2 \<and> Q (wd_db w2)"
  shows "\<exists>w'. write_row ev m w = (Inr (), w') \<and> same_source w w' \<and> Q (wd_db w')"
proof -
  let ?e1 = "ev\<lparr>ev_sequence := next_sequence (ev_run_id ev) (wd_db w)\<rparr>"
  let ?e = "stored_event ?e1"
  from w have f: "wd_faults w k = None" for k by (simp add: calm_def)
  from next_event_fits [of "wd_db w" ev ?e] w new have ins: "insert_event ?e (wd_db w) = Inr (1, add_event ?e (wd_db w))"
    and log: "log_ok (add_event ?e (wd_db w))" by (auto simp: calm_def)
  let ?w1 = "w\<lparr>wd_calls := Suc (Suc (Suc (wd_calls w))), wd_db := add_event ?e (wd_db w)\<rparr>"
  from m [of ?w1 ?e] log w obtain w2 where m2: "m ?w1 = (Inr (), w2)" and s: "same_source w w2" and Q: "Q (wd_db w2)"
    by (auto simp: same_source_def calm_def)
  let ?w3 = "w2\<lparr>wd_calls := Suc (wd_calls w2)\<rparr>"
  have f2: "wd_faults w2 k = None" for k using s f by (simp add: same_source_def)
  have "in_tx ''commit: %w'' (write_body ev (Some m)) w = (Inr ?e1, ?w3)"
    using ins m2 f f2
    by (simp add: in_tx_def sql_def ret_def write_body_def bindE_def wrapE_def query_def gets_def exec_def Let_def)
  then have run: "write_row ev m w = (Inr (), snd (publish ?e1 ?w3))"
    by (simp add: write_row_def WriteEventThenRow_def bindE_def ret_def publish_def modify_def)
  have "same_source w (snd (publish ?e1 ?w3))"
    using s by (simp add: same_source_def publish_def modify_def)
  with run Q show ?thesis by (intro exI [of _ "snd (publish ?e1 ?w3)"]) simp
qed

text \<open>\<open>made w i w'\<close>: the step has written one event, with identifier \<open>i\<close>.\<close>

definition made :: "world \<Rightarrow> world \<Rightarrow> bool" where
  "made w w' \<longleftrightarrow> calm w' \<and> wd_rnd w' = wd_rnd w \<and> wd_ids w' = Suc (wd_ids w) \<and>
     ev_id ` set (t_events (wd_db w')) = insert (NewID (wd_rnd w) (wd_ids w)) (ev_id ` set (t_events (wd_db w)))"

definition fresh_event :: "world \<Rightarrow> bool" where
  "fresh_event w \<longleftrightarrow> NewID (wd_rnd w) (wd_ids w) \<notin> ev_id ` set (t_events (wd_db w))"

lemma CreateJob_ok:
  assumes w: "calm w" "fresh_event w" and run: "has_run (wd_db w) (job_run_id j)"
    and job: "job_id j \<notin> job_id ` set (t_jobs (wd_db w))"
  shows "\<exists>w'. CreateJob j w = (Inr (), w') \<and> made w w' \<and> (\<exists>x. find_job (job_id j) (wd_db w') = Some x \<and> job_run_id x = job_run_id j)"
proof -
  let ?i = "NewID (wd_rnd w) (wd_ids w)"
  let ?w = "w\<lparr>wd_ids := Suc (wd_ids w)\<rparr>"
  let ?j = "\<lambda>z. j\<lparr>job_started_at := local_stamp z (job_started_at j), job_ended_at := None\<rparr>"
  let ?m = "bindE (gets wd_zone) (\<lambda>zone. bindE (exec (insert_job (?j zone))) (\<lambda>_. ret ()))"
  let ?Q = "\<lambda>d. log_ok d \<and> ev_id ` set (t_events d) = insert ?i (ev_id ` set (t_events (wd_db w))) \<and>
      (\<exists>x. find_job (job_id j) d = Some x \<and> job_run_id x = job_run_id j)"
  have none: "find (\<lambda>k. job_id k = job_id j) (t_jobs (wd_db w)) = None"
    using job by (metis (mono_tags, lifting) find_None_iff image_eqI)
  obtain ev where ev: "CreateJob j w = write_row ev ?m ?w" "ev_id ev = ?i" "ev_idempotency_key ev = []"
    by (simp add: CreateJob_def bindE_new_id mk_event_def)
  have "\<exists>w'. write_row ev ?m ?w = (Inr (), w') \<and> same_source ?w w' \<and> ?Q (wd_db w')"
  proof (rule write_row_ok)
    show "calm ?w" using w(1) by (simp add: calm_def)
    show "ev_id ev \<notin> ev_id ` set (t_events (wd_db ?w))" using w(2) by (simp add: ev(2) fresh_event_def)
    show "ev_idempotency_key ev = []" by (rule ev(3))
    fix w1 e assume s: "same_source ?w w1" and d1: "wd_db w1 = add_event e (wd_db ?w)"
      and e: "ev_id e = ev_id ev" and c: "calm w1"
    let ?d = "(add_event e (wd_db w))\<lparr>t_jobs := t_jobs (wd_db w) @ [?j (wd_zone w1)]\<rparr>"
    have "insert_job (?j (wd_zone w1)) (wd_db w1) = Inr (1, ?d)"
      using run job by (simp add: insert_job_def d1 insert_into_def require_fk_def has_run_def add_event_def)
    then have "?m w1 = (Inr (), w1\<lparr>wd_calls := Suc (wd_calls w1), wd_db := ?d\<rparr>)"
      using c by (simp add: bindE_def gets_def exec_def sql_def calm_def ret_def Let_def)
    moreover have "find_job (job_id j) ?d = Some (?j (wd_zone w1))"
      using none by (simp add: find_job_def find_append)
    moreover have "log_ok ?d" using c by (simp add: calm_def d1)
    ultimately show "\<exists>w2. ?m w1 = (Inr (), w2) \<and> same_source ?w w2 \<and> ?Q (wd_db w2)"
      using s e ev(2) by (simp add: same_source_def add_event_def)
  qed
  then show ?thesis using w(1) unfolding ev(1) by (auto simp: made_def calm_def same_source_def)
qed

lemma UpdateJobState_ok:
  assumes w: "calm w" "fresh_event w" and job: "find_job i (wd_db w) = Some x"
  shows "\<exists>w'. UpdateJobState i st w = (Inr (), w') \<and> made w w' \<and> find_job i (wd_db w') \<noteq> None"
proof -
  let ?i = "NewID (wd_rnd w) (wd_ids w)"
  let ?w = "w\<lparr>wd_ticks := Suc (wd_ticks w), wd_calls := Suc (wd_calls w), wd_ids := Suc (wd_ids w)\<rparr>"
  let ?f = "\<lambda>z j. if terminal_job st then j\<lparr>job_state := st, job_ended_at := Some (local_stamp z (wd_clock w (wd_ticks w)))\<rparr>
      else j\<lparr>job_state := st\<rparr>"
  let ?m = "bindE (gets wd_zone) (\<lambda>zone. bindE (exec (update_job i (?f zone))) (\<lambda>_. ret ()))"
  let ?Q = "\<lambda>d. log_ok d \<and> ev_id ` set (t_events d) = insert ?i (ev_id ` set (t_events (wd_db w))) \<and> find_job i d \<noteq> None"
  let ?v = "w\<lparr>wd_ticks := Suc (wd_ticks w)\<rparr>"
  have q: "wrapE ''get run_id for job %q: %w'' [i] (query_row (\<lambda>d. map_option job_run_id (find_job i d))) ?v =
      (Inr (job_run_id x), ?v\<lparr>wd_calls := Suc (wd_calls w)\<rparr>)"
    using w(1) job by (simp add: wrapE_run query_row_run calm_def)
  have qb: "bindE (wrapE ''get run_id for job %q: %w'' [i] (query_row (\<lambda>d. map_option job_run_id (find_job i d)))) F ?v =
      F (job_run_id x) (?v\<lparr>wd_calls := Suc (wd_calls w)\<rparr>)" for F :: "ident \<Rightarrow> unit prog"
    using q by (simp add: bindE_def)
  obtain ev where ev: "UpdateJobState i st w = write_row ev ?m ?w" "ev_id ev = ?i" "ev_idempotency_key ev = []"
    by (simp add: UpdateJobState_def bindE_time_now qb bindE_new_id mk_event_def)
  have "\<exists>w'. write_row ev ?m ?w = (Inr (), w') \<and> same_source ?w w' \<and> ?Q (wd_db w')"
  proof (rule write_row_ok)
    show "calm ?w" using w(1) by (simp add: calm_def)
    show "ev_id ev \<notin> ev_id ` set (t_events (wd_db ?w))" using w(2) by (simp add: ev(2) fresh_event_def)
    show "ev_idempotency_key ev = []" by (rule ev(3))
    fix w1 e assume s: "same_source ?w w1" and d1: "wd_db w1 = add_event e (wd_db ?w)"
      and e: "ev_id e = ev_id ev" and c: "calm w1"
    let ?d = "(add_event e (wd_db w))\<lparr>t_jobs := update_where (\<lambda>j. job_id j = i) (?f (wd_zone w1)) (t_jobs (wd_db w))\<rparr>"
    obtain n where "update_job i (?f (wd_zone w1)) (wd_db w1) = Inr (n, ?d)"
      by (simp add: update_job_def d1 add_event_def)
    then have "?m w1 = (Inr (), w1\<lparr>wd_calls := Suc (wd_calls w1), wd_db := ?d\<rparr>)"
      using c by (simp add: bindE_def gets_def exec_def sql_def calm_def ret_def Let_def)
    moreover have "find_job i ?d \<noteq> None"
      using job by (simp add: find_job_def find_update_where [where f = "?f (wd_zone w1)" and key = job_id])
    moreover have "log_ok ?d" using c by (simp add: calm_def d1)
    ultimately show "\<exists>w2. ?m w1 = (Inr (), w2) \<and> same_source ?w w2 \<and> ?Q (wd_db w2)"
      using s e ev(2) by (simp add: same_source_def add_event_def)
  qed
  then show ?thesis using w(1) unfolding ev(1) by (auto simp: made_def calm_def same_source_def)
qed

section \<open>A dispatch that settles\<close>

definition plain_dispatcher :: dispatcher where
  "plain_dispatcher = sample_dispatcher\<lparr>di_Supervisor := None\<rparr>"

definition plain_input :: dispatch_input where
  "plain_input = \<lparr>in_RoleName = ''developer'', in_Inputs = [(''diff_path'', ''d'')], in_RunID = ''r1''\<rparr>"

definition plain_world :: world where
  "plain_world = world_with (empty_db\<lparr>t_runs := [sample_run ''r1'']\<rparr>) (\<lambda>_. None)"

definition plain_result :: job_result where
  "plain_result = \<lparr>jr_findings = [], jr_artifacts = [], jr_exit_code = 0, jr_stdout = ''prompt'', jr_stderr = [], jr_cost = None\<rparr>"

lemma sample_role_allowed: "checkPermission plain_dispatcher r (sample_role ''developer'') ''codex'' = ret ()"
proof -
  have "base_name ''codex'' = ''codex''" by (simp add: base_name_def Let_def trim_right_by_def)
  moreover have "ParsePermission ''bash:codex'' = Inr \<lparr>perm_kind = ''bash'', perm_subject = ''codex'', perm_raw = ''bash:codex''\<rparr>"
    by (simp add: ParsePermission_def validPermissionKinds_def kindsWithSubject_def)
  ultimately show ?thesis
    by (simp add: checkPermission_def EvaluateAction_def sample_role_def MatchPermission_def bash_action_def EqualFold_def)
qed

lemma plain_orchestrate:
  "Orchestrate plain_dispatcher (\<lambda>_. None) plain_input w =
     run_attempts plain_dispatcher (\<lambda>_. None) False ''r1'' (sample_role ''developer'') [(''diff_path'', ''d'')] ''prompt'' w"
proof -
  have "LoadRole (di_env plain_dispatcher) (di_RoleDir plain_dispatcher) ''developer'' = Inr (sample_role ''developer'')"
    unfolding LoadRole_iff by (simp add: plain_dispatcher_def sample_dispatcher_def role_ok_def has_paths_def sample_role_def)
  moreover have "LoadPromptTemplate (di_env plain_dispatcher) d t = Inr (\<lambda>_. Inr ''prompt'')" for d t
    by (simp add: LoadPromptTemplate_def Let_def plain_dispatcher_def sample_dispatcher_def andThen_def wrapR_def)
  moreover have "missing_input (sample_role ''developer'') [(''diff_path'', ''d'')] = None"
    by (simp add: missing_input_def sample_role_def)
  ultimately show ?thesis
    by (simp add: Orchestrate_def plain_input_def liftR_def wrapE_def bindE_def ret_def RenderPrompt_def wrapR_def)
qed

lemma plain_attempt:
  obtains w1 i x where "executeAttempt plain_dispatcher ''r1'' (sample_role ''developer'') sample_agent ''prompt'' ''prompt'' 0 m plain_world =
      (Inr \<lparr>at_jobID = i, at_result = plain_result, at_verdict = None, at_nextPrompt = [], at_shouldRetry = False\<rparr>, w1)"
    "calm w1" "fresh_event w1" "find_job i (wd_db w1) = Some x"
proof -
  let ?w0 = "plain_world\<lparr>wd_ids := Suc 0, wd_ticks := Suc 0\<rparr>"
  let ?i = "NewID sample_rnd 0"
  let ?now = "wd_clock plain_world 0"
  let ?j = "attempt_job ?i ''r1'' (sample_role ''developer'') 0 ?now"
  have base: "calm plain_world" "wd_rnd plain_world = sample_rnd" "wd_ids plain_world = 0" "wd_ticks plain_world = 0"
    "t_events (wd_db plain_world) = []" "t_jobs (wd_db plain_world) = []" "has_run (wd_db plain_world) ''r1''"
    by (simp_all add: calm_def plain_world_def world_with_def empty_log_ok empty_db_def has_run_def sample_run_def)
       (simp add: log_ok_def events_of_def)
  have ev0: "ev_id ` set (t_events (wd_db ?w0)) = {}" by (simp add: base)
  have "\<exists>w1. CreateJob ?j ?w0 = (Inr (), w1) \<and> made ?w0 w1 \<and>
      (\<exists>x. find_job (job_id ?j) (wd_db w1) = Some x \<and> job_run_id x = job_run_id ?j)"
    using base by (intro CreateJob_ok) (simp_all add: calm_def fresh_event_def attempt_job_def)
  then obtain w1 x1 where c: "CreateJob ?j ?w0 = (Inr (), w1)" and m1: "made ?w0 w1"
    and x1: "find_job ?i (wd_db w1) = Some x1" by (auto simp: attempt_job_def)
  have e1: "ev_id ` set (t_events (wd_db w1)) = {NewID sample_rnd 1}" "wd_rnd w1 = sample_rnd" "wd_ids w1 = 2" "calm w1"
    using m1 by (simp_all add: made_def base)
  have "fresh_event w1" by (simp add: fresh_event_def e1 sample_ids)
  from UpdateJobState_ok [OF e1(4) this x1, of JobStateDispatched] obtain w2 x2 where
    u: "UpdateJobState ?i JobStateDispatched w1 = (Inr (), w2)" and m2: "made w1 w2" and x2: "find_job ?i (wd_db w2) = Some x2"
    by auto
  have e2: "ev_id ` set (t_events (wd_db w2)) = {NewID sample_rnd 2, NewID sample_rnd 1}" "wd_rnd w2 = sample_rnd" "wd_ids w2 = 3" "calm w2"
    using m2 by (simp_all add: made_def e1)
  have fresh: "fresh_event w2" by (simp add: fresh_event_def e2 sample_ids)
  have ag: "ag_basename sample_agent = Some ''codex''" "ag_Dispatch sample_agent b j ''prompt'' = ret (ret plain_result)" for b j
    by (simp_all add: sample_agent_def plain_result_def)
  have run: "run_job plain_dispatcher ''r1'' (sample_role ''developer'') sample_agent ''prompt'' ''prompt'' 0 m ?j w1 =
      (Inr \<lparr>at_jobID = ?i, at_result = plain_result, at_verdict = None, at_nextPrompt = [], at_shouldRetry = False\<rparr>, w2)"
  proof -
    have f': "or_fail_job k (ret y) = ret y" for k and y :: "job_result prog"
      by (rule ext) (simp add: or_fail_job_unfold ret_def)
    have f'': "or_fail_job k (ret y) = ret y" for k and y :: job_result
      by (rule ext) (simp add: or_fail_job_unfold ret_def)
    have f3: "or_fail_job k (ret y) = ret y" for k and y :: unit
      by (rule ext) (simp add: or_fail_job_unfold ret_def)
    have w': "wrapE g as (ret y) = ret y" for g as and y :: "job_result prog"
      by (rule ext) (simp add: wrapE_def ret_def)
    have w'': "wrapE g as (ret y) = ret y" for g as and y :: job_result
      by (rule ext) (simp add: wrapE_def ret_def)
    have d: "di_Supervisor plain_dispatcher = None" "di_CostWriter plain_dispatcher = None"
      by (simp_all add: plain_dispatcher_def sample_dispatcher_def)
    have "bindE (wrapE ''update job to dispatched: %w'' [] (UpdateJobState ?i JobStateDispatched)) F w1 = F () w2" for F :: "unit \<Rightarrow> attempt_result prog"
      using u by (simp add: bindE_def wrapE_def)
    then show ?thesis
      by (simp add: run_job_def Let_def attempt_job_def ag f' f'' f3 w' w'' d sample_role_allowed) (simp add: ret_def)
  qed
  have "executeAttempt plain_dispatcher ''r1'' (sample_role ''developer'') sample_agent ''prompt'' ''prompt'' 0 m plain_world =
      bindE (wrapE ''create job: %w'' [] (CreateJob ?j)) (\<lambda>_. run_job plain_dispatcher ''r1'' (sample_role ''developer'') sample_agent ''prompt'' ''prompt'' 0 m ?j) ?w0"
    by (simp add: executeAttempt_def bindE_new_id bindE_time_now base Let_def)
  also have "\<dots> = (Inr \<lparr>at_jobID = ?i, at_result = plain_result, at_verdict = None, at_nextPrompt = [], at_shouldRetry = False\<rparr>, w2)"
    using c run by (simp add: bindE_def wrapE_def)
  finally show thesis by (rule that [OF _ e2(4) fresh x2])
qed

lemma orchestrate_settles_witness:
  "\<exists>res w'. Orchestrate plain_dispatcher (\<lambda>_. None) plain_input plain_world = (Inr res, w') \<and>
     (\<exists>j. find_job (dx_JobID res) (wd_db w') = Some j \<and> job_state j = JobStateComplete)"
proof -
  have d: "agentFor plain_dispatcher (sample_role ''developer'') = sample_agent"
    by (simp add: agentFor_def plain_dispatcher_def sample_dispatcher_def)
  obtain w1 i x where a: "executeAttempt plain_dispatcher ''r1'' (sample_role ''developer'') sample_agent ''prompt'' ''prompt'' 0
        (maxRetries plain_dispatcher) plain_world =
      (Inr \<lparr>at_jobID = i, at_result = plain_result, at_verdict = None, at_nextPrompt = [], at_shouldRetry = False\<rparr>, w1)"
    and w1: "calm w1" "fresh_event w1" "find_job i (wd_db w1) = Some x"
    by (rule plain_attempt)
  from UpdateJobState_ok [OF w1, of JobStateComplete] obtain w2 where u: "UpdateJobState i JobStateComplete w1 = (Inr (), w2)" by auto
  have l: "attempt_loop plain_dispatcher (\<lambda>_. None) False ''r1'' (sample_role ''developer'') sample_agent ''prompt''
      (maxRetries plain_dispatcher) 0 ''prompt'' 0 plain_world =
      (Inr (\<lparr>at_jobID = i, at_result = plain_result, at_verdict = None, at_nextPrompt = [], at_shouldRetry = False\<rparr>, 0), w1)"
    by (subst attempt_loop.simps) (simp add: bindE_attempt a ret_def)
  have "\<exists>res. Orchestrate plain_dispatcher (\<lambda>_. None) plain_input plain_world = (Inr res, w2) \<and>
      dx_ExitCode res = 0 \<and> dx_SupervisorVerdict res = None"
    by (simp add: plain_orchestrate run_attempts_def d bindE_def l plain_result_def final_state_def u wrapE_def ret_def)
  then obtain res where r: "Orchestrate plain_dispatcher (\<lambda>_. None) plain_input plain_world = (Inr res, w2)"
    and "dx_ExitCode res = 0" "dx_SupervisorVerdict res = None" by blast
  with orchestrate_settles [OF r] show ?thesis by auto
qed

end
