(* ===== verification/Phase_Facts.thy ===== *)
theory Phase_Facts
  imports Phase_Loop Dispatcher_Facts
begin

text \<open>
  What a phase guarantees: the deduplication against its specification, the bound on the fix
  cycles, what a clean result means, and the number of jobs a phase can create.
\<close>

section \<open>Deduplication\<close>

definition first_seen :: "'a list \<Rightarrow> 'a list" where
  "first_seen xs = rev (remdups (rev xs))"

definition group_of :: "finding list \<Rightarrow> string \<Rightarrow> finding list" where
  "group_of fs k = filter (\<lambda>f. f_fingerprint f = k) fs"

definition merge_group :: "finding list \<Rightarrow> string \<Rightarrow> finding" where
  "merge_group fs k = (hd (group_of fs k))\<lparr>f_source_job_ids := concat (map job_source (group_of fs k))\<rparr>"

text \<open>The specification: one finding per fingerprint, in the order of the first reports, with the
  content of the first report and the jobs of all of them.\<close>

definition dedupe_spec :: "digest \<Rightarrow> finding list \<Rightarrow> finding list" where
  "dedupe_spec sha fs =
     (let gs = map (with_fingerprint sha) fs in map (merge_group gs) (first_seen (map f_fingerprint gs)))"

lemma first_seen_snoc: "first_seen (xs @ [x]) = (if x \<in> set xs then first_seen xs else first_seen xs @ [x])"
  by (simp add: first_seen_def)

lemma set_first_seen [simp]: "set (first_seen xs) = set xs"
  by (simp add: first_seen_def)

lemma distinct_first_seen [simp]: "distinct (first_seen xs)"
  by (simp add: first_seen_def)

lemma merge_group_snoc:
  "k \<in> f_fingerprint ` set fs \<Longrightarrow> merge_group (fs @ [f]) k =
     (if f_fingerprint f = k
      then (merge_group fs k)\<lparr>f_source_job_ids := concat (map job_source (group_of fs k)) @ job_source f\<rparr>
      else merge_group fs k)"
proof -
  assume "k \<in> f_fingerprint ` set fs"
  then have "group_of fs k \<noteq> []" by (auto simp: group_of_def filter_empty_conv)
  then show ?thesis by (simp add: merge_group_def group_of_def)
qed

lemma empty_group: "k \<notin> f_fingerprint ` set fs \<Longrightarrow> group_of fs k = []"
  unfolding group_of_def filter_empty_conv by blast

lemma merge_group_new:
  "f_fingerprint f \<notin> f_fingerprint ` set fs \<Longrightarrow> merge_group (fs @ [f]) (f_fingerprint f) = f\<lparr>f_source_job_ids := job_source f\<rparr>"
proof -
  assume "f_fingerprint f \<notin> f_fingerprint ` set fs"
  then have "group_of fs (f_fingerprint f) = []" by (rule empty_group)
  then show ?thesis by (simp add: merge_group_def group_of_def)
qed

definition dedupe_inv :: "finding list \<Rightarrow> finding list \<times> (string \<rightharpoonup> nat \<times> ident list) \<Rightarrow> bool" where
  "dedupe_inv gs st \<longleftrightarrow>
     (let ks = first_seen (map f_fingerprint gs) in
      fst st = map (merge_group gs) ks \<and>
      (\<forall>k. k \<notin> set ks \<longrightarrow> snd st k = None) \<and>
      (\<forall>i < length ks. snd st (ks ! i) = Some (i, concat (map job_source (group_of gs (ks ! i))))))"

lemma dedupe_step_inv:
  assumes inv: "dedupe_inv gs st"
  shows "dedupe_inv (gs @ [with_fingerprint sha f]) (dedupe_step sha f st)"
proof -
  obtain out seen where st: "st = (out, seen)" by force
  let ?g = "with_fingerprint sha f"
  let ?k = "f_fingerprint ?g"
  let ?ks = "first_seen (map f_fingerprint gs)"
  from inv have out: "out = map (merge_group gs) ?ks" and none: "\<And>k. k \<notin> set ?ks \<Longrightarrow> seen k = None"
    and some: "\<And>i. i < length ?ks \<Longrightarrow> seen (?ks ! i) = Some (i, concat (map job_source (group_of gs (?ks ! i))))"
    by (auto simp: dedupe_inv_def st Let_def)
  have grp: "group_of (gs @ [?g]) k = group_of gs k @ (if ?k = k then [?g] else [])" for k by (simp add: group_of_def)
  show ?thesis
  proof (cases "?k \<in> f_fingerprint ` set gs")
    case False
    then have ks: "first_seen (map f_fingerprint (gs @ [?g])) = ?ks @ [?k]" by (simp add: first_seen_snoc)
    have empty: "group_of gs ?k = []" using False by (rule empty_group)
    have step: "dedupe_step sha f st = (out @ [?g\<lparr>f_source_job_ids := job_source ?g\<rparr>], seen(?k \<mapsto> (length out, job_source ?g)))"
      using none [of ?k] False by (simp add: dedupe_step_def st Let_def)
    have old: "merge_group (gs @ [?g]) k = merge_group gs k" if "k \<in> set ?ks" for k
      using that False merge_group_snoc [of k gs ?g] by auto
    have new: "merge_group (gs @ [?g]) ?k = ?g\<lparr>f_source_job_ids := job_source ?g\<rparr>" by (rule merge_group_new [OF False])
    have neq: "?ks ! i \<noteq> ?k" if "i < length ?ks" for i using nth_mem [OF that] False by auto
    show ?thesis
      unfolding dedupe_inv_def Let_def ks step
      using old new none some neq neq [symmetric] by (auto simp: out nth_append grp empty less_Suc_eq)
  next
    case True
    then have ks: "first_seen (map f_fingerprint (gs @ [?g])) = ?ks" by (simp add: first_seen_snoc)
    from True have "?k \<in> set ?ks" by simp
    then obtain i where i: "i < length ?ks" "?ks ! i = ?k" by (metis in_set_conv_nth)
    let ?jobs = "concat (map job_source (group_of gs ?k))"
    have seen: "seen ?k = Some (i, ?jobs)" using some [OF i(1)] by (simp add: i(2))
    have at: "out ! i = merge_group gs ?k" "i < length out" using i by (simp_all add: out)
    have other: "j = i" if "j < length ?ks" "?ks ! j = ?k" for j
      using that i distinct_first_seen [of "map f_fingerprint gs"] by (metis nth_eq_iff_index_eq)
    have mg: "map (merge_group (gs @ [?g])) ?ks = out[i := (out ! i)\<lparr>f_source_job_ids := ?jobs @ job_source ?g\<rparr>]"
    proof (rule nth_equalityI)
      fix j assume "j < length (map (merge_group (gs @ [?g])) ?ks)"
      then have j: "j < length ?ks" by simp
      have m: "?ks ! j \<in> f_fingerprint ` set gs" using nth_mem [OF j] by simp
      show "map (merge_group (gs @ [?g])) ?ks ! j = out[i := (out ! i)\<lparr>f_source_job_ids := ?jobs @ job_source ?g\<rparr>] ! j"
      proof (cases "j = i")
        case True
        have "merge_group (gs @ [?g]) ?k = (merge_group gs ?k)\<lparr>f_source_job_ids := ?jobs @ job_source ?g\<rparr>"
          using merge_group_snoc [of ?k gs ?g] \<open>?k \<in> f_fingerprint ` set gs\<close> by simp
        then show ?thesis using i at by (simp add: True)
      next
        case False
        then have "?k \<noteq> ?ks ! j" using other [OF j] by metis
        then have "merge_group (gs @ [?g]) (?ks ! j) = merge_group gs (?ks ! j)"
          using merge_group_snoc [OF m, of ?g] by (simp only: if_False)
        then show ?thesis using j False by (simp add: out)
      qed
    qed (simp add: out)
    show ?thesis
    proof (cases "f_job_id ?g = []")
      case True
      then have src: "job_source ?g = []" by (simp add: job_source_def)
      have step: "dedupe_step sha f st = (out, seen)" using seen True by (simp add: dedupe_step_def st Let_def)
      have "merge_group gs ?k = (merge_group gs ?k)\<lparr>f_source_job_ids := ?jobs\<rparr>" by (simp add: merge_group_def)
      then have "map (merge_group (gs @ [?g])) ?ks = out"
        using mg at src by (simp add: list_update_id) (metis list_update_id)
      then show ?thesis unfolding dedupe_inv_def Let_def ks step
        using none some src by (auto simp: grp)
    next
      case False
      then have src: "job_source ?g = [f_job_id ?g]" by (simp add: job_source_def)
      have step: "dedupe_step sha f st =
          (out[i := (out ! i)\<lparr>f_source_job_ids := ?jobs @ job_source ?g\<rparr>], seen(?k \<mapsto> (i, ?jobs @ job_source ?g)))"
        using seen False by (simp add: dedupe_step_def st Let_def src)
      have 1: "(seen(?k \<mapsto> (i, ?jobs @ job_source ?g))) k = None" if "k \<notin> set ?ks" for k
        using none [OF that] that \<open>?k \<in> set ?ks\<close> by auto
      have 2: "(seen(?k \<mapsto> (i, ?jobs @ job_source ?g))) (?ks ! j) =
          Some (j, concat (map job_source (group_of (gs @ [?g]) (?ks ! j))))" if j: "j < length ?ks" for j
      proof (cases "?ks ! j = ?k")
        case True
        then show ?thesis using other [OF j] by (simp add: grp)
      next
        case False
        then show ?thesis using some [OF j] by (simp add: grp)
      qed
      show ?thesis unfolding dedupe_inv_def Let_def ks step fst_conv snd_conv
        using 1 2 mg by simp
    qed
  qed
qed

lemma fold_dedupe_inv:
  "dedupe_inv (map (with_fingerprint sha) fs) (fold (dedupe_step sha) fs ([], Map.empty))"
proof (induction fs rule: rev_induct)
  case Nil
  show ?case by (simp add: dedupe_inv_def first_seen_def)
next
  case (snoc f fs)
  from dedupe_step_inv [OF snoc] show ?case by simp
qed

text \<open>
  C18. The fan-in keeps exactly one finding per fingerprint, in the order of the first reports,
  with the content of the first report and, as its sources, the jobs of all the reports in order.
\<close>

theorem dedupe_refines_spec: "DedupeFindings sha fs = dedupe_spec sha fs"
  using fold_dedupe_inv [of sha fs] by (simp add: DedupeFindings_def dedupe_inv_def dedupe_spec_def Let_def)

section \<open>The fix cycles\<close>

lemma dedupe_inv_out:
  "DedupeFindings sha fs = map (merge_group (map (with_fingerprint sha) fs)) (first_seen (map f_fingerprint (map (with_fingerprint sha) fs)))"
  using fold_dedupe_inv [of sha fs] by (simp add: DedupeFindings_def dedupe_inv_def Let_def)

lemma dedupe_fingerprints: "distinct (map f_fingerprint (DedupeFindings sha fs))"
proof -
  let ?gs = "map (with_fingerprint sha) fs"
  have "f_fingerprint (merge_group ?gs k) = k" if "k \<in> set (first_seen (map f_fingerprint ?gs))" for k
  proof -
    from that have "group_of ?gs k \<noteq> []" by (auto simp: group_of_def filter_empty_conv)
    then have "hd (group_of ?gs k) \<in> set (group_of ?gs k)" by simp
    then show ?thesis by (auto simp: merge_group_def group_of_def)
  qed
  then have "map f_fingerprint (DedupeFindings sha fs) = first_seen (map f_fingerprint ?gs)"
    unfolding dedupe_inv_out map_map by (intro map_idI) simp
  then show ?thesis by simp
qed

lemma aggregate_from_eq:
  "aggregate_from a rs = \<lparr>ag_Findings = ag_Findings a @ concat (map dx_Findings rs),
     ag_Artifacts = ag_Artifacts a @ concat (map dx_Artifacts rs),
     ag_TestsPassed = (ag_TestsPassed a \<and> (\<forall>d\<in>set rs. dx_ExitCode d = 0))\<rparr>"
  by (induction rs arbitrary: a) auto

lemma dedupe_empty_iff: "DedupeFindings sha fs = [] \<longleftrightarrow> fs = []"
  by (simp add: dedupe_inv_out first_seen_def)

text \<open>
  The specification of the loop, over the results of the single jobs. \<open>cycle_ran\<close>: one cycle
  is the result of the developer followed by one result per reviewer and tester, each one what the
  dispatcher returned for that role, or the empty result of a role whose \<open>applies_when\<close> skips it.
  \<open>cycles_ran\<close>: every cycle but the last left something to fix, and the developer of the next one
  is told the findings of the one before.
\<close>

definition jobs_clean :: "dispatch_result list \<Rightarrow> bool" where
  "jobs_clean jobs \<longleftrightarrow> (\<forall>d\<in>set jobs. dx_ExitCode d = 0 \<and> dx_Findings d = [])"

definition open_findings :: "phase_executor \<Rightarrow> dispatch_result list \<Rightarrow> finding list" where
  "open_findings e jobs = dedupe_spec (pe_sha e) (concat (map dx_Findings jobs))"

definition job_of :: "phase_executor \<Rightarrow> ident \<Rightarrow> int \<Rightarrow> inputs \<Rightarrow> string \<Rightarrow> dispatch_result \<Rightarrow> bool" where
  "job_of e r x ins ro d \<longleftrightarrow>
     (if skips e x ro then d = empty_result
      else \<exists>s s'. pe_Orchestrate e \<lparr>in_RoleName = ro, in_Inputs = ins, in_RunID = r\<rparr> s = (Inr d, s'))"

definition cycle_ran ::
    "phase_executor \<Rightarrow> nat \<Rightarrow> ident \<Rightarrow> int \<Rightarrow> inputs \<Rightarrow> inputs \<Rightarrow> world \<Rightarrow> dispatch_result list \<Rightarrow> world \<Rightarrow> bool" where
  "cycle_ran e k r x ins devInputs s jobs s' \<longleftrightarrow>
     (\<exists>dev reviews t. jobs = dev # reviews \<and>
        pe_Orchestrate e \<lparr>in_RoleName = (if pe_DeveloperRole e = [] then ''developer'' else pe_DeveloperRole e),
          in_Inputs = devInputs, in_RunID = r\<rparr> s = (Inr dev, t) \<and>
        fanOut e k r x ins t = (Inr reviews, s') \<and>
        list_all2 (job_of e r x ins) (reviewerRoles e @ testerRoles e) reviews)"

fun cycles_ran ::
    "phase_executor \<Rightarrow> nat \<Rightarrow> ident \<Rightarrow> int \<Rightarrow> inputs \<Rightarrow> inputs \<Rightarrow> world \<Rightarrow> dispatch_result list list \<Rightarrow> world \<Rightarrow> bool" where
  "cycles_ran e k r x ins devInputs s [] s' \<longleftrightarrow> False"
| "cycles_ran e k r x ins devInputs s [jobs] s' \<longleftrightarrow> cycle_ran e k r x ins devInputs s jobs s'"
| "cycles_ran e k r x ins devInputs s (jobs # later) s' \<longleftrightarrow> \<not> jobs_clean jobs \<and>
     (\<exists>t. cycle_ran e k r x ins devInputs s jobs t \<and>
        cycles_ran e (Suc k) r x ins (put_input ''fix_feedback'' (BuildFindingFeedback (open_findings e jobs)) ins) t later s')"

lemma cycles_ran_Cons:
  "\<not> jobs_clean jobs \<Longrightarrow> cycle_ran e k r x ins devInputs s jobs t \<Longrightarrow>
   cycles_ran e (Suc k) r x ins (put_input ''fix_feedback'' (BuildFindingFeedback (open_findings e jobs)) ins) t later s' \<Longrightarrow>
   cycles_ran e k r x ins devInputs s (jobs # later) s'"
  by (cases later) auto

lemma jobs_clean_iff: "jobs_clean jobs \<longleftrightarrow> open_findings e jobs = [] \<and> (\<forall>d\<in>set jobs. dx_ExitCode d = 0)"
  by (auto simp: jobs_clean_def open_findings_def dedupe_refines_spec [symmetric] dedupe_empty_iff)

lemma forE_results:
  "forE xs f s = (Inr outs, s') \<Longrightarrow> list_all2 (\<lambda>x y. \<exists>t t'. f x t = (Inr y, t')) xs outs"
proof (induction xs arbitrary: s outs)
  case Nil
  then show ?case by (simp add: ret_def)
next
  case (Cons x xs)
  then show ?case by (auto simp: run_simps)
qed

lemma first_error_None: "first_error outs = None \<Longrightarrow> o1 \<in> set outs \<Longrightarrow> \<exists>y. o1 = Inr y"
  by (induction outs rule: first_error.induct) auto

lemma distinct_finish_order: "distinct (finish_order l n)" "set (finish_order l n) = {0..<n}"
  by (auto simp: finish_order_def Let_def)

text \<open>Whatever the order the goroutines finish in, result \<open>i\<close> is the one of task \<open>i\<close>.\<close>

lemma run_tasks_results:
  assumes "run_tasks (finish_order l n) task n s = (Inr outs, s')"
  shows "length outs = n \<and> (\<forall>i < n. \<exists>t t'. task i t = (Inr (outs ! i), t'))"
proof -
  let ?o = "finish_order l n"
  from assms obtain res u where f: "forE ?o (\<lambda>i. attempt (task i)) s = (Inr res, u)"
    and ok: "first_error res = None" and outs: "outs = map (\<lambda>i. projr (the (map_of (zip ?o res) i))) [0..<n]"
    by (auto simp: run_tasks_def bindE_run raise_def ret_def split: option.splits)
  note all = forE_results [OF f]
  have "\<exists>t t'. task i t = (Inr (outs ! i), t')" if i: "i < n" for i
  proof -
    have "i \<in> set ?o" using i distinct_finish_order(2) [of l n] by simp
    then obtain j where j: "j < length ?o" "?o ! j = i" by (metis in_set_conv_nth)
    have m: "map_of (zip ?o res) i = Some (res ! j)"
      using j distinct_finish_order(1) [of l n] list_all2_lengthD [OF all] by (metis map_of_zip_nth)
    obtain t t' where at: "attempt (task i) t = (Inr (res ! j), t')" using list_all2_nthD [OF all j(1)] j(2) by auto
    obtain y where y: "res ! j = Inr y" using first_error_None [OF ok] j list_all2_lengthD [OF all] by (metis nth_mem)
    from i m y have "outs ! i = y" by (simp add: outs)
    with at y show ?thesis by (auto simp: attempt_def split: prod.splits)
  qed
  then show ?thesis by (simp add: outs)
qed

lemma fan_task_job: "fan_task e r x ins ro t = (Inr d, t') \<Longrightarrow> job_of e r x ins ro d"
  by (auto simp: fan_task_def job_of_def run_simps wrapE_def split: if_splits prod.splits sum.splits) 

lemma fanOut_jobs:
  "fanOut e k r x ins s = (Inr reviews, s') \<Longrightarrow> list_all2 (job_of e r x ins) (reviewerRoles e @ testerRoles e) reviews"
  unfolding fanOut_def Let_def
  by (drule run_tasks_results) (auto simp: list_all2_conv_all_nth dest: fan_task_job)

lemma wrapE_Inr: "wrapE f as m s = (Inr x, t) \<longleftrightarrow> m s = (Inr x, t)"
  by (auto simp: wrapE_def split: prod.splits sum.splits)

lemma phase_cycle_ran:
  assumes "phase_cycle e k r p x ins devInputs s = (Inr (agg, deduped), s')"
  obtains jobs where "cycle_ran e k r x ins devInputs s jobs s'" "deduped = open_findings e jobs"
    "ag_Artifacts agg = concat (map dx_Artifacts jobs)" "ag_TestsPassed agg \<longleftrightarrow> (\<forall>d\<in>set jobs. dx_ExitCode d = 0)"
proof -
  from assms obtain dev reviews t where d: "pe_Orchestrate e
       \<lparr>in_RoleName = (if pe_DeveloperRole e = [] then defaultDeveloperRole else pe_DeveloperRole e),
        in_Inputs = devInputs, in_RunID = r\<rparr> s = (Inr dev, t)"
    and f: "fanOut e k r x ins t = (Inr reviews, s')" and agg: "agg = AggregateResults (dev # reviews)"
    and de: "deduped = DedupeFindings (pe_sha e) (ag_Findings agg)"
    by (auto simp: phase_cycle_def phase_error_def Let_def run_simps wrapE_Inr)
  have "cycle_ran e k r x ins devInputs s (dev # reviews) s'"
    using d f fanOut_jobs [OF f] unfolding cycle_ran_def defaultDeveloperRole_def by blast
  then show thesis
    by (rule that) (simp_all add: de agg AggregateResults_def aggregate_from_eq open_findings_def dedupe_refines_spec
        del: aggregate_from.simps)
qed

lemma runLoop_run:
  assumes "runLoop e r p x n ins k dev w = (Inr res, w')"
  obtains agg deduped w1 where "phase_cycle e k r p x ins dev w = (Inr (agg, deduped), w1)"
    "(let result = \<lparr>px_Findings = deduped, px_Artifacts = ag_Artifacts agg, px_TestsPassed = ag_TestsPassed agg,
                   px_FixCycles = k, px_Clean = True\<rparr> in
     if deduped = [] \<and> ag_TestsPassed agg then ret result
     else if k \<ge> maxFixCycles (pe_Policy e) then
       bindE (emitPhaseEvent r p x n EventPhaseClean
         [(''fix_cycles'', JInt (int k)), (''findings'', JInt (int (length deduped))),
          (''tests_passed'', JBool (ag_TestsPassed agg)), (''checkpoint'', JStr ''phase-clean'')]) (\<lambda>_.
       bindE (raise_checkpoint e r x n (maxFixCycles (pe_Policy e)) (length deduped)) (\<lambda>_.
       ret (result\<lparr>px_Clean := False\<rparr>)))
     else runLoop e r p x n ins (Suc k) (put_input ''fix_feedback'' (BuildFindingFeedback deduped) ins)) w1 = (Inr res, w')"
proof -
  obtain out w1 where c: "phase_cycle e k r p x ins dev w = (out, w1)" by force
  have eq: "runLoop e r p x n ins k dev w = (bindE (phase_cycle e k r p x ins dev) (\<lambda>(agg, deduped).
     let result = \<lparr>px_Findings = deduped, px_Artifacts = ag_Artifacts agg, px_TestsPassed = ag_TestsPassed agg,
                   px_FixCycles = k, px_Clean = True\<rparr> in
     if deduped = [] \<and> ag_TestsPassed agg then ret result
     else if k \<ge> maxFixCycles (pe_Policy e) then
       bindE (emitPhaseEvent r p x n EventPhaseClean
         [(''fix_cycles'', JInt (int k)), (''findings'', JInt (int (length deduped))),
          (''tests_passed'', JBool (ag_TestsPassed agg)), (''checkpoint'', JStr ''phase-clean'')]) (\<lambda>_.
       bindE (raise_checkpoint e r x n (maxFixCycles (pe_Policy e)) (length deduped)) (\<lambda>_.
       ret (result\<lparr>px_Clean := False\<rparr>)))
     else runLoop e r p x n ins (Suc k) (put_input ''fix_feedback'' (BuildFindingFeedback deduped) ins))) w"
    by (subst runLoop.simps) (rule refl)
  show thesis
  proof (cases out)
    case (Inl err)
    with assms c show thesis by (simp add: eq bindE_def)
  next
    case (Inr y)
    obtain agg deduped where y: "y = (agg, deduped)" by force
    show thesis
      by (rule that [of agg deduped w1]) (use assms c Inr y in \<open>simp_all only: eq bindE_def prod.case sum.case\<close>)
  qed
qed

lemma runLoop_cycles:
  assumes "runLoop e r p x n ins k dev w = (Inr res, w')" and "k \<le> maxFixCycles (pe_Policy e)"
  shows "\<exists>cycles t. cycles_ran e k r x ins dev w cycles t \<and> k + length cycles = Suc (px_FixCycles res) \<and>
     px_FixCycles res \<le> maxFixCycles (pe_Policy e) \<and> (px_Clean res \<longleftrightarrow> jobs_clean (last cycles)) \<and>
     (px_TestsPassed res \<longleftrightarrow> (\<forall>d\<in>set (last cycles). dx_ExitCode d = 0)) \<and>
     px_Findings res = open_findings e (last cycles) \<and> px_Artifacts res = concat (map dx_Artifacts (last cycles)) \<and>
     (px_Clean res \<or> px_FixCycles res = maxFixCycles (pe_Policy e))"
  using assms
proof (induction "maxFixCycles (pe_Policy e) - k" arbitrary: k dev w rule: less_induct)
  case less
  let ?m = "maxFixCycles (pe_Policy e)"
  from less.prems(1) obtain agg deduped w1 where c: "phase_cycle e k r p x ins dev w = (Inr (agg, deduped), w1)"
    and rest: "(let result = \<lparr>px_Findings = deduped, px_Artifacts = ag_Artifacts agg, px_TestsPassed = ag_TestsPassed agg,
                   px_FixCycles = k, px_Clean = True\<rparr> in
     if deduped = [] \<and> ag_TestsPassed agg then ret result
     else if k \<ge> maxFixCycles (pe_Policy e) then
       bindE (emitPhaseEvent r p x n EventPhaseClean
         [(''fix_cycles'', JInt (int k)), (''findings'', JInt (int (length deduped))),
          (''tests_passed'', JBool (ag_TestsPassed agg)), (''checkpoint'', JStr ''phase-clean'')]) (\<lambda>_.
       bindE (raise_checkpoint e r x n (maxFixCycles (pe_Policy e)) (length deduped)) (\<lambda>_.
       ret (result\<lparr>px_Clean := False\<rparr>)))
     else runLoop e r p x n ins (Suc k) (put_input ''fix_feedback'' (BuildFindingFeedback deduped) ins)) w1 = (Inr res, w')"
    by (rule runLoop_run)
  obtain jobs where j: "cycle_ran e k r x ins dev w jobs w1" "deduped = open_findings e jobs"
    "ag_Artifacts agg = concat (map dx_Artifacts jobs)" "ag_TestsPassed agg \<longleftrightarrow> (\<forall>d\<in>set jobs. dx_ExitCode d = 0)"
    by (rule phase_cycle_ran [OF c])
  have clean: "deduped = [] \<and> ag_TestsPassed agg \<longleftrightarrow> jobs_clean jobs" by (simp add: j jobs_clean_iff [of jobs e])
  show ?case
  proof (cases "jobs_clean jobs \<or> k \<ge> ?m")
    case True
    with rest clean j less.prems(2) show ?thesis
      by (intro exI [of _ "[jobs]"] exI [of _ w1]) (auto simp: Let_def run_simps split: if_splits)
  next
    case False
    then have "runLoop e r p x n ins (Suc k) (put_input ''fix_feedback'' (BuildFindingFeedback deduped) ins) w1 = (Inr res, w')"
      using rest unfolding clean Let_def by (simp only: if_False de_Morgan_disj)
    from less.hyps [OF _ this] False obtain cycles t where
      ih: "cycles_ran e (Suc k) r x ins (put_input ''fix_feedback'' (BuildFindingFeedback deduped) ins) w1 cycles t"
        "Suc k + length cycles = Suc (px_FixCycles res)" "px_FixCycles res \<le> ?m" "px_Clean res \<longleftrightarrow> jobs_clean (last cycles)"
        "px_TestsPassed res \<longleftrightarrow> (\<forall>d\<in>set (last cycles). dx_ExitCode d = 0)" "px_Findings res = open_findings e (last cycles)"
        "px_Artifacts res = concat (map dx_Artifacts (last cycles))" "px_Clean res \<or> px_FixCycles res = ?m"
      by (metis Suc_leI diff_less_mono2 lessI linorder_not_le)
    from ih(1) have "cycles \<noteq> []" by auto
    with ih cycles_ran_Cons [OF _ j(1)] False show ?thesis
      by (intro exI [of _ "jobs # cycles"] exI [of _ t]) (simp add: j(2))
  qed
qed

lemma open_findings_distinct: "distinct (map f_fingerprint (open_findings e jobs))"
  using dedupe_fingerprints by (simp add: open_findings_def dedupe_refines_spec [symmetric])

lemma Execute_run:
  assumes "fst (Execute e r p x n ins0 w) = Inr res"
    and "ins = put_input ''phase_index'' (itoa x) (put_input ''plan_id'' (itoa p) ins0)"
  obtains w' where "runLoop e r p x n ins 0 ins (snd (emitPhaseEvent r p x n EventPhaseStarted [] w)) = (Inr res, w')"
proof -
  obtain w1 where 1: "emitPhaseEvent r p x n EventPhaseStarted [] w = (Inr (), w1)"
    by (auto simp: emitPhaseEvent_def ignoring_def)
  from assms have "Execute e r p x n ins0 w = (Inr res, snd (Execute e r p x n ins0 w))" by (simp add: prod_eq_iff)
  then have "\<exists>w'. runLoop e r p x n ins 0 ins w1 = (Inr res, w')"
    by (auto simp: Execute_def Let_def assms(2) [symmetric] run_simps case_sum_run 1)
  then show thesis using that 1 by auto
qed


definition quiet_executor :: phase_executor where
  "quiet_executor = \<lparr>pe_Orchestrate = (\<lambda>input. ret empty_result), pe_order = (\<lambda>_. [2, 0]), pe_AttentionStore = True,
     pe_CheckpointWriter = True, pe_Policy = None, pe_DeveloperRole = [], pe_ReviewerRoles = None,
     pe_TesterRoles = None, pe_WorkDir = [], pe_RoleDir = [], pe_env = di_env sample_dispatcher,
     pe_tools = sample_tools, pe_sha = (\<lambda>_. ''x'')\<rparr>"

lemma quiet_fanOut: "fanOut quiet_executor k r x ins = ret [empty_result, empty_result, empty_result]"
proof -
  have roles: "reviewerRoles quiet_executor @ testerRoles quiet_executor = [''reviewer.arch'', ''reviewer.frontend'', ''tester'']"
    by (simp add: reviewerRoles_def testerRoles_def quiet_executor_def defaultReviewerRoles_def defaultTesterRoles_def)
  have ord: "finish_order (pe_order quiet_executor k) 3 = [2, 0, 1]"
    by (simp add: finish_order_def quiet_executor_def upt_rec Let_def)
  have task: "fan_task quiet_executor r x ins n = ret empty_result" for n
    by (rule ext) (simp add: fan_task_def skips_def quiet_executor_def wrapE_def ret_def)
  have att: "attempt (ret y) = ret (Inr y)" for y :: dispatch_result
    by (rule ext) (simp add: attempt_def ret_def)
  show ?thesis
    by (simp add: fanOut_def roles Let_def ord run_tasks_def task att numeral_3_eq_3 [symmetric] upt_rec)
qed

definition quiet_result :: phase_result where
  "quiet_result = \<lparr>px_Findings = [], px_Artifacts = [], px_TestsPassed = True, px_FixCycles = 0, px_Clean = True\<rparr>"

lemma quiet_Execute: "\<exists>w'. Execute quiet_executor r p x n ins w = (Inr quiet_result, w')"
proof -
  have cycle: "phase_cycle quiet_executor 0 r p x ins dev w = (Inr (\<lparr>ag_Findings = [], ag_Artifacts = [], ag_TestsPassed = True\<rparr>, []), w)"
    for ins dev w
  proof -
    have o: "pe_Orchestrate quiet_executor i = ret empty_result" for i by (simp add: quiet_executor_def)
    show ?thesis
      by (simp add: phase_cycle_def quiet_fanOut phase_error_def o wrapE_def bindE_def ret_def Let_def)
        (simp add: AggregateResults_def empty_result_def DedupeFindings_def)
  qed
  have loop: "runLoop quiet_executor r p x n ins 0 dev w = (Inr quiet_result, w)" for ins dev w
    by (subst runLoop.simps) (simp add: bindE_def cycle ret_def quiet_result_def)
  have emit: "emitPhaseEvent r p x n k es w = (Inr (), snd (emitPhaseEvent r p x n k es w))" for k es w
    by (simp add: emitPhaseEvent_def ignoring_def)
  show ?thesis
    unfolding Execute_def Let_def by (subst (1) bindE_def, subst emit)
      (simp add: bindE_attempt loop, simp add: bindE_def emitPhaseEvent_def ignoring_def ret_def)
qed


section \<open>How many jobs a phase can create\<close>

lemma adds_jobs_wrapE: "adds_jobs n m \<Longrightarrow> adds_jobs n (wrapE f as m)"
proof -
  have "wd_db (snd (wrapE f as m w)) = wd_db (snd (m w))" for w
    by (auto simp: wrapE_def split: prod.splits sum.splits)
  then show "adds_jobs n m \<Longrightarrow> adds_jobs n (wrapE f as m)" by (simp add: adds_jobs_def)
qed

lemma adds_jobs_attempt: "adds_jobs n m \<Longrightarrow> adds_jobs n (attempt m)"
proof -
  have "wd_db (snd (attempt m w)) = wd_db (snd (m w))" for w
    by (auto simp: attempt_def split: prod.splits)
  then show "adds_jobs n m \<Longrightarrow> adds_jobs n (attempt m)" by (simp add: adds_jobs_def)
qed

lemma adds_jobs_forE: "(\<And>x. adds_jobs n (f x)) \<Longrightarrow> adds_jobs (length xs * n) (forE xs f)"
proof (induction xs)
  case Nil
  show ?case by (simp add: adds_jobs_ret)
next
  case (Cons x xs)
  then have "adds_jobs (n + (length xs * n + 0)) (forE (x # xs) f)"
    unfolding forE.simps by (intro adds_jobs_bindE adds_jobs_ret) simp_all
  then show ?case by simp
qed

lemma quiet_steps_add_none:
  "adds_jobs 0 (emitPhaseEvent r p x n k es)" "adds_jobs 0 (emitJobSkippedEvent r ro)"
proof -
  show "adds_jobs 0 (emitPhaseEvent r p x n k es)" "adds_jobs 0 (emitJobSkippedEvent r ro)"
    unfolding adds_jobs_0 emitPhaseEvent_def emitJobSkippedEvent_def by (intro allI keeps_intros)+
qed

lemma CreateCheckpoint_few_jobs [keeps_intros]: "keeps (on_db (few_jobs b)) (CreateCheckpoint c)"
  unfolding CreateCheckpoint_def Let_def
  by (intro keeps_intros keeps_exec_unit; auto simp: insert_checkpoint_def stmt_simps few_jobs_def)

lemma raise_checkpoint_adds_none: "adds_jobs 0 (raise_checkpoint e r x n m k)"
  unfolding adds_jobs_0 raise_checkpoint_def by (intro allI keeps_intros)

lemma length_finish_order [simp]: "length (finish_order l n) = n"
proof -
  let ?first = "remdups (filter (\<lambda>i. i < n) l)"
  have "distinct (finish_order l n)" "set (finish_order l n) = {0..<n}"
    by (auto simp: finish_order_def Let_def)
  then show ?thesis by (metis card_atLeastLessThan diff_zero distinct_card)
qed

definition width :: "phase_executor \<Rightarrow> nat" where
  "width e = 1 + length (reviewerRoles e) + length (testerRoles e)"

lemma fan_task_adds:
  assumes dispatch: "\<And>input. adds_jobs J (pe_Orchestrate e input)"
  shows "adds_jobs J (fan_task e r x ins ro)"
proof -
  have "adds_jobs (0 + 0) (bindE (emitJobSkippedEvent r ro) (\<lambda>_. ret empty_result))"
    by (intro adds_jobs_bindE quiet_steps_add_none adds_jobs_ret)
  then have "adds_jobs J (bindE (emitJobSkippedEvent r ro) (\<lambda>_. ret empty_result))"
    using adds_jobs_any by simp
  then show ?thesis unfolding fan_task_def by (simp add: adds_jobs_wrapE [OF dispatch])
qed

lemma fanOut_adds:
  assumes dispatch: "\<And>input. adds_jobs J (pe_Orchestrate e input)"
  shows "adds_jobs ((length (reviewerRoles e) + length (testerRoles e)) * J) (fanOut e k r x ins)"
proof -
  let ?n = "length (reviewerRoles e) + length (testerRoles e)"
  let ?l = "finish_order (pe_order e k) ?n"
  let ?t = "\<lambda>i. fan_task e r x ins ((reviewerRoles e @ testerRoles e) ! i)"
  have fin: "adds_jobs 0 (case first_error outs of Some err \<Rightarrow> raise err
      | None \<Rightarrow> ret (map (\<lambda>i. projr (the (map_of (zip ?l outs) i))) [0..<?n]))" for outs :: "(goerr + dispatch_result) list"
    by (auto simp: adds_jobs_def raise_def ret_def split: option.split)
  have "adds_jobs (length ?l * J + 0) (run_tasks ?l ?t ?n)"
    unfolding run_tasks_def by (intro adds_jobs_bindE adds_jobs_forE adds_jobs_attempt fan_task_adds [OF dispatch] fin)
  then show ?thesis by (simp add: fanOut_def Let_def)
qed

lemma phase_cycle_adds:
  assumes dispatch: "\<And>input. adds_jobs J (pe_Orchestrate e input)"
  shows "adds_jobs (width e * J) (phase_cycle e k r p x ins dev)"
proof -
  have "adds_jobs (J + ((length (reviewerRoles e) + length (testerRoles e)) * J + 0)) (phase_cycle e k r p x ins dev)"
    unfolding phase_cycle_def phase_error_def Let_def
    by (intro adds_jobs_bindE adds_jobs_wrapE dispatch fanOut_adds [OF dispatch] adds_jobs_ret)
  then show ?thesis by (simp add: width_def algebra_simps)
qed

lemma runLoop_adds:
  assumes dispatch: "\<And>input. adds_jobs J (pe_Orchestrate e input)"
  shows "adds_jobs ((1 + (maxFixCycles (pe_Policy e) - k)) * (width e * J)) (runLoop e r p x n ins k dev)"
proof (induction "maxFixCycles (pe_Policy e) - k" arbitrary: k dev rule: less_induct)
  case less
  let ?m = "maxFixCycles (pe_Policy e)"
  let ?rest = "\<lambda>(agg, deduped).
     let result = \<lparr>px_Findings = deduped, px_Artifacts = ag_Artifacts agg, px_TestsPassed = ag_TestsPassed agg,
                   px_FixCycles = k, px_Clean = True\<rparr> in
     if deduped = [] \<and> ag_TestsPassed agg then ret result
     else if k \<ge> ?m then
       bindE (emitPhaseEvent r p x n EventPhaseClean
         [(''fix_cycles'', JInt (int k)), (''findings'', JInt (int (length deduped))),
          (''tests_passed'', JBool (ag_TestsPassed agg)), (''checkpoint'', JStr ''phase-clean'')]) (\<lambda>_.
       bindE (raise_checkpoint e r x n ?m (length deduped)) (\<lambda>_.
       ret (result\<lparr>px_Clean := False\<rparr>)))
     else runLoop e r p x n ins (Suc k) (put_input ''fix_feedback'' (BuildFindingFeedback deduped) ins)"
  have again: "adds_jobs ((?m - k) * (width e * J)) (runLoop e r p x n ins (Suc k) dev')" if "\<not> k \<ge> ?m" for dev'
    using less [of "Suc k" dev'] that by (simp add: Suc_diff_Suc)
  have open_cp: "adds_jobs N (bindE (emitPhaseEvent r p x n EventPhaseClean es) (\<lambda>_. bindE (raise_checkpoint e r x n m' l) (\<lambda>_. ret y)))"
    for N es m' l and y :: phase_result
  proof -
    have "adds_jobs (0 + (0 + 0)) (bindE (emitPhaseEvent r p x n EventPhaseClean es)
        (\<lambda>_. bindE (raise_checkpoint e r x n m' l) (\<lambda>_. ret y)))"
      by (intro adds_jobs_bindE quiet_steps_add_none raise_checkpoint_adds_none adds_jobs_ret)
    then show ?thesis by (simp add: adds_jobs_any)
  qed
  have "adds_jobs ((?m - k) * (width e * J)) (?rest z)" for z
    by (cases z) (simp add: Let_def again open_cp adds_jobs_any [OF adds_jobs_ret])
  then have "adds_jobs (width e * J + (?m - k) * (width e * J)) (bindE (phase_cycle e k r p x ins dev) ?rest)"
    by (intro adds_jobs_bindE phase_cycle_adds [OF dispatch])
  then show ?case by (subst runLoop.simps) (simp add: algebra_simps)
qed

lemma Execute_adds:
  assumes dispatch: "\<And>input. adds_jobs J (pe_Orchestrate e input)"
  shows "adds_jobs ((1 + maxFixCycles (pe_Policy e)) * (width e * J)) (Execute e r p x n ins)"
proof -
  let ?ins = "put_input ''phase_index'' (itoa x) (put_input ''plan_id'' (itoa p) ins)"
  have fin: "adds_jobs 0 (case z of
       Inl err \<Rightarrow> bindE (emitPhaseEvent r p x n EventPhaseFailed [(''error'', JStr (error_string err))]) (\<lambda>_. raise err)
     | Inr res \<Rightarrow> bindE (emitPhaseEvent r p x n EventPhaseCompleted
           [(''fix_cycles'', JInt (int (px_FixCycles res))), (''clean'', JBool (px_Clean res)),
            (''findings'', JInt (int (length (px_Findings res)))), (''tests_passed'', JBool (px_TestsPassed res))])
           (\<lambda>_. ret res))" for z
    unfolding adds_jobs_0 emitPhaseEvent_def by (cases z) (auto intro!: keeps_intros)
  have "adds_jobs (0 + ((1 + (maxFixCycles (pe_Policy e) - 0)) * (width e * J) + 0)) (Execute e r p x n ins)"
    unfolding Execute_def Let_def
    by (intro adds_jobs_bindE quiet_steps_add_none adds_jobs_attempt runLoop_adds [OF dispatch] fin)
  then show ?thesis by simp
qed

text \<open>
  C17. The work a phase can cause is bounded by the policy. With a dispatcher whose agents and
  supervisor add no job rows themselves, running a phase, whatever its roles report and however
  the fan-outs interleave, creates at most
  \<open>(fix cycles + 1) * (1 + reviewers + testers) * (retries + 1)\<close> jobs.
\<close>

theorem phase_job_bound:
  assumes "\<forall>b. well_behaved (few_jobs b) d"
    and "\<forall>input. \<exists>ctx. pe_Orchestrate e input = Orchestrate d ctx input"
  shows "length (t_jobs (wd_db (snd (Execute e r p x n ins w)))) \<le>
    length (t_jobs (wd_db w)) +
    (maxFixCycles (pe_Policy e) + 1) *
      ((1 + length (reviewerRoles e) + length (testerRoles e)) * (maxRetries d + 1))"
proof -
  have "adds_jobs (1 + maxRetries d) (pe_Orchestrate e input)" for input
    using assms(2) Orchestrate_adds [OF assms(1)] by metis
  from Execute_adds [OF this, of r p x n ins] show ?thesis by (simp add: adds_jobs_def width_def algebra_simps)
qed

definition dispatching_executor :: phase_executor where
  "dispatching_executor = quiet_executor\<lparr>pe_Orchestrate := Orchestrate sample_dispatcher (\<lambda>_. None)\<rparr>"

lemma phase_job_bound_witness:
  "length (t_jobs (wd_db (snd (Execute dispatching_executor ''r'' 1 0 ''setup'' [] (world_with empty_db (\<lambda>_. None)))))) \<le> 72"
proof -
  have "maxRetries sample_dispatcher = 2" by (simp add: maxRetries_def sample_dispatcher_def)
  moreover have "maxFixCycles (pe_Policy dispatching_executor) = 5"
    by (simp add: maxFixCycles_def dispatching_executor_def quiet_executor_def DefaultMaxFixCycles_def)
  moreover have "length (reviewerRoles dispatching_executor) = 2" "length (testerRoles dispatching_executor) = 1"
    by (simp_all add: reviewerRoles_def testerRoles_def dispatching_executor_def quiet_executor_def
        defaultReviewerRoles_def defaultTesterRoles_def)
  moreover have "t_jobs (wd_db (world_with empty_db (\<lambda>_. None))) = []" by (simp add: world_with_def empty_db_def)
  moreover have "\<forall>input. \<exists>ctx. pe_Orchestrate dispatching_executor input = Orchestrate sample_dispatcher ctx input"
    by (auto simp: dispatching_executor_def)
  ultimately show ?thesis
    using phase_job_bound [of sample_dispatcher dispatching_executor "''r''" 1 0 "''setup''" "[]" "world_with empty_db (\<lambda>_. None)"]
    by (simp add: sample_well_behaved)
qed

end
