(* ===== verification/Workflow_Facts.thy ===== *)
theory Workflow_Facts
  imports Workflow Phase_Facts
begin

text \<open>
  What the workflow of a plan guarantees: the phases run in order, the first one that fails or stays
  dirty ends the plan, and the shipper is reached only behind a clean last phase.
\<close>

section \<open>The phases\<close>

text \<open>The wiring of the executor is repeatable, although it writes through the pointer.\<close>

lemma configure_idem: "configure w (configure w e) = configure w e"
  by (auto simp: configure_def Let_def split: option.splits list.splits)

lemma configure_shipper_idem: "configure_shipper w (configure_shipper w s) = configure_shipper w s"
  by (simp add: configure_shipper_def)

lemma updatePlanState_returns: "\<exists>s'. updatePlanState w r n st s = (Inr (), s')"
  by (simp add: updatePlanState_def ignoring_def ret_def)

lemma createPlan_returns: "\<exists>s'. createPlan w r p s = (Inr (), s')"
  by (simp add: createPlan_def ignoring_def ret_def)

text \<open>The specification of the loop: result \<open>k\<close> is what running phase \<open>k\<close> of the plan, by its index and
  its name, returned in the world that phase \<open>k - 1\<close> left behind.\<close>

fun phases_ran ::
    "phase_executor \<Rightarrow> ident \<Rightarrow> plan_entry \<Rightarrow> inputs \<Rightarrow> nat \<Rightarrow> world \<Rightarrow> phase_result list \<Rightarrow> world \<Rightarrow> bool" where
  "phases_ran e runID plan ins i s [] s' \<longleftrightarrow> s' = s"
| "phases_ran e runID plan ins i s (res # rs) s' \<longleftrightarrow> i < length (pe_phases plan) \<and>
     (\<exists>t. Execute e runID (pe_id plan) (int i) (pe_phases plan ! i) ins s = (Inr res, t) \<and>
        phases_ran e runID plan ins (Suc i) t rs s')"

text \<open>What the loop returns, from phase \<open>i\<close> on, in the world \<open>t\<close> behind its last result.\<close>

definition ended_well ::
    "phase_executor \<Rightarrow> ident \<Rightarrow> plan_entry \<Rightarrow> inputs \<Rightarrow> nat \<Rightarrow> world \<Rightarrow> phase_result list \<Rightarrow> phases_end \<Rightarrow> bool" where
  "ended_well e runID plan ins i t rs ended \<longleftrightarrow>
     (let names = pe_phases plan; k = i + length rs in
      case ended of
        All_Clean \<Rightarrow> k = length names \<and> list_all px_Clean rs
      | Phase_Error err \<Rightarrow> k < length names \<and> list_all px_Clean rs \<and>
          (\<exists>cause. fst (Execute e runID (pe_id plan) (int k) (names ! k) ins t) = Inl cause \<and>
             err = Wrapf ''plan %d phase %d (%q): %w'' [itoa (pe_id plan), itoa (int k), names ! k] cause)
      | Phase_Dirty j name _ \<Rightarrow>
          rs \<noteq> [] \<and> list_all px_Clean (butlast rs) \<and> \<not> px_Clean (last rs) \<and> j = int k - 1 \<and> name = names ! (k - 1))"

lemma phases_ran_length: "phases_ran e runID plan ins i s rs s' \<Longrightarrow> rs = [] \<or> i + length rs \<le> length (pe_phases plan)"
  by (induction rs arbitrary: i s) fastforce+

lemma ended_well_Cons:
  "px_Clean res \<Longrightarrow> ended_well e runID plan ins (Suc i) t rs ended \<Longrightarrow> ended_well e runID plan ins i t (res # rs) ended"
  by (auto simp: ended_well_def Let_def split: phases_end.splits)

lemma run_phases_run:
  assumes "run_phases w e runID plan ins i names rs s = (Inr (out, ended), s')"
    and "names = drop i (pe_phases plan)" and "i \<le> length (pe_phases plan)"
  shows "\<exists>new t. out = rs @ new \<and> phases_ran e runID plan ins i s new t \<and> ended_well e runID plan ins i t new ended"
  using assms
proof (induction names arbitrary: i rs s)
  case Nil
  then show ?case by (intro exI [of _ "[]"]) (auto simp: ret_run ended_well_def)
next
  case (Cons name names)
  from Cons.prems(2) have i: "i < length (pe_phases plan)" "name = pe_phases plan ! i" "names = drop (Suc i) (pe_phases plan)"
    by (metis drop_all leI list.distinct(1), metis nth_via_drop, metis drop_Suc list.sel(3) tl_drop)
  obtain r s1 where ex: "Execute e runID (pe_id plan) (int i) name ins s = (r, s1)" by force
  show ?case
  proof (cases r)
    case (Inl err)
    with Cons.prems ex i show ?thesis by (intro exI [of _ "[]"]) (auto simp: run_simps ended_well_def)
  next
    case (Inr res)
    show ?thesis
    proof (cases "px_Clean res")
      case True
      with Cons.prems(1) ex Inr have "run_phases w e runID plan ins (Suc i) names (rs @ [res]) s1 = (Inr (out, ended), s')"
        by (simp add: bindE_attempt)
      from Cons.IH [OF this] i obtain new t where new: "out = rs @ res # new" "phases_ran e runID plan ins (Suc i) s1 new t"
        "ended_well e runID plan ins (Suc i) t new ended" by auto
      with True ex Inr i show ?thesis by (intro exI [of _ "res # new"] exI [of _ t]) (simp add: ended_well_Cons)
    next
      case False
      with Cons.prems ex Inr i show ?thesis
        by (intro exI [of _ "[res]"] exI [of _ s1]) (auto simp: run_simps ended_well_def)
    qed
  qed
qed

lemma ship_plan_run:
  assumes "ship_plan w runID plan ins out s = (Inr (out', o_e), s')" and "rx_ShipResult out = None"
  shows "rx_PhaseResults out' = rx_PhaseResults out \<and> rx_StoppedAtPhaseClean out' = rx_StoppedAtPhaseClean out \<and>
    (rx_ShipResult out' \<noteq> None \<longrightarrow> o_e = None \<and> wf_Shipper w \<noteq> None)"
  using assms
  by (cases "wf_Shipper w") (auto simp: ship_plan_def Let_def run_simps case_sum_run)

text \<open>The world the first phase starts in: the plan is recorded and marked as running.\<close>

definition plan_started :: "prd_workflow \<Rightarrow> ident \<Rightarrow> plan_entry \<Rightarrow> world \<Rightarrow> world" where
  "plan_started w runID plan s =
     snd (updatePlanState w runID (pe_id plan) ''running'' (snd (createPlan w runID plan s)))"

lemma RunPhasesForPlan_phases:
  assumes "RunPhasesForPlan w runID plan ins s = (Inr (out, o_e), s')"
  obtains e0 rs ended s2 where "wf_PhaseExecutor w = Some e0"
    "run_phases w (configure w e0) runID plan ins 0 (pe_phases plan) [] (plan_started w runID plan s) = (Inr (rs, ended), s2)"
    "case ended of
       Phase_Error err \<Rightarrow> out = phases_done rs \<and> o_e = Some err \<and> s' = s2
     | Phase_Dirty i name a \<Rightarrow> out = (phases_done rs)\<lparr>rx_StoppedAtPhaseClean := True, rx_DirtyPhaseIndex := i,
         rx_DirtyPhaseName := name, rx_AttentionItemID := a\<rparr> \<and> o_e = None \<and> s' = s2
     | All_Clean \<Rightarrow> \<exists>s3. ship_plan w runID plan ins (phases_done rs) s2 = (Inr (out, o_e), s3)"
proof -
  from assms obtain e0 where e0: "wf_PhaseExecutor w = Some e0"
    by (cases "wf_PhaseExecutor w") (auto simp: RunPhasesForPlan_def raise_def)
  obtain u1 u2 where u: "createPlan w runID plan s = (Inr (), u1)" "updatePlanState w runID (pe_id plan) ''running'' u1 = (Inr (), u2)"
    using updatePlanState_returns createPlan_returns by metis
  then have started: "plan_started w runID plan s = u2" by (simp add: plan_started_def)
  from assms e0 obtain rs ended s2 where
    run: "run_phases w (configure w e0) runID plan ins 0 (pe_phases plan) [] (plan_started w runID plan s) = (Inr (rs, ended), s2)"
    and cont: "(case ended of
            Phase_Error err \<Rightarrow> ret (phases_done rs, Some err)
          | Phase_Dirty i name attentionID \<Rightarrow>
              ret ((phases_done rs)\<lparr>rx_StoppedAtPhaseClean := True, rx_DirtyPhaseIndex := i, rx_DirtyPhaseName := name,
                rx_AttentionItemID := attentionID\<rparr>, None)
          | All_Clean \<Rightarrow>
              bindE (ship_plan w runID plan ins (phases_done rs)) (\<lambda>(out, o_e).
              case o_e of
                Some err \<Rightarrow> ret (out, Some err)
              | None \<Rightarrow> bindE (updatePlanState w runID (pe_id plan) ''done'') (\<lambda>_. ret (out, None)))) s2 = (Inr (out, o_e), s')"
    by (auto simp: RunPhasesForPlan_def Let_def bindE_run u started)
  show thesis
  proof (rule that [OF e0 run], cases ended)
    case All_Clean
    with cont show "case ended of
       Phase_Error err \<Rightarrow> out = phases_done rs \<and> o_e = Some err \<and> s' = s2
     | Phase_Dirty i name a \<Rightarrow> out = (phases_done rs)\<lparr>rx_StoppedAtPhaseClean := True, rx_DirtyPhaseIndex := i,
         rx_DirtyPhaseName := name, rx_AttentionItemID := a\<rparr> \<and> o_e = None \<and> s' = s2
     | All_Clean \<Rightarrow> \<exists>s3. ship_plan w runID plan ins (phases_done rs) s2 = (Inr (out, o_e), s3)"
      by (auto simp: bindE_run ret_run case_option_run)
  qed (use cont in \<open>simp_all add: ret_run\<close>)
qed

text \<open>
  C3. The phases of a plan run in order, each on the clean result of the one before. Result \<open>k\<close> is what
  phase \<open>k\<close> of the plan, run under its own index and name in the world the phases before it left, returned;
  every result but the last is clean. The plan is reported as stopped exactly when the last result is dirty,
  with the index and the name of that phase; when there are fewer results than phases and it is not stopped,
  the next phase, run in the world behind the last result, failed, and its error is the plan's. A pull
  request exists only for a plan whose phases have all run and are all clean.
\<close>

theorem plan_phases_in_order:
  assumes "RunPhasesForPlan w runID plan ins s = (Inr (out, o_e), s')"
    and "rs = rx_PhaseResults out" and "names = pe_phases plan"
  shows "\<exists>e0 t. wf_PhaseExecutor w = Some e0 \<and>
    phases_ran (configure w e0) runID plan ins 0 (plan_started w runID plan s) rs t \<and>
    length rs \<le> length names \<and> list_all px_Clean (butlast rs) \<and>
    (rx_StoppedAtPhaseClean out \<longleftrightarrow> rs \<noteq> [] \<and> \<not> px_Clean (last rs)) \<and>
    (rx_StoppedAtPhaseClean out \<longrightarrow> o_e = None \<and> rx_ShipResult out = None \<and>
       rx_DirtyPhaseIndex out = int (length rs) - 1 \<and> rx_DirtyPhaseName out = names ! (length rs - 1)) \<and>
    (\<not> rx_StoppedAtPhaseClean out \<and> length rs < length names \<longrightarrow>
       (\<exists>cause. fst (Execute (configure w e0) runID (pe_id plan) (int (length rs)) (names ! length rs) ins t) = Inl cause \<and>
          o_e = Some (Wrapf ''plan %d phase %d (%q): %w'' [itoa (pe_id plan), itoa (int (length rs)), names ! length rs] cause))) \<and>
    (rx_ShipResult out \<noteq> None \<longrightarrow> o_e = None \<and> length rs = length names \<and> list_all px_Clean rs)"
proof -
  obtain e0 new ended s2 where e0: "wf_PhaseExecutor w = Some e0"
    and run: "run_phases w (configure w e0) runID plan ins 0 (pe_phases plan) [] (plan_started w runID plan s) = (Inr (new, ended), s2)"
    and res: "case ended of
       Phase_Error err \<Rightarrow> out = phases_done new \<and> o_e = Some err \<and> s' = s2
     | Phase_Dirty i name a \<Rightarrow> out = (phases_done new)\<lparr>rx_StoppedAtPhaseClean := True, rx_DirtyPhaseIndex := i,
         rx_DirtyPhaseName := name, rx_AttentionItemID := a\<rparr> \<and> o_e = None \<and> s' = s2
     | All_Clean \<Rightarrow> \<exists>s3. ship_plan w runID plan ins (phases_done new) s2 = (Inr (out, o_e), s3)"
    by (rule RunPhasesForPlan_phases [OF assms(1)])
  from run_phases_run [OF run] obtain t where
    ran: "phases_ran (configure w e0) runID plan ins 0 (plan_started w runID plan s) new t"
    and ended: "ended_well (configure w e0) runID plan ins 0 t new ended" by auto
  have len: "length new \<le> length names" using phases_ran_length [OF ran] by (auto simp: assms(3))
  have clean: "list_all px_Clean new \<Longrightarrow> list_all px_Clean (butlast new) \<and> (new \<noteq> [] \<longrightarrow> px_Clean (last new))"
    by (auto simp: list_all_iff dest: in_set_butlastD)
  have "rx_PhaseResults out = new"
    using res ship_plan_run [of w runID plan ins "phases_done new" s2 out o_e]
    by (auto simp: phases_done_def split: phases_end.splits)
  then have rs: "rs = new" by (simp add: assms(2))
  note here = rs assms(3)
  show ?thesis
  proof (cases ended)
    case All_Clean
    with res obtain s3 where "ship_plan w runID plan ins (phases_done new) s2 = (Inr (out, o_e), s3)" by auto
    from ship_plan_run [OF this] have "\<not> rx_StoppedAtPhaseClean out" "rx_ShipResult out \<noteq> None \<longrightarrow> o_e = None"
      by (simp_all add: phases_done_def)
    with e0 ran ended clean All_Clean show ?thesis unfolding here by (intro exI [of _ e0] exI [of _ t]) (auto simp: ended_well_def Let_def)
  next
    case (Phase_Error err)
    with e0 ran res ended clean show ?thesis unfolding here by (intro exI [of _ e0] exI [of _ t]) (auto simp: ended_well_def Let_def phases_done_def)
  next
    case (Phase_Dirty i name a)
    with e0 ran res ended len show ?thesis
      unfolding here by (intro exI [of _ e0] exI [of _ t]) (auto simp: ended_well_def Let_def phases_done_def)
  qed
qed

definition shipping_workflow :: prd_workflow where
  "shipping_workflow =
     (NewBuildFromPRDWorkflow \<lparr>wo_mkdir_all = (\<lambda>_. ret ()), wo_stat = (\<lambda>_. ret None), wo_run = (\<lambda>_ _. ret (None, []))\<rparr>
        (\<lambda>_. Inl ErrNotExist) ''m.yaml'' None)
     \<lparr>wf_PhaseExecutor := Some quiet_executor,
      wf_Shipper := Some \<lparr>sh_AttentionStore = False, sh_CheckpointWriter = False, sh_EventStore = False,
        sh_ArtifactStore = False, sh_JobStore = False, sh_DryRun = True, sh_GhRunner = None,
        sh_gh = (\<lambda>_. ret (None, [], []))\<rparr>\<rparr>"

definition two_phases :: plan_entry where
  "two_phases = \<lparr>pe_id = 7, pe_title = ''Store'', pe_phases = [''setup'', ''tests''], pe_blocks_on = []\<rparr>"

lemma shipping_run:
  obtains w' where "RunPhasesForPlan shipping_workflow ''r'' two_phases [] w =
    (Inr ((phases_done [quiet_result, quiet_result])\<lparr>rx_ShipResult := Some
       \<lparr>sx_PRURL = ''https://github.com/dry-run/coworker/pull/7'', sx_ArtifactID = [], sx_AttentionID = []\<rparr>\<rparr>, None), w')"
proof -
  have conf: "configure shipping_workflow quiet_executor = quiet_executor"
    by (simp add: configure_def shipping_workflow_def NewBuildFromPRDWorkflow_def)
  have best_effort: "createPlan shipping_workflow r p = ret ()" "updatePlanState shipping_workflow r n st = ret ()"
    "updatePlanBranchAndPR shipping_workflow r n b u = ret ()" for r p n st b u
    by (simp_all add: createPlan_def updatePlanState_def updatePlanBranchAndPR_def shipping_workflow_def NewBuildFromPRDWorkflow_def)
  obtain w1 where 1: "Execute quiet_executor ''r'' 7 0 ''setup'' [] w = (Inr quiet_result, w1)"
    using quiet_Execute by blast
  obtain w2 where 2: "Execute quiet_executor ''r'' 7 1 ''tests'' [] w1 = (Inr quiet_result, w2)"
    using quiet_Execute by blast
  have c: "px_Clean quiet_result" by (simp add: quiet_result_def)
  have loop: "run_phases shipping_workflow quiet_executor ''r'' two_phases [] 0 [''setup'', ''tests''] [] w =
      (Inr ([quiet_result, quiet_result], All_Clean), w2)"
    by (simp add: bindE_attempt two_phases_def 1 2 c ret_def)
  have url: "itoa 7 = ''7''" by code_simp
  have ship: "ship_plan shipping_workflow ''r'' two_phases [] out w2 = (Inr (out\<lparr>rx_ShipResult := Some
       \<lparr>sx_PRURL = ''https://github.com/dry-run/coworker/pull/7'', sx_ArtifactID = [], sx_AttentionID = []\<rparr>\<rparr>, None), w2)" for out
    by (simp add: ship_plan_def shipping_workflow_def NewBuildFromPRDWorkflow_def Let_def Ship_def configure_shipper_def
        ready_to_ship_def open_pr_def record_pr_url_def emitShippedEvent_def updatePlanBranchAndPR_def two_phases_def
        bindE_attempt bindE_def ignoring_def attempt_def ret_def url)
  have e: "wf_PhaseExecutor shipping_workflow = Some quiet_executor" by (simp add: shipping_workflow_def)
  have ph: "pe_phases two_phases = [''setup'', ''tests'']" by (simp add: two_phases_def)
  show thesis
    by (rule that [of w2]) (simp add: RunPhasesForPlan_def e conf Let_def best_effort ph bindE_def loop ship ret_def del: run_phases.simps)
qed

lemma plan_phases_in_order_witness:
  "\<exists>out w'. RunPhasesForPlan shipping_workflow ''r'' two_phases [] (world_with empty_db (\<lambda>_. None)) = (Inr (out, None), w') \<and>
     rx_ShipResult out \<noteq> None \<and> list_all px_Clean (rx_PhaseResults out) \<and> length (rx_PhaseResults out) = 2"
proof -
  obtain w' where "RunPhasesForPlan shipping_workflow ''r'' two_phases [] (world_with empty_db (\<lambda>_. None)) =
    (Inr ((phases_done [quiet_result, quiet_result])\<lparr>rx_ShipResult := Some
       \<lparr>sx_PRURL = ''https://github.com/dry-run/coworker/pull/7'', sx_ArtifactID = [], sx_AttentionID = []\<rparr>\<rparr>, None), w')"
    by (rule shipping_run)
  note run = this
  show ?thesis using run plan_phases_in_order [OF run refl refl] by (auto simp: two_phases_def)
qed

section \<open>The shipper waits\<close>

lemma without_shipper [simp]:
  "configure (w\<lparr>wf_Shipper := x\<rparr>) = configure w" "updatePlanState (w\<lparr>wf_Shipper := x\<rparr>) = updatePlanState w"
  "createPlan (w\<lparr>wf_Shipper := x\<rparr>) = createPlan w"
  by (simp_all add: configure_def updatePlanState_def createPlan_def fun_eq_iff cong: if_cong option.case_cong)

lemma run_phases_shipper [simp]: "run_phases (w\<lparr>wf_Shipper := x\<rparr>) e r plan ins i names rs = run_phases w e r plan ins i names rs"
  by (induction names arbitrary: i rs) (simp_all cong: if_cong sum.case_cong)

text \<open>
  C29. Nothing is shipped before every phase is clean. When a plan run without any shipper would end
  with an error or with a dirty phase, then the run with a shipper does exactly the same, step for
  step: no pull request is attempted, whatever the shipper is.
\<close>

theorem shipper_waits:
  assumes "RunPhasesForPlan (w\<lparr>wf_Shipper := None\<rparr>) runID plan ins s = (Inr (out, o_e), s')"
    and "rx_StoppedAtPhaseClean out \<or> o_e \<noteq> None"
  shows "RunPhasesForPlan w runID plan ins s = (Inr (out, o_e), s')"
proof -
  obtain e0 where e: "wf_PhaseExecutor w = Some e0"
    using assms(1) by (cases "wf_PhaseExecutor w") (auto simp: RunPhasesForPlan_def raise_def)
  obtain u1 u2 where u: "createPlan w runID plan s = (Inr (), u1)" "updatePlanState w runID (pe_id plan) ''running'' u1 = (Inr (), u2)"
    using updatePlanState_returns createPlan_returns by metis
  obtain rs' s2' where l: "run_phases w (configure w e0) runID plan ins 0 (pe_phases plan) [] u2 = (rs', s2')" by force
  show ?thesis
  proof (cases rs')
    case (Inl err)
    with assms(1) show ?thesis
      by (simp add: RunPhasesForPlan_def e Let_def bindE_def u l)
  next
    case (Inr p)
    obtain rs2 ended2 where p: "p = (rs2, ended2)" by force
    show ?thesis
    proof (cases ended2)
      case All_Clean
      have no_ship: "ship_plan (w\<lparr>wf_Shipper := None\<rparr>) runID plan ins x = ret (x, None)" for x
        by (simp add: ship_plan_def)
      obtain u3 where u3: "updatePlanState w runID (pe_id plan) ''done'' s2' = (Inr (), u3)"
        using updatePlanState_returns by blast
      from assms(1) have "out = phases_done rs2" "o_e = None"
        by (simp_all add: RunPhasesForPlan_def e Let_def bindE_def u l no_ship u3 Inr p All_Clean ret_def)
      with assms(2) show ?thesis by (simp add: phases_done_def)
    next
      case (Phase_Error err)
      with assms(1) Inr p show ?thesis by (simp add: RunPhasesForPlan_def e Let_def bindE_def u l)
    next
      case (Phase_Dirty i n a)
      with assms(1) Inr p show ?thesis by (simp add: RunPhasesForPlan_def e Let_def bindE_def u l)
    qed
  qed
qed

text \<open>A developer that always fails: the dry-run shipper of the workflow is never reached.\<close>

definition failing_workflow :: prd_workflow where
  "failing_workflow = shipping_workflow\<lparr>wf_PhaseExecutor := Some (quiet_executor\<lparr>pe_Orchestrate := (\<lambda>_. raise ErrCtxDone)\<rparr>)\<rparr>"

lemma failing_Execute:
  "\<exists>err w'. Execute (quiet_executor\<lparr>pe_Orchestrate := (\<lambda>_. raise ErrCtxDone)\<rparr>) r p x n ins w = (Inl err, w')"
  by (simp add: Execute_def Let_def bindE_def emitPhaseEvent_def ignoring_def attempt_def runLoop.simps phase_cycle_def
      phase_error_def wrapE_def raise_def)

lemma shipper_waits_witness:
  "\<exists>out err w'. RunPhasesForPlan failing_workflow ''r'' two_phases [] (world_with empty_db (\<lambda>_. None)) = (Inr (out, Some err), w') \<and>
     rx_ShipResult out = None"
proof -
  let ?e = "quiet_executor\<lparr>pe_Orchestrate := (\<lambda>_. raise ErrCtxDone)\<rparr>" and ?w = "failing_workflow\<lparr>wf_Shipper := None\<rparr>"
  let ?s = "world_with empty_db (\<lambda>_. None)"
  have conf: "configure failing_workflow ?e = ?e"
    by (simp add: configure_def failing_workflow_def shipping_workflow_def NewBuildFromPRDWorkflow_def)
  have best_effort: "createPlan failing_workflow r p = ret ()" "updatePlanState failing_workflow r n st = ret ()" for r p n st
    by (simp_all add: createPlan_def updatePlanState_def failing_workflow_def shipping_workflow_def NewBuildFromPRDWorkflow_def)
  have e: "wf_PhaseExecutor ?w = Some ?e" by (simp add: failing_workflow_def)
  have ph: "pe_phases two_phases = [''setup'', ''tests'']" by (simp add: two_phases_def)
  obtain err w' where "Execute ?e ''r'' (pe_id two_phases) 0 ''setup'' [] ?s = (Inl err, w')"
    using failing_Execute by blast
  then have "\<exists>err. run_phases failing_workflow ?e ''r'' two_phases [] 0 (pe_phases two_phases) [] ?s = (Inr ([], Phase_Error err), w')"
    by (simp add: ph bindE_def attempt_def best_effort ret_def)
  then obtain err' where "RunPhasesForPlan ?w ''r'' two_phases [] ?s = (Inr (phases_done [], Some err'), w')"
    by (auto simp: RunPhasesForPlan_def e conf best_effort Let_def bindE_def ret_def)
  from shipper_waits [OF this] show ?thesis by (auto simp: phases_done_def)
qed

end
