(* ===== verification/Clock_Text.thy ===== *)
theory Clock_Text
  imports World
begin

text \<open>
  \<open>time.RFC3339\<close> of an instant in UTC, and the durations the status views print. The days are
  counted in the Gregorian calendar from the epoch.
\<close>

section \<open>Dates\<close>

text \<open>The year, month and day of a day number; years begin in March while counting.\<close>

definition year_of_era :: "int \<Rightarrow> int" where
  "year_of_era doe = (doe - doe div 1460 + doe div 36524 - doe div 146096) div 365"

definition day_of_year :: "int \<Rightarrow> int \<Rightarrow> int" where
  "day_of_year doe y = doe - (365 * y + y div 4 - y div 100)"

definition month_day :: "int \<Rightarrow> int \<Rightarrow> int \<times> int" where
  "month_day doy mp = (if mp < 10 then mp + 3 else mp - 9, doy - (153 * mp + 2) div 5 + 1)"

definition march_date :: "int \<Rightarrow> int \<Rightarrow> int \<times> int \<times> int" where
  "march_date y doy =
     (case month_day doy ((5 * doy + 2) div 153) of (m, d) \<Rightarrow> (if m \<le> 2 then y + 1 else y, m, d))"

definition civil :: "int \<Rightarrow> int \<times> int \<times> int" where
  "civil days =
     (let z = days + 719468; doe = z mod 146097; y = year_of_era doe
      in march_date (y + z div 146097 * 400) (day_of_year doe y))"

definition pad_to :: "nat \<Rightarrow> int \<Rightarrow> string" where
  "pad_to n i = replicate (n - length (itoa i)) (CHR ''0'') @ itoa i"

definition seconds_of :: "time \<Rightarrow> int" where
  "seconds_of t = t div 1000000000"

definition clock_time :: "int \<Rightarrow> string" where
  "clock_time s =
     pad_to 2 (s mod 86400 div 3600) @ '':'' @ pad_to 2 (s mod 3600 div 60) @ '':'' @ pad_to 2 (s mod 60)"

definition rfc3339 :: "time \<Rightarrow> string" where
  "rfc3339 t =
     (let s = seconds_of t; (y, m, d) = civil (s div 86400)
      in pad_to 4 y @ ''-'' @ pad_to 2 m @ ''-'' @ pad_to 2 d @ ''T'' @ clock_time s @ ''Z'')"

text \<open>A check of the calendar: the start of the epoch and the days around a leap day.\<close>

lemma civil_samples: "civil 0 = (1970, 1, 1)" "civil 19782 = (2024, 2, 29)" "civil 19783 = (2024, 3, 1)"
  by code_simp+

text \<open>The text only depends on the second, as the stored form does.\<close>

lemma rfc3339_stamp: "rfc3339 (stamp t) = rfc3339 t"
  by (simp add: rfc3339_def seconds_of_def stamp_def)

end
