(* ===== verification/Mcp.thy ===== *)
theory Mcp
  imports Clock_Text Flow Requeue Dispatcher
begin

text \<open>
  \<open>mcp/\<close>: the tools the orchestrator serves to the CLI agents. Every handler is a program that
  checks its input, calls the stores and answers with a JSON object, laid out by the tags of the
  output struct. \<open>serve\<close> is the server: the tools it registers depend on what its configuration
  holds, and a tool without its store answers "not_implemented".
\<close>

section \<open>Output objects\<close>

text \<open>A field with \<open>omitempty\<close>.\<close>

definition omit_empty :: "string \<Rightarrow> string \<Rightarrow> (string \<times> json) list" where
  "omit_empty k s = (if s = [] then [] else [(k, JStr s)])"

fun attention_kind_string :: "AttentionKind \<Rightarrow> string" where
  "attention_kind_string AttentionPermission = ''permission''"
| "attention_kind_string AttentionSubprocess = ''subprocess''"
| "attention_kind_string AttentionQuestion = ''question''"
| "attention_kind_string AttentionCheckpoint = ''checkpoint''"

definition status_object :: "string \<Rightarrow> json" where
  "status_object s = JObj [(''status'', JStr s)]"

definition stubResult :: json where
  "stubResult = status_object ''not_implemented''"

definition require :: "(string \<times> string) list \<Rightarrow> unit prog" where
  "require fs = bindE (forE fs (\<lambda>(name, v). guardE (v \<noteq> []) (Errorf (name @ '' is required'') []))) (\<lambda>_. ret ())"

section \<open>handlers_run.go\<close>

definition run_object :: "string \<Rightarrow> run \<Rightarrow> json" where
  "run_object idkey r =
     JObj ([(idkey, JStr (run_id r)), (''mode'', JStr (run_mode r)), (''state'', JStr (run_state_string (run_state r))),
            (''started_at'', JStr (rfc3339 (run_started_at r)))] @
           (case run_ended_at r of None \<Rightarrow> [] | Some t \<Rightarrow> [(''ended_at'', JStr (rfc3339 t))]))"

definition get_run_or_fail :: "ident \<Rightarrow> run prog" where
  "get_run_or_fail runID =
     bindE (attempt (GetRun runID)) (\<lambda>r.
     case r of
       Inr x \<Rightarrow> ret x
     | Inl e \<Rightarrow> if errors_is e ErrNoRows then raise (Errorf ''run %q not found'' [runID])
               else raise (Wrapf ''get run: %w'' [] e))"

definition handleRunStatus :: "ident \<Rightarrow> json prog" where
  "handleRunStatus runID =
     bindE (require [(''run_id'', runID)]) (\<lambda>_.
     bindE (get_run_or_fail runID) (\<lambda>r. ret (run_object ''run_id'' r)))"

definition event_object :: "(json \<Rightarrow> string) \<Rightarrow> event \<Rightarrow> json" where
  "event_object enc e =
     JObj ([(''id'', JStr (ev_id e)), (''run_id'', JStr (ev_run_id e)), (''sequence'', JInt (int (ev_sequence e))),
            (''kind'', JStr (event_kind_string (ev_kind e))), (''schema_version'', JInt (ev_schema_version e))] @
           omit_empty ''idempotency_key'' (ev_idempotency_key e) @ omit_empty ''causation_id'' (ev_causation_id e) @
           omit_empty ''correlation_id'' (ev_correlation_id e) @
           [(''payload'', JStr (enc (ev_payload e))), (''created_at'', JStr (rfc3339 (ev_created_at e)))])"

definition handleRunInspect :: "(json \<Rightarrow> string) \<Rightarrow> ident \<Rightarrow> json prog" where
  "handleRunInspect enc runID =
     bindE (require [(''run_id'', runID)]) (\<lambda>_.
     bindE (get_run_or_fail runID) (\<lambda>r.
     bindE (wrapE ''list events: %w'' [] (ListEvents runID)) (\<lambda>es.
     ret (JObj [(''run'', run_object ''id'' r), (''events'', JArr (map (event_object enc) es)),
                (''event_count'', JInt (int (length es)))]))))"

section \<open>handlers_dispatch.go\<close>

definition finding_object :: "finding \<Rightarrow> (string \<times> json) list" where
  "finding_object f =
     [(''id'', JStr (f_id f)), (''path'', JStr (f_path f)), (''line'', JInt (f_line f)), (''severity'', JStr (f_severity f)),
      (''body'', JStr (f_body f)), (''fingerprint'', JStr (f_fingerprint f))]"

definition convertFindings :: "finding list \<Rightarrow> json" where
  "convertFindings fs = JArr (map (\<lambda>f. JObj (finding_object f)) fs)"

definition handleRoleInvoke ::
    "(dispatch_input \<Rightarrow> dispatch_result prog) \<Rightarrow> string \<Rightarrow> inputs option \<Rightarrow> json prog" where
  "handleRoleInvoke orchestrate rl o_ins =
     bindE (require [(''role'', rl)]) (\<lambda>_.
     case o_ins of
       None \<Rightarrow> raise (Errorf ''inputs is required'' [])
     | Some ins \<Rightarrow>
         bindE (wrapE ''orchestrate: %w'' [] (orchestrate \<lparr>in_RoleName = rl, in_Inputs = ins, in_RunID = []\<rparr>)) (\<lambda>r.
         ret (JObj [(''run_id'', JStr (dx_RunID r)), (''job_id'', JStr (dx_JobID r)),
                    (''findings'', convertFindings (dx_Findings r)), (''exit_code'', JInt (dx_ExitCode r))])))"

definition dispatch_object :: "dispatch \<Rightarrow> json" where
  "dispatch_object d =
     JObj ([(''status'', JStr ''dispatched'')] @ omit_empty ''dispatch_id'' (d_id d) @ omit_empty ''job_id'' (d_job_id d) @
           omit_empty ''role'' (d_role d) @ omit_empty ''prompt'' (d_prompt d) @
           (case d_inputs d of JObj (kv # kvs) \<Rightarrow> [(''inputs'', JObj (kv # kvs))] | _ \<Rightarrow> []))"

definition handleNextDispatch :: "string \<Rightarrow> ident \<Rightarrow> json prog" where
  "handleNextDispatch rl handle =
     bindE (require [(''role'', rl)]) (\<lambda>_.
     bindE (wrapE ''claim dispatch: %w'' [] (ClaimNextDispatch rl handle)) (\<lambda>o_d.
     case o_d of None \<Rightarrow> ret (status_object ''idle'') | Some d \<Rightarrow> ret (dispatch_object d)))"

definition handleJobComplete :: "(json \<Rightarrow> string) \<Rightarrow> ident \<Rightarrow> ident \<Rightarrow> json option \<Rightarrow> json prog" where
  "handleJobComplete enc dispatchID jobID o_outputs =
     bindE (require [(''dispatch_id'', dispatchID), (''job_id'', jobID)]) (\<lambda>_.
     case o_outputs of
       None \<Rightarrow> raise (Errorf ''outputs is required'' [])
     | Some outputs \<Rightarrow>
         bindE (wrapE ''complete dispatch: %w'' [] (CompleteDispatch enc dispatchID outputs)) (\<lambda>_.
         bindE (ignoring (UpdateJobState jobID JobStateComplete)) (\<lambda>_.
         ret (status_object ''ok''))))"

section \<open>handlers_attention.go\<close>

definition handleAskUser :: "string \<Rightarrow> string list \<Rightarrow> ident \<Rightarrow> ident \<Rightarrow> json prog" where
  "handleAskUser question options jobID runID =
     bindE (require [(''question'', question)]) (\<lambda>_.
     bindE (wrapE ''insert attention: %w'' [] (InsertAttention
       \<lparr>att_id = [], att_run_id = runID, att_kind = AttentionQuestion, att_source = ''mcp'', att_job_id = jobID,
        att_question = question, att_options = options, att_presented_on = [], att_answered_on = [],
        att_answered_by = [], att_answer = [], att_created_at = None, att_resolved_at = None\<rparr>)) (\<lambda>item.
     ret (JObj [(''attention_id'', JStr (att_id item)), (''status'', JStr ''pending'')])))"

definition attention_object :: "attention_item \<Rightarrow> json" where
  "attention_object a =
     JObj ([(''id'', JStr (att_id a)), (''run_id'', JStr (att_run_id a)), (''kind'', JStr (attention_kind_string (att_kind a))),
            (''source'', JStr (att_source a))] @
           omit_empty ''job_id'' (att_job_id a) @ omit_empty ''question'' (att_question a) @
           (if att_options a = [] then [] else [(''options'', jlist (att_options a))]) @
           omit_empty ''answer'' (att_answer a) @ omit_empty ''answered_by'' (att_answered_by a) @
           [(''created_at'', JStr (rfc3339 (case att_created_at a of None \<Rightarrow> 0 | Some t \<Rightarrow> t)))])"

definition convertAttentionItems :: "attention_item list \<Rightarrow> json" where
  "convertAttentionItems items = JObj [(''items'', JArr (map attention_object items))]"

definition handleAttentionList :: "ident \<Rightarrow> json prog" where
  "handleAttentionList runID =
     bindE (wrapE ''list attention: %w'' []
       (if runID \<noteq> [] then ListUnansweredByRun runID else ListAllPending)) (\<lambda>items.
     ret (convertAttentionItems items))"

definition handleAttentionAnswer :: "ident \<Rightarrow> string \<Rightarrow> string \<Rightarrow> json prog" where
  "handleAttentionAnswer attentionID answer answeredBy =
     bindE (require [(''attention_id'', attentionID), (''answer'', answer), (''answered_by'', answeredBy)]) (\<lambda>_.
     bindE (wrapE ''get attention: %w'' [] (GetAttentionByID attentionID)) (\<lambda>o_item.
     case o_item of
       None \<Rightarrow> raise (Errorf ''attention item not found: %s'' [attentionID])
     | Some item \<Rightarrow>
         bindE (wrapE ''answer attention: %w'' [] (AnswerAttention attentionID answer answeredBy)) (\<lambda>_.
         bindE (ignoring (ResolveAttention attentionID)) (\<lambda>_.
         bindE (if att_kind item = AttentionCheckpoint
                then wrapE ''resolve checkpoint: %w'' [] (ResolveCheckpoint attentionID answer answeredBy []) else ret ()) (\<lambda>_.
         ret (status_object ''ok''))))))"

section \<open>handlers_query.go\<close>

definition convertFindingListItems :: "finding list \<Rightarrow> json" where
  "convertFindingListItems fs =
     JArr (map (\<lambda>f. JObj (finding_object f @ [(''resolved'', JBool (f_resolved_by_job_id f \<noteq> []))])) fs)"

definition handleFindingsList :: "ident \<Rightarrow> json prog" where
  "handleFindingsList runID =
     bindE (require [(''run_id'', runID)]) (\<lambda>_.
     bindE (wrapE ''list findings: %w'' [] (ListFindings runID)) (\<lambda>fs.
     ret (JObj [(''findings'', convertFindingListItems fs)])))"

definition convertArtifactItems :: "artifact list \<Rightarrow> json" where
  "convertArtifactItems as =
     JArr (map (\<lambda>a. JObj [(''id'', JStr (art_id a)), (''kind'', JStr (art_kind a)), (''path'', JStr (art_path a))]) as)"

definition handleArtifactRead :: "ident \<Rightarrow> json prog" where
  "handleArtifactRead jobID =
     bindE (require [(''job_id'', jobID)]) (\<lambda>_.
     bindE (wrapE ''list artifacts: %w'' [] (ListArtifacts jobID)) (\<lambda>as.
     ret (JObj [(''artifacts'', convertArtifactItems as)])))"

definition handleArtifactWrite :: "ident \<Rightarrow> string \<Rightarrow> string \<Rightarrow> ident \<Rightarrow> json prog" where
  "handleArtifactWrite jobID kind path runID =
     bindE (require [(''job_id'', jobID), (''kind'', kind), (''path'', path), (''run_id'', runID)]) (\<lambda>_.
     bindE new_id (\<lambda>i.
     bindE (wrapE ''insert artifact: %w'' []
       (InsertArtifact \<lparr>art_id = i, art_job_id = jobID, art_kind = kind, art_path = path\<rparr> runID)) (\<lambda>_.
     ret (JObj [(''artifact_id'', JStr i), (''status'', JStr ''ok'')]))))"

section \<open>handlers_checkpoint.go\<close>

definition handleCheckpointList :: "ident \<Rightarrow> json prog" where
  "handleCheckpointList runID =
     bindE (require [(''run_id'', runID)]) (\<lambda>_.
     bindE (wrapE ''list checkpoints: %w'' [] (ListAttentionByRun runID (Some AttentionCheckpoint))) (\<lambda>items.
     ret (convertAttentionItems items)))"

text \<open>The two handlers of a decision share their steps; a checkpoint row that is not there is
  tolerated.\<close>

definition decide_checkpoint :: "string \<Rightarrow> string \<Rightarrow> ident \<Rightarrow> string \<Rightarrow> string \<Rightarrow> json prog" where
  "decide_checkpoint answer status attentionID answeredBy0 notes =
     bindE (require [(''attention_id'', attentionID)]) (\<lambda>_.
     bindE (wrapE ''get checkpoint: %w'' [] (GetAttentionByID attentionID)) (\<lambda>o_item.
     case o_item of
       None \<Rightarrow> raise (Errorf ''checkpoint not found: %s'' [attentionID])
     | Some item \<Rightarrow>
         if att_kind item \<noteq> AttentionCheckpoint
         then raise (Errorf ''not a checkpoint: item %s has kind %q'' [attentionID, attention_kind_string (att_kind item)])
         else
           let answeredBy = (if answeredBy0 = [] then ''user'' else answeredBy0) in
           bindE (wrapE ''answer checkpoint: %w'' [] (AnswerAttention attentionID answer answeredBy)) (\<lambda>_.
           bindE (ignoring (ResolveAttention attentionID)) (\<lambda>_.
           bindE (attempt (ResolveCheckpoint attentionID answer answeredBy notes)) (\<lambda>r.
           case r of
             Inl e \<Rightarrow> if errors_is e ErrCheckpointNotFound
                      then ret (JObj [(''status'', JStr status), (''attention_id'', JStr attentionID)])
                      else raise (Wrapf ''resolve checkpoint: %w'' [] e)
           | Inr _ \<Rightarrow> ret (JObj [(''status'', JStr status), (''attention_id'', JStr attentionID)]))))))"

definition handleCheckpointAdvance :: "ident \<Rightarrow> string \<Rightarrow> string \<Rightarrow> json prog" where
  "handleCheckpointAdvance = decide_checkpoint AttentionAnswerApprove ''approved''"

definition handleCheckpointRollback :: "ident \<Rightarrow> string \<Rightarrow> string \<Rightarrow> json prog" where
  "handleCheckpointRollback = decide_checkpoint AttentionAnswerReject ''rejected''"

section \<open>handlers_registry.go\<close>

definition handleRegister :: "string \<Rightarrow> int \<Rightarrow> string \<Rightarrow> string \<Rightarrow> json prog" where
  "handleRegister rl pid sessionID cli =
     bindE (require [(''role'', rl), (''cli'', cli)]) (\<lambda>_.
     bindE new_id (\<lambda>h. bindE time_now (\<lambda>now.
     bindE (wrapE ''register worker: %w'' [] (Register
       \<lparr>w_handle = h, w_role = rl, w_pid = pid, w_session_id = sessionID, w_cli = cli, w_registered_at = Some now,
        w_last_heartbeat = None, w_state = WorkerStateLive\<rparr>)) (\<lambda>_.
     ret (JObj [(''handle'', JStr h), (''status'', JStr ''registered'')])))))"

definition handleHeartbeat :: "ident \<Rightarrow> json prog" where
  "handleHeartbeat h =
     bindE (require [(''handle'', h)]) (\<lambda>_.
     bindE (wrapE ''heartbeat: %w'' [] (Heartbeat h)) (\<lambda>_. ret (status_object ''ok'')))"

definition handleDeregister :: "ident \<Rightarrow> json prog" where
  "handleDeregister h =
     bindE (require [(''handle'', h)]) (\<lambda>_.
     bindE (wrapE ''deregister: %w'' [] (Deregister h)) (\<lambda>_. ret (status_object ''deregistered'')))"

section \<open>server.go\<close>

record server =
  ms_DB :: bool
  ms_Dispatcher :: "(dispatch_input \<Rightarrow> dispatch_result prog) option"
  ms_enc :: "json \<Rightarrow> string"

datatype request =
    RunStatus ident
  | RunInspect ident
  | RoleInvoke string "inputs option"
  | NextDispatch string ident
  | JobComplete ident ident "json option"
  | AskUser string "string list" ident ident
  | AttentionList ident
  | AttentionAnswer ident string string
  | FindingsList ident
  | ArtifactRead ident
  | ArtifactWrite ident string string ident
  | CheckpointList ident
  | CheckpointAdvance ident string string
  | CheckpointRollback ident string string
  | RegisterWorker string int string string
  | HeartbeatOf ident
  | DeregisterWorker ident

fun tool_name :: "request \<Rightarrow> string" where
  "tool_name (RunStatus _) = ''orch_run_status''"
| "tool_name (RunInspect _) = ''orch_run_inspect''"
| "tool_name (RoleInvoke _ _) = ''orch_role_invoke''"
| "tool_name (NextDispatch _ _) = ''orch_next_dispatch''"
| "tool_name (JobComplete _ _ _) = ''orch_job_complete''"
| "tool_name (AskUser _ _ _ _) = ''orch_ask_user''"
| "tool_name (AttentionList _) = ''orch_attention_list''"
| "tool_name (AttentionAnswer _ _ _) = ''orch_attention_answer''"
| "tool_name (FindingsList _) = ''orch_findings_list''"
| "tool_name (ArtifactRead _) = ''orch_artifact_read''"
| "tool_name (ArtifactWrite _ _ _ _) = ''orch_artifact_write''"
| "tool_name (CheckpointList _) = ''orch_checkpoint_list''"
| "tool_name (CheckpointAdvance _ _ _) = ''orch_checkpoint_advance''"
| "tool_name (CheckpointRollback _ _ _) = ''orch_checkpoint_rollback''"
| "tool_name (RegisterWorker _ _ _ _) = ''orch_register''"
| "tool_name (HeartbeatOf _) = ''orch_heartbeat''"
| "tool_name (DeregisterWorker _) = ''orch_deregister''"

text \<open>The tools in the order they are registered, with whether a handler or the stub is behind them.\<close>

definition registerTools :: "server \<Rightarrow> (string \<times> bool) list" where
  "registerTools s =
     (let st = ms_DB s; di = (ms_Dispatcher s \<noteq> None) in
      [(''orch_run_status'', st), (''orch_run_inspect'', st)] @
      [(''orch_role_invoke'', di)] @
      [(''orch_next_dispatch'', st), (''orch_job_complete'', st)] @
      [(''orch_ask_user'', st)] @
      [(''orch_attention_list'', st), (''orch_attention_answer'', st)] @
      [(''orch_findings_list'', st)] @
      [(''orch_artifact_read'', st), (''orch_artifact_write'', st)] @
      map (\<lambda>n. (n, st)) [''orch_checkpoint_list'', ''orch_checkpoint_advance'', ''orch_checkpoint_rollback''] @
      map (\<lambda>n. (n, st)) [''orch_register'', ''orch_heartbeat'', ''orch_deregister''])"

definition Tools :: "string list" where
  "Tools =
     [''orch_run_status'', ''orch_run_inspect'', ''orch_role_invoke'', ''orch_next_dispatch'', ''orch_job_complete'',
      ''orch_ask_user'', ''orch_attention_list'', ''orch_attention_answer'', ''orch_findings_list'',
      ''orch_artifact_read'', ''orch_artifact_write'', ''orch_checkpoint_list'', ''orch_checkpoint_advance'',
      ''orch_checkpoint_rollback'', ''orch_register'', ''orch_heartbeat'', ''orch_deregister'']"

fun handler :: "server \<Rightarrow> request \<Rightarrow> json prog" where
  "handler s (RunStatus r) = handleRunStatus r"
| "handler s (RunInspect r) = handleRunInspect (ms_enc s) r"
| "handler s (RoleInvoke rl ins) = handleRoleInvoke (the (ms_Dispatcher s)) rl ins"
| "handler s (NextDispatch rl h) = handleNextDispatch rl h"
| "handler s (JobComplete d j out) = handleJobComplete (ms_enc s) d j out"
| "handler s (AskUser q os j r) = handleAskUser q os j r"
| "handler s (AttentionList r) = handleAttentionList r"
| "handler s (AttentionAnswer i a b) = handleAttentionAnswer i a b"
| "handler s (FindingsList r) = handleFindingsList r"
| "handler s (ArtifactRead j) = handleArtifactRead j"
| "handler s (ArtifactWrite j k p r) = handleArtifactWrite j k p r"
| "handler s (CheckpointList r) = handleCheckpointList r"
| "handler s (CheckpointAdvance i b n) = handleCheckpointAdvance i b n"
| "handler s (CheckpointRollback i b n) = handleCheckpointRollback i b n"
| "handler s (RegisterWorker rl pid si cli) = handleRegister rl pid si cli"
| "handler s (HeartbeatOf h) = handleHeartbeat h"
| "handler s (DeregisterWorker h) = handleDeregister h"

definition serve :: "server \<Rightarrow> request \<Rightarrow> json prog" where
  "serve s req =
     (case map_of (registerTools s) (tool_name req) of
        Some True \<Rightarrow> handler s req
      | Some False \<Rightarrow> ret stubResult
      | None \<Rightarrow> raise (Errorf ''unknown tool'' []))"

text \<open>A session: the answers to a list of calls, each on the world the one before left.\<close>

fun session :: "server \<Rightarrow> request list \<Rightarrow> world \<Rightarrow> (goerr + json) list \<times> world" where
  "session s [] w = ([], w)"
| "session s (req # reqs) w =
     (let (r, w1) = serve s req w; (rs, w2) = session s reqs w1 in (r # rs, w2))"

end
