(* ===== verification/Mcp_Facts.thy ===== *)
theory Mcp_Facts
  imports Mcp Dispatcher_Facts
begin

text \<open>
  What the tools guarantee together: the surface of the server, and the consistency of the tables
  after every sequence of calls.
\<close>

section \<open>The surface\<close>

lemma tool_name_listed: "tool_name req \<in> set Tools"
  by (cases req) (simp_all add: Tools_def)

lemma registered_names: "map fst (registerTools s) = Tools"
  by (simp add: registerTools_def Tools_def Let_def)

lemma distinct_Tools: "distinct Tools"
  by (simp add: Tools_def)

lemma registered_tool:
  "map_of (registerTools s) (tool_name req) =
     Some (case req of RoleInvoke _ _ \<Rightarrow> ms_Dispatcher s \<noteq> None | _ \<Rightarrow> ms_DB s)"
  by (cases req) (simp_all add: registerTools_def Let_def)

lemma serve_eq:
  "serve s req = (if (case req of RoleInvoke _ _ \<Rightarrow> ms_Dispatcher s \<noteq> None | _ \<Rightarrow> ms_DB s)
     then handler s req else ret stubResult)"
  by (simp add: serve_def registered_tool)

section \<open>Consistency\<close>

lemma keeps_require [keeps_intros]: "keeps P (require fs)"
  unfolding require_def by (intro keeps_intros)

lemma claimed_db_ok:
  assumes "db_ok d" and "claimed row ev now d d'"
  shows "db_ok d'"
proof -
  let ?d1 = "add_event ev d"
  have "db_ok ?d1" using assms by (auto simp: claimed_def intro!: db_ok_add_event [of d ev])
  moreover have "update_dispatches (\<lambda>x. dr_id x = dr_id row \<and> dr_state x = DispatchStatePending)
      (\<lambda>x. x\<lparr>dr_state := DispatchStateLeased, dr_leased_at := Some (stamp now)\<rparr>) ?d1 = Inr (count_where (\<lambda>x. dr_id x = dr_id row \<and> dr_state x = DispatchStatePending) (t_dispatches ?d1), d')"
    using assms(2) by (simp add: claimed_def update_dispatches_def add_event_def)
  ultimately show ?thesis by (rule update_dispatches_db_ok [rotated]) simp
qed

lemma ClaimNextDispatch_keeps_db_ok [keeps_intros]: "keeps (on_db db_ok) (ClaimNextDispatch rl h)"
  unfolding keeps_def on_db_def
proof (intro allI impI)
  fix w :: world assume ok: "db_ok (wd_db w)"
  obtain r w' where c: "ClaimNextDispatch rl h w = (r, w')" by force
  from ClaimNextDispatch_run [OF c] ok show "db_ok (wd_db (snd (ClaimNextDispatch rl h w)))"
    by (auto simp: c split: sum.splits option.splits intro: claimed_db_ok)
qed

lemmas read_defs = GetRun_def ListEvents_def ListFindings_def ListArtifacts_def ListAttentionByRun_def
  ListUnansweredByRun_def ListAllPending_def GetAttentionByID_def get_run_or_fail_def

lemma reads_keep [keeps_intros]:
  "keeps (on_db P) (get_run_or_fail i)" "keeps (on_db P) (ListEvents i)" "keeps (on_db P) (ListFindings i)"
  "keeps (on_db P) (ListArtifacts i)" "keeps (on_db P) (ListAttentionByRun i k)" "keeps (on_db P) (ListUnansweredByRun i)"
  "keeps (on_db P) ListAllPending" "keeps (on_db P) (GetAttentionByID i)"
  unfolding read_defs by (intro keeps_intros)+

lemma handlers_keep_db_ok [keeps_intros]:
  "keeps (on_db db_ok) (handleRunStatus a)" "keeps (on_db db_ok) (handleRunInspect enc a)"
  "keeps (on_db db_ok) (handleNextDispatch a b)" "keeps (on_db db_ok) (handleJobComplete enc a b out)"
  "keeps (on_db db_ok) (handleAskUser a os b c)" "keeps (on_db db_ok) (handleAttentionList a)"
  "keeps (on_db db_ok) (handleAttentionAnswer a b c)" "keeps (on_db db_ok) (handleFindingsList a)"
  "keeps (on_db db_ok) (handleArtifactRead a)" "keeps (on_db db_ok) (handleArtifactWrite a b c d)"
  "keeps (on_db db_ok) (handleCheckpointList a)" "keeps (on_db db_ok) (handleCheckpointAdvance a b c)"
  "keeps (on_db db_ok) (handleCheckpointRollback a b c)" "keeps (on_db db_ok) (handleRegister a i b c)"
  "keeps (on_db db_ok) (handleHeartbeat a)" "keeps (on_db db_ok) (handleDeregister a)"
  unfolding handleRunStatus_def handleRunInspect_def handleNextDispatch_def handleJobComplete_def
    handleAskUser_def handleAttentionList_def handleAttentionAnswer_def handleFindingsList_def handleArtifactRead_def
    handleArtifactWrite_def handleCheckpointList_def handleCheckpointAdvance_def handleCheckpointRollback_def
    decide_checkpoint_def handleRegister_def handleHeartbeat_def handleDeregister_def Let_def
  by (intro keeps_intros)+

lemma serve_keeps_db_ok:
  assumes "\<forall>orch ins. ms_Dispatcher s = Some orch \<longrightarrow> keeps (on_db db_ok) (orch ins)"
  shows "keeps (on_db db_ok) (serve s req)"
proof (cases req)
  case (RoleInvoke rl ins)
  show ?thesis
  proof (cases "ms_Dispatcher s")
    case (Some orch)
    with assms have "\<And>x. keeps (on_db db_ok) (orch x)" by simp
    then show ?thesis unfolding serve_eq RoleInvoke
      by (auto simp: Some handleRoleInvoke_def intro!: keeps_intros)
  qed (simp add: serve_eq RoleInvoke keeps_ret)
qed (simp_all add: serve_eq keeps_ret handlers_keep_db_ok)

lemma session_keeps_db_ok:
  assumes "\<forall>orch ins. ms_Dispatcher s = Some orch \<longrightarrow> keeps (on_db db_ok) (orch ins)"
  shows "db_ok (wd_db w) \<Longrightarrow> db_ok (wd_db (snd (session s reqs w)))"
proof (induction reqs arbitrary: w)
  case (Cons req reqs)
  obtain r w1 where s: "serve s req w = (r, w1)" by force
  with keepsD [OF serve_keeps_db_ok [OF assms]] Cons.prems have "db_ok (wd_db w1)"
    by (metis on_db_def snd_conv)
  from Cons.IH [OF this] s show ?case by (cases "session s reqs w1") simp
qed simp

section \<open>Properties\<close>

text \<open>
  The tool surface. Whatever the configuration, the server registers exactly the tools that
  \<open>Tools\<close> announces, in that order and each once; every request names one of them, and it reaches its
  handler exactly when the store or the dispatcher behind it is configured. The other requests
  get the "not_implemented" answer and touch nothing.
\<close>

lemma mcp_tool_surface:
  "map fst (registerTools s) = Tools \<and> distinct Tools \<and> tool_name req \<in> set Tools \<and>
   serve s req w =
     (if (case req of RoleInvoke _ _ \<Rightarrow> ms_Dispatcher s \<noteq> None | _ \<Rightarrow> ms_DB s)
      then handler s req w else (Inr stubResult, w))"
  by (simp add: registered_names distinct_Tools tool_name_listed serve_eq ret_def)

text \<open>
  C7. No sequence of calls corrupts the tables. After every session with the server, for every
  input, driver fault and clock, the identifiers are unique, every reference points to a row and
  the log of every run is numbered from 1 without a gap, when this held before and the roles are
  invoked by a dispatcher whose agents and supervisor keep the tables consistent.
\<close>

theorem mcp_session_consistent:
  assumes "db_ok (wd_db w)" and "well_behaved db_ok d"
    and "ms_Dispatcher s = None \<or> ms_Dispatcher s = Some (Orchestrate d ctx)"
  shows "db_ok (wd_db (snd (session s reqs w)))"
proof (rule session_keeps_db_ok [OF _ assms(1)])
  show "\<forall>orch ins. ms_Dispatcher s = Some orch \<longrightarrow> keeps (on_db db_ok) (orch ins)"
    using assms(3) Orchestrate_keeps_db_ok [OF assms(2)] by auto
qed

definition sample_server :: server where
  "sample_server = \<lparr>ms_DB = True, ms_Dispatcher = Some (Orchestrate sample_dispatcher (\<lambda>_. None)), ms_enc = (\<lambda>_. [])\<rparr>"

lemma mcp_session_consistent_witness:
  "db_ok (wd_db (snd (session sample_server
     [RegisterWorker ''developer'' 7 [] ''codex'', RoleInvoke ''developer'' (Some []), AskUser ''why?'' [] [] ''r1'']
     (world_with empty_db (\<lambda>_. None)))))"
proof (rule mcp_session_consistent [where d = sample_dispatcher and ctx = "\<lambda>_. None"])
  show "db_ok (wd_db (world_with empty_db (\<lambda>_. None)))"
    by (simp add: world_with_def db_ok_def keys_ok_def refs_ok_def empty_db_def empty_log_ok [unfolded empty_db_def])
qed (simp_all add: sample_server_def sample_well_behaved)

section \<open>Two records of one decision\<close>

definition answered :: "ident \<Rightarrow> string \<Rightarrow> db \<Rightarrow> bool" where
  "answered i x d \<longleftrightarrow> (\<exists>a. find_attention i d = Some a \<and> ar_answer a = Some x)"

lemma find_attention_add_event [simp]: "find_attention i (add_event e d) = find_attention i d"
  by (simp add: find_attention_def add_event_def)

lemma find_frames [simp]:
  "find_attention i (d\<lparr>t_checkpoints := cs\<rparr>) = find_attention i d"
  "find_checkpoint i (d\<lparr>t_attention := as\<rparr>) = find_checkpoint i d"
  by (simp_all add: find_attention_def find_checkpoint_def)

lemma find_attention_update:
  assumes "\<And>a. ar_id (f a) = ar_id a" and "update_attention j f d = Inr (n, d')"
  shows "find_attention i d' = map_option (\<lambda>a. if i = j then f a else a) (find_attention i d)"
    and "find_checkpoint i d' = find_checkpoint i d"
  using assms(2) find_key_update [of ar_id f i j "t_attention d", OF assms(1)]
  by (auto simp: update_attention_def find_attention_def)

lemma AnswerAttention_answered:
  assumes "AnswerAttention i x y w = (Inr u, w')"
  shows "answered i x (wd_db w')"
proof -
  let ?f = "\<lambda>a. a\<lparr>ar_answered_by := Some y, ar_answer := Some x, ar_answered_on := [y]\<rparr>"
  from assms obtain n where u: "update_attention i ?f (wd_db w) = Inr (n, wd_db w')" and n: "n \<noteq> 0"
    by (auto simp: AnswerAttention_def run_simps split: if_splits)
  from n u have "find_attention i (wd_db w) \<noteq> None"
    by (auto simp: update_attention_def count_where_def find_attention_def find_None_iff filter_empty_conv)
  with find_attention_update(1) [OF _ u, of i] show ?thesis by (auto simp: answered_def)
qed

lemma keeps_update_attention:
  "keeps (on_db (resolved_as i a b)) (exec (update_attention j f))"
  "(\<And>a. ar_id (g a) = ar_id a \<and> ar_answer (g a) = ar_answer a) \<Longrightarrow> keeps (on_db (answered i x)) (exec (update_attention j g))"
proof -
  show "keeps (on_db (resolved_as i a b)) (exec (update_attention j f))"
    by (rule keeps_exec_unit) (auto simp: update_attention_def resolved_as_def)
  assume g: "\<And>a. ar_id (g a) = ar_id a \<and> ar_answer (g a) = ar_answer a"
  show "keeps (on_db (answered i x)) (exec (update_attention j g))"
  proof (rule keeps_exec_unit)
    fix d n d' assume "answered i x d" "update_attention j g d = Inr (n, d')"
    with find_attention_update(1) [of g j d n d' i] g show "answered i x d'"
      by (cases "i = j") (auto simp: answered_def)
  qed
qed

lemma decisions_kept [keeps_intros]:
  "keeps (on_db (resolved_as i a b)) (AnswerAttention j x y)"
  "keeps (on_db (resolved_as i a b)) (ResolveAttention j)"
  "keeps (on_db (answered i x)) (ResolveAttention j)"
  unfolding AnswerAttention_def ResolveAttention_def
  by (intro keeps_intros keeps_update_attention; simp)+

lemma ResolveCheckpoint_keeps_answered [keeps_intros]: "keeps (on_db (answered i x)) (ResolveCheckpoint j a b c)"
  unfolding ResolveCheckpoint_def
  by (intro keeps_intros keeps_write_row keeps_exec_unit)
    (auto dest!: insert_event_Inr simp: answered_def update_checkpoint_def)

text \<open>
  The attention item and the checkpoint row can end up with different decisions. When a
  checkpoint has been approved, a later rollback of it that reports success leaves the row approved
  but overwrites the answer of the attention item, which is what a resumed run reads.
\<close>

lemma late_rollback_diverges:
  assumes "resolved_as i AttentionAnswerApprove who (wd_db w)"
    and "handleCheckpointRollback i by_user notes w = (Inr j, w')"
  shows "resolved_as i AttentionAnswerApprove who (wd_db w') \<and> answered i AttentionAnswerReject (wd_db w')"
proof
  have "keeps (on_db (resolved_as i AttentionAnswerApprove who)) (handleCheckpointRollback i by_user notes)"
    unfolding handleCheckpointRollback_def decide_checkpoint_def Let_def
    by (intro keeps_intros ResolveCheckpoint_keeps_resolved)
  from keepsD [OF this, of w] assms show "resolved_as i AttentionAnswerApprove who (wd_db w')"
    by (simp add: on_db_def)
  obtain by_1 w1 w2 r where a: "AnswerAttention i AttentionAnswerReject by_1 w1 = (Inr (), w2)"
    and w': "ResolveCheckpoint i AttentionAnswerReject by_1 notes (snd (ResolveAttention i w2)) = (r, w')"
    using assms(2)
    by (auto simp: handleCheckpointRollback_def decide_checkpoint_def Let_def run_simps case_option_run case_sum_run
        split: if_splits intro: that)
  have "answered i AttentionAnswerReject (wd_db w2)" using a by (rule AnswerAttention_answered)
  then have "answered i AttentionAnswerReject (wd_db (snd (ResolveAttention i w2)))"
    by (metis decisions_kept(3) keepsD on_db_def)
  then show "answered i AttentionAnswerReject (wd_db w')" using w'
    by (metis ResolveCheckpoint_keeps_answered keepsD on_db_def snd_conv)
qed

definition decided_world :: world where
  "decided_world = world_with
     (empty_db\<lparr>t_runs := [sample_run ''r1''],
        t_attention := [open_question\<lparr>ar_answer := Some ''approve'', ar_answered_by := Some ''ann''\<rparr>],
        t_checkpoints := [open_checkpoint\<lparr>cp_id := ''a1'', cp_state := ''resolved'', cp_decision := ''approve'', cp_decided_by := ''ann''\<rparr>]\<rparr>)
     (\<lambda>_. None)"

lemma late_rollback_diverges_witness:
  "resolved_as ''a1'' ''approve'' ''ann'' (wd_db (snd (handleCheckpointRollback ''a1'' ''bob'' [] decided_world))) \<and>
   answered ''a1'' ''reject'' (wd_db (snd (handleCheckpointRollback ''a1'' ''bob'' [] decided_world)))"
proof -
  let ?r = "handleCheckpointRollback ''a1'' ''bob'' [] decided_world"
  have "\<exists>j. fst ?r = Inr j"
    by (simp add: handleCheckpointRollback_def decide_checkpoint_def require_def eval_simps decided_world_def
        open_question_def open_checkpoint_def)
  then obtain j where "?r = (Inr j, snd ?r)" by (metis prod.collapse)
  moreover have "resolved_as ''a1'' AttentionAnswerApprove ''ann'' (wd_db decided_world)"
    by (simp add: resolved_as_def eval_simps decided_world_def open_checkpoint_def AttentionAnswerApprove_def)
  ultimately show ?thesis using late_rollback_diverges
    by (metis AttentionAnswerApprove_def AttentionAnswerReject_def)
qed

end
