(* ===== verification/Autopilot.thy ===== *)
theory Autopilot
  imports Workflow
begin

text \<open>
  \<open>cli/run.go\<close>: the autopilot command. It alternates with the human: every approval of a checkpoint
  resumes the run, the state of the scheduler is rebuilt from the event log, one plan is executed,
  and the next ready plan is put behind a checkpoint of its own. The flags of the command, the file
  system and the constructors of the agents are parameters (\<open>run_flags\<close>, \<open>cli_env\<close>); what is
  printed last is the value of the program, and what is printed before an error is left out.
\<close>

section \<open>Flags and surroundings\<close>

record run_flags =
  rf_DBPath :: string
  rf_PolicyPath :: string
  rf_MaxParallelPlans :: int
  rf_NoShip :: bool
  rf_DryRun :: bool
  rf_ManifestPath :: string
  rf_ResumeAfterAttention :: string
  rf_RoleDir :: string
  rf_PromptDir :: string
  rf_CliBinary :: string
  rf_ClaudeBinary :: string
  rf_CodexBinary :: string
  rf_OpenCodeBinary :: string
  rf_OpenCodeServer :: string

text \<open>\<open>ce_stat\<close> is the error of \<open>os.Stat\<close>; \<open>ce_cli_agent bin dir\<close> and \<open>ce_http_agent url\<close> are the agents
  of package \<open>agent\<close>; \<open>ce_order\<close> is the order in which goroutines finish; \<open>ce_polls\<close> is the context.\<close>

record cli_env =
  ce_stat :: "string \<Rightarrow> goerr option"
  ce_mkdir_all :: "string \<Rightarrow> goerr option"
  ce_open_db :: "string \<Rightarrow> goerr option"
  ce_read_file :: "string \<Rightarrow> goerr + string"
  ce_parse_policy :: "string \<Rightarrow> goerr + policy"
  ce_load_manifest :: "string \<Rightarrow> goerr + plan_manifest"
  ce_cwd :: string
  ce_cli_agent :: "string \<Rightarrow> string \<Rightarrow> agent"
  ce_http_agent :: "string \<Rightarrow> agent"
  ce_gh :: process
  ce_roles :: role_env
  ce_tools :: tools
  ce_sha :: digest
  ce_fadd :: fadd
  ce_order :: "nat \<Rightarrow> nat list"
  ce_polls :: polls
  ce_outside :: "world outside"

definition or_default :: "string \<Rightarrow> string \<Rightarrow> string" where
  "or_default s d = (if s = [] then d else s)"

definition missing_file :: "cli_env \<Rightarrow> string \<Rightarrow> bool" where
  "missing_file en path = (ce_stat en path = Some ErrNotExist)"

definition validateRunFileExists :: "cli_env \<Rightarrow> string \<Rightarrow> string \<Rightarrow> unit prog" where
  "validateRunFileExists en path label =
     (case ce_stat en path of
        None \<Rightarrow> ret ()
      | Some e \<Rightarrow>
          if e = ErrNotExist then raise (Errorf ''%s file not found: %q'' [label, path])
          else raise (Wrapf ''access %s file %q: %w'' [label, path] e))"

text \<open>\<open>filepath.Dir\<close> and \<open>filepath.Ext\<close>.\<close>

definition dir_of :: "string \<Rightarrow> string" where
  "dir_of p = clean_path (rev (dropWhile (\<lambda>c. c \<noteq> CHR ''/'') (rev p)))"

definition ext_of :: "string \<Rightarrow> string" where
  "ext_of p =
     (let base = rev (takeWhile (\<lambda>c. c \<noteq> CHR ''/'') (rev p)) in
      if CHR ''.'' \<in> set base then CHR ''.'' # rev (takeWhile (\<lambda>c. c \<noteq> CHR ''.'') (rev base)) else [])"

definition openRunDB :: "cli_env \<Rightarrow> string \<Rightarrow> unit prog" where
  "openRunDB en path0 =
     (let path = or_default path0 (join_path [''.coworker'', ''state.db'']) in
      case ce_mkdir_all en (dir_of path) of
        Some e \<Rightarrow> raise (Wrapf ''create db directory: %w'' [] e)
      | None \<Rightarrow> (case ce_open_db en path of Some e \<Rightarrow> raise (Wrapf ''open database: %w'' [] e) | None \<Rightarrow> ret ()))"

definition loadRunPolicy :: "cli_env \<Rightarrow> string \<Rightarrow> policy option" where
  "loadRunPolicy en path =
     (case ce_read_file en (or_default path (join_path [''.coworker'', ''policy.yaml''])) of
        Inl _ \<Rightarrow> None
      | Inr data \<Rightarrow> (case ce_parse_policy en data of Inl _ \<Rightarrow> None | Inr p \<Rightarrow> Some p))"

definition zero_policy :: policy where
  "zero_policy = \<lparr>pol_checkpoints = [], pol_max_retries_per_job = 0, pol_max_fix_cycles_per_phase = 0,
     pol_max_parallel_plans = 0, pol_max_parallel_reviewers = 0, pol_on_undeclared = [], pol_workflow_overrides = [],
     pol_source = []\<rparr>"

definition run_policy :: "cli_env \<Rightarrow> run_flags \<Rightarrow> policy option" where
  "run_policy en fl =
     (let o_p = loadRunPolicy en (rf_PolicyPath fl) in
      if rf_MaxParallelPlans fl > 0
      then Some ((case o_p of None \<Rightarrow> zero_policy | Some p \<Rightarrow> p)\<lparr>pol_max_parallel_plans := rf_MaxParallelPlans fl\<rparr>)
      else o_p)"

section \<open>Wiring\<close>

definition run_role_dir :: "cli_env \<Rightarrow> run_flags \<Rightarrow> string" where
  "run_role_dir en fl =
     (if rf_RoleDir fl \<noteq> [] then rf_RoleDir fl
      else let d = join_path [''.coworker'', ''roles''] in
           if missing_file en d then join_path [''coding'', ''roles''] else d)"

definition buildRunDispatcher :: "cli_env \<Rightarrow> run_flags \<Rightarrow> policy option \<Rightarrow> dispatcher" where
  "buildRunDispatcher en fl o_p =
     (let coworkerDir = (if rf_DBPath fl = [] then ''.coworker'' else dir_of (rf_DBPath fl));
          newAgent = (\<lambda>bin. ce_cli_agent en bin coworkerDir)
      in \<lparr>di_env = ce_roles en,
          di_RoleDir = run_role_dir en fl,
          di_PromptDir = (if rf_PromptDir fl \<noteq> [] then rf_PromptDir fl
                          else if missing_file en ''.coworker'' then ''coding'' else ''.coworker''),
          di_Agent = newAgent (or_default (rf_CliBinary fl) ''codex''),
          di_CLIAgents =
            [(''claude-code'', newAgent (or_default (rf_ClaudeBinary fl) ''claude'')),
             (''codex'', newAgent (or_default (rf_CodexBinary fl) ''codex'')),
             (''opencode'', if rf_OpenCodeServer fl \<noteq> [] then ce_http_agent en (rf_OpenCodeServer fl)
                          else newAgent (or_default (rf_OpenCodeBinary fl) ''opencode''))],
          di_Supervisor = None, di_SupervisorWriter = True, di_CostWriter = Some (ce_fadd en), di_MaxRetries = 0,
          di_WorkDir = [], di_Policy = o_p, di_AttentionStore = False, di_sha = ce_sha en\<rparr>)"

definition buildPhaseRunner :: "cli_env \<Rightarrow> run_flags \<Rightarrow> string \<Rightarrow> policy option \<Rightarrow> prd_workflow" where
  "buildPhaseRunner en fl manifestPath o_p =
     (let roleDir = run_role_dir en fl;
          exec = \<lparr>pe_Orchestrate = Orchestrate (buildRunDispatcher en fl o_p) (ce_polls en), pe_order = ce_order en,
                  pe_AttentionStore = True, pe_CheckpointWriter = True, pe_Policy = o_p, pe_DeveloperRole = [],
                  pe_ReviewerRoles = None, pe_TesterRoles = None, pe_WorkDir = ce_cwd en, pe_RoleDir = roleDir,
                  pe_env = ce_roles en, pe_tools = ce_tools en, pe_sha = ce_sha en\<rparr>;
          ship = (if rf_NoShip fl then None
                  else Some \<lparr>sh_AttentionStore = True, sh_CheckpointWriter = True, sh_EventStore = True,
                    sh_ArtifactStore = True, sh_JobStore = True, sh_DryRun = rf_DryRun fl, sh_GhRunner = None,
                    sh_gh = ce_gh en\<rparr>)
      in \<lparr>wf_ManifestPath = manifestPath, wf_Policy = o_p, wf_WorktreeManager = None, wf_BaseBranch = [],
          wf_PhaseExecutor = Some exec, wf_Shipper = ship,
          wf_StageRegistry = Some (NewStageRegistry WorkflowBuildFromPRD DefaultStages o_p),
          wf_WorkDir = ce_cwd en, wf_RoleDir = roleDir, wf_PlanWriter = True, wf_CheckpointWriter = True,
          wf_outside = ce_outside en, wf_load = ce_load_manifest en\<rparr>)"

section \<open>State from the log\<close>

definition event_plan_id :: "event \<Rightarrow> int option" where
  "event_plan_id e = (case junmarshal_int (ev_payload e) ''plan_id'' of Some i \<Rightarrow> if i > 0 then Some i else None | None \<Rightarrow> None)"

definition replay_event :: "event \<Rightarrow> boolmap \<times> boolmap \<Rightarrow> boolmap \<times> boolmap" where
  "replay_event e st =
     (let (completed, active) = st in
      if ev_kind e = EventPlanShipped then
        (case event_plan_id e of Some i \<Rightarrow> (set_true i completed, AList.delete i active) | None \<Rightarrow> st)
      else if ev_kind e = EventPhaseStarted then
        (case event_plan_id e of
           Some i \<Rightarrow> if \<not> is_set completed i then (completed, set_true i active) else st
         | None \<Rightarrow> st)
      else st)"

definition reconstructPlanState :: "event list \<Rightarrow> boolmap \<times> boolmap" where
  "reconstructPlanState es = fold replay_event es ([], [])"

fun discoverManifestFromEvents :: "event list \<Rightarrow> string" where
  "discoverManifestFromEvents [] = []"
| "discoverManifestFromEvents (e # es) =
     (if ev_kind e = EventJobCompleted then
        (case junmarshal_str (ev_payload e) ''manifest_path'' of
           Some p \<Rightarrow> if p \<noteq> [] then p else discoverManifestFromEvents es
         | None \<Rightarrow> discoverManifestFromEvents es)
      else discoverManifestFromEvents es)"

section \<open>Manifest of the architect\<close>

fun extractRunManifestPath :: "artifact list \<Rightarrow> string" where
  "extractRunManifestPath [] = []"
| "extractRunManifestPath (a # as) = (if art_kind a = ''manifest'' then art_path a else extractRunManifestPath as)"

fun discoverRunManifestPath :: "artifact list \<Rightarrow> string" where
  "discoverRunManifestPath [] = []"
| "discoverRunManifestPath (a # as) =
     (if art_kind a = ''spec'' \<and> art_path a \<noteq> []
      then take (length (art_path a) - length (ext_of (art_path a))) (art_path a) @ ''-manifest.yaml''
      else discoverRunManifestPath as)"

text \<open>\<open>fmt.Sscanf(source, "plan-%d", &id)\<close>: the literal, white space, an optional sign, digits in the
  range of \<open>int\<close>; what follows the digits is not looked at.\<close>

definition scan_int :: "string \<Rightarrow> int option" where
  "scan_int s =
     (let t = dropWhile (\<lambda>c. is_space c \<and> c \<noteq> CHR 0x0A) s;
          sign = (case t of c # _ \<Rightarrow> if c = CHR ''-'' \<or> c = CHR ''+'' then [c] else [] | [] \<Rightarrow> [])
      in atoi (sign @ takeWhile is_digit (drop (length sign) t)))"

definition extractPlanIDFromSource :: "string \<Rightarrow> int" where
  "extractPlanIDFromSource source =
     (if has_prefix source ''plan-'' then (case scan_int (drop 5 source) of Some i \<Rightarrow> i | None \<Rightarrow> 0) else 0)"

definition findPlanByID :: "plan_manifest \<Rightarrow> int \<Rightarrow> plan_entry option" where
  "findPlanByID m i = find (\<lambda>p. pe_id p = i) (pm_plans m)"

section \<open>Checkpoints and plan rows\<close>

definition checkpointPlanID :: "ident \<Rightarrow> string \<Rightarrow> ident" where
  "checkpointPlanID runID source =
     (let i = extractPlanIDFromSource source in if i \<le> 0 then [] else runID @ ''-plan-'' @ itoa i)"

definition insertRunCheckpoint :: "ident \<Rightarrow> string \<Rightarrow> string \<Rightarrow> ident prog" where
  "insertRunCheckpoint runID label source =
     bindE new_id (\<lambda>i. bindE time_now (\<lambda>now.
     bindE (wrapE ''insert checkpoint %q: %w'' [label] (InsertAttention
       \<lparr>att_id = i, att_run_id = runID, att_kind = AttentionCheckpoint, att_source = source, att_job_id = [],
        att_question = label, att_options = [], att_presented_on = [], att_answered_on = [], att_answered_by = [],
        att_answer = [], att_created_at = Some now, att_resolved_at = None\<rparr>)) (\<lambda>_.
     bindE (wrapE ''insert checkpoint row %q: %w'' [label] (CreateCheckpoint
       \<lparr>cr_id = i, cr_run_id = runID, cr_plan_id = checkpointPlanID runID source, cr_kind = label, cr_notes = source\<rparr>)) (\<lambda>_.
     ret i))))"

definition recordRunPlans :: "ident \<Rightarrow> plan_manifest \<Rightarrow> unit prog" where
  "recordRunPlans runID m =
     bindE (forE (pm_plans m) (\<lambda>p. ignoring (CreatePlan
       \<lparr>pr_id = runID @ ''-plan-'' @ itoa (pe_id p), pr_run_id = runID, pr_number = pe_id p, pr_title = pe_title p,
        pr_blocks_on = pe_blocks_on p, pr_branch = [], pr_pr_url = [], pr_state = ''pending''\<rparr>))) (\<lambda>_. ret ())"

section \<open>The plan loop\<close>

text \<open>A payload made with \<open>%q\<close> is JSON unless the quoted text needs an escape that only Go knows.\<close>

definition json_safe :: "string \<Rightarrow> bool" where
  "json_safe s \<longleftrightarrow> (\<forall>c \<in> set s. ord c \<notin> {7, 11, 127} \<and> (ord c < 32 \<longrightarrow> ord c \<in> {8, 9, 10, 12, 13}))"

definition quoted_payload :: "string \<Rightarrow> int \<Rightarrow> string \<Rightarrow> json" where
  "quoted_payload field i s =
     (if json_safe s then JObj [(''plan_id'', JInt i), (field, JStr s)]
      else JInvalid ([CHR 0x7B, CHR 0x22] @ ''plan_id'' @ [CHR 0x22, CHR 0x3A] @ itoa i @ [CHR 0x2C, CHR 0x22] @ field @
        [CHR 0x22, CHR 0x3A] @ go_quote s @ [CHR 0x7D]))"

definition plan_source :: "int \<Rightarrow> string" where
  "plan_source i = ''plan-'' @ itoa i"

text \<open>How a run of the command ends: the next plan waits for its approval, or nothing is left to do.\<close>

datatype plan_loop_end = Next_Gate plan_entry ident | All_Plans_Done nat | No_Plan_Ready nat nat

definition runPlanLoopCreateNextCheckpoint ::
    "ident \<Rightarrow> plan_manifest \<Rightarrow> policy option \<Rightarrow> boolmap \<Rightarrow> boolmap \<Rightarrow> plan_loop_end prog" where
  "runPlanLoopCreateNextCheckpoint runID m o_p completed active =
     (case ReadyPlans (NewDAGScheduler (Some m) o_p) completed active of
        plan # _ \<Rightarrow>
          bindE (ignoring (append_event runID EventPhaseStarted (plan_source (pe_id plan))
            (quoted_payload ''title'' (pe_id plan) (pe_title plan)))) (\<lambda>_.
          bindE (wrapE ''insert plan-approved checkpoint for plan %d: %w'' [itoa (pe_id plan)]
            (insertRunCheckpoint runID (checkpoint_kind_string CheckpointKindPlanApproved) (plan_source (pe_id plan)))) (\<lambda>i.
          ret (Next_Gate plan i)))
      | [] \<Rightarrow>
          if list_all (\<lambda>p. is_set completed (pe_id p)) (pm_plans m) then ret (All_Plans_Done (length (pm_plans m)))
          else ret (No_Plan_Ready (length completed) (length (pm_plans m))))"

record plan_loop_deps =
  pd_Runner :: "ident \<Rightarrow> plan_entry \<Rightarrow> inputs \<Rightarrow> (phases_result \<times> goerr option) prog"
  pd_Dispatcher :: "dispatch_input \<Rightarrow> dispatch_result prog"

definition real_deps :: "cli_env \<Rightarrow> run_flags \<Rightarrow> string \<Rightarrow> policy option \<Rightarrow> plan_loop_deps" where
  "real_deps en fl manifestPath o_p =
     \<lparr>pd_Runner = RunPhasesForPlan (buildPhaseRunner en fl manifestPath o_p),
      pd_Dispatcher = Orchestrate (buildRunDispatcher en fl o_p) (ce_polls en)\<rparr>"

text \<open>The plan behind an approved gate: planner, phases, and the event that marks it as shipped.\<close>

definition execute_plan :: "plan_loop_deps \<Rightarrow> ident \<Rightarrow> plan_manifest \<Rightarrow> plan_entry \<Rightarrow> phases_result prog" where
  "execute_plan deps runID m plan =
     bindE (wrapE ''planner dispatch for plan %d: %w'' [itoa (pe_id plan)] (pd_Dispatcher deps
       \<lparr>in_RoleName = ''planner'', in_Inputs = [(''spec_path'', pm_spec_path m), (''plan_skeleton'', pe_title plan)],
        in_RunID = runID\<rparr>)) (\<lambda>_.
     bindE (ignoring (append_event runID EventPhaseStarted (plan_source (pe_id plan))
       (quoted_payload ''title'' (pe_id plan) (pe_title plan)))) (\<lambda>_.
     bindE (wrapE ''run phases for plan %d: %w'' [itoa (pe_id plan)]
       (bindE (pd_Runner deps runID plan [(''spec_path'', pm_spec_path m)]) (\<lambda>(out, o_e).
        case o_e of Some e \<Rightarrow> raise e | None \<Rightarrow> ret out))) (\<lambda>out.
     if rx_StoppedAtPhaseClean out
     then raise (Errorf ''plan %d stopped at dirty phase %q'' [itoa (pe_id plan), rx_DirtyPhaseName out])
     else
       bindE (ignoring (append_event runID EventPlanShipped (plan_source (pe_id plan))
         (case rx_ShipResult out of
            None \<Rightarrow> JObj [(''plan_id'', JInt (pe_id plan))]
          | Some sr \<Rightarrow> quoted_payload ''pr_url'' (pe_id plan) (sx_PRURL sr)))) (\<lambda>_.
       ret out))))"

definition runPlanLoopWithDeps ::
    "cli_env \<Rightarrow> plan_loop_deps \<Rightarrow> ident \<Rightarrow> string \<Rightarrow> attention_item \<Rightarrow> boolmap \<Rightarrow> boolmap \<Rightarrow> policy option \<Rightarrow> plan_loop_end prog" where
  "runPlanLoopWithDeps en deps runID manifestPath item completed active o_p =
     (case ce_load_manifest en manifestPath of
        Inl e \<Rightarrow> raise (Wrapf ''load manifest: %w'' [] e)
      | Inr m \<Rightarrow>
          bindE (recordRunPlans runID m) (\<lambda>_.
          if att_question item = ''spec-approved''
          then runPlanLoopCreateNextCheckpoint runID m o_p completed active
          else if att_question item = ''plan-approved'' then
            (let planID = extractPlanIDFromSource (att_source item) in
             if planID \<le> 0
             then raise (Errorf ''cannot parse plan ID from attention item source %q'' [att_source item])
             else
               (case findPlanByID m planID of
                  None \<Rightarrow> raise (Errorf ''plan %d not found in manifest %s'' [itoa planID, manifestPath])
                | Some plan \<Rightarrow>
                    bindE (execute_plan deps runID m plan) (\<lambda>out.
                    runPlanLoopCreateNextCheckpoint runID m o_p (set_true (pe_id plan) completed)
                      (AList.delete (pe_id plan) active))))
          else raise (Errorf ''unknown checkpoint question %q for attention item %s; expected spec-approved or plan-approved''
            [att_question item, att_id item])))"

definition runPlanLoop ::
    "cli_env \<Rightarrow> run_flags \<Rightarrow> ident \<Rightarrow> string \<Rightarrow> attention_item \<Rightarrow> boolmap \<Rightarrow> boolmap \<Rightarrow> policy option \<Rightarrow> plan_loop_end prog" where
  "runPlanLoop en fl runID manifestPath item completed active o_p =
     runPlanLoopWithDeps en (real_deps en fl manifestPath o_p) runID manifestPath item completed active o_p"

section \<open>Resuming\<close>

definition resumeAfterAttention :: "cli_env \<Rightarrow> run_flags \<Rightarrow> ident \<Rightarrow> policy option \<Rightarrow> plan_loop_end prog" where
  "resumeAfterAttention en fl attentionID o_p =
     bindE (wrapE ''look up attention item: %w'' [] (GetAttentionByID attentionID)) (\<lambda>o_item.
     case o_item of
       None \<Rightarrow> raise (Errorf ''attention item %q not found'' [attentionID])
     | Some item \<Rightarrow>
         if \<not> IsAnswered item then raise (Errorf ''attention item %s not yet answered'' [attentionID])
         else if att_answer item = AttentionAnswerReject then
           bindE (if att_run_id item \<noteq> [] then ignoring (CompleteRun (att_run_id item) RunStateAborted) else ret ()) (\<lambda>_.
           raise (Errorf ''run aborted: checkpoint %s was rejected'' [attentionID]))
         else if att_answer item \<noteq> AttentionAnswerApprove
         then raise (Errorf ''unexpected answer %q for attention item %s'' [att_answer item, attentionID])
         else if att_run_id item = [] then raise (Errorf ''attention item %s has no run_id'' [attentionID])
         else
           bindE (wrapE ''replay events for run %s: %w'' [att_run_id item] (ListEvents (att_run_id item))) (\<lambda>es.
           let (completed, active) = reconstructPlanState es; manifestPath = discoverManifestFromEvents es in
           if manifestPath = []
           then raise (Errorf ''cannot determine manifest path for run %s; the original run must have written a manifest_path event''
             [att_run_id item])
           else
             bindE (validateRunFileExists en manifestPath ''manifest'') (\<lambda>_.
             runPlanLoop en fl (att_run_id item) manifestPath item completed active o_p)))"

section \<open>Starting\<close>

definition autopilot_run :: "ident \<Rightarrow> time \<Rightarrow> run" where
  "autopilot_run i now =
     \<lparr>run_id = i, run_mode = ''autopilot'', run_state = RunStateActive, run_started_at = now, run_ended_at = None,
      run_prd_path = [], run_spec_path = [], run_cost_usd = 0, run_budget_usd = None\<rparr>"

definition create_autopilot_run :: "ident prog" where
  "create_autopilot_run =
     bindE new_id (\<lambda>i. bindE time_now (\<lambda>now.
     bindE (wrapE ''create run: %w'' [] (CreateRun (autopilot_run i now))) (\<lambda>_. ret i)))"

definition prepareManifestBypass :: "cli_env \<Rightarrow> run_flags \<Rightarrow> (ident \<times> string) prog" where
  "prepareManifestBypass en fl =
     bindE (validateRunFileExists en (rf_ManifestPath fl) ''manifest'') (\<lambda>_.
     bindE create_autopilot_run (\<lambda>i. ret (i, rf_ManifestPath fl)))"

definition prepareArchitectDispatch :: "cli_env \<Rightarrow> run_flags \<Rightarrow> string \<Rightarrow> policy option \<Rightarrow> (ident \<times> string) prog" where
  "prepareArchitectDispatch en fl prdPath o_p =
     bindE create_autopilot_run (\<lambda>i.
     bindE (wrapE ''architect dispatch: %w'' [] (Orchestrate (buildRunDispatcher en fl o_p) (ce_polls en)
       \<lparr>in_RoleName = ''architect'', in_Inputs = [(''prd_path'', prdPath)], in_RunID = i\<rparr>)) (\<lambda>result.
     let path = (let p = extractRunManifestPath (dx_Artifacts result) in
                 if p = [] then discoverRunManifestPath (dx_Artifacts result) else p) in
     if path = [] then raise (Errorf ''architect did not produce a manifest artifact; check architect role output'' [])
     else ret (i, path)))"

definition prepareRunAndManifest :: "cli_env \<Rightarrow> run_flags \<Rightarrow> string \<Rightarrow> policy option \<Rightarrow> (ident \<times> string) prog" where
  "prepareRunAndManifest en fl prdPath o_p =
     (if rf_ManifestPath fl \<noteq> [] then prepareManifestBypass en fl else prepareArchitectDispatch en fl prdPath o_p)"

definition insertSpecApprovedCheckpoint :: "ident \<Rightarrow> string \<Rightarrow> string \<Rightarrow> string prog" where
  "insertSpecApprovedCheckpoint runID prdPath manifestPath =
     bindE (wrapE ''insert spec-approved checkpoint: %w'' []
       (insertRunCheckpoint runID (checkpoint_kind_string CheckpointKindSpecApproved) ''run-command'')) (\<lambda>i.
     ret (''Spec generated. Manifest at: '' @ manifestPath @ newline @ ''Review and run:'' @ newline @
          ''  coworker run '' @ prdPath @ '' --resume-after-attention '' @ i @ newline @
          ''or answer via HTTP POST /attention/'' @ i @ ''/answer'' @ newline))"

definition plan_lines :: "plan_entry list \<Rightarrow> string" where
  "plan_lines ps =
     concat (map (\<lambda>p. ''  Plan '' @ itoa (pe_id p) @ '': '' @ pe_title p @ '' ('' @ nat_str (length (pe_phases p)) @ '' phases)'' @ newline) ps)"

definition runDryRunMode :: "cli_env \<Rightarrow> run_flags \<Rightarrow> string \<Rightarrow> string prog" where
  "runDryRunMode en fl prdPath =
     bindE (validateRunFileExists en prdPath ''PRD'') (\<lambda>_.
     let intro = sprintf ''Dry-run mode: PRD validated at %q'' [prdPath] @ newline @
                 ''No DB writes or agent dispatches will occur in dry-run mode.'' @ newline in
     if rf_ManifestPath fl = []
     then ret (intro @ ''Architect would be dispatched to produce spec + manifest.'' @ newline)
     else
       bindE (validateRunFileExists en (rf_ManifestPath fl) ''manifest'') (\<lambda>_.
       case ce_load_manifest en (rf_ManifestPath fl) of
         Inl e \<Rightarrow> raise (Wrapf ''load manifest: %w'' [] e)
       | Inr m \<Rightarrow> ret (intro @ ''Manifest: '' @ rf_ManifestPath fl @ '' ('' @ nat_str (length (pm_plans m)) @ '' plans)'' @ newline @
                      plan_lines (pm_plans m))))"

definition loop_end_text :: "plan_loop_end \<Rightarrow> string" where
  "loop_end_text r =
     (case r of
        Next_Gate p i \<Rightarrow> ''Plan '' @ itoa (pe_id p) @ '' ('' @ pe_title p @ '') ready. Review and resume with --resume-after-attention '' @ i @ newline
      | All_Plans_Done n \<Rightarrow> ''All plans complete. Total: '' @ nat_str n @ '' plans'' @ newline
      | No_Plan_Ready k n \<Rightarrow> ''No more plans ready. Completed: '' @ nat_str k @ ''/'' @ nat_str n @ newline)"

definition runAutopilot :: "cli_env \<Rightarrow> run_flags \<Rightarrow> string \<Rightarrow> string prog" where
  "runAutopilot en fl prdPath =
     (if rf_DryRun fl then runDryRunMode en fl prdPath
      else
        bindE (if rf_ManifestPath fl = [] then validateRunFileExists en prdPath ''PRD'' else ret ()) (\<lambda>_.
        bindE (openRunDB en (rf_DBPath fl)) (\<lambda>_.
        let o_p = run_policy en fl in
        if rf_ResumeAfterAttention fl \<noteq> [] then
          (if rf_ManifestPath fl \<noteq> []
           then raise (Errorf (''cannot use --manifest with --resume-after-attention; '' @
             ''the manifest is discovered automatically from the resumed run'' @ [CHR 0x27] @ ''s event log '' @
             [CHR 0xE2, CHR 0x80, CHR 0x94] @ '' omit --manifest'') [])
           else bindE (resumeAfterAttention en fl (rf_ResumeAfterAttention fl) o_p) (\<lambda>r. ret (loop_end_text r)))
        else
          bindE (prepareRunAndManifest en fl prdPath o_p) (\<lambda>(runID, manifestPath).
          insertSpecApprovedCheckpoint runID prdPath manifestPath))))"

end
