(* ===== verification/Autopilot_Facts.thy ===== *)
theory Autopilot_Facts
  imports Autopilot Workflow_Facts
begin

text \<open>
  What the autopilot promises its user: the state it rebuilds from the event log, the gate it leaves
  behind, and that nothing runs without an approval.
\<close>

section \<open>The replayed state\<close>

definition shipped_ids :: "event list \<Rightarrow> int set" where
  "shipped_ids es = {i. \<exists>e \<in> set es. ev_kind e = EventPlanShipped \<and> event_plan_id e = Some i}"

definition started_ids :: "event list \<Rightarrow> int set" where
  "started_ids es = {i. \<exists>e \<in> set es. ev_kind e = EventPhaseStarted \<and> event_plan_id e = Some i}"

lemma is_set_delete: "is_set (AList.delete i m) j \<longleftrightarrow> i \<noteq> j \<and> is_set m j"
  by (auto simp: get_or_def delete_conv')

lemma keys_set_true: "fst ` set (set_true i m) = insert i (fst ` set m)"
  by (simp add: set_true_def dom_map_of_conv_image_fst [symmetric] update_conv')

text \<open>Maps that are only written with \<open>m[k] = true\<close> and \<open>delete\<close> hold no false entry.\<close>

definition flags :: "boolmap \<Rightarrow> int set \<Rightarrow> bool" where
  "flags m S \<longleftrightarrow> distinct (map fst m) \<and> (\<forall>i. is_set m i \<longleftrightarrow> i \<in> S) \<and> fst ` set m = S"

lemma flags_Nil: "flags [] {}"
  by (simp add: flags_def get_or_def)

lemma flags_set_true: "flags m S \<Longrightarrow> flags (set_true i m) (insert i S)"
  by (auto simp: flags_def keys_set_true) (simp add: set_true_def distinct_update)

lemma flags_delete: "flags m S \<Longrightarrow> flags (AList.delete i m) (S - {i})"
  unfolding flags_def is_set_delete delete_keys
  by (auto simp: dom_map_of_conv_image_fst [symmetric] delete_conv' distinct_removeAll split: if_splits)

lemma flags_length: "flags m S \<Longrightarrow> length m = card S"
  by (metis distinct_card flags_def length_map list.set_map)

lemma reconstruct_snoc: "reconstructPlanState (es @ [e]) = replay_event e (reconstructPlanState es)"
  by (simp add: reconstructPlanState_def)

lemma reconstruct_flags:
  "reconstructPlanState es = (c, a) \<Longrightarrow> flags c (shipped_ids es) \<and> flags a (started_ids es - shipped_ids es)"
proof (induction es arbitrary: c a rule: rev_induct)
  case Nil
  then show ?case by (simp add: reconstructPlanState_def shipped_ids_def started_ids_def flags_Nil)
next
  case (snoc e es)
  obtain c0 a0 where r: "reconstructPlanState es = (c0, a0)" by force
  from snoc.IH [OF r] have c0: "flags c0 (shipped_ids es)" and a0: "flags a0 (started_ids es - shipped_ids es)" by auto
  have sh: "shipped_ids (es @ [e]) =
      (case event_plan_id e of Some i \<Rightarrow> if ev_kind e = EventPlanShipped then insert i (shipped_ids es) else shipped_ids es
       | None \<Rightarrow> shipped_ids es)"
    by (auto simp: shipped_ids_def split: option.splits)
  have st: "started_ids (es @ [e]) =
      (case event_plan_id e of Some i \<Rightarrow> if ev_kind e = EventPhaseStarted then insert i (started_ids es) else started_ids es
       | None \<Rightarrow> started_ids es)"
    by (auto simp: started_ids_def split: option.splits)
  have ne: "EventPlanShipped \<noteq> EventPhaseStarted" by simp
  note new = snoc.prems [unfolded reconstruct_snoc r]
  show ?case
  proof (cases "event_plan_id e")
    case None
    with new c0 a0 sh st show ?thesis by (auto simp: replay_event_def split: if_splits)
  next
    case (Some i)
    have del: "insert i (started_ids es) - shipped_ids es = insert i (started_ids es - shipped_ids es)" if "i \<notin> shipped_ids es"
      using that by blast
    have ins: "started_ids es - insert i (shipped_ids es) = (started_ids es - shipped_ids es) - {i}" by blast
    have abs: "insert i (started_ids es) - shipped_ids es = started_ids es - shipped_ids es" if "i \<in> shipped_ids es"
      using that by blast
    have mem: "is_set c0 i \<longleftrightarrow> i \<in> shipped_ids es" using c0 by (simp add: flags_def)
    show ?thesis using new c0 a0 sh st Some mem flags_set_true [OF c0, of i] flags_set_true [OF a0, of i]
        flags_delete [OF a0, of i]
      by (cases "ev_kind e = EventPlanShipped"; cases "ev_kind e = EventPhaseStarted";
          cases "i \<in> shipped_ids es") (simp_all add: replay_event_def ins del abs)
  qed
qed

text \<open>
  C15. The scheduler state rebuilt from an event log is the one the log means: a plan is complete exactly
  when some event ships it, active exactly when some event starts it and none ships it, in whatever order the
  events come; and the number of active entries, which the scheduler subtracts from its slots, counts each
  active plan once.
\<close>

theorem replay_refines_log:
  "\<exists>completed active. reconstructPlanState es = (completed, active) \<and>
     (\<forall>i. is_set completed i \<longleftrightarrow> i \<in> shipped_ids es) \<and>
     (\<forall>i. is_set active i \<longleftrightarrow> i \<in> started_ids es - shipped_ids es) \<and>
     length completed = card (shipped_ids es) \<and> length active = card (started_ids es - shipped_ids es)"
proof -
  obtain c a where r: "reconstructPlanState es = (c, a)" by force
  from reconstruct_flags [OF this] show ?thesis using r
    by (auto simp: flags_length) (auto simp: flags_def)
qed

section \<open>The gate\<close>

lemma extract_plan_source:
  assumes "0 < i" "int_in_range i"
  shows "extractPlanIDFromSource (plan_source i) = i"
proof -
  have d: "\<forall>c \<in> set (itoa i). is_digit c" by (rule itoa_digits) (use assms in simp)
  obtain c cs where s: "itoa i = c # cs" by (cases "itoa i") auto
  with d have c: "is_digit c" by simp
  moreover have "\<not> is_digit (CHR ''-'')" "\<not> is_digit (CHR ''+'')" by code_simp+
  ultimately have nsp: "\<not> is_space c" and nsg: "c \<noteq> CHR ''-''" "c \<noteq> CHR ''+''"
    by (auto simp: is_digit_def is_space_def)
  have "scan_int (itoa i) = atoi (itoa i)" using d s nsp nsg c
    by (simp add: scan_int_def takeWhile_eq_all_conv [THEN iffD2])
  with assms show ?thesis
    by (simp add: extractPlanIDFromSource_def plan_source_def has_prefix_def atoi_itoa)
qed

lemma find_fresh: "i \<notin> key ` set rows \<Longrightarrow> find (\<lambda>a. key a = i) rows = None"
  by (induction rows) auto

text \<open>An attention item and a checkpoint row of the same identifier, both open.\<close>

definition gate_posted :: "ident \<Rightarrow> ident \<Rightarrow> string \<Rightarrow> string \<Rightarrow> db \<Rightarrow> bool" where
  "gate_posted i runID label source d \<longleftrightarrow>
     (\<exists>a c. find_attention i d = Some a \<and> ar_run_id a = runID \<and> ar_kind a = AttentionCheckpoint \<and>
        ar_question a = label \<and> ar_source a = source \<and> ar_answer a = None \<and>
        find_checkpoint i d = Some c \<and> cp_run_id c = runID \<and> cp_kind c = label \<and> cp_state c = ''open'' \<and>
        cp_plan_id c = (if checkpointPlanID runID source = [] then None else Some (checkpointPlanID runID source)))"

lemma InsertAttention_run:
  assumes "InsertAttention item w = (Inr u, w')" and "att_id item \<noteq> []" and "att_answer item = []"
  shows "\<exists>a. find_attention (att_id item) (wd_db w') = Some a \<and> ar_run_id a = att_run_id item \<and> ar_kind a = att_kind item \<and>
    ar_question a = att_question item \<and> ar_source a = att_source item \<and> ar_answer a = None"
  using assms
  by (auto simp: InsertAttention_def Let_def run_simps insert_attention_def map_sum_Inr require_fk_Inr insert_into_Inr
      find_attention_def find_append find_fresh [of _ ar_id])

lemma CreateCheckpoint_run:
  assumes "CreateCheckpoint r w = (Inr u, w')"
  shows "find_attention i (wd_db w') = find_attention i (wd_db w) \<and>
    (\<exists>c. find_checkpoint (cr_id r) (wd_db w') = Some c \<and> cp_run_id c = cr_run_id r \<and> cp_kind c = cr_kind r \<and>
      cp_state c = ''open'' \<and> cp_plan_id c = (if cr_plan_id r = [] then None else Some (cr_plan_id r)))"
proof -
  let ?c = "\<lparr>cp_id = cr_id r, cp_run_id = cr_run_id r, cp_plan_id = (if cr_plan_id r \<noteq> [] then Some (cr_plan_id r) else None),
    cp_kind = cr_kind r, cp_state = ''open'', cp_decision = [], cp_decided_by = [], cp_decided_at = None, cp_notes = cr_notes r\<rparr>"
  from assms obtain ev v where w: "write_row ev (bindE (wrapE ''insert checkpoint: %w'' [] (exec (insert_checkpoint ?c))) (\<lambda>_. ret ())) v = (Inr u, w')"
    and v: "wd_db v = wd_db w"
    by (auto simp: CreateCheckpoint_def Let_def bindE_run time_now_run new_id_run)
  from write_row_run [OF w] obtain w1 w2 where w1: "wd_db w1 = add_event (stored_event (ev\<lparr>ev_sequence := next_sequence (ev_run_id ev) (wd_db v)\<rparr>)) (wd_db v)"
    and m: "bindE (wrapE ''insert checkpoint: %w'' [] (exec (insert_checkpoint ?c))) (\<lambda>_. ret ()) w1 = (Inr (), w2)"
    and w2: "wd_db w' = wd_db w2" by blast
  from m w1 w2 v show ?thesis
    by (auto simp: run_simps insert_checkpoint_def map_sum_Inr require_fk_Inr insert_into_Inr find_attention_def
        find_checkpoint_def find_append add_event_def find_fresh [of _ cp_id])
qed

lemma insertRunCheckpoint_run:
  assumes r: "insertRunCheckpoint runID label source w = (Inr i, w')"
  shows "gate_posted i runID label source (wd_db w') \<and> i = NewID (wd_rnd w) (wd_ids w)"
proof -
  let ?a = "\<lambda>t. \<lparr>att_id = i, att_run_id = runID, att_kind = AttentionCheckpoint, att_source = source, att_job_id = [],
        att_question = label, att_options = [], att_presented_on = [], att_answered_on = [], att_answered_by = [],
        att_answer = [], att_created_at = Some t, att_resolved_at = None\<rparr>"
  let ?c = "\<lparr>cr_id = i, cr_run_id = runID, cr_plan_id = checkpointPlanID runID source, cr_kind = label, cr_notes = source\<rparr>"
  from r obtain t v u1 w1 u2 where i: "i = NewID (wd_rnd w) (wd_ids w)" and a: "InsertAttention (?a t) v = (Inr u1, w1)"
    and c: "CreateCheckpoint ?c w1 = (Inr u2, w')"
    by (auto simp: insertRunCheckpoint_def run_simps)
  from InsertAttention_run [OF a] i CreateCheckpoint_run [OF c, of i] show ?thesis
    by (auto simp: gate_posted_def)
qed

lemma ReadyPlans_head:
  assumes "ReadyPlans (NewDAGScheduler (Some m) pol) completed active = p # ps"
  shows "p \<in> set (pm_plans m) \<and> eligible completed active p \<and>
    int (length active) < MaxParallelPlans (NewDAGScheduler (Some m) pol)"
proof -
  let ?n = "nat (MaxParallelPlans (NewDAGScheduler (Some m) pol) - int (length active))"
  let ?f = "filter (eligible completed active) (pm_plans m)"
  from assms have t: "take ?n ?f = p # ps" by (simp add: ready_plans_conv NewDAGScheduler_def)
  then have "p \<in> set ?f" by (metis in_set_takeD list.set_intros(1))
  moreover have "?n \<noteq> 0" using t by (cases "?n = 0") simp_all
  ultimately show ?thesis by auto
qed

lemma ReadyPlans_none:
  assumes "ReadyPlans (NewDAGScheduler (Some m) pol) completed active = []"
    and "int (length active) < MaxParallelPlans (NewDAGScheduler (Some m) pol)" and "p \<in> set (pm_plans m)"
  shows "\<not> eligible completed active p"
  using assms by (auto simp: ready_plans_conv NewDAGScheduler_def filter_empty_conv)

lemma next_gate_posted:
  assumes "runPlanLoopCreateNextCheckpoint runID m pol completed active w = (Inr (Next_Gate p i), w')"
  shows "p \<in> set (pm_plans m) \<and> eligible completed active p \<and>
    int (length active) < MaxParallelPlans (NewDAGScheduler (Some m) pol) \<and>
    gate_posted i runID ''plan-approved'' (plan_source (pe_id p)) (wd_db w')"
proof (cases "ReadyPlans (NewDAGScheduler (Some m) pol) completed active")
  case Nil
  with assms show ?thesis
    by (auto simp: runPlanLoopCreateNextCheckpoint_def ret_run split: if_splits)
next
  case (Cons q qs)
  from assms [unfolded runPlanLoopCreateNextCheckpoint_def Cons list.case] obtain v where r: "p = q"
    and c: "insertRunCheckpoint runID (checkpoint_kind_string CheckpointKindPlanApproved) (plan_source (pe_id q)) v = (Inr i, w')"
    by (auto simp: bindE_run wrapE_run ret_run)
  from insertRunCheckpoint_run [OF c, THEN conjunct1] have "gate_posted i runID ''plan-approved'' (plan_source (pe_id q)) (wd_db w')"
    by simp
  with ReadyPlans_head [OF Cons] r show ?thesis by simp
qed

text \<open>
  C30. Looking for the next plan ends in one of three ways. Either a gate is posted: the plan belongs to the
  manifest, is neither complete nor active, has all its dependencies complete and a free slot, and an unanswered
  attention item and an open checkpoint row of the same identifier name it. Or every plan is complete. Or
  some plan is left, and each plan that is left runs, waits for another plan, or the slots are used up. Only the
  first writes to the tables.
\<close>

theorem next_gate_sound:
  assumes "runPlanLoopCreateNextCheckpoint runID m pol completed active w = (Inr r, w')"
  shows "case r of
      Next_Gate p i \<Rightarrow> p \<in> set (pm_plans m) \<and> eligible completed active p \<and>
        int (length active) < MaxParallelPlans (NewDAGScheduler (Some m) pol) \<and>
        gate_posted i runID ''plan-approved'' (plan_source (pe_id p)) (wd_db w')
    | All_Plans_Done n \<Rightarrow> n = length (pm_plans m) \<and> (\<forall>p \<in> set (pm_plans m). is_set completed (pe_id p)) \<and> w' = w
    | No_Plan_Ready k n \<Rightarrow> (\<exists>p \<in> set (pm_plans m). \<not> is_set completed (pe_id p)) \<and> w' = w \<and>
        (int (length active) < MaxParallelPlans (NewDAGScheduler (Some m) pol) \<longrightarrow>
          (\<forall>p \<in> set (pm_plans m). \<not> eligible completed active p))"
proof (cases "ReadyPlans (NewDAGScheduler (Some m) pol) completed active")
  case Nil
  with assms ReadyPlans_none [OF Nil] show ?thesis
    by (auto simp: runPlanLoopCreateNextCheckpoint_def list_all_iff ret_run split: if_splits)
next
  case (Cons p ps)
  with assms obtain i where r: "r = Next_Gate p i"
    by (auto simp: runPlanLoopCreateNextCheckpoint_def bindE_run wrapE_run ret_run)
  from next_gate_posted [OF assms [unfolded r]] r show ?thesis by simp
qed

section \<open>An approval resumes the plan it approves\<close>

lemma GetAttentionByID_run:
  assumes "GetAttentionByID i w = (Inr o_item, w')"
  shows "o_item = map_option scanAttentionItem (find_attention i (wd_db w)) \<and> wd_db w' = wd_db w"
  using assms
  by (auto simp: GetAttentionByID_def optional_row_def attempt_def query_row_def query_def sql_def gets_def bindE_def
      raise_def ret_def Let_def split: option.splits if_splits)

lemma AnswerAttention_run:
  assumes "AnswerAttention i x y w = (Inr (), w')" and "find_attention i (wd_db w) = Some a"
  shows "find_attention i (wd_db w') = Some (a\<lparr>ar_answered_by := Some y, ar_answer := Some x, ar_answered_on := [y]\<rparr>)"
  using assms
  by (auto simp: AnswerAttention_def run_simps update_attention_def find_attention_def find_update_where [of ar_id]
      split: if_splits)

lemma find_plan_distinct:
  "distinct (map pe_id ps) \<Longrightarrow> p \<in> set ps \<Longrightarrow> find (\<lambda>q. pe_id q = pe_id p) ps = Some p"
  by (induction ps) auto

lemma valid_plan:
  assumes "valid_manifest m" and "p \<in> set (pm_plans m)"
  shows "0 < pe_id p \<and> findPlanByID m (pe_id p) = Some p"
  using assms find_plan_distinct [of "pm_plans m" p]
  by (auto simp: valid_manifest_def entries_ok_def findPlanByID_def plan_ids_def)

section \<open>Nothing runs without an approval\<close>

definition approves_a_plan :: "attention_row option \<Rightarrow> bool" where
  "approves_a_plan o_a = (case o_a of None \<Rightarrow> False
     | Some a \<Rightarrow> ar_answer a = Some AttentionAnswerApprove \<and> ar_question a = ''plan-approved'')"

lemma loop_without_plan:
  "att_question item \<noteq> ''plan-approved'' \<Longrightarrow> ce_load_manifest en' = ce_load_manifest en \<Longrightarrow>
     runPlanLoopWithDeps en deps r path item c a pol = runPlanLoopWithDeps en' deps' r path item c a pol"
  by (simp add: runPlanLoopWithDeps_def split: sum.split)

text \<open>
  C14. No agent and no pull request without an approved plan gate: resuming an attention item that is missing,
  unanswered, rejected, answered otherwise, or an approved gate of another kind behaves the same whatever the
  agents and the \<open>gh\<close> process would do, so it cannot depend on calling them.
\<close>

theorem no_plan_without_approval:
  assumes "\<not> approves_a_plan (find_attention i (wd_db w))"
  shows "resumeAfterAttention en fl i pol w =
    resumeAfterAttention (en\<lparr>ce_cli_agent := f, ce_http_agent := g, ce_gh := h\<rparr>) fl i pol w"
proof -
  let ?en = "en\<lparr>ce_cli_agent := f, ce_http_agent := g, ce_gh := h\<rparr>"
  obtain r w1 where r: "GetAttentionByID i w = (r, w1)" by force
  show ?thesis
  proof (cases r)
    case (Inl e)
    with r show ?thesis by (simp add: resumeAfterAttention_def bindE_def wrapE_def)
  next
    case (Inr o_item)
    with GetAttentionByID_run [of i w o_item w1] r
    have o: "o_item = map_option scanAttentionItem (find_attention i (wd_db w))" by simp
    show ?thesis
    proof (cases "find_attention i (wd_db w)")
      case None
      with o r Inr show ?thesis by (simp add: resumeAfterAttention_def bindE_def wrapE_def)
    next
      case (Some a)
      let ?item = "scanAttentionItem a"
      have "att_answer ?item = AttentionAnswerApprove \<Longrightarrow> att_question ?item \<noteq> ''plan-approved''"
        using assms Some by (auto simp: approves_a_plan_def scanAttentionItem_def AttentionAnswerApprove_def split: option.splits)
      then have "att_answer ?item \<noteq> AttentionAnswerApprove \<or>
          (\<forall>p c a'. runPlanLoop en fl (att_run_id ?item) p ?item c a' pol = runPlanLoop ?en fl (att_run_id ?item) p ?item c a' pol)"
        using loop_without_plan by (auto simp: runPlanLoop_def)
      moreover have "validateRunFileExists ?en = validateRunFileExists en"
        by (simp add: validateRunFileExists_def fun_eq_iff)
      ultimately show ?thesis using o r Inr Some
        by (auto simp: resumeAfterAttention_def bindE_def wrapE_def Let_def split: prod.splits sum.splits)
    qed
  qed
qed

section \<open>A gate posted and approved\<close>

definition sample_plan_row :: "int \<Rightarrow> plan_record" where
  "sample_plan_row k = \<lparr>pr_id = ''r1-plan-'' @ itoa k, pr_run_id = ''r1'', pr_number = k, pr_title = ''t'',
     pr_blocks_on = [], pr_branch = [], pr_pr_url = [], pr_state = ''pending''\<rparr>"

definition gate_world :: world where
  "gate_world = world_with (empty_db\<lparr>t_runs := [sample_run ''r1''], t_plans := [sample_plan_row 2]\<rparr>) (\<lambda>_. None)"

lemma sample_ready: "ReadyPlans (NewDAGScheduler (Some sample_manifest) None) [] [] =
    [\<lparr>pe_id = 2, pe_title = ''Store'', pe_phases = [''c''], pe_blocks_on = []\<rparr>]"
  by (simp add: ready_plans_conv NewDAGScheduler_def MaxParallelPlans_def defaultMaxParallelPlans_def sample_manifest_def
      eligible_def get_or_def)

lemma sample_texts: "itoa 2 = ''2''" "extractPlanIDFromSource ''plan-2'' = 2"
  by code_simp+




definition gate_event :: event where
  "gate_event = stored_event (mk_event (NewID sample_rnd 0) ''r1'' EventPhaseStarted ''plan-2''
     (quoted_payload ''title'' 2 ''Store'') 1700000000000000000\<lparr>ev_sequence := 1\<rparr>)"

lemma gate_event_simps:
  "ev_id gate_event = NewID sample_rnd 0" "ev_run_id gate_event = ''r1''" "ev_sequence gate_event = 1"
  "ev_idempotency_key gate_event = []"
  by (simp_all add: gate_event_def eval_simps)

definition gate_world1 :: world where
  "gate_world1 = snd (append_event ''r1'' EventPhaseStarted ''plan-2'' (quoted_payload ''title'' 2 ''Store'') gate_world)"

lemma gate_world1_simps:
  "wd_faults gate_world1 k = None" "wd_ids gate_world1 = 1" "wd_rnd gate_world1 = sample_rnd"
  "t_runs (wd_db gate_world1) = [sample_run ''r1'']" "t_plans (wd_db gate_world1) = [sample_plan_row 2]"
  "t_attention (wd_db gate_world1) = []" "t_checkpoints (wd_db gate_world1) = []"
  "t_events (wd_db gate_world1) = [gate_event]"
  by (simp_all add: gate_world1_def append_event_def gate_world_def sample_run_def gate_event_def eval_simps)

lemma sample_gate:
  "\<exists>i. fst (bindE (insertRunCheckpoint ''r1'' ''plan-approved'' ''plan-2'') (\<lambda>i.
      bindE (AnswerAttention i AttentionAnswerApprove ''ann'') (\<lambda>_. bindE (GetAttentionByID i) (\<lambda>x.
        case x of Some item \<Rightarrow> ret i | None \<Rightarrow> raise ErrNoRows))) gate_world1) = Inr i"
  by (simp add: insertRunCheckpoint_def sample_texts checkpointPlanID_def sample_plan_row_def sample_run_def
     gate_world1_simps gate_event_simps eval_simps)

lemma sample_gate_run:
  obtains i p w1 w2 item w3 where
    "runPlanLoopCreateNextCheckpoint ''r1'' sample_manifest None [] [] gate_world = (Inr (Next_Gate p i), w1)"
    "pe_id p = 2" "AnswerAttention i AttentionAnswerApprove ''ann'' w1 = (Inr (), w2)"
    "GetAttentionByID i w2 = (Inr (Some item), w3)"
proof -
  let ?p = "\<lparr>pe_id = 2, pe_title = ''Store'', pe_phases = [''c''], pe_blocks_on = []\<rparr>"
  let ?m = "bindE (insertRunCheckpoint ''r1'' ''plan-approved'' ''plan-2'') (\<lambda>i.
      bindE (AnswerAttention i AttentionAnswerApprove ''ann'') (\<lambda>_. bindE (GetAttentionByID i) (\<lambda>x.
        case x of Some item \<Rightarrow> ret i | None \<Rightarrow> raise ErrNoRows)))"
  obtain q v where m: "?m gate_world1 = (q, v)" by force
  moreover from sample_gate obtain i where "fst (?m gate_world1) = Inr i" by blast
  ultimately have "?m gate_world1 = (Inr i, v)" by simp
  then obtain i w1 w2 item w3 where r: "insertRunCheckpoint ''r1'' ''plan-approved'' ''plan-2'' gate_world1 = (Inr i, w1)"
    "AnswerAttention i AttentionAnswerApprove ''ann'' w1 = (Inr (), w2)" "GetAttentionByID i w2 = (Inr (Some item), w3)"
    by (auto simp: bindE_run raise_run split: option.splits)
  then have "runPlanLoopCreateNextCheckpoint ''r1'' sample_manifest None [] [] gate_world = (Inr (Next_Gate ?p i), w1)"
    by (simp add: runPlanLoopCreateNextCheckpoint_def sample_ready plan_source_def sample_texts gate_world1_def
        bindE_run ignoring_run wrapE_run ret_run)
  with r show thesis by (intro that [of ?p i w1 w2 item w3]) simp_all
qed

lemma next_gate_sound_witness:
  "\<exists>p i w'. runPlanLoopCreateNextCheckpoint ''r1'' sample_manifest None [] [] gate_world = (Inr (Next_Gate p i), w') \<and>
     pe_id p = 2 \<and> gate_posted i ''r1'' ''plan-approved'' (plan_source 2) (wd_db w')"
proof -
  obtain i p w1 w2 item w3 where r: "runPlanLoopCreateNextCheckpoint ''r1'' sample_manifest None [] [] gate_world =
      (Inr (Next_Gate p i), w1)" "pe_id p = 2" by (rule sample_gate_run)
  from next_gate_sound [OF r(1)] r show ?thesis by auto
qed

lemma no_plan_without_approval_witness:
  "\<forall>en f g h fl pol. resumeAfterAttention en fl ''a1'' pol
      (world_with (empty_db\<lparr>t_attention := [open_question]\<rparr>) (\<lambda>_. None)) =
    resumeAfterAttention (en\<lparr>ce_cli_agent := f, ce_http_agent := g, ce_gh := h\<rparr>) fl ''a1'' pol
      (world_with (empty_db\<lparr>t_attention := [open_question]\<rparr>) (\<lambda>_. None))"
  by (intro allI no_plan_without_approval)
    (simp add: approves_a_plan_def find_attention_def world_with_def open_question_def)

end
