(* ===== verification/Resume_Facts.thy ===== *)
theory Resume_Facts
  imports Autopilot_Facts
begin

text \<open>
  What becomes of an approved gate. The command that resumes a run looks for the path of its manifest in the
  \<open>job.completed\<close> events of the run. With a path there it executes exactly the plan of the gate; but no
  operation of the program writes one, so that resuming always fails.
\<close>

section \<open>No event carries the path of a manifest\<close>

definition harmless :: "event \<Rightarrow> bool" where
  "harmless e \<longleftrightarrow> ev_kind e = EventJobCompleted \<longrightarrow> junmarshal_str (ev_payload e) ''manifest_path'' \<in> {None, Some []}"

definition no_path :: "db \<Rightarrow> bool" where
  "no_path d \<longleftrightarrow> list_all harmless (t_events d)"

lemma no_path_frame [simp]:
  "no_path (d\<lparr>t_runs := x1\<rparr>) = no_path d" "no_path (d\<lparr>t_jobs := x2\<rparr>) = no_path d"
  "no_path (d\<lparr>t_findings := x3\<rparr>) = no_path d" "no_path (d\<lparr>t_attention := x5\<rparr>) = no_path d"
  "no_path (d\<lparr>t_supervisor := x10\<rparr>) = no_path d" "no_path (d\<lparr>t_costs := x11\<rparr>) = no_path d"
  "no_path (d\<lparr>t_checkpoints := x12\<rparr>) = no_path d"
  "no_path (add_event e d) \<longleftrightarrow> no_path d \<and> harmless e"
  by (auto simp: no_path_def add_event_def)

lemma harmless_stored [simp]: "harmless (stored_event e) = harmless e" "harmless (e\<lparr>ev_sequence := n\<rparr>) = harmless e"
  by (simp_all add: harmless_def stored_event_def)

lemma harmless_kind: "kind \<noteq> EventJobCompleted \<Longrightarrow> harmless (mk_event i r kind c j t)"
  by (simp add: harmless_def mk_event_def)

lemma harmless_state: "harmless (mk_event i r k c (jstrs [(''job_id'', x), (''state'', y)]) t)"
  by (simp add: harmless_def mk_event_def junmarshal_str_def jstrs_def)

lemma keeps_no_path_write_row:
  assumes "harmless ev" and "keeps (on_db no_path) m"
  shows "keeps (on_db no_path) (write_row ev m)"
  unfolding keeps_def on_db_def
proof (intro allI impI)
  fix w :: world assume w: "no_path (wd_db w)"
  show "no_path (wd_db (snd (write_row ev m w)))"
    using write_row_db [of ev m w]
  proof (elim disjE exE conjE)
    fix w1 w2 assume 1: "wd_db w1 = add_event (stored_event (ev\<lparr>ev_sequence := next_sequence (ev_run_id ev) (wd_db w)\<rparr>)) (wd_db w)"
      and 2: "m w1 = (Inr (), w2)" "wd_db (snd (write_row ev m w)) = wd_db w2"
    from 1 w assms(1) have "no_path (wd_db w1)" by simp
    with assms(2) 2 show ?thesis unfolding keeps_def on_db_def by (metis snd_conv)
  qed (use w in simp)
qed

lemma append_event_no_path: "kind \<noteq> EventJobCompleted \<Longrightarrow> keeps (on_db no_path) (append_event r kind c j)"
  unfolding keeps_def on_db_def
proof (intro allI impI)
  fix w :: world assume k: "kind \<noteq> EventJobCompleted" and w: "no_path (wd_db w)"
  show "no_path (wd_db (snd (append_event r kind c j w)))"
    by (cases rule: append_event_cases [of r kind c j w]) (use k w in \<open>simp_all add: harmless_def\<close>)
qed

lemma RecordCost_no_path: "keeps (on_db no_path) (RecordCost fadd r j s)"
  unfolding keeps_def on_db_def
proof (intro allI impI)
  fix w :: world assume "no_path (wd_db w)"
  then show "no_path (wd_db (snd (RecordCost fadd r j s w)))"
    by (cases rule: RecordCost_cases [of fadd r j s w])
      (auto simp: cost_applied_def no_path_def add_event_def harmless_def stored_event_def cost_payload_def junmarshal_str_def)
qed

lemmas no_path_rows = keeps_intros keeps_exec_unit keeps_no_path_write_row harmless_kind harmless_state

lemma stores_no_path:
  "keeps (on_db no_path) (CreateRun ru)" "keeps (on_db no_path) (CompleteRun i st)"
  "keeps (on_db no_path) (CreateJob jb)"
  "keeps (on_db no_path) (UpdateJobState i js)" "keeps (on_db no_path) (RecordVerdict r j x)"
  "keeps (on_db no_path) (InsertFinding sha f)" "keeps (on_db no_path) (InsertAttention item)"
  "keeps (on_db no_path) (CreateCheckpoint c)" "keeps (on_db no_path) (AnswerAttention i ans who)"
  unfolding CreateRun_def CompleteRun_def CreateJob_def UpdateJobState_def RecordVerdict_def InsertFinding_def
    InsertAttention_def CreateCheckpoint_def AnswerAttention_def Let_def
  by (intro no_path_rows; auto simp: insert_run_def update_run_def insert_job_def update_job_def insert_supervisor_def
      insert_finding_def insert_attention_def insert_checkpoint_def update_attention_def stmt_simps)+

interpretation pathless: store_invariant no_path
  by unfold_locales (intro stores_no_path RecordCost_no_path append_event_no_path; assumption)+

lemma Orchestrate_no_path:
  assumes "well_behaved no_path d"
  shows "keeps (on_db no_path) (Orchestrate d ctx input)"
  unfolding Orchestrate_def executeAttempt_def Let_def
  by (intro keeps_intros pathless.run_attempts_keeps pathless.run_job_keeps stores_no_path well_behaved_parts [OF assms]
      | unfold executeAttempt_def Let_def)+

lemma discover_none: "list_all harmless es \<Longrightarrow> discoverManifestFromEvents es = []"
  by (induction es) (auto simp: harmless_def split: option.splits)

lemma ListEvents_run:
  assumes "ListEvents r w = (Inr es, w')"
  shows "es = sort_key ev_sequence (events_of r (wd_db w)) \<and> wd_db w' = wd_db w"
  using assms by (auto simp: ListEvents_def run_simps)

lemma no_path_discover:
  assumes "ListEvents r w = (Inr es, w')" and "no_path (wd_db w)"
  shows "discoverManifestFromEvents es = []"
  using assms ListEvents_run [OF assms(1)]
  by (intro discover_none) (auto simp: no_path_def list_all_iff events_of_def)

section \<open>Nothing resumes\<close>

lemma keeps_all: "(\<And>P. keeps (on_db P) m) \<Longrightarrow> wd_db (snd (m w)) = wd_db w"
proof -
  assume "\<And>P. keeps (on_db P) m"
  from this [of "\<lambda>d. d = wd_db w"] show ?thesis by (simp add: keeps_def on_db_def)
qed

lemma GetAttentionByID_keeps: "wd_db (snd (GetAttentionByID i w)) = wd_db w"
  unfolding GetAttentionByID_def by (rule keeps_all) (intro keeps_intros)

lemma ListEvents_keeps: "wd_db (snd (ListEvents r w)) = wd_db w"
  unfolding ListEvents_def by (rule keeps_all) (intro keeps_intros)

lemma resume_fails:
  assumes "no_path (wd_db w)"
  shows "isl (fst (resumeAfterAttention en fl i pol w)) \<and> no_path (wd_db (snd (resumeAfterAttention en fl i pol w)))"
proof -
  have keep: "no_path (wd_db (snd (ignoring (CompleteRun r st) v)))" if "no_path (wd_db v)" for r st v
    using stores_no_path(2) that unfolding keeps_def on_db_def ignoring_def by simp
  obtain r w1 where g: "GetAttentionByID i w = (r, w1)" by force
  show ?thesis
  proof (cases r)
    case (Inl e)
    with g assms GetAttentionByID_keeps [of i w] show ?thesis by (simp add: resumeAfterAttention_def bindE_def wrapE_def)
  next
    case (Inr o_item)
    with g GetAttentionByID_run have w1: "wd_db w1 = wd_db w" by blast
    show ?thesis
    proof (cases o_item)
      case None
      with g Inr w1 assms show ?thesis by (simp add: resumeAfterAttention_def bindE_def wrapE_def raise_def)
    next
      case (Some item)
      obtain q w2 where l: "ListEvents (att_run_id item) w1 = (q, w2)" by force
      have w2: "wd_db w2 = wd_db w" using ListEvents_keeps [of "att_run_id item" w1] l w1 by simp
      have path: "discoverManifestFromEvents es = []" if "q = Inr es" for es
        using no_path_discover [of "att_run_id item" w1 es w2] l that w1 assms by simp
      show ?thesis
        using g Inr Some l w1 w2 assms path keep [of w1 "att_run_id item" RunStateAborted]
        by (cases q) (auto simp: resumeAfterAttention_def bindE_def wrapE_def raise_def ret_def Let_def ignoring_def
            split: prod.splits)
    qed
  qed
qed

text \<open>
  The command never gets past its first gate. On a log in which no \<open>job.completed\<close> event carries the path of a
  manifest, whatever the flags, and as long as the agents do not write such an event into the tables themselves,
  the autopilot command leaves the log like that, and every call with \<open>--resume-after-attention\<close> fails.
\<close>

lemma autopilot_dead_end:
  assumes "no_path (wd_db w)" and "well_behaved no_path (buildRunDispatcher en fl (run_policy en fl))"
  shows "no_path (wd_db (snd (runAutopilot en fl prd w))) \<and>
    (rf_ResumeAfterAttention fl \<noteq> [] \<and> \<not> rf_DryRun fl \<longrightarrow> isl (fst (runAutopilot en fl prd w)))"
proof -
  have resume: "keeps (on_db no_path) (resumeAfterAttention en fl i pol)" for i pol
    using resume_fails unfolding keeps_def on_db_def by blast
  have simple: "keeps (on_db no_path) (validateRunFileExists en x y)" "keeps (on_db no_path) (openRunDB en z)" for x y z
    unfolding validateRunFileExists_def openRunDB_def Let_def by (intro keeps_intros)+
  have "keeps (on_db no_path) (runAutopilot en fl prd)"
    unfolding runAutopilot_def runDryRunMode_def prepareRunAndManifest_def prepareManifestBypass_def create_autopilot_run_def
      prepareArchitectDispatch_def insertSpecApprovedCheckpoint_def insertRunCheckpoint_def case_prod_beta Let_def
    by (intro keeps_intros simple resume stores_no_path Orchestrate_no_path assms(2))
  then have "no_path (wd_db (snd (runAutopilot en fl prd w)))" using assms(1) unfolding keeps_def on_db_def by blast
  moreover have "isl (fst (runAutopilot en fl prd w))" if "rf_ResumeAfterAttention fl \<noteq> []" "\<not> rf_DryRun fl"
  proof -
    obtain r1 w1 where 1: "(if rf_ManifestPath fl = [] then validateRunFileExists en prd ''PRD'' else ret ()) w = (r1, w1)" by force
    obtain r2 w2 where 2: "openRunDB en (rf_DBPath fl) w1 = (r2, w2)" by force
    have "keeps (on_db no_path) (if rf_ManifestPath fl = [] then validateRunFileExists en prd ''PRD'' else ret ())"
      by (intro keeps_intros simple)
    with 1 assms(1) have n1: "no_path (wd_db w1)" unfolding keeps_def on_db_def by (metis snd_conv)
    with 2 simple(2) have "no_path (wd_db w2)" unfolding keeps_def on_db_def by (metis snd_conv)
    from resume_fails [OF this, of en fl "rf_ResumeAfterAttention fl" "run_policy en fl"] show ?thesis
      using that 1 2 by (cases r1; cases r2)
        (auto simp: runAutopilot_def bindE_def Let_def raise_def isl_def split: prod.splits sum.splits)
  qed
  ultimately show ?thesis by blast
qed

section \<open>An approved gate\<close>

text \<open>The paths that the \<open>job.completed\<close> events of a log name, in the order of the log; the command takes the first one.\<close>

definition named_manifests :: "event list \<Rightarrow> string list" where
  "named_manifests es = filter (\<lambda>x. x \<noteq> []) (List.map_filter (\<lambda>e.
     if ev_kind e = EventJobCompleted then junmarshal_str (ev_payload e) ''manifest_path'' else None) es)"

lemma discover_first: "discoverManifestFromEvents es = (case named_manifests es of [] \<Rightarrow> [] | x # _ \<Rightarrow> x)"
  by (induction es) (auto simp: named_manifests_def map_filter_simps split: option.split)

lemma gate_item:
  assumes posted: "runPlanLoopCreateNextCheckpoint runID m pol c0 a0 w = (Inr (Next_Gate p i), w1)"
    and answered: "AnswerAttention i AttentionAnswerApprove who w1 = (Inr (), w2)"
    and read: "GetAttentionByID i w2 = (Inr o_item, w3)"
  obtains item where "o_item = Some item" "att_run_id item = runID" "att_question item = ''plan-approved''"
    "att_source item = plan_source (pe_id p)" "att_answer item = AttentionAnswerApprove" "who \<noteq> [] \<Longrightarrow> IsAnswered item"
    "p \<in> set (pm_plans m)"
proof -
  from next_gate_posted [OF posted] have p: "p \<in> set (pm_plans m)"
    and gate: "gate_posted i runID ''plan-approved'' (plan_source (pe_id p)) (wd_db w1)" by auto
  from gate obtain a where a: "find_attention i (wd_db w1) = Some a" "ar_run_id a = runID"
    "ar_question a = ''plan-approved''" "ar_source a = plan_source (pe_id p)"
    by (auto simp: gate_posted_def)
  from GetAttentionByID_run [OF read] AnswerAttention_run [OF answered a(1)]
  have "o_item = Some (scanAttentionItem (a\<lparr>ar_answered_by := Some who, ar_answer := Some AttentionAnswerApprove,
      ar_answered_on := [who]\<rparr>))" by simp
  then show thesis
    by (rule that) (use a p in \<open>simp_all add: scanAttentionItem_def IsAnswered_def AttentionAnswerApprove_def\<close>)
qed

lemma approved_plan_loop:
  assumes valid: "valid_manifest m" "p \<in> set (pm_plans m)" "int_in_range (pe_id p)"
    and item: "att_question item = ''plan-approved''" "att_source item = plan_source (pe_id p)"
    and load: "ce_load_manifest en path = Inr m"
  shows "runPlanLoopWithDeps en deps runID path item completed active pol =
      bindE (recordRunPlans runID m) (\<lambda>_.
      bindE (execute_plan deps runID m p) (\<lambda>_.
      runPlanLoopCreateNextCheckpoint runID m pol (set_true (pe_id p) completed) (AList.delete (pe_id p) active)))"
proof -
  from valid_plan [OF valid(1,2)] valid(3) have "extractPlanIDFromSource (plan_source (pe_id p)) = pe_id p"
    by (intro extract_plan_source) auto
  with item valid_plan [OF valid(1,2)] load show ?thesis by (simp add: runPlanLoopWithDeps_def Let_def)
qed

text \<open>
  C6. What resuming an approved plan gate does, from the command's look at the attention item on. The gate is posted
  for a plan of a validated manifest whose identifiers are machine integers, a human approves it, and the two
  queries of \<open>resumeAfterAttention\<close> succeed. If a \<open>job.completed\<close> event of the run carries the path of the manifest
  and the file is there, the command dispatches the planner and runs the phases of exactly the plan the gate was
  posted for, and looks for the next gate with that plan complete and the rest of the state rebuilt from the log.
  If no event carries a path, it fails and leaves the tables as they are; this is what happens on every log
  that had no such event when the gate was posted. The code never writes one, so it is what happens in the program
  (\<open>autopilot_dead_end\<close>).
\<close>

theorem approved_gate_resume:
  assumes posted: "runPlanLoopCreateNextCheckpoint runID m pol c0 a0 w = (Inr (Next_Gate p i), w1)"
    and valid: "valid_manifest m" "int_in_range (pe_id p)" and run: "runID \<noteq> []"
    and answered: "AnswerAttention i AttentionAnswerApprove who w1 = (Inr (), w2)" and who: "who \<noteq> []"
    and read: "GetAttentionByID i w2 = (Inr o_item, w3)" and log: "ListEvents runID w3 = (Inr es, w4)"
    and path: "path = (case named_manifests es of [] \<Rightarrow> [] | x # _ \<Rightarrow> x)" and state: "(completed, active) = reconstructPlanState es"
  shows "(path = [] \<longrightarrow> wd_db w4 = wd_db w2 \<and> resumeAfterAttention en fl i pol w2 =
      (Inl (Errorf ''cannot determine manifest path for run %s; the original run must have written a manifest_path event''
        [runID]), w4)) \<and>
    (path \<noteq> [] \<and> ce_stat en path = None \<and> ce_load_manifest en path = Inr m \<longrightarrow> resumeAfterAttention en fl i pol w2 =
      bindE (recordRunPlans runID m) (\<lambda>_.
      bindE (execute_plan (real_deps en fl path pol) runID m p) (\<lambda>_.
      runPlanLoopCreateNextCheckpoint runID m pol (set_true (pe_id p) completed) (AList.delete (pe_id p) active))) w4) \<and>
    (no_path (wd_db w) \<longrightarrow> path = [])"
proof -
  obtain item where item: "o_item = Some item" "att_run_id item = runID" "att_question item = ''plan-approved''"
    "att_source item = plan_source (pe_id p)" "att_answer item = AttentionAnswerApprove" "IsAnswered item" "p \<in> set (pm_plans m)"
    by (rule gate_item [OF posted answered read]) (use who in auto)
  note db = conjunct2 [OF GetAttentionByID_run [OF read]] conjunct2 [OF ListEvents_run [OF log]]
  have resume: "resumeAfterAttention en fl i pol w2 =
      (if path = [] then raise (Errorf ''cannot determine manifest path for run %s; the original run must have written a manifest_path event''
          [runID])
       else bindE (validateRunFileExists en path ''manifest'') (\<lambda>_.
         runPlanLoop en fl runID path item completed active pol)) w4"
    using read log item run state [symmetric]
    by (simp add: resumeAfterAttention_def bindE_def wrapE_def discover_first path AttentionAnswerApprove_def AttentionAnswerReject_def Let_def)
  have "path = []" if "no_path (wd_db w)"
  proof -
    have "keeps (on_db no_path) (runPlanLoopCreateNextCheckpoint runID m pol c0 a0)"
      unfolding runPlanLoopCreateNextCheckpoint_def insertRunCheckpoint_def
      by (cases "ReadyPlans (NewDAGScheduler (Some m) pol) c0 a0")
        (auto intro!: keeps_intros stores_no_path append_event_no_path)
    with that posted have "no_path (wd_db w1)" unfolding keeps_def on_db_def by (metis snd_conv)
    with answered stores_no_path(9) have "no_path (wd_db w2)" unfolding keeps_def on_db_def by (metis snd_conv)
    with no_path_discover [OF log] db show ?thesis by (simp add: path discover_first)
  qed
  moreover have "validateRunFileExists en path ''manifest'' = ret ()" if "ce_stat en path = None"
    using that by (simp add: validateRunFileExists_def)
  ultimately show ?thesis
    using approved_plan_loop [OF valid(1) item(7) valid(2) item(3,4)] db
    by (auto simp: resume runPlanLoop_def raise_def)
qed

text \<open>The two outcomes on a log with the path of a manifest and on one without.\<close>

definition path_event :: event where
  "path_event = stored_event (mk_event (NewID sample_rnd 9) ''r1'' EventJobCompleted [] (jstrs [(''manifest_path'', ''m.yaml'')]) 0\<lparr>ev_sequence := 1\<rparr>)"

definition path_world :: world where
  "path_world = gate_world\<lparr>wd_db := wd_db gate_world\<lparr>t_events := [path_event]\<rparr>\<rparr>"

definition path_world1 :: world where
  "path_world1 = snd (append_event ''r1'' EventPhaseStarted ''plan-2'' (quoted_payload ''title'' 2 ''Store'') path_world)"

lemma path_event_simps:
  "ev_id path_event = NewID sample_rnd 9" "ev_run_id path_event = ''r1''" "ev_sequence path_event = 1"
  "ev_idempotency_key path_event = []" "ev_kind path_event = EventJobCompleted" "ev_kind gate_event = EventPhaseStarted"
  "junmarshal_str (ev_payload path_event) ''manifest_path'' = Some ''m.yaml''"
  by (simp_all add: path_event_def gate_event_def junmarshal_str_def jstrs_def eval_simps)

lemma path_world1_simps:
  "wd_faults path_world1 k = None" "wd_ids path_world1 = 1" "wd_rnd path_world1 = sample_rnd"
  "t_runs (wd_db path_world1) = [sample_run ''r1'']" "t_plans (wd_db path_world1) = [sample_plan_row 2]"
  "t_attention (wd_db path_world1) = []" "t_checkpoints (wd_db path_world1) = []"
  "t_events (wd_db path_world1) = [path_event, gate_event\<lparr>ev_sequence := 2\<rparr>]"
  by (simp_all add: path_world1_def path_world_def append_event_def gate_world_def sample_run_def gate_event_def
      path_event_simps eval_simps)

definition resumed :: "world \<Rightarrow> goerr + (ident \<times> event list)" where
  "resumed w = fst (bindE (insertRunCheckpoint ''r1'' ''plan-approved'' ''plan-2'') (\<lambda>i.
      bindE (AnswerAttention i AttentionAnswerApprove ''ann'') (\<lambda>_. bindE (GetAttentionByID i) (\<lambda>_.
        bindE (ListEvents ''r1'') (\<lambda>es. ret (i, es))))) w)"

lemma sample_resume:
  "\<exists>i es. resumed path_world1 = Inr (i, es) \<and> discoverManifestFromEvents es = ''m.yaml''"
  "\<exists>i es. resumed gate_world1 = Inr (i, es)"
  by (simp_all add: resumed_def insertRunCheckpoint_def sample_texts checkpointPlanID_def sample_plan_row_def sample_run_def
     path_world1_simps gate_world1_simps path_event_simps gate_event_simps eval_simps ListEvents_def)

definition sample_entry :: plan_entry where
  "sample_entry = \<lparr>pe_id = 2, pe_title = ''Store'', pe_phases = [''c''], pe_blocks_on = []\<rparr>"

lemma sample_inputs:
  "valid_manifest sample_manifest" "int_in_range (pe_id sample_entry)" "''r1'' \<noteq> []" "''ann'' \<noteq> []" "pe_id sample_entry = 2"
  using sample_validates validate_iff_aux [of rev sample_manifest] by (simp_all add: sample_entry_def int_in_range_def)

lemma sample_resume_run:
  assumes "resumed (snd (append_event ''r1'' EventPhaseStarted ''plan-2'' (quoted_payload ''title'' 2 ''Store'') w)) = Inr (i, es)"
  obtains w1 w2 o_item w3 w4 where
    "runPlanLoopCreateNextCheckpoint ''r1'' sample_manifest None [] [] w = (Inr (Next_Gate sample_entry i), w1)"
    "AnswerAttention i AttentionAnswerApprove ''ann'' w1 = (Inr (), w2)"
    "GetAttentionByID i w2 = (Inr o_item, w3)" "ListEvents ''r1'' w3 = (Inr es, w4)"
proof -
  let ?w = "snd (append_event ''r1'' EventPhaseStarted ''plan-2'' (quoted_payload ''title'' 2 ''Store'') w)"
  let ?m = "bindE (insertRunCheckpoint ''r1'' ''plan-approved'' ''plan-2'') (\<lambda>i.
      bindE (AnswerAttention i AttentionAnswerApprove ''ann'') (\<lambda>_. bindE (GetAttentionByID i) (\<lambda>_.
        bindE (ListEvents ''r1'') (\<lambda>es. ret (i, es)))))"
  obtain q v where "?m ?w = (q, v)" by force
  with assms have "?m ?w = (Inr (i, es), v)" by (simp add: resumed_def)
  then obtain w1 w2 o_item w3 w4 where r: "insertRunCheckpoint ''r1'' ''plan-approved'' ''plan-2'' ?w = (Inr i, w1)"
    "AnswerAttention i AttentionAnswerApprove ''ann'' w1 = (Inr (), w2)" "GetAttentionByID i w2 = (Inr o_item, w3)"
    "ListEvents ''r1'' w3 = (Inr es, w4)"
    by (auto simp: bindE_run ret_run)
  then have "runPlanLoopCreateNextCheckpoint ''r1'' sample_manifest None [] [] w = (Inr (Next_Gate sample_entry i), w1)"
    by (simp add: runPlanLoopCreateNextCheckpoint_def sample_ready plan_source_def sample_texts sample_entry_def
        bindE_run ignoring_run wrapE_run ret_run)
  with r show thesis by (intro that)
qed

lemma approved_gate_resume_witness:
  "(\<exists>i w2 w4 completed active. \<forall>en fl. let env = en\<lparr>ce_stat := \<lambda>_. None, ce_load_manifest := \<lambda>_. Inr sample_manifest\<rparr> in
      resumeAfterAttention env fl i None w2 =
      bindE (recordRunPlans ''r1'' sample_manifest) (\<lambda>_.
      bindE (execute_plan (real_deps env fl ''m.yaml'' None) ''r1'' sample_manifest sample_entry) (\<lambda>_.
      runPlanLoopCreateNextCheckpoint ''r1'' sample_manifest None (set_true 2 completed) (AList.delete 2 active))) w4) \<and>
   (\<exists>i w2. \<forall>en fl. isl (fst (resumeAfterAttention en fl i None w2)))"
proof (rule conjI)
  obtain i es where 1: "resumed path_world1 = Inr (i, es)" "discoverManifestFromEvents es = ''m.yaml''"
    using sample_resume(1) by blast
  obtain w1 w2 o_item w3 w4 where r: "runPlanLoopCreateNextCheckpoint ''r1'' sample_manifest None [] [] path_world =
      (Inr (Next_Gate sample_entry i), w1)" "AnswerAttention i AttentionAnswerApprove ''ann'' w1 = (Inr (), w2)"
    "GetAttentionByID i w2 = (Inr o_item, w3)" "ListEvents ''r1'' w3 = (Inr es, w4)"
    by (rule sample_resume_run [OF 1(1) [unfolded path_world1_def]])
  obtain completed active where st: "(completed, active) = reconstructPlanState es" by (metis surj_pair)
  note outcome = approved_gate_resume [OF r(1) sample_inputs(1,2,3) r(2) sample_inputs(4) r(3,4) 1(2) [unfolded discover_first, symmetric] st]
  show "\<exists>i w2 w4 completed active. \<forall>en fl. let env = en\<lparr>ce_stat := \<lambda>_. None, ce_load_manifest := \<lambda>_. Inr sample_manifest\<rparr> in
      resumeAfterAttention env fl i None w2 =
      bindE (recordRunPlans ''r1'' sample_manifest) (\<lambda>_.
      bindE (execute_plan (real_deps env fl ''m.yaml'' None) ''r1'' sample_manifest sample_entry) (\<lambda>_.
      runPlanLoopCreateNextCheckpoint ''r1'' sample_manifest None (set_true 2 completed) (AList.delete 2 active))) w4"
    by (rule exI [of _ i], rule exI [of _ w2], rule exI [of _ w4], rule exI [of _ completed], rule exI [of _ active])
      (use outcome in \<open>simp add: Let_def sample_inputs(5)\<close>)
next
  obtain i es where 1: "resumed gate_world1 = Inr (i, es)" using sample_resume(2) by blast
  obtain w1 w2 o_item w3 w4 where r: "runPlanLoopCreateNextCheckpoint ''r1'' sample_manifest None [] [] gate_world =
      (Inr (Next_Gate sample_entry i), w1)" "AnswerAttention i AttentionAnswerApprove ''ann'' w1 = (Inr (), w2)"
    "GetAttentionByID i w2 = (Inr o_item, w3)" "ListEvents ''r1'' w3 = (Inr es, w4)"
    by (rule sample_resume_run [OF 1 [unfolded gate_world1_def]])
  obtain completed active where st: "(completed, active) = reconstructPlanState es" by (metis surj_pair)
  have "no_path (wd_db gate_world)" by (simp add: no_path_def gate_world_def world_with_def empty_db_def)
  with approved_gate_resume [OF r(1) sample_inputs(1,2,3) r(2) sample_inputs(4) r(3,4) refl st]
  have "isl (fst (resumeAfterAttention en fl i None w2))" for en fl by simp
  then show "\<exists>i w2. \<forall>en fl. isl (fst (resumeAfterAttention en fl i None w2))" by blast
qed

end
