(* ===== verification/Json_Text.thy ===== *)
theory Json_Text
  imports Supervisor
begin

text \<open>
  \<open>encoding/json\<close> of the standard library on bytes, as far as the agents read it: the value at the head
  of a text (\<open>Decoder.Decode\<close>, \<open>Decoder.More\<close>), a whole text (\<open>Unmarshal\<close>), and the decoding of a value
  into the fields of a struct, with keys matched without regard to case, later keys overriding earlier
  ones and null leaving a field alone. A number keeps its literal, which \<open>int\<close> fields read with
  \<open>strconv.ParseInt\<close>; \<open>strconv.ParseFloat\<close> is a parameter where a field is a \<open>float64\<close>.
\<close>

section \<open>Values\<close>

datatype jtext =
    TNull
  | TBool bool
  | TNum string
  | TStr string
  | TArr "jtext list"
  | TObj "(string \<times> jtext) list"

definition json_space :: "char \<Rightarrow> bool" where
  "json_space c \<longleftrightarrow> ord c \<in> {32, 9, 10, 13}"

abbreviation skip_ws :: "string \<Rightarrow> string" where
  "skip_ws s \<equiv> dropWhile json_space s"

section \<open>Strings\<close>

text \<open>The size of the UTF-8 sequence at the head of a text whose first byte is not ASCII.\<close>

definition continues :: "nat \<Rightarrow> nat \<Rightarrow> char \<Rightarrow> bool" where
  "continues lo hi c \<longleftrightarrow> lo \<le> ord c \<and> ord c \<le> hi"

definition sequence_size :: "string \<Rightarrow> nat option" where
  "sequence_size s =
     (case s of
        a # b # r \<Rightarrow>
          (let x = ord a; plain = continues 0x80 0xBF;
               second = (if x = 0xE0 then continues 0xA0 0xBF b else if x = 0xED then continues 0x80 0x9F b
                         else if x = 0xF0 then continues 0x90 0xBF b else if x = 0xF4 then continues 0x80 0x8F b
                         else plain b)
           in if \<not> second then None
              else if 0xC2 \<le> x \<and> x \<le> 0xDF then Some 2
              else if 0xE0 \<le> x \<and> x \<le> 0xEF then
                (case r of c # _ \<Rightarrow> if plain c then Some 3 else None | [] \<Rightarrow> None)
              else if 0xF0 \<le> x \<and> x \<le> 0xF4 then
                (case r of c # d # _ \<Rightarrow> if plain c \<and> plain d then Some 4 else None | _ \<Rightarrow> None)
              else None)
      | _ \<Rightarrow> None)"

definition replacement :: string where
  "replacement = [CHR 0xEF, CHR 0xBF, CHR 0xBD]"

definition utf8_or_replacement :: "nat \<Rightarrow> string" where
  "utf8_or_replacement n = (case utf8 n of None \<Rightarrow> replacement | Some bs \<Rightarrow> bs)"

text \<open>Behind a backslash: a character, or a code unit that may be the first half of a surrogate pair.\<close>

definition json_escapes :: "(char \<times> char) list" where
  "json_escapes = [(CHR 0x22, CHR 0x22), (CHR 0x5C, CHR 0x5C), (CHR ''/'', CHR ''/''), (CHR ''b'', CHR 0x08),
     (CHR ''f'', CHR 0x0C), (CHR ''n'', CHR 0x0A), (CHR ''r'', CHR 0x0D), (CHR ''t'', CHR 0x09)]"

definition low_half :: "string \<Rightarrow> (nat \<times> string) option" where
  "low_half s =
     (case s of
        b # u # r \<Rightarrow>
          if b = CHR 0x5C \<and> u = CHR ''u'' then
            (case hex_number 4 0 r of
               Some (n, r') \<Rightarrow> if 0xDC00 \<le> n \<and> n < 0xE000 then Some (n, r') else None
             | None \<Rightarrow> None)
          else None
      | _ \<Rightarrow> None)"

definition json_escape :: "string \<Rightarrow> (string \<times> string) option" where
  "json_escape s =
     (case s of
        [] \<Rightarrow> None
      | c # cs \<Rightarrow>
          if c = CHR ''u'' then
            (case hex_number 4 0 cs of
               None \<Rightarrow> None
             | Some (n, r) \<Rightarrow>
                 if 0xD800 \<le> n \<and> n < 0xDC00 then
                   (case low_half r of
                      Some (m, r') \<Rightarrow> Some (utf8_or_replacement (0x10000 + (n - 0xD800) * 0x400 + (m - 0xDC00)), r')
                    | None \<Rightarrow> Some (replacement, r))
                 else Some (utf8_or_replacement n, r))
          else map_option (\<lambda>x. ([x], cs)) (map_of json_escapes c))"

text \<open>One character of a string literal: its bytes in the decoded string, and the rest.\<close>

definition json_char :: "string \<Rightarrow> (string \<times> string) option" where
  "json_char s =
     (case s of
        [] \<Rightarrow> None
      | c # cs \<Rightarrow>
          if c = CHR 0x5C then json_escape cs
          else if ord c < 32 then None
          else if ord c < 128 then Some ([c], cs)
          else (case sequence_size s of Some n \<Rightarrow> Some (take n s, drop n s) | None \<Rightarrow> Some (replacement, cs)))"

fun json_chars :: "nat \<Rightarrow> string \<Rightarrow> (string \<times> string) option" where
  "json_chars 0 s = None"
| "json_chars (Suc k) s =
     (case s of
        [] \<Rightarrow> None
      | c # cs \<Rightarrow>
          if c = CHR 0x22 then Some ([], cs)
          else (case json_char s of
              None \<Rightarrow> None
            | Some (bs, r) \<Rightarrow> map_option (\<lambda>(t, r'). (bs @ t, r')) (json_chars k r)))"

text \<open>The fuel is enough, because every character takes at least one byte.\<close>

definition json_string :: "string \<Rightarrow> (string \<times> string) option" where
  "json_string s = json_chars (length s) s"

section \<open>Numbers and words\<close>

definition digits1 :: "string \<Rightarrow> (string \<times> string) option" where
  "digits1 s = (case takeWhile is_digit s of [] \<Rightarrow> None | d # ds \<Rightarrow> Some (d # ds, dropWhile is_digit s))"

definition json_exponent :: "string \<Rightarrow> (string \<times> string) option" where
  "json_exponent s =
     (case s of
        c # cs \<Rightarrow>
          if c = CHR ''e'' \<or> c = CHR ''E'' then
            (let sign = (case cs of d # _ \<Rightarrow> if d = CHR ''+'' \<or> d = CHR ''-'' then [d] else [] | [] \<Rightarrow> []) in
             map_option (\<lambda>(ds, r). (c # sign @ ds, r)) (digits1 (drop (length sign) cs)))
          else Some ([], s)
      | [] \<Rightarrow> Some ([], s))"

definition json_fraction :: "string \<Rightarrow> (string \<times> string) option" where
  "json_fraction s =
     (case s of
        c # cs \<Rightarrow> if c = CHR ''.'' then map_option (\<lambda>(ds, r). (c # ds, r)) (digits1 cs) else Some ([], s)
      | [] \<Rightarrow> Some ([], s))"

definition json_number :: "string \<Rightarrow> (string \<times> string) option" where
  "json_number s =
     (let sign = (case s of c # _ \<Rightarrow> if c = CHR ''-'' then [c] else [] | [] \<Rightarrow> []);
          t = drop (length sign) s;
          whole = (case t of c # cs \<Rightarrow> if c = CHR ''0'' then Some ([c], cs) else digits1 t | [] \<Rightarrow> None)
      in case whole of None \<Rightarrow> None
         | Some (ds, r) \<Rightarrow> (case json_fraction r of None \<Rightarrow> None
             | Some (f, r') \<Rightarrow> map_option (\<lambda>(e, r''). (sign @ ds @ f @ e, r'')) (json_exponent r')))"

definition json_word :: "string \<Rightarrow> jtext \<Rightarrow> string \<Rightarrow> (jtext \<times> string) option" where
  "json_word w v s = (if has_prefix s w then Some (v, drop (length w) s) else None)"

definition json_scalar :: "string \<Rightarrow> (jtext \<times> string) option" where
  "json_scalar s =
     (case s of
        [] \<Rightarrow> None
      | c # cs \<Rightarrow>
          if c = CHR 0x22 then map_option (\<lambda>(t, r). (TStr t, r)) (json_string cs)
          else if c = CHR ''n'' then json_word ''null'' TNull s
          else if c = CHR ''t'' then json_word ''true'' (TBool True) s
          else if c = CHR ''f'' then json_word ''false'' (TBool False) s
          else map_option (\<lambda>(t, r). (TNum t, r)) (json_number s))"

section \<open>Arrays and objects\<close>

text \<open>The tests on lengths never fail; they make the recursion well-founded on its own.\<close>

function json_elements :: "(string \<Rightarrow> (jtext \<times> string) option) \<Rightarrow> string \<Rightarrow> (jtext list \<times> string) option" where
  "json_elements val s =
     (case val (skip_ws s) of
        None \<Rightarrow> None
      | Some (v, r) \<Rightarrow>
          (case skip_ws r of
             [] \<Rightarrow> None
           | c # r' \<Rightarrow>
               if c = CHR '']'' then Some ([v], r')
               else if c = CHR '','' \<and> length r' < length s
               then map_option (\<lambda>(vs, r''). (v # vs, r'')) (json_elements val r')
               else None))"
  by pat_completeness auto
termination by (relation "measure (\<lambda>(v, s). length s)") auto

definition json_key :: "string \<Rightarrow> (string \<times> string) option" where
  "json_key s =
     (case skip_ws s of
        c # cs \<Rightarrow>
          if c = CHR 0x22 then
            (case json_string cs of
               Some (k, r) \<Rightarrow> (case skip_ws r of d # r' \<Rightarrow> if d = CHR '':'' then Some (k, r') else None | [] \<Rightarrow> None)
             | None \<Rightarrow> None)
          else None
      | [] \<Rightarrow> None)"

function json_members :: "(string \<Rightarrow> (jtext \<times> string) option) \<Rightarrow> string \<Rightarrow> ((string \<times> jtext) list \<times> string) option" where
  "json_members val s =
     (case json_key s of
        None \<Rightarrow> None
      | Some (k, r0) \<Rightarrow>
          (case val (skip_ws r0) of
             None \<Rightarrow> None
           | Some (v, r) \<Rightarrow>
               (case skip_ws r of
                  [] \<Rightarrow> None
                | c # r' \<Rightarrow>
                    if c = CHR 0x7D then Some ([(k, v)], r')
                    else if c = CHR '','' \<and> length r' < length s
                    then map_option (\<lambda>(kvs, r''). ((k, v) # kvs, r'')) (json_members val r')
                    else None)))"
  by pat_completeness auto
termination by (relation "measure (\<lambda>(v, s). length s)") auto

text \<open>\<open>d\<close> is the nesting that is still allowed; the decoder of Go gives up at 10000.\<close>

fun json_value :: "nat \<Rightarrow> string \<Rightarrow> (jtext \<times> string) option" where
  "json_value d s =
     (case s of
        [] \<Rightarrow> None
      | c # cs \<Rightarrow>
          if c = CHR ''['' then
            (if d = 0 then None
             else (case skip_ws cs of
                 [] \<Rightarrow> None
               | e # r \<Rightarrow> if e = CHR '']'' then Some (TArr [], r)
                        else map_option (\<lambda>(vs, r'). (TArr vs, r')) (json_elements (json_value (d - 1)) (e # r))))
          else if c = CHR 0x7B then
            (if d = 0 then None
             else (case skip_ws cs of
                 [] \<Rightarrow> None
               | e # r \<Rightarrow> if e = CHR 0x7D then Some (TObj [], r)
                        else map_option (\<lambda>(kvs, r'). (TObj kvs, r')) (json_members (json_value (d - 1)) (e # r))))
          else json_scalar s)"

declare json_value.simps [simp del] json_elements.simps [simp del] json_members.simps [simp del]

definition max_nesting :: nat where
  "max_nesting = 10000"

text \<open>\<open>json.Unmarshal\<close>: one value and nothing but white space around it.\<close>

definition json_text :: "string \<Rightarrow> jtext option" where
  "json_text s =
     (case json_value max_nesting (skip_ws s) of
        Some (v, r) \<Rightarrow> if skip_ws r = [] then Some v else None
      | None \<Rightarrow> None)"

section \<open>Structs\<close>

text \<open>The case folding of keys: ASCII, and the two runes that fold to ASCII letters.\<close>

fun fold_key :: "string \<Rightarrow> string" where
  "fold_key [] = []"
| "fold_key (c # cs) =
     (if c = CHR 0xC5 \<and> cs \<noteq> [] \<and> hd cs = CHR 0xBF then CHR ''S'' # fold_key (drop 1 cs)
      else if c = CHR 0xE2 \<and> take 2 cs = [CHR 0x84, CHR 0xAA] then CHR ''K'' # fold_key (drop 2 cs)
      else (if is_lower c then char_of (ord c - 32) else c) # fold_key cs)"

definition key_is :: "string \<Rightarrow> string \<Rightarrow> bool" where
  "key_is name k \<longleftrightarrow> fold_key k = fold_key name"

text \<open>A field of a struct is decoded by a function from its present value and the new one; \<open>None\<close> is
  the error of a value of another type.\<close>

type_synonym 'a field_decoder = "'a \<Rightarrow> jtext \<Rightarrow> 'a option"

definition str_value :: "string field_decoder" where
  "str_value x v = (case v of TStr s \<Rightarrow> Some s | TNull \<Rightarrow> Some x | _ \<Rightarrow> None)"

definition int_value :: "int field_decoder" where
  "int_value x v = (case v of TNum l \<Rightarrow> atoi l | TNull \<Rightarrow> Some x | _ \<Rightarrow> None)"

definition num_value :: "(string \<Rightarrow> rat option) \<Rightarrow> rat field_decoder" where
  "num_value parse_float x v = (case v of TNum l \<Rightarrow> parse_float l | TNull \<Rightarrow> Some x | _ \<Rightarrow> None)"

fun field_over :: "'a field_decoder \<Rightarrow> string \<Rightarrow> 'a \<Rightarrow> (string \<times> jtext) list \<Rightarrow> 'a option" where
  "field_over dec name x [] = Some x"
| "field_over dec name x ((k, v) # kvs) =
     (if key_is name k then (case dec x v of None \<Rightarrow> None | Some y \<Rightarrow> field_over dec name y kvs)
      else field_over dec name x kvs)"

text \<open>The members of an object for a struct; null is the struct left alone.\<close>

definition struct_members :: "jtext \<Rightarrow> (string \<times> jtext) list option" where
  "struct_members v = (case v of TObj kvs \<Rightarrow> Some kvs | TNull \<Rightarrow> Some [] | _ \<Rightarrow> None)"

definition str_field :: "string \<Rightarrow> (string \<times> jtext) list \<Rightarrow> string option" where
  "str_field name = field_over str_value name []"

definition int_field :: "string \<Rightarrow> (string \<times> jtext) list \<Rightarrow> int option" where
  "int_field name = field_over int_value name 0"

section \<open>Consumption\<close>

text \<open>Every parser returns a proper suffix or leaves the text alone; so the tests above never fail.\<close>

lemma drop_shrinks: "s \<noteq> [] \<Longrightarrow> 0 < n \<Longrightarrow> length (drop n s) < length s"
  by (cases s) auto

lemma skip_ws_length: "length (skip_ws s) \<le> length s"
  by (rule length_dropWhile_le)

lemma digits1_shrinks: "digits1 s = Some (ds, r) \<Longrightarrow> length r < length s"
proof -
  assume "digits1 s = Some (ds, r)"
  then have "takeWhile is_digit s \<noteq> []" and r: "r = dropWhile is_digit s"
    by (auto simp: digits1_def split: list.splits)
  moreover have "length s = length (takeWhile is_digit s) + length (dropWhile is_digit s)"
    by (metis length_append takeWhile_dropWhile_id)
  ultimately show ?thesis by simp
qed

lemma hex_number_length: "hex_number n a s = Some (x, r) \<Longrightarrow> length r \<le> length s"
  by (induction n a s rule: hex_number.induct) (auto split: option.splits)

lemma low_half_length: "low_half s = Some (x, r) \<Longrightarrow> length r < length s"
  by (auto simp: low_half_def split: list.splits if_splits option.splits dest!: hex_number_length)

lemma json_escape_shrinks: "json_escape s = Some (bs, r) \<Longrightarrow> length r < length s"
  by (auto simp: json_escape_def split: list.splits if_splits option.splits
      dest!: hex_number_length low_half_length)

lemma json_char_shrinks: "json_char s = Some (bs, r) \<Longrightarrow> length r < length s"
  by (auto simp: json_char_def sequence_size_def Let_def split: list.splits if_splits option.splits
      dest!: json_escape_shrinks)

lemma json_chars_shrinks: "json_chars k s = Some (t, r) \<Longrightarrow> length r < length s"
  by (induction k arbitrary: s t r)
    (fastforce split: list.splits if_splits option.splits dest: json_char_shrinks)+

lemma json_chars_fuel: "length s \<le> k \<Longrightarrow> json_chars k s = json_chars (length s) s"
proof (induction "length s" arbitrary: s k rule: less_induct)
  case less
  show ?case
  proof (cases s)
    case Nil
    then show ?thesis by (cases k) simp_all
  next
    case (Cons c cs)
    with less.prems obtain j where k: "k = Suc j" "length cs \<le> j" by (cases k) auto
    have "json_chars j r = json_chars (length cs) r" if "json_char s = Some (bs, r)" for bs r
    proof -
      from json_char_shrinks [OF that] Cons have "length r < length s" "length r \<le> length cs" by auto
      with less.hyps [of r j] less.hyps [of r "length cs"] k show ?thesis by simp
    qed
    then show ?thesis using Cons k by (auto split: option.splits)
  qed
qed

lemma json_string_shrinks: "json_string s = Some (t, r) \<Longrightarrow> length r < length s"
  unfolding json_string_def by (rule json_chars_shrinks)

lemma json_fraction_length: "json_fraction s = Some (f, r) \<Longrightarrow> length r \<le> length s"
  by (auto simp: json_fraction_def split: list.splits if_splits dest!: digits1_shrinks)

lemma json_exponent_length: "json_exponent s = Some (e, r) \<Longrightarrow> length r \<le> length s"
  by (auto simp: json_exponent_def Let_def split: list.splits if_splits dest!: digits1_shrinks)

lemma json_number_shrinks: "json_number s = Some (t, r) \<Longrightarrow> length r < length s"
  by (auto simp: json_number_def Let_def split: list.splits if_splits option.splits
      dest!: json_fraction_length json_exponent_length digits1_shrinks)

lemma json_scalar_shrinks: "json_scalar s = Some (v, r) \<Longrightarrow> length r < length s"
  by (auto simp: json_scalar_def json_word_def split: list.splits if_splits
      dest!: json_string_shrinks json_number_shrinks)

definition shrinks :: "(string \<Rightarrow> (jtext \<times> string) option) \<Rightarrow> bool" where
  "shrinks val \<longleftrightarrow> (\<forall>t v r. val t = Some (v, r) \<longrightarrow> length r < length t)"

lemma shrinks_ws: "shrinks val \<Longrightarrow> val (skip_ws s) = Some (v, r) \<Longrightarrow> skip_ws r = c # r' \<Longrightarrow> length r' < length s"
proof -
  assume "shrinks val" "val (skip_ws s) = Some (v, r)" and r: "skip_ws r = c # r'"
  then have "length r < length (skip_ws s)" by (simp add: shrinks_def)
  with r skip_ws_length [of s] skip_ws_length [of r] show ?thesis by simp
qed

lemma json_elements_shrinks:
  assumes "shrinks val"
  shows "json_elements val s = Some (vs, r) \<Longrightarrow> length r < length s"
proof (induction "length s" arbitrary: s vs r rule: less_induct)
  case less
  from less.prems obtain v q where v: "val (skip_ws s) = Some (v, q)"
    by (subst (asm) json_elements.simps) (auto split: option.splits)
  with less.prems obtain c q' where c: "skip_ws q = c # q'"
    by (subst (asm) json_elements.simps) (auto split: list.splits)
  from shrinks_ws [OF assms v c] have q': "length q' < length s" .
  show ?case
  proof (cases "c = CHR '']''")
    case True
    with less.prems v c q' show ?thesis by (subst (asm) json_elements.simps) simp
  next
    case False
    with less.prems v c obtain vs' where "json_elements val q' = Some (vs', r)"
      by (subst (asm) json_elements.simps) (auto split: if_splits)
    with less.hyps [OF q'] q' show ?thesis by (meson order.strict_trans)
  qed
qed

lemma json_key_shrinks: "json_key s = Some (k, r) \<Longrightarrow> length r < length s"
proof -
  assume "json_key s = Some (k, r)"
  then obtain cs q d where "skip_ws s = CHR 0x22 # cs" "json_string cs = Some (k, q)" "skip_ws q = d # r"
    by (auto simp: json_key_def split: list.splits if_splits option.splits)
  with json_string_shrinks [of cs k q] skip_ws_length [of s] skip_ws_length [of q] show ?thesis by simp
qed

lemma json_members_shrinks:
  assumes "shrinks val"
  shows "json_members val s = Some (kvs, r) \<Longrightarrow> length r < length s"
proof (induction "length s" arbitrary: s kvs r rule: less_induct)
  case less
  from less.prems obtain k q0 where k: "json_key s = Some (k, q0)"
    by (subst (asm) json_members.simps) (auto split: option.splits)
  with less.prems obtain v q where v: "val (skip_ws q0) = Some (v, q)"
    by (subst (asm) json_members.simps) (auto split: option.splits)
  with less.prems k obtain c q' where c: "skip_ws q = c # q'"
    by (subst (asm) json_members.simps) (auto split: list.splits)
  from shrinks_ws [OF assms v c] json_key_shrinks [OF k] have q': "length q' < length s" by simp
  show ?case
  proof (cases "c = CHR 0x7D")
    case True
    with less.prems k v c q' show ?thesis by (subst (asm) json_members.simps) simp
  next
    case False
    with less.prems k v c obtain kvs' where "json_members val q' = Some (kvs', r)"
      by (subst (asm) json_members.simps) (auto split: if_splits)
    with less.hyps [OF q'] q' show ?thesis by (meson order.strict_trans)
  qed
qed

lemma json_value_shrinks: "shrinks (json_value d)"
proof (induction d rule: less_induct)
  case (less d)
  show ?case unfolding shrinks_def
  proof (intro allI impI)
    fix s v r assume j: "json_value d s = Some (v, r)"
    then obtain c cs where s: "s = c # cs" by (cases s) (simp_all add: json_value.simps)
    note ws = skip_ws_length [of cs]
    consider (container) "c = CHR ''['' \<or> c = CHR 0x7B" | (scalar) "json_scalar s = Some (v, r)"
      using j s by (auto simp: json_value.simps [of d] split: if_splits)
    then show "length r < length s"
    proof cases
      case container
      then have d: "d \<noteq> 0" using j s by (cases "d = 0") (auto simp: json_value.simps [of 0])
      then have ih: "shrinks (json_value (d - Suc 0))" using less by simp
      from container d j s obtain e q where e: "skip_ws cs = e # q"
        by (cases "skip_ws cs") (auto simp: json_value.simps [of d] simp del: dropWhile_eq_Nil_conv)
      with ws have q: "length q < length cs" by simp
      from container d j s e consider "r = q" | vs where "json_elements (json_value (d - Suc 0)) (e # q) = Some (vs, r)"
        | kvs where "json_members (json_value (d - Suc 0)) (e # q) = Some (kvs, r)"
        by (auto simp: json_value.simps [of d] simp del: json_elements.simps json_members.simps split: if_splits)
      then show ?thesis
        using q s json_elements_shrinks [OF ih] json_members_shrinks [OF ih] by cases fastforce+
    qed (rule json_scalar_shrinks)
  qed
qed

end
