(* ===== verification/Agents.thy ===== *)
theory Agents
  imports Json_Text Dispatcher
begin

text \<open>
  Package \<open>agent\<close>: the three implementations of the agent interface. A command-line agent and the replay
  of a recorded transcript read a stream of JSON messages; the HTTP agent reads the server-sent events of
  an OpenCode server and then the assistant's text as such a stream. The operating system, the network and
  the files are parameters; the end of a context is the end of what they offer.
\<close>

section \<open>Stream messages\<close>

record stream_usage =
  su_InputTokens :: int
  su_OutputTokens :: int
  su_CacheReadInputTokens :: int
  su_CachedInputTokens :: int

text \<open>Of the rows of \<open>modelUsage\<close> only the keys are used.\<close>

record stream_message =
  sm_Type :: string
  sm_Path :: string
  sm_Line :: int
  sm_Severity :: string
  sm_Body :: string
  sm_ExitCode :: int
  sm_Kind :: string
  sm_TotalCostUSD :: rat
  sm_Usage :: "stream_usage option"
  sm_ModelUsage :: "string list option"

definition zero_usage :: stream_usage where
  "zero_usage = \<lparr>su_InputTokens = 0, su_OutputTokens = 0, su_CacheReadInputTokens = 0, su_CachedInputTokens = 0\<rparr>"

definition usage_value :: "stream_usage option field_decoder" where
  "usage_value x v =
     (case v of
        TNull \<Rightarrow> Some None
      | TObj kvs \<Rightarrow>
          let u = (case x of None \<Rightarrow> zero_usage | Some u \<Rightarrow> u) in
          Option.bind (field_over int_value ''input_tokens'' (su_InputTokens u) kvs) (\<lambda>a.
          Option.bind (field_over int_value ''output_tokens'' (su_OutputTokens u) kvs) (\<lambda>b.
          Option.bind (field_over int_value ''cache_read_input_tokens'' (su_CacheReadInputTokens u) kvs) (\<lambda>c.
          Option.bind (field_over int_value ''cached_input_tokens'' (su_CachedInputTokens u) kvs) (\<lambda>d.
          Some (Some \<lparr>su_InputTokens = a, su_OutputTokens = b, su_CacheReadInputTokens = c, su_CachedInputTokens = d\<rparr>)))))
      | _ \<Rightarrow> None)"

definition usage_row_ok :: "(string \<Rightarrow> rat option) \<Rightarrow> jtext \<Rightarrow> bool" where
  "usage_row_ok parse_float v =
     (case struct_members v of
        None \<Rightarrow> False
      | Some kvs \<Rightarrow> int_field ''inputTokens'' kvs \<noteq> None \<and> int_field ''outputTokens'' kvs \<noteq> None \<and>
                    field_over (num_value parse_float) ''costUSD'' 0 kvs \<noteq> None)"

definition model_usage_value :: "(string \<Rightarrow> rat option) \<Rightarrow> string list option field_decoder" where
  "model_usage_value parse_float x v =
     (case v of
        TNull \<Rightarrow> Some None
      | TObj kvs \<Rightarrow>
          if list_all (\<lambda>(k, r). usage_row_ok parse_float r) kvs
          then Some (Some (remdups ((case x of None \<Rightarrow> [] | Some ks \<Rightarrow> ks) @ map fst kvs))) else None
      | _ \<Rightarrow> None)"

definition to_message :: "(string \<Rightarrow> rat option) \<Rightarrow> jtext \<Rightarrow> stream_message option" where
  "to_message parse_float v =
     Option.bind (struct_members v) (\<lambda>kvs.
     Option.bind (str_field ''type'' kvs) (\<lambda>ty.
     Option.bind (str_field ''path'' kvs) (\<lambda>path.
     Option.bind (int_field ''line'' kvs) (\<lambda>line.
     Option.bind (str_field ''severity'' kvs) (\<lambda>severity.
     Option.bind (str_field ''body'' kvs) (\<lambda>body.
     Option.bind (int_field ''exit_code'' kvs) (\<lambda>exit.
     Option.bind (str_field ''kind'' kvs) (\<lambda>kind.
     Option.bind (field_over (num_value parse_float) ''total_cost_usd'' 0 kvs) (\<lambda>usd.
     Option.bind (field_over usage_value ''usage'' None kvs) (\<lambda>usage.
     Option.bind (field_over (model_usage_value parse_float) ''modelUsage'' None kvs) (\<lambda>models.
     Some \<lparr>sm_Type = ty, sm_Path = path, sm_Line = line, sm_Severity = severity, sm_Body = body, sm_ExitCode = exit,
           sm_Kind = kind, sm_TotalCostUSD = usd, sm_Usage = usage, sm_ModelUsage = models\<rparr>)))))))))))"

text \<open>
  The loop \<open>for decoder.More() { decoder.Decode(&msg) }\<close>. It ends in front of a closing bracket or at the end
  of the text (\<open>Ended\<close>), or at a value that is no JSON, which stays in the buffer, or no message, which
  does not (\<open>Broken\<close>).
\<close>

datatype stream_end = Ended string | Broken string

function decode_stream :: "(string \<Rightarrow> rat option) \<Rightarrow> string \<Rightarrow> stream_message list \<times> stream_end" where
  "decode_stream parse_float s =
     (case skip_ws s of
        [] \<Rightarrow> ([], Ended [])
      | c # cs \<Rightarrow>
          if c = CHR '']'' \<or> c = CHR 0x7D then ([], Ended (c # cs))
          else (case json_value max_nesting (c # cs) of
              None \<Rightarrow> ([], Broken (c # cs))
            | Some (v, r) \<Rightarrow>
                (case to_message parse_float v of
                   None \<Rightarrow> ([], Broken r)
                 | Some m \<Rightarrow>
                     if length r < length s
                     then (let (ms, e) = decode_stream parse_float r in (m # ms, e)) else ([m], Ended r))))"
  by pat_completeness auto
termination by (relation "measure (\<lambda>(pf, s). length s)") auto

declare decode_stream.simps [simp del]

section \<open>Cost\<close>

text \<open>Addition of Go's 64-bit \<open>int\<close>.\<close>

definition go_add :: "int \<Rightarrow> int \<Rightarrow> int" where
  "go_add a b = (a + b + 2 ^ 63) mod 2 ^ 64 - 2 ^ 63"

definition populateCost :: "stream_message \<Rightarrow> cost_sample option \<Rightarrow> cost_sample option" where
  "populateCost m cost =
     (if sm_Type m = ''result'' then
        (if sm_TotalCostUSD m \<le> 0 \<and> sm_Usage m = None \<and> sm_ModelUsage m = None then cost
         else Some
           \<lparr>cs_provider = ''anthropic'',
            cs_model = (case sm_ModelUsage m of Some (k # ks) \<Rightarrow> hd (sort (k # ks)) | _ \<Rightarrow> []),
            cs_tokens_in = (case sm_Usage m of Some u \<Rightarrow> go_add (su_InputTokens u) (su_CacheReadInputTokens u) | None \<Rightarrow> 0),
            cs_tokens_out = (case sm_Usage m of Some u \<Rightarrow> su_OutputTokens u | None \<Rightarrow> 0),
            cs_usd = sm_TotalCostUSD m\<rparr>)
      else if sm_Type m = ''turn.completed'' then
        (case sm_Usage m of
           None \<Rightarrow> cost
         | Some u \<Rightarrow>
             (case cost of
                Some c \<Rightarrow> if cs_provider c = ''anthropic'' then cost else Some
                  \<lparr>cs_provider = ''openai'', cs_model = [], cs_tokens_in = go_add (su_InputTokens u) (su_CachedInputTokens u),
                   cs_tokens_out = su_OutputTokens u, cs_usd = 0\<rparr>
              | None \<Rightarrow> Some
                  \<lparr>cs_provider = ''openai'', cs_model = [], cs_tokens_in = go_add (su_InputTokens u) (su_CachedInputTokens u),
                   cs_tokens_out = su_OutputTokens u, cs_usd = 0\<rparr>))
      else cost)"

section \<open>Command-line agents\<close>

definition zero_result :: job_result where
  "zero_result = \<lparr>jr_findings = [], jr_artifacts = [], jr_exit_code = 0, jr_stdout = [], jr_stderr = [], jr_cost = None\<rparr>"

definition message_finding :: "ident \<Rightarrow> stream_message \<Rightarrow> finding" where
  "message_finding i m =
     \<lparr>f_id = i, f_run_id = [], f_job_id = [], f_path = sm_Path m, f_line = sm_Line m, f_severity = sm_Severity m,
      f_body = sm_Body m, f_fingerprint = [], f_resolved_by_job_id = [], f_resolved_at = None, f_plan_id = [],
      f_phase_index = None, f_reviewer_handle = [], f_source_job_ids = []\<rparr>"

definition add_finding_message :: "stream_message \<Rightarrow> job_result \<Rightarrow> job_result prog" where
  "add_finding_message m r =
     bindE new_id (\<lambda>i. ret (r\<lparr>jr_findings := jr_findings r @ [message_finding i m]\<rparr>))"

definition with_cost :: "stream_message \<Rightarrow> job_result \<Rightarrow> job_result prog" where
  "with_cost m r = ret (r\<lparr>jr_cost := populateCost m (jr_cost r)\<rparr>)"

definition cli_message :: "stream_message \<Rightarrow> job_result \<Rightarrow> job_result prog" where
  "cli_message m r =
     bindE
       (if sm_Type m = ''finding'' then add_finding_message m r
        else if sm_Type m = ''artifact'' then
          (if sm_Kind m \<noteq> [] \<and> sm_Path m \<noteq> [] then
             bindE new_id (\<lambda>i. ret (r\<lparr>jr_artifacts := jr_artifacts r @
               [\<lparr>art_id = i, art_job_id = [], art_kind = sm_Kind m, art_path = sm_Path m\<rparr>]\<rparr>))
           else ret r)
        else if sm_Type m = ''done'' then ret (r\<lparr>jr_exit_code := sm_ExitCode m\<rparr>)
        else ret r)
       (with_cost m)"

fun fold_messages :: "(stream_message \<Rightarrow> job_result \<Rightarrow> job_result prog) \<Rightarrow> stream_message list \<Rightarrow> job_result \<Rightarrow> job_result prog" where
  "fold_messages h [] r = ret r"
| "fold_messages h (m # ms) r = bindE (h m r) (fold_messages h ms)"

text \<open>What the process did: the bytes on its two pipes, how many bytes of the output the decoder had not read
  when it stopped at a closing bracket, and how \<open>cmd.Wait\<close> ended.\<close>

datatype exit_status = Exited int | Wait_Failed goerr

record cli_output =
  co_stdout :: string
  co_unread :: nat
  co_stderr :: "goerr + string"
  co_exit :: exit_status

definition stderrReader :: "goerr + string \<Rightarrow> string" where
  "stderrReader r = (case r of Inl e \<Rightarrow> ''<error reading stderr: '' @ error_string e @ ''>'' | Inr s \<Rightarrow> s)"

definition cli_Wait :: "(string \<Rightarrow> rat option) \<Rightarrow> cli_output \<Rightarrow> job_result prog" where
  "cli_Wait parse_float out =
     (let (ms, e) = decode_stream parse_float (co_stdout out);
          rest = (case e of Broken s \<Rightarrow> s | Ended s \<Rightarrow> drop (length s - co_unread out) s)
      in bindE (fold_messages cli_message ms zero_result) (\<lambda>r.
         let r' = r\<lparr>jr_stdout := rest, jr_stderr := stderrReader (co_stderr out)\<rparr> in
         case co_exit out of
           Exited n \<Rightarrow> ret (if n = 0 then r' else r'\<lparr>jr_exit_code := n\<rparr>)
         | Wait_Failed err \<Rightarrow> raise (Wrapf ''wait for CLI: %w'' [] err)))"

text \<open>The raw output of a job is copied to this file.\<close>

definition OpenJobLog :: "string \<Rightarrow> ident \<Rightarrow> ident \<Rightarrow> string option" where
  "OpenJobLog coworkerDir runID jobID =
     (if coworkerDir = [] then None
      else Some (join_path [join_path [coworkerDir, ''runs'', runID, ''jobs''], jobID @ ''.jsonl'']))"

record os_command =
  oc_stdout_pipe :: "goerr option"
  oc_stderr_pipe :: "goerr option"
  oc_start :: "goerr option"
  oc_output :: "int \<Rightarrow> string \<Rightarrow> cli_output"

definition BinaryBasename :: "string \<Rightarrow> string" where
  "BinaryBasename path = rev (takeWhile (\<lambda>c. c \<noteq> CHR ''/'' \<and> c \<noteq> CHR 0x5C) (rev path))"

definition cli_Dispatch ::
    "(string \<Rightarrow> rat option) \<Rightarrow> (string \<Rightarrow> string list \<Rightarrow> os_command) \<Rightarrow> string \<Rightarrow> string list \<Rightarrow> int \<Rightarrow> string \<Rightarrow> job_result prog prog" where
  "cli_Dispatch parse_float os binary args budget prompt =
     (let cmd = os binary args in
      case oc_stdout_pipe cmd of Some e \<Rightarrow> raise (Wrapf ''stdout pipe: %w'' [] e)
      | None \<Rightarrow>
        (case oc_stderr_pipe cmd of Some e \<Rightarrow> raise (Wrapf ''stderr pipe: %w'' [] e)
         | None \<Rightarrow>
           (case oc_start cmd of Some e \<Rightarrow> raise (Wrapf ''start %q: %w'' [binary] e)
            | None \<Rightarrow> ret (cli_Wait parse_float (oc_output cmd budget prompt)))))"

definition NewCliAgent :: "(string \<Rightarrow> rat option) \<Rightarrow> (string \<Rightarrow> string list \<Rightarrow> os_command) \<Rightarrow> string \<Rightarrow> string list \<Rightarrow> agent" where
  "NewCliAgent parse_float os binary args =
     \<lparr>ag_basename = Some (BinaryBasename binary),
      ag_Dispatch = (\<lambda>budget job prompt. cli_Dispatch parse_float os binary args budget prompt)\<rparr>"

section \<open>Replayed transcripts\<close>

definition replay_message :: "stream_message \<Rightarrow> job_result \<Rightarrow> job_result prog" where
  "replay_message m r =
     bindE
       (if sm_Type m = ''finding'' then add_finding_message m r
        else if sm_Type m = ''done'' then ret (r\<lparr>jr_exit_code := sm_ExitCode m\<rparr>)
        else ret r)
       (with_cost m)"

text \<open>Every turn of the loop polls the handle and the context once, and once more after a delay.\<close>

fun replay_loop ::
    "polls \<Rightarrow> bool \<Rightarrow> nat \<Rightarrow> stream_message list \<Rightarrow> stream_end \<Rightarrow> job_result \<Rightarrow> (job_result \<times> goerr option) prog" where
  "replay_loop ctx delayed k [] e r =
     (case e of
        Ended _ \<Rightarrow> ret (r, None)
      | Broken s \<Rightarrow>
          (case ctx k of Some err \<Rightarrow> ret (r, Some err) | None \<Rightarrow> ret (r\<lparr>jr_stdout := s\<rparr>, None)))"
| "replay_loop ctx delayed k (m # ms) e r =
     (case ctx k of
        Some err \<Rightarrow> ret (r, Some err)
      | None \<Rightarrow>
          bindE (replay_message m r) (\<lambda>r'.
          if delayed then
            (case ctx (Suc k) of
               Some err \<Rightarrow> ret (r', Some err)
             | None \<Rightarrow> replay_loop ctx delayed (Suc (Suc k)) ms e r')
          else replay_loop ctx delayed (Suc k) ms e r'))"

definition replay_Wait :: "(string \<Rightarrow> rat option) \<Rightarrow> polls \<Rightarrow> bool \<Rightarrow> string \<Rightarrow> (job_result \<times> goerr option) prog" where
  "replay_Wait parse_float ctx delayed transcript =
     (let (ms, e) = decode_stream parse_float transcript in replay_loop ctx delayed 0 ms e zero_result)"

definition replay_agent ::
    "(string \<Rightarrow> rat option) \<Rightarrow> (string \<Rightarrow> goerr + string) \<Rightarrow> polls \<Rightarrow> string \<Rightarrow> int \<Rightarrow> agent" where
  "replay_agent parse_float files ctx dir delay =
     \<lparr>ag_basename = None,
      ag_Dispatch = (\<lambda>budget job prompt.
        let path = join_path [dir, dotToUnderscore (job_role job) @ ''.jsonl''] in
        case files path of
          Inl e \<Rightarrow> raise (Wrapf ''replay agent: open transcript %q: %w'' [path] e)
        | Inr transcript \<Rightarrow>
            ret (bindE (replay_Wait parse_float ctx (delay > 0) transcript) (\<lambda>(r, o_e).
              case o_e of Some e \<Rightarrow> raise e | None \<Rightarrow> ret r)))\<rparr>"

end
