(* ===== verification/Open_Code.thy ===== *)
theory Open_Code
  imports Agents
begin

text \<open>
  \<open>agent/opencode_http_agent.go\<close>: the agent that talks to an OpenCode server. The server is a parameter:
  how it answers a request, and the connections to its event stream, in order, up to the end of the
  context. The session is created first and deleted last; the text the assistant streams is collected by
  message identifier.
\<close>

section \<open>Requests\<close>

datatype http_method = GET | POST | DELETE

record http_request =
  rq_method :: http_method
  rq_url :: string
  rq_body :: "json option"
  rq_header :: "(string \<times> string) list"

text \<open>A transport error, or status code, status line and body.\<close>

datatype http_reply = No_Reply goerr | Reply int string string

type_synonym http_server = "http_request \<Rightarrow> http_reply"

definition DefaultOpenCodeServerURL :: string where
  "DefaultOpenCodeServerURL = ''http://127.0.0.1:7777''"

definition serverURL :: "string \<Rightarrow> string" where
  "serverURL url = trim_right_by (\<lambda>c. c = CHR ''/'') (if url = [] then DefaultOpenCodeServerURL else url)"

definition json_content :: "(string \<times> string) list" where
  "json_content = [(''Content-Type'', ''application/json'')]"

text \<open>\<open>strings.TrimSpace\<close> of the first 512 bytes of an error body.\<close>

definition error_body :: "string \<Rightarrow> string" where
  "error_body body = trim_space (take 512 body)"

text \<open>The text of a decoder error is left out.\<close>

definition json_error :: goerr where
  "json_error = Errorf ''json'' []"

text \<open>\<open>json.NewDecoder(body).Decode(&session)\<close> with the only field \<open>id\<close>.\<close>

definition session_id_of :: "string \<Rightarrow> string option" where
  "session_id_of body =
     Option.bind (json_value max_nesting (skip_ws body)) (\<lambda>(v, r).
     Option.bind (struct_members v) (str_field ''id''))"

definition createSession :: "http_server \<Rightarrow> string \<Rightarrow> string \<Rightarrow> goerr + string" where
  "createSession http base title =
     (case http \<lparr>rq_method = POST, rq_url = base @ ''/session'', rq_body = Some (JObj [(''title'', JStr title)]),
                 rq_header = json_content\<rparr> of
        No_Reply e \<Rightarrow> Inl e
      | Reply code status body \<Rightarrow>
          if code \<ge> 300 then Inl (Errorf ''POST /session returned %s: %s'' [status, error_body body])
          else (case session_id_of body of
              None \<Rightarrow> Inl (Wrapf ''decode session response: %w'' [] json_error)
            | Some i \<Rightarrow> if i = [] then Inl (Errorf ''server returned session with empty ID'' []) else Inr i))"

definition sendMessage :: "http_server \<Rightarrow> string \<Rightarrow> string \<Rightarrow> string \<Rightarrow> goerr + unit" where
  "sendMessage http base sessionID prompt =
     (case http \<lparr>rq_method = POST, rq_url = base @ ''/session/'' @ sessionID @ ''/message'',
                 rq_body = Some (JObj [(''parts'', JArr [JObj [(''type'', JStr ''text''), (''text'', JStr prompt)]])]),
                 rq_header = json_content\<rparr> of
        No_Reply e \<Rightarrow> Inl e
      | Reply code status body \<Rightarrow>
          if code \<ge> 300
          then Inl (Errorf ''POST /session/%s/message returned %s: %s'' [sessionID, status, error_body body])
          else Inr ())"

definition bare_request :: "http_server \<Rightarrow> http_method \<Rightarrow> string \<Rightarrow> goerr + unit" where
  "bare_request http method url =
     (case http \<lparr>rq_method = method, rq_url = url, rq_body = None, rq_header = []\<rparr> of
        No_Reply e \<Rightarrow> Inl e | Reply _ _ _ \<Rightarrow> Inr ())"

definition abortSession :: "http_server \<Rightarrow> string \<Rightarrow> string \<Rightarrow> goerr + unit" where
  "abortSession http base sessionID = bare_request http POST (base @ ''/session/'' @ sessionID @ ''/abort'')"

definition deleteSession :: "http_server \<Rightarrow> string \<Rightarrow> string \<Rightarrow> goerr + unit" where
  "deleteSession http base sessionID = bare_request http DELETE (base @ ''/session/'' @ sessionID)"

section \<open>Events\<close>

definition nested :: "string \<Rightarrow> (string \<times> jtext) list \<Rightarrow> (string \<times> jtext) list option" where
  "nested name kvs = field_over (\<lambda>x v. map_option (\<lambda>new. x @ new) (struct_members v)) name [] kvs"

text \<open>The envelope: its type, and the properties as they stand in the text (\<open>json.RawMessage\<close>); without
  properties there is nothing to decode, which is an error.\<close>

definition raw_value :: "jtext option field_decoder" where
  "raw_value x v = Some (Some v)"

definition envelope :: "string \<Rightarrow> (string \<times> (string \<times> jtext) list option) option" where
  "envelope raw =
     Option.bind (json_text raw) (\<lambda>v.
     Option.bind (struct_members v) (\<lambda>kvs.
     Option.bind (str_field ''type'' kvs) (\<lambda>ty.
     Option.bind (field_over raw_value ''properties'' None kvs) (\<lambda>props.
     Some (ty, Option.bind props struct_members)))))"

text \<open>What an event means for one session.\<close>

datatype sse_event =
    Idle
  | Assistant_Message string
  | Text_Part string string
  | Session_Error string
  | Other_Event

definition idle_event :: "string \<Rightarrow> (string \<times> jtext) list \<Rightarrow> sse_event" where
  "idle_event sessionID kvs = (if str_field ''sessionID'' kvs = Some sessionID then Idle else Other_Event)"

definition message_event :: "string \<Rightarrow> (string \<times> jtext) list \<Rightarrow> sse_event" where
  "message_event sessionID kvs =
     (case (str_field ''sessionID'' kvs, nested ''info'' kvs) of
        (Some sid, Some info) \<Rightarrow>
          (case (str_field ''id'' info, str_field ''role'' info) of
             (Some i, Some role) \<Rightarrow>
               if sid = sessionID \<and> role = ''assistant'' \<and> i \<noteq> [] then Assistant_Message i else Other_Event
           | _ \<Rightarrow> Other_Event)
      | _ \<Rightarrow> Other_Event)"

definition part_event :: "string \<Rightarrow> (string \<times> jtext) list \<Rightarrow> sse_event" where
  "part_event sessionID kvs =
     (case (str_field ''sessionID'' kvs, nested ''part'' kvs) of
        (Some sid, Some part) \<Rightarrow>
          (case (str_field ''type'' part, str_field ''text'' part, str_field ''messageID'' part) of
             (Some ty, Some txt, Some i) \<Rightarrow>
               if sid = sessionID \<and> ty = ''text'' \<and> txt \<noteq> [] then Text_Part i txt else Other_Event
           | _ \<Rightarrow> Other_Event)
      | _ \<Rightarrow> Other_Event)"

definition error_event :: "string \<Rightarrow> (string \<times> jtext) list \<Rightarrow> sse_event" where
  "error_event sessionID kvs =
     (case (str_field ''sessionID'' kvs, nested ''error'' kvs) of
        (Some sid, Some err) \<Rightarrow>
          (case (str_field ''name'' err, nested ''data'' err) of
             (Some name, Some dat) \<Rightarrow>
               (case str_field ''message'' dat of
                  Some msg \<Rightarrow>
                    if sid = sessionID then Session_Error (if msg = [] then name else name @ '': '' @ msg) else Other_Event
                | None \<Rightarrow> Other_Event)
           | _ \<Rightarrow> Other_Event)
      | _ \<Rightarrow> Other_Event)"

definition classify :: "string \<Rightarrow> string \<Rightarrow> sse_event" where
  "classify sessionID raw =
     (case envelope raw of
        Some (ty, Some kvs) \<Rightarrow>
          if ty = ''session.idle'' then idle_event sessionID kvs
          else if ty = ''message.updated'' then message_event sessionID kvs
          else if ty = ''message.part.updated'' then part_event sessionID kvs
          else if ty = ''session.error'' then error_event sessionID kvs
          else Other_Event
      | _ \<Rightarrow> Other_Event)"

text \<open>The result \<open>done, textPart, sessionErrMsg\<close>, and the identifiers of assistant messages.\<close>

definition processSSEEvent :: "string \<Rightarrow> string \<Rightarrow> string list \<Rightarrow> (bool \<times> string \<times> string) \<times> string list" where
  "processSSEEvent raw sessionID ids =
     (case classify sessionID raw of
        Idle \<Rightarrow> ((True, [], []), ids)
      | Assistant_Message i \<Rightarrow> ((False, [], []), List.insert i ids)
      | Text_Part i txt \<Rightarrow> ((False, if i \<in> set ids then txt else [], []), ids)
      | Session_Error msg \<Rightarrow> ((False, [], msg), ids)
      | Other_Event \<Rightarrow> ((False, [], []), ids))"

section \<open>The stream\<close>

text \<open>Known message identifiers, collected text parts and the last session error.\<close>

type_synonym sse_state = "string list \<times> string list \<times> string"

definition take_event :: "string \<Rightarrow> string list \<Rightarrow> sse_state \<Rightarrow> bool \<times> sse_state" where
  "take_event sessionID dataLines st =
     (let (ids, parts, err) = st;
          ((fin, txt, msg), ids') = processSSEEvent (join_with newline dataLines) sessionID ids
      in (fin, ids', (if txt = [] then parts else parts @ [txt]), (if msg = [] then err else msg)))"

definition data_of :: "string \<Rightarrow> string" where
  "data_of line = (let v = drop 5 line in if has_prefix v '' '' then drop 1 v else v)"

fun sse_lines :: "string \<Rightarrow> string list \<Rightarrow> string list \<Rightarrow> sse_state \<Rightarrow> bool \<times> string list \<times> sse_state" where
  "sse_lines sid dataLines [] st = (False, dataLines, st)"
| "sse_lines sid dataLines (l # ls) st =
     (let line = trim_right_by (\<lambda>c. c = CHR 0x0D \<or> c = CHR 0x0A) l in
      if line = [] then
        (if dataLines = [] then sse_lines sid [] ls st
         else (let (fin, st') = take_event sid dataLines st in
               if fin then (True, [], st') else sse_lines sid [] ls st'))
      else if has_prefix line '':'' then sse_lines sid dataLines ls st
      else if \<not> has_prefix line ''data:'' then sse_lines sid dataLines ls st
      else sse_lines sid (dataLines @ [data_of line]) ls st)"

text \<open>\<open>ReadString('\n')\<close> to the end of the body; a last line without line break is lost.\<close>

definition full_lines :: "string \<Rightarrow> string list" where
  "full_lines body = butlast (split_on (CHR 0x0A) body)"

text \<open>One connection: the request cannot be made, is not answered, or is answered with a code, a status and a
  body that ends in a read error; the flags say whether the context has ended by then.\<close>

datatype sse_conn =
    Bad_Request goerr
  | Not_Answered goerr bool
  | Answered int string string goerr bool

definition sseStream :: "sse_conn \<Rightarrow> string \<Rightarrow> string list \<Rightarrow> bool \<times> sse_state \<times> goerr option" where
  "sseStream conn sid ids =
     (case conn of
        Bad_Request e \<Rightarrow> (False, (ids, [], []), Some e)
      | Not_Answered e cancelled \<Rightarrow>
          (False, (ids, [], []), if cancelled then None else Some (Wrapf ''connect to /event: %w'' [] e))
      | Answered code status body e cancelled \<Rightarrow>
          if code \<noteq> 200
          then (False, (ids, [], []), Some (Errorf ''GET /event returned %s: %s'' [status, error_body body]))
          else
            (let (fin, dataLines, st) = sse_lines sid [] (full_lines body) (ids, [], []) in
             if fin then (True, st, None)
             else if cancelled then (False, st, None)
             else if dataLines \<noteq> [] then
               (let (fin', st') = take_event sid dataLines st in
                if fin' then (True, st', None) else (False, st', Some (Wrapf ''read SSE: %w'' [] e)))
             else (False, st, Some (Wrapf ''read SSE: %w'' [] e))))"

text \<open>Milliseconds between two connections.\<close>

definition next_backoff :: "int \<Rightarrow> int" where
  "next_backoff b = (if b < 5000 then (if b * 2 > 5000 then 5000 else b * 2) else b)"

text \<open>The connections end where the context ends. The waits between connections are part of the result.\<close>

fun sse_collect :: "sse_conn list \<Rightarrow> string \<Rightarrow> int \<Rightarrow> sse_state \<Rightarrow> sse_state \<times> int list" where
  "sse_collect [] sid backoff st = (st, [])"
| "sse_collect (c # cs) sid backoff st =
     (let (ids, parts, err) = st;
          (complete, (ids', newParts, newErr), streamErr) = sseStream c sid ids;
          st' = (ids', parts @ newParts, if newErr = [] then err else newErr)
      in if complete \<or> streamErr = None then (st', [])
         else (let (out, waits) = sse_collect cs sid (next_backoff backoff) st' in (out, backoff # waits)))"

definition parse_message :: "stream_message \<Rightarrow> job_result \<Rightarrow> job_result prog" where
  "parse_message m r =
     (if sm_Type m = ''finding'' then add_finding_message m r
      else if sm_Type m = ''done'' then ret (r\<lparr>jr_exit_code := sm_ExitCode m\<rparr>)
      else ret r)"

definition parseAssistantText :: "(string \<Rightarrow> rat option) \<Rightarrow> string \<Rightarrow> job_result prog" where
  "parseAssistantText parse_float txt =
     (if txt = [] then ret zero_result
      else (let (ms, e) = decode_stream parse_float txt in
            bindE (fold_messages parse_message ms zero_result) (\<lambda>r.
            ret (if ms = [] then r\<lparr>jr_stdout := txt\<rparr> else r))))"

definition sseLoop :: "(string \<Rightarrow> rat option) \<Rightarrow> sse_conn list \<Rightarrow> string \<Rightarrow> job_result prog" where
  "sseLoop parse_float conns sid =
     (let ((ids, parts, err), waits) = sse_collect conns sid 250 ([], [], []) in
      bindE (parseAssistantText parse_float (concat parts)) (\<lambda>r. ret (r\<lparr>jr_stderr := err\<rparr>)))"

section \<open>The agent\<close>

text \<open>\<open>events\<close> are the connections to the event stream of a session and \<open>waited\<close> the error of the context of
  \<open>Wait\<close>, when it ends first. The results of posting the message and of deleting the session are dropped.\<close>

definition openCode_Dispatch ::
    "(string \<Rightarrow> rat option) \<Rightarrow> http_server \<Rightarrow> (string \<Rightarrow> sse_conn list) \<Rightarrow> goerr option \<Rightarrow> string \<Rightarrow> ident \<Rightarrow> job_result prog prog" where
  "openCode_Dispatch parse_float http events waited url jobID =
     (case createSession http (serverURL url) jobID of
        Inl e \<Rightarrow> raise (Wrapf ''opencode: create session: %w'' [] e)
      | Inr sid \<Rightarrow>
          ret (bindE (sseLoop parse_float (events sid) sid) (\<lambda>r.
            case waited of Some e \<Rightarrow> raise e | None \<Rightarrow> ret r)))"

definition OpenCodeHTTPAgent ::
    "(string \<Rightarrow> rat option) \<Rightarrow> http_server \<Rightarrow> (string \<Rightarrow> int \<Rightarrow> string \<Rightarrow> sse_conn list) \<Rightarrow> (int \<Rightarrow> goerr option) \<Rightarrow> string \<Rightarrow> agent" where
  "OpenCodeHTTPAgent parse_float http events waited url =
     \<lparr>ag_basename = None,
      ag_Dispatch = (\<lambda>budget job prompt.
        openCode_Dispatch parse_float http (\<lambda>sid. events sid budget prompt) (waited budget) url (job_id job))\<rparr>"

text \<open>\<open>Cancel\<close> sends the abort request first; its result is dropped.\<close>

definition openCode_Cancel :: "http_server \<Rightarrow> string \<Rightarrow> string \<Rightarrow> goerr + unit" where
  "openCode_Cancel http url sid = (let _ = abortSession http (serverURL url) sid in Inr ())"

end
