(* ===== verification/Agent_Facts.thy ===== *)
theory Agent_Facts
  imports Open_Code
begin

text \<open>
  What the agents deliver: the result of a command-line agent as a function of the messages it printed,
  whose cost figure counts, that a replayed transcript gives the same result, which text of an event stream is
  taken for the assistant's, and that a dropped connection between two events changes nothing.
\<close>

section \<open>The result of a message stream\<close>

definition message_content :: "stream_message \<Rightarrow> string \<times> int \<times> string \<times> string" where
  "message_content m = (sm_Path m, sm_Line m, sm_Severity m, sm_Body m)"

definition reported_content :: "finding \<Rightarrow> string \<times> int \<times> string \<times> string" where
  "reported_content f = (f_path f, f_line f, f_severity f, f_body f)"

definition of_type :: "string \<Rightarrow> stream_message list \<Rightarrow> stream_message list" where
  "of_type ty ms = filter (\<lambda>m. sm_Type m = ty) ms"

definition named_artifacts :: "stream_message list \<Rightarrow> (string \<times> string) list" where
  "named_artifacts ms = map (\<lambda>m. (sm_Kind m, sm_Path m)) (filter (\<lambda>m. sm_Kind m \<noteq> [] \<and> sm_Path m \<noteq> []) (of_type ''artifact'' ms))"

definition last_code :: "int \<Rightarrow> stream_message list \<Rightarrow> int" where
  "last_code x ms = (case rev (of_type ''done'' ms) of [] \<Rightarrow> x | m # _ \<Rightarrow> sm_ExitCode m)"

text \<open>A message with a bill, and a message with a token count.\<close>

definition billed :: "stream_message \<Rightarrow> bool" where
  "billed m \<longleftrightarrow> sm_Type m = ''result'' \<and> (sm_TotalCostUSD m > 0 \<or> sm_Usage m \<noteq> None \<or> sm_ModelUsage m \<noteq> None)"

definition metered :: "stream_message \<Rightarrow> bool" where
  "metered m \<longleftrightarrow> sm_Type m = ''turn.completed'' \<and> sm_Usage m \<noteq> None"

text \<open>The last bill is the cost; without one, the last token count.\<close>

definition stream_cost :: "stream_message list \<Rightarrow> cost_sample option" where
  "stream_cost ms =
     (case find billed (rev ms) of
        Some m \<Rightarrow> populateCost m None
      | None \<Rightarrow> (case find metered (rev ms) of Some m \<Rightarrow> populateCost m None | None \<Rightarrow> None))"

lemma find_app: "find P (xs @ ys) = (case find P xs of None \<Rightarrow> find P ys | Some x \<Rightarrow> Some x)"
  by (induction xs) auto

lemma found: "find P xs = Some x \<Longrightarrow> P x"
  by (auto simp: find_Some_iff)

lemma populate_billed: "billed m \<Longrightarrow> populateCost m c = populateCost m None \<and>
    (\<exists>s. populateCost m None = Some s \<and> cs_provider s = ''anthropic'')"
  by (auto simp: billed_def populateCost_def)

lemma populate_metered: "metered m \<Longrightarrow> (\<exists>s. populateCost m None = Some s \<and> cs_provider s = ''openai'') \<and>
    populateCost m c = (if \<exists>s. c = Some s \<and> cs_provider s = ''anthropic'' then c else populateCost m None)"
  by (auto simp: metered_def populateCost_def split: option.splits)

lemma populate_other: "\<not> billed m \<Longrightarrow> \<not> metered m \<Longrightarrow> populateCost m c = c"
  by (auto simp: billed_def metered_def populateCost_def not_less split: option.splits)

lemma billed_not_metered: "billed m \<Longrightarrow> \<not> metered m"
  by (simp add: billed_def metered_def)

lemma stream_cost_snoc: "stream_cost (ms @ [m]) = populateCost m (stream_cost ms)"
proof (cases "billed m")
  case True
  then show ?thesis using populate_billed [OF True, of "stream_cost ms"] by (simp add: stream_cost_def)
next
  case not_billed: False
  show ?thesis
  proof (cases "metered m")
    case True
    note m = populate_metered [OF True, of "stream_cost ms"]
    have new: "stream_cost (ms @ [m]) = (case find billed (rev ms) of Some b \<Rightarrow> populateCost b None | None \<Rightarrow> populateCost m None)"
      using not_billed True by (simp add: stream_cost_def split: option.split)
    show ?thesis
    proof (cases "find billed (rev ms)")
      case None
      then have "\<nexists>s. stream_cost ms = Some s \<and> cs_provider s = ''anthropic''"
        using populate_metered [of _ None] by (fastforce simp: stream_cost_def dest: found split: option.splits)
      with new None m show ?thesis by simp
    next
      case (Some b)
      from populate_billed [OF found [OF Some]] Some
      have "\<exists>s. stream_cost ms = Some s \<and> cs_provider s = ''anthropic''" by (simp add: stream_cost_def)
      with new Some m show ?thesis by (simp add: stream_cost_def)
    qed
  next
    case False
    with not_billed show ?thesis by (simp add: stream_cost_def populate_other split: option.split)
  qed
qed

lemma fold_cost: "fold populateCost ms None = stream_cost ms"
  by (induction ms rule: rev_induct) (simp_all add: stream_cost_snoc, simp add: stream_cost_def)

text \<open>What handling messages does to a result: everything but the fresh identifiers is a function of the
  messages. \<open>arts\<close> says whether artifact messages count.\<close>

definition absorbed :: "bool \<Rightarrow> stream_message list \<Rightarrow> job_result \<Rightarrow> job_result \<Rightarrow> bool" where
  "absorbed arts ms r r' \<longleftrightarrow>
     map reported_content (jr_findings r') = map reported_content (jr_findings r) @ map message_content (of_type ''finding'' ms) \<and>
     map (\<lambda>a. (art_kind a, art_path a)) (jr_artifacts r') =
       map (\<lambda>a. (art_kind a, art_path a)) (jr_artifacts r) @ (if arts then named_artifacts ms else []) \<and>
     jr_exit_code r' = last_code (jr_exit_code r) ms \<and> jr_stdout r' = jr_stdout r \<and> jr_stderr r' = jr_stderr r \<and>
     jr_cost r' = fold populateCost ms (jr_cost r)"

lemma absorbed_Nil: "absorbed arts [] r r"
  by (simp add: absorbed_def of_type_def named_artifacts_def last_code_def)

lemma absorbed_Cons: "absorbed arts [m] r r1 \<Longrightarrow> absorbed arts ms r1 r2 \<Longrightarrow> absorbed arts (m # ms) r r2"
  by (auto simp: absorbed_def of_type_def named_artifacts_def last_code_def split: list.splits)

lemma cli_message_absorbs: "\<exists>r' w'. cli_message m r w = (Inr r', w') \<and> absorbed True [m] r r' \<and> wd_db w' = wd_db w"
  by (simp add: cli_message_def add_finding_message_def with_cost_def bindE_def new_id_def ret_def absorbed_def of_type_def
      named_artifacts_def last_code_def reported_content_def message_content_def message_finding_def)

lemma replay_message_absorbs:
  "\<exists>r' w'. replay_message m r w = (Inr r', w') \<and> absorbed False [m] r r' \<and> wd_db w' = wd_db w"
  by (simp add: replay_message_def add_finding_message_def with_cost_def bindE_def new_id_def ret_def absorbed_def of_type_def
      named_artifacts_def last_code_def reported_content_def message_content_def message_finding_def)

lemma fold_messages_absorbs:
  assumes "\<And>m r w. \<exists>r' w'. h m r w = (Inr r', w') \<and> absorbed arts [m] r r' \<and> wd_db w' = wd_db w"
  shows "\<exists>r' w'. fold_messages h ms r w = (Inr r', w') \<and> absorbed arts ms r r' \<and> wd_db w' = wd_db w"
proof (induction ms arbitrary: r w)
  case Nil
  then show ?case by (simp add: ret_def absorbed_Nil)
next
  case (Cons m ms)
  obtain r1 w1 where 1: "h m r w = (Inr r1, w1)" "absorbed arts [m] r r1" "wd_db w1 = wd_db w" using assms by blast
  obtain r2 w2 where 2: "fold_messages h ms r1 w1 = (Inr r2, w2)" "absorbed arts ms r1 r2" "wd_db w2 = wd_db w1"
    using Cons.IH by blast
  from 1 2 absorbed_Cons show ?case by (auto simp: bindE_def)
qed

text \<open>
  C31. The result of a command-line agent whose process ends is determined by what the process printed: one finding
  per finding message, in order, with its content; one artifact per artifact message that names a kind and a path;
  the exit code of the process if it is not zero, else that of the last done message; the cost of the last bill,
  or of the last token count if nothing was billed; and nothing is written to the tables.
\<close>

theorem cli_result_of_stream:
  assumes "decode_stream parse_float (co_stdout out) = (ms, e)" and "co_exit out = Exited n"
  shows "\<exists>r w'. cli_Wait parse_float out w = (Inr r, w') \<and> wd_db w' = wd_db w \<and>
    map reported_content (jr_findings r) = map message_content (of_type ''finding'' ms) \<and>
    map (\<lambda>a. (art_kind a, art_path a)) (jr_artifacts r) = named_artifacts ms \<and>
    jr_exit_code r = (if n \<noteq> 0 then n else last_code 0 ms) \<and> jr_cost r = stream_cost ms \<and>
    (case e of Broken rest \<Rightarrow> jr_stdout r = rest | Ended rest \<Rightarrow> \<exists>k. jr_stdout r = drop k rest)"
proof -
  obtain r w1 where f: "fold_messages cli_message ms zero_result w = (Inr r, w1)" "absorbed True ms zero_result r"
    "wd_db w1 = wd_db w"
    using fold_messages_absorbs [of cli_message True, OF cli_message_absorbs] by blast
  then have r: "cli_Wait parse_float out w =
      (let r' = r\<lparr>jr_stdout := (case e of Broken s \<Rightarrow> s | Ended s \<Rightarrow> drop (length s - co_unread out) s),
                  jr_stderr := stderrReader (co_stderr out)\<rparr> in
       (Inr (if n = 0 then r' else r'\<lparr>jr_exit_code := n\<rparr>), w1))"
    using assms by (simp add: cli_Wait_def bindE_def ret_def Let_def)
  show ?thesis unfolding r using f(2,3) fold_cost
    by (auto simp: absorbed_def zero_result_def Let_def split: stream_end.split)
qed

section \<open>Replay\<close>

lemma bindE_assoc: "bindE (bindE m f) g = bindE m (\<lambda>x. bindE (f x) g)"
  by (auto simp: bindE_def fun_eq_iff split: prod.split sum.split)

lemma no_artifact: "sm_Type m \<noteq> ''artifact'' \<Longrightarrow> cli_message m = replay_message m"
  by (rule ext) (simp add: cli_message_def replay_message_def)

lemma replay_loop_undisturbed:
  assumes "\<And>k. ctx k = None" and "\<forall>m \<in> set ms. sm_Type m \<noteq> ''artifact''"
  shows "replay_loop ctx delayed k ms e r = bindE (fold_messages cli_message ms r) (\<lambda>r'.
    ret (case e of Broken s \<Rightarrow> r'\<lparr>jr_stdout := s\<rparr> | Ended _ \<Rightarrow> r', None))"
  using assms(2)
proof (induction ms arbitrary: k r)
  case Nil
  then show ?case by (simp add: assms(1) split: stream_end.split)
next
  case (Cons m ms)
  then show ?case by (cases delayed) (simp_all add: assms(1) no_artifact bindE_assoc)
qed

lemma fold_messages_frame: "fold_messages cli_message ms r w = (Inr r', w') \<Longrightarrow> jr_stdout r' = jr_stdout r \<and> jr_stderr r' = jr_stderr r"
  using fold_messages_absorbs [of cli_message True ms r w, OF cli_message_absorbs] by (auto simp: absorbed_def)

text \<open>
  Replaying a transcript is running the command-line agent on it: when nobody cancels, no message announces an
  artifact, and the process exits with zero, writes nothing to its standard error and has its output read to
  the end, both give the same result and the same world, with or without a delay between the messages.
\<close>

lemma replay_mirrors_cli:
  assumes "\<And>k. ctx k = None" and "decode_stream parse_float (co_stdout out) = (ms, e)"
    and "\<forall>m \<in> set ms. sm_Type m \<noteq> ''artifact''"
    and "co_exit out = Exited 0" "co_stderr out = Inr []" "co_unread out = 0"
  shows "replay_Wait parse_float ctx delayed (co_stdout out) = bindE (cli_Wait parse_float out) (\<lambda>r. ret (r, None))"
proof
  fix w
  obtain r' w' where r: "fold_messages cli_message ms zero_result w = (Inr r', w')"
    using fold_messages_absorbs [of cli_message True ms zero_result w, OF cli_message_absorbs] by blast
  from fold_messages_frame [OF r] have "jr_stdout r' = []" "jr_stderr r' = []" by (simp_all add: zero_result_def)
  then have "r'\<lparr>jr_stdout := [], jr_stderr := []\<rparr> = r'" "r'\<lparr>jr_stdout := s, jr_stderr := []\<rparr> = r'\<lparr>jr_stdout := s\<rparr>" for s
    by (cases r'; simp)+
  with r assms show "replay_Wait parse_float ctx delayed (co_stdout out) w =
      bindE (cli_Wait parse_float out) (\<lambda>r. ret (r, None)) w"
    by (simp add: replay_Wait_def replay_loop_undisturbed cli_Wait_def bindE_def ret_def Let_def stderrReader_def
        split: stream_end.split)
qed

section \<open>Streamed text\<close>

text \<open>The events of a stream up to the first one that ends the session, the texts that belong to messages
  announced before as the assistant's, and the last error.\<close>

definition session_events :: "string \<Rightarrow> string list \<Rightarrow> sse_event list" where
  "session_events sid raws = takeWhile (\<lambda>e. e \<noteq> Idle) (map (classify sid) raws)"

definition spoken :: "sse_event list \<Rightarrow> string list" where
  "spoken es = concat (map (\<lambda>j. case es ! j of
       Text_Part i txt \<Rightarrow> if Assistant_Message i \<in> set (take j es) then [txt] else []
     | _ \<Rightarrow> []) [0..<length es])"

definition last_error :: "sse_event list \<Rightarrow> string" where
  "last_error es = foldr (\<lambda>e x. case e of Session_Error m \<Rightarrow> if x = [] then m else x | _ \<Rightarrow> x) es []"

definition hear :: "sse_event \<Rightarrow> sse_state \<Rightarrow> sse_state" where
  "hear e st =
     (let (ids, parts, err) = st in
      case e of
        Assistant_Message i \<Rightarrow> (List.insert i ids, parts, err)
      | Text_Part i txt \<Rightarrow> (ids, if i \<in> set ids \<and> txt \<noteq> [] then parts @ [txt] else parts, err)
      | Session_Error m \<Rightarrow> (ids, parts, if m = [] then err else m)
      | _ \<Rightarrow> st)"

lemma take_event_hear:
  "take_event sid [raw] st = (classify sid raw = Idle, if classify sid raw = Idle then st else hear (classify sid raw) st)"
  by (cases st) (auto simp: take_event_def processSSEEvent_def hear_def join_with.simps split: sse_event.split)

lemma spoken_snoc:
  "spoken (es @ [e]) = spoken es @ (case e of Text_Part i txt \<Rightarrow> if Assistant_Message i \<in> set es then [txt] else [] | _ \<Rightarrow> [])"
proof -
  let ?f = "\<lambda>es j. case es ! j of Text_Part i txt \<Rightarrow> if Assistant_Message i \<in> set (take j es) then [txt] else [] | _ \<Rightarrow> []"
  have "map (?f (es @ [e])) [0..<length es] = map (?f es) [0..<length es]"
    by (rule map_cong) (auto simp: nth_append split: sse_event.split)
  moreover have "spoken (es @ [e]) = concat (map (?f (es @ [e])) [0..<length es]) @ ?f (es @ [e]) (length es)"
    by (simp add: spoken_def)
  ultimately have "spoken (es @ [e]) = spoken es @ ?f (es @ [e]) (length es)" by (simp only: spoken_def)
  then show ?thesis by (simp add: nth_append split: sse_event.split)
qed

lemma last_error_snoc: "last_error (es @ [e]) = (case e of Session_Error m \<Rightarrow> if m = [] then last_error es else m | _ \<Rightarrow> last_error es)"
proof -
  let ?g = "\<lambda>e x. case e of Session_Error m \<Rightarrow> if x = [] then m else x | _ \<Rightarrow> x"
  have "x \<noteq> [] \<Longrightarrow> foldr ?g es x = x" for x :: string
    by (induction es) (simp_all split: sse_event.split)
  then show ?thesis by (cases e) (simp_all add: last_error_def)
qed

lemma hear_all:
  "fold hear es ([], [], []) = (ids, parts, err) \<Longrightarrow>
     set ids = {i. Assistant_Message i \<in> set es} \<and> concat parts = concat (spoken es) \<and> err = last_error es"
proof (induction es arbitrary: ids parts err rule: rev_induct)
  case Nil
  then show ?case by (simp add: spoken_def last_error_def)
next
  case (snoc e es)
  obtain ids0 parts0 err0 where f: "fold hear es ([], [], []) = (ids0, parts0, err0)" by (metis prod_cases3)
  from snoc.IH [OF f] have ih: "set ids0 = {i. Assistant_Message i \<in> set es}" "concat parts0 = concat (spoken es)"
    "err0 = last_error es" by auto
  have st: "hear e (ids0, parts0, err0) = (ids, parts, err)" using snoc.prems f by simp
  show ?case using st ih
    by (cases e) (auto simp: hear_def spoken_snoc last_error_snoc split: if_splits)
qed

text \<open>A connection that delivers whole events, one data line each, and is then cut.\<close>

definition frame :: "string list \<Rightarrow> string" where
  "frame raws = concat (map (\<lambda>r. ''data: '' @ r @ newline @ newline) raws)"

definition event_text :: "string \<Rightarrow> bool" where
  "event_text r \<longleftrightarrow> CHR 0x0A \<notin> set r \<and> (r \<noteq> [] \<longrightarrow> last r \<noteq> CHR 0x0D)"

definition cut_connection :: "string list \<times> goerr \<Rightarrow> sse_conn" where
  "cut_connection c = Answered 200 ''200 OK'' (frame (fst c)) (snd c) False"

lemma full_lines_append: "CHR 0x0A \<notin> set x \<Longrightarrow> full_lines (x @ newline @ y) = x # full_lines y"
  using split_on_not_Nil [of "CHR 0x0A" y]
  by (simp add: full_lines_def newline_def split_on_append)

lemma trim_right_none: "(s \<noteq> [] \<Longrightarrow> \<not> P (last s)) \<Longrightarrow> trim_right_by P s = s"
  by (cases s rule: rev_cases) (simp_all add: trim_right_by_def)

lemma sse_lines_event:
  assumes "event_text r"
  shows "sse_lines sid [] ((''data: '' @ r) # [] # ls) st =
    (let (fin, st') = take_event sid [r] st in if fin then (True, [], st') else sse_lines sid [] ls st')"
proof -
  have "trim_right_by (\<lambda>c. c = CHR 0x0D \<or> c = CHR 0x0A) (''data: '' @ r) = ''data: '' @ r"
    using assms by (intro trim_right_none) (auto simp: event_text_def last_append dest: last_in_set)
  then show ?thesis
    by (simp add: has_prefix_def data_of_def trim_right_by_def Let_def split: prod.split)
qed

lemma sse_lines_frame:
  "\<forall>r \<in> set raws. event_text r \<Longrightarrow> sse_lines sid [] (full_lines (frame raws)) st =
     (Idle \<in> classify sid ` set raws, [], fold hear (session_events sid raws) st)"
proof (induction raws arbitrary: st)
  case Nil
  then show ?case by (simp add: frame_def full_lines_def session_events_def)
next
  case (Cons r raws)
  then have r: "event_text r" "CHR 0x0A \<notin> set r" by (auto simp: event_text_def)
  have "full_lines (frame (r # raws)) = (''data: '' @ r) # [] # full_lines (frame raws)"
    using full_lines_append [of "''data: '' @ r" "newline @ frame raws"] full_lines_append [of "[]" "frame raws"] r(2)
    by (simp add: frame_def)
  then show ?case using Cons
    by (simp add: sse_lines_event [OF r(1), simplified] take_event_hear session_events_def image_iff eq_commute)
qed

lemma fold_hear_frame:
  "fold hear es (ids, [], []) = (ids', ps, er) \<Longrightarrow>
     fold hear es (ids, parts, err) = (ids', parts @ ps, if er = [] then err else er)"
proof (induction es arbitrary: ids' ps er rule: rev_induct)
  case Nil
  then show ?case by simp
next
  case (snoc e es)
  obtain a b c where f: "fold hear es (ids, [], []) = (a, b, c)" by (metis prod_cases3)
  have st: "hear e (a, b, c) = (ids', ps, er)" using snoc.prems f by simp
  have "fold hear (es @ [e]) (ids, parts, err) = hear e (a, parts @ b, if c = [] then err else c)"
    using snoc.IH [OF f] by simp
  also have "\<dots> = (ids', parts @ ps, if er = [] then err else er)"
    using st by (cases e) (auto simp: hear_def split: if_splits)
  finally show ?case .
qed

lemma session_events_append:
  "session_events sid (as @ bs) =
     (if Idle \<in> classify sid ` set as then session_events sid as else session_events sid as @ session_events sid bs)"
  by (induction as) (auto simp: session_events_def)

lemma sse_collect_cut:
  assumes "\<forall>c \<in> set cs. \<forall>r \<in> set (fst c). event_text r"
  shows "fst (sse_collect (map cut_connection cs) sid b st) = fold hear (session_events sid (concat (map fst cs))) st"
  using assms
proof (induction cs arbitrary: b st)
  case Nil
  then show ?case by (simp add: session_events_def)
next
  case (Cons c cs)
  obtain ids parts err where st: "st = (ids, parts, err)" by (metis prod_cases3)
  obtain ids' ps er where f: "fold hear (session_events sid (fst c)) (ids, [], []) = (ids', ps, er)" by (metis prod_cases3)
  from Cons.prems have "sse_lines sid [] (full_lines (frame (fst c))) (ids, [], []) =
      (Idle \<in> classify sid ` set (fst c), [], (ids', ps, er))"
    using sse_lines_frame [of "fst c" sid "(ids, [], [])"] f by simp
  then have s: "sseStream (cut_connection c) sid ids = (Idle \<in> classify sid ` set (fst c), (ids', ps, er),
      if Idle \<in> classify sid ` set (fst c) then None else Some (Wrapf ''read SSE: %w'' [] (snd c)))"
    by (simp add: sseStream_def cut_connection_def)
  from Cons fold_hear_frame [OF f, of parts err] show ?case
    by (simp add: st s session_events_append Let_def split: prod.split) (metis fst_conv)
qed

text \<open>
  C20. What the HTTP agent takes for the answer of the assistant is exactly the text of the parts that belong to messages
  the server announced before as the assistant's, for this session and up to its first idle event, in order;
  the user's own text and other sessions never get in. The standard error is the last session error.
\<close>

theorem streamed_text_spec:
  assumes "\<forall>c \<in> set cs. \<forall>r \<in> set (fst c). event_text r"
  shows "sseLoop parse_float (map cut_connection cs) sid =
    bindE (parseAssistantText parse_float (concat (spoken (session_events sid (concat (map fst cs))))))
      (\<lambda>r. ret (r\<lparr>jr_stderr := last_error (session_events sid (concat (map fst cs)))\<rparr>))"
proof -
  obtain ids parts err waits where c: "sse_collect (map cut_connection cs) sid 250 ([], [], []) = ((ids, parts, err), waits)"
    by (metis prod_cases3 prod.exhaust)
  with sse_collect_cut [OF assms, of sid 250 "([], [], [])"]
  have "fold hear (session_events sid (concat (map fst cs))) ([], [], []) = (ids, parts, err)" by simp
  from hear_all [OF this] c show ?thesis by (simp add: sseLoop_def)
qed

text \<open>
  C19. A connection that is cut between two events costs nothing: however the same events are spread over
  connections, the agent delivers the same result, and the wait before each new connection stays
  between a quarter of a second and five seconds.
\<close>

theorem reconnect_transparent:
  assumes "\<forall>c \<in> set cs. \<forall>r \<in> set (fst c). event_text r" and "\<forall>c \<in> set ds. \<forall>r \<in> set (fst c). event_text r"
    and "concat (map fst cs) = concat (map fst ds)"
  shows "sseLoop parse_float (map cut_connection cs) sid = sseLoop parse_float (map cut_connection ds) sid \<and>
    (\<forall>t \<in> set (snd (sse_collect conns sid 250 st)). 250 \<le> t \<and> t \<le> 5000)"
proof
  have loop: "sseLoop parse_float (map cut_connection xs) sid =
      (let (ids, parts, err) = fold hear (session_events sid (concat (map fst xs))) ([], [], []) in
       bindE (parseAssistantText parse_float (concat parts)) (\<lambda>r. ret (r\<lparr>jr_stderr := err\<rparr>)))"
    if "\<forall>c \<in> set xs. \<forall>r \<in> set (fst c). event_text r" for xs
    using sse_collect_cut [OF that, of sid 250 "([], [], [])"]
    by (auto simp: sseLoop_def split: prod.splits)
  show "sseLoop parse_float (map cut_connection cs) sid = sseLoop parse_float (map cut_connection ds) sid"
    unfolding loop [OF assms(1)] loop [OF assms(2)] assms(3) ..
  have "\<forall>t \<in> set (snd (sse_collect conns sid b st)). 250 \<le> t \<and> t \<le> 5000" if "250 \<le> b" "b \<le> 5000" for b
    using that
  proof (induction conns arbitrary: b st)
    case (Cons c conns)
    from Cons.prems have nb: "250 \<le> next_backoff b" "next_backoff b \<le> 5000" by (auto simp: next_backoff_def)
    from Cons.IH [OF nb] have ih: "\<forall>t \<in> set (snd (sse_collect conns sid (next_backoff b) st')). 250 \<le> t \<and> t \<le> 5000" for st' .
    obtain ids parts err where st: "st = (ids, parts, err)" by (metis prod_cases3)
    obtain fin ids' ps er o_e where c: "sseStream c sid ids = (fin, (ids', ps, er), o_e)" by (metis surj_pair)
    let ?st = "(ids', parts @ ps, if er = [] then err else er)"
    obtain out waits where w: "sse_collect conns sid (next_backoff b) ?st = (out, waits)" by (rule prod.exhaust)
    from ih [of ?st] w have "\<forall>t \<in> set waits. 250 \<le> t \<and> t \<le> 5000" by simp
    with Cons.prems st c w show ?case by (cases "er = []") (simp_all add: Let_def)
  qed simp
  from this [of 250] show "\<forall>t \<in> set (snd (sse_collect conns sid 250 st)). 250 \<le> t \<and> t \<le> 5000" by simp
qed

section \<open>Instances\<close>

definition no_floats :: "string \<Rightarrow> rat option" where
  "no_floats s = None"

text \<open>A double quote written as \<open>|\<close>.\<close>

definition dquoted :: "string \<Rightarrow> string" where
  "dquoted s = map (\<lambda>c. if c = CHR ''|'' then CHR 0x22 else c) s"

definition sample_transcript :: string where
  "sample_transcript = dquoted (''{|type|:|finding|,|path|:|a.go|,|line|:7,|body|:|x|} '' @
     ''{|type|:|turn.completed|,|usage|:{|input_tokens|:5,|output_tokens|:2}} {|Type|:|done|,|exit_code|:3} bye'')"

lemmas json_eval = dquoted_def decode_stream.simps json_value.simps json_members.simps json_key_def json_string_def
  json_chars.simps json_char_def json_scalar_def json_number_def json_fraction_def json_exponent_def digits1_def
  json_word_def json_space_def ord_def to_message_def struct_members_def str_field_def int_field_def key_is_def
  str_value_def int_value_def num_value_def is_lower_def is_digit_def has_prefix_def max_nesting_def all_digits_def
  check_range_def int_in_range_def usage_value_def zero_usage_def

definition blank_message :: stream_message where
  "blank_message = \<lparr>sm_Type = [], sm_Path = [], sm_Line = 0, sm_Severity = [], sm_Body = [], sm_ExitCode = 0, sm_Kind = [],
     sm_TotalCostUSD = 0, sm_Usage = None, sm_ModelUsage = None\<rparr>"

definition sample_messages :: "stream_message list" where
  "sample_messages =
     [blank_message\<lparr>sm_Type := ''finding'', sm_Path := ''a.go'', sm_Line := 7, sm_Body := ''x''\<rparr>,
      blank_message\<lparr>sm_Type := ''turn.completed'', sm_Usage := Some (zero_usage\<lparr>su_InputTokens := 5, su_OutputTokens := 2\<rparr>)\<rparr>,
      blank_message\<lparr>sm_Type := ''done'', sm_ExitCode := 3\<rparr>]"

lemma capital_T: "char_of (84 :: nat) = CHR ''T''"
  by code_simp

lemma sample_decode: "decode_stream no_floats sample_transcript = (sample_messages, Broken ''bye'')"
  by (simp add: sample_transcript_def sample_messages_def blank_message_def json_eval capital_T)

definition sample_output :: "int \<Rightarrow> cli_output" where
  "sample_output n = \<lparr>co_stdout = sample_transcript, co_unread = 0, co_stderr = Inr [], co_exit = Exited n\<rparr>"

lemma cli_result_of_stream_witness:
  "\<exists>r w'. cli_Wait no_floats (sample_output 0) (world_with empty_db (\<lambda>_. None)) = (Inr r, w') \<and>
     map reported_content (jr_findings r) = [(''a.go'', 7, [], ''x'')] \<and> jr_exit_code r = 3 \<and> jr_stdout r = ''bye'' \<and>
     map_option cs_tokens_in (jr_cost r) = Some 5"
proof -
  have o: "decode_stream no_floats (co_stdout (sample_output 0)) = (sample_messages, Broken ''bye'')"
    "co_exit (sample_output 0) = Exited 0" by (simp_all add: sample_output_def sample_decode)
  from cli_result_of_stream [OF o, of "world_with empty_db (\<lambda>_. None)"] show ?thesis
    by (auto simp: sample_messages_def blank_message_def zero_usage_def of_type_def message_content_def last_code_def
        stream_cost_def billed_def metered_def populateCost_def go_add_def)
qed

lemma replay_mirrors_cli_witness:
  "replay_Wait no_floats (\<lambda>_. None) True sample_transcript = bindE (cli_Wait no_floats (sample_output 0)) (\<lambda>r. ret (r, None))"
  using replay_mirrors_cli [of "\<lambda>_. None" no_floats "sample_output 0" sample_messages "Broken ''bye''" True]
  by (simp add: sample_output_def sample_decode) (simp add: sample_messages_def blank_message_def)

definition sample_events :: "string list" where
  "sample_events = map dquoted
     [''{|type|:|message.part.updated|,|properties|:{|sessionID|:|s|,|part|:{|type|:|text|,|text|:|ask|,|messageID|:|u|}}}'',
      ''{|type|:|message.updated|,|properties|:{|sessionID|:|s|,|info|:{|id|:|m|,|role|:|assistant|}}}'',
      ''{|type|:|message.part.updated|,|properties|:{|sessionID|:|s|,|part|:{|type|:|text|,|text|:|hi|,|messageID|:|m|}}}'',
      ''{|type|:|session.idle|,|properties|:{|sessionID|:|s|}}'']"

lemmas event_eval = json_eval classify_def envelope_def json_text_def raw_value_def idle_event_def message_event_def
  part_event_def nested_def

lemma sample_classified:
  "map (classify ''s'') sample_events = [Text_Part ''u'' ''ask'', Assistant_Message ''m'', Text_Part ''m'' ''hi'', Idle]"
  by (simp add: sample_events_def event_eval)

lemma sample_event_texts: "\<forall>r \<in> set sample_events. event_text r"
  by (simp add: sample_events_def event_text_def dquoted_def)

lemma sample_spoken: "spoken (session_events ''s'' sample_events) = [''hi'']"
  by (simp add: session_events_def sample_classified spoken_def upt_rec)

lemma streamed_text_spec_witness:
  "sseLoop no_floats (map cut_connection [(take 2 sample_events, ErrEOF), (drop 2 sample_events, ErrEOF)]) ''s'' =
     bindE (parseAssistantText no_floats ''hi'') (\<lambda>r. ret (r\<lparr>jr_stderr := []\<rparr>))"
  using streamed_text_spec [of "[(take 2 sample_events, ErrEOF), (drop 2 sample_events, ErrEOF)]" no_floats "''s''"]
    sample_event_texts sample_spoken
  by (auto dest: in_set_takeD in_set_dropD simp: session_events_def sample_classified last_error_def)

lemma reconnect_transparent_witness:
  "sseLoop no_floats (map cut_connection [(take 2 sample_events, ErrEOF), (drop 2 sample_events, ErrEOF)]) ''s'' =
   sseLoop no_floats (map cut_connection [(sample_events, ErrCtxDone)]) ''s''"
  using reconnect_transparent [of "[(take 2 sample_events, ErrEOF), (drop 2 sample_events, ErrEOF)]"
      "[(sample_events, ErrCtxDone)]" no_floats "''s''" "[]" "([], [], [])"] sample_event_texts
  by (auto dest: in_set_takeD in_set_dropD)

end
