(* ===== verification/Session.thy ===== *)
theory Session
  imports Dispatcher_Facts
begin

text \<open>
  \<open>coding/session/manager.go\<close>: the interactive session, which is a run and a lock file that names it. The state
  is the world with the content of the lock file; an operation on the file system draws the next entry of a
  fault stream of its own. The file is created exclusively, so of two sessions that start at the same time one
  gets the lock.
\<close>

section \<open>The world with a lock file\<close>

record session_state =
  ss_world :: world
  ss_lock :: "string option"
  ss_faults :: "nat \<Rightarrow> goerr option"
  ss_calls :: nat

type_synonym 'a sess = "(session_state, 'a) io"

definition on_world :: "'a prog \<Rightarrow> 'a sess" where
  "on_world m = (\<lambda>s. case m (ss_world s) of (r, w) \<Rightarrow> (r, s\<lparr>ss_world := w\<rparr>))"

text \<open>A file operation: the fault of the stream, or what it does.\<close>

definition file_op :: "'a sess \<Rightarrow> 'a sess" where
  "file_op m = (\<lambda>s. let s' = s\<lparr>ss_calls := Suc (ss_calls s)\<rparr> in
     case ss_faults s (ss_calls s) of Some e \<Rightarrow> (Inl e, s') | None \<Rightarrow> m s')"

definition create_exclusive :: "unit sess" where
  "create_exclusive = file_op (\<lambda>s. if ss_lock s = None then (Inr (), s\<lparr>ss_lock := Some []\<rparr>) else (Inl ErrLockExists, s))"

definition write_file :: "string \<Rightarrow> unit sess" where
  "write_file text = file_op (modify (\<lambda>s. s\<lparr>ss_lock := Some text\<rparr>))"

definition remove_file :: "unit sess" where
  "remove_file = file_op (\<lambda>s. if ss_lock s = None then (Inl ErrNotExist, s) else (Inr (), s\<lparr>ss_lock := None\<rparr>))"

definition read_file :: "string sess" where
  "read_file = file_op (\<lambda>s. case ss_lock s of None \<Rightarrow> (Inl ErrNotExist, s) | Some t \<Rightarrow> (Inr t, s))"

section \<open>The manager\<close>

text \<open>\<open>mg_PID\<close> is the configured process id, \<open>mg_getpid\<close> the one of the process.\<close>

record manager =
  mg_RunStore :: bool
  mg_LockPath :: string
  mg_PID :: int
  mg_getpid :: int

definition lockPath :: "manager \<Rightarrow> string" where
  "lockPath sm = (if mg_LockPath sm = [] then ''.coworker/session.lock'' else mg_LockPath sm)"

definition lock_payload :: "manager \<Rightarrow> ident \<Rightarrow> string" where
  "lock_payload sm runID =
     (let pid = (if mg_PID sm = 0 then mg_getpid sm else mg_PID sm) in
      join_with newline (runID # (if pid > 0 then [itoa pid] else [])))"

text \<open>Writing and closing fail without a trace in the model but for the content; the file is then removed.\<close>

definition writeLock :: "manager \<Rightarrow> ident \<Rightarrow> unit sess" where
  "writeLock sm runID =
     bindE (wrapE ''create lock directory: %w'' [] (file_op (ret ()))) (\<lambda>_.
     bindE (attempt create_exclusive) (\<lambda>r.
     case r of
       Inl e \<Rightarrow> if e = ErrLockExists then raise ErrLockExists else raise (Wrapf ''create lock file: %w'' [] e)
     | Inr _ \<Rightarrow>
         bindE (attempt (write_file (lock_payload sm runID))) (\<lambda>r.
         case r of
           Inl e \<Rightarrow> bindE (ignoring remove_file) (\<lambda>_. raise (Wrapf ''write lock file: %w'' [] e))
         | Inr _ \<Rightarrow>
             bindE (attempt (file_op (ret ()))) (\<lambda>r.
             case r of
               Inl e \<Rightarrow> bindE (ignoring remove_file) (\<lambda>_. raise (Wrapf ''close lock file: %w'' [] e))
             | Inr _ \<Rightarrow> ret ()))))"

definition parse_lock :: "string \<Rightarrow> goerr + ident" where
  "parse_lock text =
     (let lines = split_on (CHR 0x0A) (trim_space text);
          runID = (case lines of l # _ \<Rightarrow> trim_space l | [] \<Rightarrow> []);
          pid = (case lines of _ # p # _ \<Rightarrow> trim_space p | _ \<Rightarrow> [])
      in if runID = [] then Inl (Wrapf ''%w: missing run ID'' [] ErrInvalidSession)
         else if pid \<noteq> [] \<and> atoi pid = None then Inl (Wrapf ''%w: invalid PID'' [] ErrInvalidSession)
         else Inr runID)"

definition readLock :: "manager \<Rightarrow> ident sess" where
  "readLock sm =
     bindE (attempt read_file) (\<lambda>r.
     case r of
       Inl e \<Rightarrow> if e = ErrNotExist then raise ErrNoActiveSession else raise (Wrapf ''read session lock: %w'' [] e)
     | Inr text \<Rightarrow> (case parse_lock text of Inl e \<Rightarrow> raise e | Inr i \<Rightarrow> ret i))"

definition session_run :: "ident \<Rightarrow> time \<Rightarrow> run" where
  "session_run i now =
     \<lparr>run_id = i, run_mode = ''interactive'', run_state = RunStateActive, run_started_at = now, run_ended_at = None,
      run_prd_path = [], run_spec_path = [], run_cost_usd = 0, run_budget_usd = None\<rparr>"

definition StartSession :: "manager \<Rightarrow> ident sess" where
  "StartSession sm =
     (if \<not> mg_RunStore sm then raise ErrMissingRunStore
      else
        bindE (on_world new_id) (\<lambda>runID. bindE (on_world time_now) (\<lambda>now.
        bindE (wrapE ''create run: %w'' [] (on_world (CreateRun (session_run runID now)))) (\<lambda>_.
        bindE (attempt (writeLock sm runID)) (\<lambda>r.
        case r of
          Inl e \<Rightarrow> bindE (ignoring (on_world (CompleteRun runID RunStateFailed))) (\<lambda>_.
            raise (Wrapf ''write session lock: %w'' [] e))
        | Inr _ \<Rightarrow> ret runID)))))"

definition CurrentSession :: "manager \<Rightarrow> ident sess" where
  "CurrentSession sm =
     (if \<not> mg_RunStore sm then raise ErrMissingRunStore
      else
        bindE (readLock sm) (\<lambda>i.
        bindE (attempt (on_world (GetRun i))) (\<lambda>r.
        case r of
          Inl e \<Rightarrow> if errors_is e ErrNoRows then raise ErrNoActiveSession else raise (Wrapf ''get run %q: %w'' [i] e)
        | Inr run \<Rightarrow> if run_state run \<noteq> RunStateActive then raise ErrNoActiveSession else ret i)))"

definition EndSession :: "manager \<Rightarrow> unit sess" where
  "EndSession sm =
     (if \<not> mg_RunStore sm then raise ErrMissingRunStore
      else
        bindE (CurrentSession sm) (\<lambda>runID.
        bindE (wrapE ''complete run %q: %w'' [runID] (on_world (CompleteRun runID RunStateCompleted))) (\<lambda>_.
        bindE (attempt remove_file) (\<lambda>r.
        case r of
          Inl e \<Rightarrow> if e = ErrNotExist then ret () else raise (Wrapf ''remove session lock: %w'' [] e)
        | Inr _ \<Rightarrow> ret ()))))"

section \<open>The lock text\<close>

lemma split_two_lines: "c \<notin> set a \<Longrightarrow> c \<notin> set b \<Longrightarrow> split_on c (a @ c # b) = [a, b]"
  by (induction a) (auto simp: split_on_single)

lemma hex_not_space: "is_hex c \<Longrightarrow> \<not> is_space c"
  by (auto simp: is_hex_def is_space_def is_digit_def)

lemma NewID_chars: "\<forall>c \<in> set (NewID rnd k). \<not> is_space c"
  using hex_encode_chars hex_not_space by (auto simp: NewID_def)

lemma newline_space: "is_space (CHR 0x0A)"
  by (simp add: is_space_def ord_def)

text \<open>What a manager writes, it reads back.\<close>

definition lock_pid :: "manager \<Rightarrow> int" where
  "lock_pid sm = (if mg_PID sm = 0 then mg_getpid sm else mg_PID sm)"

lemma parse_lock_payload:
  assumes i: "\<forall>c \<in> set i. \<not> is_space c" "i \<noteq> []" and pid: "int_in_range (lock_pid sm)"
  shows "parse_lock (lock_payload sm i) = Inr i"
proof -
  have nl: "CHR 0x0A \<notin> set i" using i newline_space by auto
  show ?thesis
  proof (cases "lock_pid sm > 0")
    case False
    then have "lock_payload sm i = i" by (simp add: lock_payload_def lock_pid_def)
    then show ?thesis using i nl by (simp add: parse_lock_def no_space split_on_single)
  next
    case True
    let ?p = "itoa (lock_pid sm)"
    have p: "\<forall>c \<in> set ?p. \<not> is_space c" "?p \<noteq> []" "CHR 0x0A \<notin> set ?p"
      using itoa_digits [of "lock_pid sm"] True digit_not_special newline_space by auto
    have pl: "lock_payload sm i = i @ CHR 0x0A # ?p"
      using True by (simp add: lock_payload_def lock_pid_def newline_def)
    have "\<not> is_space (hd i)" "\<not> is_space (last ?p)"
      using i p(1,2) by (simp_all add: hd_in_set last_in_set)
    then have "trim_space (i @ CHR 0x0A # ?p) = i @ CHR 0x0A # ?p"
      using i(2) p(2) by (intro trim_space_id) simp
    then show ?thesis
      using i p nl pid by (simp add: pl parse_lock_def no_space split_two_lines atoi_itoa)
  qed
qed

section \<open>What the operations of the manager do\<close>

lemma on_world_run [run_simps]:
  "on_world m s = (Inr x, s') \<longleftrightarrow> (\<exists>w. m (ss_world s) = (Inr x, w) \<and> s' = s\<lparr>ss_world := w\<rparr>)"
  by (auto simp: on_world_def split: prod.splits)

lemma on_world_lock [simp]: "ss_lock (snd (on_world m s)) = ss_lock s"
  by (simp add: on_world_def split: prod.splits)

text \<open>\<open>writeLock\<close>: an existing lock is left as it is; a lock that was written was not there before.\<close>

lemma writeLock_existing:
  "ss_lock s = Some t \<Longrightarrow> \<exists>e. fst (writeLock sm i s) = Inl e \<and> ss_lock (snd (writeLock sm i s)) = Some t \<and>
     ss_world (snd (writeLock sm i s)) = ss_world s"
  by (simp add: writeLock_def bindE_def attempt_def wrapE_def file_op_def create_exclusive_def ret_def raise_def Let_def
      split: option.split)

lemma writeLock_run:
  "writeLock sm i s = (Inr u, s') \<Longrightarrow> ss_lock s = None \<and> ss_lock s' = Some (lock_payload sm i) \<and> ss_world s' = ss_world s"
  by (auto simp: writeLock_def bindE_def attempt_def wrapE_def file_op_def create_exclusive_def write_file_def remove_file_def
      ignoring_def modify_def ret_def raise_def Let_def split: option.splits if_splits sum.splits prod.splits)

lemma create_run_rows:
  assumes "CreateRun r w = (Inr u, w')"
  shows "\<exists>z. t_runs (wd_db w') = t_runs (wd_db w) @ [r\<lparr>run_started_at := z, run_ended_at := None\<rparr>] \<and>
     run_id r \<notin> run_id ` set (t_runs (wd_db w))"
proof -
  let ?ins = "bindE (gets wd_zone) (\<lambda>zone. bindE (wrapE ''insert run: %w'' []
      (exec (insert_run (r\<lparr>run_started_at := local_stamp zone (run_started_at r), run_ended_at := None\<rparr>)))) (\<lambda>_. ret ()))"
  obtain ev where run: "write_row ev ?ins (w\<lparr>wd_ids := Suc (wd_ids w)\<rparr>) = (Inr (), w')"
    using assms by (auto simp: CreateRun_def bindE_new_id)
  from write_row_ex [OF run] obtain w1 w2 e where w1: "wd_db w1 = add_event e (wd_db w)"
    and ins: "?ins w1 = (Inr (), w2)" and w2: "wd_db w' = wd_db w2" by auto
  have "t_runs (wd_db w1) = t_runs (wd_db w)" by (simp add: w1 add_event_def)
  with ins show ?thesis by (auto simp: run_simps insert_run_def map_sum_Inr insert_into_Inr w2)
qed

lemma find_run_rows: "find_run i d = find (\<lambda>r. run_id r = i) (t_runs d)"
  by (simp add: find_run_def)

lemma draws:
  "bindE (on_world new_id) f s = f (NewID (wd_rnd (ss_world s)) (wd_ids (ss_world s)))
     (s\<lparr>ss_world := (ss_world s)\<lparr>wd_ids := Suc (wd_ids (ss_world s))\<rparr>\<rparr>)"
  "bindE (on_world time_now) g s = g (wd_clock (ss_world s) (wd_ticks (ss_world s)))
     (s\<lparr>ss_world := (ss_world s)\<lparr>wd_ticks := Suc (wd_ticks (ss_world s))\<rparr>\<rparr>)"
  by (simp_all add: bindE_def on_world_def new_id_def time_now_def)

lemma StartSession_eq:
  "StartSession sm s =
     (let w = ss_world s; i = NewID (wd_rnd w) (wd_ids w);
          s1 = s\<lparr>ss_world := w\<lparr>wd_ids := Suc (wd_ids w), wd_ticks := Suc (wd_ticks w)\<rparr>\<rparr>
      in if \<not> mg_RunStore sm then raise ErrMissingRunStore s
         else bindE (wrapE ''create run: %w'' [] (on_world (CreateRun (session_run i (wd_clock w (wd_ticks w))))))
           (\<lambda>_. bindE (attempt (writeLock sm i)) (\<lambda>r. case r of
             Inl e \<Rightarrow> bindE (ignoring (on_world (CompleteRun i RunStateFailed))) (\<lambda>_.
               raise (Wrapf ''write session lock: %w'' [] e))
           | Inr _ \<Rightarrow> ret i)) s1)"
  by (simp add: StartSession_def draws Let_def)

lemma StartSession_run:
  assumes "StartSession sm s = (Inr i, s')"
  shows "ss_lock s = None \<and> ss_lock s' = Some (lock_payload sm i) \<and> (\<exists>k. i = NewID (wd_rnd (ss_world s)) k) \<and>
     find_run i (wd_db (ss_world s)) = None \<and>
     (\<exists>r. find_run i (wd_db (ss_world s')) = Some r \<and> run_state r = RunStateActive) \<and> mg_RunStore sm"
proof -
  let ?w = "ss_world s"
  let ?i = "NewID (wd_rnd ?w) (wd_ids ?w)"
  let ?w1 = "?w\<lparr>wd_ids := Suc (wd_ids ?w), wd_ticks := Suc (wd_ticks ?w)\<rparr>"
  let ?r = "session_run ?i (wd_clock ?w (wd_ticks ?w))"
  have "i = ?i \<and> mg_RunStore sm \<and> (\<exists>w2. CreateRun ?r ?w1 = (Inr (), w2) \<and> writeLock sm ?i (s\<lparr>ss_world := w2\<rparr>) = (Inr (), s'))"
    using assms
    by (auto simp: StartSession_def run_simps case_sum_run time_now_def new_id_def split: if_splits)
  then obtain w2 where i: "i = ?i" "mg_RunStore sm" and cr: "CreateRun ?r ?w1 = (Inr (), w2)"
    and wl: "writeLock sm ?i (s\<lparr>ss_world := w2\<rparr>) = (Inr (), s')" by blast
  from create_run_rows [OF cr] obtain z where
    "t_runs (wd_db w2) = t_runs (wd_db ?w) @ [?r\<lparr>run_started_at := z, run_ended_at := None\<rparr>]"
    and new: "?i \<notin> run_id ` set (t_runs (wd_db ?w))" by (auto simp: session_run_def)
  moreover from new have none: "find (\<lambda>r. run_id r = ?i) (t_runs (wd_db ?w)) = None"
    by (metis (mono_tags, lifting) find_None_iff image_eqI)
  ultimately have "find (\<lambda>r. run_id r = ?i) (t_runs (wd_db w2)) = Some (?r\<lparr>run_started_at := z, run_ended_at := None\<rparr>)"
    by (simp add: find_append session_run_def)
  with none writeLock_run [OF wl] i show ?thesis
    by (auto simp: find_run_rows session_run_def)
qed

lemma StartSession_locked:
  assumes "ss_lock s = Some t"
  shows "\<exists>e. fst (StartSession sm s) = Inl e \<and> ss_lock (snd (StartSession sm s)) = Some t"
proof -
  have wl: "\<exists>e s2. writeLock sm i s1 = (Inl e, s2) \<and> ss_lock s2 = Some t" if "ss_lock s1 = Some t" for i s1
    using writeLock_existing [OF that, of sm i] by (metis prod.collapse)
  show ?thesis
  proof (cases "fst (StartSession sm s)")
    case (Inr i)
    then have "StartSession sm s = (Inr i, snd (StartSession sm s))" by (simp add: prod_eq_iff)
    with StartSession_run assms show ?thesis by fastforce
  next
    case (Inl e)
    let ?w = "ss_world s"
    let ?i = "NewID (wd_rnd ?w) (wd_ids ?w)"
    let ?s1 = "s\<lparr>ss_world := ?w\<lparr>wd_ids := Suc (wd_ids ?w), wd_ticks := Suc (wd_ticks ?w)\<rparr>\<rparr>"
    let ?c = "wrapE ''create run: %w'' [] (on_world (CreateRun (session_run ?i (wd_clock ?w (wd_ticks ?w)))))"
    note run = StartSession_eq [of sm s, unfolded Let_def]
    obtain r2 s2 where c: "?c ?s1 = (r2, s2)" by fastforce
    have "s2 = snd (on_world (CreateRun (session_run ?i (wd_clock ?w (wd_ticks ?w)))) ?s1)"
      using c by (auto simp: wrapE_def split: prod.splits sum.splits)
    then have l2: "ss_lock s2 = Some t" using assms by (metis on_world_lock session_state.select_convs(2)
        session_state.surjective session_state.update_convs(1))
    from wl [OF l2] obtain e2 s3 where "writeLock sm ?i s2 = (Inl e2, s3)" "ss_lock s3 = Some t" by blast
    with l2 assms show ?thesis
      by (cases r2) (auto simp: run bindE_def c attempt_def ignoring_def raise_def split: if_splits)
  qed
qed

text \<open>
  C21. A session that starts has found no lock, holds it from then on under its own run id, and has added
  one active run, of an id that was not in use; with a lock in place the start fails and the lock stays as it
  was, whatever else fails.
\<close>

theorem session_start_exclusive:
  "case StartSession sm s of
      (Inr i, s') \<Rightarrow> ss_lock s = None \<and> ss_lock s' = Some (lock_payload sm i) \<and>
        find_run i (wd_db (ss_world s)) = None \<and>
        map_option run_state (find_run i (wd_db (ss_world s'))) = Some RunStateActive
    | (Inl _, s') \<Rightarrow> ss_lock s = None \<or> ss_lock s' = ss_lock s"
proof -
  obtain r s' where run: "StartSession sm s = (r, s')" by fastforce
  show ?thesis
  proof (cases r)
    case (Inl e)
    with StartSession_locked [of s _ sm] run show ?thesis by (cases "ss_lock s") auto
  next
    case (Inr i)
    with StartSession_run [of sm s i s'] run show ?thesis by auto
  qed
qed

section \<open>Reading the lock\<close>

text \<open>\<open>quiet s\<close>: no operation on files or tables fails from here on.\<close>

definition quiet :: "session_state \<Rightarrow> bool" where
  "quiet s \<longleftrightarrow> (\<forall>k. ss_faults s k = None) \<and> calm (ss_world s)"

lemma readLock_quiet:
  assumes "quiet s" and "ss_lock s = Some t"
  shows "readLock sm s = (parse_lock t, s\<lparr>ss_calls := Suc (ss_calls s)\<rparr>)"
  using assms by (simp add: readLock_def bindE_def attempt_def read_file_def file_op_def quiet_def raise_def ret_def Let_def
      split: sum.split)

lemma CurrentSession_quiet:
  assumes "quiet s" and "ss_lock s = Some t" and "parse_lock t = Inr i" and "mg_RunStore sm"
    and "find_run i (wd_db (ss_world s)) = Some r"
  shows "CurrentSession sm s = (if run_state r = RunStateActive then Inr i else Inl ErrNoActiveSession,
     s\<lparr>ss_calls := Suc (ss_calls s), ss_world := (ss_world s)\<lparr>wd_calls := Suc (wd_calls (ss_world s))\<rparr>\<rparr>)"
  using assms
  by (simp add: CurrentSession_def bindE_def readLock_quiet attempt_def on_world_def GetRun_def wrapE_def query_row_def
      query_def sql_def gets_def ret_def raise_def Let_def quiet_def calm_def)

text \<open>A completed run is written when no call fails.\<close>

lemma CompleteRun_ok:
  assumes w: "calm w" "fresh_event w"
  shows "\<exists>w'. CompleteRun i st w = (Inr (), w') \<and> made w w'"
proof -
  let ?i = "NewID (wd_rnd w) (wd_ids w)"
  let ?w = "w\<lparr>wd_ticks := Suc (wd_ticks w), wd_ids := Suc (wd_ids w)\<rparr>"
  let ?upd = "bindE (gets wd_zone) (\<lambda>z. bindE (exec (update_run i
       (\<lambda>r. r\<lparr>run_state := st, run_ended_at := Some (local_stamp z (wd_clock w (wd_ticks w)))\<rparr>))) (\<lambda>_. ret ()))"
  let ?Q = "\<lambda>d. log_ok d \<and> ev_id ` set (t_events d) = insert ?i (ev_id ` set (t_events (wd_db w)))"
  obtain ev where ev: "CompleteRun i st w = write_row ev ?upd ?w" "ev_id ev = ?i" "ev_idempotency_key ev = []"
    by (simp add: CompleteRun_def bindE_time_now bindE_new_id mk_event_def)
  have "\<exists>w'. write_row ev ?upd ?w = (Inr (), w') \<and> same_source ?w w' \<and> ?Q (wd_db w')"
  proof (rule write_row_ok)
    show "calm ?w" using w(1) by (simp add: calm_def)
    show "ev_id ev \<notin> ev_id ` set (t_events (wd_db ?w))" using w(2) by (simp add: ev(2) fresh_event_def)
    show "ev_idempotency_key ev = []" by (rule ev(3))
    fix w1 e assume s: "same_source ?w w1" and d1: "wd_db w1 = add_event e (wd_db ?w)"
      and e: "ev_id e = ev_id ev" and c: "calm w1"
    have "\<exists>w2. ?upd w1 = (Inr (), w2) \<and> same_source ?w w2 \<and> t_events (wd_db w2) = t_events (wd_db w1) \<and> log_ok (wd_db w2)"
      using c s by (simp add: bindE_def gets_def exec_def sql_def calm_def ret_def Let_def update_run_def same_source_def)
    then show "\<exists>w2. ?upd w1 = (Inr (), w2) \<and> same_source ?w w2 \<and> ?Q (wd_db w2)"
      using e ev(2) by (auto simp: d1 add_event_def)
  qed
  then show ?thesis using w(1) unfolding ev(1) by (auto simp: made_def calm_def same_source_def)
qed

text \<open>A session that was started is the current one, and ends with its run completed and the lock gone.\<close>

lemma session_round_trip:
  assumes start: "StartSession sm s = (Inr i, s')" and q: "quiet s'" and pid: "int_in_range (lock_pid sm)"
    and fresh: "fresh_event (ss_world s')"
  shows "fst (CurrentSession sm s') = Inr i \<and>
     (\<exists>s''. EndSession sm s' = (Inr (), s'') \<and> ss_lock s'' = None \<and>
        (\<forall>r \<in> set (t_runs (wd_db (ss_world s''))). run_id r = i \<longrightarrow> run_state r = RunStateCompleted))"
proof -
  from StartSession_run [OF start] obtain r k where l: "ss_lock s' = Some (lock_payload sm i)" and i: "i = NewID (wd_rnd (ss_world s)) k"
    and r: "find_run i (wd_db (ss_world s')) = Some r" "run_state r = RunStateActive" and rs: "mg_RunStore sm" by blast
  have p: "parse_lock (lock_payload sm i) = Inr i"
    by (rule parse_lock_payload) (simp_all add: i NewID_chars pid)
  let ?s1 = "s'\<lparr>ss_calls := Suc (ss_calls s'), ss_world := (ss_world s')\<lparr>wd_calls := Suc (wd_calls (ss_world s'))\<rparr>\<rparr>"
  have cur: "CurrentSession sm s' = (Inr i, ?s1)"
    using CurrentSession_quiet [OF q l p rs r(1)] r(2) by simp
  have "calm (ss_world ?s1)" "fresh_event (ss_world ?s1)"
    using q fresh by (simp_all add: quiet_def calm_def fresh_event_def)
  from CompleteRun_ok [OF this, of i RunStateCompleted] obtain w'
    where w': "CompleteRun i RunStateCompleted (ss_world ?s1) = (Inr (), w')" by blast
  have "EndSession sm s' = (Inr (), ?s1\<lparr>ss_world := w', ss_calls := Suc (Suc (ss_calls s')), ss_lock := None\<rparr>)"
    using q l rs w' by (simp add: EndSession_def bindE_def cur wrapE_def on_world_def attempt_def remove_file_def file_op_def
        quiet_def ret_def Let_def)
  with cur CompleteRun_run [OF w'] show ?thesis by simp
qed

section \<open>A lock whose run has ended\<close>

datatype session_call = CallStart | CallCurrent | CallEnd

definition session_step :: "manager \<Rightarrow> session_call \<Rightarrow> session_state \<Rightarrow> (goerr + ident option) \<times> session_state" where
  "session_step sm c s =
     (case c of
        CallStart \<Rightarrow> bindE (StartSession sm) (\<lambda>i. ret (Some i)) s
      | CallCurrent \<Rightarrow> bindE (CurrentSession sm) (\<lambda>i. ret (Some i)) s
      | CallEnd \<Rightarrow> bindE (EndSession sm) (\<lambda>_. ret None) s)"

fun session_calls :: "manager \<Rightarrow> session_call list \<Rightarrow> session_state \<Rightarrow> (goerr + ident option) list \<times> session_state" where
  "session_calls sm [] s = ([], s)"
| "session_calls sm (c # cs) s =
     (case session_step sm c s of (r, s1) \<Rightarrow> case session_calls sm cs s1 of (rs, s2) \<Rightarrow> (r # rs, s2))"

definition ended_run :: "ident \<Rightarrow> db \<Rightarrow> bool" where
  "ended_run i d \<longleftrightarrow> (\<exists>r. find_run i d = Some r \<and> run_state r \<noteq> RunStateActive)"

definition stale_lock :: "string \<Rightarrow> ident \<Rightarrow> session_state \<Rightarrow> bool" where
  "stale_lock t i s \<longleftrightarrow> ss_lock s = Some t \<and> parse_lock t = Inr i \<and> ended_run i (wd_db (ss_world s))"

lemma CreateRun_keeps_ended: "keeps (on_db (ended_run i)) (CreateRun r)"
  unfolding CreateRun_def
proof (intro keeps_intros keeps_write_row keeps_exec_unit)
  fix d e d' assume "ended_run i d" "insert_event e d = Inr (1, d')"
  then show "ended_run i d'" by (auto simp: ended_run_def find_run_def add_event_def dest!: insert_event_Inr)
next
  fix z d n d' assume "ended_run i d" "insert_run (r\<lparr>run_started_at := local_stamp z (run_started_at r), run_ended_at := None\<rparr>) d = Inr (n, d')"
  then show "ended_run i d'"
    by (auto simp: ended_run_def find_run_def insert_run_def map_sum_Inr insert_into_Inr find_append)
qed

lemma CompleteRun_keeps_ended:
  assumes "j \<noteq> i" shows "keeps (on_db (ended_run i)) (CompleteRun j st)"
  unfolding CompleteRun_def
proof (intro keeps_intros keeps_write_row keeps_exec_unit)
  fix d e d' assume "ended_run i d" "insert_event e d = Inr (1, d')"
  then show "ended_run i d'" by (auto simp: ended_run_def find_run_def add_event_def dest!: insert_event_Inr)
next
  fix z now d n d'
  assume e: "ended_run i d" and u: "update_run j (\<lambda>r. r\<lparr>run_state := st, run_ended_at := Some (local_stamp z now)\<rparr>) d = Inr (n, d')"
  have "find (\<lambda>r. run_id r = i) (update_where (\<lambda>r. run_id r = j) (\<lambda>r. r\<lparr>run_state := st, run_ended_at := Some (local_stamp z now)\<rparr>) rs)
      = find (\<lambda>r. run_id r = i) rs" for rs :: "run list"
    using assms by (induction rs) (auto simp: update_where_def)
  with e u show "ended_run i d'" by (auto simp: ended_run_def find_run_def update_run_def)
qed

lemma CurrentSession_stale:
  assumes "stale_lock t i s"
  shows "\<exists>e s'. CurrentSession sm s = (Inl e, s') \<and> stale_lock t i s'"
  using assms
  by (auto simp: CurrentSession_def stale_lock_def ended_run_def readLock_def bindE_def attempt_def read_file_def file_op_def
      on_world_def GetRun_def wrapE_def query_row_def query_def sql_def gets_def ret_def raise_def Let_def
      split: option.splits)

lemma StartSession_stale:
  assumes st: "stale_lock t i s"
  shows "\<exists>e s'. StartSession sm s = (Inl e, s') \<and> stale_lock t i s'"
proof -
  let ?w = "ss_world s"
  let ?i = "NewID (wd_rnd ?w) (wd_ids ?w)"
  let ?w1 = "?w\<lparr>wd_ids := Suc (wd_ids ?w), wd_ticks := Suc (wd_ticks ?w)\<rparr>"
  let ?r = "session_run ?i (wd_clock ?w (wd_ticks ?w))"
  obtain r2 w2 where cr: "CreateRun ?r ?w1 = (r2, w2)" by fastforce
  have e2: "ended_run i (wd_db w2)"
    using keepsD [OF CreateRun_keeps_ended, of i ?w1 ?r] st by (simp add: cr stale_lock_def on_db_def)
  obtain e3 s3 where wl: "writeLock sm ?i (s\<lparr>ss_world := w2\<rparr>) = (Inl e3, s3)" "ss_lock s3 = Some t" "ss_world s3 = w2"
    using writeLock_existing [of "s\<lparr>ss_world := w2\<rparr>" t sm ?i] st
    by (auto simp: stale_lock_def prod_eq_iff)
  have e3: "ended_run i (wd_db (snd (CompleteRun ?i RunStateFailed w2)))" if "r2 = Inr ()"
  proof -
    from create_run_rows [of ?r ?w1 "()" w2] cr that have "?i \<notin> run_id ` set (t_runs (wd_db ?w))"
      by (auto simp: session_run_def)
    moreover from st have "i \<in> run_id ` set (t_runs (wd_db ?w))"
      by (auto simp: stale_lock_def ended_run_def find_run_def find_Some_iff)
    ultimately have "?i \<noteq> i" by metis
    from keepsD [OF CompleteRun_keeps_ended [OF this]] e2 show ?thesis by (simp add: on_db_def)
  qed
  show ?thesis
    using st e2 e3 wl
    by (cases r2) (auto simp: StartSession_eq Let_def bindE_def wrapE_def on_world_def cr attempt_def ignoring_def raise_def
        stale_lock_def split: prod.split)
qed

lemma session_step_stale:
  assumes "stale_lock t i s"
  shows "isl (fst (session_step sm c s)) \<and> stale_lock t i (snd (session_step sm c s))"
proof -
  from CurrentSession_stale [OF assms, of sm] obtain e s1 where "CurrentSession sm s = (Inl e, s1)" "stale_lock t i s1" by blast
  moreover from StartSession_stale [OF assms, of sm] obtain e2 s2 where "StartSession sm s = (Inl e2, s2)" "stale_lock t i s2" by blast
  ultimately show ?thesis
    using assms by (cases c) (auto simp: session_step_def EndSession_def bindE_def raise_def)
qed

text \<open>
  C33. A lock that names a run that is no longer active is never removed: whatever sequence of starts,
  look-ups and ends follows, each call fails and the lock stays.
\<close>

theorem stale_session_lock_stuck:
  assumes "stale_lock t i s"
  shows "(\<forall>r \<in> set (fst (session_calls sm cs s)). isl r) \<and> ss_lock (snd (session_calls sm cs s)) = Some t"
  using assms
proof (induction cs arbitrary: s)
  case Nil
  then show ?case by (simp add: stale_lock_def)
next
  case (Cons c cs)
  from session_step_stale [OF Cons.prems, of sm c] Cons.IH [of "snd (session_step sm c s)"]
  show ?case by (auto split: prod.splits)
qed

text \<open>An end whose removal of the lock fails leaves such a lock.\<close>

definition stale_sample :: session_state where
  "stale_sample =
     \<lparr>ss_world = \<lparr>wd_db = empty_db\<lparr>t_runs := [(session_run ''r1'' 1700000000000000000)\<lparr>run_state := RunStateCompleted\<rparr>]\<rparr>,
        wd_clock = (\<lambda>k. 1700000000000000000 + int k), wd_ticks = 0, wd_rnd = (\<lambda>k i. char_of (k + i)), wd_ids = 0, wd_faults = (\<lambda>_. None),
        wd_calls = 0, wd_zone = 0, wd_bus = False, wd_published = []\<rparr>,
      ss_lock = Some ''r1'', ss_faults = (\<lambda>_. None), ss_calls = 0\<rparr>"

theorem stale_session_lock_stuck_witness:
  "ss_lock (snd (session_calls \<lparr>mg_RunStore = True, mg_LockPath = [], mg_PID = 7, mg_getpid = 7\<rparr>
     [CallCurrent, CallEnd, CallStart] stale_sample)) = Some ''r1''"
proof -
  have "parse_lock ''r1'' = Inr ''r1''"
    by (simp add: parse_lock_def no_space split_on_single is_space_def ord_def)
  then have "stale_lock ''r1'' ''r1'' stale_sample"
    by (simp add: stale_lock_def stale_sample_def ended_run_def find_run_def session_run_def)
  from stale_session_lock_stuck [OF this] show ?thesis by blast
qed

end
