(* ===== verification/Event_Bus.thy ===== *)
theory Event_Bus
  imports Flow "HOL-Library.Sublist"
begin

text \<open>
  \<open>coding/eventbus/bus.go\<close> and \<open>coding/eventbus/sse.go\<close>: the fan-out of events to bounded channels and the
  handler that streams them. A publication takes a snapshot of the subscribers under the lock and then sends
  to one after the other without it, so the sends of concurrent publishers, subscriptions and receptions
  interleave: they are the steps of \<open>bus_step\<close>, and \<open>Publish\<close> is a publication that nothing interrupts.
\<close>

section \<open>bus.go\<close>

type_synonym chan = nat

record bus =
  bs_subscribers :: "chan list"
  bs_buffer :: "chan \<Rightarrow> event list"
  bs_cap :: "chan \<Rightarrow> nat"

definition NewInMemoryBus :: "(chan \<Rightarrow> nat) \<Rightarrow> bus" where
  "NewInMemoryBus caps = \<lparr>bs_subscribers = [], bs_buffer = (\<lambda>_. []), bs_cap = caps\<rparr>"

text \<open>A nil channel is \<open>None\<close>.\<close>

definition Subscribe :: "chan option \<Rightarrow> bus \<Rightarrow> bus" where
  "Subscribe o_c b =
     (case o_c of None \<Rightarrow> b
      | Some c \<Rightarrow> if c \<in> set (bs_subscribers b) then b else b\<lparr>bs_subscribers := bs_subscribers b @ [c]\<rparr>)"

definition Unsubscribe :: "chan option \<Rightarrow> bus \<Rightarrow> bus" where
  "Unsubscribe o_c b =
     (case o_c of None \<Rightarrow> b | Some c \<Rightarrow> b\<lparr>bs_subscribers := filter (\<lambda>x. x \<noteq> c) (bs_subscribers b)\<rparr>)"

definition has_room :: "bus \<Rightarrow> chan \<Rightarrow> bool" where
  "has_room b c \<longleftrightarrow> length (bs_buffer b c) < bs_cap b c"

text \<open>\<open>select { case ch <- event: default: }\<close>. A channel without a buffer never takes an event here, because
  no receiver is modelled as waiting.\<close>

definition try_send :: "event \<Rightarrow> chan \<Rightarrow> bus \<Rightarrow> bus" where
  "try_send e c b = (if has_room b c then b\<lparr>bs_buffer := (bs_buffer b)(c := bs_buffer b c @ [e])\<rparr> else b)"

definition Publish :: "event option \<Rightarrow> bus \<Rightarrow> bus" where
  "Publish o_e b = (case o_e of None \<Rightarrow> b | Some e \<Rightarrow> fold (try_send e) (bs_subscribers b) b)"

section \<open>Interleavings\<close>

text \<open>
  Every publication that has taken its snapshot is an entry of \<open>bp_flight\<close>: its event and the channels it
  still has to send to. \<open>DoSend k c\<close> is the send of publication \<open>k\<close> to \<open>c\<close>; the channels of a snapshot come
  in any order, as the keys of a Go map do.
\<close>

record bus_state =
  bp_bus :: bus
  bp_flight :: "(event \<times> chan list) list"

datatype bus_op =
    DoSubscribe chan
  | DoUnsubscribe chan
  | DoSnapshot event
  | DoSend nat chan
  | DoReceive chan

datatype bus_note = Delivered nat chan event | Dropped nat chan event | Received chan event

fun bus_step :: "bus_op \<Rightarrow> bus_state \<Rightarrow> bus_state \<times> bus_note list" where
  "bus_step (DoSubscribe c) s = (s\<lparr>bp_bus := Subscribe (Some c) (bp_bus s)\<rparr>, [])"
| "bus_step (DoUnsubscribe c) s = (s\<lparr>bp_bus := Unsubscribe (Some c) (bp_bus s)\<rparr>, [])"
| "bus_step (DoSnapshot e) s = (s\<lparr>bp_flight := bp_flight s @ [(e, bs_subscribers (bp_bus s))]\<rparr>, [])"
| "bus_step (DoSend k c) s =
     (if k < length (bp_flight s) \<and> c \<in> set (snd (bp_flight s ! k))
      then (case bp_flight s ! k of (e, cs) \<Rightarrow>
        (s\<lparr>bp_bus := try_send e c (bp_bus s), bp_flight := (bp_flight s)[k := (e, remove1 c cs)]\<rparr>,
         [if has_room (bp_bus s) c then Delivered k c e else Dropped k c e]))
      else (s, []))"
| "bus_step (DoReceive c) s =
     (case bs_buffer (bp_bus s) c of
        [] \<Rightarrow> (s, [])
      | e # es \<Rightarrow> (s\<lparr>bp_bus := (bp_bus s)\<lparr>bs_buffer := (bs_buffer (bp_bus s))(c := es)\<rparr>\<rparr>, [Received c e]))"

fun bus_run :: "bus_op list \<Rightarrow> bus_state \<Rightarrow> bus_state \<times> bus_note list" where
  "bus_run [] s = (s, [])"
| "bus_run (x # xs) s =
     (case bus_step x s of (s1, ns) \<Rightarrow> case bus_run xs s1 of (s2, ns') \<Rightarrow> (s2, ns @ ns'))"

definition start_bus :: "(chan \<Rightarrow> nat) \<Rightarrow> bus_state" where
  "start_bus caps = \<lparr>bp_bus = NewInMemoryBus caps, bp_flight = []\<rparr>"

text \<open>The events of one channel in a sequence of notes, and those that one publication offered to it.\<close>

fun delivered_to :: "chan \<Rightarrow> bus_note list \<Rightarrow> event list" where
  "delivered_to c [] = []"
| "delivered_to c (Delivered k d e # ns) = (if d = c then e # delivered_to c ns else delivered_to c ns)"
| "delivered_to c (_ # ns) = delivered_to c ns"

fun received_by :: "chan \<Rightarrow> bus_note list \<Rightarrow> event list" where
  "received_by c [] = []"
| "received_by c (Received d e # ns) = (if d = c then e # received_by c ns else received_by c ns)"
| "received_by c (_ # ns) = received_by c ns"

fun offered_to :: "chan \<Rightarrow> bus_note list \<Rightarrow> event list" where
  "offered_to c [] = []"
| "offered_to c (Delivered k d e # ns) = (if d = c then e # offered_to c ns else offered_to c ns)"
| "offered_to c (Dropped k d e # ns) = (if d = c then e # offered_to c ns else offered_to c ns)"
| "offered_to c (_ # ns) = offered_to c ns"

fun offers :: "nat \<Rightarrow> chan \<Rightarrow> bus_note list \<Rightarrow> event list" where
  "offers k c [] = []"
| "offers k c (Delivered j d e # ns) = (if j = k \<and> d = c then e # offers k c ns else offers k c ns)"
| "offers k c (Dropped j d e # ns) = (if j = k \<and> d = c then e # offers k c ns else offers k c ns)"
| "offers k c (_ # ns) = offers k c ns"

text \<open>What the operations alone say: the last word on the subscription of a channel, and the number of
  the next publication.\<close>

fun subscribed_by :: "chan \<Rightarrow> bus_op \<Rightarrow> bool \<Rightarrow> bool" where
  "subscribed_by c (DoSubscribe d) b = (d = c \<or> b)"
| "subscribed_by c (DoUnsubscribe d) b = (d \<noteq> c \<and> b)"
| "subscribed_by c _ b = b"

definition subscribed :: "chan \<Rightarrow> bus_op list \<Rightarrow> bool" where
  "subscribed c ops = fold (subscribed_by c) ops False"

fun snapshots :: "bus_op list \<Rightarrow> nat" where
  "snapshots [] = 0"
| "snapshots (DoSnapshot e # xs) = Suc (snapshots xs)"
| "snapshots (_ # xs) = snapshots xs"

lemma notes_append [simp]:
  "delivered_to c (xs @ ys) = delivered_to c xs @ delivered_to c ys"
  "received_by c (xs @ ys) = received_by c xs @ received_by c ys"
  "offered_to c (xs @ ys) = offered_to c xs @ offered_to c ys"
  "offers k c (xs @ ys) = offers k c xs @ offers k c ys"
  by (induction xs rule: delivered_to.induct) (auto split: bus_note.splits)

lemma snapshots_append [simp]: "snapshots (xs @ ys) = snapshots xs + snapshots ys"
  by (induction xs rule: snapshots.induct) auto

lemma bus_run_append:
  "bus_run (xs @ ys) s = (case bus_run xs s of (s1, ns) \<Rightarrow> case bus_run ys s1 of (s2, ns') \<Rightarrow> (s2, ns @ ns'))"
  by (induction xs arbitrary: s) (auto split: prod.splits)

lemma delivered_of_offered: "subseq (delivered_to c ns) (offered_to c ns)"
  by (induction c ns rule: offered_to.induct) auto

lemma no_drop_all_delivered: "(\<forall>k e. Dropped k c e \<notin> set ns) \<Longrightarrow> delivered_to c ns = offered_to c ns"
  by (induction c ns rule: offered_to.induct) auto

lemma bus_step_fifo:
  "bus_step x s = (s', ns) \<Longrightarrow> bs_buffer (bp_bus s) c @ delivered_to c ns = received_by c ns @ bs_buffer (bp_bus s') c"
  by (cases x) (auto simp: Subscribe_def Unsubscribe_def try_send_def split: if_splits list.splits prod.splits)

lemma bus_run_fifo:
  "bus_run xs s = (s', ns) \<Longrightarrow> bs_buffer (bp_bus s) c @ delivered_to c ns = received_by c ns @ bs_buffer (bp_bus s') c"
proof (induction xs arbitrary: s s' ns)
  case (Cons x xs)
  obtain s1 n1 where 1: "bus_step x s = (s1, n1)" by fastforce
  obtain s2 n2 where 2: "bus_run xs s1 = (s2, n2)" by fastforce
  have "bs_buffer (bp_bus s) c @ delivered_to c n1 @ delivered_to c n2 = received_by c n1 @ received_by c n2 @ bs_buffer (bp_bus s2) c"
    using bus_step_fifo [OF 1, of c] Cons.IH [OF 2] by (metis append.assoc)
  with Cons.prems 1 2 show ?case by auto
qed simp

text \<open>Buffers never exceed their capacity.\<close>

definition bounded :: "bus \<Rightarrow> bool" where
  "bounded b \<longleftrightarrow> (\<forall>c. length (bs_buffer b c) \<le> bs_cap b c)"

lemma bounded_send: "bounded b \<Longrightarrow> bounded (try_send e c b)"
  by (simp add: bounded_def try_send_def has_room_def Suc_le_eq)

lemma bounded_receive: "bounded b \<Longrightarrow> bs_buffer b c = e # es \<Longrightarrow> bounded (b\<lparr>bs_buffer := (bs_buffer b)(c := es)\<rparr>)"
  unfolding bounded_def by (metis (mono_tags, lifting) Suc_leD bus.select_convs(2,3) bus.surjective bus.update_convs(2)
      fun_upd_apply length_Cons)

lemma bus_step_bounded: "bounded (bp_bus s) \<Longrightarrow> bounded (bp_bus (fst (bus_step x s)))"
proof (cases x)
  case (DoSend k d)
  assume "bounded (bp_bus s)"
  with DoSend show ?thesis by (auto simp: bounded_send split: prod.split)
next
  case (DoReceive c)
  assume "bounded (bp_bus s)"
  with DoReceive show ?thesis by (auto simp: bounded_receive split: list.split)
qed (simp_all add: bounded_def Subscribe_def Unsubscribe_def)

lemma bus_step_cap: "bs_cap (bp_bus (fst (bus_step x s))) = bs_cap (bp_bus s)"
  by (cases x) (simp_all add: Subscribe_def Unsubscribe_def try_send_def split: list.split prod.split)

lemma bus_run_bounded:
  "bounded (bp_bus s) \<Longrightarrow> bounded (bp_bus (fst (bus_run xs s))) \<and> bs_cap (bp_bus (fst (bus_run xs s))) = bs_cap (bp_bus s)"
proof (induction xs arbitrary: s)
  case (Cons x xs)
  from Cons.IH [OF bus_step_bounded [OF Cons.prems, of x]] bus_step_cap [of x s]
  show ?case by (auto split: prod.split)
qed simp

text \<open>A note says whether there was room: the state before it is reached by a part of the operations.\<close>

lemma bus_run_split_note:
  assumes "bus_run ops s = (s', ns1 @ nt # ns2)"
  obtains xs x zs t where "ops = xs @ x # zs" "bus_run xs s = (t, ns1)" "snd (bus_step x t) = [nt]"
  using assms
proof (induction ops arbitrary: s ns1 thesis)
  case Nil
  then show ?case by simp
next
  case (Cons x xs)
  obtain s1 n1 where 1: "bus_step x s = (s1, n1)" by fastforce
  obtain s2 n2 where 2: "bus_run xs s1 = (s2, n2)" by fastforce
  have len: "length n1 \<le> 1" using 1 by (cases x) (auto split: if_splits prod.splits list.splits)
  from Cons.prems(2) 1 2 have eq: "n1 @ n2 = ns1 @ nt # ns2" and s2: "s2 = s'" by auto
  show ?case
  proof (cases "ns1 = [] \<and> n1 \<noteq> []")
    case True
    with eq len have "n1 = [nt]" by (cases n1) auto
    with True 1 show ?thesis using Cons.prems(1) [of "[]" x xs s] by simp
  next
    case False
    with len eq obtain ns3 where 3: "ns1 = n1 @ ns3" "n2 = ns3 @ nt # ns2"
      by (cases n1; cases ns1) auto
    obtain ys y zs t where "xs = ys @ y # zs" "bus_run ys s1 = (t, ns3)" "snd (bus_step y t) = [nt]"
      using Cons.IH [of s1 ns3] 2 3 s2 by blast
    with 1 3 show ?thesis using Cons.prems(1) [of "x # ys" y zs t] by simp
  qed
qed

lemma step_room:
  "snd (bus_step x s) = [Dropped k c e] \<Longrightarrow> \<not> has_room (bp_bus s) c"
  "snd (bus_step x s) = [Delivered k c e] \<Longrightarrow> has_room (bp_bus s) c"
  by (cases x; auto split: if_splits list.splits prod.splits)+

lemma start_bus_simps [simp]:
  "bs_buffer (bp_bus (start_bus caps)) c = []" "bs_cap (bp_bus (start_bus caps)) = caps"
  "bs_subscribers (bp_bus (start_bus caps)) = []" "bp_flight (start_bus caps) = []" "bounded (bp_bus (start_bus caps))"
  by (simp_all add: start_bus_def NewInMemoryBus_def bounded_def)

lemma full_or_room:
  assumes run: "bus_run ops (start_bus caps) = (s, ns1 @ nt # ns2)"
  shows "nt = Dropped k c e \<Longrightarrow> length (delivered_to c ns1) = length (received_by c ns1) + caps c"
    and "nt = Delivered k c e \<Longrightarrow> length (delivered_to c ns1) < length (received_by c ns1) + caps c"
proof -
  obtain xs x zs t where r: "bus_run xs (start_bus caps) = (t, ns1)" and x: "snd (bus_step x t) = [nt]"
    by (rule bus_run_split_note [OF run])
  have buf: "delivered_to c ns1 = received_by c ns1 @ bs_buffer (bp_bus t) c" using bus_run_fifo [OF r, of c] by simp
  have cap: "length (bs_buffer (bp_bus t) c) \<le> caps c" "bs_cap (bp_bus t) = caps"
    using bus_run_bounded [of "start_bus caps" xs] r by (auto simp: bounded_def)
  show "length (delivered_to c ns1) = length (received_by c ns1) + caps c" if "nt = Dropped k c e"
    using step_room(1) [of x t k c e] x buf cap that by (simp add: has_room_def)
  show "length (delivered_to c ns1) < length (received_by c ns1) + caps c" if "nt = Delivered k c e"
    using step_room(2) [of x t k c e] x buf cap that by (simp add: has_room_def)
qed

text \<open>The subscribers are the channels whose last operation was a subscription.\<close>

lemma bus_step_subscribers:
  "distinct (bs_subscribers (bp_bus s)) \<Longrightarrow> distinct (bs_subscribers (bp_bus (fst (bus_step x s)))) \<and>
   (c \<in> set (bs_subscribers (bp_bus (fst (bus_step x s)))) \<longleftrightarrow> subscribed_by c x (c \<in> set (bs_subscribers (bp_bus s))))"
  by (cases x) (auto simp: Subscribe_def Unsubscribe_def try_send_def split: list.split prod.split)

lemma bus_run_subscribers_from:
  "distinct (bs_subscribers (bp_bus s)) \<Longrightarrow> bus_run ops s = (s', ns) \<Longrightarrow> distinct (bs_subscribers (bp_bus s')) \<and>
   (c \<in> set (bs_subscribers (bp_bus s')) \<longleftrightarrow> fold (subscribed_by c) ops (c \<in> set (bs_subscribers (bp_bus s))))"
proof (induction ops arbitrary: s ns)
  case (Cons x xs)
  obtain s1 n1 where 1: "bus_step x s = (s1, n1)" by fastforce
  obtain s2 n2 where 2: "bus_run xs s1 = (s2, n2)" by fastforce
  from bus_step_subscribers [OF Cons.prems(1), of x c] 1
  have "distinct (bs_subscribers (bp_bus s1))" "c \<in> set (bs_subscribers (bp_bus s1)) \<longleftrightarrow> subscribed_by c x (c \<in> set (bs_subscribers (bp_bus s)))"
    by simp_all
  with Cons.IH [of s1 n2] 1 2 Cons.prems(2) show ?case by simp
qed simp

lemma bus_run_subscribers:
  "bus_run ops (start_bus caps) = (s, ns) \<Longrightarrow> distinct (bs_subscribers (bp_bus s)) \<and> (c \<in> set (bs_subscribers (bp_bus s)) \<longleftrightarrow> subscribed c ops)"
  using bus_run_subscribers_from [of "start_bus caps" ops s ns c] by (simp add: subscribed_def)

text \<open>A publication in flight: what it has offered to a channel, and what it still owes.\<close>

lemma bus_step_flight:
  assumes "bus_step x s = (s', ns)" and "k < length (bp_flight s)" and "bp_flight s ! k = (e, cs)" and "distinct cs"
  shows "\<exists>cs'. k < length (bp_flight s') \<and> bp_flight s' ! k = (e, cs') \<and> distinct cs' \<and>
    (c \<in> set cs' \<longleftrightarrow> c \<in> set cs \<and> x \<noteq> DoSend k c) \<and> offers k c ns = (if c \<in> set cs \<and> x = DoSend k c then [e] else [])"
proof (cases x)
  case (DoSend j d)
  show ?thesis
  proof (cases "j = k \<and> d \<in> set cs")
    case True
    with assms DoSend show ?thesis by (auto split: if_splits)
  next
    case False
    with assms DoSend show ?thesis by (auto split: if_splits prod.splits simp: nth_list_update)
  qed
qed (use assms in \<open>auto simp: nth_append split: list.splits\<close>)

lemma bus_run_flight:
  assumes "bus_run xs s = (s', ns)" and "k < length (bp_flight s)" and "bp_flight s ! k = (e, cs)" and "distinct cs"
  shows "offers k c ns = (if c \<in> set cs \<and> DoSend k c \<in> set xs then [e] else [])"
  using assms
proof (induction xs arbitrary: s cs ns s')
  case (Cons x xs)
  obtain s1 n1 where 1: "bus_step x s = (s1, n1)" by fastforce
  obtain s2 n2 where 2: "bus_run xs s1 = (s2, n2)" by fastforce
  from bus_step_flight [OF 1 Cons.prems(2-4), of c] obtain cs1 where f: "k < length (bp_flight s1)"
    "bp_flight s1 ! k = (e, cs1)" "distinct cs1" and c: "c \<in> set cs1 \<longleftrightarrow> c \<in> set cs \<and> x \<noteq> DoSend k c"
    and o1: "offers k c n1 = (if c \<in> set cs \<and> x = DoSend k c then [e] else [])" by blast
  have "ns = n1 @ n2" using Cons.prems(1) 1 2 by simp
  with Cons.IH [OF 2 f] c o1 show ?case by auto
qed simp

lemma bus_step_no_flight:
  assumes "bus_step x s = (s', ns)"
  shows "length (bp_flight s') = length (bp_flight s) + snapshots [x]" and "k \<ge> length (bp_flight s) \<Longrightarrow> offers k c ns = []"
  using assms by (cases x; auto split: if_splits prod.splits list.splits)+

lemma bus_run_no_flight:
  "bus_run xs s = (s', ns) \<Longrightarrow> length (bp_flight s') = length (bp_flight s) + snapshots xs \<and>
   (k \<ge> length (bp_flight s) + snapshots xs \<longrightarrow> offers k c ns = [])"
proof (induction xs arbitrary: s ns s')
  case (Cons x xs)
  obtain s1 n1 where 1: "bus_step x s = (s1, n1)" by fastforce
  obtain s2 n2 where 2: "bus_run xs s1 = (s2, n2)" by fastforce
  have "snapshots (x # xs) = snapshots [x] + snapshots xs" using snapshots_append [of "[x]" xs] by simp
  moreover have "s2 = s'" "ns = n1 @ n2" using Cons.prems 1 2 by simp_all
  ultimately show ?case using bus_step_no_flight(1) [OF 1] bus_step_no_flight(2) [OF 1, of k c] Cons.IH [OF 2] by auto
qed simp

lemma publication_offers:
  assumes "bus_run (before @ DoSnapshot e # after) (start_bus caps) = (s, nts)"
  shows "offers (snapshots before) c nts = (if subscribed c before \<and> DoSend (snapshots before) c \<in> set after then [e] else [])"
proof -
  obtain s1 n1 where 1: "bus_run before (start_bus caps) = (s1, n1)" by fastforce
  let ?s = "s1\<lparr>bp_flight := bp_flight s1 @ [(e, bs_subscribers (bp_bus s1))]\<rparr>"
  obtain s2 n2 where 2: "bus_run after ?s = (s2, n2)" by fastforce
  from assms 1 2 have "nts = n1 @ n2" by (simp add: bus_run_append)
  moreover have "length (bp_flight s1) = snapshots before" "offers (snapshots before) c n1 = []"
    using bus_run_no_flight [OF 1, of "snapshots before" c] by simp_all
  moreover have "(bp_flight s1 @ [(e, bs_subscribers (bp_bus s1))]) ! length (bp_flight s1) = (e, bs_subscribers (bp_bus s1))"
    by (rule nth_append_length)
  ultimately show ?thesis
    using bus_run_flight [OF 2, of "snapshots before" e "bs_subscribers (bp_bus s1)" c] bus_run_subscribers [OF 1, of c]
    by simp
qed

text \<open>
  C22. Whatever the interleaving of publications, subscriptions and receptions: a publication offers its
  event to a channel exactly once when the channel was subscribed at the snapshot and the send has been
  done, and to no other channel; the offer is dropped exactly when the channel then holds as many events as
  its capacity and delivered otherwise; and a channel hands its events out in the order they were put in,
  never holding more than its capacity, so that with no drop it gets everything offered to it.
\<close>

theorem bus_fifo_bounded:
  assumes "bus_run ops (start_bus caps) = (s, nts)"
  shows "(\<forall>before e after. ops = before @ DoSnapshot e # after \<longrightarrow>
       offers (snapshots before) c nts =
         (if subscribed c before \<and> DoSend (snapshots before) c \<in> set after then [e] else [])) \<and>
     (\<forall>k \<ge> snapshots ops. offers k c nts = []) \<and>
     (\<forall>ns1 k e ns2. nts = ns1 @ Dropped k c e # ns2 \<longrightarrow>
       length (delivered_to c ns1) = length (received_by c ns1) + caps c) \<and>
     (\<forall>ns1 k e ns2. nts = ns1 @ Delivered k c e # ns2 \<longrightarrow>
       length (delivered_to c ns1) < length (received_by c ns1) + caps c) \<and>
     received_by c nts @ bs_buffer (bp_bus s) c = delivered_to c nts \<and>
     length (bs_buffer (bp_bus s) c) \<le> caps c \<and>
     subseq (delivered_to c nts) (offered_to c nts) \<and>
     ((\<exists>k e. Dropped k c e \<in> set nts) \<or> delivered_to c nts = offered_to c nts)"
proof -
  have "length (bs_buffer (bp_bus s) c) \<le> caps c"
    using bus_run_bounded [of "start_bus caps" ops] assms by (auto simp: bounded_def)
  moreover have "received_by c nts @ bs_buffer (bp_bus s) c = delivered_to c nts"
    using bus_run_fifo [OF assms, of c] by simp
  moreover have "\<forall>k \<ge> snapshots ops. offers k c nts = []" using bus_run_no_flight [OF assms] by simp
  ultimately show ?thesis
    using assms delivered_of_offered [of c nts] no_drop_all_delivered [of c nts]
    by (auto simp: publication_offers full_or_room)
qed

text \<open>A channel of capacity one, two publications: the first event waits, the second is dropped.\<close>

lemma bus_fifo_bounded_witness:
  "\<forall>e f. let nts = snd (bus_run [DoSubscribe 0, DoSnapshot e, DoSnapshot f, DoSend 0 0, DoSend 1 0] (start_bus (\<lambda>_. 1)))
     in offers 1 0 nts = [f] \<and> delivered_to 0 nts = [e]"
proof (intro allI)
  fix e f
  let ?ops = "[DoSubscribe 0, DoSnapshot e, DoSnapshot f, DoSend 0 0, DoSend 1 0]"
  obtain s nts where run: "bus_run ?ops (start_bus (\<lambda>_. 1)) = (s, nts)" by fastforce
  then have "nts = [Delivered 0 0 e, Dropped 1 0 f]"
    by (auto simp: start_bus_def NewInMemoryBus_def Subscribe_def try_send_def has_room_def)
  moreover have "?ops = [DoSubscribe 0, DoSnapshot e] @ DoSnapshot f # [DoSend 0 0, DoSend 1 0]" by simp
  ultimately show "let nts = snd (bus_run ?ops (start_bus (\<lambda>_. 1))) in offers 1 0 nts = [f] \<and> delivered_to 0 nts = [e]"
    using bus_fifo_bounded [OF run, of 0] run by (auto simp: subscribed_def)
qed

text \<open>An uninterrupted publication is a snapshot followed by its sends.\<close>

lemma run_sends:
  "k < length (bp_flight s) \<Longrightarrow> bp_flight s ! k = (e, cs) \<Longrightarrow>
   fst (bus_run (map (DoSend k) cs) s) = s\<lparr>bp_bus := fold (try_send e) cs (bp_bus s), bp_flight := (bp_flight s)[k := (e, [])]\<rparr>"
proof (induction cs arbitrary: s)
  case Nil
  then have "(bp_flight s)[k := (e, [])] = bp_flight s" by (metis list_update_id)
  then show ?case by simp
next
  case (Cons c cs)
  let ?s1 = "s\<lparr>bp_bus := try_send e c (bp_bus s), bp_flight := (bp_flight s)[k := (e, cs)]\<rparr>"
  have "fst (bus_run (map (DoSend k) cs) ?s1) =
      ?s1\<lparr>bp_bus := fold (try_send e) cs (bp_bus ?s1), bp_flight := (bp_flight ?s1)[k := (e, [])]\<rparr>"
    by (rule Cons.IH) (use Cons.prems in simp_all)
  with Cons.prems show ?case by (cases "bus_run (map (DoSend k) cs) ?s1") simp
qed

lemma publish_is_snapshot_and_sends:
  "fst (bus_run (DoSnapshot e # map (DoSend (length (bp_flight s))) (bs_subscribers (bp_bus s))) s) =
     s\<lparr>bp_bus := Publish (Some e) (bp_bus s), bp_flight := bp_flight s @ [(e, [])]\<rparr>"
  using run_sends [of "length (bp_flight s)" "s\<lparr>bp_flight := bp_flight s @ [(e, bs_subscribers (bp_bus s))]\<rparr>" e "bs_subscribers (bp_bus s)"]
  by (simp add: Publish_def split: prod.split)

section \<open>sse.go\<close>

record sse_request =
  sq_bus :: bool
  sq_flusher :: bool
  sq_run_id :: string
  sq_kind :: string

text \<open>What the handler finds at each turn of its loop: the context is done, or an event, which may be nil.\<close>

datatype sse_turn = Ctx_Done | Got "event option"

definition passes :: "sse_request \<Rightarrow> event \<Rightarrow> bool" where
  "passes rq e \<longleftrightarrow> (sq_run_id rq = [] \<or> ev_run_id e = sq_run_id rq) \<and> (sq_kind rq = [] \<or> event_kind_string (ev_kind e) = sq_kind rq)"

text \<open>\<open>marshal\<close> is \<open>json.Marshal\<close> of an event, \<open>write_ok k\<close> whether the \<open>k\<close>-th write succeeds.\<close>

definition sse_frame :: "string \<Rightarrow> string" where
  "sse_frame data = ''data: '' @ data @ newline @ newline"

fun sse_loop :: "(event \<Rightarrow> string option) \<Rightarrow> (nat \<Rightarrow> bool) \<Rightarrow> sse_request \<Rightarrow> nat \<Rightarrow> sse_turn list \<Rightarrow> string list" where
  "sse_loop marshal write_ok rq k [] = []"
| "sse_loop marshal write_ok rq k (Ctx_Done # ts) = []"
| "sse_loop marshal write_ok rq k (Got None # ts) = sse_loop marshal write_ok rq k ts"
| "sse_loop marshal write_ok rq k (Got (Some e) # ts) =
     (if \<not> passes rq e then sse_loop marshal write_ok rq k ts
      else case marshal e of
             None \<Rightarrow> sse_loop marshal write_ok rq k ts
           | Some data \<Rightarrow> if write_ok k then sse_frame data # sse_loop marshal write_ok rq (Suc k) ts else [])"

datatype sse_response = HTTP_Error int string | Streamed "string list"

definition sse_capacity :: nat where
  "sse_capacity = 32"

definition SSEHandler :: "(event \<Rightarrow> string option) \<Rightarrow> (nat \<Rightarrow> bool) \<Rightarrow> sse_request \<Rightarrow> sse_turn list \<Rightarrow> sse_response" where
  "SSEHandler marshal write_ok rq turns =
     (if \<not> sq_bus rq then HTTP_Error 503 ''event bus unavailable''
      else if \<not> sq_flusher rq then HTTP_Error 500 ''streaming unsupported''
      else Streamed (sse_loop marshal write_ok rq 0 turns))"

lemma sse_loop_frames:
  "(\<And>k. write_ok k) \<Longrightarrow> sse_loop marshal write_ok rq n (map (\<lambda>e. Got (Some e)) es) =
     map sse_frame (List.map_filter marshal (filter (passes rq) es))"
  by (induction es arbitrary: n) (auto simp: map_filter_simps split: option.split)

text \<open>
  A client that stays connected gets one frame for every event that reached its channel and passes its
  filter, in order; with no event dropped these are all the events published to it.
\<close>

lemma sse_stream_spec:
  "(\<exists>k e. Dropped k c e \<in> set (snd (bus_run ops (start_bus caps)))) \<or>
   (\<exists>rest. SSEHandler marshal (\<lambda>_. True) \<lparr>sq_bus = True, sq_flusher = True, sq_run_id = r, sq_kind = k\<rparr>
        (map (\<lambda>e. Got (Some e)) (received_by c (snd (bus_run ops (start_bus caps))))) = Streamed rest \<and>
      rest @ map sse_frame (List.map_filter marshal (filter (passes \<lparr>sq_bus = True, sq_flusher = True, sq_run_id = r, sq_kind = k\<rparr>)
        (bs_buffer (bp_bus (fst (bus_run ops (start_bus caps)))) c))) =
      map sse_frame (List.map_filter marshal (filter (passes \<lparr>sq_bus = True, sq_flusher = True, sq_run_id = r, sq_kind = k\<rparr>)
        (offered_to c (snd (bus_run ops (start_bus caps)))))))"
proof -
  let ?rq = "\<lparr>sq_bus = True, sq_flusher = True, sq_run_id = r, sq_kind = k\<rparr>"
  obtain s nts where run: "bus_run ops (start_bus caps) = (s, nts)" by fastforce
  have "(\<exists>j e. Dropped j c e \<in> set nts) \<or> offered_to c nts = received_by c nts @ bs_buffer (bp_bus s) c"
    using bus_run_fifo [OF run, of c] no_drop_all_delivered [of c nts]
    by (cases "\<exists>j e. Dropped j c e \<in> set nts") (auto simp: start_bus_def NewInMemoryBus_def)
  then show ?thesis
    by (auto simp: run SSEHandler_def sse_loop_frames List.map_filter_def)
qed

end
