(* ===== verification/Front_Text.thy ===== *)
theory Front_Text
  imports Open_Code Clock_Text
begin

text \<open>
  What the front ends share: query strings, the padding verbs of package \<open>fmt\<close>, durations and instants as
  they are shown, tables of \<open>text/tabwriter\<close>, and the decoding of the daemon's JSON into the structs of
  package \<open>core\<close>.
\<close>

section \<open>Query strings\<close>

definition unreserved :: "char \<Rightarrow> bool" where
  "unreserved c \<longleftrightarrow> is_lower c \<or> is_upper c \<or> is_digit c \<or> c \<in> set ''-_.~''"

definition upper_hex :: "nat \<Rightarrow> char" where
  "upper_hex d = (if d < 10 then char_of (48 + d) else char_of (55 + d))"

definition escape_byte :: "char \<Rightarrow> string" where
  "escape_byte c =
     (if unreserved c then [c] else if c = CHR '' '' then ''+''
      else [CHR 0x25, upper_hex (ord c div 16), upper_hex (ord c mod 16)])"

definition query_escape :: "string \<Rightarrow> string" where
  "query_escape s = concat (map escape_byte s)"

text \<open>\<open>url.Values.Encode\<close> of values that are set when they are not empty; the pairs come in the order of their keys.\<close>

definition encode_values :: "(string \<times> string) list \<Rightarrow> string" where
  "encode_values kvs =
     join_with ''&'' (map (\<lambda>(k, v). query_escape k @ ''='' @ query_escape v) (filter (\<lambda>(k, v). v \<noteq> []) kvs))"

definition with_query :: "string \<Rightarrow> (string \<times> string) list \<Rightarrow> string" where
  "with_query url kvs = (let q = encode_values kvs in if q = [] then url else url @ ''?'' @ q)"

definition trim_slashes :: "string \<Rightarrow> string" where
  "trim_slashes = trim_right_by (\<lambda>c. c = CHR ''/'')"

section \<open>Padding and truncation\<close>

text \<open>\<open>utf8.RuneCountInString\<close>: an invalid byte counts as one.\<close>

function rune_count :: "string \<Rightarrow> nat" where
  "rune_count [] = 0"
| "rune_count (c # cs) =
     Suc (rune_count (drop ((case sequence_size (c # cs) of None \<Rightarrow> 1 | Some n \<Rightarrow> if ord c < 0x80 then 1 else max 1 n)) (c # cs)))"
  by pat_completeness auto
termination
  by (relation "measure length") (auto split: option.split)

definition pad_right :: "nat \<Rightarrow> string \<Rightarrow> string" where
  "pad_right n s = s @ replicate (n - rune_count s) (CHR '' '')"

definition ellipsis :: string where
  "ellipsis = [CHR 0xE2, CHR 0x80, CHR 0xA6]"

text \<open>\<open>truncate\<close> of package \<open>tui\<close>, with the panic of the slice expression at a negative length.\<close>

definition truncate_text :: "string \<Rightarrow> int \<Rightarrow> string option" where
  "truncate_text s0 n =
     (let s = map (\<lambda>c. if c = CHR 0x0A then CHR '' '' else c) s0 in
      if int (length s) \<le> n then Some s
      else if n < 0 then None
      else Some (take (nat n) s @ ellipsis))"

text \<open>With a length that is not negative.\<close>

definition cut :: "nat \<Rightarrow> string \<Rightarrow> string" where
  "cut n s = (case truncate_text s (int n) of Some t \<Rightarrow> t | None \<Rightarrow> [])"

lemma truncate_text_cut: "truncate_text s (int n) = Some (cut n s)"
  by (simp add: cut_def truncate_text_def Let_def)

section \<open>Instants and durations\<close>

text \<open>An instant that was read from text carries the offset it was written with.\<close>

type_synonym zoned = "time \<times> time"

definition zero_instant :: zoned where
  "zero_instant = (- 62135596800 * 1000000000, 0)"

definition clock_of :: "zoned \<Rightarrow> string" where
  "clock_of z = clock_time (seconds_of (fst z + snd z))"

text \<open>\<open>2006-01-02 15:04:05\<close>.\<close>

definition date_time :: "time \<Rightarrow> string" where
  "date_time t =
     (let s = seconds_of t; (y, m, d) = civil (s div 86400)
      in pad_to 4 y @ ''-'' @ pad_to 2 m @ ''-'' @ pad_to 2 d @ '' '' @ clock_time s)"

text \<open>\<open>time.Since(t).Truncate(time.Second)\<close>: the difference is clamped to 64 bits, and truncated towards zero.\<close>

definition age_seconds :: "time \<Rightarrow> time \<Rightarrow> int" where
  "age_seconds now t =
     (let d = max (- (2 ^ 63)) (min (2 ^ 63 - 1) (now - t))
      in if d < 0 then - (- d div 1000000000) else d div 1000000000)"

text \<open>\<open>Duration.String\<close> of whole seconds.\<close>

definition seconds_text :: "int \<Rightarrow> string" where
  "seconds_text s =
     (let a = \<bar>s\<bar>; h = a div 3600; m = a mod 3600 div 60; x = a mod 60
      in (if s < 0 then ''-'' else []) @
         (if h > 0 then itoa h @ ''h'' @ itoa m @ ''m'' else if m > 0 then itoa m @ ''m'' else []) @
         itoa x @ ''s'')"

section \<open>Tables\<close>

text \<open>
  A \<open>tabwriter\<close> with minimal width 0 and padding 2: every cell but the last of a row is padded to the widest
  of its column. The rows have the same number of cells, and the cells hold neither tabs nor line breaks.
\<close>

definition column_width :: "string list list \<Rightarrow> nat \<Rightarrow> nat" where
  "column_width rows k = Max (insert 0 ((\<lambda>r. if Suc k < length r then rune_count (r ! k) + 2 else 0) ` set rows))"

definition table_row :: "string list list \<Rightarrow> string list \<Rightarrow> string" where
  "table_row rows r =
     concat (map (\<lambda>k. if Suc k < length r then pad_right (column_width rows k) (r ! k) else r ! k) [0..<length r]) @ newline"

definition table_text :: "string list list \<Rightarrow> string" where
  "table_text rows = concat (map (table_row rows) rows)"

section \<open>Values of package core from JSON\<close>

definition json_head :: "string \<Rightarrow> jtext option" where
  "json_head body = map_option fst (json_value max_nesting (skip_ws body))"

fun all_some :: "'a option list \<Rightarrow> 'a list option" where
  "all_some [] = Some []"
| "all_some (x # xs) = (case (x, all_some xs) of (Some y, Some ys) \<Rightarrow> Some (y # ys) | _ \<Rightarrow> None)"

text \<open>A slice: null is the nil slice, an array is decoded element by element, anything else is an error.\<close>

definition slice_of :: "(jtext \<Rightarrow> 'a option) \<Rightarrow> jtext \<Rightarrow> 'a list option" where
  "slice_of dec v = (case v of TNull \<Rightarrow> Some [] | TArr vs \<Rightarrow> all_some (map dec vs) | _ \<Rightarrow> None)"

definition slice_value :: "(jtext \<Rightarrow> 'a option) \<Rightarrow> 'a list field_decoder" where
  "slice_value dec x v = slice_of dec v"

text \<open>\<open>time.Time.UnmarshalJSON\<close> over a parser of RFC 3339 instants.\<close>

definition time_value :: "(string \<Rightarrow> zoned option) \<Rightarrow> zoned field_decoder" where
  "time_value parse_time x v = (case v of TStr s \<Rightarrow> parse_time s | TNull \<Rightarrow> Some x | _ \<Rightarrow> None)"

lemma all_some_None: "all_some xs = None \<longleftrightarrow> None \<in> set xs"
  by (induction xs) (auto split: option.splits)

text \<open>An object is no slice.\<close>

lemma slice_of_object: "slice_of dec (TObj kvs) = None"
  by (simp add: slice_of_def)

lemma truncate_text_length: "truncate_text s n = Some t \<Longrightarrow> length t \<le> nat n + 3"
  by (auto simp: truncate_text_def ellipsis_def Let_def split: if_splits)

lemma truncate_text_panics: "truncate_text s n = None \<longleftrightarrow> n < 0"
  by (simp add: truncate_text_def Let_def)

end
