(* ===== verification/Tui.thy ===== *)
theory Tui
  imports Front_Text
begin

text \<open>
  \<open>tui/model.go\<close>, \<open>tui/keybindings.go\<close> and \<open>tui/events.go\<close>: the state of the dashboard, the update function
  on messages with the command it returns, and the commands, which are functions of what the daemon and the
  file system answer. An index or a slice out of range is \<open>None\<close>. What comes over the wire keeps its kinds and
  states as text, as in the code.
\<close>

section \<open>Rows\<close>

datatype pane = PaneRuns | PaneJobs | PaneEvents | PaneAttention

fun next_pane :: "pane \<Rightarrow> pane" where
  "next_pane PaneRuns = PaneJobs"
| "next_pane PaneJobs = PaneEvents"
| "next_pane PaneEvents = PaneAttention"
| "next_pane PaneAttention = PaneRuns"

fun prev_pane :: "pane \<Rightarrow> pane" where
  "prev_pane PaneRuns = PaneAttention"
| "prev_pane PaneJobs = PaneRuns"
| "prev_pane PaneEvents = PaneJobs"
| "prev_pane PaneAttention = PaneEvents"

text \<open>The panes are enumerated in the order of the tab key, so statements about all of them compute.\<close>

instantiation pane :: enum
begin

definition enum_pane :: "pane list" where
  "enum_pane = [PaneRuns, PaneJobs, PaneEvents, PaneAttention]"

definition enum_all_pane :: "(pane \<Rightarrow> bool) \<Rightarrow> bool" where
  "enum_all_pane P \<longleftrightarrow> P PaneRuns \<and> P PaneJobs \<and> P PaneEvents \<and> P PaneAttention"

definition enum_ex_pane :: "(pane \<Rightarrow> bool) \<Rightarrow> bool" where
  "enum_ex_pane P \<longleftrightarrow> P PaneRuns \<or> P PaneJobs \<or> P PaneEvents \<or> P PaneAttention"

instance
proof
  show u: "(UNIV :: pane set) = set enum_class.enum"
    by (auto simp: enum_pane_def intro: pane.exhaust)
  show "distinct (enum_class.enum :: pane list)" by (simp add: enum_pane_def)
  show "enum_class.enum_all P \<longleftrightarrow> Ball UNIV P" for P :: "pane \<Rightarrow> bool"
    by (simp add: u enum_pane_def enum_all_pane_def)
  show "enum_class.enum_ex P \<longleftrightarrow> Bex UNIV P" for P :: "pane \<Rightarrow> bool"
    by (simp add: u enum_pane_def enum_ex_pane_def)
qed

end

text \<open>Tab and shift-tab undo each other and visit every pane.\<close>

lemma pane_cycle: "\<forall>p. prev_pane (next_pane p) = p \<and> next_pane (prev_pane p) = p"
  by code_simp

lemma panes_by_tab: "enum_class.enum = map (\<lambda>n. (next_pane ^^ n) PaneRuns) [0..<4]"
  by code_simp

record run_row =
  rr_id :: ident
  rr_mode :: string
  rr_state :: string
  rr_since :: zoned

record job_row =
  jo_id :: ident
  jo_runID :: ident
  jo_role :: string
  jo_state :: string
  jo_cli :: string
  jo_since :: zoned

record event_row =
  er_kind :: string
  er_runID :: ident
  er_ts :: zoned
  er_raw :: string

record attention_row_view =
  av_id :: ident
  av_runID :: ident
  av_kind :: string
  av_question :: string
  av_options :: "string list"

text \<open>A \<open>core.Event\<close> as it was decoded, and the fields the dashboard reads of the structs of a snapshot.\<close>

record wire_event =
  we_id :: ident
  we_run_id :: ident
  we_kind :: string
  we_causation_id :: ident
  we_payload :: string
  we_created_at :: zoned

record wire_run =
  wr_id :: ident
  wr_mode :: string
  wr_state :: string
  wr_started_at :: zoned

record wire_job =
  wj_id :: ident
  wj_run_id :: ident
  wj_role :: string
  wj_state :: string
  wj_cli :: string
  wj_started_at :: zoned

record tui_config =
  tc_BaseURL :: string
  tc_RunID :: string

record tui =
  tu_cfg :: tui_config
  tu_activePane :: pane
  tu_runs :: "run_row list"
  tu_runCursor :: int
  tu_focusRunID :: ident
  tu_jobs :: "job_row list"
  tu_jobCursor :: int
  tu_events :: "event_row list"
  tu_eventCursor :: int
  tu_attention :: "attention_row_view list"
  tu_attentionCursor :: int
  tu_width :: int
  tu_height :: int
  tu_sseRetryDelay :: time
  tu_showHelp :: bool
  tu_err :: "goerr option"
  tu_quitting :: bool
  tu_jobDetailMode :: bool
  tu_jobDetailJobID :: ident
  tu_jobDetailLines :: "string list"
  tu_jobDetailScroll :: int
  tu_pendingAnswers :: "ident \<rightharpoonup> string"
  tu_costByRun :: "ident \<rightharpoonup> rat"
  tu_budgetUSD :: rat
  tu_inputMode :: bool
  tu_inputBuffer :: string

definition New :: "tui_config \<Rightarrow> tui" where
  "New cfg =
     \<lparr>tu_cfg = cfg, tu_activePane = PaneRuns, tu_runs = [], tu_runCursor = 0, tu_focusRunID = [], tu_jobs = [],
      tu_jobCursor = 0, tu_events = [], tu_eventCursor = 0, tu_attention = [], tu_attentionCursor = 0, tu_width = 0,
      tu_height = 0, tu_sseRetryDelay = 0, tu_showHelp = False, tu_err = None, tu_quitting = False,
      tu_jobDetailMode = False, tu_jobDetailJobID = [], tu_jobDetailLines = [], tu_jobDetailScroll = 0,
      tu_pendingAnswers = Map.empty, tu_costByRun = Map.empty, tu_budgetUSD = 0, tu_inputMode = False, tu_inputBuffer = []\<rparr>"

section \<open>Messages and commands\<close>

record snapshot =
  sn_runs :: "wire_run list"
  sn_jobs :: "wire_job list"
  sn_attention :: "attention_row_view list"

datatype tui_msg =
    WindowSizeMsg int int
  | KeyMsg string string
  | ErrMsg goerr
  | RetrySSEMsg
  | SnapshotMsg snapshot
  | EventMsg wire_event
  | ConnectedMsg
  | JobLogMsg ident "string list"
  | OtherMsg

text \<open>\<open>KeyMsg\<close> has the name of the key and the bytes of its runes.\<close>

datatype tui_cmd =
    NoCmd
  | Quit
  | Tick time
  | FetchSnapshot string string
  | SubscribeSSE string string
  | SubmitAnswer string ident string
  | LoadJobLog ident ident
  | Batch "tui_cmd list"

definition subscribe :: "tui \<Rightarrow> tui_cmd" where
  "subscribe m = SubscribeSSE (tc_BaseURL (tu_cfg m)) (tc_RunID (tu_cfg m))"

definition Init :: "tui \<Rightarrow> tui_cmd" where
  "Init m = Batch [FetchSnapshot (tc_BaseURL (tu_cfg m)) (tc_RunID (tu_cfg m)), subscribe m]"

definition index_at :: "'a list \<Rightarrow> int \<Rightarrow> 'a option" where
  "index_at xs i = (if 0 \<le> i \<and> i < int (length xs) then Some (xs ! nat i) else None)"

section \<open>Decoders\<close>

text \<open>What the decoders need of package \<open>time\<close> and \<open>strconv\<close>.\<close>

record decoders =
  dc_time :: "string \<Rightarrow> zoned option"
  dc_float :: "string \<Rightarrow> rat option"

definition decode_event :: "decoders \<Rightarrow> jtext \<Rightarrow> wire_event option" where
  "decode_event dc v =
     Option.bind (struct_members v) (\<lambda>kvs.
     Option.bind (str_field ''id'' kvs) (\<lambda>i.
     Option.bind (str_field ''run_id'' kvs) (\<lambda>run.
     Option.bind (int_field ''sequence'' kvs) (\<lambda>_.
     Option.bind (str_field ''kind'' kvs) (\<lambda>kind.
     Option.bind (int_field ''schema_version'' kvs) (\<lambda>_.
     Option.bind (str_field ''idempotency_key'' kvs) (\<lambda>_.
     Option.bind (str_field ''causation_id'' kvs) (\<lambda>cause.
     Option.bind (str_field ''correlation_id'' kvs) (\<lambda>_.
     Option.bind (str_field ''payload'' kvs) (\<lambda>payload.
     Option.bind (field_over (time_value (dc_time dc)) ''created_at'' zero_instant kvs) (\<lambda>t.
     Some \<lparr>we_id = i, we_run_id = run, we_kind = kind, we_causation_id = cause, we_payload = payload,
           we_created_at = t\<rparr>)))))))))))"

definition opt_time :: "decoders \<Rightarrow> string \<Rightarrow> (string \<times> jtext) list \<Rightarrow> zoned option" where
  "opt_time dc name kvs = field_over (time_value (dc_time dc)) name zero_instant kvs"

definition strings_field :: "string \<Rightarrow> (string \<times> jtext) list \<Rightarrow> string list option" where
  "strings_field name kvs = field_over (slice_value (str_value [])) name [] kvs"

definition decode_attention :: "decoders \<Rightarrow> jtext \<Rightarrow> attention_row_view option" where
  "decode_attention dc v =
     Option.bind (struct_members v) (\<lambda>kvs.
     Option.bind (str_field ''id'' kvs) (\<lambda>i.
     Option.bind (str_field ''run_id'' kvs) (\<lambda>run.
     Option.bind (str_field ''kind'' kvs) (\<lambda>kind.
     Option.bind (str_field ''source'' kvs) (\<lambda>_.
     Option.bind (str_field ''job_id'' kvs) (\<lambda>_.
     Option.bind (str_field ''question'' kvs) (\<lambda>question.
     Option.bind (strings_field ''options'' kvs) (\<lambda>options.
     Option.bind (strings_field ''presented_on'' kvs) (\<lambda>_.
     Option.bind (strings_field ''answered_on'' kvs) (\<lambda>_.
     Option.bind (str_field ''answered_by'' kvs) (\<lambda>_.
     Option.bind (str_field ''answer'' kvs) (\<lambda>_.
     Option.bind (opt_time dc ''created_at'' kvs) (\<lambda>_.
     Option.bind (opt_time dc ''resolved_at'' kvs) (\<lambda>_.
     Some \<lparr>av_id = i, av_runID = run, av_kind = kind, av_question = question, av_options = options\<rparr>))))))))))))))"

text \<open>\<open>core.Run\<close> and \<open>core.Job\<close> have no JSON tags: the keys are the names of the fields.\<close>

definition decode_run :: "decoders \<Rightarrow> jtext \<Rightarrow> wire_run option" where
  "decode_run dc v =
     Option.bind (struct_members v) (\<lambda>kvs.
     Option.bind (str_field ''ID'' kvs) (\<lambda>i.
     Option.bind (str_field ''Mode'' kvs) (\<lambda>mode.
     Option.bind (str_field ''State'' kvs) (\<lambda>st.
     Option.bind (opt_time dc ''StartedAt'' kvs) (\<lambda>t.
     Option.bind (opt_time dc ''EndedAt'' kvs) (\<lambda>_.
     Option.bind (str_field ''PRDPath'' kvs) (\<lambda>_.
     Option.bind (str_field ''SpecPath'' kvs) (\<lambda>_.
     Option.bind (field_over (num_value (dc_float dc)) ''CostUSD'' 0 kvs) (\<lambda>_.
     Option.bind (field_over (num_value (dc_float dc)) ''BudgetUSD'' 0 kvs) (\<lambda>_.
     Some \<lparr>wr_id = i, wr_mode = mode, wr_state = st, wr_started_at = t\<rparr>))))))))))"

definition decode_job :: "decoders \<Rightarrow> jtext \<Rightarrow> wire_job option" where
  "decode_job dc v =
     Option.bind (struct_members v) (\<lambda>kvs.
     Option.bind (str_field ''ID'' kvs) (\<lambda>i.
     Option.bind (str_field ''RunID'' kvs) (\<lambda>run.
     Option.bind (str_field ''Role'' kvs) (\<lambda>role.
     Option.bind (str_field ''State'' kvs) (\<lambda>st.
     Option.bind (str_field ''DispatchedBy'' kvs) (\<lambda>_.
     Option.bind (str_field ''CLI'' kvs) (\<lambda>cli.
     Option.bind (opt_time dc ''StartedAt'' kvs) (\<lambda>t.
     Option.bind (opt_time dc ''EndedAt'' kvs) (\<lambda>_.
     Option.bind (field_over (num_value (dc_float dc)) ''CostUSD'' 0 kvs) (\<lambda>_.
     Option.bind (str_field ''PlanID'' kvs) (\<lambda>_.
     Option.bind (int_field ''PhaseIndex'' kvs) (\<lambda>_.
     Some \<lparr>wj_id = i, wj_run_id = run, wj_role = role, wj_state = st, wj_cli = cli, wj_started_at = t\<rparr>))))))))))))"

section \<open>events.go: the commands\<close>

text \<open>The answer of the event stream: the lines that arrive, and the error the scanner ends with.\<close>

datatype sse_reply = SSE_No_Reply goerr | SSE_Reply int "string list" "goerr option"

record tui_net =
  tn_bad_url :: "string \<Rightarrow> goerr option"
  tn_stream :: "string \<Rightarrow> sse_reply"
  tn_http :: http_server
  tn_read_file :: "string \<Rightarrow> string option"
  tn_dec :: decoders

definition buildTUIEventsURL :: "string \<Rightarrow> string \<Rightarrow> string" where
  "buildTUIEventsURL baseURL runID = with_query (trim_slashes baseURL @ ''/events'') [(''run_id'', runID)]"

definition data_prefix :: string where
  "data_prefix = ''data: ''"

fun first_event :: "decoders \<Rightarrow> string list \<Rightarrow> wire_event option" where
  "first_event dc [] = None"
| "first_event dc (l # ls) =
     (if \<not> has_prefix l data_prefix then first_event dc ls
      else case Option.bind (json_text (drop (length data_prefix) l)) (decode_event dc) of
             None \<Rightarrow> first_event dc ls
           | Some ev \<Rightarrow> Some ev)"

definition subscribeSSE :: "tui_net \<Rightarrow> string \<Rightarrow> string \<Rightarrow> tui_msg" where
  "subscribeSSE nt baseURL runID =
     (let url = buildTUIEventsURL baseURL runID in
      case tn_bad_url nt url of
        Some e \<Rightarrow> ErrMsg (Wrapf ''build SSE request: %w'' [] e)
      | None \<Rightarrow>
          (case tn_stream nt url of
             SSE_No_Reply e \<Rightarrow> ErrMsg (Wrapf ''SSE connect: %w'' [] e)
           | SSE_Reply code lines scan_err \<Rightarrow>
               if code \<noteq> 200 then ErrMsg (Errorf ''SSE server returned %d'' [itoa code])
               else (case first_event (tn_dec nt) lines of
                       Some ev \<Rightarrow> EventMsg ev
                     | None \<Rightarrow>
                         (case scan_err of
                            Some e \<Rightarrow> ErrMsg (Wrapf ''SSE read: %w'' [] e)
                          | None \<Rightarrow> ErrMsg (Errorf ''SSE stream closed by server'' [])))))"

text \<open>A command without a message is \<open>None\<close>.\<close>

definition submitAnswer :: "tui_net \<Rightarrow> string \<Rightarrow> ident \<Rightarrow> string \<Rightarrow> tui_msg option" where
  "submitAnswer nt baseURL itemID answer =
     (let endpoint = trim_slashes baseURL @ ''/attention/'' @ itemID @ ''/answer'' in
      case tn_bad_url nt endpoint of
        Some e \<Rightarrow> Some (ErrMsg (Wrapf ''build submit request: %w'' [] e))
      | None \<Rightarrow>
          (case tn_http nt \<lparr>rq_method = POST, rq_url = endpoint,
                  rq_body = Some (JObj [(''answer'', JStr answer), (''answered_by'', JStr ''tui'')]), rq_header = json_content\<rparr> of
             No_Reply e \<Rightarrow> Some (ErrMsg (Wrapf ''submit answer: %w'' [] e))
           | Reply code _ _ \<Rightarrow>
               if code \<ge> 300 then Some (ErrMsg (Errorf ''submit answer: daemon returned %d'' [itoa code])) else None))"

definition getJSON :: "http_server \<Rightarrow> (jtext \<Rightarrow> 'a option) \<Rightarrow> string \<Rightarrow> 'a option" where
  "getJSON http dec url =
     (case http \<lparr>rq_method = GET, rq_url = url, rq_body = None, rq_header = []\<rparr> of
        No_Reply _ \<Rightarrow> None
      | Reply code _ body \<Rightarrow> if code \<noteq> 200 then None else Option.bind (json_head body) dec)"

definition fetchSnapshot :: "tui_net \<Rightarrow> string \<Rightarrow> string \<Rightarrow> snapshot" where
  "fetchSnapshot nt baseURL runID =
     (let base = trim_slashes baseURL; dc = tn_dec nt; http = tn_http nt in
      \<lparr>sn_runs =
         (case getJSON http (slice_of (decode_run dc)) (base @ ''/runs'') of
            None \<Rightarrow> []
          | Some runs \<Rightarrow> if runID \<noteq> [] then take 1 (filter (\<lambda>r. wr_id r = runID) runs) else runs),
       sn_jobs =
         (case getJSON http (slice_of (decode_job dc)) (with_query (base @ ''/jobs'') [(''run_id'', runID)]) of
            None \<Rightarrow> [] | Some jobs \<Rightarrow> jobs),
       sn_attention =
         (case getJSON http (slice_of (decode_attention dc)) (with_query (base @ ''/attention'') [(''run_id'', runID)]) of
            None \<Rightarrow> [] | Some items \<Rightarrow> items)\<rparr>)"

definition log_lines :: "string \<Rightarrow> string list" where
  "log_lines data =
     (let raw = split_on (CHR 0x0A) (trim_right_by (\<lambda>c. c = CHR 0x0A) data)
      in if length raw > 500 then drop (length raw - 500) raw else raw)"

definition loadJobLog :: "tui_net \<Rightarrow> ident \<Rightarrow> ident \<Rightarrow> tui_msg" where
  "loadJobLog nt runID jobID =
     (case tn_read_file nt (join_path [''.coworker'', ''runs'', runID, ''jobs'', jobID @ ''.jsonl'']) of
        None \<Rightarrow> JobLogMsg jobID []
      | Some data \<Rightarrow> JobLogMsg jobID (log_lines data))"

section \<open>model.go: rows\<close>

fun update_first :: "('a \<Rightarrow> bool) \<Rightarrow> ('a \<Rightarrow> 'a) \<Rightarrow> 'a list \<Rightarrow> 'a list" where
  "update_first P f [] = []"
| "update_first P f (x # xs) = (if P x then f x # xs else x # update_first P f xs)"

definition appendOrUpdateRun :: "run_row list \<Rightarrow> wire_event \<Rightarrow> run_row list" where
  "appendOrUpdateRun rows ev =
     (if we_run_id ev \<in> rr_id ` set rows
      then update_first (\<lambda>r. rr_id r = we_run_id ev) (\<lambda>r. r\<lparr>rr_state := run_state_string RunStateActive\<rparr>) rows
      else rows @ [\<lparr>rr_id = we_run_id ev, rr_mode = [], rr_state = run_state_string RunStateActive, rr_since = we_created_at ev\<rparr>])"

definition updateRunState :: "run_row list \<Rightarrow> ident \<Rightarrow> string \<Rightarrow> run_row list" where
  "updateRunState rows runID st = update_first (\<lambda>r. rr_id r = runID) (\<lambda>r. r\<lparr>rr_state := st\<rparr>) rows"

definition appendOrUpdateJob :: "job_row list \<Rightarrow> wire_event \<Rightarrow> job_row list" where
  "appendOrUpdateJob rows ev =
     (if we_id ev \<in> jo_id ` set rows then rows
      else rows @ [\<lparr>jo_id = we_id ev, jo_runID = we_run_id ev, jo_role = [], jo_state = job_state_string JobStatePending,
                    jo_cli = [], jo_since = we_created_at ev\<rparr>])"

definition updateJobState :: "job_row list \<Rightarrow> wire_event \<Rightarrow> JobState \<Rightarrow> job_row list" where
  "updateJobState rows ev st =
     (let target = (if we_causation_id ev = [] then we_run_id ev else we_causation_id ev)
      in update_first (\<lambda>r. jo_id r = target) (\<lambda>r. r\<lparr>jo_state := job_state_string st\<rparr>) rows)"

definition removeAttentionItem :: "attention_row_view list \<Rightarrow> ident \<Rightarrow> attention_row_view list" where
  "removeAttentionItem rows i = filter (\<lambda>r. av_id r \<noteq> i) rows"

section \<open>model.go: applying messages\<close>

definition completed_state :: "string \<Rightarrow> string" where
  "completed_state payload =
     (case Option.bind (Option.bind (json_text payload) struct_members) (str_field ''state'') of
        Some st \<Rightarrow> if st \<noteq> [] then st else run_state_string RunStateCompleted
      | None \<Rightarrow> run_state_string RunStateCompleted)"

definition decode_cost :: "decoders \<Rightarrow> jtext \<Rightarrow> (rat \<times> rat) option" where
  "decode_cost dc v =
     Option.bind (struct_members v) (\<lambda>kvs.
     let num = (\<lambda>name. field_over (num_value (dc_float dc)) name 0 kvs) in
     Option.bind (str_field ''run_id'' kvs) (\<lambda>_.
     Option.bind (str_field ''job_id'' kvs) (\<lambda>_.
     Option.bind (str_field ''provider'' kvs) (\<lambda>_.
     Option.bind (str_field ''model'' kvs) (\<lambda>_.
     Option.bind (int_field ''tokens_in'' kvs) (\<lambda>_.
     Option.bind (int_field ''tokens_out'' kvs) (\<lambda>_.
     Option.bind (num ''usd'') (\<lambda>_.
     Option.bind (num ''cumulative_usd'') (\<lambda>cumulative.
     Option.bind (num ''budget_usd'') (\<lambda>budget.
     Some (cumulative, budget)))))))))))"

definition kind_is :: "wire_event \<Rightarrow> EventKind \<Rightarrow> bool" where
  "kind_is ev k \<longleftrightarrow> we_kind ev = event_kind_string k"

text \<open>The event line; the width is positive, so nothing panics.\<close>

definition event_line :: "wire_event \<Rightarrow> event_row" where
  "event_line ev =
     \<lparr>er_kind = we_kind ev, er_runID = we_run_id ev, er_ts = we_created_at ev,
      er_raw = cut 60 (we_payload ev)\<rparr>"

definition last_events :: "event_row list \<Rightarrow> event_row list" where
  "last_events es = (if length es > 200 then drop (length es - 200) es else es)"

definition applyEvent :: "decoders \<Rightarrow> tui \<Rightarrow> wire_event \<Rightarrow> tui" where
  "applyEvent dc m0 ev =
     (let m = m0\<lparr>tu_events := last_events (tu_events m0 @ [event_line ev])\<rparr> in
      if kind_is ev EventRunCreated then m\<lparr>tu_runs := appendOrUpdateRun (tu_runs m) ev\<rparr>
      else if kind_is ev EventRunCompleted
        then m\<lparr>tu_runs := updateRunState (tu_runs m) (we_run_id ev) (completed_state (we_payload ev))\<rparr>
      else if kind_is ev EventJobCreated then m\<lparr>tu_jobs := appendOrUpdateJob (tu_jobs m) ev\<rparr>
      else if kind_is ev EventJobLeased then m\<lparr>tu_jobs := updateJobState (tu_jobs m) ev JobStateRunning\<rparr>
      else if kind_is ev EventJobCompleted then m\<lparr>tu_jobs := updateJobState (tu_jobs m) ev JobStateComplete\<rparr>
      else if kind_is ev EventJobFailed then m\<lparr>tu_jobs := updateJobState (tu_jobs m) ev JobStateFailed\<rparr>
      else if kind_is ev EventAttentionCreated then
        (case Option.bind (json_text (we_payload ev)) (decode_attention dc) of
           None \<Rightarrow> m
         | Some item \<Rightarrow> m\<lparr>tu_attention := tu_attention m @ [item]\<rparr>)
      else if kind_is ev EventAttentionResolved then
        (let rows = removeAttentionItem (tu_attention m) (we_causation_id ev)
         in m\<lparr>tu_attention := rows,
              tu_attentionCursor :=
                (if tu_attentionCursor m \<ge> int (length rows) \<and> tu_attentionCursor m > 0
                 then tu_attentionCursor m - 1 else tu_attentionCursor m)\<rparr>)
      else if kind_is ev EventCostDelta then
        (case Option.bind (json_text (we_payload ev)) (decode_cost dc) of
           None \<Rightarrow> m
         | Some (cumulative, budget) \<Rightarrow>
             m\<lparr>tu_costByRun := (tu_costByRun m)(we_run_id ev \<mapsto> cumulative),
               tu_budgetUSD := (if budget > 0 then budget else tu_budgetUSD m)\<rparr>)
      else m)"

definition snapshot_run :: "run_row list \<Rightarrow> wire_run \<Rightarrow> run_row list" where
  "snapshot_run rows r =
     (if wr_id r \<in> rr_id ` set rows
      then update_first (\<lambda>row. rr_id row = wr_id r) (\<lambda>row. row\<lparr>rr_state := wr_state r, rr_mode := wr_mode r\<rparr>) rows
      else rows @ [\<lparr>rr_id = wr_id r, rr_mode = wr_mode r, rr_state = wr_state r, rr_since = wr_started_at r\<rparr>])"

definition snapshot_job :: "job_row list \<Rightarrow> wire_job \<Rightarrow> job_row list" where
  "snapshot_job rows j =
     (if wj_id j \<in> jo_id ` set rows then rows
      else rows @ [\<lparr>jo_id = wj_id j, jo_runID = wj_run_id j, jo_role = wj_role j, jo_state = wj_state j,
                    jo_cli = wj_cli j, jo_since = wj_started_at j\<rparr>])"

definition snapshot_attention :: "attention_row_view list \<Rightarrow> attention_row_view \<Rightarrow> attention_row_view list" where
  "snapshot_attention rows a = (if av_id a \<in> av_id ` set rows then rows else rows @ [a])"

definition applySnapshot :: "tui \<Rightarrow> snapshot \<Rightarrow> tui" where
  "applySnapshot m sn =
     m\<lparr>tu_runs := foldl snapshot_run (tu_runs m) (sn_runs sn),
       tu_jobs := foldl snapshot_job (tu_jobs m) (sn_jobs sn),
       tu_attention := foldl snapshot_attention (tu_attention m) (sn_attention sn)\<rparr>"

definition applyJobLog :: "tui \<Rightarrow> ident \<Rightarrow> string list \<Rightarrow> tui" where
  "applyJobLog m jobID lines =
     (if tu_jobDetailJobID m \<noteq> jobID then m
      else m\<lparr>tu_jobDetailLines := lines, tu_jobDetailScroll := max 0 (int (length lines) - tu_height m + 4)\<rparr>)"

definition second :: time where
  "second = 1000000000"

definition sseBackoffCmd :: "tui \<Rightarrow> goerr \<Rightarrow> tui \<times> tui_cmd" where
  "sseBackoffCmd m e =
     (let delay = (if tu_sseRetryDelay m = 0 then second else min (tu_sseRetryDelay m * 2) (30 * second))
      in (m\<lparr>tu_err := Some e, tu_sseRetryDelay := delay\<rparr>, Tick delay))"

section \<open>keybindings.go\<close>

definition exitJobDetail :: "tui \<Rightarrow> tui" where
  "exitJobDetail m = m\<lparr>tu_jobDetailMode := False, tu_jobDetailJobID := [], tu_jobDetailLines := []\<rparr>"

definition handleEscape :: "tui \<Rightarrow> tui \<times> tui_cmd" where
  "handleEscape m =
     (if tu_jobDetailMode m then (exitJobDetail m, NoCmd)
      else if tu_inputMode m then (m\<lparr>tu_inputMode := False, tu_inputBuffer := []\<rparr>, NoCmd)
      else (m, NoCmd))"

definition handleJobDetailKey :: "tui \<Rightarrow> string \<Rightarrow> tui \<times> tui_cmd" where
  "handleJobDetailKey m key =
     (if key \<in> {''q'', ''ctrl+c''} then (m\<lparr>tu_quitting := True\<rparr>, Quit)
      else if key \<in> {''up'', ''k''} then
        (if tu_jobDetailScroll m > 0 then m\<lparr>tu_jobDetailScroll := tu_jobDetailScroll m - 1\<rparr> else m, NoCmd)
      else if key \<in> {''down'', ''j''} then
        (let maxScroll = max 0 (int (length (tu_jobDetailLines m)) - 1)
         in if tu_jobDetailScroll m < maxScroll then m\<lparr>tu_jobDetailScroll := tu_jobDetailScroll m + 1\<rparr> else m, NoCmd)
      else (m, NoCmd))"

text \<open>An answer is remembered as pending and posted.\<close>

definition post_answer :: "tui \<Rightarrow> ident \<Rightarrow> string \<Rightarrow> tui \<times> tui_cmd" where
  "post_answer m itemID answer =
     (m\<lparr>tu_pendingAnswers := (tu_pendingAnswers m)(itemID \<mapsto> answer)\<rparr>, SubmitAnswer (tc_BaseURL (tu_cfg m)) itemID answer)"

definition submitInputAnswer :: "tui \<Rightarrow> (tui \<times> tui_cmd) option" where
  "submitInputAnswer m =
     (if tu_attention m = [] then Some (m\<lparr>tu_inputMode := False\<rparr>, NoCmd)
      else map_option (\<lambda>item. post_answer (m\<lparr>tu_inputBuffer := [], tu_inputMode := False\<rparr>) (av_id item) (tu_inputBuffer m))
             (index_at (tu_attention m) (tu_attentionCursor m)))"

definition handleInputModeKey :: "tui \<Rightarrow> string \<Rightarrow> string \<Rightarrow> (tui \<times> tui_cmd) option" where
  "handleInputModeKey m key runes =
     (if key = ''enter'' then submitInputAnswer m
      else if key = ''backspace'' then Some (m\<lparr>tu_inputBuffer := butlast (tu_inputBuffer m)\<rparr>, NoCmd)
      else Some (m\<lparr>tu_inputBuffer := tu_inputBuffer m @ runes\<rparr>, NoCmd))"

definition handleEnterKey :: "tui \<Rightarrow> (tui \<times> tui_cmd) option" where
  "handleEnterKey m =
     (if tu_activePane m = PaneRuns \<and> tu_runs m \<noteq> [] then
        map_option (\<lambda>r. (m\<lparr>tu_focusRunID := rr_id r\<rparr>, NoCmd)) (index_at (tu_runs m) (tu_runCursor m))
      else if tu_activePane m = PaneJobs \<and> tu_jobs m \<noteq> [] then
        map_option (\<lambda>j. (m\<lparr>tu_jobDetailMode := True, tu_jobDetailJobID := jo_id j, tu_jobDetailScroll := 0\<rparr>,
                          LoadJobLog (jo_runID j) (jo_id j)))
          (index_at (tu_jobs m) (tu_jobCursor m))
      else Some (m, NoCmd))"

definition answer_of_key :: "string \<Rightarrow> string" where
  "answer_of_key key = (if key = ''a'' then ''yes'' else if key = ''r'' then ''no'' else if key = ''p'' then ''pass'' else [])"

definition answerSelected :: "tui \<Rightarrow> string \<Rightarrow> (tui \<times> tui_cmd) option" where
  "answerSelected m key =
     (if tu_activePane m \<noteq> PaneAttention \<or> tu_attention m = [] then Some (m, NoCmd)
      else map_option (\<lambda>item. post_answer m (av_id item) (answer_of_key key))
             (index_at (tu_attention m) (tu_attentionCursor m)))"

definition handleInputStart :: "tui \<Rightarrow> (tui \<times> tui_cmd) option" where
  "handleInputStart m =
     (if tu_activePane m \<noteq> PaneAttention \<or> tu_attention m = [] then Some (m, NoCmd)
      else map_option (\<lambda>item.
             (if av_kind item \<in> {''question'', ''subprocess''} then m\<lparr>tu_inputMode := True, tu_inputBuffer := []\<rparr> else m, NoCmd))
             (index_at (tu_attention m) (tu_attentionCursor m)))"

definition scroll :: "(int \<Rightarrow> nat \<Rightarrow> int) \<Rightarrow> tui \<Rightarrow> tui" where
  "scroll f m =
     (case tu_activePane m of
        PaneRuns \<Rightarrow> m\<lparr>tu_runCursor := f (tu_runCursor m) (length (tu_runs m))\<rparr>
      | PaneJobs \<Rightarrow> m\<lparr>tu_jobCursor := f (tu_jobCursor m) (length (tu_jobs m))\<rparr>
      | PaneEvents \<Rightarrow> m\<lparr>tu_eventCursor := f (tu_eventCursor m) (length (tu_events m))\<rparr>
      | PaneAttention \<Rightarrow> m\<lparr>tu_attentionCursor := f (tu_attentionCursor m) (length (tu_attention m))\<rparr>)"

definition scrollUp :: "tui \<Rightarrow> tui" where
  "scrollUp = scroll (\<lambda>c n. if c > 0 then c - 1 else c)"

definition scrollDown :: "tui \<Rightarrow> tui" where
  "scrollDown = scroll (\<lambda>c n. if c < int n - 1 then c + 1 else c)"

definition handleNormalKey :: "tui \<Rightarrow> string \<Rightarrow> (tui \<times> tui_cmd) option" where
  "handleNormalKey m key =
     (if key \<in> {''q'', ''ctrl+c''} then Some (m\<lparr>tu_quitting := True\<rparr>, Quit)
      else if key = ''?'' then Some (m\<lparr>tu_showHelp := \<not> tu_showHelp m\<rparr>, NoCmd)
      else if key = ''tab'' then Some (m\<lparr>tu_activePane := next_pane (tu_activePane m)\<rparr>, NoCmd)
      else if key = ''shift+tab'' then Some (m\<lparr>tu_activePane := prev_pane (tu_activePane m)\<rparr>, NoCmd)
      else if key \<in> {''up'', ''k''} then Some (scrollUp m, NoCmd)
      else if key \<in> {''down'', ''j''} then Some (scrollDown m, NoCmd)
      else if key = ''enter'' then handleEnterKey m
      else if key \<in> {''a'', ''r'', ''p''} then answerSelected m key
      else if key = ''i'' then handleInputStart m
      else Some (m, NoCmd))"

definition handleKey :: "tui \<Rightarrow> string \<Rightarrow> string \<Rightarrow> (tui \<times> tui_cmd) option" where
  "handleKey m key runes =
     (if key = ''esc'' then Some (handleEscape m)
      else if key = ''backspace'' \<and> tu_jobDetailMode m then Some (exitJobDetail m, NoCmd)
      else if tu_jobDetailMode m then Some (handleJobDetailKey m key)
      else if tu_inputMode m then handleInputModeKey m key runes
      else handleNormalKey m key)"

section \<open>model.go: the update function\<close>

fun Update :: "decoders \<Rightarrow> tui \<Rightarrow> tui_msg \<Rightarrow> (tui \<times> tui_cmd) option" where
  "Update dc m (WindowSizeMsg w h) = Some (m\<lparr>tu_width := w, tu_height := h\<rparr>, NoCmd)"
| "Update dc m (KeyMsg key runes) = handleKey m key runes"
| "Update dc m (ErrMsg e) = Some (sseBackoffCmd m e)"
| "Update dc m RetrySSEMsg = Some (m, subscribe m)"
| "Update dc m (SnapshotMsg sn) = Some (applySnapshot m sn, NoCmd)"
| "Update dc m (EventMsg ev) = Some (applyEvent dc m ev, subscribe m)"
| "Update dc m ConnectedMsg = Some (m\<lparr>tu_sseRetryDelay := 0, tu_err := None\<rparr>, subscribe m)"
| "Update dc m (JobLogMsg i lines) = Some (applyJobLog m i lines, NoCmd)"
| "Update dc m OtherMsg = Some (m, NoCmd)"

end
