(* ===== verification/Http_Api.thy ===== *)
theory Http_Api
  imports Event_Bus Mcp Tui
begin

text \<open>
  \<open>cli/daemon_http.go\<close>: the REST handlers of the daemon over its stores. A handler is a computation that
  cannot fail: errors are answers. The body of a request is the JSON value its text decodes to.
\<close>

section \<open>Responses\<close>

text \<open>\<open>http.Error\<close> with its text, or a JSON body.\<close>

datatype api_response = Api_Error int string | Api_JSON int json

fun api_status :: "api_response \<Rightarrow> int" where
  "api_status (Api_Error code _) = code"
| "api_status (Api_JSON code _) = code"

definition respondJSON :: "int \<Rightarrow> json \<Rightarrow> api_response prog" where
  "respondJSON code v = ret (Api_JSON code v)"

definition internal_error :: "api_response prog" where
  "internal_error = ret (Api_Error 500 ''internal error'')"

definition item_not_found :: "api_response prog" where
  "item_not_found = ret (Api_Error 404 ''attention item not found'')"

text \<open>The structs of package \<open>core\<close> as \<open>encoding/json\<close> writes them: a run and a job by the names of their fields,
  a nil pointer as null, an empty optional field not at all. \<open>show_time\<close> is \<open>time.Time.MarshalJSON\<close>.\<close>

definition json_opt :: "('a \<Rightarrow> json) \<Rightarrow> 'a option \<Rightarrow> json" where
  "json_opt f x = (case x of None \<Rightarrow> JNull | Some y \<Rightarrow> f y)"

definition run_json :: "(time \<Rightarrow> string) \<Rightarrow> run \<Rightarrow> json" where
  "run_json show_time r = JObj
     [(''ID'', JStr (run_id r)), (''Mode'', JStr (run_mode r)), (''State'', JStr (run_state_string (run_state r))),
      (''StartedAt'', JStr (show_time (run_started_at r))), (''EndedAt'', json_opt (\<lambda>t. JStr (show_time t)) (run_ended_at r)),
      (''PRDPath'', JStr (run_prd_path r)), (''SpecPath'', JStr (run_spec_path r)), (''CostUSD'', JNum (run_cost_usd r)),
      (''BudgetUSD'', json_opt JNum (run_budget_usd r))]"

definition job_json :: "(time \<Rightarrow> string) \<Rightarrow> job \<Rightarrow> json" where
  "job_json show_time j = JObj
     [(''ID'', JStr (job_id j)), (''RunID'', JStr (job_run_id j)), (''Role'', JStr (job_role j)),
      (''State'', JStr (job_state_string (job_state j))), (''DispatchedBy'', JStr (job_dispatched_by j)),
      (''CLI'', JStr (job_cli j)), (''StartedAt'', JStr (show_time (job_started_at j))),
      (''EndedAt'', json_opt (\<lambda>t. JStr (show_time t)) (job_ended_at j)), (''PlanID'', JStr (job_plan_id j)),
      (''PhaseIndex'', JInt (job_phase_index j)), (''CostUSD'', JNum (job_cost_usd j))]"

definition omit_nil :: "string \<Rightarrow> string list \<Rightarrow> (string \<times> json) list" where
  "omit_nil k xs = (if xs = [] then [] else [(k, jlist xs)])"

definition item_json :: "(time \<Rightarrow> string) \<Rightarrow> attention_item \<Rightarrow> json" where
  "item_json show_time a = JObj
     ([(''id'', JStr (att_id a)), (''run_id'', JStr (att_run_id a)), (''kind'', JStr (attention_kind_string (att_kind a))),
       (''source'', JStr (att_source a))] @ omit_empty ''job_id'' (att_job_id a) @ omit_empty ''question'' (att_question a) @
      omit_nil ''options'' (att_options a) @ omit_nil ''presented_on'' (att_presented_on a) @
      omit_nil ''answered_on'' (att_answered_on a) @ omit_empty ''answered_by'' (att_answered_by a) @
      omit_empty ''answer'' (att_answer a) @
      [(''created_at'', JStr (show_time (case att_created_at a of Some t \<Rightarrow> t | None \<Rightarrow> fst zero_instant)))] @
      (case att_resolved_at a of None \<Rightarrow> [] | Some t \<Rightarrow> [(''resolved_at'', JStr (show_time t))]))"

section \<open>Queries\<close>

definition handleListRuns :: "(time \<Rightarrow> string) \<Rightarrow> api_response prog" where
  "handleListRuns show_time =
     bindE (attempt ListRuns) (\<lambda>r.
     case r of
       Inl _ \<Rightarrow> internal_error
     | Inr runs \<Rightarrow> respondJSON 200 (JObj [(''runs'', if runs = [] then JNull else JArr (map (run_json show_time) runs))]))"

definition handleGetRun :: "(time \<Rightarrow> string) \<Rightarrow> ident \<Rightarrow> api_response prog" where
  "handleGetRun show_time i =
     bindE (attempt (GetRun i)) (\<lambda>r.
     case r of Inl _ \<Rightarrow> ret (Api_Error 404 ''run not found'') | Inr run \<Rightarrow> respondJSON 200 (run_json show_time run))"

definition handleListJobs :: "(time \<Rightarrow> string) \<Rightarrow> ident \<Rightarrow> api_response prog" where
  "handleListJobs show_time runID =
     bindE (attempt (ListJobsByRun runID)) (\<lambda>r.
     case r of
       Inl _ \<Rightarrow> internal_error
     | Inr jobs \<Rightarrow> respondJSON 200 (JObj [(''jobs'', if jobs = [] then JNull else JArr (map (job_json show_time) jobs))]))"

definition handleListAttention :: "(time \<Rightarrow> string) \<Rightarrow> api_response prog" where
  "handleListAttention show_time =
     bindE (attempt ListAllPending) (\<lambda>r.
     case r of
       Inl _ \<Rightarrow> internal_error
     | Inr items \<Rightarrow> respondJSON 200 (JObj [(''items'', JArr (map (item_json show_time) items))]))"

section \<open>Answers\<close>

record answer_request =
  aq_Answer :: string
  aq_AnsweredBy :: string

definition decode_answer :: "jtext \<Rightarrow> answer_request option" where
  "decode_answer v =
     Option.bind (struct_members v) (\<lambda>kvs.
     Option.bind (str_field ''answer'' kvs) (\<lambda>a.
     Option.bind (str_field ''answered_by'' kvs) (\<lambda>b.
     Some \<lparr>aq_Answer = a, aq_AnsweredBy = b\<rparr>)))"

text \<open>The tail of the handler, with the checks of the request behind it.\<close>

definition answer_item :: "bool \<Rightarrow> ident \<Rightarrow> string \<Rightarrow> string \<Rightarrow> api_response prog" where
  "answer_item cw i answer answeredBy =
     bindE (attempt (GetAttentionByID i)) (\<lambda>r.
     case r of
       Inl _ \<Rightarrow> internal_error
     | Inr None \<Rightarrow> item_not_found
     | Inr (Some item) \<Rightarrow>
         bindE (attempt (AnswerAttention i answer answeredBy)) (\<lambda>r.
         case r of
           Inl e \<Rightarrow> if errors_is e ErrAttentionNotFound then item_not_found else internal_error
         | Inr _ \<Rightarrow>
             bindE (ignoring (ResolveAttention i)) (\<lambda>_.
             if att_kind item = AttentionCheckpoint \<and> cw then
               bindE (attempt (ResolveCheckpoint i answer answeredBy [])) (\<lambda>r.
               case r of
                 Inl e \<Rightarrow> if errors_is e ErrCheckpointNotFound then respondJSON 200 (status_object ''ok'') else internal_error
               | Inr _ \<Rightarrow> respondJSON 200 (status_object ''ok''))
             else respondJSON 200 (status_object ''ok''))))"

definition handleAnswerAttention :: "bool \<Rightarrow> ident \<Rightarrow> jtext option \<Rightarrow> api_response prog" where
  "handleAnswerAttention cw i body =
     (case Option.bind body decode_answer of
        None \<Rightarrow> ret (Api_Error 400 ''invalid JSON body'')
      | Some rq \<Rightarrow>
          if aq_Answer rq = [] then ret (Api_Error 400 ''answer is required'')
          else if aq_Answer rq \<noteq> AttentionAnswerApprove \<and> aq_Answer rq \<noteq> AttentionAnswerReject
          then ret (Api_Error 400 (''answer must be '' @ [CHR 0x22] @ ''approve'' @ [CHR 0x22] @ '' or '' @ [CHR 0x22] @ ''reject'' @ [CHR 0x22]))
          else answer_item cw i (aq_Answer rq) (if aq_AnsweredBy rq = [] then ''http'' else aq_AnsweredBy rq))"

section \<open>The mux\<close>

text \<open>\<open>http.ServeMux\<close>: the segments of a path after the method; other methods on a known path are 405. The event
  stream at \<open>/events\<close> is \<open>SSEHandler\<close> and not among the handlers here.\<close>

datatype api_request =
    Api_GET "string list"
  | Api_POST "string list" "jtext option"

definition not_found :: "api_response prog" where
  "not_found = ret (Api_Error 404 ''404 page not found'')"

definition method_not_allowed :: "api_response prog" where
  "method_not_allowed = ret (Api_Error 405 ''Method Not Allowed'')"

definition serveHTTP :: "(time \<Rightarrow> string) \<Rightarrow> bool \<Rightarrow> api_request \<Rightarrow> api_response prog" where
  "serveHTTP show_time cw rq =
     (case rq of
        Api_GET [a] \<Rightarrow>
          if a = ''runs'' then handleListRuns show_time
          else if a = ''attention'' then handleListAttention show_time
          else not_found
      | Api_GET [a, i] \<Rightarrow> if a = ''runs'' \<and> i \<noteq> [] then handleGetRun show_time i else not_found
      | Api_GET [a, i, b] \<Rightarrow>
          if a = ''runs'' \<and> i \<noteq> [] \<and> b = ''jobs'' then handleListJobs show_time i
          else if a = ''attention'' \<and> i \<noteq> [] \<and> b = ''answer'' then method_not_allowed
          else not_found
      | Api_GET _ \<Rightarrow> not_found
      | Api_POST [a, i, b] body \<Rightarrow>
          if a = ''attention'' \<and> i \<noteq> [] \<and> b = ''answer'' then handleAnswerAttention cw i body
          else if a = ''runs'' \<and> i \<noteq> [] \<and> b = ''jobs'' then method_not_allowed
          else not_found
      | Api_POST [a] _ \<Rightarrow> if a \<in> {''runs'', ''attention'', ''events''} then method_not_allowed else not_found
      | Api_POST [a, i] _ \<Rightarrow> if a = ''runs'' \<and> i \<noteq> [] then method_not_allowed else not_found
      | Api_POST _ _ \<Rightarrow> not_found)"

end
