(* ===== verification/Tui_View.thy ===== *)
theory Tui_View
  imports Tui
begin

text \<open>
  \<open>tui/views.go\<close>, \<open>tui/job_detail.go\<close> and the view function of \<open>tui/model.go\<close>. The layout library is a
  parameter: how a style renders a text, with or without a width, the frame of a pane, and the joins. The
  clock is read once for a view. A slice out of range is \<open>None\<close>.
\<close>

section \<open>The layout library\<close>

datatype style =
    StyleTitle | StyleSubtle | StyleStateActive | StyleStateFailed | StyleStateWaiting | StyleCost
  | StyleEventKind | StyleAttentionKind | StyleSelected | StyleHelp

record layout =
  ly_render :: "style \<Rightarrow> string \<Rightarrow> string"
  ly_render_width :: "style \<Rightarrow> int \<Rightarrow> string \<Rightarrow> string"
  ly_pane :: "bool \<Rightarrow> int \<Rightarrow> int \<Rightarrow> string \<Rightarrow> string"
  ly_horizontal :: "string list \<Rightarrow> string"
  ly_vertical :: "string list \<Rightarrow> string"
  ly_float :: "nat \<Rightarrow> rat \<Rightarrow> string"
  ly_now :: time

definition pointer :: "bool \<Rightarrow> string" where
  "pointer here = (if here then ''> '' else ''  '')"

definition selected :: "layout \<Rightarrow> bool \<Rightarrow> int \<Rightarrow> string \<Rightarrow> string" where
  "selected ly here w line = (if here then ly_render_width ly StyleSelected w line else line)"

definition age_text :: "layout \<Rightarrow> zoned \<Rightarrow> string" where
  "age_text ly t = ly_render ly StyleSubtle (seconds_text (age_seconds (ly_now ly) (fst t)))"

text \<open>The rows of a pane: each gives some lines, and the loop stops when the height is reached.\<close>

fun pane_lines :: "(nat \<Rightarrow> 'a \<Rightarrow> string list) \<Rightarrow> int \<Rightarrow> nat \<Rightarrow> 'a list \<Rightarrow> string list \<Rightarrow> string list" where
  "pane_lines f h i [] acc = acc"
| "pane_lines f h i (x # xs) acc =
     (let acc' = acc @ f i x in if int (length acc') \<ge> h then acc' else pane_lines f h (Suc i) xs acc')"

definition framed :: "layout \<Rightarrow> bool \<Rightarrow> int \<Rightarrow> int \<Rightarrow> string \<Rightarrow> string \<Rightarrow> string" where
  "framed ly active w h title inner = ly_pane ly active w h (ly_vertical ly [title, inner])"

section \<open>views.go: runs\<close>

definition run_state_style :: "string \<Rightarrow> style" where
  "run_state_style st =
     (if st = run_state_string RunStateActive then StyleStateActive
      else if st = run_state_string RunStateFailed \<or> st = run_state_string RunStateAborted then StyleStateFailed
      else StyleSubtle)"

definition run_lines :: "layout \<Rightarrow> tui \<Rightarrow> int \<Rightarrow> nat \<Rightarrow> run_row \<Rightarrow> string list" where
  "run_lines ly m w i r =
     (let here = (int i = tu_runCursor m);
          line = pointer here @ cut 12 (rr_id r) @ (if rr_id r = tu_focusRunID m then '' *'' else []) @ ''  '' @ rr_mode r @
            ''  '' @ ly_render ly (run_state_style (rr_state r)) (rr_state r) @ ''  '' @ age_text ly (rr_since r)
      in selected ly here w line #
         (case tu_costByRun m (rr_id r) of
            Some cost \<Rightarrow>
              if cost > 0
              then [ly_render ly StyleCost (''    cost: $'' @ ly_float ly 4 cost @
                      (if tu_budgetUSD m > 0 then '' / $'' @ ly_float ly 2 (tu_budgetUSD m) else []))]
              else []
          | None \<Rightarrow> []))"

definition renderRunsContent :: "layout \<Rightarrow> tui \<Rightarrow> int \<Rightarrow> int \<Rightarrow> string" where
  "renderRunsContent ly m w h =
     (if tu_runs m = [] then ly_render ly StyleSubtle ''no runs yet''
      else ly_vertical ly (pane_lines (run_lines ly m w) h 0 (tu_runs m) []))"

definition renderRunsPane :: "layout \<Rightarrow> tui \<Rightarrow> int \<Rightarrow> int \<Rightarrow> string" where
  "renderRunsPane ly m w h =
     framed ly (tu_activePane m = PaneRuns) w h (ly_render ly StyleTitle ''Runs'') (renderRunsContent ly m (w - 4) (h - 2))"

section \<open>views.go: jobs\<close>

definition job_state_style :: "string \<Rightarrow> style" where
  "job_state_style st =
     (if st = job_state_string JobStateRunning then StyleStateActive
      else if st = job_state_string JobStateFailed \<or> st = job_state_string JobStateCancelled then StyleStateFailed
      else if st = job_state_string JobStateDispatched then StyleStateWaiting
      else StyleSubtle)"

definition shown_jobs :: "tui \<Rightarrow> job_row list" where
  "shown_jobs m = (if tu_focusRunID m = [] then tu_jobs m else filter (\<lambda>j. jo_runID j = tu_focusRunID m) (tu_jobs m))"

definition job_line :: "layout \<Rightarrow> tui \<Rightarrow> int \<Rightarrow> nat \<Rightarrow> job_row \<Rightarrow> string list" where
  "job_line ly m w i j =
     (let here = (int i = tu_jobCursor m);
          line = pointer here @ pad_right 14 (cut 14 (jo_role j)) @ ''  '' @
            pad_right 10 (ly_render ly (job_state_style (jo_state j)) (jo_state j)) @ ''  '' @
            ly_render ly StyleSubtle (jo_cli j) @ ''  '' @ age_text ly (jo_since j)
      in [selected ly here w line])"

definition renderJobsContent :: "layout \<Rightarrow> tui \<Rightarrow> int \<Rightarrow> int \<Rightarrow> string" where
  "renderJobsContent ly m w h =
     (if shown_jobs m = [] then ly_render ly StyleSubtle ''no jobs''
      else ly_vertical ly (pane_lines (job_line ly m w) h 0 (shown_jobs m) []))"

definition renderJobsPane :: "layout \<Rightarrow> tui \<Rightarrow> int \<Rightarrow> int \<Rightarrow> string" where
  "renderJobsPane ly m w h =
     framed ly (tu_activePane m = PaneJobs) w h (ly_render ly StyleTitle ''Jobs'') (renderJobsContent ly m (w - 4) (h - 2))"

section \<open>views.go: events\<close>

definition shown_events :: "tui \<Rightarrow> event_row list" where
  "shown_events m =
     (if tu_focusRunID m = [] then tu_events m else filter (\<lambda>e. er_runID e = tu_focusRunID m) (tu_events m))"

definition event_view_line :: "layout \<Rightarrow> tui \<Rightarrow> int \<Rightarrow> nat \<Rightarrow> event_row \<Rightarrow> string" where
  "event_view_line ly m w i e =
     (let line = ly_render ly StyleSubtle (clock_of (er_ts e)) @ ''  '' @
            ly_render ly StyleEventKind (pad_right 26 (er_kind e)) @ ''  '' @ cut (nat (w - 40)) (er_raw e)
      in selected ly (int i = tu_eventCursor m) w line)"

text \<open>The slice starts at the length less the height; a negative height is past the end.\<close>

definition renderEventsContent :: "layout \<Rightarrow> tui \<Rightarrow> int \<Rightarrow> int \<Rightarrow> string option" where
  "renderEventsContent ly m w h =
     (let events = shown_events m; start = (if int (length events) > h then int (length events) - h else 0) in
      if events = [] then Some (ly_render ly StyleSubtle ''no events'')
      else if start > int (length events) then None
      else Some (ly_vertical ly
             (map (\<lambda>(i, e). event_view_line ly m w i e) (enumerate (nat start) (drop (nat start) events)))))"

definition renderEventsPane :: "layout \<Rightarrow> tui \<Rightarrow> int \<Rightarrow> int \<Rightarrow> string option" where
  "renderEventsPane ly m w h =
     map_option (framed ly (tu_activePane m = PaneEvents) w h (ly_render ly StyleTitle ''Events''))
       (renderEventsContent ly m (w - 4) (h - 2))"

section \<open>views.go: attention\<close>

definition attention_hint :: "string \<Rightarrow> string" where
  "attention_hint kind =
     (if kind = ''checkpoint'' then ''[a]pprove  [r]eject  [p]pass''
      else if kind = ''permission'' then ''[a]llow  [r]eject''
      else if kind \<in> {''question'', ''subprocess''} then ''[i]nput answer  [p]ass''
      else [])"

definition attention_lines :: "layout \<Rightarrow> tui \<Rightarrow> int \<Rightarrow> nat \<Rightarrow> attention_row_view \<Rightarrow> string list option" where
  "attention_lines ly m w i item =
     (let here = (int i = tu_attentionCursor m);
          pending = (case tu_pendingAnswers m (av_id item) of
             Some ans \<Rightarrow> ly_render ly StyleStateWaiting (''  [answering: '' @ ans @ '']'') | None \<Rightarrow> []) in
      map_option (\<lambda>question.
        let line = pointer here @ ly_render ly StyleAttentionKind (pad_right 12 (av_kind item)) @ ''  '' @ question @ pending in
        if \<not> here then [line]
        else if tu_inputMode m
        then [selected ly True w line, selected ly True w (''  > '' @ tu_inputBuffer m @ ''_'')]
        else selected ly True w line #
          (if av_kind item = ''checkpoint''
           then map (\<lambda>(n, opt). ly_render ly StyleHelp (''         ['' @ itoa (int n) @ ''] '' @ opt)) (enumerate 1 (av_options item))
           else []) @
          (if attention_hint (av_kind item) \<noteq> [] then [ly_render ly StyleHelp (''         '' @ attention_hint (av_kind item))] else []))
      (truncate_text (av_question item) (w - 30)))"

fun attention_rows :: "layout \<Rightarrow> tui \<Rightarrow> int \<Rightarrow> int \<Rightarrow> nat \<Rightarrow> attention_row_view list \<Rightarrow> string list \<Rightarrow> string list option" where
  "attention_rows ly m w h i [] acc = Some acc"
| "attention_rows ly m w h i (item # items) acc =
     (case attention_lines ly m w i item of
        None \<Rightarrow> None
      | Some ls \<Rightarrow> if int (length (acc @ ls)) \<ge> h then Some (acc @ ls) else attention_rows ly m w h (Suc i) items (acc @ ls))"

definition renderAttentionContent :: "layout \<Rightarrow> tui \<Rightarrow> int \<Rightarrow> int \<Rightarrow> string option" where
  "renderAttentionContent ly m w h =
     (if tu_attention m = [] then Some (ly_render ly StyleSubtle ''no pending items'')
      else map_option (ly_vertical ly) (attention_rows ly m w h 0 (tu_attention m) []))"

definition renderAttentionPane :: "layout \<Rightarrow> tui \<Rightarrow> int \<Rightarrow> int \<Rightarrow> string option" where
  "renderAttentionPane ly m w h =
     (let n = length (tu_attention m);
          count = (if n > 0 then ly_render ly StyleAttentionKind ('' ('' @ itoa (int n) @ '')'') else [])
      in map_option (framed ly (tu_activePane m = PaneAttention) w h (ly_render ly StyleTitle ''Attention'' @ count))
           (renderAttentionContent ly m (w - 4) (h - 2)))"

section \<open>job_detail.go\<close>

definition rule_line :: "int \<Rightarrow> string" where
  "rule_line width = concat (replicate (nat width) [CHR 0xE2, CHR 0x94, CHR 0x80])"

definition arrows :: string where
  "arrows = [CHR 0xE2, CHR 0x86, CHR 0x91]"

definition down_arrow :: string where
  "down_arrow = [CHR 0xE2, CHR 0x86, CHR 0x93]"

definition visible_range :: "tui \<Rightarrow> int \<times> int" where
  "visible_range m =
     (let len = int (length (tu_jobDetailLines m));
          start = min len (max 0 (tu_jobDetailScroll m))
      in (start, min len (start + max 1 (tu_height m - 6))))"

definition renderJobDetail :: "layout \<Rightarrow> tui \<Rightarrow> string" where
  "renderJobDetail ly m =
     (if tu_jobs m = [] \<or> tu_jobDetailJobID m = [] then ''No job selected. Press Esc to return.'' @ newline
      else case find (\<lambda>j. jo_id j = tu_jobDetailJobID m) (tu_jobs m) of
             None \<Rightarrow> ''Job not found. Press Esc to return.'' @ newline
           | Some job \<Rightarrow>
               let width = (if tu_width m < 1 then 80 else tu_width m);
                   lines = tu_jobDetailLines m; (start, end) = visible_range m;
                   header = ly_render ly StyleTitle (''Job Detail: '' @ jo_id job) @ newline @
                     ly_render ly StyleSubtle (''Run: '' @ jo_runID job @ ''  Role: '' @ jo_role job @ ''  State: '' @
                       jo_state job @ ''  CLI: '' @ jo_cli job) @ newline @ rule_line width @ newline;
                   body = (if lines = [] then ly_render ly StyleSubtle ''(no log lines yet)''
                           else ly_vertical ly (take (nat (end - start)) (drop (nat start) lines)));
                   footer = rule_line width @ newline @
                     ly_render ly StyleHelp ('' '' @ arrows @ ''/'' @ down_arrow @ '': scroll  Esc/Backspace: return  ['' @
                       itoa (if lines = [] then 0 else start + 1) @ ''-'' @ itoa end @ '' of '' @ itoa (int (length lines)) @ '']'')
               in header @ body @ newline @ footer)"

section \<open>The view\<close>

definition renderHelp :: "layout \<Rightarrow> string" where
  "renderHelp ly =
     ly_render ly StyleHelp ('' Tab: pane  '' @ arrows @ down_arrow @
       '': scroll  Enter: focus/detail  a: approve  r: reject  p: pass  i: input  q: quit  ?: help'')"

definition View :: "layout \<Rightarrow> tui \<Rightarrow> string option" where
  "View ly m =
     (if tu_quitting m then Some []
      else if tu_width m < 60 \<or> tu_height m < 15
      then Some (''Terminal too small (min 60'' @ [CHR 0xC3, CHR 0x97] @ ''15)'' @ newline)
      else case tu_err m of
             Some e \<Rightarrow> Some (''error: '' @ error_string e @ newline @ ''Press q to quit.'' @ newline)
           | None \<Rightarrow>
               if tu_jobDetailMode m then Some (renderJobDetail ly m)
               else
                 let half = tu_width m div 2; topH = (tu_height m - 3) div 2; botH = tu_height m - 3 - topH in
                 Option.bind (renderEventsPane ly m half botH) (\<lambda>botLeft.
                 Option.bind (renderAttentionPane ly m half botH) (\<lambda>botRight.
                 let body = ly_vertical ly
                       [ly_horizontal ly [renderRunsPane ly m half topH, renderJobsPane ly m half topH],
                        ly_horizontal ly [botLeft, botRight]]
                 in Some (if tu_showHelp m then ly_vertical ly [body, renderHelp ly] else body))))"

section \<open>When a view panics\<close>

lemma attention_lines_None: "attention_lines ly m w i item = None \<longleftrightarrow> w < 30"
  by (simp add: attention_lines_def Let_def truncate_text_panics)

lemma attention_rows_wide: "30 \<le> w \<Longrightarrow> attention_rows ly m w h i items acc \<noteq> None"
proof (induction items arbitrary: i acc)
  case (Cons item items)
  then obtain ls where "attention_lines ly m w i item = Some ls"
    by (metis attention_lines_None not_le option.exhaust)
  with Cons show ?case by simp
qed simp

lemma attention_content_panics:
  "renderAttentionContent ly m w h = None \<longleftrightarrow> tu_attention m \<noteq> [] \<and> w < 30"
proof (cases "tu_attention m")
  case (Cons item items)
  show ?thesis
  proof (cases "w < 30")
    case True
    then have "attention_lines ly m w 0 item = None" by (simp add: attention_lines_None)
    with True Cons show ?thesis by (simp add: renderAttentionContent_def)
  next
    case False
    with attention_rows_wide [of w ly m h 0 "tu_attention m" "[]"] Cons show ?thesis
      by (simp add: renderAttentionContent_def)
  qed
qed (simp add: renderAttentionContent_def)

lemma events_content_safe: "0 \<le> h \<Longrightarrow> renderEventsContent ly m w h \<noteq> None"
  by (simp add: renderEventsContent_def Let_def)

text \<open>
  C34. Drawing the dashboard panics exactly when it is drawn at all, the terminal is between 60 and 67 columns
  wide, which the size check lets through, and an item waits for attention.
\<close>

theorem view_panics_iff:
  "View ly m = None \<longleftrightarrow>
     \<not> tu_quitting m \<and> 15 \<le> tu_height m \<and> 60 \<le> tu_width m \<and> tu_width m < 68 \<and> tu_err m = None \<and>
     \<not> tu_jobDetailMode m \<and> tu_attention m \<noteq> []"
proof -
  let ?botH = "tu_height m - 3 - (tu_height m - 3) div 2"
  have e: "renderEventsPane ly m (tu_width m div 2) ?botH \<noteq> None" if "15 \<le> tu_height m"
  proof -
    have "0 \<le> ?botH - 2" using that by arith
    then show ?thesis using events_content_safe by (simp add: renderEventsPane_def)
  qed
  have a: "renderAttentionPane ly m (tu_width m div 2) ?botH = None \<longleftrightarrow> tu_attention m \<noteq> [] \<and> tu_width m < 68"
    by (auto simp: renderAttentionPane_def Let_def attention_content_panics)
  show ?thesis
  proof (cases "tu_quitting m \<or> tu_width m < 60 \<or> tu_height m < 15 \<or> tu_err m \<noteq> None \<or> tu_jobDetailMode m")
    case True
    then show ?thesis by (auto simp: View_def split: option.split)
  next
    case False
    with e obtain l where "renderEventsPane ly m (tu_width m div 2) ?botH = Some l" by auto
    with False a show ?thesis by (auto simp: View_def Let_def split: option.split bind_split)
  qed
qed

end
