(* ===== verification/Front_Facts.thy ===== *)
theory Front_Facts
  imports Http_Api Tui_View Agent_Facts "HOL-Library.Multiset"
begin

text \<open>
  The dashboard at work: the program that runs its commands, what it never does, and what happens when it
  talks to the handlers of the daemon.
\<close>

section \<open>Cursors\<close>

definition in_range :: "int \<Rightarrow> 'a list \<Rightarrow> bool" where
  "in_range c xs \<longleftrightarrow> 0 \<le> c \<and> (c = 0 \<or> c < int (length xs))"

definition tui_ok :: "tui \<Rightarrow> bool" where
  "tui_ok m \<longleftrightarrow> in_range (tu_runCursor m) (tu_runs m) \<and> in_range (tu_jobCursor m) (tu_jobs m) \<and>
     in_range (tu_eventCursor m) (tu_events m) \<and> in_range (tu_attentionCursor m) (tu_attention m) \<and>
     0 \<le> tu_jobDetailScroll m \<and> distinct (map av_id (tu_attention m)) \<and> length (tu_events m) \<le> 200"

lemma index_in_range: "in_range c xs \<Longrightarrow> xs \<noteq> [] \<Longrightarrow> \<exists>x. index_at xs c = Some x"
  by (cases xs) (auto simp: in_range_def index_at_def)

lemma in_range_longer: "in_range c xs \<Longrightarrow> length xs \<le> length ys \<Longrightarrow> in_range c ys"
  by (auto simp: in_range_def)

lemma length_update_first [simp]: "length (update_first P f xs) = length xs"
  by (induction xs) auto

lemma length_foldl_le: "(\<And>xs x. length xs \<le> length (f xs x)) \<Longrightarrow> length xs \<le> length (foldl f xs ys)"
proof (induction ys arbitrary: xs)
  case (Cons y ys)
  from Cons.IH [of "f xs y"] Cons.prems [of xs y] Cons.prems show ?case by (auto intro: le_trans)
qed simp

lemma rows_grow:
  "length rows \<le> length (appendOrUpdateRun rows ev)" "length rows = length (updateRunState rows r st)"
  "length jobs \<le> length (appendOrUpdateJob jobs ev)" "length jobs = length (updateJobState jobs ev js)"
  "length rows \<le> length (foldl snapshot_run rows rs)" "length jobs \<le> length (foldl snapshot_job jobs ws)"
  "length as \<le> length (foldl snapshot_attention as items)"
  by (auto simp: appendOrUpdateRun_def updateRunState_def appendOrUpdateJob_def updateJobState_def Let_def snapshot_run_def
      snapshot_job_def snapshot_attention_def intro!: length_foldl_le)

lemma snapshot_distinct:
  "distinct (map av_id as) \<Longrightarrow> distinct (map av_id (foldl snapshot_attention as items))"
  by (induction items arbitrary: as) (auto simp: snapshot_attention_def)

lemma filter_one:
  "distinct (map f xs) \<Longrightarrow> length xs \<le> Suc (length (filter (\<lambda>x. f x \<noteq> i) xs))"
proof (induction xs)
  case (Cons x xs)
  then show ?case
  proof (cases "f x = i")
    case True
    with Cons.prems have "filter (\<lambda>x. f x \<noteq> i) xs = xs" by (metis (mono_tags, lifting) distinct.simps(2) filter_True image_eqI list.set_map list.simps(9))
    with True show ?thesis by simp
  qed simp
qed simp

text \<open>\<open>new_item\<close>: an item that is announced is not in the list already.\<close>

definition new_item :: "decoders \<Rightarrow> tui \<Rightarrow> tui_msg \<Rightarrow> bool" where
  "new_item dc m msg \<longleftrightarrow>
     (case msg of
        EventMsg ev \<Rightarrow>
          (case Option.bind (json_text (we_payload ev)) (decode_attention dc) of
             Some item \<Rightarrow> \<not> kind_is ev EventAttentionCreated \<or> av_id item \<notin> av_id ` set (tu_attention m)
           | None \<Rightarrow> True)
      | _ \<Rightarrow> True)"

lemma kinds_apart: "event_kind_string k = event_kind_string k' \<longleftrightarrow> k = k'"
  by (cases k; cases k') simp_all

lemma length_last_events: "length (last_events es) \<le> 200"
  by (simp add: last_events_def)

lemma applyEvent_ok:
  assumes ok: "tui_ok m" and new: "new_item dc m (EventMsg ev)"
  shows "tui_ok (applyEvent dc m ev)"
proof -
  let ?m = "m\<lparr>tu_events := last_events (tu_events m @ [event_line ev])\<rparr>"
  have "length (tu_events m) \<le> length (last_events (tu_events m @ [event_line ev]))"
    using ok by (auto simp: tui_ok_def last_events_def)
  with ok have 0: "tui_ok ?m" by (auto simp: tui_ok_def length_last_events intro: in_range_longer)
  have att: "tui_ok (?m\<lparr>tu_attention := removeAttentionItem (tu_attention m) i,
      tu_attentionCursor := (if tu_attentionCursor m \<ge> int (length (removeAttentionItem (tu_attention m) i)) \<and> tu_attentionCursor m > 0
                 then tu_attentionCursor m - 1 else tu_attentionCursor m)\<rparr>)" for i
  proof -
    have "distinct (map av_id (tu_attention m))" using ok by (simp add: tui_ok_def)
    from filter_one [OF this, of i] 0 show ?thesis
      by (auto simp: tui_ok_def removeAttentionItem_def in_range_def distinct_map_filter)
  qed
  have runs: "tui_ok (?m\<lparr>tu_runs := rs\<rparr>)" if "length (tu_runs m) \<le> length rs" for rs
    using 0 that by (auto simp: tui_ok_def intro: in_range_longer)
  have jobs: "tui_ok (?m\<lparr>tu_jobs := js\<rparr>)" if "length (tu_jobs m) \<le> length js" for js
    using 0 that by (auto simp: tui_ok_def intro: in_range_longer)
  show ?thesis
    unfolding applyEvent_def Let_def
    using 0 att [of "we_causation_id ev"] new rows_grow
    by (auto simp: runs jobs new_item_def kind_is_def tui_ok_def split: option.split intro: in_range_longer)
qed

text \<open>No key panics, and no key leaves the cursors out of range.\<close>

definition key_result_ok :: "(tui \<times> tui_cmd) option \<Rightarrow> bool" where
  "key_result_ok r \<longleftrightarrow> (\<exists>m c. r = Some (m, c) \<and> tui_ok m)"

lemma selection_ok:
  assumes "tui_ok m"
  shows "key_result_ok (submitInputAnswer m)" "key_result_ok (answerSelected m key)"
    "key_result_ok (handleInputStart m)" "key_result_ok (handleEnterKey m)"
  using assms index_in_range [of "tu_attentionCursor m" "tu_attention m"] index_in_range [of "tu_runCursor m" "tu_runs m"]
    index_in_range [of "tu_jobCursor m" "tu_jobs m"]
  by (auto simp: key_result_ok_def submitInputAnswer_def answerSelected_def handleInputStart_def handleEnterKey_def
      post_answer_def tui_ok_def map_option_case)

lemma scroll_ok_step:
  assumes "tui_ok m" and "\<And>c n. 0 \<le> c \<Longrightarrow> c = 0 \<or> c < int n \<Longrightarrow> 0 \<le> f c n \<and> (f c n = 0 \<or> f c n < int n)"
  shows "tui_ok (scroll f m)"
  using assms by (cases "tu_activePane m") (simp_all add: scroll_def tui_ok_def in_range_def)

lemma scroll_ok:
  assumes "tui_ok m" shows "tui_ok (scrollUp m)" "tui_ok (scrollDown m)"
  unfolding scrollUp_def scrollDown_def by (rule scroll_ok_step [OF assms]; auto)+

lemma handleKey_ok: "tui_ok m \<Longrightarrow> key_result_ok (handleKey m key runes)"
proof -
  assume ok: "tui_ok m"
  have other: "key_result_ok (Some (handleEscape m))" "key_result_ok (Some (exitJobDetail m, NoCmd))"
    "key_result_ok (Some (handleJobDetailKey m key))" "key_result_ok (handleInputModeKey m key runes)"
    using ok selection_ok(1) [OF ok]
    by (auto simp: key_result_ok_def handleEscape_def exitJobDetail_def handleJobDetailKey_def handleInputModeKey_def Let_def tui_ok_def)
  have "key_result_ok (handleNormalKey m key)"
    unfolding handleNormalKey_def
    using ok selection_ok [OF ok] scroll_ok [OF ok] by (auto simp: key_result_ok_def tui_ok_def)
  with other show ?thesis by (simp add: handleKey_def)
qed

lemma Update_ok: "tui_ok m \<Longrightarrow> new_item dc m msg \<Longrightarrow> key_result_ok (Update dc m msg)"
proof (cases msg)
  case (KeyMsg key runes)
  assume "tui_ok m"
  with KeyMsg handleKey_ok show ?thesis by simp
next
  case (EventMsg ev)
  assume "tui_ok m" "new_item dc m msg"
  with EventMsg applyEvent_ok show ?thesis by (simp add: key_result_ok_def)
next
  case (SnapshotMsg sn)
  assume "tui_ok m"
  then have "tui_ok (applySnapshot m sn)"
    using rows_grow snapshot_distinct by (auto simp: tui_ok_def applySnapshot_def intro: in_range_longer)
  with SnapshotMsg show ?thesis by (simp add: key_result_ok_def)
qed (auto simp: key_result_ok_def tui_ok_def sseBackoffCmd_def Let_def applyJobLog_def)

text \<open>A sequence of messages, with the condition on the items that it announces.\<close>

fun updates :: "decoders \<Rightarrow> tui_msg list \<Rightarrow> tui \<Rightarrow> tui option" where
  "updates dc [] m = Some m"
| "updates dc (msg # msgs) m = (case Update dc m msg of None \<Rightarrow> None | Some (m', _) \<Rightarrow> updates dc msgs m')"

fun new_items :: "decoders \<Rightarrow> tui_msg list \<Rightarrow> tui \<Rightarrow> bool" where
  "new_items dc [] m \<longleftrightarrow> True"
| "new_items dc (msg # msgs) m \<longleftrightarrow>
     new_item dc m msg \<and> (case Update dc m msg of None \<Rightarrow> True | Some (m', _) \<Rightarrow> new_items dc msgs m')"

lemma updates_ok: "tui_ok m \<Longrightarrow> new_items dc msgs m \<Longrightarrow> \<exists>m'. updates dc msgs m = Some m' \<and> tui_ok m'"
proof (induction msgs arbitrary: m)
  case (Cons msg msgs)
  then have "new_item dc m msg" by simp
  from Update_ok [OF Cons.prems(1) this] obtain m' c where u: "Update dc m msg = Some (m', c)" "tui_ok m'"
    unfolding key_result_ok_def by blast
  with Cons.prems(2) Cons.IH [of m'] show ?case by simp
qed simp

text \<open>
  C35. From a new dashboard no sequence of messages makes an update panic, as long as no announced item is
  already in the list; the cursors of all four panes (runs, jobs, events, attention) stay within their rows, or at
  0 when there are none, the scroll offset of the job log is never negative, and at most 200 event lines are kept.
\<close>

theorem dashboard_never_panics:
  assumes "new_items dc msgs (New cfg)"
  shows "\<exists>m. updates dc msgs (New cfg) = Some m \<and> tui_ok m"
proof (rule updates_ok [OF _ assms])
  show "tui_ok (New cfg)" by (simp add: New_def tui_ok_def in_range_def)
qed

definition plain_config :: tui_config where
  "plain_config = \<lparr>tc_BaseURL = ''http://localhost:7700'', tc_RunID = []\<rparr>"

definition no_decoders :: decoders where
  "no_decoders = \<lparr>dc_time = (\<lambda>_. Some zero_instant), dc_float = (\<lambda>_. None)\<rparr>"

definition waiting_item :: "ident \<Rightarrow> attention_row_view" where
  "waiting_item i = \<lparr>av_id = i, av_runID = ''r1'', av_kind = ''checkpoint'', av_question = ''plan-approved'', av_options = []\<rparr>"

definition plain_messages :: "tui_msg list" where
  "plain_messages =
     [SnapshotMsg \<lparr>sn_runs = [], sn_jobs = [], sn_attention = [waiting_item ''a1'']\<rparr>,
      KeyMsg ''shift+tab'' [], KeyMsg ''down'' [], KeyMsg ''a'' ''a'']"

theorem dashboard_never_panics_witness: "\<exists>m. updates no_decoders plain_messages (New plain_config) = Some m \<and> tui_ok m"
proof (rule dashboard_never_panics)
  have "new_item no_decoders m msg" if "msg \<in> set plain_messages" for m msg
    using that by (auto simp: plain_messages_def new_item_def)
  then have "set msgs \<subseteq> set plain_messages \<Longrightarrow> new_items no_decoders msgs m" for msgs m
    by (induction msgs arbitrary: m) (auto split: option.split prod.split)
  then show "new_items no_decoders plain_messages (New plain_config)" by simp
qed

text \<open>With the same item announced twice the cursor is left behind the list, and the next answer panics.\<close>

lemma duplicate_item_panics:
  assumes "kind_is ev EventAttentionResolved" and "we_causation_id ev = av_id a" and "tu_attention m = [a, a]"
    and "tu_attentionCursor m = 1" and "tu_activePane m = PaneAttention" and "tu_jobDetailMode m = False"
  shows "updates dc [EventMsg ev] m \<noteq> None \<and>
    (\<forall>b. (case Update dc (applyEvent dc m ev) (EventMsg b) of None \<Rightarrow> False | Some _ \<Rightarrow> True)) \<and>
    tu_attentionCursor (applyEvent dc m ev) = 0 \<and> tu_attention (applyEvent dc m ev) = []"
  using assms by (simp add: applyEvent_def kind_is_def removeAttentionItem_def)

section \<open>The running program\<close>

text \<open>
  The program holds the commands that are under way, in no order. A command that is done gives its message to
  the update function, which may start others; every completion may find another network. The labels tell the
  steps apart that refuse an answer.
\<close>

fun spawn :: "tui_cmd \<Rightarrow> tui_cmd multiset" where
  "spawn NoCmd = {#}"
| "spawn Quit = {#}"
| "spawn (Batch cs) = mset cs"
| "spawn c = {#c#}"

datatype dash_label = Silent | Refused

type_synonym dash = "tui \<times> tui_cmd multiset"

inductive dash_step :: "decoders \<Rightarrow> dash \<Rightarrow> dash_label \<Rightarrow> dash \<Rightarrow> bool" for dc where
  key: "Update dc m (KeyMsg k r) = Some (m', c) \<Longrightarrow> dash_step dc (m, cs) Silent (m', cs + spawn c)"
| resize: "Update dc m (WindowSizeMsg w h) = Some (m', c) \<Longrightarrow> dash_step dc (m, cs) Silent (m', cs + spawn c)"
| stream: "tn_dec nt = dc \<Longrightarrow> Update dc m (subscribeSSE nt b r) = Some (m', c) \<Longrightarrow>
    dash_step dc (m, add_mset (SubscribeSSE b r) cs) Silent (m', cs + spawn c)"
| tick: "Update dc m RetrySSEMsg = Some (m', c) \<Longrightarrow> dash_step dc (m, add_mset (Tick d) cs) Silent (m', cs + spawn c)"
| snapshot: "tn_dec nt = dc \<Longrightarrow> Update dc m (SnapshotMsg (fetchSnapshot nt b r)) = Some (m', c) \<Longrightarrow>
    dash_step dc (m, add_mset (FetchSnapshot b r) cs) Silent (m', cs + spawn c)"
| job_log: "Update dc m (loadJobLog nt r j) = Some (m', c) \<Longrightarrow>
    dash_step dc (m, add_mset (LoadJobLog r j) cs) Silent (m', cs + spawn c)"
| accepted: "submitAnswer nt b i a = None \<Longrightarrow> dash_step dc (m, add_mset (SubmitAnswer b i a) cs) Silent (m, cs)"
| refused: "submitAnswer nt b i a = Some msg \<Longrightarrow> Update dc m msg = Some (m', c) \<Longrightarrow>
    dash_step dc (m, add_mset (SubmitAnswer b i a) cs) Refused (m', cs + spawn c)"

inductive dash_run :: "decoders \<Rightarrow> dash \<Rightarrow> dash_label list \<Rightarrow> dash \<Rightarrow> bool" for dc where
  stop: "dash_run dc s [] s"
| go: "dash_run dc s ls t \<Longrightarrow> dash_step dc t l u \<Longrightarrow> dash_run dc s (ls @ [l]) u"

inductive_cases dash_stepE: "dash_step dc s l t"

definition dash_start :: "tui_config \<Rightarrow> dash" where
  "dash_start cfg = (New cfg, spawn (Init (New cfg)))"

text \<open>What the messages of the commands are.\<close>

lemma subscribeSSE_msg: "(\<exists>ev. subscribeSSE nt b r = EventMsg ev) \<or> (\<exists>e. subscribeSSE nt b r = ErrMsg e)"
  by (auto simp: subscribeSSE_def Let_def split: option.split sse_reply.split)

lemma submitAnswer_msg: "submitAnswer nt b i a = Some msg \<Longrightarrow> \<exists>e. msg = ErrMsg e"
  by (auto simp: submitAnswer_def Let_def split: option.splits http_reply.splits if_splits)

lemma loadJobLog_msg: "\<exists>lines. loadJobLog nt r j = JobLogMsg j lines"
  by (auto simp: loadJobLog_def split: option.split)

subsection \<open>Subscriptions\<close>

definition listens :: "tui_cmd \<Rightarrow> bool" where
  "listens c \<longleftrightarrow> (case c of SubscribeSSE _ _ \<Rightarrow> True | Tick _ \<Rightarrow> True | _ \<Rightarrow> False)"

definition listeners :: "tui_cmd multiset \<Rightarrow> nat" where
  "listeners cs = size (filter_mset listens cs)"

lemma listeners_simps [simp]:
  "listeners {#} = 0" "listeners (cs + ds) = listeners cs + listeners ds"
  "listeners (add_mset c cs) = (if listens c then 1 else 0) + listeners cs"
  by (simp_all add: listeners_def)

lemma listens_simps [simp]:
  "listens (SubscribeSSE b r)" "listens (Tick d)" "\<not> listens (FetchSnapshot b r)" "\<not> listens (SubmitAnswer b i a)"
  "\<not> listens (LoadJobLog r j)"
  by (simp_all add: listens_def)

text \<open>\<open>mild m r\<close>: what a key leads to listens no more than before and keeps the error.\<close>

definition mild :: "tui \<Rightarrow> (tui \<times> tui_cmd) option \<Rightarrow> bool" where
  "mild m r \<longleftrightarrow> (\<forall>m' c. r = Some (m', c) \<longrightarrow> listeners (spawn c) = 0 \<and> tu_err m' = tu_err m)"

lemma mild_Some: "mild m (Some (m', c)) \<longleftrightarrow> listeners (spawn c) = 0 \<and> tu_err m' = tu_err m"
  by (auto simp: mild_def)

lemma mild_if: "mild m x \<Longrightarrow> mild m y \<Longrightarrow> mild m (if b then x else y)"
  by simp

lemma mild_map: "(\<And>x. mild m (Some (f x))) \<Longrightarrow> mild m (map_option f o_x)"
  by (cases o_x) (auto simp: mild_def)

lemma scroll_err: "tu_err (scrollUp m) = tu_err m" "tu_err (scrollDown m) = tu_err m"
  by (simp_all add: scrollUp_def scrollDown_def scroll_def split: pane.split)

lemma mild_selection:
  "mild m (submitInputAnswer m)" "mild m (answerSelected m k)" "mild m (handleInputStart m)" "mild m (handleEnterKey m)"
  unfolding submitInputAnswer_def answerSelected_def handleInputStart_def handleEnterKey_def
  by (intro mild_if mild_map; simp add: mild_Some post_answer_def)+

lemma mild_normal: "mild m (handleNormalKey m k)"
  unfolding handleNormalKey_def by (intro mild_if mild_selection) (simp_all add: mild_Some scroll_err)

lemma mild_other:
  "mild m (Some (handleEscape m))" "mild m (Some (exitJobDetail m, NoCmd))" "mild m (Some (handleJobDetailKey m k))"
  "mild m (handleInputModeKey m k r)"
  using mild_selection(1) [of m]
  by (simp_all add: handleEscape_def exitJobDetail_def handleJobDetailKey_def handleInputModeKey_def Let_def mild_Some)

lemma mild_key: "mild m (handleKey m k r)"
  unfolding handleKey_def by (intro mild_if mild_normal mild_other)

lemma key_starts_no_listener: "handleKey m k r = Some (m', c) \<Longrightarrow> listeners (spawn c) = 0"
  and key_keeps_error: "handleKey m k r = Some (m', c) \<Longrightarrow> tu_err m' = tu_err m"
  using mild_key [of m k r] by (simp_all add: mild_def)

lemma dash_step_listeners:
  "dash_step dc s l t \<Longrightarrow> listeners (snd t) = listeners (snd s) + (if l = Refused then 1 else 0)"
proof (induction rule: dash_step.induct)
  case (key m k r m' c cs)
  then show ?case by (simp add: key_starts_no_listener)
next
  case (stream nt m b r m' c cs)
  with subscribeSSE_msg [of nt b r] show ?case by (auto simp: subscribe_def sseBackoffCmd_def Let_def)
next
  case (job_log m nt r j m' c cs)
  with loadJobLog_msg [of nt r j] show ?case by auto
next
  case (refused nt b i a msg m m' c cs)
  with submitAnswer_msg show ?case by (fastforce simp: sseBackoffCmd_def Let_def)
qed (auto simp: subscribe_def)

lemma dash_run_listeners:
  "dash_run dc s ls t \<Longrightarrow> listeners (snd t) = listeners (snd s) + count_list ls Refused"
  by (induction rule: dash_run.induct) (auto dest: dash_step_listeners)

text \<open>
  C36. The number of subscriptions under way is one plus the number of answers that were refused: every refused
  answer starts another one for good, so events are then applied several times.
\<close>

theorem refused_answers_multiply_subscriptions:
  assumes "dash_run dc (dash_start cfg) ls (m, cs)"
  shows "listeners cs = 1 + count_list ls Refused"
proof -
  have "listeners (snd (dash_start cfg)) = 1" by (simp add: dash_start_def Init_def subscribe_def)
  with dash_run_listeners [OF assms] show ?thesis by simp
qed

subsection \<open>Errors\<close>

lemma event_keeps_error: "tu_err (applyEvent dc m ev) = tu_err m"
  by (simp add: applyEvent_def Let_def split: option.split)

lemma dash_step_error: "dash_step dc s l t \<Longrightarrow> tu_err (fst s) \<noteq> None \<Longrightarrow> tu_err (fst t) \<noteq> None"
proof (induction rule: dash_step.induct)
  case (key m k r m' c cs)
  then show ?case by (simp add: key_keeps_error)
next
  case (stream nt m b r m' c cs)
  with subscribeSSE_msg [of nt b r] show ?case by (auto simp: sseBackoffCmd_def Let_def event_keeps_error)
next
  case (job_log m nt r j m' c cs)
  with loadJobLog_msg [of nt r j] show ?case by (auto simp: applyJobLog_def)
next
  case (refused nt b i a msg m m' c cs)
  with submitAnswer_msg show ?case by (fastforce simp: sseBackoffCmd_def Let_def)
qed (auto simp: applySnapshot_def)

lemma dash_run_error: "dash_run dc s ls t \<Longrightarrow> tu_err (fst s) \<noteq> None \<Longrightarrow> tu_err (fst t) \<noteq> None"
  by (induction rule: dash_run.induct) (auto dest: dash_step_error)

text \<open>
  An error stays: whatever the program does after a failed connection or a refused answer, a terminal of
  sufficient size shows an error, and neither rows nor items.
\<close>

lemma dashboard_error_sticky:
  assumes "dash_run dc (m, cs) ls (m', cs')" and "tu_err m = Some e"
    and "60 \<le> tu_width m'" and "15 \<le> tu_height m'" and "\<not> tu_quitting m'"
  shows "\<exists>e'. View ly m' = Some (''error: '' @ error_string e' @ newline @ ''Press q to quit.'' @ newline)"
  using dash_run_error [OF assms(1)] assms(2-) by (auto simp: View_def)

subsection \<open>A sample run\<close>

text \<open>One item waits; the answer to it is refused.\<close>

definition sample_net :: tui_net where
  "sample_net =
     \<lparr>tn_bad_url = (\<lambda>_. None), tn_stream = (\<lambda>_. SSE_No_Reply ErrEOF),
      tn_http = (\<lambda>rq. if rq_method rq = GET \<and> rq_url rq = ''http://localhost:7700/attention''
                      then Reply 200 ''200 OK'' (dquoted ''[{|id|:|a1|}]'') else Reply 400 ''400 Bad Request'' []),
      tn_read_file = (\<lambda>_. None), tn_dec = no_decoders\<rparr>"

definition bare_item :: attention_row_view where
  "bare_item = \<lparr>av_id = ''a1'', av_runID = [], av_kind = [], av_question = [], av_options = []\<rparr>"

lemma sample_snapshot:
  "fetchSnapshot sample_net ''http://localhost:7700'' [] = \<lparr>sn_runs = [], sn_jobs = [], sn_attention = [bare_item]\<rparr>"
  by (simp add: fetchSnapshot_def sample_net_def Let_def with_query_def encode_values_def trim_slashes_def trim_right_by_def
      getJSON_def json_head_def json_eval json_elements.simps slice_of_def decode_attention_def struct_members_def str_field_def strings_field_def
      opt_time_def no_decoders_def bare_item_def key_is_def)

definition sample_shown :: tui where
  "sample_shown = (New plain_config)\<lparr>tu_attention := [bare_item], tu_activePane := PaneAttention\<rparr>"

lemma sample_dash_run:
  "\<exists>m d. dash_run no_decoders (dash_start plain_config) [Silent, Silent, Silent, Refused]
     (m, {#SubscribeSSE ''http://localhost:7700'' [], Tick d#}) \<and> tu_err m \<noteq> None"
proof -
  let ?u = "''http://localhost:7700''" and ?dc = no_decoders
  let ?S = "SubscribeSSE ?u []"
  let ?m0 = "New plain_config" and ?m1 = "(New plain_config)\<lparr>tu_attention := [bare_item]\<rparr>" and ?m2 = sample_shown
  let ?m3 = "?m2\<lparr>tu_pendingAnswers := [''a1'' \<mapsto> ''yes'']\<rparr>" and ?sub = "SubmitAnswer ?u ''a1'' ''yes''"
  have start: "dash_start plain_config = (?m0, add_mset (FetchSnapshot ?u []) {#?S#})"
    by (simp add: dash_start_def Init_def subscribe_def New_def plain_config_def)
  have u1: "Update ?dc ?m0 (SnapshotMsg (fetchSnapshot sample_net ?u [])) = Some (?m1, NoCmd)"
    by (simp add: sample_snapshot applySnapshot_def snapshot_attention_def New_def)
  have s1: "dash_step ?dc (dash_start plain_config) Silent (?m1, {#?S#})"
    unfolding start using dash_step.snapshot [of sample_net ?dc ?m0 ?u "[]" ?m1 NoCmd "{#?S#}"] u1 by (simp add: sample_net_def)
  have u2: "Update ?dc ?m1 (KeyMsg ''shift+tab'' []) = Some (?m2, NoCmd)"
    by (simp add: handleKey_def handleNormalKey_def New_def sample_shown_def)
  have s2: "dash_step ?dc (?m1, {#?S#}) Silent (?m2, {#?S#})"
    using dash_step.key [OF u2, of "{#?S#}"] by simp
  have u3: "Update ?dc ?m2 (KeyMsg ''a'' ''a'') = Some (?m3, ?sub)"
    by (simp add: handleKey_def handleNormalKey_def answerSelected_def index_at_def post_answer_def answer_of_key_def New_def
        sample_shown_def bare_item_def plain_config_def)
  have s3: "dash_step ?dc (?m2, {#?S#}) Silent (?m3, add_mset ?sub {#?S#})"
    using dash_step.key [OF u3, of "{#?S#}"] by (simp add: add_mset_commute)
  let ?e = "Errorf ''submit answer: daemon returned %d'' [itoa 400]"
  have r: "submitAnswer sample_net ?u ''a1'' ''yes'' = Some (ErrMsg ?e)"
    by (simp add: submitAnswer_def sample_net_def)
  obtain m4 d where u4: "Update ?dc ?m3 (ErrMsg ?e) = Some (m4, Tick d)" "tu_err m4 = Some ?e"
    by (simp add: sseBackoffCmd_def Let_def)
  have s4: "dash_step ?dc (?m3, add_mset ?sub {#?S#}) Refused (m4, {#?S, Tick d#})"
    using dash_step.refused [OF r u4(1), of "{#?S#}"] by (simp add: add_mset_commute)
  have "dash_run ?dc (dash_start plain_config) ([] @ [Silent]) (?m1, {#?S#})" by (rule dash_run.go [OF dash_run.stop s1])
  from dash_run.go [OF dash_run.go [OF dash_run.go [OF this s2] s3] s4] u4(2) show ?thesis by auto
qed

theorem refused_answers_multiply_subscriptions_witness:
  "\<exists>cs. listeners cs = 1 + count_list [Silent, Silent, Silent, Refused] Refused"
  using sample_dash_run refused_answers_multiply_subscriptions [of no_decoders plain_config "[Silent, Silent, Silent, Refused]"]
  by blast

lemma dashboard_error_sticky_witness:
  "\<exists>m ly e'. View ly m = Some (''error: '' @ error_string e' @ newline @ ''Press q to quit.'' @ newline)"
proof -
  let ?m = "(New plain_config)\<lparr>tu_err := Some ErrEOF, tu_width := 80, tu_height := 24\<rparr>"
  let ?m' = "?m\<lparr>tu_width := 100, tu_height := 30\<rparr>"
  have "dash_step no_decoders (?m, {#}) Silent (?m', {#})"
    using dash_step.resize [of no_decoders ?m 100 30 ?m' NoCmd "{#}"] by simp
  from dash_run.go [OF dash_run.stop this] have "dash_run no_decoders (?m, {#}) [Silent] (?m', {#})" by simp
  from dashboard_error_sticky [OF this, of ErrEOF undefined] show ?thesis by (auto simp: New_def)
qed

end
