(* ===== verification/Daemon_Facts.thy ===== *)
theory Daemon_Facts
  imports Front_Facts Mcp_Facts
begin

text \<open>
  The daemon as the server of the dashboard: the requests that the commands of the dashboard make are routed to
  the handlers of \<open>Http_Api\<close>. \<open>encode\<close> is \<open>encoding/json\<close> on a response, \<open>num\<close> the text of a number.
\<close>

section \<open>Routing the requests of the dashboard\<close>

fun wire :: "(rat \<Rightarrow> string) \<Rightarrow> json \<Rightarrow> jtext" where
  "wire num JNull = TNull"
| "wire num (JBool b) = TBool b"
| "wire num (JInt i) = TNum (itoa i)"
| "wire num (JNum q) = TNum (num q)"
| "wire num (JStr s) = TStr s"
| "wire num (JArr vs) = TArr (map (wire num) vs)"
| "wire num (JObj kvs) = TObj (map (\<lambda>(k, v). (k, wire num v)) kvs)"
| "wire num (JInvalid s) = TNull"

record daemon =
  da_base :: string
  da_encode :: "json \<Rightarrow> string"
  da_num :: "rat \<Rightarrow> string"
  da_show_time :: "time \<Rightarrow> string"

definition path_segments :: "string \<Rightarrow> string \<Rightarrow> string list" where
  "path_segments base url = split_on (CHR ''/'') (takeWhile (\<lambda>c. c \<noteq> CHR ''?'') (drop (Suc (length base)) url))"

definition to_api :: "daemon \<Rightarrow> http_request \<Rightarrow> api_request option" where
  "to_api da rq =
     (let segs = path_segments (da_base da) (rq_url rq) in
      case rq_method rq of
        GET \<Rightarrow> Some (Api_GET segs)
      | POST \<Rightarrow> Some (Api_POST segs (map_option (wire (da_num da)) (rq_body rq)))
      | DELETE \<Rightarrow> None)"

definition reply_of :: "daemon \<Rightarrow> api_response \<Rightarrow> http_reply" where
  "reply_of da resp =
     (case resp of
        Api_Error code msg \<Rightarrow> Reply code (itoa code) (msg @ newline)
      | Api_JSON code v \<Rightarrow> Reply code (itoa code) (da_encode da v @ newline))"

definition daemon_serve :: "daemon \<Rightarrow> http_request \<Rightarrow> world \<Rightarrow> http_reply \<times> world" where
  "daemon_serve da rq w =
     (case to_api da rq of
        None \<Rightarrow> (Reply 405 (itoa 405) [], w)
      | Some api \<Rightarrow>
          (case serveHTTP (da_show_time da) True api w of
             (Inl e, w') \<Rightarrow> (No_Reply e, w')
           | (Inr resp, w') \<Rightarrow> (reply_of da resp, w')))"

definition plain_ident :: "string \<Rightarrow> bool" where
  "plain_ident i \<longleftrightarrow> i \<noteq> [] \<and> CHR ''/'' \<notin> set i \<and> CHR ''?'' \<notin> set i"

lemma no_mark_id: "CHR ''?'' \<notin> set s \<Longrightarrow> takeWhile (\<lambda>c. c \<noteq> CHR ''?'') (s @ CHR ''?'' # r) = s"
  by (induction s) auto

lemma no_mark_all: "CHR ''?'' \<notin> set s \<Longrightarrow> takeWhile (\<lambda>c. c \<noteq> CHR ''?'') s = s"
  by (induction s) auto

lemma with_query_head:
  assumes "CHR ''?'' \<notin> set p"
  shows "takeWhile (\<lambda>c. c \<noteq> CHR ''?'') (drop (Suc (length base)) (with_query (base @ CHR ''/'' # p) kvs)) = p"
  using assms by (simp add: with_query_def Let_def no_mark_id no_mark_all)

section \<open>Answers\<close>

text \<open>The body of an answer of the dashboard, as the handler reads it.\<close>

lemma decode_answer_wire:
  "decode_answer (wire num (JObj [(''answer'', JStr a), (''answered_by'', JStr b)])) = Some \<lparr>aq_Answer = a, aq_AnsweredBy = b\<rparr>"
  by (simp add: decode_answer_def struct_members_def str_field_def key_is_def str_value_def is_lower_def ord_def)

lemma answer_path:
  assumes "plain_ident i"
  shows "path_segments base (base @ ''/attention/'' @ i @ ''/answer'') = [''attention'', i, ''answer'']"
proof -
  have "takeWhile (\<lambda>c. c \<noteq> CHR ''?'') (''attention/'' @ i @ ''/answer'') = ''attention/'' @ i @ ''/answer''"
    using assms by (intro no_mark_all) (simp add: plain_ident_def)
  moreover have "split_on (CHR ''/'') (''attention/'' @ i @ ''/answer'') = [''attention'', i, ''answer'']"
    using assms split_on_append [of "CHR ''/''" "''attention''" "i @ ''/answer''"] split_on_append [of "CHR ''/''" i "''answer''"]
    by (simp add: plain_ident_def)
  ultimately show ?thesis by (simp add: path_segments_def)
qed

lemma answer_request_served:
  assumes "plain_ident i" and "da_base da = base"
  shows "serveHTTP st True (the (to_api da \<lparr>rq_method = POST, rq_url = base @ ''/attention/'' @ i @ ''/answer'',
      rq_body = Some (JObj [(''answer'', JStr a), (''answered_by'', JStr b)]), rq_header = h\<rparr>)) =
    handleAnswerAttention True i (Some (wire (da_num da) (JObj [(''answer'', JStr a), (''answered_by'', JStr b)])))"
  using assms answer_path [OF assms(1), of base] by (simp add: to_api_def serveHTTP_def plain_ident_def del: wire.simps)

lemma wrong_answer_refused:
  assumes "a \<noteq> AttentionAnswerApprove" and "a \<noteq> AttentionAnswerReject"
  shows "\<exists>msg. handleAnswerAttention cw i (Some (wire num (JObj [(''answer'', JStr a), (''answered_by'', JStr b)]))) w =
     (Inr (Api_Error 400 msg), w)"
  using assms by (simp add: handleAnswerAttention_def decode_answer_wire ret_def del: wire.simps)

lemma key_answer:
  assumes "handleNormalKey m k = Some (m', SubmitAnswer b i a)"
  shows "a \<in> {''yes'', ''no'', ''pass''} \<and> (\<exists>item \<in> set (tu_attention m). i = av_id item) \<and> b = tc_BaseURL (tu_cfg m)"
proof -
  have "k \<in> {''a'', ''r'', ''p''} \<and> answerSelected m k = Some (m', SubmitAnswer b i a)"
    using assms
    by (auto simp: handleNormalKey_def handleEnterKey_def handleInputStart_def split: if_splits)
  then show ?thesis
    by (auto simp: answerSelected_def post_answer_def answer_of_key_def index_at_def split: if_splits)
qed

lemma daemon_answers:
  assumes "plain_ident i" and "da_base da = base" and "a \<noteq> AttentionAnswerApprove" and "a \<noteq> AttentionAnswerReject"
  shows "\<exists>status body. daemon_serve da \<lparr>rq_method = POST, rq_url = base @ ''/attention/'' @ i @ ''/answer'',
      rq_body = Some (JObj [(''answer'', JStr a), (''answered_by'', JStr b)]), rq_header = h\<rparr> w = (Reply 400 status body, w)"
proof -
  let ?rq = "\<lparr>rq_method = POST, rq_url = base @ ''/attention/'' @ i @ ''/answer'',
      rq_body = Some (JObj [(''answer'', JStr a), (''answered_by'', JStr b)]), rq_header = h\<rparr>"
  from wrong_answer_refused [OF assms(3,4)] obtain msg where
    "handleAnswerAttention True i (Some (wire (da_num da) (JObj [(''answer'', JStr a), (''answered_by'', JStr b)]))) w =
      (Inr (Api_Error 400 msg), w)" by blast
  moreover have "\<exists>api. to_api da ?rq = Some api" by (simp add: to_api_def Let_def)
  then obtain api where api: "to_api da ?rq = Some api" by blast
  moreover have "serveHTTP (da_show_time da) True api =
      handleAnswerAttention True i (Some (wire (da_num da) (JObj [(''answer'', JStr a), (''answered_by'', JStr b)])))"
    using answer_request_served [OF assms(1,2), of "da_show_time da" a b h] api by (simp only: option.sel)
  ultimately show ?thesis by (simp add: daemon_serve_def reply_of_def)
qed

text \<open>
  The answers that the dashboard's keys give are all refused by the daemon with status 400, and nothing is
  written: an item of attention cannot be approved, rejected or passed from the dashboard.
\<close>

lemma dashboard_answers_refused:
  assumes key: "handleNormalKey m k = Some (m', SubmitAnswer b i a)" and ident: "plain_ident i"
    and base: "da_base da = trim_slashes b" and ok: "\<And>url. tn_bad_url nt url = None"
    and http: "\<And>rq. tn_http nt rq = fst (daemon_serve da rq w)"
  shows "submitAnswer nt b i a = Some (ErrMsg (Errorf ''submit answer: daemon returned %d'' [itoa 400])) \<and>
    (\<forall>h. snd (daemon_serve da \<lparr>rq_method = POST, rq_url = trim_slashes b @ ''/attention/'' @ i @ ''/answer'',
       rq_body = Some (JObj [(''answer'', JStr a), (''answered_by'', JStr ''tui'')]), rq_header = h\<rparr> w) = w)"
proof -
  from key_answer [OF key] have "a \<noteq> AttentionAnswerApprove" "a \<noteq> AttentionAnswerReject"
    by (auto simp: AttentionAnswerApprove_def AttentionAnswerReject_def)
  from daemon_answers [OF ident base this, of "''tui''"] have
    *: "\<exists>status body. daemon_serve da \<lparr>rq_method = POST, rq_url = trim_slashes b @ ''/attention/'' @ i @ ''/answer'',
       rq_body = Some (JObj [(''answer'', JStr a), (''answered_by'', JStr ''tui'')]), rq_header = h\<rparr> w = (Reply 400 status body, w)" for h
    by blast
  from * [of json_content] obtain status body where
    "tn_http nt \<lparr>rq_method = POST, rq_url = trim_slashes b @ ''/attention/'' @ i @ ''/answer'',
       rq_body = Some (JObj [(''answer'', JStr a), (''answered_by'', JStr ''tui'')]), rq_header = json_content\<rparr> = Reply 400 status body"
    by (auto simp: http)
  then have "submitAnswer nt b i a = Some (ErrMsg (Errorf ''submit answer: daemon returned %d'' [itoa 400]))"
    by (simp add: submitAnswer_def ok)
  with * show ?thesis by (metis snd_conv)
qed

section \<open>Snapshots\<close>

text \<open>Where the daemon answers with an object, the dashboard finds no slice, and \<open>/jobs\<close> is not a route.\<close>

definition encodes_objects :: "(json \<Rightarrow> string) \<Rightarrow> bool" where
  "encodes_objects encode \<longleftrightarrow> (\<forall>kvs. \<exists>kvs'. json_head (encode (JObj kvs) @ newline) = Some (TObj kvs'))"

lemma daemon_lists_objects:
  assumes enc: "encodes_objects (da_encode da)" and p: "p \<in> {''runs'', ''attention''}" and base: "da_base da = base"
  shows "getJSON (\<lambda>rq. fst (daemon_serve da rq w)) (slice_of dec) (with_query (base @ CHR ''/'' # p) kvs) = None"
proof -
  let ?rq = "\<lparr>rq_method = GET, rq_url = with_query (base @ CHR ''/'' # p) kvs, rq_body = None, rq_header = []\<rparr>"
  have "path_segments base (rq_url ?rq) = [p]"
    using p by (auto simp: path_segments_def with_query_head)
  then have api: "to_api da ?rq = Some (Api_GET [p])" by (simp add: to_api_def base)
  have "(\<exists>e w'. serveHTTP (da_show_time da) True (Api_GET [p]) w = (Inr (Api_Error 500 e), w')) \<or>
      (\<exists>kvs w'. serveHTTP (da_show_time da) True (Api_GET [p]) w = (Inr (Api_JSON 200 (JObj kvs)), w'))"
    using p
    by (auto simp: serveHTTP_def handleListRuns_def handleListAttention_def bindE_attempt internal_error_def respondJSON_def ret_def
        split: sum.split)
  then show ?thesis
  proof
    assume "\<exists>e w'. serveHTTP (da_show_time da) True (Api_GET [p]) w = (Inr (Api_Error 500 e), w')"
    then show ?thesis by (auto simp: getJSON_def daemon_serve_def api reply_of_def)
  next
    assume "\<exists>kvs w'. serveHTTP (da_show_time da) True (Api_GET [p]) w = (Inr (Api_JSON 200 (JObj kvs)), w')"
    then obtain kvs' w' where s: "serveHTTP (da_show_time da) True (Api_GET [p]) w = (Inr (Api_JSON 200 (JObj kvs')), w')" by blast
    from enc obtain kvs2 where "json_head (da_encode da (JObj kvs') @ newline) = Some (TObj kvs2)"
      by (auto simp: encodes_objects_def)
    with s show ?thesis by (simp add: getJSON_def daemon_serve_def api reply_of_def slice_of_object)
  qed
qed

lemma daemon_has_no_jobs:
  assumes base: "da_base da = base"
  shows "getJSON (\<lambda>rq. fst (daemon_serve da rq w)) dec (with_query (base @ CHR ''/'' # ''jobs'') kvs) = None"
proof -
  let ?rq = "\<lparr>rq_method = GET, rq_url = with_query (base @ CHR ''/'' # ''jobs'') kvs, rq_body = None, rq_header = []\<rparr>"
  have "path_segments base (rq_url ?rq) = [''jobs'']"
    using with_query_head [of "''jobs''" base kvs] by (simp add: path_segments_def)
  then have "to_api da ?rq = Some (Api_GET [''jobs''])" by (simp add: to_api_def base)
  then show ?thesis by (simp add: getJSON_def daemon_serve_def serveHTTP_def not_found_def ret_def reply_of_def)
qed

text \<open>
  The snapshot that the dashboard takes of a daemon is empty, whatever runs, jobs and items there are.
\<close>

lemma dashboard_snapshot_empty:
  assumes "encodes_objects (da_encode da)" and "da_base da = trim_slashes b"
    and "\<And>rq. tn_http nt rq = fst (daemon_serve da rq w)"
  shows "fetchSnapshot nt b r = \<lparr>sn_runs = [], sn_jobs = [], sn_attention = []\<rparr>"
proof -
  have http: "tn_http nt = (\<lambda>rq. fst (daemon_serve da rq w))" using assms(3) by (rule ext)
  have plain: "with_query (trim_slashes b @ CHR ''/'' # ''runs'') [] = trim_slashes b @ CHR ''/'' # ''runs''"
    by (simp add: with_query_def encode_values_def)
  have "getJSON (tn_http nt) (slice_of dec) (trim_slashes b @ CHR ''/'' # ''runs'') = None" for dec :: "jtext \<Rightarrow> wire_run option"
    using daemon_lists_objects [OF assms(1) _ assms(2), of "''runs''" w dec "[]"] by (simp add: http plain del: list.inject)
  moreover have "getJSON (tn_http nt) (slice_of dec) (with_query (trim_slashes b @ CHR ''/'' # ''attention'') kvs) = None"
    for kvs and dec :: "jtext \<Rightarrow> attention_row_view option"
    using daemon_lists_objects [OF assms(1) _ assms(2), of "''attention''" w dec kvs] by (simp add: http)
  moreover have "getJSON (tn_http nt) dec (with_query (trim_slashes b @ CHR ''/'' # ''jobs'') kvs) = None"
    for kvs and dec :: "jtext \<Rightarrow> wire_job list option"
    using daemon_has_no_jobs [OF assms(2), of w dec kvs] by (simp add: http)
  ultimately show ?thesis by (simp add: fetchSnapshot_def Let_def)
qed

section \<open>What an answer records\<close>

lemma optional_row_db: "wd_db (snd (optional_row msg f w)) = wd_db w"
  by (simp add: optional_row_def bindE_def attempt_def query_row_def query_def sql_def gets_def ret_def raise_def Let_def
      split: option.split)

lemma AnswerAttention_unknown:
  assumes "AnswerAttention i x y w = (Inl e, w')" shows "wd_db w' = wd_db w"
  using assms
  by (auto simp: AnswerAttention_def bindE_def wrapE_def exec_def sql_def Let_def update_attention_def raise_def ret_def
      update_where_none split: option.splits sum.splits prod.splits if_splits)

lemma bindE_ignoring: "bindE (ignoring m) f s = f () (snd (m s))"
  by (simp add: bindE_def ignoring_def)

lemma answer_item_result:
  obtains resp w' where "answer_item cw i a b w = (Inr resp, w')"
    "api_status resp = 200 \<and> answered i a (wd_db w') \<or> api_status resp = 404 \<and> wd_db w' = wd_db w \<or> api_status resp = 500"
proof -
  obtain r w1 where g: "GetAttentionByID i w = (r, w1)" by fastforce
  have w1: "wd_db w1 = wd_db w" using optional_row_db [of _ _ w] g by (metis GetAttentionByID_def snd_conv)
  obtain r2 w2 where a: "AnswerAttention i a b w1 = (r2, w2)" by fastforce
  show thesis
  proof (cases "\<exists>item. r = Inr (Some item) \<and> isl r2 = False")
    case False
    have "r2 = Inl e \<Longrightarrow> wd_db w2 = wd_db w" for e using AnswerAttention_unknown a w1 by metis
    with False w1 show thesis
      by (intro that [of "projr (fst (answer_item cw i a b w))" "snd (answer_item cw i a b w)"];
          cases r; cases "projr r"; cases r2)
        (auto simp: answer_item_def bindE_attempt g a internal_error_def item_not_found_def ret_def)
  next
    case True
    then obtain item where r: "r = Inr (Some item)" "r2 = Inr ()" by (cases r2) auto
    let ?w3 = "snd (ResolveAttention i w2)"
    have "answered i a (wd_db w2)" using AnswerAttention_answered a r(2) by blast
    then have w3: "answered i a (wd_db ?w3)" using keepsD [OF decisions_kept(3)] by (simp add: on_db_def)
    obtain r4 w4 where c: "ResolveCheckpoint i a b [] ?w3 = (r4, w4)" by fastforce
    have w4: "answered i a (wd_db w4)" using keepsD [OF ResolveCheckpoint_keeps_answered, of i a ?w3 i a b "[]"] w3 c
      by (simp add: on_db_def)
    have "answer_item cw i a b w =
        (if att_kind item = AttentionCheckpoint \<and> cw
         then (case r4 of Inl e \<Rightarrow> if errors_is e ErrCheckpointNotFound then respondJSON 200 (status_object ''ok'') else internal_error
               | Inr _ \<Rightarrow> respondJSON 200 (status_object ''ok'')) w4
         else respondJSON 200 (status_object ''ok'') ?w3)"
      by (simp add: answer_item_def bindE_attempt g a r c bindE_ignoring)
    with w3 w4 show thesis
      by (intro that [of "projr (fst (answer_item cw i a b w))" "snd (answer_item cw i a b w)"]; cases r4)
        (auto simp: respondJSON_def internal_error_def ret_def)
  qed
qed

text \<open>
  C37. Posting an answer always gets a response, under every failure of the store: 200 means that the item now
  has the answer that was posted, approve or reject; 400 and 404 mean that no table has changed; the only other
  status is 500.
\<close>

theorem http_answer_recorded:
  "case handleAnswerAttention cw i body w of
      (Inl _, _) \<Rightarrow> False
    | (Inr resp, w') \<Rightarrow>
        api_status resp = 200 \<and>
          (\<exists>rq. Option.bind body decode_answer = Some rq \<and> aq_Answer rq \<in> {AttentionAnswerApprove, AttentionAnswerReject} \<and>
             answered i (aq_Answer rq) (wd_db w')) \<or>
        api_status resp \<in> {400, 404} \<and> wd_db w' = wd_db w \<or>
        api_status resp = 500"
proof (cases "Option.bind body decode_answer")
  case None
  then show ?thesis by (simp add: handleAnswerAttention_def ret_def)
next
  case (Some rq)
  let ?b = "if aq_AnsweredBy rq = [] then ''http'' else aq_AnsweredBy rq"
  obtain resp w' where r: "answer_item cw i (aq_Answer rq) ?b w = (Inr resp, w')"
    "api_status resp = 200 \<and> answered i (aq_Answer rq) (wd_db w') \<or> api_status resp = 404 \<and> wd_db w' = wd_db w \<or> api_status resp = 500"
    by (rule answer_item_result)
  show ?thesis
  proof (cases "aq_Answer rq \<in> {AttentionAnswerApprove, AttentionAnswerReject}")
    case True
    then have "handleAnswerAttention cw i body w = (Inr resp, w')"
      using Some r(1) by (auto simp: handleAnswerAttention_def AttentionAnswerApprove_def AttentionAnswerReject_def)
    with True r(2) Some show ?thesis by auto
  next
    case False
    with Some show ?thesis by (simp add: handleAnswerAttention_def ret_def)
  qed
qed

section \<open>Samples\<close>

definition sample_daemon :: daemon where
  "sample_daemon = \<lparr>da_base = ''http://localhost:7700'', da_encode = (\<lambda>_. ''{}''), da_num = (\<lambda>_. ''0''), da_show_time = (\<lambda>_. [])\<rparr>"

definition daemon_net :: "world \<Rightarrow> tui_net" where
  "daemon_net w =
     \<lparr>tn_bad_url = (\<lambda>_. None), tn_stream = (\<lambda>_. SSE_No_Reply ErrEOF), tn_http = (\<lambda>rq. fst (daemon_serve sample_daemon rq w)),
      tn_read_file = (\<lambda>_. None), tn_dec = no_decoders\<rparr>"

lemma sample_base: "trim_slashes ''http://localhost:7700'' = ''http://localhost:7700''"
  by (simp add: trim_slashes_def trim_right_by_def)

lemma dashboard_answers_refused_witness:
  "submitAnswer (daemon_net (world_with empty_db (\<lambda>_. None))) ''http://localhost:7700'' ''a1'' ''yes'' =
     Some (ErrMsg (Errorf ''submit answer: daemon returned %d'' [itoa 400]))"
proof -
  have key: "handleNormalKey sample_shown ''a'' =
      Some (sample_shown\<lparr>tu_pendingAnswers := [''a1'' \<mapsto> ''yes'']\<rparr>, SubmitAnswer ''http://localhost:7700'' ''a1'' ''yes'')"
    by (simp add: handleNormalKey_def answerSelected_def index_at_def post_answer_def answer_of_key_def New_def sample_shown_def
        bare_item_def plain_config_def)
  have "plain_ident ''a1''" by (simp add: plain_ident_def)
  from dashboard_answers_refused [OF key this, of sample_daemon "daemon_net (world_with empty_db (\<lambda>_. None))"
      "world_with empty_db (\<lambda>_. None)"]
  show ?thesis by (simp add: sample_base sample_daemon_def daemon_net_def)
qed

lemma dashboard_snapshot_empty_witness:
  "fetchSnapshot (daemon_net (world_with (empty_db\<lparr>t_runs := [sample_run ''r1'']\<rparr>) (\<lambda>_. None))) ''http://localhost:7700'' [] =
     \<lparr>sn_runs = [], sn_jobs = [], sn_attention = []\<rparr>"
proof (rule dashboard_snapshot_empty)
  have "json_head (''{}'' @ newline) = Some (TObj [])"
    by (simp add: json_head_def json_eval newline_def)
  then show "encodes_objects (da_encode sample_daemon)" by (simp add: encodes_objects_def sample_daemon_def)
  show "da_base sample_daemon = trim_slashes ''http://localhost:7700''" by (simp add: sample_base sample_daemon_def)
  show "tn_http (daemon_net (world_with (empty_db\<lparr>t_runs := [sample_run ''r1'']\<rparr>) (\<lambda>_. None))) rq =
      fst (daemon_serve sample_daemon rq (world_with (empty_db\<lparr>t_runs := [sample_run ''r1'']\<rparr>) (\<lambda>_. None)))" for rq
    by (simp add: daemon_net_def)
qed

end
