(* ===== verification/Human_Edit.thy ===== *)
theory Human_Edit
  imports Dispatcher_Facts
begin

text \<open>
  \<open>coding/humanedit/recorder.go\<close>: a commit made by hand is recorded as a completed synthetic job and an event.
  Git is a parameter (the error, if any, and the combined output for the arguments), as is the context: at each
  of its two turns the wait for the results may find it done.
\<close>

section \<open>The recorder\<close>

type_synonym recorder_git = "string \<Rightarrow> string list \<Rightarrow> goerr option \<times> string"

record recorder =
  rc_JobStore :: bool
  rc_EventWriter :: bool
  rc_RepoPath :: string

definition runGitCommand :: "recorder_git \<Rightarrow> string \<Rightarrow> string list \<Rightarrow> goerr + string" where
  "runGitCommand git repoPath args =
     (case git repoPath args of
        (Some e, out) \<Rightarrow> Inl (Wrapf ''git %q: %w: %s'' [join_with '' '' args, trim_space out] e)
      | (None, out) \<Rightarrow> Inr (trim_space out))"

definition human_job :: "ident \<Rightarrow> ident \<Rightarrow> time \<Rightarrow> job" where
  "human_job i runID now =
     \<lparr>job_id = i, job_run_id = runID, job_role = ''human-edit'', job_state = JobStateComplete, job_dispatched_by = ''self'',
      job_cli = ''human-edit'', job_started_at = now, job_ended_at = Some now, job_plan_id = [], job_phase_index = 0,
      job_cost_usd = 0\<rparr>"

definition human_event :: "ident \<Rightarrow> ident \<Rightarrow> ident \<Rightarrow> json \<Rightarrow> time \<Rightarrow> event" where
  "human_event i runID jobID payload now = (mk_event i runID EventHumanEdit jobID payload now)\<lparr>ev_causation_id := jobID\<rparr>"

text \<open>The wait for the two results, which may be cut short, and their errors in the order they are looked at.\<close>

definition collect_commit :: "recorder_git \<Rightarrow> polls \<Rightarrow> string \<Rightarrow> string \<Rightarrow> goerr + string \<times> string" where
  "collect_commit git ctx repo commitSHA =
     (case (ctx 0, ctx 1) of
        (Some e, _) \<Rightarrow> Inl e
      | (None, Some e) \<Rightarrow> Inl e
      | (None, None) \<Rightarrow>
          (case runGitCommand git repo [''show'', ''--stat'', commitSHA] of
             Inl e \<Rightarrow> Inl (Wrapf ''collect commit stats for %q: %w'' [commitSHA] e)
           | Inr stats \<Rightarrow>
               (case runGitCommand git repo [''log'', ''-1'', ''--format=%s'', commitSHA] of
                  Inl e \<Rightarrow> Inl (Wrapf ''collect commit message for %q: %w'' [commitSHA] e)
                | Inr msg \<Rightarrow> Inr (stats, msg))))"

definition lift_error :: "goerr + 'a \<Rightarrow> 'a prog" where
  "lift_error r = (case r of Inl e \<Rightarrow> raise e | Inr x \<Rightarrow> ret x)"

definition RecordCommit :: "recorder \<Rightarrow> recorder_git \<Rightarrow> polls \<Rightarrow> ident \<Rightarrow> string \<Rightarrow> unit prog" where
  "RecordCommit r git ctx runID commitSHA =
     bindE (guardE (rc_JobStore r) (Errorf ''job store is required'' [])) (\<lambda>_.
     bindE (guardE (rc_EventWriter r) (Errorf ''event writer is required'' [])) (\<lambda>_.
     bindE (guardE (runID \<noteq> []) (Errorf ''runID is required'' [])) (\<lambda>_.
     bindE (guardE (commitSHA \<noteq> []) (Errorf ''commit SHA is required'' [])) (\<lambda>_.
     bindE (lift_error (collect_commit git ctx (if rc_RepoPath r = [] then ''.'' else rc_RepoPath r) commitSHA)) (\<lambda>(stats, msg).
     bindE time_now (\<lambda>now. bindE new_id (\<lambda>jobID.
     bindE (wrapE ''create synthetic job for commit %q: %w'' [commitSHA] (CreateJob (human_job jobID runID now))) (\<lambda>_.
     bindE new_id (\<lambda>i.
     bindE (wrapE ''write human-edit event for commit %q: %w'' [commitSHA] (WriteEventThenRow
       (human_event i runID jobID
         (jstrs [(''commit_message'', msg), (''commit_sha'', commitSHA), (''diff_stat'', stats), (''job_id'', jobID), (''run_id'', runID)])
         now) None)) (\<lambda>_.
     ret ()))))))))))"

section \<open>What is recorded\<close>

lemma lift_error_run [run_simps]: "lift_error r w = (Inr x, w') \<longleftrightarrow> r = Inr x \<and> w' = w"
  by (cases r) (auto simp: lift_error_def raise_def ret_def)

lemma create_job_rows:
  assumes "CreateJob j w = (Inr u, w')"
  shows "\<exists>z. t_jobs (wd_db w') = t_jobs (wd_db w) @ [j\<lparr>job_started_at := z, job_ended_at := None\<rparr>]"
proof -
  let ?ins = "bindE (gets wd_zone) (\<lambda>zone. bindE
      (exec (insert_job (j\<lparr>job_started_at := local_stamp zone (job_started_at j), job_ended_at := None\<rparr>))) (\<lambda>_. ret ()))"
  obtain ev where run: "write_row ev ?ins (w\<lparr>wd_ids := Suc (wd_ids w)\<rparr>) = (Inr (), w')"
    using assms by (auto simp: CreateJob_def bindE_new_id)
  from write_row_ex [OF run] obtain w1 w2 e where w1: "wd_db w1 = add_event e (wd_db w)"
    and ins: "?ins w1 = (Inr (), w2)" and w2: "wd_db w' = wd_db w2" by auto
  have "t_jobs (wd_db w1) = t_jobs (wd_db w)" by (simp add: w1 add_event_def)
  with ins show ?thesis by (auto simp: run_simps insert_job_def map_sum_Inr require_fk_Inr insert_into_Inr w2)
qed

text \<open>
  A commit that is recorded leaves one more job, complete and of the role human-edit, and as last event one that
  names the commit and the job. The end time that the job carries is not stored.
\<close>

lemma record_commit_spec:
  assumes "RecordCommit r git ctx runID sha w = (Inr u, w')"
  shows "\<exists>j e. t_jobs (wd_db w') = t_jobs (wd_db w) @ [j] \<and> job_role j = ''human-edit'' \<and> job_state j = JobStateComplete \<and>
     job_run_id j = runID \<and> job_ended_at j = None \<and>
     last (t_events (wd_db w')) = e \<and> ev_kind e = EventHumanEdit \<and> ev_run_id e = runID \<and> ev_correlation_id e = job_id j \<and>
     jfield (ev_payload e) ''commit_sha'' = Some (JStr sha)"
proof -
  let ?now = "wd_clock w (wd_ticks w)" and ?i = "NewID (wd_rnd w) (wd_ids w)"
  from assms obtain w1 w2 stats msg k x where
    job: "CreateJob (human_job ?i runID ?now) (w\<lparr>wd_ticks := Suc (wd_ticks w), wd_ids := Suc (wd_ids w)\<rparr>) = (Inr (), w1)"
    and ev: "WriteEventThenRow (human_event k runID ?i (jstrs [(''commit_message'', msg), (''commit_sha'', sha), (''diff_stat'', stats),
        (''job_id'', ?i), (''run_id'', runID)]) ?now) None (w1\<lparr>wd_ids := Suc (wd_ids w1)\<rparr>) = (Inr x, w')"
    by (auto simp: RecordCommit_def run_simps bindE_time_now bindE_new_id split: prod.splits)
  let ?e = "human_event k runID ?i (jstrs [(''commit_message'', msg), (''commit_sha'', sha), (''diff_stat'', stats),
        (''job_id'', ?i), (''run_id'', runID)]) ?now"
  from create_job_rows [OF job] obtain z where
    rows: "t_jobs (wd_db w1) = t_jobs (wd_db w) @ [(human_job ?i runID ?now)\<lparr>job_started_at := z, job_ended_at := None\<rparr>]" by auto
  have w': "\<exists>n. wd_db w' = add_event (stored_event (?e\<lparr>ev_sequence := n\<rparr>)) (wd_db w1)"
    using write_event_atomic_aux [of ?e None "w1\<lparr>wd_ids := Suc (wd_ids w1)\<rparr>"] unfolding ev by auto
  then obtain n where "wd_db w' = add_event (stored_event (?e\<lparr>ev_sequence := n\<rparr>)) (wd_db w1)" by blast
  then show ?thesis
    by (simp add: rows add_event_def human_job_def human_event_def mk_event_def jstrs_def)
qed

end
