(* ===== verification/Commands.thy ===== *)
theory Commands
  imports Session Human_Edit Autopilot Mcp Front_Text
begin

text \<open>
  The commands of \<open>cli\<close> that work on a session or show the tables: \<open>session.go\<close>, \<open>advance.go\<close>, \<open>rollback.go\<close>,
  \<open>edit.go\<close>, \<open>record_human_edit.go\<close>, \<open>invoke.go\<close>, \<open>status.go\<close>, \<open>inspect.go\<close>, \<open>logs.go\<close>, \<open>config_inspect.go\<close> and
  the dispatcher of \<open>daemon.go\<close>. A command returns what it prints; what is printed before an error is left out.
\<close>

section \<open>Surroundings\<close>

text \<open>\<open>fe_json\<close> is \<open>encoding/json\<close>, \<open>fe_float n\<close> the verb \<open>%.nf\<close>, \<open>fe_git_status\<close> the output of git status for a path.\<close>

record front_env =
  fe_cli :: cli_env
  fe_json :: "json \<Rightarrow> string"
  fe_float :: "nat \<Rightarrow> rat \<Rightarrow> string"
  fe_editor :: string
  fe_run_editor :: "string \<Rightarrow> string \<Rightarrow> goerr option"
  fe_git_status :: "string \<Rightarrow> goerr + string"
  fe_git :: recorder_git
  fe_polls :: polls
  fe_pid :: int

definition sessionLockPath :: "string \<Rightarrow> string" where
  "sessionLockPath dbPath = join_path [dir_of dbPath, ''session.lock'']"

definition default_db :: "string \<Rightarrow> string" where
  "default_db p = or_default p (join_path [''.coworker'', ''state.db''])"

definition open_db :: "front_env \<Rightarrow> bool \<Rightarrow> string \<Rightarrow> unit sess" where
  "open_db fe mk path =
     bindE (case (if mk then ce_mkdir_all (fe_cli fe) (dir_of path) else None) of
              Some e \<Rightarrow> raise (Wrapf ''create db directory %q: %w'' [dir_of path] e) | None \<Rightarrow> ret ()) (\<lambda>_.
     (case ce_open_db (fe_cli fe) path of Some e \<Rightarrow> raise (Wrapf ''open database: %w'' [] e) | None \<Rightarrow> ret ()))"

definition manager_for :: "front_env \<Rightarrow> string \<Rightarrow> manager" where
  "manager_for fe path = \<lparr>mg_RunStore = True, mg_LockPath = sessionLockPath path, mg_PID = 0, mg_getpid = fe_pid fe\<rparr>"

definition em_dash :: string where
  "em_dash = [CHR 0xE2, CHR 0x80, CHR 0x94]"

definition no_session_error :: goerr where
  "no_session_error = Errorf (''no active session '' @ em_dash @ '' start one with '' @ [CHR 0x60] @ ''coworker session'' @ [CHR 0x60]) []"

text \<open>The active session of a command that asks for one.\<close>

definition require_session :: "front_env \<Rightarrow> string \<Rightarrow> ident sess" where
  "require_session fe path =
     bindE (attempt (CurrentSession (manager_for fe path))) (\<lambda>r.
     case r of
       Inr i \<Rightarrow> ret i
     | Inl e \<Rightarrow> if errors_is e ErrNoActiveSession then raise no_session_error else raise (Wrapf ''read session: %w'' [] e))"

section \<open>session.go\<close>

definition runSession :: "front_env \<Rightarrow> string \<Rightarrow> bool \<Rightarrow> string sess" where
  "runSession fe db end_it =
     (let path = default_db db in
      bindE (open_db fe True path) (\<lambda>_.
      if end_it then
        bindE (wrapE ''end session: %w'' [] (EndSession (manager_for fe path))) (\<lambda>_. ret (''Session ended'' @ newline))
      else
        bindE (wrapE ''start session: %w'' [] (StartSession (manager_for fe path))) (\<lambda>i.
        ret (''Session started: '' @ i @ newline))))"

section \<open>advance.go and rollback.go\<close>

definition status_text :: "json \<Rightarrow> string" where
  "status_text out = (case jfield out ''status'' of Some (JStr s) \<Rightarrow> s | _ \<Rightarrow> ''<nil>'')"

definition advance_found :: "string \<Rightarrow> attention_item option \<Rightarrow> string sess" where
  "advance_found answeredBy o_item =
     (case o_item of
        None \<Rightarrow> ret (''no checkpoint waiting on the active run'' @ newline)
      | Some item \<Rightarrow>
          bindE (wrapE ''advance checkpoint %s: %w'' [att_id item] (on_world (handleCheckpointAdvance (att_id item) answeredBy []))) (\<lambda>out.
          ret (''advanced checkpoint '' @ att_id item @ '' (status='' @ status_text out @ '')'' @ newline)))"

definition runAdvance :: "front_env \<Rightarrow> string \<Rightarrow> string \<Rightarrow> string sess" where
  "runAdvance fe db answeredBy =
     (let path = default_db db in
      bindE (open_db fe True path) (\<lambda>_.
      bindE (require_session fe path) (\<lambda>runID.
      bindE (wrapE ''find unanswered checkpoint: %w'' [] (on_world (GetAnyUnansweredCheckpointForRun runID)))
        (advance_found answeredBy))))"

definition runRollback :: "front_env \<Rightarrow> string \<Rightarrow> string \<Rightarrow> ident \<Rightarrow> string sess" where
  "runRollback fe db answeredBy checkpointID =
     (let path = default_db db in
      bindE (open_db fe True path) (\<lambda>_.
      bindE (require_session fe path) (\<lambda>_.
      bindE (wrapE ''rollback checkpoint %s: %w'' [checkpointID] (on_world (handleCheckpointRollback checkpointID answeredBy []))) (\<lambda>out.
      ret (''rolled back checkpoint '' @ checkpointID @ '' (status='' @ status_text out @ '')'' @ newline)))))"

section \<open>edit.go and record_human_edit.go\<close>

definition isPathDirtyInGit :: "front_env \<Rightarrow> string \<Rightarrow> bool" where
  "isPathDirtyInGit fe path = (case fe_git_status fe path of Inl _ \<Rightarrow> False | Inr out \<Rightarrow> out \<noteq> [])"

definition runEdit :: "front_env \<Rightarrow> string \<Rightarrow> string \<Rightarrow> string sess" where
  "runEdit fe db target =
     (case ce_stat (fe_cli fe) target of
        Some e \<Rightarrow> raise (Wrapf ''artifact not found: %w'' [] e)
      | None \<Rightarrow>
          let path = default_db db; editor = or_default (fe_editor fe) ''vim'' in
          bindE (open_db fe False path) (\<lambda>_.
          bindE (require_session fe path) (\<lambda>_.
          (case fe_run_editor fe editor target of
             Some e \<Rightarrow> raise (Wrapf ''run editor %q: %w'' [editor] e)
           | None \<Rightarrow>
               ret (if isPathDirtyInGit fe target
                    then newline @ target @ '' is dirty. Commit and record:'' @ newline @
                      ''  git add '' @ target @ '' && git commit -m '' @ [CHR 0x27] @ ''edit: '' @ base_name target @ [CHR 0x27] @ newline @
                      ''  coworker record-human-edit --commit <sha>'' @ newline
                    else [])))))"

definition runRecordHumanEdit :: "front_env \<Rightarrow> string \<Rightarrow> string \<Rightarrow> string sess" where
  "runRecordHumanEdit fe db commit =
     (let path = default_db db in
      bindE (open_db fe True path) (\<lambda>_.
      bindE (wrapE ''read session: %w'' [] (CurrentSession (manager_for fe path))) (\<lambda>runID.
      bindE (wrapE ''record commit %s: %w'' [commit] (on_world (RecordCommit
        \<lparr>rc_JobStore = True, rc_EventWriter = True, rc_RepoPath = ''.''\<rparr> (fe_git fe) (fe_polls fe) runID commit))) (\<lambda>_.
      ret (''Recorded human edit: '' @ commit @ newline)))))"

section \<open>invoke.go\<close>

record invoke_flags =
  if_DiffPath :: string
  if_SpecPath :: string
  if_DBPath :: string
  if_CliBinary :: string
  if_RoleDir :: string
  if_PromptDir :: string

definition coworker_dir :: "string \<Rightarrow> string" where
  "coworker_dir db = (if db = [] then ''.coworker'' else dir_of db)"

definition default_role_dir :: "cli_env \<Rightarrow> string \<Rightarrow> string" where
  "default_role_dir en roleDir =
     (if roleDir \<noteq> [] then roleDir
      else let d = join_path [''.coworker'', ''roles''] in if missing_file en d then join_path [''coding'', ''roles''] else d)"

text \<open>The dispatchers of the commands have no supervisor and no policy.\<close>

definition bare_dispatcher :: "cli_env \<Rightarrow> string \<Rightarrow> string \<Rightarrow> agent \<Rightarrow> (string \<times> agent) list \<Rightarrow> bool \<Rightarrow> dispatcher" where
  "bare_dispatcher en roleDir promptDir ag clis writers =
     \<lparr>di_env = ce_roles en, di_RoleDir = roleDir, di_PromptDir = promptDir, di_Agent = ag, di_CLIAgents = clis,
      di_Supervisor = None, di_SupervisorWriter = writers, di_CostWriter = (if writers then Some (ce_fadd en) else None),
      di_MaxRetries = 0, di_WorkDir = [], di_Policy = None, di_AttentionStore = False, di_sha = ce_sha en\<rparr>"

definition invoke_dispatcher :: "cli_env \<Rightarrow> invoke_flags \<Rightarrow> dispatcher" where
  "invoke_dispatcher en fl =
     bare_dispatcher en (default_role_dir en (if_RoleDir fl))
       (if if_PromptDir fl \<noteq> [] then if_PromptDir fl else if missing_file en ''.coworker'' then ''coding'' else ''.coworker'')
       (ce_cli_agent en (or_default (if_CliBinary fl) ''codex'') (coworker_dir (if_DBPath fl))) [] False"

definition invoke_inputs :: "invoke_flags \<Rightarrow> inputs" where
  "invoke_inputs fl =
     (if if_DiffPath fl \<noteq> [] then [(''diff_path'', if_DiffPath fl)] else []) @
     (if if_SpecPath fl \<noteq> [] then [(''spec_path'', if_SpecPath fl)] else [])"

definition finding_json :: "finding \<Rightarrow> json" where
  "finding_json f =
     JObj [(''body'', JStr (f_body f)), (''fingerprint'', JStr (f_fingerprint f)), (''line'', JInt (f_line f)),
           (''path'', JStr (f_path f)), (''severity'', JStr (f_severity f))]"

definition invoke_text :: "front_env \<Rightarrow> dispatch_result \<Rightarrow> string" where
  "invoke_text fe r =
     ''Run: '' @ dx_RunID r @ newline @ ''Job: '' @ dx_JobID r @ newline @
     ''Findings: '' @ itoa (int (length (dx_Findings r))) @ newline @ newline @
     concat (map (\<lambda>(i, f). ''  '' @ itoa (int i) @ ''. '' @ fe_json fe (finding_json f) @ newline) (enumerate 1 (dx_Findings r)))"

definition runInvoke :: "front_env \<Rightarrow> invoke_flags \<Rightarrow> string \<Rightarrow> string sess" where
  "runInvoke fe fl roleName =
     bindE (open_db fe True (default_db (if_DBPath fl))) (\<lambda>_.
     bindE (on_world (Orchestrate (invoke_dispatcher (fe_cli fe) fl) (fe_polls fe)
       \<lparr>in_RoleName = roleName, in_Inputs = invoke_inputs fl, in_RunID = []\<rparr>)) (\<lambda>r.
     if dx_ExitCode r \<noteq> 0 then raise (Errorf ''agent exited with code %d'' [itoa (dx_ExitCode r)])
     else ret (invoke_text fe r)))"

section \<open>daemon.go\<close>

record daemon_flags =
  df_DBPath :: string
  df_RoleDir :: string
  df_PromptDir :: string
  df_CliBinary :: string
  df_ClaudeBinary :: string
  df_CodexBinary :: string
  df_OpenCodeBinary :: string
  df_OpenCodeServer :: string

definition buildDaemonDispatcher :: "cli_env \<Rightarrow> daemon_flags \<Rightarrow> dispatcher" where
  "buildDaemonDispatcher en fl =
     (let dir = coworker_dir (df_DBPath fl); newAgent = (\<lambda>bin. ce_cli_agent en bin dir) in
      bare_dispatcher en (default_role_dir en (df_RoleDir fl))
        (if df_PromptDir fl \<noteq> [] then df_PromptDir fl else if missing_file en dir then ''coding'' else dir)
        (newAgent (or_default (df_CliBinary fl) ''codex''))
        [(''claude-code'', newAgent (or_default (df_ClaudeBinary fl) ''claude'')),
         (''codex'', newAgent (or_default (df_CodexBinary fl) ''codex'')),
         (''opencode'', if df_OpenCodeServer fl \<noteq> [] then ce_http_agent en (df_OpenCodeServer fl)
                      else newAgent (or_default (df_OpenCodeBinary fl) ''opencode''))]
        True)"

section \<open>status.go\<close>

definition field_line :: "string \<Rightarrow> string \<Rightarrow> string" where
  "field_line label s = label @ s @ newline"

text \<open>A line that is left out for the zero value.\<close>

definition line_when :: "bool \<Rightarrow> string \<Rightarrow> string \<Rightarrow> string" where
  "line_when b label s = (if b then field_line label s else [])"

definition run_cells :: "run \<Rightarrow> string list" where
  "run_cells r =
     [run_id r, run_mode r, run_state_string (run_state r), date_time (run_started_at r),
      (case run_ended_at r of None \<Rightarrow> em_dash | Some t \<Rightarrow> date_time t)]"

definition printRunList :: "string prog" where
  "printRunList =
     bindE (wrapE ''list runs: %w'' [] ListRuns) (\<lambda>runs.
     ret (if runs = [] then ''no runs in database'' @ newline
          else table_text ([''RUN ID'', ''MODE'', ''STATE'', ''STARTED'', ''ENDED''] # map run_cells runs)))"

definition run_text :: "front_env \<Rightarrow> run \<Rightarrow> string" where
  "run_text fe r =
     field_line ''Run:        '' (run_id r) @ field_line ''Mode:       '' (run_mode r) @
     field_line ''State:      '' (run_state_string (run_state r)) @ field_line ''Started:    '' (date_time (run_started_at r)) @
     (case run_ended_at r of None \<Rightarrow> [] | Some t \<Rightarrow> field_line ''Ended:      '' (date_time t)) @
     line_when (run_prd_path r \<noteq> []) ''PRD:        '' (run_prd_path r) @
     line_when (run_spec_path r \<noteq> []) ''Spec:       '' (run_spec_path r) @
     line_when (run_cost_usd r > 0) ''Cost USD:   '' (fe_float fe 4 (run_cost_usd r)) @
     (case run_budget_usd r of None \<Rightarrow> [] | Some b \<Rightarrow> field_line ''Budget USD: '' (fe_float fe 2 b))"

definition job_cells :: "job \<Rightarrow> string list" where
  "job_cells j =
     [''  '' @ job_id j, job_role j, job_state_string (job_state j), job_cli j, clock_time (seconds_of (job_started_at j))]"

text \<open>A heading with the number of rows, and the table when there are rows.\<close>

definition counted_table :: "string \<Rightarrow> string list \<Rightarrow> string list list \<Rightarrow> string" where
  "counted_table label header rows =
     newline @ label @ '' ('' @ itoa (int (length rows)) @ ''):'' @ newline @ (if rows = [] then [] else table_text (header # rows))"

definition printRunDetails :: "front_env \<Rightarrow> ident \<Rightarrow> string prog" where
  "printRunDetails fe runID =
     bindE (attempt (GetRun runID)) (\<lambda>r.
     case r of
       Inl e \<Rightarrow> if errors_is e ErrNoRows then raise (Errorf ''run not found: %s'' [runID])
               else raise (Wrapf ''get run %q: %w'' [runID] e)
     | Inr run \<Rightarrow>
         bindE (wrapE ''list jobs: %w'' [] (ListJobsByRun runID)) (\<lambda>jobs.
         ret (run_text fe run @
              counted_table ''Jobs'' [''  JOB ID'', ''ROLE'', ''STATE'', ''CLI'', ''STARTED''] (map job_cells jobs))))"

definition runStatus :: "front_env \<Rightarrow> string \<Rightarrow> string \<Rightarrow> string sess" where
  "runStatus fe db runID =
     (let path = default_db db in
      case ce_stat (fe_cli fe) path of
        Some e \<Rightarrow> raise (Wrapf (''database not found at %q (start with '' @ [CHR 0x60] @ ''coworker daemon'' @ [CHR 0x60] @ '' or use --db): %w'')
                   [path] e)
      | None \<Rightarrow>
          bindE (open_db fe False path) (\<lambda>_.
          on_world (if runID \<noteq> [] then printRunDetails fe runID else printRunList)))"

section \<open>inspect.go\<close>

definition job_or_not_found :: "string \<Rightarrow> string list \<Rightarrow> ident \<Rightarrow> job prog" where
  "job_or_not_found msg args jobID =
     bindE (attempt (GetJob jobID)) (\<lambda>r.
     case r of
       Inl e \<Rightarrow> if errors_is e ErrNoRows then raise (Errorf ''job not found: %s'' [jobID]) else raise (Wrapf msg args e)
     | Inr j \<Rightarrow> ret j)"

definition job_text :: "front_env \<Rightarrow> job \<Rightarrow> string" where
  "job_text fe j =
     field_line ''Job:           '' (job_id j) @ field_line ''Run:           '' (job_run_id j) @
     field_line ''Role:          '' (job_role j) @ field_line ''State:         '' (job_state_string (job_state j)) @
     field_line ''CLI:           '' (job_cli j) @ field_line ''Dispatched by: '' (job_dispatched_by j) @
     field_line ''Started:       '' (date_time (job_started_at j)) @
     (case job_ended_at j of None \<Rightarrow> [] | Some t \<Rightarrow> field_line ''Ended:         '' (date_time t)) @
     line_when (job_plan_id j \<noteq> []) ''Plan:          '' (job_plan_id j @ '' (phase '' @ itoa (job_phase_index j) @ '')'') @
     line_when (job_cost_usd j > 0) ''Cost USD:      '' (fe_float fe 4 (job_cost_usd j))"

definition finding_cells :: "finding \<Rightarrow> string list" where
  "finding_cells f = [''  '' @ f_path f @ '':'' @ itoa (f_line f), f_severity f, f_body f]"

definition verdict_cells :: "supervisor_row \<Rightarrow> string list" where
  "verdict_cells s = [''  '' @ sr_rule_id s, sr_verdict s, sr_message s]"

definition cost_cells :: "front_env \<Rightarrow> cost_row \<Rightarrow> string list" where
  "cost_cells fe c =
     [''  '' @ co_provider c @ ''/'' @ co_model c, itoa (co_tokens_in c), itoa (co_tokens_out c), fe_float fe 4 (co_usd c)]"

definition inspect_text :: "front_env \<Rightarrow> ident \<Rightarrow> string prog" where
  "inspect_text fe jobID =
     bindE (job_or_not_found ''get job: %w'' [] jobID) (\<lambda>job.
     bindE (wrapE ''list findings: %w'' [] (ListFindings (job_run_id job))) (\<lambda>findings.
     bindE (wrapE ''list supervisor events: %w'' [] (SupervisorListByJob jobID)) (\<lambda>sups.
     bindE (wrapE ''list cost events: %w'' [] (CostListByJob jobID)) (\<lambda>costs.
     ret (job_text fe job @
       counted_table ''Findings'' [''  PATH:LINE'', ''SEVERITY'', ''BODY'']
         (map finding_cells (filter (\<lambda>f. f_job_id f = jobID) findings)) @
       counted_table ''Supervisor verdicts'' [''  RULE'', ''VERDICT'', ''MESSAGE''] (map verdict_cells sups) @
       counted_table ''Cost samples'' [''  PROVIDER/MODEL'', ''TOKENS_IN'', ''TOKENS_OUT'', ''USD''] (map (cost_cells fe) costs))))))"

definition runInspect :: "front_env \<Rightarrow> string \<Rightarrow> ident \<Rightarrow> string sess" where
  "runInspect fe db jobID = bindE (open_db fe False (default_db db)) (\<lambda>_. on_world (inspect_text fe jobID))"

section \<open>logs.go\<close>

text \<open>What a read of the followed file gives: a line, or what is left at its end, or an error; at the end of the
  file the context may be done.\<close>

datatype read_turn = Full_Line string | At_EOF string bool | Read_Fault string goerr

fun tailFile :: "read_turn list \<Rightarrow> string \<Rightarrow> goerr + string" where
  "tailFile [] out = Inr out"
| "tailFile (Full_Line l # ts) out = tailFile ts (out @ l)"
| "tailFile (At_EOF l finished # ts) out = (if finished then Inr (out @ l) else tailFile ts (out @ l))"
| "tailFile (Read_Fault l e # ts) out = Inl (Wrapf ''read log: %w'' [] e)"

definition log_path :: "string \<Rightarrow> ident \<Rightarrow> ident \<Rightarrow> string" where
  "log_path dbPath runID jobID = join_path [dir_of dbPath, ''runs'', runID, ''jobs'', jobID @ ''.jsonl'']"

definition runLogs :: "front_env \<Rightarrow> string \<Rightarrow> bool \<Rightarrow> read_turn list \<Rightarrow> ident \<Rightarrow> string sess" where
  "runLogs fe db follow turns jobID =
     (let path = default_db db in
      bindE (open_db fe False path) (\<lambda>_.
      bindE (on_world (job_or_not_found ''get job %q: %w'' [jobID] jobID)) (\<lambda>job.
      let p = log_path path (job_run_id job) jobID in
      case ce_stat (fe_cli fe) p of
        Some e \<Rightarrow> raise (Wrapf ''log file not found at %q: %w'' [p] e)
      | None \<Rightarrow>
          if follow then (case tailFile turns [] of Inl e \<Rightarrow> raise e | Inr out \<Rightarrow> ret out)
          else (case ce_read_file (fe_cli fe) p of Inl e \<Rightarrow> raise (Wrapf ''open log: %w'' [] e) | Inr s \<Rightarrow> ret s))))"

section \<open>config_inspect.go\<close>

definition runConfigInspect :: "(string \<Rightarrow> layer) \<Rightarrow> goerr + string \<Rightarrow> goerr + string" where
  "runConfigInspect read home =
     (case home of
        Inl e \<Rightarrow> Inl (Wrapf ''resolve HOME directory: %w'' [] e)
      | Inr h \<Rightarrow>
          (case LoadPolicy read (join_path [h, ''.config'', ''coworker'', ''policy.yaml''])
                  (join_path [''.coworker'', ''policy.yaml'']) of
             Inl e \<Rightarrow> Inl (Wrapf ''load policy: %w'' [] e)
           | Inr p \<Rightarrow> Inr (InspectString (Some p))))"

end
