(* ===== verification/Migrations.thy ===== *)
theory Migrations
  imports World
begin

text \<open>
  The opening of the database (\<open>store/db.go\<close>): the data source name with its per-connection pragmas,
  and \<open>migrate\<close>, which brings the schema up to date from the embedded files. What a migration file
  does to the schema is the driver's business: \<open>script\<close> is the effect of running its text, or the
  driver's message. \<open>mg_faults k\<close> is the failure of the \<open>k\<close>-th call of the driver.
\<close>

section \<open>The data source name\<close>

definition pragmas :: string where
  "pragmas = ''_pragma=foreign_keys(1)&_pragma=busy_timeout(5000)&_pragma=journal_mode(WAL)''"

definition buildSQLiteDSN :: "string \<Rightarrow> string" where
  "buildSQLiteDSN path =
     (if path = '':memory:'' then ''file::memory:?'' @ pragmas else ''file:'' @ path @ ''?'' @ pragmas)"

section \<open>The state\<close>

text \<open>\<open>mg_applied\<close> is the table \<open>schema_migrations\<close> (its versions), \<open>None\<close> before it exists.\<close>

record 's migrating =
  mg_applied :: "int list option"
  mg_schema :: 's
  mg_faults :: "nat \<Rightarrow> string option"
  mg_calls :: nat

type_synonym ('s, 'a) mig = "('s migrating, 'a) io"

type_synonym 's script = "string \<Rightarrow> 's \<Rightarrow> string + 's"

definition driver :: "('s, 'a) mig \<Rightarrow> ('s, 'a) mig" where
  "driver m = (\<lambda>s. let s' = s\<lparr>mg_calls := Suc (mg_calls s)\<rparr> in
     case mg_faults s (mg_calls s) of Some e \<Rightarrow> (Inl (ErrDriver e), s') | None \<Rightarrow> m s')"

definition create_versions :: "('s, unit) mig" where
  "create_versions = driver (modify (\<lambda>s. s\<lparr>mg_applied := Some (case mg_applied s of None \<Rightarrow> [] | Some vs \<Rightarrow> vs)\<rparr>))"

text \<open>Without the table a query of it fails in the driver.\<close>

definition count_version :: "int \<Rightarrow> ('s, nat) mig" where
  "count_version v = driver (\<lambda>s. case mg_applied s of
       None \<Rightarrow> (Inl (ErrDriver ''no such table: schema_migrations''), s)
     | Some vs \<Rightarrow> (Inr (length (filter (\<lambda>u. u = v) vs)), s))"

definition exec_script :: "'s script \<Rightarrow> string \<Rightarrow> ('s, unit) mig" where
  "exec_script script data = driver (\<lambda>s. case script data (mg_schema s) of
       Inl e \<Rightarrow> (Inl (ErrDriver e), s)
     | Inr d \<Rightarrow> (Inr (), s\<lparr>mg_schema := d\<rparr>))"

definition insert_version :: "int \<Rightarrow> ('s, unit) mig" where
  "insert_version v = driver (\<lambda>s. case mg_applied s of
       None \<Rightarrow> (Inl (ErrDriver ''no such table: schema_migrations''), s)
     | Some vs \<Rightarrow> (if v \<in> set vs then (Inl (ErrUniqueViolation ''schema_migrations''), s)
         else (Inr (), s\<lparr>mg_applied := Some (vs @ [v])\<rparr>)))"

text \<open>\<open>db.Begin\<close>, the two statements and \<open>tx.Commit\<close>: whatever fails leaves both tables as they
  were.\<close>

definition in_migration :: "string \<Rightarrow> int \<Rightarrow> ('s, unit) mig \<Rightarrow> ('s, unit) mig" where
  "in_migration commit_msg v body = (\<lambda>s.
     let undo = (\<lambda>t. t\<lparr>mg_applied := mg_applied s, mg_schema := mg_schema s\<rparr>) in
     case body s of
       (Inl e, t) \<Rightarrow> (Inl e, undo t)
     | (Inr _, t) \<Rightarrow>
         (case driver (ret ()) t of
            (Inl e, u) \<Rightarrow> (Inl (Wrapf commit_msg [itoa v] e), undo u)
          | (Inr _, u) \<Rightarrow> (Inr (), u)))"

section \<open>The version in a file name\<close>

text \<open>\<open>fmt.Sscanf(name, "%d_", &version)\<close>: blanks are skipped, a sign is read, then the digits, and
  an underscore must follow. The name ends in \<open>.sql\<close>, so the input never runs out.\<close>

definition scan_version :: "string \<Rightarrow> goerr + int" where
  "scan_version name =
     (let s = dropWhile (\<lambda>c. is_space c \<and> c \<noteq> CHR 0x0A) name;
          negative = (s \<noteq> [] \<and> hd s = CHR ''-'');
          signed = (s \<noteq> [] \<and> hd s \<in> {CHR ''-'', CHR ''+''});
          r = (if signed then tl s else s);
          ds = takeWhile is_digit r;
          n = int (digits_val 0 ds)
      in if s \<noteq> [] \<and> hd s = CHR 0x0A then Inl (Errorf ''unexpected newline'' [])
         else if ds = [] then Inl (Errorf ''expected integer'' [])
         else (case check_range (if negative then - n else n) of
             None \<Rightarrow> Inl (Errorf ''strconv.ParseInt: parsing %q: value out of range'' [if signed then hd s # ds else ds])
           | Some v \<Rightarrow> (case dropWhile is_digit r of
                 c # _ \<Rightarrow> if c = CHR ''_'' then Inr v else Inl (Errorf ''input does not match format'' [])
               | [] \<Rightarrow> Inl (Errorf ''unexpected EOF'' []))))"

section \<open>The migration loop\<close>

record dir_entry =
  de_name :: string
  de_is_dir :: bool
  de_data :: string

definition apply_migration :: "'s script \<Rightarrow> string \<Rightarrow> int \<Rightarrow> ('s, unit) mig" where
  "apply_migration script data v =
     bindE (wrapE ''begin migration %d: %w'' [itoa v] (driver (ret ()))) (\<lambda>_.
     in_migration ''commit migration %d: %w'' v
       (bindE (wrapE ''exec migration %d: %w'' [itoa v] (exec_script script data)) (\<lambda>_.
        wrapE ''record migration %d: %w'' [itoa v] (insert_version v))))"

definition migrate_entry :: "'s script \<Rightarrow> dir_entry \<Rightarrow> ('s, unit) mig" where
  "migrate_entry script d =
     (if de_is_dir d \<or> \<not> has_suffix (de_name d) ''.sql'' then ret ()
      else (case scan_version (de_name d) of
          Inl e \<Rightarrow> raise (Wrapf ''parse migration version from %q: %w'' [de_name d] e)
        | Inr v \<Rightarrow>
            bindE (wrapE ''check migration %d: %w'' [itoa v] (count_version v)) (\<lambda>n.
            if n > 0 then ret () else apply_migration script (de_data d) v)))"

text \<open>The files are embedded in the binary, so the directory and its files can always be read; names
  of one directory are distinct, so the order of \<open>sort.Slice\<close> is that of \<open>sort_key\<close>.\<close>

definition migrate :: "'s script \<Rightarrow> dir_entry list \<Rightarrow> ('s, unit) mig" where
  "migrate script entries =
     bindE (wrapE ''create schema_migrations: %w'' [] create_versions) (\<lambda>_.
     bindE (forE (sort_key de_name entries) (migrate_entry script)) (\<lambda>_. ret ()))"

text \<open>\<open>Open\<close>: the data source name, the limit of connections (\<open>None\<close>: none) and the outcome.\<close>

definition Open :: "'s script \<Rightarrow> dir_entry list \<Rightarrow> string \<Rightarrow> ('s, string \<times> nat option) mig" where
  "Open script entries path =
     bindE (wrapE ''open sqlite %q: %w'' [path] (driver (ret ()))) (\<lambda>_.
     bindE (wrapE ''ping sqlite %q: %w'' [path] (driver (ret ()))) (\<lambda>_.
     bindE (wrapE ''migrate: %w'' [] (migrate script entries)) (\<lambda>_.
     ret (buildSQLiteDSN path, if path = '':memory:'' then Some 1 else None))))"


section \<open>Restarting a migration\<close>

text \<open>\<open>tables s\<close> is what is on disk. \<open>entry_effect\<close> is what one file does to the tables when the driver
  does not fail: nothing, a new version with the new schema, or an error.\<close>

definition tables :: "'s migrating \<Rightarrow> int list option \<times> 's" where
  "tables s = (mg_applied s, mg_schema s)"

definition steady :: "'s migrating \<Rightarrow> bool" where
  "steady s \<longleftrightarrow> mg_faults s = (\<lambda>_. None)"

definition entry_effect :: "'s script \<Rightarrow> dir_entry \<Rightarrow> int list \<times> 's \<Rightarrow> goerr + int list \<times> 's" where
  "entry_effect script d = (\<lambda>(vs, st).
     if de_is_dir d \<or> \<not> has_suffix (de_name d) ''.sql'' then Inr (vs, st)
     else (case scan_version (de_name d) of
         Inl e \<Rightarrow> Inl (Wrapf ''parse migration version from %q: %w'' [de_name d] e)
       | Inr v \<Rightarrow> if v \<in> set vs then Inr (vs, st)
           else (case script (de_data d) st of
               Inl e \<Rightarrow> Inl (Wrapf ''exec migration %d: %w'' [itoa v] (ErrDriver e))
             | Inr st' \<Rightarrow> Inr (vs @ [v], st'))))"

fun entries_effect :: "'s script \<Rightarrow> dir_entry list \<Rightarrow> int list \<times> 's \<Rightarrow> goerr option \<times> int list \<times> 's" where
  "entries_effect script [] x = (None, x)"
| "entries_effect script (d # ds) x = (case entry_effect script d x of
     Inl e \<Rightarrow> (Some e, x)
   | Inr y \<Rightarrow> entries_effect script ds y)"

lemmas migration_defs = apply_migration_def in_migration_def exec_script_def insert_version_def driver_def
  bindE_def wrapE_def ret_def Let_def

lemma apply_migration_atomic:
  assumes "mg_applied s = Some vs" "v \<notin> set vs" "apply_migration script data v s = (r, t)"
  shows "(\<exists>e. r = Inl e \<and> tables t = tables s) \<or>
     (\<exists>d. r = Inr () \<and> script data (mg_schema s) = Inr d \<and> tables t = (Some (vs @ [v]), d))"
  using assms
  by (cases "mg_faults s (mg_calls s)"; cases "mg_faults s (Suc (mg_calls s))";
      cases "mg_faults s (Suc (Suc (mg_calls s)))"; cases "mg_faults s (Suc (Suc (Suc (mg_calls s))))";
      cases "script data (mg_schema s)")
    (auto simp: migration_defs tables_def)

lemma apply_migration_calm:
  assumes "steady s" "mg_applied s = Some vs" "v \<notin> set vs"
  shows "case script data (mg_schema s) of
      Inl e \<Rightarrow> fst (apply_migration script data v s) = Inl (Wrapf ''exec migration %d: %w'' [itoa v] (ErrDriver e))
    | Inr d \<Rightarrow> fst (apply_migration script data v s) = Inr () \<and> tables (snd (apply_migration script data v s)) = (Some (vs @ [v]), d)"
  using assms by (cases "script data (mg_schema s)") (simp_all add: migration_defs steady_def tables_def)

lemma apply_migration_faults:
  "mg_applied s = Some vs \<Longrightarrow> v \<notin> set vs \<Longrightarrow> mg_faults (snd (apply_migration script data v s)) = mg_faults s"
  by (cases "mg_faults s (mg_calls s)"; cases "mg_faults s (Suc (mg_calls s))";
      cases "mg_faults s (Suc (Suc (mg_calls s)))"; cases "mg_faults s (Suc (Suc (Suc (mg_calls s))))";
      cases "script data (mg_schema s)")
    (auto simp: migration_defs)

lemma count_version_run:
  assumes "mg_applied s = Some vs"
  shows "count_version v s = (case mg_faults s (mg_calls s) of
      Some e \<Rightarrow> (Inl (ErrDriver e), s\<lparr>mg_calls := Suc (mg_calls s)\<rparr>)
    | None \<Rightarrow> (Inr (length (filter (\<lambda>u. u = v) vs)), s\<lparr>mg_calls := Suc (mg_calls s)\<rparr>))"
  using assms by (simp add: count_version_def driver_def Let_def split: option.split)


lemma count_zero_iff: "filter (\<lambda>u. u = v) vs = [] \<longleftrightarrow> v \<notin> set vs"
  by (induction vs) auto

text \<open>One file under any faults: either the tables are what the file makes of them, or there is an
  error and they are as before. Without faults, it is exactly \<open>entry_effect\<close>.\<close>

lemma migrate_entry_atomic:
  assumes "mg_applied s = Some vs" "migrate_entry script d s = (r, t)"
  shows "(\<exists>e. r = Inl e \<and> tables t = tables s) \<or>
     (\<exists>vs' st. r = Inr () \<and> entry_effect script d (vs, mg_schema s) = Inr (vs', st) \<and> tables t = (Some vs', st))"
proof (cases "de_is_dir d \<or> \<not> has_suffix (de_name d) ''.sql''")
  case True
  with assms show ?thesis by (auto simp: migrate_entry_def entry_effect_def ret_def tables_def)
next
  case False
  show ?thesis
  proof (cases "scan_version (de_name d)")
    case (Inl e)
    with False assms show ?thesis by (auto simp: migrate_entry_def raise_def)
  next
    case (Inr v)
    note scan = Inr
    show ?thesis
    proof (cases "mg_faults s (mg_calls s)")
      case (Some e)
      with False scan assms show ?thesis
        by (auto simp: migrate_entry_def bindE_def wrapE_def count_version_run tables_def)
    next
      case None
      let ?u = "s\<lparr>mg_calls := Suc (mg_calls s)\<rparr>"
      have u: "mg_applied ?u = Some vs" "tables ?u = tables s" "mg_schema ?u = mg_schema s"
        using assms by (simp_all add: tables_def)
      show ?thesis
      proof (cases "v \<in> set vs")
        case True
        with False scan None assms show ?thesis
          by (auto simp: migrate_entry_def bindE_def wrapE_def count_version_run count_zero_iff
              ret_def entry_effect_def tables_def)
      next
        case new: False
        from False scan None new assms have "apply_migration script (de_data d) v ?u = (r, t)"
          by (simp add: migrate_entry_def bindE_def wrapE_def count_version_run count_zero_iff)
        from apply_migration_atomic [OF u(1) new this] u False scan new show ?thesis
          by (auto simp: entry_effect_def)
      qed
    qed
  qed
qed

lemma migrate_entry_faults:
  assumes "mg_applied s = Some vs"
  shows "mg_faults (snd (migrate_entry script d s)) = mg_faults s"
  using assms apply_migration_faults [of "s\<lparr>mg_calls := Suc (mg_calls s)\<rparr>" vs]
  by (auto simp: migrate_entry_def ret_def raise_def bindE_def wrapE_def count_version_run count_zero_iff
      split: sum.split option.split)

lemma migrate_entry_calm:
  assumes "steady s" "mg_applied s = Some vs"
  shows "fst (migrate_entry script d s) = (case entry_effect script d (vs, mg_schema s) of Inl e \<Rightarrow> Inl e | Inr _ \<Rightarrow> Inr ())"
proof -
  let ?u = "s\<lparr>mg_calls := Suc (mg_calls s)\<rparr>"
  have u: "steady ?u" "mg_applied ?u = Some vs" "mg_schema ?u = mg_schema s" using assms by (simp_all add: steady_def)
  have "fst (apply_migration script (de_data d) v ?u) =
      (case script (de_data d) (mg_schema s) of
        Inl e \<Rightarrow> Inl (Wrapf ''exec migration %d: %w'' [itoa v] (ErrDriver e)) | Inr _ \<Rightarrow> Inr ())"
    if "v \<notin> set vs" for v
    using apply_migration_calm [OF u(1,2) that, of script "de_data d"] u(3) by (simp split: sum.splits)
  then show ?thesis
    using assms
    by (auto simp: migrate_entry_def entry_effect_def ret_def raise_def bindE_def wrapE_def count_version_run
        count_zero_iff steady_def split: sum.split option.split)
qed

text \<open>The whole loop: the tables are what a prefix of the files makes of them, and the loop stopped
  with an error if the prefix is proper.\<close>

lemma entries_loop:
  assumes "mg_applied s = Some vs" "forE ds (migrate_entry script) s = (r, t)"
  shows "\<exists>es fs vs' st. ds = es @ fs \<and> entries_effect script es (vs, mg_schema s) = (None, vs', st)
     \<and> tables t = (Some vs', st) \<and> (fs \<noteq> [] \<longrightarrow> (\<exists>e. r = Inl e)) \<and> (fs = [] \<longrightarrow> (\<exists>x. r = Inr x))"
  using assms
proof (induction ds arbitrary: s vs r)
  case Nil
  then show ?case by (auto simp: ret_def tables_def)
next
  case (Cons d ds)
  obtain r1 s1 where m: "migrate_entry script d s = (r1, s1)" by fastforce
  from migrate_entry_atomic [OF Cons.prems(1) m] show ?case
  proof (elim disjE exE conjE)
    fix e assume "r1 = Inl e" "tables s1 = tables s"
    with m Cons.prems have "r = Inl e" "tables t = (Some vs, mg_schema s)"
      by (auto simp: bindE_def tables_def)
    then show ?thesis by (intro exI [of _ "[]"] exI [of _ "d # ds"] exI [of _ vs] exI [of _ "mg_schema s"]) auto
  next
    fix vs1 st1
    assume r1: "r1 = Inr ()" and eff: "entry_effect script d (vs, mg_schema s) = Inr (vs1, st1)" and tb: "tables s1 = (Some vs1, st1)"
    obtain r2 where f: "forE ds (migrate_entry script) s1 = (r2, t)"
      and rr: "(\<exists>e. r = Inl e \<and> r2 = Inl e) \<or> (\<exists>x y. r = Inr x \<and> r2 = Inr y)"
      using Cons.prems(2) m r1 by (auto simp: bindE_def ret_def split: prod.splits sum.splits)
    from tb have s1: "mg_applied s1 = Some vs1" "mg_schema s1 = st1" by (auto simp: tables_def)
    from Cons.IH [OF s1(1) f, unfolded s1(2)] obtain es fs vs' st where h: "ds = es @ fs"
        "entries_effect script es (vs1, st1) = (None, vs', st)" "tables t = (Some vs', st)"
        "fs \<noteq> [] \<longrightarrow> (\<exists>e. r2 = Inl e)" "fs = [] \<longrightarrow> (\<exists>x. r2 = Inr x)" by blast
    then show ?thesis using rr eff
      by (intro exI [of _ "d # es"] exI [of _ fs]) auto
  qed
qed

text \<open>Without faults the loop computes \<open>entries_effect\<close>.\<close>

lemma entries_loop_calm:
  assumes "steady s" "mg_applied s = Some vs"
  shows "(case entries_effect script ds (vs, mg_schema s) of (e, vs', st) \<Rightarrow>
     (case fst (forE ds (migrate_entry script) s) of Inl e' \<Rightarrow> e = Some e' | Inr _ \<Rightarrow> e = None)
     \<and> tables (snd (forE ds (migrate_entry script) s)) = (Some vs', st))"
  using assms
proof (induction ds arbitrary: s vs)
  case Nil
  then show ?case by (simp add: ret_def tables_def)
next
  case (Cons d ds)
  obtain r1 s1 where m: "migrate_entry script d s = (r1, s1)" by fastforce
  note at = migrate_entry_atomic [OF Cons.prems(2) m]
  note ca = migrate_entry_calm [OF Cons.prems, of script d]
  show ?case
  proof (cases "entry_effect script d (vs, mg_schema s)")
    case (Inl e)
    with ca m at show ?thesis by (auto simp: bindE_def tables_def Cons.prems)
  next
    case (Inr y)
    then obtain vs1 st1 where y: "entry_effect script d (vs, mg_schema s) = Inr (vs1, st1)" by (cases y) auto
    with ca m have r1: "r1 = Inr ()" by simp
    with at y have tb: "mg_applied s1 = Some vs1" "mg_schema s1 = st1" by (auto simp: tables_def)
    have "steady s1" using migrate_entry_faults [OF Cons.prems(2), of script d] m Cons.prems(1) by (simp add: steady_def)
    from Cons.IH [OF this tb(1)] tb(2) show ?thesis
      by (auto simp: bindE_def m r1 y ret_def split: prod.splits sum.splits)
  qed
qed

text \<open>A prefix that was applied is skipped when the files are run again.\<close>

lemma entry_effect_skips:
  assumes "entry_effect script d (vs, st) = Inr (vs', st')" "set vs' \<subseteq> set us"
  shows "entry_effect script d (us, u) = Inr (us, u)"
  using assms by (auto simp: entry_effect_def split: if_splits sum.splits)

lemma entry_effect_grows:
  "entry_effect script d (vs, st) = Inr (vs', st') \<Longrightarrow> set vs \<subseteq> set vs'"
  by (auto simp: entry_effect_def split: if_splits sum.splits)

lemma entries_effect_grows:
  "entries_effect script es (vs, st) = (e, vs', st') \<Longrightarrow> set vs \<subseteq> set vs'"
proof (induction es arbitrary: vs st)
  case (Cons d es)
  then show ?case using entry_effect_grows by (fastforce split: sum.splits)
qed auto

lemma entries_effect_skips:
  assumes "entries_effect script es (vs, st) = (None, vs', st')" "set vs' \<subseteq> set us"
  shows "entries_effect script (es @ fs) (us, u) = entries_effect script fs (us, u)"
  using assms
proof (induction es arbitrary: vs st)
  case (Cons d es)
  obtain vs1 st1 where y: "entry_effect script d (vs, st) = Inr (vs1, st1)"
      and r: "entries_effect script es (vs1, st1) = (None, vs', st')"
    using Cons.prems(1) by (auto split: sum.splits)
  with entries_effect_grows [OF r] Cons.prems(2) have "entry_effect script d (us, u) = Inr (us, u)"
    by (intro entry_effect_skips [OF y]) auto
  with Cons.IH [OF r Cons.prems(2)] show ?case by simp
qed simp

lemma entries_effect_append:
  "entries_effect script es x = (None, y) \<Longrightarrow> entries_effect script (es @ fs) x = entries_effect script fs y"
  by (induction es arbitrary: x) (auto split: sum.splits)


lemma entries_effect_split:
  assumes "entries_effect script (es @ fs) x = (None, y)"
  shows "\<exists>z. entries_effect script es x = (None, z) \<and> entries_effect script fs z = (None, y)"
  using assms by (induction es arbitrary: x) (auto split: sum.splits)

definition reliable :: "'s migrating \<Rightarrow> 's migrating" where
  "reliable s = s\<lparr>mg_faults := (\<lambda>_. None)\<rparr>"

definition versions_or_empty :: "'s migrating \<Rightarrow> int list" where
  "versions_or_empty s = (case mg_applied s of None \<Rightarrow> [] | Some vs \<Rightarrow> vs)"

text \<open>A reliable \<open>migrate\<close> computes the effect of the sorted files on the table of versions.\<close>

lemma migrate_reliable:
  "(case entries_effect script (sort_key de_name entries) (versions_or_empty s, mg_schema s) of (e, vs', st) \<Rightarrow>
     fst (migrate script entries (reliable s)) = (case e of None \<Rightarrow> Inr () | Some e' \<Rightarrow> Inl e')
     \<and> tables (snd (migrate script entries (reliable s))) = (Some vs', st))"
proof -
  let ?ds = "sort_key de_name entries"
  let ?s = "s\<lparr>mg_faults := (\<lambda>_. None), mg_calls := Suc (mg_calls s), mg_applied := Some (versions_or_empty s)\<rparr>"
  have "steady ?s" "mg_applied ?s = Some (versions_or_empty s)" by (simp_all add: steady_def)
  note l = entries_loop_calm [OF this, where ds = ?ds and script = script]
  have cv: "create_versions (reliable s) = (Inr (), ?s)"
    by (simp add: create_versions_def driver_def reliable_def modify_def versions_or_empty_def Let_def)
  obtain r t where f: "forE ?ds (migrate_entry script) ?s = (r, t)" by fastforce
  show ?thesis
    using l f cv by (auto simp: migrate_def bindE_def wrapE_def ret_def split: prod.splits sum.splits option.splits)
qed

text \<open>
  C23. The migration can be interrupted anywhere: whatever calls of the driver failed, running it again on
  a driver that works gives the same outcome and the same tables as if it had never failed.
\<close>

theorem migrate_restartable:
  "let t = snd (migrate script entries s) in
     fst (migrate script entries (reliable t)) = fst (migrate script entries (reliable s)) \<and>
     tables (snd (migrate script entries (reliable t))) = tables (snd (migrate script entries (reliable s)))"
proof -
  let ?ds = "sort_key de_name entries"
  let ?x = "(versions_or_empty s, mg_schema s)"
  define t where "t = snd (migrate script entries s)"
  have "entries_effect script ?ds (versions_or_empty t, mg_schema t) = entries_effect script ?ds ?x"
  proof (cases "mg_faults s (mg_calls s)")
    case (Some e)
    then have "versions_or_empty t = versions_or_empty s" "mg_schema t = mg_schema s"
      by (simp_all add: t_def migrate_def bindE_def wrapE_def create_versions_def driver_def versions_or_empty_def Let_def)
    then show ?thesis by simp
  next
    case None
    let ?s = "s\<lparr>mg_calls := Suc (mg_calls s), mg_applied := Some (versions_or_empty s)\<rparr>"
    have a: "mg_applied ?s = Some (versions_or_empty s)" by simp
    obtain r u where f: "forE ?ds (migrate_entry script) ?s = (r, u)" by fastforce
    have "create_versions s = (Inr (), ?s)" using None
      by (simp add: create_versions_def driver_def modify_def versions_or_empty_def Let_def)
    with f have "tables t = tables u"
      by (auto simp: t_def migrate_def bindE_def wrapE_def ret_def tables_def split: sum.splits)
    moreover have "mg_schema ?s = mg_schema s" by simp
    note entries_loop [OF a f, unfolded this]
    then obtain es fs vs' st where h: "?ds = es @ fs"
      "entries_effect script es ?x = (None, vs', st)" "tables u = (Some vs', st)" by blast
    ultimately have "versions_or_empty t = vs'" "mg_schema t = st"
      by (auto simp: tables_def versions_or_empty_def)
    then show ?thesis
      using entries_effect_skips [OF h(2) order.refl] entries_effect_append [OF h(2)] h(1) by simp
  qed
  with migrate_reliable [where s = s and script = script and entries = entries] migrate_reliable [where s = t and script = script and entries = entries] show ?thesis
    by (simp add: t_def [symmetric] Let_def split: prod.splits)
qed

text \<open>A migration that has succeeded changes nothing any more, whatever fails in a later one.\<close>

lemma migrate_idempotent:
  assumes "migrate script entries s = (Inr (), t)"
  shows "tables (snd (migrate script entries (t\<lparr>mg_faults := f, mg_calls := n\<rparr>))) = tables t"
proof -
  let ?ds = "sort_key de_name entries"
  let ?t = "t\<lparr>mg_faults := f, mg_calls := n\<rparr>"
  from assms obtain s1 us where c: "create_versions s = (Inr (), s1)" "forE ?ds (migrate_entry script) s1 = (Inr us, t)"
    by (auto simp: migrate_def run_simps)
  from c(1) obtain vs where "mg_applied s1 = Some vs"
    by (auto simp: create_versions_def driver_def modify_def Let_def split: option.splits)
  from entries_loop [OF this c(2)] obtain vs' st where h: "entries_effect script ?ds (vs, mg_schema s1) = (None, vs', st)"
     and tb: "tables t = (Some vs', st)" by auto
  from tb have ta: "mg_applied t = Some vs'" "mg_schema t = st" by (simp_all add: tables_def)
  show ?thesis
  proof (cases "f n")
    case (Some e)
    then show ?thesis by (simp add: migrate_def bindE_def wrapE_def create_versions_def driver_def tables_def Let_def)
  next
    case None
    let ?u = "?t\<lparr>mg_calls := Suc n\<rparr>"
    have a: "mg_applied ?u = Some vs'" using ta by simp
    obtain r u where fo: "forE ?ds (migrate_entry script) ?u = (r, u)" by fastforce
    have "create_versions ?t = (Inr (), ?u)"
      using None ta by (simp add: create_versions_def driver_def modify_def Let_def)
    with fo have "tables (snd (migrate script entries ?t)) = tables u"
      by (auto simp: migrate_def bindE_def wrapE_def ret_def split: sum.splits)
    moreover from entries_loop [OF a fo] obtain es fs vs'' st'' where k: "?ds = es @ fs"
        "entries_effect script es (vs', st) = (None, vs'', st'')" "tables u = (Some vs'', st'')"
      using ta by auto
    moreover from entries_effect_split [where es = es and fs = fs and script = script and x = "(vs, mg_schema s1)" and y = "(vs', st)"] h k(1) obtain z where
      z: "entries_effect script es (vs, mg_schema s1) = (None, z)" "entries_effect script fs z = (None, vs', st)" by metis
    moreover have "entries_effect script es (vs', st) = (None, vs', st)"
      using entries_effect_skips [where es = es and fs = "[]" and us = vs' and u = st and script = script and vs' = "fst z" and st' = "snd z"] z
        entries_effect_grows [where es = fs and script = script and vs = "fst z" and st = "snd z"] by simp
    ultimately show ?thesis using tb by simp
  qed
qed

end
