(* ===== verification/Watch.thy ===== *)
theory Watch
  imports Tui Event_Bus
begin

text \<open>
  \<open>cli/watch.go\<close>: the command that follows the event stream of the daemon and prints one line per event, with
  its reconnection. The bytes of a response arrive up to an end of file or an error; a line is what
  \<open>ReadString\<close> returns without one, so what follows the last newline is never looked at.
\<close>

section \<open>The line of an event\<close>

text \<open>\<open>json.Compact\<close> of a valid text: the white space outside of strings goes.\<close>

fun strip_json_space :: "bool \<Rightarrow> string \<Rightarrow> string" where
  "strip_json_space instr [] = []"
| "strip_json_space False (c # cs) =
     (if json_space c then strip_json_space False cs else c # strip_json_space (c = CHR 0x22) cs)"
| "strip_json_space True [c] = [c]"
| "strip_json_space True (c # d # cs) =
     (if c = CHR 0x5C then c # d # strip_json_space True cs else c # strip_json_space (c \<noteq> CHR 0x22) (d # cs))"

definition json_compact :: "string \<Rightarrow> string option" where
  "json_compact s = (if json_text s = None then None else Some (strip_json_space False s))"

definition summarizePayload :: "string \<Rightarrow> string" where
  "summarizePayload payload =
     (if trim_space payload = [] then ''{}''
      else let p = (case json_compact payload of Some c \<Rightarrow> c | None \<Rightarrow> payload)
           in if length p > 120 then take 117 p @ ''...'' else p)"

definition formatWatchEvent :: "wire_event \<Rightarrow> string" where
  "formatWatchEvent e =
     (if fst (we_created_at e) = fst zero_instant then ''-'' else rfc3339 (fst (we_created_at e))) @ '' '' @
     pad_right 18 (we_kind e) @ '' run='' @ we_run_id e @ '' payload='' @ summarizePayload (we_payload e)"

section \<open>Reading a stream\<close>

datatype watch_ending = End_Of_File | Canceled | Read_Failed goerr

datatype watch_reply = Watch_No_Reply goerr | Watch_Reply int string string watch_ending

text \<open>\<open>wn_json_error\<close> is the error of \<open>json.Unmarshal\<close> for a text it refuses, \<open>wn_write k\<close> that of the \<open>k\<close>-th
  line of output, \<open>wn_done\<close> whether the context is done when the stream ends.\<close>

record watch_net =
  wn_bad_url :: "string \<Rightarrow> goerr option"
  wn_reply :: "string \<Rightarrow> watch_reply"
  wn_dec :: decoders
  wn_json_error :: "string \<Rightarrow> goerr"
  wn_write :: "nat \<Rightarrow> goerr option"
  wn_done :: bool

definition buildEventsURL :: "int \<Rightarrow> string \<Rightarrow> string \<Rightarrow> string" where
  "buildEventsURL port runID kind =
     with_query (''http://localhost:'' @ itoa port @ ''/events'') [(''kind'', kind), (''run_id'', runID)]"

text \<open>The line that is printed for the data of one event.\<close>

definition printWatchEvent :: "watch_net \<Rightarrow> nat \<Rightarrow> string \<Rightarrow> goerr + string" where
  "printWatchEvent nt k raw =
     (case Option.bind (json_text raw) (decode_event (wn_dec nt)) of
        None \<Rightarrow> Inl (Wrapf ''decode SSE event: %w'' [] (wn_json_error nt raw))
      | Some e \<Rightarrow>
          (case wn_write nt k of
             Some err \<Rightarrow> Inl (Wrapf ''write watch output: %w'' [] err)
           | None \<Rightarrow> Inr (formatWatchEvent e)))"

definition data_value :: "string \<Rightarrow> string" where
  "data_value line = (let v = drop 5 line in if has_prefix v '' '' then drop 1 v else v)"

definition stream_outcome :: "watch_net \<Rightarrow> watch_ending \<Rightarrow> goerr option" where
  "stream_outcome nt ending =
     (case ending of
        End_Of_File \<Rightarrow> None
      | Canceled \<Rightarrow> None
      | Read_Failed e \<Rightarrow> if wn_done nt then None else Some (Wrapf ''read SSE stream: %w'' [] e))"

text \<open>\<open>data\<close> are the lines of the event under way, \<open>printed\<close> the lines of output so far.\<close>

fun watch_lines :: "watch_net \<Rightarrow> watch_ending \<Rightarrow> string list \<Rightarrow> string list \<Rightarrow> string list \<Rightarrow> string list \<times> goerr option" where
  "watch_lines nt ending data printed [] =
     (if ending = End_Of_File \<and> data \<noteq> [] then
        (case printWatchEvent nt (length printed) (join_with newline data) of
           Inl e \<Rightarrow> (printed, Some e)
         | Inr l \<Rightarrow> (printed @ [l], None))
      else (printed, stream_outcome nt ending))"
| "watch_lines nt ending data printed (raw # lines) =
     (let line = trim_right_by (\<lambda>c. c = CHR 0x0D \<or> c = CHR 0x0A) raw in
      if line = [] then
        (if data = [] then watch_lines nt ending data printed lines
         else (case printWatchEvent nt (length printed) (join_with newline data) of
             Inl e \<Rightarrow> (printed, Some e)
           | Inr l \<Rightarrow> watch_lines nt ending [] (printed @ [l]) lines))
      else if has_prefix line '':'' then watch_lines nt ending data printed lines
      else if \<not> has_prefix line ''data:'' then watch_lines nt ending data printed lines
      else watch_lines nt ending (data @ [data_value line]) printed lines)"

definition complete_lines :: "string \<Rightarrow> string list" where
  "complete_lines body = butlast (split_on (CHR 0x0A) body)"

definition watchStream :: "watch_net \<Rightarrow> string \<Rightarrow> string list \<times> goerr option" where
  "watchStream nt streamURL =
     (case wn_bad_url nt streamURL of
        Some e \<Rightarrow> ([], Some (Wrapf ''build watch request: %w'' [] e))
      | None \<Rightarrow>
          (case wn_reply nt streamURL of
             Watch_No_Reply e \<Rightarrow>
               ([], if wn_done nt then None else Some (Wrapf ''connect to %s: %w'' [streamURL] e))
           | Watch_Reply code status body ending \<Rightarrow>
               if code \<noteq> 200 then
                 ([], Some (Errorf ''watch %s returned %s: %s'' [streamURL, status, trim_space (take 1024 body)]))
               else watch_lines nt ending [] [] (complete_lines body)))"

section \<open>Reconnection\<close>

text \<open>Times and delays in milliseconds.\<close>

definition watchBackoffAfterStream :: "nat \<Rightarrow> nat \<Rightarrow> nat \<Rightarrow> goerr option \<Rightarrow> nat" where
  "watchBackoffAfterStream backoff startedAt endedAt err =
     (if err = None \<and> int endedAt - int startedAt > 10000 then 250 else backoff)"

definition longer_backoff :: "nat \<Rightarrow> nat" where
  "longer_backoff b = (if b < 5000 then min (b * 2) 5000 else b)"

definition delay_text :: "nat \<Rightarrow> string" where
  "delay_text ms =
     (if ms < 1000 then nat_str ms @ ''ms''
      else if ms mod 1000 = 0 then nat_str (ms div 1000) @ ''s''
      else nat_str (ms div 1000) @ ''.'' @ strip_zeros (pad_to 3 (int (ms mod 1000))) @ ''s'')"

text \<open>One turn of the loop: the connection, its times, the error of the status line, and whether the context
  is done during the wait.\<close>

record watch_turn =
  wt_net :: watch_net
  wt_started :: nat
  wt_ended :: nat
  wt_status :: "goerr option"
  wt_cut :: bool

datatype watch_act = Printed string | Status goerr nat | Slept nat

datatype watch_end = Watching | Stopped | Watch_Failed goerr

fun watchLoop :: "string \<Rightarrow> nat \<Rightarrow> watch_turn list \<Rightarrow> watch_act list \<times> watch_end" where
  "watchLoop url backoff [] = ([], Watching)"
| "watchLoop url backoff (t # ts) =
     (let (printed, err) = watchStream (wt_net t) url; out = map Printed printed in
      if wn_done (wt_net t) then (out, Stopped)
      else
        let b = watchBackoffAfterStream backoff (wt_started t) (wt_ended t) err in
        case (err, wt_status t) of
          (Some e, Some we) \<Rightarrow> (out, Watch_Failed (Wrapf ''write watch status: %w'' [] we))
        | _ \<Rightarrow>
            (let out' = out @ (case err of Some e \<Rightarrow> [Status e b] | None \<Rightarrow> []) in
             if wt_cut t then (out', Stopped)
             else let (rest, fin) = watchLoop url (longer_backoff b) ts in (out' @ Slept b # rest, fin)))"

definition status_line :: "goerr \<Rightarrow> nat \<Rightarrow> string" where
  "status_line e b = ''coworker watch: '' @ error_string e @ ''; reconnecting in '' @ delay_text b @ newline"

definition first_backoff :: nat where
  "first_backoff = 250"

section \<open>Facts\<close>

lemma summarize_bounded: "length (summarizePayload p) \<le> 120"
  by (simp add: summarizePayload_def Let_def)

text \<open>Every wait is between a quarter of a second and five seconds.\<close>

lemma watch_waits:
  assumes "250 \<le> b" "b \<le> 5000" "Slept d \<in> set (fst (watchLoop url b ts))"
  shows "250 \<le> d \<and> d \<le> 5000"
  using assms
proof (induction ts arbitrary: b)
  case (Cons t ts)
  obtain printed err where s: "watchStream (wt_net t) url = (printed, err)" by fastforce
  let ?b = "watchBackoffAfterStream b (wt_started t) (wt_ended t) err"
  have b: "250 \<le> ?b" "?b \<le> 5000" using Cons.prems by (auto simp: watchBackoffAfterStream_def)
  then have "250 \<le> longer_backoff ?b" "longer_backoff ?b \<le> 5000" by (auto simp: longer_backoff_def)
  from Cons.IH [OF this] b Cons.prems(3) show ?case
    by (auto simp: s Let_def split: if_splits option.splits prod.splits)
qed simp

text \<open>The frames of the server are read back as a data line and an empty one each.\<close>

lemma frames_lines:
  assumes "\<forall>d \<in> set ds. CHR 0x0A \<notin> set d"
  shows "complete_lines (concat (map sse_frame ds)) = concat (map (\<lambda>d. [''data: '' @ d, []]) ds)"
  using assms
proof (induction ds)
  case Nil
  then show ?case by (simp add: complete_lines_def)
next
  case (Cons d ds)
  let ?rest = "concat (map sse_frame ds)"
  have "split_on (CHR 0x0A) (sse_frame d @ ?rest) = (''data: '' @ d) # [] # split_on (CHR 0x0A) ?rest"
    using Cons.prems split_on_append [of "CHR 0x0A" "''data: '' @ d" "CHR 0x0A # ?rest"]
    by (simp add: sse_frame_def newline_def)
  with Cons show ?case by (simp add: complete_lines_def)
qed

lemma trim_right_no: "(\<forall>c \<in> set s. \<not> P c) \<Longrightarrow> trim_right_by P s = s"
proof -
  assume "\<forall>c \<in> set s. \<not> P c"
  then have "dropWhile P (rev s) = rev s" by (cases "rev s") (auto simp: rev_swap)
  then show ?thesis by (simp add: trim_right_by_def)
qed

lemma data_line:
  assumes "CHR 0x0A \<notin> set d" "CHR 0x0D \<notin> set d"
  shows "trim_right_by (\<lambda>c. c = CHR 0x0D \<or> c = CHR 0x0A) (''data: '' @ d) = ''data: '' @ d"
    "has_prefix (''data: '' @ d) ''data:''" "\<not> has_prefix (''data: '' @ d) '':''" "data_value (''data: '' @ d) = d"
proof -
  show "trim_right_by (\<lambda>c. c = CHR 0x0D \<or> c = CHR 0x0A) (''data: '' @ d) = ''data: '' @ d"
    using assms by (intro trim_right_no) auto
qed (simp_all add: has_prefix_def data_value_def)

lemma watch_frames:
  assumes "\<forall>d \<in> set ds. CHR 0x0A \<notin> set d \<and> CHR 0x0D \<notin> set d"
    and "\<forall>d \<in> set ds. Option.bind (json_text d) (decode_event (wn_dec nt)) = Some (ev d)"
    and "\<forall>k. wn_write nt k = None"
  shows "watch_lines nt ending [] printed (concat (map (\<lambda>d. [''data: '' @ d, []]) ds)) =
     (printed @ map (\<lambda>d. formatWatchEvent (ev d)) ds, stream_outcome nt ending)"
  using assms
proof (induction ds arbitrary: printed)
  case Nil
  then show ?case by simp
next
  case (Cons d ds)
  have d: "CHR 0x0A \<notin> set d" "CHR 0x0D \<notin> set d" using Cons.prems by auto
  have "watch_lines nt ending [] printed (concat (map (\<lambda>d. [''data: '' @ d, []]) (d # ds))) =
     watch_lines nt ending [d] printed ([] # concat (map (\<lambda>d. [''data: '' @ d, []]) ds))"
    using data_line [OF d] by (simp add: Let_def)
  also have "\<dots> = watch_lines nt ending [] (printed @ [formatWatchEvent (ev d)]) (concat (map (\<lambda>d. [''data: '' @ d, []]) ds))"
    using Cons.prems by (simp add: trim_right_by_def printWatchEvent_def)
  also have "\<dots> = (printed @ map (\<lambda>d. formatWatchEvent (ev d)) (d # ds), stream_outcome nt ending)"
    using Cons by simp
  finally show ?case .
qed


text \<open>\<open>encodes\<close>: the text of an event is one line, and decodes to \<open>e'\<close>.\<close>

definition encodes :: "watch_net \<Rightarrow> (event \<Rightarrow> string option) \<Rightarrow> event \<Rightarrow> wire_event \<Rightarrow> bool" where
  "encodes nt marshal e e' \<longleftrightarrow>
     (case marshal e of
        None \<Rightarrow> False
      | Some d \<Rightarrow> CHR 0x0A \<notin> set d \<and> CHR 0x0D \<notin> set d \<and>
          Option.bind (json_text d) (decode_event (wn_dec nt)) = Some e')"

text \<open>
  C38. What the daemon streams is what the watch command prints: of the events that reach a subscription, one
  line for each that passes the filter, in order, however the connection ends.
\<close>

theorem watch_prints_stream:
  assumes "\<forall>e \<in> set es. encodes nt marshal e (wev e)"
    and "SSEHandler marshal (\<lambda>_. True) rq (map (\<lambda>e. Got (Some e)) es) = Streamed frames"
    and "wn_bad_url nt url = None" and "wn_reply nt url = Watch_Reply 200 st (concat frames) ending"
    and "\<forall>k. wn_write nt k = None"
  shows "fst (watchStream nt url) = map (\<lambda>e. formatWatchEvent (wev e)) (filter (passes rq) es)"
proof -
  let ?es = "filter (passes rq) es"
  define ds where "ds = List.map_filter marshal ?es"
  have frames: "frames = map sse_frame ds"
    using assms(2) by (simp add: SSEHandler_def sse_loop_frames ds_def split: if_splits)
  define ev where "ev = (\<lambda>d. the (Option.bind (json_text d) (decode_event (wn_dec nt))))"
  have ds: "(\<forall>d \<in> set ds. CHR 0x0A \<notin> set d \<and> CHR 0x0D \<notin> set d \<and>
      Option.bind (json_text d) (decode_event (wn_dec nt)) = Some (ev d)) \<and> map ev ds = map wev ?es"
    using assms(1) unfolding ds_def ev_def
    by (induction es) (auto simp: map_filter_simps encodes_def split: option.splits)
  have "complete_lines (concat frames) = concat (map (\<lambda>d. [''data: '' @ d, []]) ds)"
    unfolding frames using ds by (intro frames_lines) blast
  then have "fst (watchStream nt url) = map (\<lambda>d. formatWatchEvent (ev d)) ds"
    using ds assms(3-5) watch_frames [of ds nt ev ending "[]"] by (simp add: watchStream_def)
  also have "\<dots> = map formatWatchEvent (map ev ds)" by simp
  also have "\<dots> = map (\<lambda>e. formatWatchEvent (wev e)) ?es" using ds by (simp add: comp_def)
  finally show ?thesis .
qed

definition sample_data :: string where
  "sample_data = ''{\"run_id\":\"r1\"}''"

definition watch_sample_net :: watch_net where
  "watch_sample_net =
     \<lparr>wn_bad_url = (\<lambda>_. None), wn_reply = (\<lambda>_. Watch_Reply 200 ''200 OK'' (sse_frame sample_data) End_Of_File),
      wn_dec = \<lparr>dc_time = (\<lambda>_. None), dc_float = (\<lambda>_. None)\<rparr>, wn_json_error = (\<lambda>_. ErrEOF), wn_write = (\<lambda>_. None),
      wn_done = False\<rparr>"

definition watch_sample_event :: event where
  "watch_sample_event = mk_event ''e1'' ''r1'' EventRunCreated [] (JObj []) 0"

lemma sample_decodes:
  "Option.bind (json_text sample_data) (decode_event (wn_dec watch_sample_net)) =
     Some \<lparr>we_id = [], we_run_id = ''r1'', we_kind = [], we_causation_id = [], we_payload = [], we_created_at = zero_instant\<rparr>"
  by code_simp

theorem watch_prints_stream_witness:
  "fst (watchStream watch_sample_net ''u'') = [formatWatchEvent
     \<lparr>we_id = [], we_run_id = ''r1'', we_kind = [], we_causation_id = [], we_payload = [], we_created_at = zero_instant\<rparr>]"
proof -
  let ?rq = "\<lparr>sq_bus = True, sq_flusher = True, sq_run_id = ''r1'', sq_kind = []\<rparr>"
  let ?m = "\<lambda>_ :: event. Some sample_data"
  have p: "passes ?rq watch_sample_event" by (simp add: passes_def watch_sample_event_def mk_event_def)
  have "fst (watchStream watch_sample_net ''u'') = map (\<lambda>e. formatWatchEvent
     \<lparr>we_id = [], we_run_id = ''r1'', we_kind = [], we_causation_id = [], we_payload = [], we_created_at = zero_instant\<rparr>)
     (filter (passes ?rq) [watch_sample_event])"
    by (rule watch_prints_stream [where marshal = ?m and frames = "[sse_frame sample_data]" and ending = End_Of_File and st = "''200 OK''"])
      (simp_all add: encodes_def sample_decodes SSEHandler_def p, simp_all add: watch_sample_net_def sample_data_def)
  then show ?thesis using p by simp
qed

end
