(* ===== verification/Disk.thy ===== *)
theory Disk
  imports Autopilot Json_Text
begin

text \<open>
  The file system as the commands that scaffold a project use it (\<open>cli/init.go\<close>, \<open>cli/plugin_install.go\<close>): the files with
  their bytes, the directories, and for each operation the failure the system may answer with. A write that fails
  has written some of its bytes. The failures of \<open>os.Stat\<close> are kept apart from the others, because the commands take
  a path whose \<open>Stat\<close> fails for one that is not there.
\<close>

record disk =
  dk_file :: "string \<Rightarrow> string option"
  dk_dirs :: "string list"
  dk_stat_faults :: "nat \<Rightarrow> goerr option"
  dk_faults :: "nat \<Rightarrow> (goerr \<times> nat) option"
  dk_ops :: nat

type_synonym 'a fsys = "(disk, 'a) io"

definition fs_call :: "(nat \<Rightarrow> disk \<Rightarrow> disk) \<Rightarrow> 'a fsys \<Rightarrow> 'a fsys" where
  "fs_call torn m = (\<lambda>s. let s' = s\<lparr>dk_ops := Suc (dk_ops s)\<rparr> in
     case dk_faults s (dk_ops s) of Some (e, n) \<Rightarrow> (Inl e, torn n s') | None \<Rightarrow> m s')"

abbreviation untorn :: "nat \<Rightarrow> disk \<Rightarrow> disk" where
  "untorn \<equiv> (\<lambda>_ s. s)"

definition put_file :: "string \<Rightarrow> string \<Rightarrow> disk \<Rightarrow> disk" where
  "put_file p data s = s\<lparr>dk_file := (dk_file s)(p \<mapsto> data)\<rparr>"

definition disk_bytes :: "string \<Rightarrow> disk \<Rightarrow> string" where
  "disk_bytes p s = (case dk_file s p of Some d \<Rightarrow> d | None \<Rightarrow> [])"

text \<open>\<open>os.Stat\<close>: whether the path is a directory.\<close>

definition stat :: "string \<Rightarrow> bool fsys" where
  "stat p = (\<lambda>s. let s' = s\<lparr>dk_ops := Suc (dk_ops s)\<rparr> in
     case dk_stat_faults s (dk_ops s) of
       Some e \<Rightarrow> (Inl e, s')
     | None \<Rightarrow> (if p \<in> set (dk_dirs s) then Inr True else if dk_file s p \<noteq> None then Inr False else Inl ErrNotExist, s'))"

definition exists_path :: "string \<Rightarrow> bool fsys" where
  "exists_path p = bindE (attempt (stat p)) (\<lambda>r. ret (case r of Inl _ \<Rightarrow> False | Inr _ \<Rightarrow> True))"

definition is_dir_path :: "string \<Rightarrow> bool fsys" where
  "is_dir_path p = bindE (attempt (stat p)) (\<lambda>r. ret (r = Inr True))"

definition mkdir_all :: "string \<Rightarrow> unit fsys" where
  "mkdir_all p = fs_call untorn (\<lambda>s.
     if dk_file s p \<noteq> None then (Inl (ErrDriver ''not a directory''), s)
     else (Inr (), s\<lparr>dk_dirs := List.insert p (dk_dirs s)\<rparr>))"

definition read_path :: "string \<Rightarrow> string fsys" where
  "read_path p = fs_call untorn (\<lambda>s. case dk_file s p of
     Some d \<Rightarrow> (Inr d, s)
   | None \<Rightarrow> (Inl (if p \<in> set (dk_dirs s) then ErrDriver ''is a directory'' else ErrNotExist), s))"

text \<open>The opening with \<open>O_TRUNC|O_CREATE\<close>, the one with \<open>O_APPEND|O_CREATE\<close>, and a write at the end of the file.\<close>

definition open_truncate :: "string \<Rightarrow> unit fsys" where
  "open_truncate p = fs_call untorn (\<lambda>s.
     if p \<in> set (dk_dirs s) then (Inl (ErrDriver ''is a directory''), s) else (Inr (), put_file p [] s))"

definition open_append :: "string \<Rightarrow> unit fsys" where
  "open_append p = fs_call untorn (\<lambda>s.
     if p \<in> set (dk_dirs s) then (Inl (ErrDriver ''is a directory''), s) else (Inr (), put_file p (disk_bytes p s) s))"

definition append_bytes :: "string \<Rightarrow> string \<Rightarrow> unit fsys" where
  "append_bytes p data = fs_call (\<lambda>n s. put_file p (disk_bytes p s @ take n data) s)
     (\<lambda>s. (Inr (), put_file p (disk_bytes p s @ data) s))"

definition file_size :: "string \<Rightarrow> nat fsys" where
  "file_size p = fs_call untorn (\<lambda>s. (Inr (length (disk_bytes p s)), s))"

text \<open>\<open>os.WriteFile\<close>.\<close>

definition write_path :: "string \<Rightarrow> string \<Rightarrow> unit fsys" where
  "write_path p data = bindE (open_truncate p) (\<lambda>_. append_bytes p data)"

text \<open>\<open>copyFile\<close> of \<open>plugin_install.go\<close>. The bytes are read after the destination was truncated.\<close>

definition copyFile :: "string \<Rightarrow> string \<Rightarrow> unit fsys" where
  "copyFile src dst =
     bindE (wrapE ''open source %q: %w'' [src] (stat src)) (\<lambda>_.
     bindE (wrapE ''stat source %q: %w'' [src] (stat src)) (\<lambda>_.
     bindE (wrapE ''create parent directory for %q: %w'' [dst] (mkdir_all (dir_of dst))) (\<lambda>_.
     bindE (wrapE ''create destination %q: %w'' [dst] (open_truncate dst)) (\<lambda>_.
     wrapE ''copy %q -> %q: %w'' [src, dst] (bindE (read_path src) (\<lambda>data. append_bytes dst data))))))"

section \<open>Facts\<close>

lemmas disk_defs = fs_call_def put_file_def disk_bytes_def stat_def mkdir_all_def read_path_def open_truncate_def
  open_append_def append_bytes_def file_size_def

text \<open>\<open>leaves P m\<close>: whatever fails, \<open>m\<close> keeps the files outside \<open>P\<close>.\<close>

definition leaves :: "string set \<Rightarrow> 'a fsys \<Rightarrow> bool" where
  "leaves P m \<longleftrightarrow> (\<forall>s p. p \<notin> P \<longrightarrow> dk_file (snd (m s)) p = dk_file s p)"

named_theorems leaves_intros "operations that only touch some files"

lemma leaves_mono: "leaves P m \<Longrightarrow> P \<subseteq> Q \<Longrightarrow> leaves Q m"
  by (auto simp: leaves_def)

lemma leaves_bindE [leaves_intros]: "leaves P m \<Longrightarrow> (\<And>x. leaves P (f x)) \<Longrightarrow> leaves P (bindE m f)"
  by (auto simp: leaves_def bindE_def split: prod.split sum.split) (metis snd_conv)+

lemma leaves_simple [leaves_intros]: "leaves P (ret x)" "leaves P (raise e)"
  by (simp_all add: leaves_def ret_def raise_def)

lemma leaves_wrapE [leaves_intros]: "leaves P m \<Longrightarrow> leaves P (wrapE f as m)"
  by (auto simp: leaves_def wrapE_def split: prod.split sum.split) (metis snd_conv)+

lemma leaves_attempt [leaves_intros]: "leaves P m \<Longrightarrow> leaves P (attempt m)"
  by (auto simp: leaves_def attempt_def split: prod.split) (metis snd_conv)

lemma leaves_ignoring [leaves_intros]: "leaves P m \<Longrightarrow> leaves P (ignoring m)"
  by (auto simp: leaves_def ignoring_def)

lemma leaves_forE [leaves_intros]: "(\<And>x. x \<in> set xs \<Longrightarrow> leaves P (f x)) \<Longrightarrow> leaves P (forE xs f)"
  by (induction xs) (auto intro!: leaves_intros)

lemma leaves_reads [leaves_intros]:
  "leaves P (stat p)" "leaves P (mkdir_all p)" "leaves P (read_path p)" "leaves P (file_size p)"
  by (auto simp: leaves_def disk_defs Let_def split: option.split)

lemma leaves_writes [leaves_intros]:
  "p \<in> P \<Longrightarrow> leaves P (open_truncate p)" "p \<in> P \<Longrightarrow> leaves P (open_append p)" "p \<in> P \<Longrightarrow> leaves P (append_bytes p data)"
  by (auto simp: leaves_def disk_defs Let_def split: option.split)

lemma leaves_composed [leaves_intros]:
  "p \<in> P \<Longrightarrow> leaves P (write_path p data)" "dst \<in> P \<Longrightarrow> leaves P (copyFile src dst)"
  "leaves P (exists_path q)" "leaves P (is_dir_path q)"
  by (auto simp: write_path_def copyFile_def exists_path_def is_dir_path_def intro!: leaves_intros)

end
