(* ===== verification/Install.thy ===== *)
theory Install
  imports Disk
begin

text \<open>
  \<open>coworker init\<close> (\<open>cli/init.go\<close>) and \<open>coworker plugin install\<close> (\<open>cli/plugin_install.go\<close>): the files they write
  and what they leave alone. The home and working directory, the path of the binary, the listing of a
  directory and \<open>json.MarshalIndent\<close> are parameters.
\<close>

section \<open>Surroundings\<close>

text \<open>\<open>ie_glob\<close> is \<open>filepath.Glob\<close>, \<open>ie_walk\<close> what \<open>filepath.WalkDir\<close> visits: the path below the root, and whether it
  is a directory or an error.\<close>

record install_env =
  ie_exe :: "goerr + string"
  ie_cwd :: "goerr + string"
  ie_home :: "goerr + string"
  ie_glob :: "string \<Rightarrow> goerr + string list"
  ie_walk :: "string \<Rightarrow> (string \<times> (goerr + bool)) list"
  ie_json_error :: "string \<Rightarrow> goerr"
  ie_marshal :: "(string \<times> jtext) list \<Rightarrow> string"
  ie_version :: string

definition lift :: "goerr + 'a \<Rightarrow> 'a fsys" where
  "lift r = (case r of Inl e \<Rightarrow> raise e | Inr x \<Rightarrow> ret x)"

section \<open>The default files\<close>

definition yaml :: "string list \<Rightarrow> string" where
  "yaml ls = concat (map (\<lambda>l. l @ newline) ls)"

definition defaultConfigYAML :: string where
  "defaultConfigYAML = yaml
    [''daemon:'',
     ''  bind: local_socket'',
     ''  data_dir: .coworker'',
     '''',
     ''cli_selection:'',
     ''  interactive_driver: claude-code'',
     ''  fallback_driver: opencode'',
     '''',
     ''providers:'',
     ''  claude-code:'',
     ''    rate_limit_concurrent: 3'',
     ''  codex:'',
     ''    sandbox_default: workspace-write'',
     ''    rate_limit_concurrent: 2'',
     ''  opencode:'',
     ''    server_url: http://127.0.0.1:7777'',
     ''    rate_limit_concurrent: 4'',
     '''',
     ''telemetry:'',
     ''  event_log_retention_days: 90'',
     ''  cost_ledger_retention_days: 365'']"

definition defaultPolicyYAML :: string where
  "defaultPolicyYAML = yaml
    [''checkpoints:'',
     ''  spec-approved: block'',
     ''  plan-approved: block'',
     ''  phase-clean: on-failure'',
     ''  ready-to-ship: block'',
     ''  compliance-breach: block'',
     ''  quality-gate: block'',
     '''',
     ''supervisor_limits:'',
     ''  max_retries_per_job: 3'',
     ''  max_fix_cycles_per_phase: 5'',
     '''',
     ''concurrency:'',
     ''  max_parallel_plans: 2'',
     ''  max_parallel_reviewers: 3'',
     '''',
     ''permissions:'',
     ''  on_undeclared: deny'']"

section \<open>.gitignore\<close>

definition gitignoreEntries :: "string list" where
  "gitignoreEntries = [''.coworker/state.db'', ''.coworker/runs/'']"

text \<open>\<open>bufio.Scanner\<close> by lines: a line that does not fit its buffer of 64 KB ends the scan.\<close>

definition max_line :: nat where
  "max_line = 65535"

definition drop_cr :: "string \<Rightarrow> string" where
  "drop_cr l = (if l \<noteq> [] \<and> last l = CHR 0x0D then butlast l else l)"

definition scan_lines :: "string \<Rightarrow> string list" where
  "scan_lines data =
     (let ls = split_on (CHR 0x0A) data; ls' = (if last ls = [] then butlast ls else ls)
      in map drop_cr (takeWhile (\<lambda>l. length l \<le> max_line) ls'))"

definition present_lines :: "string \<Rightarrow> string list" where
  "present_lines data = map (trim_right_by (\<lambda>c. c = CHR '' '' \<or> c = CHR 0x09)) (scan_lines data)"

definition existing_lines :: "string \<Rightarrow> string list fsys" where
  "existing_lines p =
     bindE (attempt (read_path p)) (\<lambda>r.
     case r of
       Inr data \<Rightarrow> ret (present_lines data)
     | Inl e \<Rightarrow> if errors_is e ErrNotExist then ret [] else raise (Wrapf ''read .gitignore: %w'' [] e))"

text \<open>The newline after a last line that has none; every failure on the way to it is ignored.\<close>

definition finish_last_line :: "string \<Rightarrow> unit fsys" where
  "finish_last_line p =
     bindE (attempt (file_size p)) (\<lambda>r.
     case r of
       Inr (Suc n) \<Rightarrow>
         bindE (attempt (read_path p)) (\<lambda>d.
         case d of
           Inr data \<Rightarrow> if data \<noteq> [] \<and> last data \<noteq> CHR 0x0A then ignoring (append_bytes p newline) else ret ()
         | Inl _ \<Rightarrow> ret ())
     | _ \<Rightarrow> ret ())"

definition gitignore_header :: string where
  "gitignore_header = ''# coworker runtime state (generated by coworker init)'' @ newline"

definition write_header :: "string \<Rightarrow> unit fsys" where
  "write_header p =
     bindE (attempt (file_size p)) (\<lambda>r.
     wrapE ''write gitignore header: %w'' [] (append_bytes p (if r = Inr 0 then gitignore_header else newline @ gitignore_header)))"

definition augmentGitignore :: "string \<Rightarrow> string list \<Rightarrow> string list fsys" where
  "augmentGitignore p entries =
     bindE (existing_lines p) (\<lambda>existing.
     let missing = filter (\<lambda>e. e \<notin> set existing) entries in
     if missing = [] then ret []
     else
       bindE (wrapE ''open .gitignore for append: %w'' [] (open_append p)) (\<lambda>_.
       bindE (finish_last_line p) (\<lambda>_.
       bindE (write_header p) (\<lambda>_.
       bindE (forE missing (\<lambda>e. wrapE ''write gitignore entry %q: %w'' [e] (append_bytes p (e @ newline)))) (\<lambda>_.
       ret missing)))))"

section \<open>Files\<close>

definition writeInitFile :: "string \<Rightarrow> string \<Rightarrow> bool \<Rightarrow> unit fsys" where
  "writeInitFile p content force =
     bindE (if force then ret False else exists_path p) (\<lambda>skip.
     if skip then ret ()
     else bindE (wrapE ''create parent directory: %w'' [] (mkdir_all (dir_of p))) (\<lambda>_. write_path p content))"

text \<open>The counts of written and skipped files.\<close>

type_synonym copy_stats = "nat \<times> nat"

fun add_stats :: "copy_stats \<Rightarrow> copy_stats \<Rightarrow> copy_stats" where
  "add_stats (a, b) (c, d) = (a + c, b + d)"

fun sum_stats :: "copy_stats list \<Rightarrow> copy_stats" where
  "sum_stats [] = (0, 0)"
| "sum_stats (x # xs) = add_stats x (sum_stats xs)"

definition copy_match :: "string \<Rightarrow> bool \<Rightarrow> string \<Rightarrow> copy_stats fsys" where
  "copy_match dstDir force src =
     (let dst = join_path [dstDir, base_name src] in
      bindE (if force then ret False else exists_path dst) (\<lambda>skip.
      if skip then ret (0, 1)
      else bindE (attempt (copyFile src dst)) (\<lambda>r. ret (case r of Inl _ \<Rightarrow> (0, 0) | Inr _ \<Rightarrow> (1, 0)))))"

definition copyGlob :: "install_env \<Rightarrow> string \<Rightarrow> string \<Rightarrow> string \<Rightarrow> bool \<Rightarrow> copy_stats fsys" where
  "copyGlob en srcDir dstDir pattern force =
     (let g = join_path [srcDir, pattern] in
      case ie_glob en g of
        Inl e \<Rightarrow> raise (Wrapf ''glob %q: %w'' [g] e)
      | Inr matches \<Rightarrow> bindE (forE matches (copy_match dstDir force)) (\<lambda>xs. ret (sum_stats xs)))"

definition copyInitFileSrc :: "string \<Rightarrow> string \<Rightarrow> bool \<Rightarrow> bool fsys" where
  "copyInitFileSrc src dst force =
     bindE (if force then ret False else exists_path dst) (\<lambda>skip.
     if skip then ret False
     else bindE (wrapE ''source file %q not found: %w'' [src] (stat src)) (\<lambda>_.
          bindE (copyFile src dst) (\<lambda>_. ret True)))"

text \<open>The first of the two candidate directories that is one.\<close>

definition candidates :: "install_env \<Rightarrow> string list \<Rightarrow> string list" where
  "candidates en below =
     (case ie_exe en of Inr exe \<Rightarrow> [join_path (dir_of exe # below)] | Inl _ \<Rightarrow> []) @
     (case ie_cwd en of Inr cwd \<Rightarrow> [join_path (cwd # below)] | Inl _ \<Rightarrow> [])"

fun first_directory :: "string list \<Rightarrow> string option fsys" where
  "first_directory [] = ret None"
| "first_directory (d # ds) = bindE (is_dir_path d) (\<lambda>b. if b then ret (Some d) else first_directory ds)"

definition listed :: "string list \<Rightarrow> string" where
  "listed ds = ''['' @ join_with '' '' ds @ '']''"

definition findInitAssets :: "install_env \<Rightarrow> string fsys" where
  "findInitAssets en =
     (let cs = candidates en [''coding''] in
      bindE (first_directory cs) (\<lambda>o_dir. case o_dir of
        Some d \<Rightarrow> ret d
      | None \<Rightarrow> raise (Errorf ''coding/ directory not found in any of %v'' [listed cs])))"

definition findPluginSource :: "install_env \<Rightarrow> string \<Rightarrow> string fsys" where
  "findPluginSource en name =
     (let cs = candidates en [''plugins'', name] in
      bindE (first_directory cs) (\<lambda>o_dir. case o_dir of
        Some d \<Rightarrow> ret d
      | None \<Rightarrow> raise (Errorf ''plugin directory %q not found in any of %v'' [name, listed cs])))"

definition or_no_stats :: "copy_stats fsys \<Rightarrow> copy_stats fsys" where
  "or_no_stats m = bindE (attempt m) (\<lambda>r. ret (case r of Inl _ \<Rightarrow> (0, 0) | Inr x \<Rightarrow> x))"

definition copy_one :: "string \<Rightarrow> string \<Rightarrow> bool \<Rightarrow> copy_stats fsys" where
  "copy_one src dst force =
     bindE (attempt (copyInitFileSrc src dst force)) (\<lambda>r.
     ret (case r of Inl _ \<Rightarrow> (0, 0) | Inr True \<Rightarrow> (1, 0) | Inr False \<Rightarrow> (0, 1)))"

definition copyInitAssets :: "install_env \<Rightarrow> string \<Rightarrow> bool \<Rightarrow> copy_stats fsys" where
  "copyInitAssets en coworkerDir force =
     bindE (attempt (findInitAssets en)) (\<lambda>r.
     case r of
       Inl _ \<Rightarrow> ret (0, 0)
     | Inr srcRoot \<Rightarrow>
         bindE (or_no_stats (copyGlob en (join_path [srcRoot, ''roles'']) (join_path [coworkerDir, ''roles'']) ''*.yaml'' force)) (\<lambda>a.
         bindE (or_no_stats (copyGlob en (join_path [srcRoot, ''prompts'']) (join_path [coworkerDir, ''prompts'']) ''*.md'' force)) (\<lambda>b.
         bindE (copy_one (join_path [srcRoot, ''supervisor'', ''rules.yaml'']) (join_path [coworkerDir, ''rules'', ''supervisor-contract.yaml'']) force) (\<lambda>c.
         bindE (copy_one (join_path [srcRoot, ''quality'', ''rules.yaml'']) (join_path [coworkerDir, ''rules'', ''quality.yaml'']) force) (\<lambda>d.
         ret (sum_stats [a, b, c, d]))))))"

section \<open>.mcp.json\<close>

text \<open>A Go map, or the nil map that the text null leaves behind. Assigning to a nil map panics.\<close>

type_synonym json_map = "(string \<times> jtext) list option"

definition unmarshal_map :: "install_env \<Rightarrow> string \<Rightarrow> goerr + json_map" where
  "unmarshal_map en data =
     (case json_text data of
        Some (TObj kvs) \<Rightarrow> Inr (Some (foldl (\<lambda>m (k, v). AList.update k v m) [] kvs))
      | Some TNull \<Rightarrow> Inr None
      | _ \<Rightarrow> Inl (ie_json_error en data))"

definition as_map :: "install_env \<Rightarrow> jtext \<Rightarrow> goerr + json_map" where
  "as_map en v =
     (case v of
        TObj kvs \<Rightarrow> Inr (Some (foldl (\<lambda>m (k, v). AList.update k v m) [] kvs))
      | TNull \<Rightarrow> Inr None
      | _ \<Rightarrow> Inl (ie_json_error en []))"

definition map_entry :: "string \<Rightarrow> json_map \<Rightarrow> jtext option" where
  "map_entry k m = Option.bind m (\<lambda>kvs. map_of kvs k)"

datatype 'a go_outcome = Returned 'a | Error_Returned goerr | Panicked

definition members_of :: "json_map \<Rightarrow> (string \<times> jtext) list" where
  "members_of m = (case m of None \<Rightarrow> [] | Some kvs \<Rightarrow> kvs)"

definition mergeMapKey :: "install_env \<Rightarrow> jtext option \<Rightarrow> jtext option \<Rightarrow> jtext go_outcome" where
  "mergeMapKey en existing incoming =
     (case (case existing of None \<Rightarrow> Inr (Some []) | Some v \<Rightarrow> as_map en v) of
        Inl e \<Rightarrow> Error_Returned (Wrapf ''unmarshal existing: %w'' [] e)
      | Inr base \<Rightarrow>
          (case (case incoming of None \<Rightarrow> Inr (Some []) | Some v \<Rightarrow> as_map en v) of
             Inl e \<Rightarrow> Error_Returned (Wrapf ''unmarshal incoming: %w'' [] e)
           | Inr overlay \<Rightarrow>
               (case (base, members_of overlay) of
                  (None, []) \<Rightarrow> Returned TNull
                | (None, _ # _) \<Rightarrow> Panicked
                | (Some b, kvs) \<Rightarrow> Returned (TObj (foldl (\<lambda>m (k, v). AList.update k v m) b kvs)))))"

text \<open>The new contents of the project's file from the old one (if there is one) and the plugin's.\<close>

definition merged_config :: "install_env \<Rightarrow> string option \<Rightarrow> string \<Rightarrow> (string \<times> jtext) list go_outcome" where
  "merged_config en project plugin =
     (case unmarshal_map en plugin of
        Inl e \<Rightarrow> Error_Returned (Wrapf ''parse plugin .mcp.json: %w'' [] e)
      | Inr pluginConfig \<Rightarrow>
          (case (case project of None \<Rightarrow> Inr (Some []) | Some data \<Rightarrow> unmarshal_map en data) of
             Inl e \<Rightarrow> Error_Returned (Wrapf ''parse existing .mcp.json: %w'' [] e)
           | Inr projectConfig \<Rightarrow>
               (case mergeMapKey en (map_entry ''mcpServers'' projectConfig) (map_entry ''mcpServers'' pluginConfig) of
                  Error_Returned e \<Rightarrow> Error_Returned (Wrapf ''merge mcpServers: %w'' [] e)
                | Panicked \<Rightarrow> Panicked
                | Returned servers \<Rightarrow>
                    (case projectConfig of
                       None \<Rightarrow> Panicked
                     | Some kvs \<Rightarrow> Returned (AList.update ''mcpServers'' servers kvs)))))"

text \<open>The result \<open>False\<close> stands for a panic.\<close>

definition write_merged :: "install_env \<Rightarrow> string \<Rightarrow> string option \<Rightarrow> string \<Rightarrow> bool fsys" where
  "write_merged en p project plugin =
     (case merged_config en project plugin of
        Error_Returned e \<Rightarrow> raise e
      | Panicked \<Rightarrow> ret False
      | Returned kvs \<Rightarrow>
          bindE (wrapE ''write .mcp.json: %w'' [] (write_path p (ie_marshal en kvs @ newline))) (\<lambda>_. ret True))"

definition mergeMCPConfig :: "install_env \<Rightarrow> string \<Rightarrow> string \<Rightarrow> bool fsys" where
  "mergeMCPConfig en projectMCPPath pluginSrcDir =
     bindE (attempt (read_path (join_path [pluginSrcDir, ''.mcp.json'']))) (\<lambda>r.
     case r of
       Inl e \<Rightarrow> if errors_is e ErrNotExist then ret True else raise (Wrapf ''read plugin .mcp.json: %w'' [] e)
     | Inr plugin \<Rightarrow>
         bindE (case unmarshal_map en plugin of
                  Inl e \<Rightarrow> raise (Wrapf ''parse plugin .mcp.json: %w'' [] e) | Inr _ \<Rightarrow> ret ()) (\<lambda>_.
         bindE (attempt (read_path projectMCPPath)) (\<lambda>r2.
         case r2 of
           Inl e \<Rightarrow>
             if errors_is e ErrNotExist then write_merged en projectMCPPath None plugin
             else raise (Wrapf ''read .mcp.json: %w'' [] e)
         | Inr existing \<Rightarrow> write_merged en projectMCPPath (Some existing) plugin)))"

section \<open>plugin install\<close>

text \<open>\<open>filepath.WalkDir\<close> in lexical order: an error of the walk ends it, a directory is made, a file copied.\<close>

definition copyDir :: "install_env \<Rightarrow> string \<Rightarrow> string \<Rightarrow> unit fsys" where
  "copyDir en src dst =
     bindE (forE (ie_walk en src) (\<lambda>(rel, r).
       case r of
         Inl e \<Rightarrow> raise e
       | Inr True \<Rightarrow> mkdir_all (join_path [dst, rel])
       | Inr False \<Rightarrow> copyFile (join_path [src, rel]) (join_path [dst, rel]))) (\<lambda>_. ret ())"

definition install_files :: "install_env \<Rightarrow> string \<Rightarrow> string \<Rightarrow> unit fsys" where
  "install_files en srcDir destDir =
     bindE (wrapE ''create destination directory %q: %w'' [destDir] (mkdir_all destDir)) (\<lambda>_.
     wrapE ''copy plugin files: %w'' [] (copyDir en srcDir destDir))"

text \<open>\<open>None\<close> for a panic, otherwise what is printed.\<close>

definition installClaudePlugin :: "install_env \<Rightarrow> string option fsys" where
  "installClaudePlugin en =
     bindE (wrapE ''locate plugin source: %w'' [] (findPluginSource en ''coworker-claude'')) (\<lambda>srcDir.
     bindE (wrapE ''get working directory: %w'' [] (lift (ie_cwd en))) (\<lambda>cwd.
     let destDir = join_path [cwd, ''.claude'', ''plugins'', ''coworker'']; mcp = join_path [cwd, ''.mcp.json''] in
     bindE (install_files en srcDir destDir) (\<lambda>_.
     bindE (wrapE ''merge .mcp.json: %w'' [] (mergeMCPConfig en mcp srcDir)) (\<lambda>ok.
     ret (if \<not> ok then None
          else Some (''coworker-claude plugin installed'' @ newline @ ''  plugin dir:  '' @ destDir @ newline @
            ''  mcp config:  '' @ mcp @ newline @ newline @
            ''Start Claude Code in this project to activate the coworker-orchy skill.'' @ newline))))))"

definition installCodexPlugin :: "install_env \<Rightarrow> string option fsys" where
  "installCodexPlugin en =
     bindE (wrapE ''locate plugin source: %w'' [] (findPluginSource en ''coworker-codex'')) (\<lambda>srcDir.
     bindE (wrapE ''resolve home directory: %w'' [] (lift (ie_home en))) (\<lambda>home.
     let destDir = join_path [home, ''.codex'', ''coworker''] in
     bindE (install_files en srcDir destDir) (\<lambda>_.
     ret (Some (''coworker-codex plugin installed'' @ newline @ ''  plugin dir:  '' @ destDir @ newline @ newline @
       ''Next step: register the MCP server with Codex:'' @ newline @
       ''  codex mcp add coworker -- coworker daemon'' @ newline @ newline @
       ''Or add the snippet from '' @ join_path [destDir, ''settings.toml''] @ '' to '' @
       join_path [home, ''.codex'', ''config.toml''] @ '' manually.'' @ newline @ newline @
       ''IMPORTANT: Codex requires --sandbox danger-full-access for MCP tool calls'' @ newline @
       ''in codex exec mode. See '' @ join_path [destDir, ''setup.md''] @ '' for details.'' @ newline)))))"

definition skill_dash :: string where
  "skill_dash = [CHR 0xE2, CHR 0x80, CHR 0x94]"

definition installOpenCodePlugin :: "install_env \<Rightarrow> string option fsys" where
  "installOpenCodePlugin en =
     bindE (wrapE ''locate plugin source: %w'' [] (findPluginSource en ''coworker-opencode'')) (\<lambda>srcDir.
     bindE (wrapE ''get working directory: %w'' [] (lift (ie_cwd en))) (\<lambda>cwd.
     let destDir = join_path [cwd, ''.opencode'', ''coworker'']; mcp = join_path [cwd, ''.mcp.json''] in
     bindE (install_files en srcDir destDir) (\<lambda>_.
     bindE (wrapE ''merge .mcp.json: %w'' [] (mergeMCPConfig en mcp srcDir)) (\<lambda>ok.
     ret (if \<not> ok then None
          else Some (''coworker-opencode plugin installed'' @ newline @ ''  plugin dir:  '' @ destDir @ newline @
            ''  mcp config:  '' @ mcp @ newline @ newline @
            ''Start OpenCode with '' @ [CHR 0x60] @ ''opencode serve'' @ [CHR 0x60] @ '' to activate HTTP dispatch.'' @ newline @
            ''For interactive MCP mode, start '' @ [CHR 0x60] @ ''opencode'' @ [CHR 0x60] @ '' '' @ skill_dash @
            '' the coworker-orchy skill'' @ newline @ ''will be available once the MCP server is loaded.'' @ newline))))))"

definition runPluginInstall :: "install_env \<Rightarrow> string \<Rightarrow> string option fsys" where
  "runPluginInstall en cli =
     (if cli = ''claude'' then installClaudePlugin en
      else if cli = ''codex'' then installCodexPlugin en
      else if cli = ''opencode'' then installOpenCodePlugin en
      else raise (Errorf ''unsupported CLI %q: supported values are claude, codex, opencode'' [cli]))"

section \<open>init\<close>

record init_options =
  io_Force :: bool
  io_WithPlugins :: bool

text \<open>The plugins one after the other, whatever becomes of each: the text and the number of failures, or a panic.\<close>

fun install_all :: "install_env \<Rightarrow> string list \<Rightarrow> (string \<times> nat) option fsys" where
  "install_all en [] = ret (Some ([], 0))"
| "install_all en (cli # clis) =
     bindE (attempt (runPluginInstall en cli)) (\<lambda>r.
     case r of
       Inr None \<Rightarrow> ret None
     | Inr (Some out) \<Rightarrow>
         bindE (install_all en clis) (\<lambda>rest. ret (map_option (\<lambda>(txt, n). (out @ txt, n)) rest))
     | Inl e \<Rightarrow>
         bindE (install_all en clis) (\<lambda>rest.
         ret (map_option (\<lambda>(txt, n). (''  [skip] '' @ cli @ '' plugin: '' @ error_string e @ newline @ txt, Suc n)) rest)))"

definition install_plugins :: "install_env \<Rightarrow> string option fsys" where
  "install_plugins en =
     bindE (install_all en [''claude'', ''codex'', ''opencode'']) (\<lambda>r. ret (map_option (\<lambda>(txt, n).
       newline @ ''Installing CLI plugins...'' @ newline @ txt @
       (if n > 0 then newline @ ''Note: '' @ nat_str n @ '' plugin(s) could not be installed. '' @
          ''Run '' @ [CHR 0x27] @ ''coworker plugin install --cli <name>'' @ [CHR 0x27] @ '' individually after setup.'' @ newline
        else [])) r))"

definition init_summary :: "install_env \<Rightarrow> string \<Rightarrow> string list \<Rightarrow> string" where
  "init_summary en coworkerDir added =
     newline @ ''coworker init complete.'' @ newline @ ''  dir:     '' @ coworkerDir @ newline @
     ''  version: '' @ ie_version en @ newline @
     (if added \<noteq> [] then ''  .gitignore: added '' @ join_with '', '' added @ newline else []) @
     newline @ ''Next: run '' @ [CHR 0x27] @ ''coworker daemon'' @ [CHR 0x27] @ '' to start the runtime.'' @ newline"

definition init_dirs :: "string \<Rightarrow> string list" where
  "init_dirs d =
     [d, join_path [d, ''roles''], join_path [d, ''prompts''], join_path [d, ''rules''], join_path [d, ''runs'']]"

definition runInit :: "install_env \<Rightarrow> init_options \<Rightarrow> string option fsys" where
  "runInit en opts =
     bindE (wrapE ''get working directory: %w'' [] (lift (ie_cwd en))) (\<lambda>cwd.
     let dir = join_path [cwd, ''.coworker'']; force = io_Force opts in
     bindE (exists_path dir) (\<lambda>there.
     bindE (forE (init_dirs dir) (\<lambda>d. wrapE ''create directory %q: %w'' [d] (mkdir_all d))) (\<lambda>_.
     bindE (wrapE ''write config.yaml: %w'' [] (writeInitFile (join_path [dir, ''config.yaml'']) defaultConfigYAML force)) (\<lambda>_.
     bindE (wrapE ''write policy.yaml: %w'' [] (writeInitFile (join_path [dir, ''policy.yaml'']) defaultPolicyYAML force)) (\<lambda>_.
     bindE (wrapE ''write .version: %w'' [] (write_path (join_path [dir, ''.version'']) (ie_version en @ newline))) (\<lambda>_.
     bindE (wrapE ''copy assets: %w'' [] (copyInitAssets en dir force)) (\<lambda>_.
     bindE (attempt (augmentGitignore (join_path [cwd, ''.gitignore'']) gitignoreEntries)) (\<lambda>r.
     bindE (if io_WithPlugins opts then install_plugins en else ret (Some [])) (\<lambda>plugins.
     ret (map_option (\<lambda>txt.
       (if there \<and> \<not> force then ''.coworker/ already exists. Use --force to overwrite existing files.'' @ newline else []) @
       txt @ init_summary en dir (case r of Inl _ \<Rightarrow> [] | Inr added \<Rightarrow> added)) plugins))))))))))"

end
