(* ===== verification/Install_Facts.thy ===== *)
theory Install_Facts
  imports Install
begin

text \<open>
  What the scaffolding commands promise: without \<open>--force\<close> the files of the user stay as they are, the ignore
  file only grows and a second run adds nothing, and the servers of the project's \<open>.mcp.json\<close> survive a merge.
\<close>

section \<open>Files that are there stay\<close>

definition stat_works :: "disk \<Rightarrow> bool" where
  "stat_works s \<longleftrightarrow> dk_stat_faults s = (\<lambda>_. None)"

text \<open>\<open>spares X m\<close>: whatever fails but \<open>os.Stat\<close>, \<open>m\<close> keeps every existing file outside \<open>X\<close>.\<close>

definition spares :: "string set \<Rightarrow> 'a fsys \<Rightarrow> bool" where
  "spares X m \<longleftrightarrow> (\<forall>s. stat_works s \<longrightarrow> stat_works (snd (m s)) \<and>
     (\<forall>p. dk_file s p \<noteq> None \<and> p \<notin> X \<longrightarrow> dk_file (snd (m s)) p = dk_file s p))"

named_theorems spares_intros "operations that keep existing files"

lemma sparesI:
  "(\<And>s. stat_works s \<Longrightarrow> stat_works (snd (m s))) \<Longrightarrow>
   (\<And>s p. stat_works s \<Longrightarrow> dk_file s p \<noteq> None \<Longrightarrow> p \<notin> X \<Longrightarrow> dk_file (snd (m s)) p = dk_file s p) \<Longrightarrow> spares X m"
  by (simp add: spares_def)

lemma sparesD:
  assumes "spares X m" "m s = (r, t)" "stat_works s"
  shows "stat_works t" "dk_file s p \<noteq> None \<Longrightarrow> p \<notin> X \<Longrightarrow> dk_file t p = dk_file s p"
  using assms unfolding spares_def by (metis snd_conv)+

lemma spares_bindE [spares_intros]:
  assumes "spares X m" "\<And>x. spares X (f x)"
  shows "spares X (bindE m f)"
proof (rule sparesI)
  fix s :: disk assume s: "stat_works s"
  obtain r t where m: "m s = (r, t)" by fastforce
  note t = sparesD [OF assms(1) m s]
  show "stat_works (snd (bindE m f s))"
    using t assms(2) by (cases r) (auto simp: bindE_def m spares_def)
  fix p assume "dk_file s p \<noteq> None" "p \<notin> X"
  with t show "dk_file (snd (bindE m f s)) p = dk_file s p"
    using assms(2) by (cases r) (auto simp: bindE_def m spares_def)
qed

lemma spares_simple [spares_intros]: "spares X (ret x)" "spares X (raise e)"
  by (simp_all add: spares_def ret_def raise_def)

lemma spares_wrapE [spares_intros]: "spares X m \<Longrightarrow> spares X (wrapE f as m)"
  unfolding spares_def wrapE_def by (simp split: prod.split sum.split) (metis snd_conv)

lemma spares_attempt [spares_intros]: "spares X m \<Longrightarrow> spares X (attempt m)"
  unfolding spares_def attempt_def by (simp split: prod.split) (metis snd_conv)

lemma spares_ignoring [spares_intros]: "spares X m \<Longrightarrow> spares X (ignoring m)"
  unfolding spares_def ignoring_def by auto

lemma spares_forE [spares_intros]: "(\<And>x. spares X (f x)) \<Longrightarrow> spares X (forE xs f)"
  by (induction xs) (auto intro!: spares_intros)

lemma stat_works_disk:
  "stat_works s \<Longrightarrow> stat_works (snd (stat p s))" "stat_works s \<Longrightarrow> stat_works (snd (mkdir_all p s))"
  "stat_works s \<Longrightarrow> stat_works (snd (read_path p s))" "stat_works s \<Longrightarrow> stat_works (snd (file_size p s))"
  "stat_works s \<Longrightarrow> stat_works (snd (open_truncate p s))" "stat_works s \<Longrightarrow> stat_works (snd (open_append p s))"
  "stat_works s \<Longrightarrow> stat_works (snd (append_bytes p d s))"
  by (auto simp: stat_works_def disk_defs Let_def split: option.split)

lemma spares_of_leaves: "leaves X m \<Longrightarrow> (\<And>s. stat_works s \<Longrightarrow> stat_works (snd (m s))) \<Longrightarrow> spares X m"
  by (auto simp: spares_def leaves_def)

lemma spares_disk [spares_intros]:
  "spares X (stat p)" "spares X (mkdir_all p)" "spares X (read_path p)" "spares X (file_size p)"
  "p \<in> X \<Longrightarrow> spares X (open_truncate p)" "p \<in> X \<Longrightarrow> spares X (open_append p)" "p \<in> X \<Longrightarrow> spares X (append_bytes p d)"
  by (auto intro!: spares_of_leaves leaves_intros stat_works_disk)

lemma spares_mono: "spares X m \<Longrightarrow> X \<subseteq> Y \<Longrightarrow> spares Y m"
  by (auto simp: spares_def)

lemma spares_composed [spares_intros]:
  "spares X (exists_path p)" "spares X (is_dir_path p)" "p \<in> X \<Longrightarrow> spares X (write_path p d)" "q \<in> X \<Longrightarrow> spares X (copyFile p q)"
  by (auto simp: exists_path_def is_dir_path_def write_path_def copyFile_def intro!: spares_intros)

text \<open>The guard of the commands: a file that is there is not written.\<close>

lemma exists_path_run:
  assumes "stat_works s"
  shows "\<exists>t. exists_path p s = (Inr (p \<in> set (dk_dirs s) \<or> dk_file s p \<noteq> None), t) \<and> stat_works t \<and> dk_file t = dk_file s"
  using assms by (auto simp: exists_path_def bindE_def attempt_def stat_def stat_works_def ret_def Let_def)

lemma spares_guarded:
  assumes "spares (insert p X) m" "spares X n"
  shows "spares X (bindE (exists_path p) (\<lambda>there. if there then n else m))"
proof (rule sparesI)
  fix s :: disk assume s: "stat_works s"
  from exists_path_run [OF s, of p] obtain t where e: "exists_path p s = (Inr (p \<in> set (dk_dirs s) \<or> dk_file s p \<noteq> None), t)"
    and t: "stat_works t" "dk_file t = dk_file s" by blast
  show "stat_works (snd (bindE (exists_path p) (\<lambda>there. if there then n else m) s))"
    using assms t(1) by (simp add: bindE_def e spares_def)
  obtain r u r' u' where run: "m t = (r, u)" "n t = (r', u')" by fastforce
  fix q assume "dk_file s q \<noteq> None" "q \<notin> X"
  then show "dk_file (snd (bindE (exists_path p) (\<lambda>there. if there then n else m) s)) q = dk_file s q"
    using sparesD(2) [OF assms(1) run(1) t(1), of q] sparesD(2) [OF assms(2) run(2) t(1), of q] t(2)
    by (cases "q = p") (simp_all add: bindE_def e run)
qed

lemma spares_writeInitFile [spares_intros]: "spares X (writeInitFile p c False)"
  by (simp add: writeInitFile_def) (rule spares_guarded; auto intro!: spares_intros)

lemma spares_copy_match [spares_intros]: "spares X (copy_match dst False src)"
  by (simp add: copy_match_def Let_def) (rule spares_guarded; auto intro!: spares_intros split: sum.split)

lemma spares_copyInitFileSrc [spares_intros]: "spares X (copyInitFileSrc src dst False)"
  by (simp add: copyInitFileSrc_def) (rule spares_guarded; auto intro!: spares_intros)

lemma spares_copyGlob [spares_intros]: "spares X (copyGlob en a b pat False)"
  by (auto simp: copyGlob_def Let_def intro!: spares_intros split: sum.split)

lemma spares_first_directory [spares_intros]: "spares X (first_directory ds)"
  by (induction ds) (auto intro!: spares_intros)

lemma spares_findInitAssets [spares_intros]: "spares X (findInitAssets en)"
  by (auto simp: findInitAssets_def Let_def intro!: spares_intros split: option.split)

lemma spares_copyInitAssets [spares_intros]: "spares X (copyInitAssets en d False)"
  by (auto simp: copyInitAssets_def or_no_stats_def copy_one_def intro!: spares_intros split: sum.split bool.split)

lemma spares_augment [spares_intros]: "p \<in> X \<Longrightarrow> spares X (augmentGitignore p es)"
  by (auto simp: augmentGitignore_def existing_lines_def finish_last_line_def write_header_def Let_def
      intro!: spares_intros split: sum.split nat.split)

lemma spares_lift [spares_intros]: "spares X (lift r)"
  by (auto simp: lift_def intro!: spares_intros split: sum.split)


lemma ret_bindE: "bindE (ret x) f = f x"
  by (simp add: bindE_def ret_def fun_eq_iff)

lemma raise_bindE: "bindE (raise e) f = raise e"
  by (simp add: bindE_def raise_def fun_eq_iff)

lemma lift_Inl: "wrapE f as (lift (Inl e)) = raise (Wrapf f as e)"
  by (simp add: lift_def wrapE_def raise_def fun_eq_iff)

lemma lift_Inr: "wrapE f as (lift (Inr x)) = ret x"
  by (simp add: lift_def wrapE_def ret_def fun_eq_iff)

text \<open>The files of the plugins: those that the walk over one of the directories where a plugin is looked for finds.\<close>

lemma spares_bindE_res:
  assumes "spares X m" "\<And>s x t. m s = (Inr x, t) \<Longrightarrow> spares X (f x)"
  shows "spares X (bindE m f)"
proof (rule sparesI)
  fix s :: disk assume s: "stat_works s"
  obtain r t where m: "m s = (r, t)" by fastforce
  note t = sparesD [OF assms(1) m s]
  show "stat_works (snd (bindE m f s))"
    using t assms(2) m by (cases r) (auto simp: bindE_def spares_def)
  fix p assume "dk_file s p \<noteq> None" "p \<notin> X"
  with t show "dk_file (snd (bindE m f s)) p = dk_file s p"
    using assms(2) m by (cases r) (auto simp: bindE_def spares_def)
qed

definition plugin_copies :: "install_env \<Rightarrow> string \<Rightarrow> string \<Rightarrow> string set" where
  "plugin_copies en name dest =
     {join_path [dest, rel] | rel src. src \<in> set (candidates en [''plugins'', name]) \<and> (rel, Inr False) \<in> set (ie_walk en src)}"

definition plugin_targets :: "install_env \<Rightarrow> string \<Rightarrow> string set" where
  "plugin_targets en cwd =
     insert (join_path [cwd, ''.mcp.json''])
       (plugin_copies en ''coworker-claude'' (join_path [cwd, ''.claude'', ''plugins'', ''coworker'']) \<union>
        plugin_copies en ''coworker-opencode'' (join_path [cwd, ''.opencode'', ''coworker'']) \<union>
        (case ie_home en of Inl _ \<Rightarrow> {}
         | Inr home \<Rightarrow> plugin_copies en ''coworker-codex'' (join_path [home, ''.codex'', ''coworker''])))"

lemma first_directory_in: "first_directory ds s = (Inr (Some d), t) \<Longrightarrow> d \<in> set ds"
  by (induction ds arbitrary: s) (auto simp: bindE_run ret_run split: if_splits)

lemma findPluginSource_in:
  assumes "findPluginSource en name s = (Inr d, t)"
  shows "d \<in> set (candidates en [''plugins'', name])"
  using assms by (auto simp: findPluginSource_def Let_def bindE_run ret_run raise_run split: option.splits dest: first_directory_in)

lemma spares_forE_in: "(\<And>x. x \<in> set xs \<Longrightarrow> spares X (f x)) \<Longrightarrow> spares X (forE xs f)"
  by (induction xs) (auto intro!: spares_intros)

lemma spares_findPluginSource [spares_intros]: "spares X (findPluginSource en name)"
  by (auto simp: findPluginSource_def Let_def intro!: spares_intros split: option.split)

lemma spares_install_files:
  assumes "src \<in> set (candidates en [''plugins'', name])"
  shows "spares (plugin_copies en name dest) (install_files en src dest)"
proof -
  have "spares (plugin_copies en name dest)
      (case x of (rel, r) \<Rightarrow> case r of Inl e \<Rightarrow> raise e | Inr True \<Rightarrow> mkdir_all (join_path [dest, rel])
        | Inr False \<Rightarrow> copyFile (join_path [src, rel]) (join_path [dest, rel]))" if "x \<in> set (ie_walk en src)" for x
  proof -
    have "join_path [dest, rel] \<in> plugin_copies en name dest" if "x = (rel, Inr False)" for rel
      using assms that \<open>x \<in> set (ie_walk en src)\<close> by (auto simp: plugin_copies_def)
    then show ?thesis by (auto intro!: spares_intros split: prod.split sum.split bool.split)
  qed
  then show ?thesis unfolding install_files_def copyDir_def by (intro spares_intros spares_forE_in)
qed

lemma spares_merge: "spares {p} (mergeMCPConfig en p src)"
  by (auto simp: mergeMCPConfig_def write_merged_def intro!: spares_intros split: sum.split go_outcome.split)

lemma spares_plugin:
  assumes "ie_cwd en = Inr cwd"
  shows "spares (plugin_targets en cwd) (runPluginInstall en cli)"
proof -
  have files: "spares (plugin_targets en cwd) (install_files en src dest)"
    if "src \<in> set (candidates en [''plugins'', name])" "plugin_copies en name dest \<subseteq> plugin_targets en cwd" for src name dest
    using spares_mono [OF spares_install_files that(2)] that(1) by blast
  have mcp: "spares (plugin_targets en cwd) (mergeMCPConfig en (join_path [cwd, ''.mcp.json'']) src)" for src
    by (rule spares_mono [OF spares_merge]) (simp add: plugin_targets_def)
  have found: "x \<in> set (candidates en [''plugins'', name])" if "wrapE f as (findPluginSource en name) s = (Inr x, t)" for f as name x s t
    using that by (auto simp: wrapE_run dest: findPluginSource_in)
  have claude: "spares (plugin_targets en cwd) (installClaudePlugin en)"
    unfolding installClaudePlugin_def assms lift_Inr Let_def ret_bindE
    by (rule spares_bindE_res, intro spares_intros, drule found)
      (intro spares_intros files mcp; simp add: plugin_targets_def; blast)
  have opencode: "spares (plugin_targets en cwd) (installOpenCodePlugin en)"
    unfolding installOpenCodePlugin_def assms lift_Inr Let_def ret_bindE
    by (rule spares_bindE_res, intro spares_intros, drule found)
      (intro spares_intros files mcp; simp add: plugin_targets_def; blast)
  have codex: "spares (plugin_targets en cwd) (installCodexPlugin en)"
  proof (cases "ie_home en")
    case (Inl e)
    show ?thesis unfolding installCodexPlugin_def Let_def Inl lift_Inl raise_bindE by (intro spares_intros)
  next
    case (Inr home)
    show ?thesis unfolding installCodexPlugin_def Inr lift_Inr Let_def ret_bindE
      by (rule spares_bindE_res, intro spares_intros, drule found)
        (intro spares_intros files; simp add: plugin_targets_def Inr; blast)
  qed
  show ?thesis using claude codex opencode by (simp add: runPluginInstall_def spares_intros)
qed

lemma spares_install_plugins: "ie_cwd en = Inr cwd \<Longrightarrow> spares (plugin_targets en cwd) (install_plugins en)"
proof -
  assume cwd: "ie_cwd en = Inr cwd"
  have "spares (plugin_targets en cwd) (install_all en clis)" for clis
    by (induction clis) (auto intro!: spares_intros spares_plugin [OF cwd] split: sum.split option.split)
  then show ?thesis unfolding install_plugins_def by (intro spares_intros)
qed

text \<open>
  C39. \<open>coworker init\<close> without \<open>--force\<close> changes no file that is already there, whichever operations of the disk
  fail, as long as \<open>os.Stat\<close> never does (a path whose \<open>Stat\<close> fails counts as missing). The exceptions are
  the version stamp, the ignore file and, with \<open>--with-plugins\<close>, \<open>.mcp.json\<close> and the copies of the plugins' files, which
  are overwritten although the flag \<open>--force\<close> is not given.
\<close>

theorem init_keeps_existing:
  assumes "stat_works s" and "ie_cwd en = Inr cwd" and "\<not> io_Force opts" and "dk_file s p \<noteq> None"
    and "p \<noteq> join_path [join_path [cwd, ''.coworker''], ''.version'']" and "p \<noteq> join_path [cwd, ''.gitignore'']"
    and "io_WithPlugins opts \<longrightarrow> p \<notin> plugin_targets en cwd"
  shows "dk_file (snd (runInit en opts s)) p = dk_file s p"
proof -
  let ?X = "{join_path [join_path [cwd, ''.coworker''], ''.version''], join_path [cwd, ''.gitignore'']} \<union>
    (if io_WithPlugins opts then plugin_targets en cwd else {})"
  have plugins: "spares ?X (if io_WithPlugins opts then install_plugins en else ret (Some []))"
  proof (cases "io_WithPlugins opts")
    case True
    then have "plugin_targets en cwd \<subseteq> ?X" by auto
    from spares_mono [OF spares_install_plugins [OF assms(2)] this] True show ?thesis by simp
  qed (simp add: spares_intros)
  have force: "io_Force opts = False" using assms(3) by simp
  have "spares ?X (runInit en opts)"
    unfolding runInit_def Let_def assms(2) lift_Inr ret_bindE force by (intro spares_intros plugins) simp_all
  with assms show ?thesis by (auto simp: spares_def)
qed

section \<open>The ignore file\<close>

definition faultless :: "disk \<Rightarrow> bool" where
  "faultless s \<longleftrightarrow> dk_faults s = (\<lambda>_. None)"

text \<open>Whatever fails, what was in the file is still at its beginning.\<close>

definition grows :: "string \<Rightarrow> 'a fsys \<Rightarrow> bool" where
  "grows p m \<longleftrightarrow> (\<forall>s. \<exists>more. disk_bytes p (snd (m s)) = disk_bytes p s @ more)"

named_theorems grows_intros "operations that only append to a file"

lemma grows_bindE [grows_intros]:
  assumes "grows p m" "\<And>x. grows p (f x)"
  shows "grows p (bindE m f)"
  unfolding grows_def
proof
  fix s
  obtain r t where m: "m s = (r, t)" by fastforce
  from assms(1) m obtain more where t: "disk_bytes p t = disk_bytes p s @ more" unfolding grows_def by (metis snd_conv)
  show "\<exists>more. disk_bytes p (snd (bindE m f s)) = disk_bytes p s @ more"
  proof (cases r)
    case (Inl e)
    with t show ?thesis by (simp add: bindE_def m)
  next
    case (Inr x)
    from assms(2) [of x] obtain more' where "disk_bytes p (snd (f x t)) = disk_bytes p t @ more'" unfolding grows_def by blast
    with t Inr show ?thesis by (simp add: bindE_def m)
  qed
qed

lemma grows_simple [grows_intros]: "grows p (ret x)" "grows p (raise e)"
  by (simp_all add: grows_def ret_def raise_def)

lemma grows_wrapE [grows_intros]: "grows p m \<Longrightarrow> grows p (wrapE f as m)"
  unfolding grows_def wrapE_def by (simp split: prod.split sum.split) (metis snd_conv)

lemma grows_attempt [grows_intros]: "grows p m \<Longrightarrow> grows p (attempt m)"
  unfolding grows_def attempt_def by (simp split: prod.split) (metis snd_conv)

lemma grows_ignoring [grows_intros]: "grows p m \<Longrightarrow> grows p (ignoring m)"
  unfolding grows_def ignoring_def by auto

lemma grows_forE [grows_intros]: "(\<And>x. grows p (f x)) \<Longrightarrow> grows p (forE xs f)"
  by (induction xs) (auto intro!: grows_intros)

lemma grows_disk [grows_intros]:
  "grows p (read_path q)" "grows p (file_size q)" "grows p (open_append p)" "grows p (append_bytes p d)"
  by (auto simp: grows_def disk_defs Let_def split: option.split)

lemma augment_only_appends: "grows p (augmentGitignore p entries)"
  by (auto simp: augmentGitignore_def existing_lines_def finish_last_line_def write_header_def Let_def
      intro!: grows_intros split: sum.split nat.split)


text \<open>A step that works on an open file and always succeeds: the bytes it leaves.\<close>

definition turns :: "string \<Rightarrow> (string \<Rightarrow> string) \<Rightarrow> 'a fsys \<Rightarrow> bool" where
  "turns p f m \<longleftrightarrow> (\<forall>s. faultless s \<and> p \<notin> set (dk_dirs s) \<and> dk_file s p \<noteq> None \<longrightarrow>
     (\<exists>r t. m s = (Inr r, t) \<and> faultless t \<and> dk_dirs t = dk_dirs s \<and> dk_file t p = Some (f (disk_bytes p s))))"

lemma turnsD:
  assumes "turns p f m" "faultless s" "p \<notin> set (dk_dirs s)" "dk_file s p \<noteq> None"
  obtains r t where "m s = (Inr r, t)" "faultless t" "dk_dirs t = dk_dirs s" "dk_file t p = Some (f (disk_bytes p s))"
    "disk_bytes p t = f (disk_bytes p s)"
  using assms unfolding turns_def disk_bytes_def by (metis option.simps(5))

lemma turns_bindE:
  assumes "turns p f m" "\<And>x. turns p g (n x)"
  shows "turns p (\<lambda>d. g (f d)) (bindE m n)"
  unfolding turns_def
proof (intro allI impI; elim conjE)
  fix s assume s: "faultless s" "p \<notin> set (dk_dirs s)" "dk_file s p \<noteq> None"
  from turnsD [OF assms(1) s] obtain r t where t: "m s = (Inr r, t)" "faultless t" "dk_dirs t = dk_dirs s"
    "dk_file t p = Some (f (disk_bytes p s))" "disk_bytes p t = f (disk_bytes p s)" by blast
  moreover have "p \<notin> set (dk_dirs t)" "dk_file t p \<noteq> None" using t s by auto
  ultimately show "\<exists>r t. bindE m n s = (Inr r, t) \<and> faultless t \<and> dk_dirs t = dk_dirs s \<and> dk_file t p = Some (g (f (disk_bytes p s)))"
    using turnsD [OF assms(2) [of r] t(2)] by (metis bindE_run)
qed

lemma turns_append: "turns p (\<lambda>d. d @ e) (append_bytes p e)"
  by (auto simp: turns_def faultless_def disk_defs Let_def)

lemma turns_wrapE: "turns p f m \<Longrightarrow> turns p f (wrapE g as m)"
  unfolding turns_def by (meson wrapE_run)

lemma turns_ret: "turns p (\<lambda>d. d) (ret x)"
  by (auto simp: turns_def ret_def disk_bytes_def)

definition finished :: "string \<Rightarrow> string" where
  "finished d = (if d \<noteq> [] \<and> last d \<noteq> CHR 0x0A then d @ newline else d)"

definition with_header :: "string \<Rightarrow> string" where
  "with_header d = d @ (if d = [] then gitignore_header else newline @ gitignore_header)"

lemma turns_finish: "turns p finished (finish_last_line p)"
  by (auto simp: turns_def finished_def finish_last_line_def bindE_def attempt_def ignoring_def ret_def faultless_def
      disk_defs Let_def split: nat.split)

lemma turns_header: "turns p with_header (write_header p)"
  by (auto simp: turns_def with_header_def write_header_def bindE_def attempt_def wrapE_def faultless_def
      disk_defs Let_def)

lemma turns_entries:
  "turns p (\<lambda>d. d @ concat (map (\<lambda>e. e @ newline) es)) (forE es (\<lambda>e. wrapE f [e] (append_bytes p (e @ newline))))"
proof (induction es)
  case Nil
  then show ?case by (simp add: turns_ret)
next
  case (Cons e es)
  have "turns p (\<lambda>d. (d @ e @ newline) @ concat (map (\<lambda>e. e @ newline) es))
     (forE (e # es) (\<lambda>e. wrapE f [e] (append_bytes p (e @ newline))))"
    unfolding forE.simps
    by (rule turns_bindE [OF turns_wrapE [OF turns_append]])
      (rule turns_bindE [OF Cons.IH turns_ret, simplified])
  then show ?case by simp
qed

text \<open>The lines of a text that ends in a newline and of one that follows it.\<close>

lemma split_entries:
  "\<forall>e \<in> set es. CHR 0x0A \<notin> set e \<Longrightarrow> split_on (CHR 0x0A) (concat (map (\<lambda>e. e @ newline) es)) = es @ [[]]"
proof (induction es)
  case (Cons e es)
  then show ?case using split_on_concat [of "CHR 0x0A" e "concat (map (\<lambda>e. e @ newline) es)"]
    by (simp add: newline_def split_on_single)
qed simp


text \<open>Every line of the old text is a line of the new one, and so is every entry.\<close>

definition old_lines :: "string \<Rightarrow> string list" where
  "old_lines d = (let ls = split_on (CHR 0x0A) d in if last ls = [] then butlast ls else ls)"

lemma header_lines: "split_on (CHR 0x0A) gitignore_header = [butlast gitignore_header, []]"
  by (simp add: gitignore_header_def newline_def)

lemma with_header_newline: "\<exists>d'. with_header d = d' @ newline"
  by (auto simp: with_header_def gitignore_header_def newline_def)

lemma with_header_lines:
  "set (split_on (CHR 0x0A) (with_header (finished d))) \<subseteq> set (split_on (CHR 0x0A) d) \<union> {butlast gitignore_header, []}"
  "set (old_lines d) \<subseteq> set (butlast (split_on (CHR 0x0A) (with_header (finished d))))"
proof -
  let ?s = "split_on (CHR 0x0A)"
  have h: "?s (x @ newline @ gitignore_header) = ?s x @ [butlast gitignore_header, []]" for x
    using split_on_concat [of "CHR 0x0A" x gitignore_header] by (simp add: newline_def header_lines)
  show "set (?s (with_header (finished d))) \<subseteq> set (?s d) \<union> {butlast gitignore_header, []}"
    "set (old_lines d) \<subseteq> set (butlast (?s (with_header (finished d))))"
  proof (atomize (full), cases "d = []")
    case True
    then show "set (?s (with_header (finished d))) \<subseteq> set (?s d) \<union> {butlast gitignore_header, []} \<and>
       set (old_lines d) \<subseteq> set (butlast (?s (with_header (finished d))))"
      by (simp add: finished_def with_header_def header_lines old_lines_def)
  next
    case False
    show "set (?s (with_header (finished d))) \<subseteq> set (?s d) \<union> {butlast gitignore_header, []} \<and>
       set (old_lines d) \<subseteq> set (butlast (?s (with_header (finished d))))"
    proof (cases "last d = CHR 0x0A")
      case True
      with False have "finished d = d" by (simp add: finished_def)
      with False have "?s (with_header (finished d)) = ?s d @ [butlast gitignore_header, []]"
        using h [of d] by (simp add: with_header_def)
      then show ?thesis by (auto simp: old_lines_def Let_def butlast_append dest: in_set_butlastD)
    next
      case last: False
      with False have f: "finished d = d @ newline" by (simp add: finished_def)
      then have "?s (with_header (finished d)) = ?s d @ [[], butlast gitignore_header, []]"
        using h [of "d @ newline"] split_on_concat [of "CHR 0x0A" d "[]"] by (simp add: with_header_def newline_def)
      then show ?thesis by (auto simp: old_lines_def Let_def butlast_append dest: in_set_butlastD)
    qed
  qed
qed

definition clean_entry :: "string \<Rightarrow> bool" where
  "clean_entry e \<longleftrightarrow> length e \<le> max_line \<and> CHR 0x0A \<notin> set e \<and> e \<noteq> [] \<and>
     last e \<notin> {CHR '' '', CHR 0x09, CHR 0x0D}"

lemma clean_entries: "\<forall>e \<in> set gitignoreEntries. clean_entry e"
  by (simp add: gitignoreEntries_def clean_entry_def max_line_def)

lemma clean_entry_kept:
  "clean_entry e \<Longrightarrow> trim_right_by (\<lambda>c. c = CHR '' '' \<or> c = CHR 0x09) (drop_cr e) = e"
proof -
  assume e: "clean_entry e"
  then have "drop_cr e = e" by (simp add: clean_entry_def drop_cr_def)
  moreover from e have "dropWhile (\<lambda>c. c = CHR '' '' \<or> c = CHR 0x09) (rev e) = rev e"
    by (cases "rev e") (auto simp: clean_entry_def simp flip: hd_rev)
  ultimately show ?thesis by (simp add: trim_right_by_def)
qed

lemma present_lines_short:
  "\<forall>l \<in> set (split_on (CHR 0x0A) d). length l \<le> max_line \<Longrightarrow>
   present_lines d = map (\<lambda>l. trim_right_by (\<lambda>c. c = CHR '' '' \<or> c = CHR 0x09) (drop_cr l)) (old_lines d)"
proof -
  assume short: "\<forall>l \<in> set (split_on (CHR 0x0A) d). length l \<le> max_line"
  then have "takeWhile (\<lambda>l. length l \<le> max_line) (old_lines d) = old_lines d"
    by (intro takeWhile_eq_all_conv [THEN iffD2]) (auto simp: old_lines_def Let_def dest: in_set_butlastD split: if_splits)
  moreover have "present_lines d = map (trim_right_by (\<lambda>c. c = CHR '' '' \<or> c = CHR 0x09))
      (map drop_cr (takeWhile (\<lambda>l. length l \<le> max_line) (old_lines d)))"
    unfolding present_lines_def scan_lines_def old_lines_def Let_def ..
  ultimately show ?thesis by (simp only: map_map comp_def)
qed

text \<open>The text after the entries \<open>es\<close> were added has the old lines and the entries.\<close>

lemma present_after:
  assumes short: "\<forall>l \<in> set (split_on (CHR 0x0A) d). length l \<le> max_line" and es: "\<forall>e \<in> set es. clean_entry e"
  defines "d' \<equiv> with_header (finished d) @ concat (map (\<lambda>e. e @ newline) es)"
  shows "set (present_lines d) \<union> set es \<subseteq> set (present_lines d')"
    "\<forall>l \<in> set (split_on (CHR 0x0A) d'). length l \<le> max_line"
proof -
  let ?s = "split_on (CHR 0x0A)" and ?h = "with_header (finished d)"
  obtain h' where h': "?h = h' @ newline" using with_header_newline by blast
  have sh: "?s ?h = ?s h' @ [[]]" using split_on_concat [of "CHR 0x0A" h' "[]"] by (simp add: h' newline_def)
  have nl: "\<forall>e \<in> set es. CHR 0x0A \<notin> set e" using es by (auto simp: clean_entry_def)
  have "?s d' = ?s h' @ es @ [[]]"
    using split_on_concat [of "CHR 0x0A" h' "concat (map (\<lambda>e. e @ newline) es)"] split_entries [OF nl]
    by (simp add: d'_def h' newline_def)
  then have s': "?s d' = butlast (?s ?h) @ es @ [[]]" by (simp only: sh butlast_snoc)
  show short': "\<forall>l \<in> set (?s d'). length l \<le> max_line"
  proof
    fix l assume "l \<in> set (?s d')"
    then have "l \<in> set (?s ?h) \<or> l \<in> set es \<or> l = []" unfolding s' by (auto dest: in_set_butlastD)
    then have "l \<in> set (?s d) \<or> l = butlast gitignore_header \<or> l \<in> set es \<or> l = []"
      using with_header_lines(1) [of d] by blast
    moreover have "length (butlast gitignore_header) \<le> max_line" by (simp add: gitignore_header_def newline_def max_line_def)
    ultimately show "length l \<le> max_line" using short es by (auto simp: clean_entry_def)
  qed
  have "old_lines d' = butlast (?s ?h) @ es" by (simp add: old_lines_def s' Let_def butlast_append)
  with with_header_lines(2) [of d] have "set (old_lines d) \<subseteq> set (old_lines d')" "set es \<subseteq> set (old_lines d')" by auto
  then show "set (present_lines d) \<union> set es \<subseteq> set (present_lines d')"
  proof -

    let ?t = "\<lambda>l. trim_right_by (\<lambda>c. c = CHR '' '' \<or> c = CHR 0x09) (drop_cr l)"
    have pl: "set (present_lines d) = ?t ` set (old_lines d)" "set (present_lines d') = ?t ` set (old_lines d')"
      using present_lines_short [OF short] present_lines_short [OF short'] by simp_all
    assume sub: "set (old_lines d) \<subseteq> set (old_lines d')" "set es \<subseteq> set (old_lines d')"
    have "?t e = e" if "e \<in> set es" for e using that es clean_entry_kept by blast
    then have "set es = ?t ` set es" by (simp cong: image_cong)
    with sub show ?thesis unfolding pl by blast
  qed
qed


lemma existing_lines_run:
  assumes "faultless s" "p \<notin> set (dk_dirs s)"
  shows "\<exists>t. existing_lines p s = (Inr (present_lines (disk_bytes p s)), t) \<and> faultless t \<and> dk_dirs t = dk_dirs s \<and> dk_file t = dk_file s"
  using assms
  by (cases "dk_file s p")
    (auto simp: existing_lines_def bindE_def attempt_def read_path_def fs_call_def faultless_def ret_def disk_bytes_def
      present_lines_def scan_lines_def Let_def)

lemma augment_again:
  assumes "faultless s" "p \<notin> set (dk_dirs s)" "set es \<subseteq> set (present_lines (disk_bytes p s))"
  shows "fst (augmentGitignore p es s) = Inr [] \<and> dk_file (snd (augmentGitignore p es s)) = dk_file s"
proof -
  from existing_lines_run [OF assms(1,2)] obtain t where
    "existing_lines p s = (Inr (present_lines (disk_bytes p s)), t)" "dk_file t = dk_file s" by blast
  moreover have "filter (\<lambda>e. e \<notin> set (present_lines (disk_bytes p s))) es = []" using assms(3) by (auto simp: filter_empty_conv)
  ultimately show ?thesis by (simp add: augmentGitignore_def bindE_def ret_def Let_def)
qed

lemma augment_run:
  assumes s: "faultless s" "p \<notin> set (dk_dirs s)"
    and m: "missing = filter (\<lambda>e. e \<notin> set (present_lines (disk_bytes p s))) es" "missing \<noteq> []"
  shows "\<exists>t. augmentGitignore p es s = (Inr missing, t) \<and> faultless t \<and> dk_dirs t = dk_dirs s \<and>
     dk_file t p = Some (with_header (finished (disk_bytes p s)) @ concat (map (\<lambda>e. e @ newline) missing))"
proof -
  from existing_lines_run [OF s] obtain s1 where s1: "existing_lines p s = (Inr (present_lines (disk_bytes p s)), s1)"
    "faultless s1" "dk_dirs s1 = dk_dirs s" "dk_file s1 = dk_file s" by blast
  have "\<exists>s2. open_append p s1 = (Inr (), s2) \<and> faultless s2 \<and> dk_dirs s2 = dk_dirs s \<and> dk_file s2 p = Some (disk_bytes p s)"
    using s1 s by (auto simp: open_append_def fs_call_def faultless_def put_file_def disk_bytes_def Let_def)
  then obtain s2 where s2: "open_append p s1 = (Inr (), s2)" "faultless s2" "dk_dirs s2 = dk_dirs s"
    "dk_file s2 p = Some (disk_bytes p s)" by blast
  let ?tail = "bindE (finish_last_line p) (\<lambda>_. bindE (write_header p) (\<lambda>_.
      bindE (forE missing (\<lambda>e. wrapE ''write gitignore entry %q: %w'' [e] (append_bytes p (e @ newline)))) (\<lambda>_. ret missing)))"
  have tail: "turns p (\<lambda>d. with_header (finished d) @ concat (map (\<lambda>e. e @ newline) missing)) ?tail"
    by (rule turns_bindE [OF turns_finish turns_bindE [OF turns_header turns_bindE [OF turns_entries turns_ret]]])
  have "disk_bytes p s2 = disk_bytes p s" using s2(4) by (simp add: disk_bytes_def)
  have pre: "p \<notin> set (dk_dirs s2)" "dk_file s2 p \<noteq> None" using s2 s by auto
  obtain r t where t: "?tail s2 = (Inr r, t)" "faultless t" "dk_dirs t = dk_dirs s"
    "dk_file t p = Some (with_header (finished (disk_bytes p s)) @ concat (map (\<lambda>e. e @ newline) missing))"
    by (rule turnsD [OF tail s2(2) pre]) (auto simp: s2(3) \<open>disk_bytes p s2 = disk_bytes p s\<close>)
  from t(1) have "r = missing" by (auto simp only: bindE_run ret_run)
  with t m(2) show ?thesis
    using s1(1) s2(1) m(1) [symmetric] by (simp add: augmentGitignore_def bindE_def wrapE_def Let_def)
qed

text \<open>
  After \<open>coworker init\<close> has written the ignore file it has both entries as lines of their own, nothing that was
  there is lost, and a second run finds nothing to add; provided no line is longer than the scanner reads.
\<close>

lemma gitignore_idempotent:
  assumes "faultless s" "p \<notin> set (dk_dirs s)" "\<forall>l \<in> set (split_on (CHR 0x0A) (disk_bytes p s)). length l \<le> max_line"
  shows "\<exists>added t more. augmentGitignore p gitignoreEntries s = (Inr added, t) \<and> disk_bytes p t = disk_bytes p s @ more \<and>
     set gitignoreEntries \<subseteq> set (present_lines (disk_bytes p t)) \<and>
     fst (augmentGitignore p gitignoreEntries t) = Inr [] \<and> dk_file (snd (augmentGitignore p gitignoreEntries t)) = dk_file t"
proof (cases "filter (\<lambda>e. e \<notin> set (present_lines (disk_bytes p s))) gitignoreEntries = []")
  case True
  from existing_lines_run [OF assms(1,2)] obtain t where
    "existing_lines p s = (Inr (present_lines (disk_bytes p s)), t)" "faultless t" "dk_dirs t = dk_dirs s" "dk_file t = dk_file s" by blast
  moreover from this have "disk_bytes p t = disk_bytes p s" by (simp add: disk_bytes_def)
  moreover have "set gitignoreEntries \<subseteq> set (present_lines (disk_bytes p s))" using True by (auto simp: filter_empty_conv)
  ultimately show ?thesis
    using True augment_again [of t p gitignoreEntries] assms(2)
    by (intro exI [of _ "[]"] exI [of _ t]) (simp add: augmentGitignore_def bindE_def ret_def Let_def)
next
  case False
  let ?missing = "filter (\<lambda>e. e \<notin> set (present_lines (disk_bytes p s))) gitignoreEntries"
  from augment_run [OF assms(1,2) refl False] obtain t where t: "augmentGitignore p gitignoreEntries s = (Inr ?missing, t)"
    "faultless t" "dk_dirs t = dk_dirs s"
    "dk_file t p = Some (with_header (finished (disk_bytes p s)) @ concat (map (\<lambda>e. e @ newline) ?missing))" by blast
  have clean: "\<forall>e \<in> set ?missing. clean_entry e" using clean_entries by auto
  have c: "disk_bytes p t = with_header (finished (disk_bytes p s)) @ concat (map (\<lambda>e. e @ newline) ?missing)"
    using t(4) by (simp add: disk_bytes_def)
  have "set (present_lines (disk_bytes p s)) \<union> set ?missing \<subseteq> set (present_lines (disk_bytes p t))"
    unfolding c by (rule present_after(1) [OF assms(3) clean])
  then have sub: "set gitignoreEntries \<subseteq> set (present_lines (disk_bytes p t))" by auto
  moreover have "\<exists>more. disk_bytes p t = disk_bytes p s @ more"
    using augment_only_appends [of p gitignoreEntries] t(1) unfolding grows_def by (metis snd_conv)
  ultimately show ?thesis using t(1) augment_again [OF t(2) _ sub] t(3) assms(2) by auto
qed

definition fresh_disk :: disk where
  "fresh_disk = \<lparr>dk_file = [''/r/.gitignore'' \<mapsto> ''node_modules'', ''/r/.coworker/config.yaml'' \<mapsto> ''mine''], dk_dirs = [''/r''],
     dk_stat_faults = (\<lambda>_. None), dk_faults = (\<lambda>_. None), dk_ops = 0\<rparr>"

lemma gitignore_idempotent_witness:
  "\<exists>added t more. augmentGitignore ''/r/.gitignore'' gitignoreEntries fresh_disk = (Inr added, t) \<and>
     disk_bytes ''/r/.gitignore'' t = disk_bytes ''/r/.gitignore'' fresh_disk @ more \<and>
     set gitignoreEntries \<subseteq> set (present_lines (disk_bytes ''/r/.gitignore'' t)) \<and>
     fst (augmentGitignore ''/r/.gitignore'' gitignoreEntries t) = Inr [] \<and>
     dk_file (snd (augmentGitignore ''/r/.gitignore'' gitignoreEntries t)) = dk_file t"
proof (rule gitignore_idempotent)
  have "disk_bytes ''/r/.gitignore'' fresh_disk = ''node_modules''" by (simp add: disk_bytes_def fresh_disk_def)
  moreover have "split_on (CHR 0x0A) ''node_modules'' = [''node_modules'']" by (simp add: split_on_single)
  ultimately show "\<forall>l \<in> set (split_on (CHR 0x0A) (disk_bytes ''/r/.gitignore'' fresh_disk)). length l \<le> max_line"
    by (simp add: max_line_def)
qed (simp_all add: fresh_disk_def faultless_def)

text \<open>A line that is too long hides the entries: they are written again at every run.\<close>

lemma long_line_hides_entries:
  assumes "length l > max_line" "CHR 0x0A \<notin> set l"
  shows "present_lines (l @ newline @ d) = []"
  using assms split_on_append [of "CHR 0x0A" l d]
  by (simp add: present_lines_def scan_lines_def newline_def Let_def)

definition sample_env :: install_env where
  "sample_env = \<lparr>ie_exe = Inl ErrEOF, ie_cwd = Inr ''/r'', ie_home = Inl ErrEOF, ie_glob = (\<lambda>_. Inr []), ie_walk = (\<lambda>_. []),
     ie_json_error = (\<lambda>_. ErrEOF), ie_marshal = (\<lambda>_. []), ie_version = ''1''\<rparr>"

text \<open>The file of the user stays, even when every operation but \<open>os.Stat\<close> fails.\<close>

lemma init_keeps_existing_witness:
  "dk_file (snd (runInit sample_env \<lparr>io_Force = False, io_WithPlugins = True\<rparr>
     (fresh_disk\<lparr>dk_faults := (\<lambda>_. Some (ErrEOF, 3))\<rparr>))) ''/r/.coworker/config.yaml'' = Some ''mine''"
proof -
  let ?s = "fresh_disk\<lparr>dk_faults := (\<lambda>_. Some (ErrEOF, 3))\<rparr>" and ?o = "\<lparr>io_Force = False, io_WithPlugins = True\<rparr>"
  have f: "dk_file ?s ''/r/.coworker/config.yaml'' = Some ''mine''" by (simp add: fresh_disk_def)
  have "join_path [''/r'', ''.coworker''] = ''/r/.coworker''" "join_path [''/r/.coworker'', ''.version''] = ''/r/.coworker/.version''"
    "join_path [''/r'', ''.gitignore''] = ''/r/.gitignore''" "join_path [''/r'', ''.mcp.json''] = ''/r/.mcp.json''" by code_simp+
  then have "dk_file (snd (runInit sample_env ?o ?s)) ''/r/.coworker/config.yaml'' = dk_file ?s ''/r/.coworker/config.yaml''"
    by (intro init_keeps_existing [of _ _ "''/r''"])
      (simp_all add: f, simp_all add: fresh_disk_def stat_works_def sample_env_def plugin_targets_def plugin_copies_def)
  with f show ?thesis by simp
qed

section \<open>The merged configuration\<close>

definition as_members :: "jtext option \<Rightarrow> (string \<times> jtext) list" where
  "as_members v = (case v of Some (TObj kvs) \<Rightarrow> foldl (\<lambda>m (k, v). AList.update k v m) [] kvs | _ \<Rightarrow> [])"

abbreviation update_all :: "(string \<times> jtext) list \<Rightarrow> (string \<times> jtext) list \<Rightarrow> (string \<times> jtext) list" where
  "update_all \<equiv> foldl (\<lambda>m (k, v). AList.update k v m)"

lemma map_of_update_all: "map_of (update_all b kvs) = map_of b ++ map_of (rev kvs)"
  by (induction kvs arbitrary: b) (auto simp: update_conv' map_add_def fun_eq_iff split: option.split)

lemma distinct_update_all: "distinct (map fst b) \<Longrightarrow> distinct (map fst (update_all b kvs))"
  by (induction kvs arbitrary: b) (auto intro!: distinct_update)

lemma map_of_rev_distinct: "distinct (map fst xs) \<Longrightarrow> map_of (rev xs) = map_of xs"
  by (subst map_of_inject_set) (simp_all add: rev_map [symmetric])

lemma as_members_distinct: "distinct (map fst (as_members v))"
  by (auto simp: as_members_def distinct_update_all split: option.split jtext.split)

lemma as_members_updated:
  assumes "distinct (map fst b)" "distinct (map fst kvs)"
  shows "map_of (as_members (Some (TObj (update_all b kvs)))) = map_of b ++ map_of kvs"
  using assms by (simp add: as_members_def map_of_update_all map_of_rev_distinct distinct_update_all)

definition project_map :: "install_env \<Rightarrow> string option \<Rightarrow> goerr + json_map" where
  "project_map en project = (case project of None \<Rightarrow> Inr (Some []) | Some data \<Rightarrow> unmarshal_map en data)"

text \<open>A value that is neither an object nor null does not fit a map.\<close>

definition misfit :: "jtext option \<Rightarrow> bool" where
  "misfit v \<longleftrightarrow> (case v of None \<Rightarrow> False | Some (TObj _) \<Rightarrow> False | Some TNull \<Rightarrow> False | _ \<Rightarrow> True)"

lemma as_map_cases:
  "(case v of None \<Rightarrow> Inr (Some []) | Some x \<Rightarrow> as_map en x) =
     (if misfit v then Inl (ie_json_error en []) else if v = Some TNull then Inr None else Inr (Some (as_members v)))"
  by (auto simp: as_map_def misfit_def as_members_def split: option.split jtext.split)

lemma mergeMapKey_eq:
  "mergeMapKey en old new =
     (if misfit old then Error_Returned (Wrapf ''unmarshal existing: %w'' [] (ie_json_error en []))
      else if misfit new then Error_Returned (Wrapf ''unmarshal incoming: %w'' [] (ie_json_error en []))
      else if old = Some TNull then (if as_members new = [] then Returned TNull else Panicked)
      else Returned (TObj (update_all (as_members old) (as_members new))))"
  unfolding mergeMapKey_def as_map_cases
  by (auto simp: members_of_def as_members_def split: list.split)

lemma merged_config_eq:
  assumes "unmarshal_map en plugin = Inr pm" "project_map en project = Inr gm"
  shows "merged_config en project plugin = (case mergeMapKey en (map_entry ''mcpServers'' gm) (map_entry ''mcpServers'' pm) of
      Error_Returned e \<Rightarrow> Error_Returned (Wrapf ''merge mcpServers: %w'' [] e)
    | Panicked \<Rightarrow> Panicked
    | Returned servers \<Rightarrow> (case gm of None \<Rightarrow> Panicked | Some kvs \<Rightarrow> Returned (AList.update ''mcpServers'' servers kvs)))"
  using assms by (simp add: merged_config_def project_map_def)

lemma merged_config_fits:
  assumes "unmarshal_map en plugin = Inr pm" "project_map en project = Inr (Some g)"
    and "\<not> misfit (map_of g ''mcpServers'')" "\<not> misfit (map_entry ''mcpServers'' pm)" "map_of g ''mcpServers'' \<noteq> Some TNull"
  shows "merged_config en project plugin = Returned (AList.update ''mcpServers''
     (TObj (update_all (as_members (map_of g ''mcpServers'')) (as_members (map_entry ''mcpServers'' pm)))) g)"
  using assms by (simp add: merged_config_eq mergeMapKey_eq map_entry_def)

text \<open>
  C40. The file that a plugin installation writes keeps every key and every server of the project, adds those of the
  plugin and lets them win; it panics only when the project's file, or its list of servers, is null.
\<close>

theorem merge_mcp_spec:
  "case merged_config en project plugin of
     Returned kvs \<Rightarrow> (\<exists>pm gm servers. unmarshal_map en plugin = Inr pm \<and> project_map en project = Inr (Some gm) \<and>
       map_of kvs = (map_of gm)(''mcpServers'' \<mapsto> servers) \<and>
       map_of (as_members (Some servers)) =
         map_of (as_members (map_of gm ''mcpServers'')) ++ map_of (as_members (map_entry ''mcpServers'' pm)))
   | Panicked \<Rightarrow> project_map en project = Inr None \<or>
       (\<exists>gm. project_map en project = Inr (Some gm) \<and> map_of gm ''mcpServers'' = Some TNull)
   | Error_Returned _ \<Rightarrow> (\<exists>e. unmarshal_map en plugin = Inl e) \<or> (\<exists>e. project_map en project = Inl e) \<or>
       (\<exists>m. (project_map en project = Inr m \<or> unmarshal_map en plugin = Inr m) \<and> misfit (map_entry ''mcpServers'' m))"
proof (cases "unmarshal_map en plugin")
  case (Inl e)
  then show ?thesis by (simp add: merged_config_def)
next
  case plugin: (Inr pm)
  show ?thesis
  proof (cases "project_map en project")
    case (Inl e)
    with plugin show ?thesis by (simp add: merged_config_def project_map_def)
  next
    case (Inr gm)
    note eq = merged_config_eq [OF plugin Inr]
    let ?new = "map_entry ''mcpServers'' pm"
    consider "gm = None" | g where "gm = Some g" "misfit (map_of g ''mcpServers'') \<or> misfit ?new \<or> map_of g ''mcpServers'' = Some TNull"
      | g where "gm = Some g" "\<not> misfit (map_of g ''mcpServers'')" "\<not> misfit ?new" "map_of g ''mcpServers'' \<noteq> Some TNull"
      by (cases gm) auto
    then show ?thesis
    proof cases
      case 1
      with eq Inr plugin show ?thesis by (auto simp: mergeMapKey_eq map_entry_def split: go_outcome.split)
    next
      case (2 g)
      with eq Inr plugin show ?thesis by (auto simp: mergeMapKey_eq map_entry_def update_conv' as_members_def misfit_def)
    next
      case (3 g)
      with merged_config_fits [OF plugin] Inr plugin show ?thesis
        using as_members_updated [OF as_members_distinct as_members_distinct, of "map_of g ''mcpServers''" ?new]
        by (auto simp: update_conv')
    qed
  qed
qed

end
