(* ===== verification/Snapshot.thy ===== *)
theory Snapshot
  imports Disk Event_Store "HOL-Library.Sublist"
begin

text \<open>
  The golden-file comparison of event logs (\<open>internal/testutil/snapshot.go\<close>): identifiers are replaced by tokens in the
  order they are met, the events of a run are compared with a file, and a mismatch is shown as a line difference.
\<close>

section \<open>Tokens\<close>

record token_mapper =
  tm_prefix :: string
  tm_next :: nat
  tm_seen :: "(string \<times> string) list"

definition newTokenMapper :: "string \<Rightarrow> token_mapper" where
  "newTokenMapper pre = \<lparr>tm_prefix = pre, tm_next = 0, tm_seen = []\<rparr>"

definition token :: "string \<Rightarrow> nat \<Rightarrow> string" where
  "token pre n = pre @ ''_'' @ nat_str n"

definition Normalize :: "token_mapper \<Rightarrow> string \<Rightarrow> string \<times> token_mapper" where
  "Normalize m raw =
     (if raw = [] then ([], m)
      else case map_of (tm_seen m) raw of
        Some t \<Rightarrow> (t, m)
      | None \<Rightarrow>
          (let n = Suc (tm_next m); t = token (tm_prefix m) n
           in (t, m\<lparr>tm_next := n, tm_seen := AList.update raw t (tm_seen m)\<rparr>)))"

record normalizers =
  sn_runs :: token_mapper
  sn_jobs :: token_mapper
  sn_findings :: token_mapper
  sn_artifacts :: token_mapper
  sn_generic :: token_mapper

definition newSnapshotNormalizers :: normalizers where
  "newSnapshotNormalizers =
     \<lparr>sn_runs = newTokenMapper ''run'', sn_jobs = newTokenMapper ''job'', sn_findings = newTokenMapper ''finding'',
      sn_artifacts = newTokenMapper ''artifact'', sn_generic = newTokenMapper ''id''\<rparr>"

definition mappers :: "normalizers \<Rightarrow> token_mapper list" where
  "mappers n = [sn_runs n, sn_jobs n, sn_findings n, sn_artifacts n, sn_generic n]"

fun token_of_first :: "token_mapper list \<Rightarrow> string \<Rightarrow> string option" where
  "token_of_first [] raw = None"
| "token_of_first (m # ms) raw = (case map_of (tm_seen m) raw of Some t \<Rightarrow> Some t | None \<Rightarrow> token_of_first ms raw)"

definition lookup_token :: "normalizers \<Rightarrow> string \<Rightarrow> string option" where
  "lookup_token n = token_of_first (mappers n)"

definition normalizeID :: "normalizers \<Rightarrow> string \<Rightarrow> string \<Rightarrow> string \<times> normalizers" where
  "normalizeID n field raw =
     (if raw = [] then ([], n)
      else case lookup_token n raw of
        Some t \<Rightarrow> (t, n)
      | None \<Rightarrow>
          if field = ''run_id'' then (let (t, m) = Normalize (sn_runs n) raw in (t, n\<lparr>sn_runs := m\<rparr>))
          else if field = ''job_id'' \<or> field = ''resolved_by_job_id'' then
            (let (t, m) = Normalize (sn_jobs n) raw in (t, n\<lparr>sn_jobs := m\<rparr>))
          else if field = ''finding_id'' then (let (t, m) = Normalize (sn_findings n) raw in (t, n\<lparr>sn_findings := m\<rparr>))
          else if field = ''artifact_id'' then (let (t, m) = Normalize (sn_artifacts n) raw in (t, n\<lparr>sn_artifacts := m\<rparr>))
          else (let (t, m) = Normalize (sn_generic n) raw in (t, n\<lparr>sn_generic := m\<rparr>)))"

text \<open>The members of an object come in the order of the iteration over the Go map, which is any order.\<close>

fun normalizeValue :: "normalizers \<Rightarrow> string \<Rightarrow> json \<Rightarrow> json \<times> normalizers"
  and normalize_members :: "normalizers \<Rightarrow> (string \<times> json) list \<Rightarrow> (string \<times> json) list \<times> normalizers"
  and normalize_elements :: "normalizers \<Rightarrow> string \<Rightarrow> json list \<Rightarrow> json list \<times> normalizers" where
  "normalizeValue n field (JObj kvs) = (let (kvs', n') = normalize_members n kvs in (JObj kvs', n'))"
| "normalizeValue n field (JArr vs) = (let (vs', n') = normalize_elements n field vs in (JArr vs', n'))"
| "normalizeValue n field (JStr s) =
     (if field = ''id'' \<or> has_suffix field ''_id'' then (let (t, n') = normalizeID n field s in (JStr t, n')) else (JStr s, n))"
| "normalizeValue n field v = (v, n)"
| "normalize_members n [] = ([], n)"
| "normalize_members n ((k, v) # kvs) =
     (let (v', n1) = normalizeValue n k v; (kvs', n2) = normalize_members n1 kvs in ((k, v') # kvs', n2))"
| "normalize_elements n field [] = ([], n)"
| "normalize_elements n field (v # vs) =
     (let (v', n1) = normalizeValue n field v; (vs', n2) = normalize_elements n1 field vs in (v' # vs', n2))"

section \<open>Snapshots\<close>

record event_snapshot =
  es_sequence :: nat
  es_kind :: EventKind
  es_schema_version :: int
  es_run_id :: string
  es_idempotency_key :: string
  es_causation_id :: string
  es_correlation_id :: string
  es_payload :: json

text \<open>An empty payload is nil; a payload that is no JSON is kept as a string.\<close>

definition decoded_payload :: "json \<Rightarrow> json" where
  "decoded_payload p = (case p of JInvalid s \<Rightarrow> if s = [] then JNull else JStr s | _ \<Rightarrow> p)"

text \<open>\<open>iter\<close> is the order in which the members of each payload are visited.\<close>

definition snapshot_event :: "(json \<Rightarrow> json) \<Rightarrow> normalizers \<Rightarrow> event \<Rightarrow> event_snapshot \<times> normalizers" where
  "snapshot_event iter n e =
     (let (run, n1) = normalizeID n ''run_id'' (ev_run_id e);
          (payload, n2) = normalizeValue n1 ''payload'' (iter (decoded_payload (ev_payload e)));
          (cause, n3) = normalizeID n2 ''causation_id'' (ev_causation_id e);
          (corr, n4) = normalizeID n3 ''correlation_id'' (ev_correlation_id e)
      in (\<lparr>es_sequence = ev_sequence e, es_kind = ev_kind e, es_schema_version = ev_schema_version e, es_run_id = run,
           es_idempotency_key = ev_idempotency_key e, es_causation_id = cause, es_correlation_id = corr,
           es_payload = payload\<rparr>, n4))"

fun snapshot_events :: "(json \<Rightarrow> json) \<Rightarrow> normalizers \<Rightarrow> event list \<Rightarrow> event_snapshot list" where
  "snapshot_events iter n [] = []"
| "snapshot_events iter n (e # es) = (let (s, n') = snapshot_event iter n e in s # snapshot_events iter n' es)"

definition loadEventSnapshot :: "(json \<Rightarrow> json) \<Rightarrow> ident \<Rightarrow> event_snapshot list prog" where
  "loadEventSnapshot iter runID =
     bindE (wrapE ''list events for snapshot: %w'' [] (ListEvents runID)) (\<lambda>events.
     ret (snapshot_events iter newSnapshotNormalizers events))"

section \<open>The difference of two texts\<close>

text \<open>The table of \<open>diffLines\<close> row by row from the last: entry \<open>j\<close> of row \<open>i\<close> is for the lines from \<open>i\<close> and \<open>j\<close> on.\<close>

fun lcs_row :: "string \<Rightarrow> string list \<Rightarrow> nat list \<Rightarrow> nat list" where
  "lcs_row w [] below = [0]"
| "lcs_row w (g # gs) below =
     (let rest = lcs_row w gs (tl below)
      in (if w = g then hd (tl below) + 1 else if hd below \<ge> hd rest then hd below else hd rest) # rest)"

fun lcs_table :: "string list \<Rightarrow> string list \<Rightarrow> nat list list" where
  "lcs_table [] got = [replicate (Suc (length got)) 0]"
| "lcs_table (w # ws) got = (let t = lcs_table ws got in lcs_row w got (hd t) # t)"

datatype diff_line = Common string | Missing string | Extra string

fun diff_walk :: "string list \<Rightarrow> string list \<Rightarrow> nat list list \<Rightarrow> nat \<Rightarrow> diff_line list" where
  "diff_walk (w # ws) (g # gs) t j =
     (if w = g then Common w # diff_walk ws gs (tl t) (Suc j)
      else if (t ! 1) ! j \<ge> (t ! 0) ! Suc j then Missing w # diff_walk ws (g # gs) (tl t) j
      else Extra g # diff_walk (w # ws) gs t (Suc j))"
| "diff_walk ws [] t j = map Missing ws"
| "diff_walk [] gs t j = map Extra gs"

definition line_diff :: "string list \<Rightarrow> string list \<Rightarrow> diff_line list" where
  "line_diff want got = diff_walk want got (lcs_table want got) 0"

fun diff_text :: "diff_line \<Rightarrow> string" where
  "diff_text (Common l) = '' '' @ l @ newline"
| "diff_text (Missing l) = ''-'' @ l @ newline"
| "diff_text (Extra l) = ''+'' @ l @ newline"

definition diffLines :: "string \<Rightarrow> string \<Rightarrow> string" where
  "diffLines want got =
     ''--- want'' @ newline @ ''+++ got'' @ newline @
     concat (map diff_text (line_diff (split_on (CHR 0x0A) want) (split_on (CHR 0x0A) got)))"

section \<open>The comparison with a golden file\<close>

definition remove_path :: "string \<Rightarrow> unit fsys" where
  "remove_path p = fs_call untorn (\<lambda>s. if dk_file s p = None then (Inl ErrNotExist, s) else (Inr (), s\<lparr>dk_file := (dk_file s)(p := None)\<rparr>))"

text \<open>The comparison of the rendered snapshot; \<open>t.Fatalf\<close> is an error.\<close>

definition compare_golden :: "bool \<Rightarrow> string \<Rightarrow> string \<Rightarrow> unit fsys" where
  "compare_golden update goldenFile got =
     bindE (wrapE ''create golden directory: %w'' [] (mkdir_all (dir_of goldenFile))) (\<lambda>_.
     if update then wrapE ''rewrite golden file: %w'' [] (write_path goldenFile got)
     else
       bindE (attempt (read_path goldenFile)) (\<lambda>r.
       case r of
         Inl e \<Rightarrow>
           if errors_is e ErrNotExist then wrapE ''create golden file: %w'' [] (write_path goldenFile got)
           else raise (Wrapf ''read golden file %q: %w'' [goldenFile] e)
       | Inr want \<Rightarrow>
           let actualFile = goldenFile @ ''.actual'' in
           if want = got then
             bindE (attempt (remove_path actualFile)) (\<lambda>r.
             case r of
               Inl e \<Rightarrow> if errors_is e ErrNotExist then ret () else raise (Wrapf ''remove stale actual file %q: %w'' [actualFile] e)
             | Inr _ \<Rightarrow> ret ())
           else
             bindE (wrapE ''write actual snapshot %q: %w'' [actualFile] (write_path actualFile got)) (\<lambda>_.
             raise (Errorf (''event snapshot mismatch for %s'' @ newline @ ''actual: %s'' @ newline @ ''%s'') [goldenFile, actualFile, diffLines want got]))))"

definition AssertGoldenEvents ::
    "(json \<Rightarrow> json) \<Rightarrow> (event_snapshot list \<Rightarrow> string) \<Rightarrow> bool \<Rightarrow> ident \<Rightarrow> string \<Rightarrow> world \<times> disk \<Rightarrow> (goerr + unit) \<times> world \<times> disk" where
  "AssertGoldenEvents iter marshal update runID goldenFile = (\<lambda>(w, d).
     case loadEventSnapshot iter runID w of
       (Inl e, w') \<Rightarrow> (Inl (Wrapf ''load event snapshot: %w'' [] e), w', d)
     | (Inr snaps, w') \<Rightarrow>
         (case compare_golden update goldenFile (marshal snaps @ newline) d of (r, d') \<Rightarrow> (r, w', d')))"


section \<open>The difference is right, and shortest\<close>

text \<open>The reference: the length of a longest common subsequence.\<close>

fun lcs :: "'a list \<Rightarrow> 'a list \<Rightarrow> nat" where
  "lcs (x # xs) (y # ys) = (if x = y then Suc (lcs xs ys) else max (lcs xs (y # ys)) (lcs (x # xs) ys))"
| "lcs _ _ = 0"

lemma lcs_Nil [simp]: "lcs xs [] = 0"
  by (cases xs) auto

lemma lcs_maximal: "subseq zs xs \<Longrightarrow> subseq zs ys \<Longrightarrow> length zs \<le> lcs xs ys"
proof (induction xs ys arbitrary: zs rule: lcs.induct)
  case (1 x xs y ys)
  show ?case
  proof (cases zs)
    case Nil
    then show ?thesis by simp
  next
    case (Cons z zs')
    show ?thesis
    proof (cases "x = y")
      case True
      then show ?thesis
      proof (cases "z = x")
        case True
        with \<open>x = y\<close> Cons 1 have "subseq zs' xs" "subseq zs' ys" by (simp_all add: subseq_Cons2_iff)
        with 1(1) [OF \<open>x = y\<close>] Cons \<open>x = y\<close> show ?thesis by simp
      next
        case False
        with \<open>x = y\<close> Cons 1 have "subseq zs xs" "subseq zs ys" by (auto simp: subseq_Cons2_iff)
        with 1(1) [OF \<open>x = y\<close>] \<open>x = y\<close> show ?thesis by fastforce
      qed
    next
      case False
      then have "subseq zs xs \<or> subseq zs ys" using Cons 1(4,5) by (auto simp: subseq_Cons2_iff split: if_splits)
      then show ?thesis using 1(2) [OF False _ 1(5)] 1(3) [OF False 1(4)] False by (auto simp: max.coboundedI1 max.coboundedI2)
    qed
  qed
qed auto

fun suffixes_of :: "'a list \<Rightarrow> 'a list list" where
  "suffixes_of [] = [[]]"
| "suffixes_of (x # xs) = (x # xs) # suffixes_of xs"

lemma suffixes_of_nth: "j \<le> length xs \<Longrightarrow> suffixes_of xs ! j = drop j xs"
  by (induction xs arbitrary: j) (auto simp: nth_Cons split: nat.split)

lemma length_suffixes_of [simp]: "length (suffixes_of xs) = Suc (length xs)"
  by (induction xs) auto

lemma hd_suffixes_of: "suffixes_of xs \<noteq> []" "hd (suffixes_of xs) = xs"
  by (cases xs; simp)+

lemma lcs_row_spec: "lcs_row w got (map (lcs ws) (suffixes_of got)) = map (lcs (w # ws)) (suffixes_of got)"
  by (induction got) (auto simp: Let_def hd_map hd_suffixes_of max_def)

lemma lcs_table_spec: "lcs_table want got = map (\<lambda>ws. map (lcs ws) (suffixes_of got)) (suffixes_of want)"
proof (induction want)
  case Nil
  have "map (lcs []) (suffixes_of got) = replicate (Suc (length got)) 0" by (induction got) simp_all
  then show ?case by simp
next
  case (Cons w want)
  then show ?case by (simp add: Let_def hd_map hd_suffixes_of lcs_row_spec)
qed

lemma lcs_table_entries:
  "i \<le> length want \<Longrightarrow> j \<le> length got \<Longrightarrow> lcs_table want got ! i ! j = lcs (drop i want) (drop j got)"
  by (simp add: lcs_table_spec suffixes_of_nth)

fun wanted :: "diff_line \<Rightarrow> string list" where
  "wanted (Common l) = [l]" | "wanted (Missing l) = [l]" | "wanted (Extra l) = []"

fun gotten :: "diff_line \<Rightarrow> string list" where
  "gotten (Common l) = [l]" | "gotten (Missing l) = []" | "gotten (Extra l) = [l]"

fun shared :: "diff_line \<Rightarrow> string list" where
  "shared (Common l) = [l]" | "shared (Missing l) = []" | "shared (Extra l) = []"

lemma concat_single: "concat (map (\<lambda>l. [l]) xs) = xs"
  by (induction xs) auto

lemma concat_maps [simp]:
  "concat (map (\<lambda>l. wanted (Missing l)) ls) = ls" "concat (map (\<lambda>l. gotten (Missing l)) ls) = []"
  "concat (map (\<lambda>l. shared (Missing l)) ls) = []" "concat (map (\<lambda>l. wanted (Extra l)) ls) = []"
  "concat (map (\<lambda>l. gotten (Extra l)) ls) = ls" "concat (map (\<lambda>l. shared (Extra l)) ls) = []"
  by (induction ls) auto

lemma diff_walk_Nil [simp]: "diff_walk [] gs t j = map Extra gs"
  by (cases gs) auto

lemma diff_walk_spec:
  assumes "t = map (\<lambda>ws. map (lcs ws) (suffixes_of all)) (suffixes_of want)" "got = drop j all" "j \<le> length all"
  shows "concat (map wanted (diff_walk want got t j)) = want \<and> concat (map gotten (diff_walk want got t j)) = got \<and>
     length (concat (map shared (diff_walk want got t j))) = lcs want got"
  using assms
proof (induction want got t j rule: diff_walk.induct)
  case (1 w ws g gs t j)
  have gs: "gs = drop (Suc j) all" "j < length all"
    using 1(5) by (metis drop_Suc list.sel(3) tl_drop, metis drop_eq_Nil leI list.distinct(1))
  have t: "t ! 0 = map (lcs (w # ws)) (suffixes_of all)" "tl t = map (\<lambda>ws. map (lcs ws) (suffixes_of all)) (suffixes_of ws)"
    using 1(4) by simp_all
  have t1: "t ! 1 = map (lcs ws) (suffixes_of all)"
    using 1(4) hd_suffixes_of [of ws] by (cases "suffixes_of ws") simp_all
  have e: "t ! 1 ! j = lcs ws (g # gs)" "t ! 0 ! Suc j = lcs (w # ws) gs"
    using t(1) t1 gs 1(5) by (simp_all add: suffixes_of_nth nth_map)
  consider "w = g" | "w \<noteq> g" "t ! 1 ! j \<ge> t ! 0 ! Suc j" | "w \<noteq> g" "\<not> t ! 1 ! j \<ge> t ! 0 ! Suc j" by blast
  then show ?case
  proof cases
    case 1
    then show ?thesis using "1.IH"(1) [OF 1 t(2) gs(1)] gs(2) by simp
  next
    case 2
    then show ?thesis using "1.IH"(2) [OF 2 t(2) "1.prems"(2,3)] e by (simp add: max_def)
  next
    case 3
    then show ?thesis using "1.IH"(3) [OF 3 "1.prems"(1) gs(1)] gs(2) e by (simp add: max_def)
  qed
qed (simp_all add: comp_def del: wanted.simps gotten.simps shared.simps)

text \<open>
  The difference that is shown for a mismatch reproduces both texts, line by line, and no common subsequence of
  their lines is longer than the lines it leaves unmarked.
\<close>

lemma line_diff_spec:
  "concat (map wanted (line_diff want got)) = want \<and> concat (map gotten (line_diff want got)) = got \<and>
   {zs. subseq zs want \<and> subseq zs got} \<subseteq> {zs. length zs \<le> length (concat (map shared (line_diff want got)))}"
  using diff_walk_spec [of "lcs_table want got" got want got 0] lcs_maximal
  by (auto simp: line_diff_def lcs_table_spec)


section \<open>One token for one identifier\<close>

definition mapper_ok :: "token_mapper \<Rightarrow> bool" where
  "mapper_ok m \<longleftrightarrow> CHR ''_'' \<notin> set (tm_prefix m) \<and>
     (\<forall>raw t. map_of (tm_seen m) raw = Some t \<longrightarrow> (\<exists>k \<le> tm_next m. t = token (tm_prefix m) k)) \<and>
     (\<forall>r s t. map_of (tm_seen m) r = Some t \<and> map_of (tm_seen m) s = Some t \<longrightarrow> r = s)"

lemma token_inj:
  assumes "CHR ''_'' \<notin> set p" "CHR ''_'' \<notin> set q" "token p a = token q b"
  shows "p = q \<and> a = b"
proof -
  have tw: "takeWhile (\<lambda>c. c \<noteq> CHR ''_'') (token r n) = r" if "CHR ''_'' \<notin> set r" for r n
  proof -
    have "takeWhile (\<lambda>c. c \<noteq> CHR ''_'') (r @ CHR ''_'' # nat_str n) = r"
      using that by (subst takeWhile_append2) auto
    then show ?thesis by (simp add: token_def)
  qed
  from assms tw [of p a] tw [of q b] have "p = q" by simp
  with assms(3) nat_str_inj show ?thesis by (auto simp: token_def)
qed

lemma Normalize_ok:
  assumes "mapper_ok m" "Normalize m raw = (t, m')"
  shows "mapper_ok m' \<and> tm_prefix m' = tm_prefix m"
proof (cases "raw = [] \<or> map_of (tm_seen m) raw \<noteq> None")
  case True
  with assms(2) have "m' = m" by (auto simp: Normalize_def split: if_splits)
  with assms(1) show ?thesis by simp
next
  case False
  let ?n = "Suc (tm_next m)"
  from False assms(2) have m': "m' = m\<lparr>tm_next := ?n, tm_seen := AList.update raw (token (tm_prefix m) ?n) (tm_seen m)\<rparr>"
    by (auto simp: Normalize_def Let_def)
  have fresh: "map_of (tm_seen m) s \<noteq> Some (token (tm_prefix m) ?n)" for s
  proof
    assume "map_of (tm_seen m) s = Some (token (tm_prefix m) ?n)"
    with assms(1) obtain k where "k \<le> tm_next m" "token (tm_prefix m) ?n = token (tm_prefix m) k"
      unfolding mapper_ok_def by blast
    moreover from assms(1) have "CHR ''_'' \<notin> set (tm_prefix m)" by (simp add: mapper_ok_def)
    ultimately show False using token_inj [of "tm_prefix m" "tm_prefix m" ?n k] by simp
  qed
  have "\<exists>k \<le> ?n. u = token (tm_prefix m) k" if "map_of (tm_seen m') r = Some u" for r u
  proof (cases "r = raw")
    case True
    with that show ?thesis by (auto simp: m' update_conv')
  next
    case False
    with that have "map_of (tm_seen m) r = Some u" by (simp add: m' update_conv')
    with assms(1) obtain k where "k \<le> tm_next m" "u = token (tm_prefix m) k" unfolding mapper_ok_def by blast
    then show ?thesis by (metis le_SucI)
  qed
  moreover have "r = s" if "map_of (tm_seen m') r = Some u" "map_of (tm_seen m') s = Some u" for r s u
    using that assms(1) fresh by (cases "r = raw"; cases "s = raw") (auto simp: m' update_conv' mapper_ok_def)
  ultimately show ?thesis using assms(1) by (auto simp: mapper_ok_def m')
qed

definition names_ok :: "normalizers \<Rightarrow> bool" where
  "names_ok n \<longleftrightarrow> map tm_prefix (mappers n) = [''run'', ''job'', ''finding'', ''artifact'', ''id''] \<and>
     (\<forall>m \<in> set (mappers n). mapper_ok m)"

lemma names_ok_new: "names_ok newSnapshotNormalizers"
  by (simp add: names_ok_def mappers_def newSnapshotNormalizers_def newTokenMapper_def mapper_ok_def)

lemma Normalize_snd [simp]:
  "mapper_ok m \<Longrightarrow> mapper_ok (snd (Normalize m raw))"
  "mapper_ok m \<Longrightarrow> tm_prefix (snd (Normalize m raw)) = tm_prefix m"
  using Normalize_ok [of m raw "fst (Normalize m raw)" "snd (Normalize m raw)"] by simp_all

lemma normalizeID_ok: "names_ok n \<Longrightarrow> names_ok (snd (normalizeID n field raw))"
  by (simp add: normalizeID_def names_ok_def mappers_def Let_def case_prod_beta split: option.split)

lemma normalizeValue_ok:
  "names_ok n \<Longrightarrow> names_ok (snd (normalizeValue n field v))"
  "names_ok n \<Longrightarrow> names_ok (snd (normalize_members n kvs))"
  "names_ok n \<Longrightarrow> names_ok (snd (normalize_elements n field vs))"
proof (induction n field v and n kvs and n field vs rule: normalizeValue_normalize_members_normalize_elements.induct)
  case (3 n field s)
  then have "names_ok (snd (normalizeID n f s))" for f by (rule normalizeID_ok)
  with 3 show ?case by (simp add: case_prod_beta)
next
  case (6 n k v kvs)
  obtain v' n1 where r: "normalizeValue n k v = (v', n1)" by fastforce
  with 6(1) [OF 6(3)] have "names_ok n1" by simp
  from 6(2) [OF r [symmetric] refl this] r show ?case by (simp add: case_prod_beta)
next
  case (8 n field v vs)
  obtain v' n1 where r: "normalizeValue n field v = (v', n1)" by fastforce
  with 8(1) [OF 8(3)] have "names_ok n1" by simp
  from 8(2) [OF r [symmetric] refl this] r show ?case by (simp add: case_prod_beta)
qed (simp_all add: case_prod_beta)

lemma token_of_first_in: "token_of_first ms raw = Some t \<Longrightarrow> \<exists>m \<in> set ms. map_of (tm_seen m) raw = Some t"
  by (induction ms) (auto split: option.splits)

text \<open>In every snapshot different identifiers get different tokens.\<close>

lemma tokens_one_to_one:
  assumes "names_ok n" "lookup_token n r = Some t" "lookup_token n s = Some t"
  shows "r = s"
proof -
  from assms(2,3) obtain m m' where m: "m \<in> set (mappers n)" "map_of (tm_seen m) r = Some t"
    "m' \<in> set (mappers n)" "map_of (tm_seen m') s = Some t"
    unfolding lookup_token_def using token_of_first_in by metis
  with assms(1) have ok: "mapper_ok m" "mapper_ok m'" by (auto simp: names_ok_def)
  from ok m obtain a b where "t = token (tm_prefix m) a" "t = token (tm_prefix m') b" unfolding mapper_ok_def by metis
  with ok token_inj have "tm_prefix m = tm_prefix m'" unfolding mapper_ok_def by metis
  with assms(1) m(1,3) have "m = m'" by (auto simp: names_ok_def mappers_def)
  with ok m show ?thesis unfolding mapper_ok_def by metis
qed

fun names_after :: "(json \<Rightarrow> json) \<Rightarrow> normalizers \<Rightarrow> event list \<Rightarrow> normalizers" where
  "names_after iter n [] = n"
| "names_after iter n (e # es) = names_after iter (snd (snapshot_event iter n e)) es"

lemma names_after_ok: "names_ok n \<Longrightarrow> names_ok (names_after iter n es)"
proof (induction es arbitrary: n)
  case (Cons e es)
  obtain a n1 where a: "normalizeID n ''run_id'' (ev_run_id e) = (a, n1)" by fastforce
  obtain b n2 where b: "normalizeValue n1 ''payload'' (iter (decoded_payload (ev_payload e))) = (b, n2)" by fastforce
  obtain c n3 where c: "normalizeID n2 ''causation_id'' (ev_causation_id e) = (c, n3)" by fastforce
  obtain d n4 where d: "normalizeID n3 ''correlation_id'' (ev_correlation_id e) = (d, n4)" by fastforce
  have "names_ok n4"
    using Cons.prems normalizeID_ok [of n] normalizeValue_ok(1) [of n1] normalizeID_ok [of n2] normalizeID_ok [of n3] a b c d
    by (metis snd_conv)
  then show ?case using Cons.IH [of n4] by (simp add: snapshot_event_def a b c d)
qed simp

lemma snapshot_tokens_injective:
  "inj_on (lookup_token (names_after iter newSnapshotNormalizers es)) (dom (lookup_token (names_after iter newSnapshotNormalizers es)))"
  using tokens_one_to_one [OF names_after_ok [OF names_ok_new]] by (fastforce intro: inj_onI)

text \<open>The tokens of one object depend on the order in which its members are visited.\<close>

lemma snapshot_depends_on_order:
  "fst (normalizeValue newSnapshotNormalizers ''payload'' (JObj [(''dispatch_id'', JStr ''x''), (''plan_id'', JStr ''y'')])) =
     JObj [(''dispatch_id'', JStr ''id_1''), (''plan_id'', JStr ''id_2'')]"
  "fst (normalizeValue newSnapshotNormalizers ''payload'' (JObj [(''plan_id'', JStr ''y''), (''dispatch_id'', JStr ''x'')])) =
     JObj [(''plan_id'', JStr ''id_1''), (''dispatch_id'', JStr ''id_2'')]"
  by code_simp+

end
