(* ===== verification/Commands_Facts.thy ===== *)
theory Commands_Facts
  imports Commands Mcp_Facts
begin

text \<open>
  The commands of a session decide what they say they decide: \<open>advance\<close> approves an open checkpoint of the active run,
  \<open>rollback\<close> rejects the one it names, and without a session neither touches a table.
\<close>

lemma decide_answers:
  assumes "decide_checkpoint ans st i who notes w = (Inr j, w')"
  shows "answered i ans (wd_db w')"
proof -
  obtain who' w1 w2 r where a: "AnswerAttention i ans who' w1 = (Inr (), w2)"
    and w': "ResolveCheckpoint i ans who' notes (snd (ResolveAttention i w2)) = (r, w')"
    using assms
    by (auto simp: decide_checkpoint_def Let_def run_simps case_option_run case_sum_run split: if_splits intro: that)
  have "answered i ans (wd_db w2)" using a by (rule AnswerAttention_answered)
  then have "answered i ans (wd_db (snd (ResolveAttention i w2)))"
    by (metis decisions_kept(3) keepsD on_db_def)
  then show ?thesis using w' by (metis ResolveCheckpoint_keeps_answered keepsD on_db_def snd_conv)
qed

lemma newest_attention_in:
  assumes "newest_attention P d = Some item"
  shows "\<exists>a \<in> set (t_attention d). P a \<and> item = scanAttentionItem a"
proof -
  from assms obtain a as where a: "sort_key (\<lambda>a. - ar_created_at a) (filter P (t_attention d)) = a # as" "item = scanAttentionItem a"
    by (auto simp: newest_attention_def split: list.splits)
  then have "a \<in> set (filter P (t_attention d))" by (metis list.set_intros(1) set_sort)
  with a(2) show ?thesis by auto
qed

lemma any_unanswered_run:
  assumes "GetAnyUnansweredCheckpointForRun runID w = (Inr (Some item), w')"
  shows "\<exists>a \<in> set (t_attention (wd_db w)). ar_run_id a = runID \<and> ar_kind a = AttentionCheckpoint \<and> ar_answer a = None \<and>
     att_id item = ar_id a"
proof -
  have "newest_attention (\<lambda>a. ar_run_id a = runID \<and> ar_kind a = AttentionCheckpoint \<and> ar_answer a = None) (wd_db w) = Some item"
    using assms
    by (auto simp: GetAnyUnansweredCheckpointForRun_def optional_row_def query_row_def query_def sql_def bindE_def attempt_def
        gets_def ret_def raise_def Let_def split: option.splits if_splits)
  from newest_attention_in [OF this] show ?thesis by (auto simp: scanAttentionItem_def)
qed


lemma require_session_run:
  "require_session fe path s = (Inr i, t) \<Longrightarrow> CurrentSession (manager_for fe path) s = (Inr i, t)"
  by (auto simp: require_session_def bindE_def attempt_def raise_def ret_def split: prod.splits sum.splits if_splits)

text \<open>
  An advance that is reported approved the newest checkpoint of the active run that had no answer.
\<close>

lemma advance_approves:
  assumes "runAdvance fe db answeredBy s = (Inr out, t)"
  shows "out = ''no checkpoint waiting on the active run'' @ newline \<or>
     (\<exists>runID u v a. CurrentSession (manager_for fe (default_db db)) u = (Inr runID, v) \<and>
        a \<in> set (t_attention (wd_db (ss_world v))) \<and> ar_run_id a = runID \<and> ar_kind a = AttentionCheckpoint \<and>
        ar_answer a = None \<and> answered (ar_id a) AttentionAnswerApprove (wd_db (ss_world t)))"
proof (rule disjCI)
  assume "\<not> (\<exists>runID u v a. CurrentSession (manager_for fe (default_db db)) u = (Inr runID, v) \<and>
        a \<in> set (t_attention (wd_db (ss_world v))) \<and> ar_run_id a = runID \<and> ar_kind a = AttentionCheckpoint \<and>
        ar_answer a = None \<and> answered (ar_id a) AttentionAnswerApprove (wd_db (ss_world t)))"
  note none = this
  show "out = ''no checkpoint waiting on the active run'' @ newline"
  proof -
    from assms obtain runID u v o_item w where
      cur: "CurrentSession (manager_for fe (default_db db)) u = (Inr runID, v)"
      and item: "GetAnyUnansweredCheckpointForRun runID (ss_world v) = (Inr o_item, w)"
      and rest: "advance_found answeredBy o_item (v\<lparr>ss_world := w\<rparr>) = (Inr out, t)"
      by (auto simp: runAdvance_def Let_def run_simps dest!: require_session_run)
    show ?thesis
    proof (cases o_item)
      case None
      with rest show ?thesis by (simp add: advance_found_def run_simps)
    next
      case (Some i)
      from rest Some have "answered (att_id i) AttentionAnswerApprove (wd_db (ss_world t))"
        by (auto simp: advance_found_def run_simps handleCheckpointAdvance_def dest!: decide_answers)
      with any_unanswered_run [OF item [unfolded Some]] cur none show ?thesis by metis
    qed
  qed
qed

lemma rollback_rejects:
  assumes "runRollback fe db answeredBy i s = (Inr out, t)"
  shows "answered i AttentionAnswerReject (wd_db (ss_world t))"
  using assms by (auto simp: runRollback_def Let_def run_simps handleCheckpointRollback_def dest!: decide_answers)

text \<open>Without a session neither command returns, whatever fails, and no table changes.\<close>

lemma no_lock_no_session:
  assumes "ss_lock s = None"
  shows "\<exists>e. fst (require_session fe path s) = Inl e \<and> ss_world (snd (require_session fe path s)) = ss_world s"
  using assms
  by (auto simp: require_session_def CurrentSession_def readLock_def read_file_def file_op_def manager_for_def bindE_def
      attempt_def raise_def Let_def split: option.split)

lemma open_db_keeps: "open_db fe mk path s = (r, t) \<Longrightarrow> t = s"
  by (auto simp: open_db_def bindE_def ret_def raise_def split: if_splits option.splits)

lemma commands_need_session:
  assumes "ss_lock s = None"
  shows "\<exists>e. fst (runAdvance fe db who s) = Inl e \<and> ss_world (snd (runAdvance fe db who s)) = ss_world s"
    "\<exists>e. fst (runRollback fe db who i s) = Inl e \<and> ss_world (snd (runRollback fe db who i s)) = ss_world s"
proof -
  obtain r1 s1 where o: "open_db fe True (default_db db) s = (r1, s1)" by fastforce
  with open_db_keeps have s1: "s1 = s" by blast
  obtain r2 s2 where q: "require_session fe (default_db db) s = (r2, s2)" by fastforce
  with no_lock_no_session [OF assms, of fe "default_db db"] obtain e where e: "r2 = Inl e" "ss_world s2 = ss_world s" by auto
  show "\<exists>e. fst (runAdvance fe db who s) = Inl e \<and> ss_world (snd (runAdvance fe db who s)) = ss_world s"
    "\<exists>e. fst (runRollback fe db who i s) = Inl e \<and> ss_world (snd (runRollback fe db who i s)) = ss_world s"
    using e by (cases r1; simp add: runAdvance_def runRollback_def Let_def bindE_def o s1 q)+
qed

end
