(* ===== verification/Spec2Isabelle.thy ===== *)
theory Spec2Isabelle
  imports Permission Scheduler Finding_Store Plan_Store Attention_Store Cost_Store Requeue Router Supervisor Policy
    Quality Workflow_Facts Mcp_Facts Autopilot_Facts Resume_Facts Agent_Facts
    Session Daemon_Facts Commands Migrations Watch Install_Facts Snapshot Commands_Facts
begin

text \<open>
  A verification library of coworker, the local-first coordinator of coding agents (Go, under \<open>src/\<close>).

  \<^bold>\<open>The program.\<close> A user approves plans; coworker executes them. The autopilot (\<open>cli/run.go\<close>) has the architect and planner
  roles write a manifest of plans, posts an attention item for every plan that may start, and on approval runs the plan's
  phases: a developer job, reviewers and testers in parallel, and fix cycles until the phase is clean
  (\<open>coding/phaseloop\<close>), in a git worktree, followed by a pull request (\<open>coding/workflow\<close>, \<open>coding/shipper\<close>). A job is dispatched by
  \<open>coding/dispatch.go\<close>, which loads the role, checks its permissions, runs an agent (\<open>agent/\<close>) and lets the supervisor's rules
  decide on a retry. Everything that happens is an event in an append-only log in SQLite, written in one transaction with the row it
  changes (\<open>store/\<close>). Workers may instead pull jobs from a queue of dispatches with leases (\<open>store/dispatch_store.go\<close>,
  \<open>coding/router.go\<close>, \<open>mcp/watchdog.go\<close>). The tools of \<open>mcp/\<close>, the HTTP interface of the daemon, the dashboard (\<open>tui/\<close>) and the
  commands of \<open>cli/\<close> read and change the same tables.

  \<^bold>\<open>How the code is modelled.\<close> A Go function with an \<open>error\<close> result is a computation \<open>('s, 'a) io\<close> of \<open>Prelude\<close>: it takes the state,
  returns an error value or a result, and the state it leaves either way. The state of the stores is \<open>world\<close> of \<open>World\<close>: the
  tables as lists of rows in insertion order, and streams for the clock, the random source and the failures of the driver, one
  entry per call, so every SQL call may fail at any point. Error values keep format, arguments and the wrapped error, so \<open>errors.Is\<close>
  computes. Strings are bytes (\<open>Strings\<close>), times are nanoseconds, integers are unbounded where the code cannot reach the end of 64 bits,
  checked against the range where a text is parsed, and wrapped (\<open>go_add\<close>) where numbers of an agent's stream are added.
  A panic is \<open>None\<close>. An interface of the code (agent, supervisor, dispatcher of a phase) is an arbitrary program of the type of the interface. Concurrency is a list or a relation of atomic steps: the transactions of
  the queue, the single sends that a publication on the bus consists of, the order in which the goroutines of a phase end. A checkpoint is
  resolved by one atomic call; two calls at once, whose lookups the code leaves outside the transaction, are not covered.

  \<^bold>\<open>Theories, and what their lemmas show.\<close>
  \<^item> \<open>Prelude\<close>, \<open>Strings\<close>, \<open>Core_Types\<close>, \<open>World\<close>, \<open>Flow\<close>: the shared library; \<open>wp_simps\<close>, \<open>run_simps\<close>, \<open>keeps_intros\<close> and \<open>eval_simps\<close>
    carry the proofs of the components.
  \<^item> \<open>Permission\<close>, \<open>Manifest\<close>, \<open>Scheduler\<close> (\<open>core/permission.go\<close>, \<open>coding/manifest\<close>): the accepted grammar, the exact meaning of a successful
    validation for every order of map iteration, and that the loop over \<open>ReadyPlans\<close> completes every valid manifest.
  \<^item> \<open>Event_Store\<close>, \<open>Run_Store\<close>, \<open>Finding_Store\<close>, \<open>Plan_Store\<close>, \<open>Attention_Store\<close>, \<open>Cost_Store\<close>, \<open>Worker_Store\<close>, \<open>Migrations\<close> (\<open>store/\<close>,
    \<open>mcp/watchdog.go\<close>): atomicity under every failure, dense numbering of the log, foreign keys and unique keys (\<open>db_ok\<close>), first decisions that
    stay, balanced costs, and migrations that can be restarted after any failure. The locale \<open>event_log\<close> is the contract of the transaction.
  \<^item> \<open>Dispatch_Store\<close>, \<open>Dispatch_Life\<close>, \<open>Requeue\<close>, \<open>Router\<close>: the queue under arbitrary interleaving of its transactions: life cycle, no double lease,
    oldest first, one copy per receiver. The locale \<open>dispatch_sink\<close> is what the router needs of the queue.
  \<^item> \<open>Predicates\<close>, \<open>Supervisor\<close>, \<open>Policy\<close>, \<open>Roles\<close>, \<open>Quality\<close> (\<open>internal/predicates\<close>, \<open>coding/supervisor\<close>, \<open>coding/policy\<close>, \<open>coding/stages\<close>,
    \<open>coding/roles\<close>, \<open>coding/quality\<close>): parsers, layering of the policy with the source
    of every key, the documented well-formedness of a role (\<open>role_ok\<close>) against what the loader demands, verdicts.
  \<^item> \<open>Dispatcher\<close>, \<open>Dispatcher_Facts\<close>, \<open>Phase_Loop\<close>, \<open>Phase_Facts\<close>, \<open>Worktree\<close>, \<open>Shipper\<close>, \<open>Workflow\<close>, \<open>Workflow_Facts\<close>: bounds on attempts, jobs and fix
    cycles, denied roles that never reach their agent, deduplication against its specification. A phase is described by the results of the jobs its cycles
    dispatched (\<open>cycles_ran\<close>), a plan by the runs of its phases, each in the state the one before left (\<open>phases_ran\<close>); pull requests come only behind
    clean phases. The locale \<open>store_invariant\<close> carries an invariant of the tables through a dispatch, for every agent.
  \<^item> \<open>Mcp\<close>, \<open>Mcp_Facts\<close>, \<open>Autopilot\<close>, \<open>Autopilot_Facts\<close>, \<open>Resume_Facts\<close>: consistency after every sequence of tool calls; nothing runs without an
    approval, the state of the scheduler rebuilt from the log is the one that was reached, and an approved gate leads to the plan it was posted for
    if an event names the manifest. The autopilot writes no such event, so that its resumption always fails (\<open>autopilot_dead_end\<close>, from a second
    interpretation of \<open>store_invariant\<close>).
  \<^item> \<open>Json_Text\<close>, \<open>Agents\<close>, \<open>Open_Code\<close>, \<open>Agent_Facts\<close> (\<open>agent/\<close>): the stream decoder on bytes, the result of an agent as a function of its
    messages, and reconnections that change nothing.
  \<^item> \<open>Session\<close>, \<open>Human_Edit\<close>, \<open>Commands\<close>, \<open>Commands_Facts\<close>, \<open>Disk\<close>, \<open>Install\<close>, \<open>Install_Facts\<close>, \<open>Watch\<close> (\<open>cli/\<close>, \<open>coding/session\<close>, \<open>coding/humanedit\<close>): exclusive
    sessions, commands that decide the checkpoint they report, scaffolding that keeps the files of the user on a disk
    whose \<open>Stat\<close> works (\<open>dk_faults\<close> are the failures of all other operations, \<open>dk_stat_faults\<close> those of \<open>Stat\<close>),
    and a watch command that prints what the daemon streams.
  \<^item> \<open>Event_Bus\<close>, \<open>Http_Api\<close>, \<open>Daemon_Facts\<close>, \<open>Clock_Text\<close>, \<open>Front_Text\<close>, \<open>Tui\<close>, \<open>Tui_View\<close>, \<open>Front_Facts\<close> (\<open>coding/eventbus\<close>, \<open>cli/daemon_http.go\<close>,
    \<open>tui/\<close>): which channel gets which publication and what is dropped, the answers of the handlers, when an update or a view of the
    dashboard can panic, and what happens when the dashboard talks to the daemon.
  \<^item> \<open>Snapshot\<close> (\<open>internal/testutil\<close>): golden files of event logs; tokens are one to one, and the line difference is a shortest one.

  \<^bold>\<open>Bounds and fuel.\<close> Loops of the code are structural recursions or functions with a measure (the retries left, the fix cycles left, the
  bytes left). The only fuel is in the JSON decoder, where it is the nesting limit of the standard library (\<open>max_nesting\<close>) and the length of the
  text. Loops that run until a context is done (streams, tickers, reconnections) are functions of the list of turns they take.

  \<^bold>\<open>Parameters.\<close> Code that is not in the repository is an argument: the YAML decoder, template engine and regular expressions, git, gh and the
  editor, the agents' processes, HTTP transport, the layout library, rendering of JSON, floating-point addition and printing, and the hash
  function. Hypotheses about them are named in the statements that use them, and the witnesses instantiate them.

  \<^bold>\<open>Not modelled.\<close> Flag tables of the command-line library, logging, and the wiring of \<open>runDaemon\<close> and \<open>NewServer\<close> to listeners, signal
  handlers and the transport of the protocol library; the colours of \<open>tui/styles.go\<close>; the helpers of \<open>tests/live\<close>; the exported \<open>Call\<close>
  wrappers of the tool handlers and \<open>MockJudge\<close>, which exist for tests. What a migration script does to the schema is a parameter of
  \<open>Migrations\<close>; the tables of \<open>World\<close> are those of the last migration.
\<close>

end
